(* ===== verification/Prelude.thy ===== *)
theory Prelude
  imports Main "HOL-Library.Word" "HOL-Library.Finite_Map" "HOL-Library.FSet"
    "HOL-Library.Multiset" "HOL-Library.Char_ord" "HOL-Library.List_Lexorder"
begin

text \<open>
  Shared material of the development: the result type of fallible Rust code and its
  sequencing, machine integers with Rust's checked arithmetic, ordered maps
  (\<open>BTreeMap\<close>) as finite maps with an ordered traversal, bounded double-ended queues,
  and the byte-level text functions of the standard library that the sources use.
  Strings are UTF-8 byte strings (\<^typ>\<open>string\<close>), so \<open>str::len\<close> is \<^const>\<open>length\<close>.
\<close>

section \<open>Collections of facts\<close>

named_theorems result_simps \<open>inversion of results of sequenced computations\<close>
named_theorems checked_simps \<open>checked machine arithmetic, read as natural numbers\<close>

section \<open>Results\<close>

text \<open>\<open>Result<T, E>\<close> is \<open>'e + 'a\<close> with \<open>Inl\<close> for \<open>Err\<close>. \<open>rbind\<close> is the \<open>?\<close> operator
  with a value, \<open>rseq\<close> the \<open>?\<close> operator on \<open>Result<(), E>\<close>, \<open>ok_or\<close> is
  \<open>Option::ok_or\<close>.\<close>

definition rbind :: "'e + 'a \<Rightarrow> ('a \<Rightarrow> 'e + 'b) \<Rightarrow> 'e + 'b" where
  "rbind r f = (case r of Inl e \<Rightarrow> Inl e | Inr x \<Rightarrow> f x)"

definition rseq :: "'e + unit \<Rightarrow> 'e + 'b \<Rightarrow> 'e + 'b" where
  "rseq r k = (case r of Inl e \<Rightarrow> Inl e | Inr _ \<Rightarrow> k)"

definition ok_or :: "'e \<Rightarrow> 'a option \<Rightarrow> 'e + 'a" where
  "ok_or e v = (case v of None \<Rightarrow> Inl e | Some x \<Rightarrow> Inr x)"

definition is_ok :: "'e + 'a \<Rightarrow> bool" where
  "is_ok r = (case r of Inl _ \<Rightarrow> False | Inr _ \<Rightarrow> True)"

text \<open>A \<open>for\<close> loop whose body ends in \<open>?\<close>: stop at the first error.\<close>

fun for_each :: "('a \<Rightarrow> 'e + unit) \<Rightarrow> 'a list \<Rightarrow> 'e + unit" where
  "for_each f [] = Inr ()"
| "for_each f (x # xs) = rseq (f x) (for_each f xs)"

fun fold_res :: "('a \<Rightarrow> 'b \<Rightarrow> 'e + 'b) \<Rightarrow> 'a list \<Rightarrow> 'b \<Rightarrow> 'e + 'b" where
  "fold_res f [] acc = Inr acc"
| "fold_res f (x # xs) acc = rbind (f x acc) (fold_res f xs)"

lemma rbind_simps [simp]:
  "rbind (Inl e) f = Inl e" "rbind (Inr x) f = f x"
  by (simp_all add: rbind_def)

lemma rseq_simps [simp]:
  "rseq (Inl e) k = Inl e" "rseq (Inr u) k = k"
  by (simp_all add: rseq_def)

lemma ok_or_simps [simp]:
  "ok_or e None = Inl e" "ok_or e (Some x) = Inr x"
  by (simp_all add: ok_or_def)

lemma is_ok_simps [simp]:
  "\<not> is_ok (Inl e)" "is_ok (Inr x)"
  by (simp_all add: is_ok_def)

lemma is_ok_unit: "is_ok (r :: 'e + unit) \<longleftrightarrow> r = Inr ()"
  by (cases r) auto

lemma rbind_eq_Inr [result_simps]:
  "rbind r f = Inr y \<longleftrightarrow> (\<exists>x. r = Inr x \<and> f x = Inr y)"
  by (cases r) auto

lemma rseq_eq_Inr [result_simps]:
  "rseq r k = Inr y \<longleftrightarrow> r = Inr () \<and> k = Inr y"
  by (cases r) auto

lemma ok_or_eq_Inr [result_simps]: "ok_or e v = Inr x \<longleftrightarrow> v = Some x"
  by (cases v) auto

lemma for_each_eq_Inr [result_simps]:
  "for_each f xs = Inr () \<longleftrightarrow> (\<forall>x \<in> set xs. f x = Inr ())"
  by (induction xs) (auto simp: result_simps)

lemma if_error_eq_Inr [result_simps]:
  "(if c then Inl e else r) = Inr x \<longleftrightarrow> \<not> c \<and> r = Inr x"
  "(if c then r else Inl e) = Inr x \<longleftrightarrow> c \<and> r = Inr x"
  by auto

lemma case_option_error_eq_Inr [result_simps]:
  "(case v of None \<Rightarrow> Inl e | Some y \<Rightarrow> f y) = Inr x \<longleftrightarrow> (\<exists>y. v = Some y \<and> f y = Inr x)"
  by (cases v) auto

section \<open>Machine integers\<close>

type_synonym u64 = "64 word"
type_synonym u32 = "32 word"

abbreviation u64_MAX :: u64 where "u64_MAX \<equiv> - 1"

definition checked_add :: "'a::len word \<Rightarrow> 'a word \<Rightarrow> 'a word option" where
  "checked_add a b = (if unat a + unat b < 2 ^ LENGTH('a) then Some (a + b) else None)"

definition checked_sub :: "'a::len word \<Rightarrow> 'a word \<Rightarrow> 'a word option" where
  "checked_sub a b = (if b \<le> a then Some (a - b) else None)"

lemma checked_add_eq_Some [checked_simps]:
  "checked_add a b = Some c \<longleftrightarrow> unat c = unat a + unat b" for a b c :: "'a::len word"
proof
  assume "checked_add a b = Some c"
  then show "unat c = unat a + unat b"
    by (auto simp: checked_add_def unat_word_ariths split: if_splits)
next
  assume eq: "unat c = unat a + unat b"
  then have lt: "unat a + unat b < 2 ^ LENGTH('a)"
    by (metis unsigned_less)
  then have "unat (a + b) = unat c"
    using eq by (simp add: unat_word_ariths)
  then have "a + b = c" by (rule word_unat_eq_iff [THEN iffD2])
  then show "checked_add a b = Some c"
    using lt by (simp add: checked_add_def)
qed

lemma checked_sub_eq_Some [checked_simps]:
  "checked_sub a b = Some c \<longleftrightarrow> unat a = unat c + unat b" for a b c :: "'a::len word"
proof
  assume "checked_sub a b = Some c"
  then show "unat a = unat c + unat b"
    by (auto simp: checked_sub_def unat_sub word_le_nat_alt split: if_splits)
next
  assume eq: "unat a = unat c + unat b"
  then have le: "b \<le> a" by (simp add: word_le_nat_alt)
  then have "unat (a - b) = unat c" using eq by (simp add: unat_sub)
  then have "a - b = c" by (rule word_unat_eq_iff [THEN iffD2])
  then show "checked_sub a b = Some c"
    using le by (simp add: checked_sub_def)
qed

lemma checked_add_comm: "checked_add a b = checked_add b a"
  by (simp add: checked_add_def add.commute)

lemma checked_add_zero [simp]: "checked_add a 0 = Some a" "checked_add 0 a = Some a"
  by (simp_all add: checked_simps)

lemma checked_add_mono:
  assumes "checked_add a b = Some c" and "a' \<le> a" and "b' \<le> b"
  shows "\<exists>c'. checked_add a' b' = Some c' \<and> c' \<le> c"
proof -
  have "unat a' + unat b' \<le> unat c"
    using assms by (simp add: checked_simps word_le_nat_alt)
  then have lt: "unat a' + unat b' < 2 ^ LENGTH('a)"
    using unsigned_less [of c, where 'a = nat] by linarith
  then have "checked_add a' b' = Some (a' + b')" by (simp add: checked_add_def)
  moreover have "a' + b' \<le> c"
    using \<open>unat a' + unat b' \<le> unat c\<close> lt by (simp add: word_le_nat_alt unat_word_ariths)
  ultimately show ?thesis by blast
qed

section \<open>Ordered maps and sets\<close>

text \<open>\<open>BTreeMap<K, V>\<close> is a finite map over a linearly ordered key type; \<open>values()\<close> and
  \<open>iter()\<close> traverse it in key order. \<open>BTreeSet<T>\<close> is a finite set. Byte strings are
  ordered lexicographically, as \<open>String\<close> is.\<close>

definition btree_iter :: "('k::linorder, 'v) fmap \<Rightarrow> ('k \<times> 'v) list" where
  "btree_iter m = sorted_list_of_fmap m"

definition btree_values :: "('k::linorder, 'v) fmap \<Rightarrow> 'v list" where
  "btree_values m = map snd (btree_iter m)"

definition btree_len :: "('k, 'v) fmap \<Rightarrow> nat" where
  "btree_len m = fcard (fmdom m)"

definition btree_contains_key :: "('k, 'v) fmap \<Rightarrow> 'k \<Rightarrow> bool" where
  "btree_contains_key m k = (fmlookup m k \<noteq> None)"

lemma set_btree_iter: "(k, v) \<in> set (btree_iter m) \<longleftrightarrow> fmlookup m k = Some v"
  by (auto simp: btree_iter_def sorted_list_of_fmap_def fmlookup_dom_iff)

lemma set_btree_values: "v \<in> set (btree_values m) \<longleftrightarrow> (\<exists>k. fmlookup m k = Some v)"
  unfolding btree_values_def by (force simp: set_btree_iter [symmetric])

lemma distinct_btree_iter: "distinct (map fst (btree_iter m))"
  by (simp add: btree_iter_def sorted_list_of_fmap_def comp_def sorted_list_of_fset.rep_eq)

lemma length_btree_iter: "length (btree_iter m) = btree_len m"
  by (simp add: btree_iter_def sorted_list_of_fmap_def btree_len_def sorted_list_of_fset.rep_eq
      fcard.rep_eq)

lemma btree_values_empty [simp]: "btree_values fmempty = []" "btree_iter fmempty = []"
  by (simp_all add: btree_values_def btree_iter_def sorted_list_of_fmap_def
      sorted_list_of_fset.rep_eq)

lemma btree_values_single [simp]:
  "btree_iter (fmupd k v fmempty) = [(k, v)]" "btree_values (fmupd k v fmempty) = [v]"
  by (simp_all add: btree_values_def btree_iter_def sorted_list_of_fmap_def
      sorted_list_of_fset.rep_eq)

lemma btree_len_empty [simp]: "btree_len fmempty = 0"
  by (simp add: btree_len_def)

lemma btree_len_fmupd:
  "btree_len (fmupd k v m) = (if btree_contains_key m k then btree_len m else Suc (btree_len m))"
proof (cases "fmlookup m k")
  case None
  then have "k |\<notin>| fmdom m" by (simp add: fmdom_notI)
  with None show ?thesis
    by (simp add: btree_len_def btree_contains_key_def fcard_finsert_disjoint)
next
  case (Some w)
  then have "finsert k (fmdom m) = fmdom m" by (simp add: fmdomI finsert_absorb)
  with Some show ?thesis by (simp add: btree_len_def btree_contains_key_def)
qed

lemma btree_len_fmmap [simp]: "btree_len (fmmap f m) = btree_len m"
  by (simp add: btree_len_def)

text \<open>The traversal of a map with one more or one changed entry, up to order.\<close>

lemma mset_btree_iter_fmupd:
  "mset (btree_iter (fmupd k v m)) = add_mset (k, v) (mset (filter (\<lambda>p. fst p \<noteq> k) (btree_iter m)))"
  for m :: "('k::linorder, 'v) fmap"
proof (rule multiset_eqI)
  fix p :: "'k \<times> 'v"
  have dist: "distinct (btree_iter x)" for x :: "('k, 'v) fmap"
    using distinct_btree_iter [of x] by (simp add: distinct_map)
  have count: "count (mset xs) q = (if q \<in> set xs then 1 else 0)" if "distinct xs"
    for xs :: "('k \<times> 'v) list" and q
    using that by (cases q) (simp add: distinct_count_atmost_1)
  show "count (mset (btree_iter (fmupd k v m))) p =
      count (add_mset (k, v) (mset (filter (\<lambda>p. fst p \<noteq> k) (btree_iter m)))) p"
    by (cases p) (auto simp: count [OF dist] count [OF distinct_filter [OF dist]] set_btree_iter
        simp del: mset_filter)
qed

section \<open>Bounded queues\<close>

text \<open>\<open>while queue.len() > max { queue.pop_front(); }\<close>\<close>

fun pop_front_while :: "nat \<Rightarrow> 'a list \<Rightarrow> 'a list" where
  "pop_front_while n [] = []"
| "pop_front_while n (x # xs) = (if length (x # xs) > n then pop_front_while n xs else x # xs)"

lemma pop_front_while_drop: "pop_front_while n xs = drop (length xs - n) xs"
  by (induction xs) (auto simp: Suc_diff_le not_less_eq_eq not_le)

lemma length_pop_front_while: "length (pop_front_while n xs) = min n (length xs)"
  by (simp add: pop_front_while_drop)

lemma pop_front_while_snoc:
  "0 < n \<Longrightarrow> \<exists>ys. pop_front_while n (xs @ [x]) = ys @ [x]"
  by (rule exI [of _ "drop (length (xs @ [x]) - n) xs"]) (simp add: pop_front_while_drop)

section \<open>Text\<close>

text \<open>\<open>str::trim().is_empty()\<close>: every character is in the Unicode property
  \<open>White_Space\<close> (\<open>char::is_whitespace\<close>). The characters of that property, as UTF-8
  byte sequences: the ASCII blanks, U+0085, U+00A0, U+1680, U+2000 to U+200A, U+2028,
  U+2029, U+202F, U+205F and U+3000.\<close>

definition ascii_ws :: "char \<Rightarrow> bool" where
  "ascii_ws c = (let n = of_char c :: nat in (9 \<le> n \<and> n \<le> 13) \<or> n = 32)"

definition ws2 :: "char \<Rightarrow> char \<Rightarrow> bool" where
  "ws2 a b = (let x = of_char a :: nat; y = of_char b :: nat in x = 0xC2 \<and> (y = 0x85 \<or> y = 0xA0))"

definition ws3 :: "char \<Rightarrow> char \<Rightarrow> char \<Rightarrow> bool" where
  "ws3 a b c =
     (let x = of_char a :: nat; y = of_char b :: nat; z = of_char c :: nat in
      (x = 0xE1 \<and> y = 0x9A \<and> z = 0x80) \<or>
      (x = 0xE2 \<and> y = 0x80 \<and> (0x80 \<le> z \<and> z \<le> 0x8A \<or> z = 0xA8 \<or> z = 0xA9 \<or> z = 0xAF)) \<or>
      (x = 0xE2 \<and> y = 0x81 \<and> z = 0x9F) \<or>
      (x = 0xE3 \<and> y = 0x80 \<and> z = 0x80))"

fun trim_is_empty :: "string \<Rightarrow> bool" where
  "trim_is_empty [] = True"
| "trim_is_empty [a] = ascii_ws a"
| "trim_is_empty [a, b] = (if ascii_ws a then trim_is_empty [b] else ws2 a b)"
| "trim_is_empty (a # b # c # s) =
     (if ascii_ws a then trim_is_empty (b # c # s)
      else if ws2 a b then trim_is_empty (c # s)
      else ws3 a b c \<and> trim_is_empty s)"

text \<open>\<open>u8::is_ascii_alphanumeric\<close>, \<open>is_ascii_digit\<close> and the lower-case hexadecimal
  digits, on bytes.\<close>

definition is_ascii_digit :: "char \<Rightarrow> bool" where
  "is_ascii_digit c = (let n = of_char c :: nat in 48 \<le> n \<and> n \<le> 57)"

definition is_ascii_alphanumeric :: "char \<Rightarrow> bool" where
  "is_ascii_alphanumeric c =
     (let n = of_char c :: nat in (48 \<le> n \<and> n \<le> 57) \<or> (65 \<le> n \<and> n \<le> 90) \<or> (97 \<le> n \<and> n \<le> 122))"

text \<open>\<open>u64::to_be_bytes\<close> and the formatting of a byte slice with \<open>{:x}\<close>.\<close>

definition to_be_bytes :: "u64 \<Rightarrow> string" where
  "to_be_bytes w = map (\<lambda>i. char_of (unat w div 256 ^ (7 - i))) [0..<8]"

definition hex_digit :: "nat \<Rightarrow> char" where
  "hex_digit n = (if n < 10 then char_of (48 + n) else char_of (87 + n))"

definition lower_hex :: "string \<Rightarrow> string" where
  "lower_hex bs = concat (map (\<lambda>b. [hex_digit (of_char b div 16), hex_digit (of_char b mod 16)]) bs)"

lemma length_to_be_bytes [simp]: "length (to_be_bytes w) = 8"
  by (simp add: to_be_bytes_def)

lemma length_lower_hex [simp]: "length (lower_hex bs) = 2 * length bs"
  by (induction bs) (simp_all add: lower_hex_def)

end
