(* ===== verification/Breaker_Window.thy ===== *)
theory Breaker_Window
  imports Complex_Main Prelude
begin

text \<open>
  The sliding window of the circuit breaker (\<open>xai-circuit-breaker/src/window.rs\<close>) with the
  standard-library values it computes on: \<open>Instant\<close> and \<open>Duration\<close> are natural numbers of
  nanoseconds (an instant counts from the earliest instant the platform represents, which is
  where \<open>Instant::checked_sub\<close> gives \<open>None\<close>), and \<open>f64\<close> is read as the number it denotes.
  The quotient of two counts is rounded to the nearest 53-bit binary fraction, ties to even,
  as IEEE 754 division does. The lemmas show that the incremental failure counter is exact,
  that the window is bounded, that eviction keeps exactly the samples inside the window, and
  how far the rounded rate can be from the true one.
\<close>

section \<open>Instants, durations and floating-point values\<close>

type_synonym instant = nat
type_synonym duration = nat

definition from_millis :: "u64 \<Rightarrow> duration" where
  "from_millis m = unat m * 1000000"

definition from_secs :: "nat \<Rightarrow> duration" where
  "from_secs s = s * 1000000000"

text \<open>\<open>d.as_millis() as u64\<close>: the cast keeps the low 64 bits.\<close>

definition as_millis_u64 :: "duration \<Rightarrow> u64" where
  "as_millis_u64 d = word_of_nat (d div 1000000)"

definition saturating_sub :: "u64 \<Rightarrow> u64 \<Rightarrow> u64" where
  "saturating_sub a b = (if b \<le> a then a - b else 0)"

definition instant_checked_sub :: "instant \<Rightarrow> duration \<Rightarrow> instant option" where
  "instant_checked_sub t d = (if d \<le> t then Some (t - d) else None)"

datatype f64 = Finite rat | PosInf | NegInf | NaN

definition f64_ge :: "f64 \<Rightarrow> f64 \<Rightarrow> bool" where
  "f64_ge a b = (case (a, b) of
      (Finite x, Finite y) \<Rightarrow> y \<le> x
    | (Finite x, NegInf) \<Rightarrow> True
    | (PosInf, Finite y) \<Rightarrow> True
    | (PosInf, PosInf) \<Rightarrow> True
    | (PosInf, NegInf) \<Rightarrow> True
    | (NegInf, NegInf) \<Rightarrow> True
    | _ \<Rightarrow> False)"

text \<open>The binary exponent of a quotient \<open>p / n \<le> 1\<close>: the number of doublings that bring \<open>p\<close>
  up to \<open>n\<close>.\<close>

function quotient_shift :: "nat \<Rightarrow> nat \<Rightarrow> nat" where
  "quotient_shift p n = (if p = 0 \<or> n \<le> p then 0 else Suc (quotient_shift (2 * p) n))"
  by pat_completeness auto
termination by (relation "measure (\<lambda>(p, n). n - p)") auto

declare quotient_shift.simps [simp del]

text \<open>\<open>p as f64 / n as f64\<close> for counts \<open>0 < p \<le> n < 2 ^ 53\<close>, where both casts are exact and the
  quotient is a normal number: 53 significant bits, round half to even.\<close>

definition round_half_even :: "nat \<Rightarrow> nat \<Rightarrow> nat" where
  "round_half_even m n = (let q = m div n; r = m mod n
     in if 2 * r < n \<or> 2 * r = n \<and> even q then q else q + 1)"

definition f64_quotient :: "nat \<Rightarrow> nat \<Rightarrow> rat" where
  "f64_quotient p n = (let k = 52 + quotient_shift p n
     in of_nat (round_half_even (p * 2 ^ k) n) / 2 ^ k)"

section \<open>The window\<close>

record SlidingWindow =
  entries :: "(instant \<times> bool) list"
  failures :: nat

definition MAX_WINDOW_ENTRIES :: nat where
  "MAX_WINDOW_ENTRIES = 10000"

definition window_new :: SlidingWindow where
  "window_new = \<lparr>entries = [], failures = 0\<rparr>"

definition window_pop_front :: "SlidingWindow \<Rightarrow> SlidingWindow" where
  "window_pop_front w = (case entries w of
      [] \<Rightarrow> w
    | (_, was_failure) # rest \<Rightarrow>
        w\<lparr>entries := rest, failures := failures w - (if was_failure then 1 else 0)\<rparr>)"

definition window_push :: "bool \<Rightarrow> instant \<Rightarrow> SlidingWindow \<Rightarrow> SlidingWindow" where
  "window_push is_failure now w =
     (let w1 = (if MAX_WINDOW_ENTRIES \<le> length (entries w) then window_pop_front w else w)
      in w1\<lparr>entries := entries w1 @ [(now, is_failure)],
            failures := failures w1 + (if is_failure then 1 else 0)\<rparr>)"

function evict_before :: "instant \<Rightarrow> SlidingWindow \<Rightarrow> SlidingWindow" where
  "evict_before cutoff w = (case entries w of
      [] \<Rightarrow> w
    | (ts, _) # _ \<Rightarrow> if ts < cutoff then evict_before cutoff (window_pop_front w) else w)"
  by pat_completeness auto
termination
  by (relation "measure (\<lambda>(_, w). length (entries w))") (auto simp: window_pop_front_def)

declare evict_before.simps [simp del]

definition window_evict :: "duration \<Rightarrow> instant \<Rightarrow> SlidingWindow \<Rightarrow> SlidingWindow" where
  "window_evict window now w = (case instant_checked_sub now window of
      None \<Rightarrow> w
    | Some cutoff \<Rightarrow> evict_before cutoff w)"

definition window_error_rate :: "SlidingWindow \<Rightarrow> f64" where
  "window_error_rate w =
     (if entries w = [] then Finite 0
      else if failures w = 0 then Finite 0
      else Finite (f64_quotient (failures w) (length (entries w))))"

definition sample_count :: "SlidingWindow \<Rightarrow> nat" where
  "sample_count w = length (entries w)"

definition window_clear :: "SlidingWindow \<Rightarrow> SlidingWindow" where
  "window_clear w = w\<lparr>entries := [], failures := 0\<rparr>"

section \<open>The counter is exact and the window is bounded\<close>

definition window_ok :: "SlidingWindow \<Rightarrow> bool" where
  "window_ok w \<longleftrightarrow> failures w = length (filter snd (entries w))
     \<and> length (entries w) \<le> MAX_WINDOW_ENTRIES"

lemma window_ok_new [simp]: "window_ok window_new"
  by (simp add: window_ok_def window_new_def)

lemma window_ok_clear [simp]: "window_ok (window_clear w)"
  by (simp add: window_ok_def window_clear_def)

lemma window_ok_pop_front: "window_ok w \<Longrightarrow> window_ok (window_pop_front w)"
  by (auto simp: window_ok_def window_pop_front_def split: list.splits)

lemma length_pop_front_full:
  "MAX_WINDOW_ENTRIES \<le> length (entries w) \<Longrightarrow>
   length (entries (window_pop_front w)) = length (entries w) - 1"
  by (auto simp: window_pop_front_def split: list.splits)

lemma window_ok_push:
  assumes "window_ok w"
  shows "window_ok (window_push b now w)"
proof (cases "MAX_WINDOW_ENTRIES \<le> length (entries w)")
  case True
  then show ?thesis
    using window_ok_pop_front [OF assms] length_pop_front_full [OF True] assms
    by (simp add: window_push_def window_ok_def Let_def MAX_WINDOW_ENTRIES_def)
next
  case False
  then show ?thesis using assms by (simp add: window_push_def window_ok_def Let_def)
qed

lemma window_ok_evict_before: "window_ok w \<Longrightarrow> window_ok (evict_before cutoff w)"
proof (induction cutoff w rule: evict_before.induct)
  case (1 cutoff w)
  then show ?case
    using window_ok_pop_front
    by (subst evict_before.simps) (fastforce split: list.splits)
qed

lemma window_ok_evict: "window_ok w \<Longrightarrow> window_ok (window_evict d now w)"
  by (simp add: window_evict_def window_ok_evict_before split: option.splits)

lemma failures_le: "window_ok w \<Longrightarrow> failures w \<le> length (entries w)"
  by (simp add: window_ok_def)

section \<open>Eviction keeps the samples of the window\<close>

lemma entries_pop_front [simp]: "entries (window_pop_front w) = tl (entries w)"
  by (simp add: window_pop_front_def split: list.splits)

lemma entries_evict_before:
  "entries (evict_before cutoff w) = dropWhile (\<lambda>(ts, _). ts < cutoff) (entries w)"
proof (induction cutoff w rule: evict_before.induct)
  case (1 cutoff w)
  then show ?case
    by (subst evict_before.simps) (auto split: list.splits)
qed

lemma dropWhile_sorted_filter:
  "sorted (map fst xs) \<Longrightarrow>
   dropWhile (\<lambda>(ts, _). ts < c) xs = filter (\<lambda>(ts, _). c \<le> ts) xs"
  for xs :: "(nat \<times> 'a) list"
proof (induction xs)
  case (Cons x xs)
  have "filter (\<lambda>(ts, _). c \<le> ts) xs = xs" if "c \<le> fst x"
    using Cons.prems that by (intro filter_True) (auto intro: order_trans)
  with Cons show ?case by (cases x) auto
qed simp

text \<open>With samples in time order (a monotone clock), what \<open>evict\<close> leaves is what is inside the
  window, whatever the platform's earliest instant is.\<close>

lemma entries_evict:
  assumes "sorted (map fst (entries w))"
  shows "entries (window_evict d now w) = filter (\<lambda>(ts, _). now \<le> ts + d) (entries w)"
proof (cases "d \<le> now")
  case True
  have "(\<lambda>(ts, _ :: bool). now - d \<le> ts) = (\<lambda>(ts, _). now \<le> ts + d)"
    by (auto simp: fun_eq_iff)
  then show ?thesis
    using True by (simp add: window_evict_def instant_checked_sub_def entries_evict_before
        dropWhile_sorted_filter [OF assms])
next
  case False
  then show ?thesis
    by (auto simp: window_evict_def instant_checked_sub_def intro: filter_True [THEN sym])
qed

section \<open>The rounded rate\<close>

lemma round_half_even_error:
  assumes "0 < n"
  shows "2 * m \<le> 2 * (round_half_even m n * n) + n"
    and "2 * (round_half_even m n * n) \<le> 2 * m + n"
proof -
  define q r where qr: "q = m div n" "r = m mod n"
  have m: "m = q * n + r" unfolding qr by simp
  have lt: "r < n" using assms qr by simp
  have eq: "round_half_even m n * n = (if 2 * r < n \<or> 2 * r = n \<and> even q then q * n else q * n + n)"
    by (simp add: round_half_even_def Let_def qr add_mult_distrib)
  show "2 * m \<le> 2 * (round_half_even m n * n) + n"
    unfolding eq using lt m by (simp split: if_splits)
  show "2 * (round_half_even m n * n) \<le> 2 * m + n"
    unfolding eq using lt m by (simp split: if_splits)
qed

lemma round_half_even_ge: "0 < n \<Longrightarrow> c * n \<le> m \<Longrightarrow> c \<le> round_half_even m n"
proof -
  assume "0 < n" "c * n \<le> m"
  then have "c \<le> m div n" by (simp add: less_eq_div_iff_mult_less_eq)
  then show ?thesis by (auto simp: round_half_even_def Let_def)
qed

text \<open>Comparing the rounded quotient with one half gives the exact answer for every count the
  window can hold: below one half, the quotient misses it by more than the rounding.\<close>

lemma f64_quotient_half:
  assumes "0 < n" and "n < 2 ^ 52"
  shows "1 / 2 \<le> f64_quotient p n \<longleftrightarrow> n \<le> 2 * p"
proof -
  define k where "k = 51 + quotient_shift p n"
  define v where "v = round_half_even (p * 2 ^ Suc k) n"
  have q: "f64_quotient p n = of_nat v / 2 ^ Suc k"
    by (simp add: f64_quotient_def v_def k_def Let_def)
  have "1 / 2 \<le> f64_quotient p n \<longleftrightarrow> 2 ^ k \<le> (of_nat v :: rat)"
    by (simp add: q field_simps)
  also have "\<dots> \<longleftrightarrow> 2 ^ k \<le> v"
    by (metis of_nat_le_iff of_nat_numeral of_nat_power)
  also have "\<dots> \<longleftrightarrow> n \<le> 2 * p"
  proof
    assume "n \<le> 2 * p"
    then have "2 ^ k * n \<le> p * 2 ^ Suc k" by simp
    then show "2 ^ k \<le> v" unfolding v_def by (rule round_half_even_ge [OF assms(1)])
  next
    assume v: "2 ^ k \<le> v"
    show "n \<le> 2 * p"
    proof (rule ccontr)
      assume "\<not> n \<le> 2 * p"
      then have "(2 * p + 1) * 2 ^ Suc k \<le> n * 2 ^ Suc k"
        by (intro mult_right_mono) auto
      moreover have "2 * (v * n) \<le> 2 * (p * 2 ^ Suc k) + n"
        unfolding v_def by (rule round_half_even_error(2) [OF assms(1)])
      moreover have "n * 2 ^ Suc k \<le> 2 * (v * n)"
        using v by simp
      ultimately have "2 ^ Suc k \<le> n" unfolding add_mult_distrib by linarith
      moreover have "(2::nat) ^ 52 \<le> 2 ^ Suc k"
        unfolding k_def by (rule power_increasing) simp_all
      ultimately show False using assms(2) by linarith
    qed
  qed
  finally show ?thesis .
qed

text \<open>For any other threshold the rounded rate is within half a unit in the last place of the
  true one.\<close>

lemma f64_quotient_error:
  assumes "0 < n"
  shows "\<bar>f64_quotient p n - of_nat p / of_nat n\<bar> \<le> 1 / 2 ^ 53"
proof -
  define k where "k = 52 + quotient_shift p n"
  define v where "v = round_half_even (p * 2 ^ k) n"
  have q: "f64_quotient p n = of_nat v / 2 ^ k"
    by (simp add: f64_quotient_def v_def k_def Let_def)
  have lo: "(of_nat (2 * (p * 2 ^ k)) :: rat) \<le> of_nat (2 * (v * n) + n)"
    unfolding v_def of_nat_le_iff by (rule round_half_even_error(1) [OF assms])
  have hi: "(of_nat (2 * (v * n)) :: rat) \<le> of_nat (2 * (p * 2 ^ k) + n)"
    unfolding v_def of_nat_le_iff by (rule round_half_even_error(2) [OF assms])
  have "\<bar>f64_quotient p n - of_nat p / of_nat n\<bar>
        = \<bar>of_nat v * of_nat n - of_nat p * 2 ^ k\<bar> / (2 ^ k * of_nat n)"
    using assms by (simp add: q field_simps abs_divide)
  also have "\<dots> \<le> (of_nat n / 2) / (2 ^ k * of_nat n)"
  proof (rule divide_right_mono)
    show "\<bar>of_nat v * of_nat n - of_nat p * 2 ^ k\<bar> \<le> (of_nat n / 2 :: rat)"
      using lo hi by (simp only: of_nat_add of_nat_mult of_nat_power of_nat_numeral abs_le_iff) linarith
  qed simp
  also have "\<dots> = 1 / 2 ^ Suc k" using assms by (simp add: field_simps)
  also have "\<dots> \<le> 1 / 2 ^ 53"
    using power_increasing [of 53 "Suc k" "2 :: rat"] by (intro divide_left_mono) (simp_all add: k_def)
  finally show ?thesis .
qed

lemma window_error_rate_half:
  assumes "window_ok w"
  shows "f64_ge (window_error_rate w) (Finite (1 / 2))
     \<longleftrightarrow> entries w \<noteq> [] \<and> length (entries w) \<le> 2 * failures w"
proof (cases "entries w = []")
  case False
  have "length (entries w) < 2 ^ 52"
    using assms by (simp add: window_ok_def MAX_WINDOW_ENTRIES_def)
  then show ?thesis
    using False f64_quotient_half [of "length (entries w)" "failures w"]
    by (auto simp: window_error_rate_def f64_ge_def)
qed (simp add: window_error_rate_def f64_ge_def)

end
