(* ===== verification/Breaker.thy ===== *)
theory Breaker
  imports Breaker_Window
begin

text \<open>
  The circuit breaker (\<open>xai-circuit-breaker/src/\<close>: \<open>state.rs\<close>, \<open>config.rs\<close>, \<open>breaker.rs\<close>,
  \<open>registry.rs\<close>, \<open>retry_policy.rs\<close>, \<open>grpc.rs\<close>). Here every call runs to its end without
  interference and the clock shows one instant during it; the interleaving of calls from
  several threads is the subject of \<open>Breaker_Threads\<close>. The shared cells keep their widths:
  the state is a \<open>u8\<close>, the clocks are \<open>u64\<close> milliseconds from the baseline, the probe
  counter is a \<open>usize\<close> of 64 bits. Observer callbacks are a log of the events delivered, each
  with the observer installed at that moment.

  The specification these operations refine is in \<open>Breaker_Spec\<close>.
\<close>

section \<open>States, outcomes, configuration\<close>

datatype BreakerState = Closed | Open | HalfOpen

datatype Outcome = Success | Failure

record BreakerOpen =
  retry_after :: duration

definition as_u8 :: "BreakerState \<Rightarrow> 8 word" where
  "as_u8 st = (case st of Closed \<Rightarrow> 0 | Open \<Rightarrow> 1 | HalfOpen \<Rightarrow> 2)"

definition from_u8 :: "8 word \<Rightarrow> BreakerState" where
  "from_u8 v = (if v = 0 then Closed else if v = 1 then Open else if v = 2 then HalfOpen else Closed)"

record BreakerConfig =
  window_duration :: duration
  min_samples :: u64
  error_rate_threshold :: f64
  open_duration :: duration
  half_open_max_probes :: u64
  failure_codes :: "16 word fset"
  enabled :: bool

definition default_failure_codes :: "16 word fset" where
  "default_failure_codes = {|429, 500, 502, 503, 504|}"

definition config_server :: BreakerConfig where
  "config_server = \<lparr>window_duration = from_secs 60, min_samples = 10,
     error_rate_threshold = Finite (1 / 2), open_duration = from_secs 10,
     half_open_max_probes = 1, failure_codes = default_failure_codes, enabled = True\<rparr>"

definition config_client :: BreakerConfig where
  "config_client = \<lparr>window_duration = from_secs 60, min_samples = 5,
     error_rate_threshold = Finite (1 / 2), open_duration = from_secs 60,
     half_open_max_probes = 1, failure_codes = {|401|}, enabled = True\<rparr>"

definition is_failure_status :: "BreakerConfig \<Rightarrow> 16 word \<Rightarrow> bool" where
  "is_failure_status c status = (status |\<in>| failure_codes c)"

section \<open>The shared cells\<close>

datatype observer_event =
    on_state_change BreakerState BreakerState string
  | on_probe_admission bool
  | on_outcome Outcome BreakerState

record CircuitBreakerInner =
  config :: BreakerConfig
  state_cell :: "8 word"
  baseline :: instant
  opened_at_millis :: u64
  half_open_probes :: u64
  probe_claimed_at_millis :: u64
  is_open_fast :: bool
  window :: SlidingWindow
  installed_observer :: "nat option"
  observed :: "(nat option \<times> observer_event) list"

definition with_clock :: "BreakerConfig \<Rightarrow> instant \<Rightarrow> CircuitBreakerInner" where
  "with_clock c now = \<lparr>config = c\<lparr>half_open_max_probes := max (half_open_max_probes c) 1\<rparr>,
     state_cell = as_u8 Closed, baseline = now, opened_at_millis = 0, half_open_probes = 0,
     probe_claimed_at_millis = 0, is_open_fast = False, window = window_new,
     installed_observer = None, observed = []\<rparr>"

definition with_observer :: "nat \<Rightarrow> CircuitBreakerInner \<Rightarrow> CircuitBreakerInner" where
  "with_observer obs b = (case installed_observer b of
      None \<Rightarrow> b\<lparr>installed_observer := Some obs\<rparr>
    | Some _ \<Rightarrow> b)"

definition notify :: "observer_event \<Rightarrow> CircuitBreakerInner \<Rightarrow> CircuitBreakerInner" where
  "notify ev b = b\<lparr>observed := observed b @ [(installed_observer b, ev)]\<rparr>"

definition breaker_state :: "CircuitBreakerInner \<Rightarrow> BreakerState" where
  "breaker_state b = from_u8 (state_cell b)"

definition store_state :: "BreakerState \<Rightarrow> CircuitBreakerInner \<Rightarrow> CircuitBreakerInner" where
  "store_state st b = b\<lparr>state_cell := as_u8 st\<rparr>"

definition is_open :: "CircuitBreakerInner \<Rightarrow> bool" where
  "is_open b = is_open_fast b"

definition elapsed_millis :: "instant \<Rightarrow> CircuitBreakerInner \<Rightarrow> u64" where
  "elapsed_millis now b = as_millis_u64 (now - baseline b)"

definition cas_state ::
  "BreakerState \<Rightarrow> BreakerState \<Rightarrow> CircuitBreakerInner \<Rightarrow> bool \<times> CircuitBreakerInner" where
  "cas_state from to b =
     (if state_cell b = as_u8 from then (True, b\<lparr>state_cell := as_u8 to\<rparr>) else (False, b))"

section \<open>The operations\<close>

definition HALF_OPEN_PROBE_BACKOFF :: duration where
  "HALF_OPEN_PROBE_BACKOFF = from_millis 50"

definition try_half_open_probe ::
  "instant \<Rightarrow> CircuitBreakerInner \<Rightarrow> (BreakerOpen + unit) \<times> CircuitBreakerInner" where
  "try_half_open_probe t b =
     (let now = elapsed_millis t b;
          prev = half_open_probes b;
          b1 = b\<lparr>half_open_probes := prev + 1\<rparr>
      in if prev < half_open_max_probes (config b)
         then (Inr (), notify (on_probe_admission True) (b1\<lparr>probe_claimed_at_millis := now\<rparr>))
         else
           (let b2 = b1\<lparr>half_open_probes := half_open_probes b1 - 1\<rparr>;
                lease_millis = as_millis_u64 (open_duration (config b));
                claimed = probe_claimed_at_millis b2
            in if lease_millis \<le> saturating_sub now claimed
               then (Inr (), notify (on_probe_admission True) (b2\<lparr>probe_claimed_at_millis := now\<rparr>))
               else (Inl \<lparr>retry_after = min HALF_OPEN_PROBE_BACKOFF (open_duration (config b))\<rparr>,
                     notify (on_probe_admission False) b2)))"

definition check_open ::
  "instant \<Rightarrow> CircuitBreakerInner \<Rightarrow> (BreakerOpen + unit) \<times> CircuitBreakerInner" where
  "check_open t b =
     (let elapsed = from_millis (saturating_sub (elapsed_millis t b) (opened_at_millis b))
      in if open_duration (config b) \<le> elapsed then
           (case cas_state Open HalfOpen b of
              (True, b1) \<Rightarrow>
                try_half_open_probe t
                  (notify (on_state_change Open HalfOpen ''open_elapsed'')
                    (b1\<lparr>is_open_fast := False\<rparr>))
            | (False, b1) \<Rightarrow>
                (case breaker_state b1 of
                   Closed \<Rightarrow> (Inr (), b1)
                 | HalfOpen \<Rightarrow> try_half_open_probe t b1
                 | Open \<Rightarrow>
                     (let elapsed2 =
                        from_millis (saturating_sub (elapsed_millis t b1) (opened_at_millis b1))
                      in (Inl \<lparr>retry_after = open_duration (config b1) - elapsed2\<rparr>, b1))))
         else (Inl \<lparr>retry_after = open_duration (config b) - elapsed\<rparr>, b))"

definition check ::
  "instant \<Rightarrow> CircuitBreakerInner \<Rightarrow> (BreakerOpen + unit) \<times> CircuitBreakerInner" where
  "check t b =
     (if \<not> enabled (config b) then (Inr (), b)
      else case breaker_state b of
        Closed \<Rightarrow> (Inr (), b)
      | Open \<Rightarrow> check_open t b
      | HalfOpen \<Rightarrow> try_half_open_probe t b)"

definition trip ::
  "instant \<Rightarrow> BreakerState \<Rightarrow> string \<Rightarrow> CircuitBreakerInner \<Rightarrow> CircuitBreakerInner" where
  "trip t prev reason b =
     (let b1 = store_state Open b;
          b2 = b1\<lparr>opened_at_millis := elapsed_millis t b1\<rparr>;
          b3 = b2\<lparr>half_open_probes := 0\<rparr>;
          b4 = b3\<lparr>is_open_fast := True\<rparr>
      in if prev \<noteq> Open then notify (on_state_change prev Open reason) b4 else b4)"

definition close_breaker ::
  "BreakerState \<Rightarrow> string \<Rightarrow> CircuitBreakerInner \<Rightarrow> CircuitBreakerInner" where
  "close_breaker prev reason b =
     (let b1 = store_state Closed b;
          b2 = b1\<lparr>window := window_clear (window b1)\<rparr>;
          b3 = b2\<lparr>half_open_probes := 0\<rparr>;
          b4 = b3\<lparr>is_open_fast := False\<rparr>
      in if prev \<noteq> Closed then notify (on_state_change prev Closed reason) b4 else b4)"

text \<open>The critical section of \<open>record\<close>: the sample enters the window, old samples leave.\<close>

definition add_sample :: "bool \<Rightarrow> instant \<Rightarrow> CircuitBreakerInner \<Rightarrow> CircuitBreakerInner" where
  "add_sample is_failure t b =
     b\<lparr>window := window_evict (window_duration (config b)) t (window_push is_failure t (window b))\<rparr>"

definition should_trip :: "CircuitBreakerInner \<Rightarrow> bool" where
  "should_trip b \<longleftrightarrow> unat (min_samples (config b)) \<le> sample_count (window b)
     \<and> f64_ge (window_error_rate (window b)) (error_rate_threshold (config b))"

definition record_outcome :: "Outcome \<Rightarrow> instant \<Rightarrow> CircuitBreakerInner \<Rightarrow> CircuitBreakerInner" where
  "record_outcome outcome t b =
     (if \<not> enabled (config b) then b
      else
        (let is_failure = (outcome = Failure);
             prev_state = breaker_state b;
             b1 = (case prev_state of
                 Closed \<Rightarrow>
                   (let w = add_sample is_failure t b
                    in if should_trip w then trip t prev_state ''trip'' w else w)
               | HalfOpen \<Rightarrow>
                   if is_failure then trip t prev_state ''probe_failure'' b
                   else close_breaker prev_state ''probe_success'' b
               | Open \<Rightarrow> add_sample is_failure t b);
             new_state = breaker_state b1
         in notify (on_outcome outcome new_state) b1))"

definition error_rate :: "instant \<Rightarrow> CircuitBreakerInner \<Rightarrow> f64 \<times> CircuitBreakerInner" where
  "error_rate t b =
     (let w = window_evict (window_duration (config b)) t (window b)
      in (window_error_rate w, b\<lparr>window := w\<rparr>))"

definition force_half_open :: "CircuitBreakerInner \<Rightarrow> CircuitBreakerInner" where
  "force_half_open b =
     (let prev = breaker_state b;
          b1 = store_state HalfOpen b;
          b2 = b1\<lparr>is_open_fast := False\<rparr>;
          b3 = b2\<lparr>half_open_probes := 0\<rparr>
      in if prev \<noteq> HalfOpen then notify (on_state_change prev HalfOpen ''force_half_open'') b3
         else b3)"

section \<open>The registry\<close>

text \<open>A breaker handed out by the registry is shared: the map holds its address.\<close>

record CircuitBreakerRegistry =
  registry_config :: BreakerConfig
  breakers :: "(string, nat) fmap"
  registry_heap :: "CircuitBreakerInner list"

definition registry_new :: "BreakerConfig \<Rightarrow> CircuitBreakerRegistry" where
  "registry_new c = \<lparr>registry_config = c, breakers = fmempty, registry_heap = []\<rparr>"

definition registry_get ::
  "string \<Rightarrow> instant \<Rightarrow> CircuitBreakerRegistry \<Rightarrow> nat option \<times> CircuitBreakerRegistry" where
  "registry_get key now r =
     (if \<not> enabled (registry_config r) then (None, r)
      else case fmlookup (breakers r) key of
        Some cb \<Rightarrow> (Some cb, r)
      | None \<Rightarrow>
          (let cb = length (registry_heap r)
           in (Some cb, r\<lparr>breakers := fmupd key cb (breakers r),
                 registry_heap := registry_heap r @ [with_clock (registry_config r) now]\<rparr>)))"

section \<open>Retry policies\<close>

datatype Disposition = Retryable | AuthRefresh | Terminal

record RetryPolicy =
  retryable :: "16 word list"
  auth_refresh :: "16 word list"
  terminal :: "16 word list"
  default_disposition :: Disposition

definition classify :: "RetryPolicy \<Rightarrow> 16 word \<Rightarrow> Disposition option" where
  "classify p status =
     (if 200 \<le> status \<and> status < 300 then None
      else if status \<in> set (auth_refresh p) then Some AuthRefresh
      else if status \<in> set (terminal p) then Some Terminal
      else if status \<in> set (retryable p) \<or> 500 \<le> status \<and> status < 600 then Some Retryable
      else Some (default_disposition p))"

definition should_retry :: "RetryPolicy \<Rightarrow> 16 word \<Rightarrow> bool" where
  "should_retry p status = (classify p status = Some Retryable)"

definition policy_server :: RetryPolicy where
  "policy_server = \<lparr>retryable = [429], auth_refresh = [], terminal = [],
     default_disposition = Terminal\<rparr>"

definition policy_edge_client :: RetryPolicy where
  "policy_edge_client = \<lparr>retryable = [429], auth_refresh = [], terminal = [525, 526],
     default_disposition = Terminal\<rparr>"

definition policy_client_storage :: RetryPolicy where
  "policy_client_storage = \<lparr>retryable = [], auth_refresh = [401],
     terminal = [400, 403, 404, 525, 526], default_disposition = Retryable\<rparr>"

text \<open>\<open>tonic::Code\<close> is an enumeration of an external crate: the policy is parametric in the
  codes and in its \<open>Ok\<close>.\<close>

record 'c GrpcRetryPolicy =
  grpc_retryable :: "'c list"

definition grpc_is_retryable :: "'c GrpcRetryPolicy \<Rightarrow> 'c \<Rightarrow> bool" where
  "grpc_is_retryable p code = (code \<in> set (grpc_retryable p))"

definition grpc_classify :: "'c \<Rightarrow> 'c GrpcRetryPolicy \<Rightarrow> 'c \<Rightarrow> Disposition option" where
  "grpc_classify code_ok p code =
     (if code = code_ok then None
      else if grpc_is_retryable p code then Some Retryable
      else Some Terminal)"

end
