(* ===== verification/Breaker_Spec.thy ===== *)
theory Breaker_Spec
  imports Breaker
begin

text \<open>
  What a circuit breaker promises, and that the cells of \<open>Breaker\<close> keep the promise. A breaker
  is shut, tripped since a time, or probing with a number of probes and the time of the last
  one, and it has the recent samples. The shared cells hold more: a mirror of the state for
  the lock-free reader, an incremental failure count, and times and counters that are stale in
  some states. The invariant ties them together; under it each call of the code is the call of
  the specification, for every schedule of calls in time order.
\<close>

section \<open>The specification\<close>

datatype phase = Shut | Tripped nat | Probing nat nat

record breaker_spec =
  phase :: phase
  samples :: "(instant \<times> bool) list"

definition recent_samples ::
  "BreakerConfig \<Rightarrow> instant \<Rightarrow> bool \<Rightarrow> (instant \<times> bool) list \<Rightarrow> (instant \<times> bool) list" where
  "recent_samples c t f xs =
     (let ys = xs @ [(t, f)]
      in filter (\<lambda>(ts, _). t \<le> ts + window_duration c) (drop (length ys - MAX_WINDOW_ENTRIES) ys))"

definition failing :: "(instant \<times> bool) list \<Rightarrow> nat" where
  "failing xs = length (filter snd xs)"

definition samples_trip :: "BreakerConfig \<Rightarrow> (instant \<times> bool) list \<Rightarrow> bool" where
  "samples_trip c xs \<longleftrightarrow> unat (min_samples c) \<le> length xs
     \<and> f64_ge (Finite (if failing xs = 0 then 0 else f64_quotient (failing xs) (length xs)))
         (error_rate_threshold c)"

definition spec_check ::
  "BreakerConfig \<Rightarrow> nat \<Rightarrow> breaker_spec \<Rightarrow> (BreakerOpen + unit) \<times> breaker_spec" where
  "spec_check c ms a = (case phase a of
      Shut \<Rightarrow> (Inr (), a)
    | Tripped since \<Rightarrow>
        if open_duration c \<le> (ms - since) * 1000000 then (Inr (), a\<lparr>phase := Probing 1 ms\<rparr>)
        else (Inl \<lparr>retry_after = open_duration c - (ms - since) * 1000000\<rparr>, a)
    | Probing n claimed \<Rightarrow>
        if n < unat (half_open_max_probes c) then (Inr (), a\<lparr>phase := Probing (n + 1) ms\<rparr>)
        else if claimed + open_duration c div 1000000 \<le> ms then (Inr (), a\<lparr>phase := Probing n ms\<rparr>)
        else (Inl \<lparr>retry_after = min (50 * 1000000) (open_duration c)\<rparr>, a))"

definition spec_record ::
  "BreakerConfig \<Rightarrow> nat \<Rightarrow> Outcome \<Rightarrow> instant \<Rightarrow> breaker_spec \<Rightarrow> breaker_spec" where
  "spec_record c ms outcome t a =
     (let xs = recent_samples c t (outcome = Failure) (samples a)
      in case phase a of
        Shut \<Rightarrow> \<lparr>phase = (if samples_trip c xs then Tripped ms else Shut), samples = xs\<rparr>
      | Tripped since \<Rightarrow> a\<lparr>samples := xs\<rparr>
      | Probing _ _ \<Rightarrow> if outcome = Failure then a\<lparr>phase := Tripped ms\<rparr>
                       else \<lparr>phase = Shut, samples = []\<rparr>)"

section \<open>The abstraction and the invariant\<close>

definition abs_breaker :: "CircuitBreakerInner \<Rightarrow> breaker_spec" where
  "abs_breaker b = \<lparr>phase = (case breaker_state b of
        Closed \<Rightarrow> Shut
      | Open \<Rightarrow> Tripped (unat (opened_at_millis b))
      | HalfOpen \<Rightarrow> Probing (unat (half_open_probes b)) (unat (probe_claimed_at_millis b))),
     samples = entries (window b)\<rparr>"

definition millis_since :: "CircuitBreakerInner \<Rightarrow> instant \<Rightarrow> nat" where
  "millis_since b t = (t - baseline b) div 1000000"

text \<open>Times stay in the range of the cells: at most \<open>u64::MAX\<close> milliseconds since the baseline
  and in \<open>open_duration\<close>.\<close>

definition config_ok :: "BreakerConfig \<Rightarrow> bool" where
  "config_ok c \<longleftrightarrow> open_duration c div 1000000 < 2 ^ 64"

definition window_inv :: "instant \<Rightarrow> SlidingWindow \<Rightarrow> bool" where
  "window_inv t w \<longleftrightarrow> window_ok w \<and> sorted (map fst (entries w)) \<and> (\<forall>e \<in> set (entries w). fst e \<le> t)"

definition probes_inv :: "CircuitBreakerInner \<Rightarrow> bool" where
  "probes_inv b \<longleftrightarrow> (if breaker_state b = HalfOpen
      then 1 \<le> half_open_probes b \<and> half_open_probes b \<le> half_open_max_probes (config b)
      else half_open_probes b = 0)"

definition breaker_inv :: "instant \<Rightarrow> CircuitBreakerInner \<Rightarrow> bool" where
  "breaker_inv t b \<longleftrightarrow> 1 \<le> half_open_max_probes (config b)
     \<and> (\<exists>st. state_cell b = as_u8 st)
     \<and> (is_open_fast b \<longleftrightarrow> breaker_state b = Open)
     \<and> probes_inv b \<and> window_inv t (window b)
     \<and> unat (opened_at_millis b) \<le> millis_since b t
     \<and> unat (probe_claimed_at_millis b) \<le> millis_since b t"

section \<open>Cells\<close>

lemma from_as_u8 [simp]: "from_u8 (as_u8 st) = st"
  by (cases st) (simp_all add: from_u8_def as_u8_def)

lemma as_u8_eq [simp]: "as_u8 a = as_u8 b \<longleftrightarrow> a = b"
  by (metis from_as_u8)

lemma notify_simps [simp]:
  "config (notify e b) = config b" "state_cell (notify e b) = state_cell b"
  "baseline (notify e b) = baseline b" "opened_at_millis (notify e b) = opened_at_millis b"
  "half_open_probes (notify e b) = half_open_probes b"
  "probe_claimed_at_millis (notify e b) = probe_claimed_at_millis b"
  "is_open_fast (notify e b) = is_open_fast b" "window (notify e b) = window b"
  by (simp_all add: notify_def)

lemma store_state_simps [simp]:
  "config (store_state st b) = config b" "state_cell (store_state st b) = as_u8 st"
  "baseline (store_state st b) = baseline b"
  "opened_at_millis (store_state st b) = opened_at_millis b"
  "half_open_probes (store_state st b) = half_open_probes b"
  "probe_claimed_at_millis (store_state st b) = probe_claimed_at_millis b"
  "is_open_fast (store_state st b) = is_open_fast b" "window (store_state st b) = window b"
  by (simp_all add: store_state_def)

lemma unat_as_millis: "d div 1000000 < 2 ^ 64 \<Longrightarrow> unat (as_millis_u64 d) = d div 1000000"
  by (simp add: as_millis_u64_def unat_of_nat take_bit_eq_mod unsigned_of_nat)

lemma unat_elapsed_millis:
  "millis_since b t < 2 ^ 64 \<Longrightarrow> unat (elapsed_millis t b) = millis_since b t"
  by (simp add: elapsed_millis_def millis_since_def unat_as_millis)

lemma unat_saturating_sub: "unat (saturating_sub a b) = unat a - unat b"
  by (auto simp: saturating_sub_def unat_sub word_le_nat_alt not_le)

lemma millis_since_cong: "baseline b' = baseline b \<Longrightarrow> millis_since b' t = millis_since b t"
  by (simp add: millis_since_def)

lemma millis_since_mono: "t \<le> t' \<Longrightarrow> millis_since b t \<le> millis_since b t'"
  unfolding millis_since_def by (intro div_le_mono diff_le_mono)

lemmas breaker_times = unat_elapsed_millis unat_saturating_sub unat_as_millis

lemma breaker_inv_mono: "breaker_inv t b \<Longrightarrow> t \<le> t' \<Longrightarrow> breaker_inv t' b"
  using millis_since_mono [of t t' b]
  by (auto simp: breaker_inv_def window_inv_def intro: order_trans)

lemma breaker_inv_new: "breaker_inv t (with_clock c t)"
  by (auto simp: breaker_inv_def with_clock_def breaker_state_def probes_inv_def window_inv_def
      window_new_def window_ok_def)

section \<open>Checks\<close>

lemma unat_succ: "a < b \<Longrightarrow> unat (a + 1) = unat a + 1" for a b :: u64
proof -
  assume "a < b"
  then have "unat a + 1 < 2 ^ 64"
    using unsigned_less [of b, where 'a = nat] by (simp add: word_less_nat_alt)
  then show ?thesis by (simp add: unat_word_ariths)
qed

lemma probe_cells:
  "breaker_state (snd (try_half_open_probe t b)) = breaker_state b"
  "state_cell (snd (try_half_open_probe t b)) = state_cell b"
  "config (snd (try_half_open_probe t b)) = config b"
  "baseline (snd (try_half_open_probe t b)) = baseline b"
  "is_open_fast (snd (try_half_open_probe t b)) = is_open_fast b"
  "opened_at_millis (snd (try_half_open_probe t b)) = opened_at_millis b"
  "window (snd (try_half_open_probe t b)) = window b"
  "half_open_probes (snd (try_half_open_probe t b)) =
     (if half_open_probes b < half_open_max_probes (config b) then half_open_probes b + 1
      else half_open_probes b)"
  "probe_claimed_at_millis (snd (try_half_open_probe t b)) \<in>
     {probe_claimed_at_millis b, elapsed_millis t b}"
  by (simp_all add: try_half_open_probe_def Let_def breaker_state_def)

lemma backoff_millis: "HALF_OPEN_PROBE_BACKOFF = 50000000"
proof -
  have "unat (50 :: u64) = 50" by simp
  then show ?thesis by (simp only: HALF_OPEN_PROBE_BACKOFF_def from_millis_def)
qed

lemma probe_refines:
  assumes "breaker_state b = HalfOpen" and ms: "millis_since b t < 2 ^ 64"
    and "config_ok (config b)" and "unat (probe_claimed_at_millis b) \<le> millis_since b t"
  shows "(fst (try_half_open_probe t b), abs_breaker (snd (try_half_open_probe t b)))
    = spec_check (config b) (millis_since b t) (abs_breaker b)"
proof -
  let ?lease = "as_millis_u64 (open_duration (config b))"
  have lease: "?lease \<le> saturating_sub (elapsed_millis t b) (probe_claimed_at_millis b)
      \<longleftrightarrow> unat (probe_claimed_at_millis b) + open_duration (config b) div 1000000 \<le> millis_since b t"
    using assms by (simp add: word_le_nat_alt breaker_times config_ok_def) linarith
  have probes: "half_open_probes b < half_open_max_probes (config b)
      \<longleftrightarrow> unat (half_open_probes b) < unat (half_open_max_probes (config b))"
    by (simp add: word_less_nat_alt)
  show ?thesis
    using assms(1) ms unat_succ [of "half_open_probes b" "half_open_max_probes (config b)"]
    by (simp add: try_half_open_probe_def spec_check_def abs_breaker_def breaker_state_def Let_def
        lease probes backoff_millis unat_elapsed_millis)
qed

lemma probe_inv:
  assumes inv: "1 \<le> half_open_max_probes (config b)" "state_cell b = as_u8 HalfOpen" "\<not> is_open_fast b"
      "half_open_probes b \<le> half_open_max_probes (config b)" "window_inv t (window b)"
      "unat (opened_at_millis b) \<le> millis_since b t"
      "unat (probe_claimed_at_millis b) \<le> millis_since b t"
    and ms: "millis_since b t < 2 ^ 64"
  shows "breaker_inv t (snd (try_half_open_probe t b))"
proof -
  have st: "breaker_state b = HalfOpen" using inv(2) by (simp add: breaker_state_def)
  have n: "1 \<le> half_open_probes (snd (try_half_open_probe t b))
     \<and> half_open_probes (snd (try_half_open_probe t b)) \<le> half_open_max_probes (config b)"
    using inv(1,4) by (auto simp: probe_cells word_le_nat_alt word_less_nat_alt unat_succ not_less)
  have "unat (probe_claimed_at_millis (snd (try_half_open_probe t b))) \<le> millis_since b t"
    using probe_cells(9) [of t b] inv(7) ms by (auto simp: unat_elapsed_millis)
  then show ?thesis
    using inv st n
    by (simp add: breaker_inv_def probes_inv_def probe_cells millis_since_cong [OF probe_cells(4)])
qed

lemma check_open_eq:
  assumes "state_cell b = as_u8 Open"
  shows "check_open t b =
    (let elapsed = from_millis (saturating_sub (elapsed_millis t b) (opened_at_millis b))
     in if open_duration (config b) \<le> elapsed
        then try_half_open_probe t (notify (on_state_change Open HalfOpen ''open_elapsed'')
               (b\<lparr>state_cell := as_u8 HalfOpen, is_open_fast := False\<rparr>))
        else (Inl \<lparr>retry_after = open_duration (config b) - elapsed\<rparr>, b))"
  using assms by (simp add: check_open_def cas_state_def Let_def)

lemma check_refines:
  assumes inv: "breaker_inv t b" and ms: "millis_since b t < 2 ^ 64"
    and c: "config_ok (config b)" "enabled (config b)"
  shows "(fst (check t b), abs_breaker (snd (check t b)))
    = spec_check (config b) (millis_since b t) (abs_breaker b)"
    and "breaker_inv t (snd (check t b))" and "config (snd (check t b)) = config b"
    and "baseline (snd (check t b)) = baseline b"
proof -
  let ?b1 = "notify (on_state_change Open HalfOpen ''open_elapsed'')
    (b\<lparr>state_cell := as_u8 HalfOpen, is_open_fast := False\<rparr>)"
  obtain st where st: "state_cell b = as_u8 st" using inv by (auto simp: breaker_inv_def)
  have "(fst (check t b), abs_breaker (snd (check t b)))
      = spec_check (config b) (millis_since b t) (abs_breaker b) \<and> breaker_inv t (snd (check t b))
      \<and> config (snd (check t b)) = config b \<and> baseline (snd (check t b)) = baseline b"
  proof (cases st)
    case Closed
    with st inv c show ?thesis
      by (simp add: check_def breaker_state_def spec_check_def abs_breaker_def)
  next
    case HalfOpen
    then have eq: "check t b = try_half_open_probe t b"
      using st c by (simp add: check_def breaker_state_def)
    show ?thesis
      unfolding eq using HalfOpen st inv ms c
      by (intro conjI probe_refines probe_inv)
        (auto simp: breaker_inv_def breaker_state_def probes_inv_def probe_cells)
  next
    case Open
    then have eq: "check t b = check_open t b"
      using st c by (simp add: check_def breaker_state_def)
    have st0: "breaker_state b = Open" using st Open by (simp add: breaker_state_def)
    have zero: "half_open_probes b = 0" using inv st0 by (simp add: breaker_inv_def probes_inv_def)
    have st1: "breaker_state ?b1 = HalfOpen" by (simp add: breaker_state_def)
    have one: "0 < unat (half_open_max_probes (config b))"
      using inv by (simp add: breaker_inv_def word_le_nat_alt)
    let ?el = "from_millis (saturating_sub (elapsed_millis t b) (opened_at_millis b))"
    have el: "?el = (millis_since b t - unat (opened_at_millis b)) * 1000000"
      using ms by (simp add: from_millis_def breaker_times)
    show ?thesis
    proof (cases "open_duration (config b) \<le> ?el")
      case True
      then have eq1: "check t b = try_half_open_probe t ?b1"
        using st Open by (simp add: eq check_open_eq)
      have ms1: "millis_since ?b1 t = millis_since b t" by (rule millis_since_cong) simp
      have "(fst (try_half_open_probe t ?b1), abs_breaker (snd (try_half_open_probe t ?b1)))
          = spec_check (config b) (millis_since b t) (abs_breaker ?b1)"
        using probe_refines [of ?b1 t] st1 ms c inv by (simp add: ms1 breaker_inv_def)
      also have "\<dots> = spec_check (config b) (millis_since b t) (abs_breaker b)"
        using True el st0 st1 zero one by (simp add: spec_check_def abs_breaker_def)
      moreover have "breaker_inv t (snd (try_half_open_probe t ?b1))"
        by (rule probe_inv) (use inv ms st1 zero in \<open>simp_all add: ms1 breaker_inv_def\<close>)
      ultimately show ?thesis by (simp add: eq1 probe_cells)
    next
      case False
      then show ?thesis
        using st Open st0 inv el by (simp add: eq check_open_eq spec_check_def abs_breaker_def)
    qed
  qed
  then show "(fst (check t b), abs_breaker (snd (check t b)))
      = spec_check (config b) (millis_since b t) (abs_breaker b)"
    "breaker_inv t (snd (check t b))" "config (snd (check t b)) = config b"
    "baseline (snd (check t b)) = baseline b" by auto
qed

section \<open>Records\<close>

lemma entries_push:
  assumes "window_ok w"
  shows "entries (window_push f t w) =
    (let ys = entries w @ [(t, f)] in drop (length ys - MAX_WINDOW_ENTRIES) ys)"
proof (cases "MAX_WINDOW_ENTRIES \<le> length (entries w)")
  case True
  then have "length (entries w) = MAX_WINDOW_ENTRIES"
    using assms by (simp add: window_ok_def)
  then show ?thesis
    by (cases "entries w") (simp_all add: window_push_def Let_def MAX_WINDOW_ENTRIES_def)
qed (simp add: window_push_def Let_def)

lemma sorted_push:
  assumes "window_inv t w"
  shows "sorted (map fst (entries (window_push f t w)))"
    and "\<forall>e \<in> set (entries (window_push f t w)). fst e \<le> t"
proof -
  let ?ys = "entries w @ [(t, f)]"
  have w: "window_ok w" "sorted (map fst ?ys)" "\<forall>e \<in> set ?ys. fst e \<le> t"
    using assms by (auto simp: window_inv_def sorted_append)
  have eq: "entries (window_push f t w) = drop (length ?ys - MAX_WINDOW_ENTRIES) ?ys"
    using entries_push [OF w(1)] by (simp add: Let_def)
  show "sorted (map fst (entries (window_push f t w)))"
    unfolding eq drop_map [symmetric] by (rule sorted_wrt_drop) (rule w(2))
  show "\<forall>e \<in> set (entries (window_push f t w)). fst e \<le> t"
    unfolding eq using w(3) by (blast dest: in_set_dropD)
qed

lemma add_sample_window:
  assumes "window_inv t (window b)"
  shows "entries (window (add_sample f t b)) = recent_samples (config b) t f (entries (window b))"
    and "window_inv t (window (add_sample f t b))"
proof -
  have ok: "window_ok (window b)" using assms by (simp add: window_inv_def)
  have eq: "entries (window (add_sample f t b))
      = filter (\<lambda>(ts, _). t \<le> ts + window_duration (config b)) (entries (window_push f t (window b)))"
    by (simp add: add_sample_def entries_evict sorted_push [OF assms])
  then show "entries (window (add_sample f t b)) = recent_samples (config b) t f (entries (window b))"
    by (simp add: entries_push [OF ok] recent_samples_def Let_def)
  have "window_ok (window (add_sample f t b))"
    by (simp add: add_sample_def window_ok_evict window_ok_push ok)
  then show "window_inv t (window (add_sample f t b))"
    using sorted_push(1) [OF assms]
    by (auto simp: window_inv_def eq intro: sorted_filter dest: sorted_push(2) [OF assms, THEN bspec])
qed

lemma add_sample_cells [simp]:
  "config (add_sample f t b) = config b" "state_cell (add_sample f t b) = state_cell b"
  "baseline (add_sample f t b) = baseline b"
  "opened_at_millis (add_sample f t b) = opened_at_millis b"
  "half_open_probes (add_sample f t b) = half_open_probes b"
  "probe_claimed_at_millis (add_sample f t b) = probe_claimed_at_millis b"
  "is_open_fast (add_sample f t b) = is_open_fast b"
  by (simp_all add: add_sample_def)

lemma should_trip_samples:
  assumes "window_ok (window b)"
  shows "should_trip b \<longleftrightarrow> samples_trip (config b) (entries (window b))"
  using assms by (auto simp: should_trip_def samples_trip_def failing_def sample_count_def
      window_error_rate_def window_ok_def)

lemma trip_cells:
  "config (trip t prev r b) = config b" "state_cell (trip t prev r b) = as_u8 Open"
  "baseline (trip t prev r b) = baseline b"
  "opened_at_millis (trip t prev r b) = elapsed_millis t b"
  "half_open_probes (trip t prev r b) = 0"
  "probe_claimed_at_millis (trip t prev r b) = probe_claimed_at_millis b"
  "is_open_fast (trip t prev r b)" "window (trip t prev r b) = window b"
  by (simp_all add: trip_def Let_def elapsed_millis_def)

lemma close_cells:
  "config (close_breaker prev r b) = config b" "state_cell (close_breaker prev r b) = as_u8 Closed"
  "baseline (close_breaker prev r b) = baseline b"
  "opened_at_millis (close_breaker prev r b) = opened_at_millis b"
  "half_open_probes (close_breaker prev r b) = 0"
  "probe_claimed_at_millis (close_breaker prev r b) = probe_claimed_at_millis b"
  "\<not> is_open_fast (close_breaker prev r b)"
  "window (close_breaker prev r b) = window_clear (window b)"
  by (simp_all add: close_breaker_def Let_def)

text \<open>The three effects a record can have on the cells, each with its meaning in the
  specification.\<close>

lemma trip_refines:
  assumes "breaker_inv t b" and ms: "millis_since b t < 2 ^ 64"
  shows "abs_breaker (trip t prev r b) = (abs_breaker b)\<lparr>phase := Tripped (millis_since b t)\<rparr>"
    and "breaker_inv t (trip t prev r b)"
  using assms millis_since_cong [OF trip_cells(3), of t prev r b t]
  by (auto simp: abs_breaker_def breaker_inv_def breaker_state_def probes_inv_def trip_cells
      unat_elapsed_millis)

lemma close_refines:
  assumes "breaker_inv t b"
  shows "abs_breaker (close_breaker prev r b) = \<lparr>phase = Shut, samples = []\<rparr>"
    and "breaker_inv t (close_breaker prev r b)"
  using assms millis_since_cong [OF close_cells(3), of prev r b t]
  by (auto simp: abs_breaker_def breaker_inv_def breaker_state_def probes_inv_def close_cells
      window_clear_def window_inv_def window_ok_def)

lemma add_sample_refines:
  assumes "breaker_inv t b"
  shows "abs_breaker (add_sample f t b)
      = (abs_breaker b)\<lparr>samples := recent_samples (config b) t f (samples (abs_breaker b))\<rparr>"
    and "breaker_inv t (add_sample f t b)"
  using assms add_sample_window [of t b f] millis_since_cong [of "add_sample f t b" b t]
  by (auto simp: abs_breaker_def breaker_inv_def breaker_state_def probes_inv_def
      split: BreakerState.split)

lemma notify_refines [simp]:
  "abs_breaker (notify e b) = abs_breaker b" "breaker_inv t (notify e b) = breaker_inv t b"
  by (simp_all add: abs_breaker_def breaker_inv_def breaker_state_def probes_inv_def
      millis_since_def split: BreakerState.split)

lemma record_refines:
  assumes inv: "breaker_inv t b" and ms: "millis_since b t < 2 ^ 64" and en: "enabled (config b)"
  shows "abs_breaker (record_outcome o' t b)
      = spec_record (config b) (millis_since b t) o' t (abs_breaker b)"
    and "breaker_inv t (record_outcome o' t b)" and "config (record_outcome o' t b) = config b"
    and "baseline (record_outcome o' t b) = baseline b"
proof -
  let ?f = "o' = Failure"
  let ?w = "add_sample ?f t b"
  note w = add_sample_refines [OF inv, of ?f]
  have wms: "millis_since ?w t = millis_since b t" by (rule millis_since_cong) simp
  have st: "should_trip ?w \<longleftrightarrow>
      samples_trip (config b) (recent_samples (config b) t ?f (samples (abs_breaker b)))"
    using w(2) should_trip_samples [of ?w] arg_cong [OF w(1), of samples]
    by (simp add: breaker_inv_def window_inv_def abs_breaker_def)
  have "abs_breaker (record_outcome o' t b)
      = spec_record (config b) (millis_since b t) o' t (abs_breaker b)
      \<and> breaker_inv t (record_outcome o' t b) \<and> config (record_outcome o' t b) = config b
      \<and> baseline (record_outcome o' t b) = baseline b"
  proof (cases "breaker_state b")
    case Closed
    then have p: "phase (abs_breaker b) = Shut" by (simp add: abs_breaker_def)
    show ?thesis
      using Closed en p w st trip_refines [OF w(2)] ms wms
      by (simp add: record_outcome_def spec_record_def Let_def trip_cells)
  next
    case Open
    then have p: "phase (abs_breaker b) = Tripped (unat (opened_at_millis b))"
      by (simp add: abs_breaker_def)
    show ?thesis
      using Open en p w by (simp add: record_outcome_def spec_record_def Let_def)
  next
    case HalfOpen
    then have p: "phase (abs_breaker b) =
        Probing (unat (half_open_probes b)) (unat (probe_claimed_at_millis b))"
      by (simp add: abs_breaker_def)
    show ?thesis
      using HalfOpen en p trip_refines [OF inv ms] close_refines [OF inv]
      by (simp add: record_outcome_def spec_record_def Let_def trip_cells close_cells)
  qed
  then show "abs_breaker (record_outcome o' t b)
      = spec_record (config b) (millis_since b t) o' t (abs_breaker b)"
    "breaker_inv t (record_outcome o' t b)" "config (record_outcome o' t b) = config b"
    "baseline (record_outcome o' t b) = baseline b" by auto
qed

section \<open>Schedules of calls\<close>

datatype breaker_call = Check | Record Outcome

definition call_breaker ::
  "breaker_call \<Rightarrow> instant \<Rightarrow> CircuitBreakerInner \<Rightarrow> (BreakerOpen + unit) option \<times> CircuitBreakerInner" where
  "call_breaker call t b = (case call of
      Check \<Rightarrow> map_prod Some id (check t b)
    | Record o' \<Rightarrow> (None, record_outcome o' t b))"

definition call_spec ::
  "BreakerConfig \<Rightarrow> instant \<Rightarrow> breaker_call \<Rightarrow> instant \<Rightarrow> breaker_spec \<Rightarrow>
     (BreakerOpen + unit) option \<times> breaker_spec" where
  "call_spec c t0 call t a =
     (let ms = (t - t0) div 1000000
      in case call of
        Check \<Rightarrow> map_prod Some id (spec_check c ms a)
      | Record o' \<Rightarrow> (None, spec_record c ms o' t a))"

fun run_calls :: "('call \<Rightarrow> instant \<Rightarrow> 's \<Rightarrow> 'r \<times> 's) \<Rightarrow> (instant \<times> 'call) list \<Rightarrow> 's \<Rightarrow> 'r list \<times> 's" where
  "run_calls f [] s = ([], s)"
| "run_calls f ((t, call) # rest) s =
     (let (r, s1) = f call t s; (rs, s2) = run_calls f rest s1 in (r # rs, s2))"

text \<open>The times of a schedule do not decrease and stay in a range.\<close>

fun timely :: "(instant \<Rightarrow> bool) \<Rightarrow> instant \<Rightarrow> (instant \<times> 'call) list \<Rightarrow> bool" where
  "timely ok t [] = True"
| "timely ok t ((t', _) # rest) \<longleftrightarrow> t \<le> t' \<and> ok t' \<and> timely ok t' rest"

definition u64_range :: "instant \<Rightarrow> instant \<Rightarrow> bool" where
  "u64_range t0 t \<longleftrightarrow> (t - t0) div 1000000 < 2 ^ 64"

fun last_time :: "instant \<Rightarrow> (instant \<times> 'call) list \<Rightarrow> instant" where
  "last_time t [] = t"
| "last_time t ((t', _) # rest) = last_time t' rest"

text \<open>A timed component implements another one when its calls correspond under an invariant
  that the passing of time keeps. Then whole schedules correspond.\<close>

locale timed_simulation =
  fixes impl :: "'call \<Rightarrow> instant \<Rightarrow> 's \<Rightarrow> 'r \<times> 's"
    and spec :: "'call \<Rightarrow> instant \<Rightarrow> 'a \<Rightarrow> 'r \<times> 'a"
    and abs :: "'s \<Rightarrow> 'a"
    and inv :: "instant \<Rightarrow> 's \<Rightarrow> bool"
    and in_range :: "instant \<Rightarrow> bool"
  assumes inv_later: "inv t s \<Longrightarrow> t \<le> t' \<Longrightarrow> inv t' s"
    and call_abs: "inv t s \<Longrightarrow> in_range t \<Longrightarrow> spec call t (abs s) = map_prod id abs (impl call t s)"
    and call_inv: "inv t s \<Longrightarrow> in_range t \<Longrightarrow> inv t (snd (impl call t s))"
begin

lemma run_abs:
  "inv t s \<Longrightarrow> timely in_range t calls \<Longrightarrow>
   run_calls spec calls (abs s) = map_prod id abs (run_calls impl calls s)
   \<and> inv (last_time t calls) (snd (run_calls impl calls s))"
proof (induction calls arbitrary: t s)
  case (Cons x calls)
  obtain t1 call where x: "x = (t1, call)" by (cases x)
  have inv: "inv t1 s" and ok: "in_range t1" and rest: "timely in_range t1 calls"
    using Cons.prems by (auto simp: x intro: inv_later)
  note one = call_abs [OF inv ok, of call] call_inv [OF inv ok, of call]
  note tail = Cons.IH [OF one(2) rest]
  show ?case using one(1) tail by (simp add: x split_beta)
qed simp

end

definition breaker_ok :: "BreakerConfig \<Rightarrow> instant \<Rightarrow> instant \<Rightarrow> CircuitBreakerInner \<Rightarrow> bool" where
  "breaker_ok c t0 t b \<longleftrightarrow> config b = c \<and> baseline b = t0 \<and> config_ok c \<and> enabled c \<and> breaker_inv t b"

lemma call_breaker_ok:
  assumes "breaker_ok c t0 t b" and "u64_range t0 t"
  shows "call_spec c t0 call t (abs_breaker b) = map_prod id abs_breaker (call_breaker call t b)"
    and "breaker_ok c t0 t (snd (call_breaker call t b))"
proof -
  have b: "config b = c" "baseline b = t0" "breaker_inv t b" "millis_since b t < 2 ^ 64"
      "config_ok (config b)" "enabled (config b)" "config_ok c" "enabled c"
    using assms by (auto simp: breaker_ok_def u64_range_def millis_since_def)
  note ck = check_refines [OF b(3-6)]
  note rc = record_refines [OF b(3,4,6)]
  have ms: "(t - t0) div 1000000 = millis_since b t" by (simp add: millis_since_def b)
  show "call_spec c t0 call t (abs_breaker b) = map_prod id abs_breaker (call_breaker call t b)"
    using ck(1) [symmetric] rc(1)
    by (simp add: call_spec_def call_breaker_def ms b map_prod_def split_beta split: breaker_call.split)
  show "breaker_ok c t0 t (snd (call_breaker call t b))"
    using ck(2-4) rc(2-4) b
    by (simp add: breaker_ok_def call_breaker_def map_prod_def split_beta split: breaker_call.split)
qed

interpretation breaker_sim: timed_simulation call_breaker "call_spec c t0" abs_breaker
    "breaker_ok c t0" "u64_range t0" for c t0
proof unfold_locales
  show "breaker_ok c t0 t b \<Longrightarrow> t \<le> t' \<Longrightarrow> breaker_ok c t0 t' b" for t t' b
    by (auto simp: breaker_ok_def intro: breaker_inv_mono)
qed (rule call_breaker_ok, assumption+)+

lemma abs_breaker_new: "abs_breaker (with_clock c t) = \<lparr>phase = Shut, samples = []\<rparr>"
  by (simp add: abs_breaker_def with_clock_def breaker_state_def window_new_def)

lemma is_open_phase:
  "breaker_inv t b \<Longrightarrow> is_open b \<longleftrightarrow> (\<exists>since. phase (abs_breaker b) = Tripped since)"
  by (auto simp: breaker_inv_def is_open_def abs_breaker_def split: BreakerState.splits)

section \<open>The presets\<close>

lemma samples_trip_half:
  assumes "error_rate_threshold c = Finite (1 / 2)" and "length xs \<le> MAX_WINDOW_ENTRIES"
    and "min_samples c \<noteq> 0"
  shows "samples_trip c xs \<longleftrightarrow> unat (min_samples c) \<le> length xs \<and> length xs \<le> 2 * failing xs"
proof -
  have "0 < unat (min_samples c)" using assms(3) by (simp add: unat_gt_0)
  then have pos: "0 < length xs" if "unat (min_samples c) \<le> length xs" using that by linarith
  have "length xs < 2 ^ 52" using assms(2) by (simp add: MAX_WINDOW_ENTRIES_def)
  note half = f64_quotient_half [OF pos this]
  then show ?thesis
    using assms(1) pos by (auto simp: samples_trip_def f64_ge_def)
qed

section \<open>The probe limit\<close>

definition admitted :: "(BreakerOpen + unit) option list \<Rightarrow> nat" where
  "admitted rs = length (filter (\<lambda>r. r = Some (Inr ())) rs)"

lemma fst_run_calls_Cons:
  "fst (run_calls f ((t, call) # rest) s) =
     fst (f call t s) # fst (run_calls f rest (snd (f call t s)))"
  by (simp split: prod.split)

lemma call_spec_Check:
  "call_spec c t0 Check t a = map_prod Some id (spec_check c ((t - t0) div 1000000) a)"
  by (simp add: call_spec_def Let_def)

lemma admitted_Cons: "admitted (r # rs) = (if r = Some (Inr ()) then 1 else 0) + admitted rs"
  by (simp add: admitted_def)

lemmas check_run_simps = fst_run_calls_Cons call_spec_Check spec_check_def admitted_Cons

text \<open>Checks at times \<open>ts\<close>; \<open>horizon\<close> bounds their milliseconds.\<close>

lemma probing_admits:
  assumes "phase a = Probing n claimed" and "n \<le> unat (half_open_max_probes c)"
    and "horizon \<le> claimed + open_duration c div 1000000"
    and "timely ok t (map (\<lambda>t. (t, Check)) ts)" and "\<forall>t' \<in> set ts. (t' - t0) div 1000000 < horizon"
    and "claimed \<le> (t - t0) div 1000000"
  shows "admitted (fst (run_calls (call_spec c t0) (map (\<lambda>t. (t, Check)) ts) a))
    \<le> unat (half_open_max_probes c) - n"
  using assms
proof (induction ts arbitrary: a n claimed t)
  case (Cons t1 ts)
  let ?ms = "(t1 - t0) div 1000000"
  let ?rest = "\<lambda>a. run_calls (call_spec c t0) (map (\<lambda>t. (t, Check)) ts) a"
  have lt: "?ms < horizon" using Cons.prems(5) by simp
  have le: "claimed \<le> ?ms"
    using Cons.prems(4,6) by (auto intro: order_trans div_le_mono diff_le_mono)
  have lim: "\<not> claimed + open_duration c div 1000000 \<le> ?ms" using lt Cons.prems(3) by linarith
  show ?case
  proof (cases "n < unat (half_open_max_probes c)")
    case True
    let ?a = "a\<lparr>phase := Probing (n + 1) ?ms\<rparr>"
    have "admitted (fst (?rest ?a)) \<le> unat (half_open_max_probes c) - (n + 1)"
      by (rule Cons.IH [of _ _ ?ms t1]) (use Cons.prems True le in auto)
    then show ?thesis
      using True Cons.prems(1)
      by (simp add: check_run_simps del: run_calls.simps)
  next
    case False
    have "admitted (fst (?rest a)) \<le> unat (half_open_max_probes c) - n"
      by (rule Cons.IH [of _ _ claimed t1]) (use Cons.prems le in auto)
    then show ?thesis
      using False lim Cons.prems(1)
      by (simp add: check_run_simps del: run_calls.simps)
  qed
qed (simp add: admitted_def)

lemma tripped_admits:
  assumes "phase a = Tripped since" and "1 \<le> unat (half_open_max_probes c)"
    and "timely ok t (map (\<lambda>t. (t, Check)) ts)"
    and "\<forall>t' \<in> set ts. (t' - t0) div 1000000 < (t - t0) div 1000000 + open_duration c div 1000000"
  shows "admitted (fst (run_calls (call_spec c t0) (map (\<lambda>t. (t, Check)) ts) a))
    \<le> unat (half_open_max_probes c)"
  using assms
proof (induction ts arbitrary: t)
  case (Cons t1 ts)
  let ?ms = "(t1 - t0) div 1000000"
  let ?rest = "\<lambda>a. run_calls (call_spec c t0) (map (\<lambda>t. (t, Check)) ts) a"
  have mono: "(t - t0) div 1000000 \<le> ?ms"
    using Cons.prems(3) by (auto intro: div_le_mono diff_le_mono)
  show ?case
  proof (cases "open_duration c \<le> (?ms - since) * 1000000")
    case True
    have "admitted (fst (?rest (a\<lparr>phase := Probing 1 ?ms\<rparr>))) \<le> unat (half_open_max_probes c) - 1"
      by (rule probing_admits [of _ _ ?ms _ "?ms + open_duration c div 1000000" _ t1])
        (use Cons.prems mono in \<open>auto intro: less_le_trans\<close>)
    then show ?thesis
      using True Cons.prems(1,2)
      by (simp add: check_run_simps del: run_calls.simps)
  next
    case False
    have "admitted (fst (?rest a)) \<le> unat (half_open_max_probes c)"
      by (rule Cons.IH [of t1]) (use Cons.prems mono in \<open>auto intro: less_le_trans\<close>)
    then show ?thesis
      using False Cons.prems(1)
      by (simp add: check_run_simps del: run_calls.simps)
  qed
qed (simp add: admitted_def)

end
