(* ===== verification/Breaker_Threads.thy ===== *)
theory Breaker_Threads
  imports Breaker_Spec
begin

text \<open>
  The circuit breaker under concurrent calls. A thread is at a program point of \<open>check\<close> or
  \<open>record\<close> with the locals live there; each step is one atomic access to a shared cell, one
  critical section of the window's mutex, one reading of the clock or one observer callback,
  in the order of \<open>breaker.rs\<close>. The system interleaves the steps of any number of threads
  with the passing of time; a thread that has returned may call again at any moment, so a
  caller that never records its outcome is included. Steps take effect in one order for all
  threads; what the weaker orderings of the source allow beyond that is not modelled.

  The lemmas show that a call which is not interrupted does what the operation of \<open>Breaker\<close>
  does, in a bounded number of steps, and which facts about the cells survive every
  interleaving: they are enough to bring a check through after one cool-down.
\<close>

section \<open>Program points\<close>

datatype pc =
    Idle
  | Done "(BreakerOpen + unit) option"
  | check_load_state
  | open_load_opened
  | open_read_clock u64
  | open_cas
  | open_clear_mirror
  | open_notify
  | open_reload_state
  | open_reload_opened
  | open_reread_clock u64
  | probe_read_clock
  | probe_fetch_add u64
  | probe_store_claim u64
  | probe_notify bool
  | probe_fetch_sub u64
  | probe_load_claim u64
  | probe_cas_claim u64 u64
  | record_read_clock Outcome
  | record_load_state Outcome instant
  | record_sample Outcome instant
  | record_sample_open Outcome instant
  | trip_store_state Outcome BreakerState string
  | trip_read_clock Outcome BreakerState string
  | trip_store_opened Outcome BreakerState string u64
  | trip_reset_probes Outcome BreakerState string
  | trip_set_mirror Outcome BreakerState string
  | trip_notify Outcome BreakerState string
  | close_store_state Outcome BreakerState string
  | close_clear_window Outcome BreakerState string
  | close_reset_probes Outcome BreakerState string
  | close_clear_mirror Outcome BreakerState string
  | close_notify Outcome BreakerState string
  | record_reload_state Outcome
  | record_notify Outcome BreakerState

text \<open>\<open>if !enabled { return }\<close> reads only the configuration, which is immutable.\<close>

definition start_call :: "CircuitBreakerInner \<Rightarrow> breaker_call \<Rightarrow> pc" where
  "start_call b call = (case call of
      Check \<Rightarrow> if enabled (config b) then check_load_state else Done (Some (Inr ()))
    | Record o' \<Rightarrow> if enabled (config b) then record_read_clock o' else Done None)"

fun check_step :: "instant \<Rightarrow> CircuitBreakerInner \<Rightarrow> pc \<Rightarrow> CircuitBreakerInner \<times> pc" where
  "check_step t b check_load_state = (b, case breaker_state b of
      Closed \<Rightarrow> Done (Some (Inr ())) | Open \<Rightarrow> open_load_opened | HalfOpen \<Rightarrow> probe_read_clock)"
| "check_step t b p = (b, p)"

fun open_step :: "instant \<Rightarrow> CircuitBreakerInner \<Rightarrow> pc \<Rightarrow> CircuitBreakerInner \<times> pc" where
  "open_step t b open_load_opened = (b, open_read_clock (opened_at_millis b))"
| "open_step t b (open_read_clock opened) =
     (let elapsed = from_millis (saturating_sub (elapsed_millis t b) opened)
      in (b, if open_duration (config b) \<le> elapsed then open_cas
             else Done (Some (Inl \<lparr>retry_after = open_duration (config b) - elapsed\<rparr>))))"
| "open_step t b open_cas =
     (case cas_state Open HalfOpen b of (won, b') \<Rightarrow>
        (b', if won then open_clear_mirror else open_reload_state))"
| "open_step t b open_clear_mirror = (b\<lparr>is_open_fast := False\<rparr>, open_notify)"
| "open_step t b open_notify =
     (notify (on_state_change Open HalfOpen ''open_elapsed'') b, probe_read_clock)"
| "open_step t b open_reload_state = (b, case breaker_state b of
      Closed \<Rightarrow> Done (Some (Inr ())) | HalfOpen \<Rightarrow> probe_read_clock | Open \<Rightarrow> open_reload_opened)"
| "open_step t b open_reload_opened = (b, open_reread_clock (opened_at_millis b))"
| "open_step t b (open_reread_clock opened) =
     (b, Done (Some (Inl \<lparr>retry_after = open_duration (config b)
           - from_millis (saturating_sub (elapsed_millis t b) opened)\<rparr>)))"
| "open_step t b p = (b, p)"

fun probe_step :: "instant \<Rightarrow> CircuitBreakerInner \<Rightarrow> pc \<Rightarrow> CircuitBreakerInner \<times> pc" where
  "probe_step t b probe_read_clock = (b, probe_fetch_add (elapsed_millis t b))"
| "probe_step t b (probe_fetch_add now) =
     (b\<lparr>half_open_probes := half_open_probes b + 1\<rparr>,
      if half_open_probes b < half_open_max_probes (config b) then probe_store_claim now
      else probe_fetch_sub now)"
| "probe_step t b (probe_store_claim now) =
     (b\<lparr>probe_claimed_at_millis := now\<rparr>, probe_notify True)"
| "probe_step t b (probe_notify allowed) = (notify (on_probe_admission allowed) b,
     Done (Some (if allowed then Inr ()
       else Inl \<lparr>retry_after = min HALF_OPEN_PROBE_BACKOFF (open_duration (config b))\<rparr>)))"
| "probe_step t b (probe_fetch_sub now) =
     (b\<lparr>half_open_probes := half_open_probes b - 1\<rparr>, probe_load_claim now)"
| "probe_step t b (probe_load_claim now) =
     (let claimed = probe_claimed_at_millis b
      in (b, if as_millis_u64 (open_duration (config b)) \<le> saturating_sub now claimed
             then probe_cas_claim now claimed else probe_notify False))"
| "probe_step t b (probe_cas_claim now claimed) =
     (if probe_claimed_at_millis b = claimed
      then (b\<lparr>probe_claimed_at_millis := now\<rparr>, probe_notify True)
      else (b, probe_notify False))"
| "probe_step t b p = (b, p)"

fun record_step :: "instant \<Rightarrow> CircuitBreakerInner \<Rightarrow> pc \<Rightarrow> CircuitBreakerInner \<times> pc" where
  "record_step t b (record_read_clock o') = (b, record_load_state o' t)"
| "record_step t b (record_load_state o' now) = (b, case breaker_state b of
      Closed \<Rightarrow> record_sample o' now
    | HalfOpen \<Rightarrow> if o' = Failure then trip_store_state o' HalfOpen ''probe_failure''
                  else close_store_state o' HalfOpen ''probe_success''
    | Open \<Rightarrow> record_sample_open o' now)"
| "record_step t b (record_sample o' now) =
     (let b' = add_sample (o' = Failure) now b
      in (b', if should_trip b' then trip_store_state o' Closed ''trip'' else record_reload_state o'))"
| "record_step t b (record_sample_open o' now) =
     (add_sample (o' = Failure) now b, record_reload_state o')"
| "record_step t b (record_reload_state o') = (b, record_notify o' (breaker_state b))"
| "record_step t b (record_notify o' st) = (notify (on_outcome o' st) b, Done None)"
| "record_step t b p = (b, p)"

fun trip_step :: "instant \<Rightarrow> CircuitBreakerInner \<Rightarrow> pc \<Rightarrow> CircuitBreakerInner \<times> pc" where
  "trip_step t b (trip_store_state o' prev r) = (store_state Open b, trip_read_clock o' prev r)"
| "trip_step t b (trip_read_clock o' prev r) = (b, trip_store_opened o' prev r (elapsed_millis t b))"
| "trip_step t b (trip_store_opened o' prev r now) =
     (b\<lparr>opened_at_millis := now\<rparr>, trip_reset_probes o' prev r)"
| "trip_step t b (trip_reset_probes o' prev r) =
     (b\<lparr>half_open_probes := 0\<rparr>, trip_set_mirror o' prev r)"
| "trip_step t b (trip_set_mirror o' prev r) = (b\<lparr>is_open_fast := True\<rparr>, trip_notify o' prev r)"
| "trip_step t b (trip_notify o' prev r) =
     (if prev \<noteq> Open then notify (on_state_change prev Open r) b else b, record_reload_state o')"
| "trip_step t b p = (b, p)"

fun close_step :: "CircuitBreakerInner \<Rightarrow> pc \<Rightarrow> CircuitBreakerInner \<times> pc" where
  "close_step b (close_store_state o' prev r) = (store_state Closed b, close_clear_window o' prev r)"
| "close_step b (close_clear_window o' prev r) =
     (b\<lparr>window := window_clear (window b)\<rparr>, close_reset_probes o' prev r)"
| "close_step b (close_reset_probes o' prev r) =
     (b\<lparr>half_open_probes := 0\<rparr>, close_clear_mirror o' prev r)"
| "close_step b (close_clear_mirror o' prev r) = (b\<lparr>is_open_fast := False\<rparr>, close_notify o' prev r)"
| "close_step b (close_notify o' prev r) =
     (if prev \<noteq> Closed then notify (on_state_change prev Closed r) b else b, record_reload_state o')"
| "close_step b p = (b, p)"

fun in_trip :: "pc \<Rightarrow> bool" where
  "in_trip (trip_store_state _ _ _) = True"
| "in_trip (trip_read_clock _ _ _) = True"
| "in_trip (trip_store_opened _ _ _ _) = True"
| "in_trip (trip_reset_probes _ _ _) = True"
| "in_trip (trip_set_mirror _ _ _) = True"
| "in_trip (trip_notify _ _ _) = True"
| "in_trip _ = False"

fun in_close :: "pc \<Rightarrow> bool" where
  "in_close (close_store_state _ _ _) = True"
| "in_close (close_clear_window _ _ _) = True"
| "in_close (close_reset_probes _ _ _) = True"
| "in_close (close_clear_mirror _ _ _) = True"
| "in_close (close_notify _ _ _) = True"
| "in_close _ = False"

fun in_open :: "pc \<Rightarrow> bool" where
  "in_open open_load_opened = True"
| "in_open (open_read_clock _) = True"
| "in_open open_cas = True"
| "in_open open_clear_mirror = True"
| "in_open open_notify = True"
| "in_open open_reload_state = True"
| "in_open open_reload_opened = True"
| "in_open (open_reread_clock _) = True"
| "in_open _ = False"

fun in_probe :: "pc \<Rightarrow> bool" where
  "in_probe probe_read_clock = True"
| "in_probe (probe_fetch_add _) = True"
| "in_probe (probe_store_claim _) = True"
| "in_probe (probe_notify _) = True"
| "in_probe (probe_fetch_sub _) = True"
| "in_probe (probe_load_claim _) = True"
| "in_probe (probe_cas_claim _ _) = True"
| "in_probe _ = False"

fun in_record :: "pc \<Rightarrow> bool" where
  "in_record (record_read_clock _) = True"
| "in_record (record_load_state _ _) = True"
| "in_record (record_sample _ _) = True"
| "in_record (record_sample_open _ _) = True"
| "in_record (record_reload_state _) = True"
| "in_record (record_notify _ _) = True"
| "in_record _ = False"

definition thread_step :: "instant \<Rightarrow> CircuitBreakerInner \<Rightarrow> pc \<Rightarrow> CircuitBreakerInner \<times> pc" where
  "thread_step t b p =
     (if in_trip p then trip_step t b p
      else if in_close p then close_step b p
      else if in_record p then record_step t b p
      else if in_open p then open_step t b p
      else if in_probe p then probe_step t b p
      else check_step t b p)"

fun returned :: "pc \<Rightarrow> bool" where
  "returned Idle = True"
| "returned (Done _) = True"
| "returned _ = False"

section \<open>An uninterrupted call\<close>

fun solo :: "nat \<Rightarrow> instant \<Rightarrow> CircuitBreakerInner \<times> pc \<Rightarrow> CircuitBreakerInner \<times> pc" where
  "solo 0 t (b, p) = (b, p)"
| "solo (Suc n) t (b, p) = (if returned p then (b, p) else solo n t (thread_step t b p))"

lemma solo_returned [simp]: "solo n t (b, Done r) = (b, Done r)"
  by (cases n) simp_all

text \<open>The longest path, through a lost lease, has twelve steps.\<close>

lemma solo_probe:
  "solo (Suc (Suc (Suc (Suc (Suc (Suc n)))))) t (b, probe_read_clock)
     = (snd (try_half_open_probe t b), Done (Some (fst (try_half_open_probe t b))))"
  by (simp add: thread_step_def try_half_open_probe_def Let_def)

lemma solo_open:
  "solo (Suc (Suc (Suc (Suc (Suc (Suc (Suc (Suc (Suc (Suc (Suc n))))))))))) t (b, open_load_opened)
     = (snd (check_open t b), Done (Some (fst (check_open t b))))"
proof (cases "open_duration (config b)
    \<le> from_millis (saturating_sub (elapsed_millis t b) (opened_at_millis b))")
  case True
  then show ?thesis
    by (cases "state_cell b = as_u8 Open"; cases "breaker_state b")
      (simp_all add: thread_step_def check_open_def cas_state_def Let_def try_half_open_probe_def
        elapsed_millis_def)
next
  case False
  then show ?thesis by (simp add: thread_step_def check_open_def Let_def)
qed

lemma solo_check:
  "solo 12 t (b, start_call b Check) = (snd (check t b), Done (Some (fst (check t b))))"
proof (cases "enabled (config b)")
  case True
  have 11: "(11 :: nat) = Suc (Suc (Suc (Suc (Suc (Suc (Suc (Suc (Suc (Suc (Suc 0))))))))))" by simp
  have "solo 12 t (b, start_call b Check) = solo (Suc 11) t (b, check_load_state)"
    using True by (simp add: start_call_def)
  also have "\<dots> = solo 11 t (b, case breaker_state b of
      Closed \<Rightarrow> Done (Some (Inr ())) | Open \<Rightarrow> open_load_opened | HalfOpen \<Rightarrow> probe_read_clock)"
    by (simp only: solo.simps returned.simps if_False thread_step_def in_trip.simps in_close.simps
        in_record.simps in_open.simps in_probe.simps check_step.simps)
  also have "\<dots> = (snd (check t b), Done (Some (fst (check t b))))"
    unfolding check_def 11 using True
    by (cases "breaker_state b")
      (simp_all only: solo_open solo_probe solo_returned BreakerState.case if_False not_True_eq_False
        fst_conv snd_conv)
  finally show ?thesis .
next
  case False
  then show ?thesis by (simp add: start_call_def check_def)
qed

lemma solo_record:
  "solo 12 t (b, start_call b (Record o')) = (record_outcome o' t b, Done None)"
  by (cases "breaker_state b")
    (simp_all add: start_call_def record_outcome_def eval_nat_numeral thread_step_def Let_def
      trip_def close_breaker_def elapsed_millis_def store_state_def breaker_state_def)

lemma solo_call:
  "solo 12 t (b, start_call b call) = (snd (call_breaker call t b), Done (fst (call_breaker call t b)))"
  by (cases call) (simp_all add: call_breaker_def solo_check solo_record)

section \<open>Interleaving\<close>

record breaker_system =
  clock :: instant
  cells :: CircuitBreakerInner
  threads :: "pc list"

datatype event = Tick duration | Call nat breaker_call | Run nat

fun enabled_event :: "breaker_system \<Rightarrow> event \<Rightarrow> bool" where
  "enabled_event s (Tick d) = True"
| "enabled_event s (Call i _) \<longleftrightarrow> i < length (threads s) \<and> returned (threads s ! i)"
| "enabled_event s (Run i) \<longleftrightarrow> i < length (threads s) \<and> \<not> returned (threads s ! i)"

fun exec_event :: "event \<Rightarrow> breaker_system \<Rightarrow> breaker_system" where
  "exec_event (Tick d) s = s\<lparr>clock := clock s + d\<rparr>"
| "exec_event (Call i call) s = s\<lparr>threads := (threads s)[i := start_call (cells s) call]\<rparr>"
| "exec_event (Run i) s = (case thread_step (clock s) (cells s) (threads s ! i) of
     (b, p) \<Rightarrow> s\<lparr>cells := b, threads := (threads s)[i := p]\<rparr>)"

inductive breaker_reach :: "breaker_system \<Rightarrow> breaker_system \<Rightarrow> bool" where
  start: "breaker_reach s s"
| step: "breaker_reach s s' \<Longrightarrow> enabled_event s' ev \<Longrightarrow> breaker_reach s (exec_event ev s')"

definition breaker_start :: "BreakerConfig \<Rightarrow> instant \<Rightarrow> nat \<Rightarrow> breaker_system" where
  "breaker_start c t n = \<lparr>clock = t, cells = with_clock c t, threads = replicate n Idle\<rparr>"

fun run_events :: "event list \<Rightarrow> breaker_system \<Rightarrow> breaker_system option" where
  "run_events [] s = Some s"
| "run_events (ev # evs) s = (if enabled_event s ev then run_events evs (exec_event ev s) else None)"

lemma run_events_reach:
  "breaker_reach s0 s \<Longrightarrow> run_events evs s = Some s' \<Longrightarrow> breaker_reach s0 s'"
  by (induction evs arbitrary: s) (auto intro: breaker_reach.step split: if_splits)

section \<open>What every interleaving keeps\<close>

text \<open>Times read from the clock and not yet stored.\<close>

fun local_millis :: "pc \<Rightarrow> u64" where
  "local_millis (probe_fetch_add m) = m"
| "local_millis (probe_store_claim m) = m"
| "local_millis (probe_fetch_sub m) = m"
| "local_millis (probe_load_claim m) = m"
| "local_millis (probe_cas_claim m _) = m"
| "local_millis (trip_store_opened _ _ _ m) = m"
| "local_millis _ = 0"

definition cells_inv :: "BreakerConfig \<Rightarrow> instant \<Rightarrow> instant \<Rightarrow> CircuitBreakerInner \<Rightarrow> bool" where
  "cells_inv c t0 t b \<longleftrightarrow> config b = c \<and> baseline b = t0
     \<and> (\<exists>st. state_cell b = as_u8 st) \<and> window_ok (window b)
     \<and> unat (opened_at_millis b) \<le> (t - t0) div 1000000
     \<and> unat (probe_claimed_at_millis b) \<le> (t - t0) div 1000000"

definition pc_inv :: "instant \<Rightarrow> instant \<Rightarrow> pc \<Rightarrow> bool" where
  "pc_inv t0 t p \<longleftrightarrow> unat (local_millis p) \<le> (t - t0) div 1000000"

definition threads_inv :: "BreakerConfig \<Rightarrow> instant \<Rightarrow> breaker_system \<Rightarrow> bool" where
  "threads_inv c t0 s \<longleftrightarrow> cells_inv c t0 (clock s) (cells s)
     \<and> (\<forall>p \<in> set (threads s). pc_inv t0 (clock s) p)"

lemma unat_elapsed_le: "unat (elapsed_millis t b) \<le> (t - baseline b) div 1000000"
  by (simp add: elapsed_millis_def as_millis_u64_def unsigned_of_nat take_bit_nat_less_eq_self)

lemma window_ok_add_sample: "window_ok (window b) \<Longrightarrow> window_ok (window (add_sample f t b))"
  by (simp add: add_sample_def window_ok_evict window_ok_push)

lemma check_step_inv:
  assumes "cells_inv c t0 t b" "pc_inv t0 t p"
  shows "cells_inv c t0 t (fst (check_step t b p)) \<and> pc_inv t0 t (snd (check_step t b p))"
  using assms by (cases p) (auto simp: cells_inv_def pc_inv_def split: BreakerState.split)

lemma open_step_inv:
  assumes "cells_inv c t0 t b" "pc_inv t0 t p"
  shows "cells_inv c t0 t (fst (open_step t b p)) \<and> pc_inv t0 t (snd (open_step t b p))"
  using assms
  by (cases p) (auto simp: cells_inv_def pc_inv_def cas_state_def Let_def split: BreakerState.split)

lemma probe_step_inv:
  assumes "cells_inv c t0 t b" "pc_inv t0 t p"
  shows "cells_inv c t0 t (fst (probe_step t b p)) \<and> pc_inv t0 t (snd (probe_step t b p))"
  using assms unat_elapsed_le [of t b]
  by (cases p) (auto simp: cells_inv_def pc_inv_def Let_def)

lemma record_step_inv:
  assumes "cells_inv c t0 t b" "pc_inv t0 t p"
  shows "cells_inv c t0 t (fst (record_step t b p)) \<and> pc_inv t0 t (snd (record_step t b p))"
  using assms window_ok_add_sample
  by (cases p) (auto simp: cells_inv_def pc_inv_def Let_def split: BreakerState.split)

lemma trip_step_inv:
  assumes "cells_inv c t0 t b" "pc_inv t0 t p"
  shows "cells_inv c t0 t (fst (trip_step t b p)) \<and> pc_inv t0 t (snd (trip_step t b p))"
  using assms unat_elapsed_le [of t b]
  by (cases p) (auto simp: cells_inv_def pc_inv_def)

lemma close_step_inv:
  assumes "cells_inv c t0 t b" "pc_inv t0 t p"
  shows "cells_inv c t0 t (fst (close_step b p)) \<and> pc_inv t0 t (snd (close_step b p))"
  using assms by (cases p) (auto simp: cells_inv_def pc_inv_def)

lemma thread_step_inv:
  assumes "cells_inv c t0 t b" "pc_inv t0 t p"
  shows "cells_inv c t0 t (fst (thread_step t b p)) \<and> pc_inv t0 t (snd (thread_step t b p))"
  using check_step_inv [OF assms] record_step_inv [OF assms] trip_step_inv [OF assms]
    close_step_inv [OF assms] open_step_inv [OF assms] probe_step_inv [OF assms]
  by (simp add: thread_step_def)

lemma inv_later:
  assumes "t \<le> t'"
  shows "cells_inv c t0 t b \<Longrightarrow> cells_inv c t0 t' b" "pc_inv t0 t p \<Longrightarrow> pc_inv t0 t' p"
proof -
  have "(t - t0) div 1000000 \<le> (t' - t0) div 1000000"
    using assms by (intro div_le_mono diff_le_mono)
  then show "cells_inv c t0 t b \<Longrightarrow> cells_inv c t0 t' b" "pc_inv t0 t p \<Longrightarrow> pc_inv t0 t' p"
    by (auto simp: cells_inv_def pc_inv_def)
qed

lemma pc_inv_start: "pc_inv t0 t (start_call b call)"
  by (auto simp: pc_inv_def start_call_def split: breaker_call.split)

lemma exec_event_inv:
  assumes "threads_inv c t0 s" and "enabled_event s ev"
  shows "threads_inv c t0 (exec_event ev s)"
proof (cases ev)
  case (Tick d)
  then show ?thesis
    using assms inv_later [of "clock s" "clock s + d"] by (auto simp: threads_inv_def)
next
  case (Call i call)
  have "\<forall>p \<in> set ((threads s)[i := start_call (cells s) call]). pc_inv t0 (clock s) p"
    using assms set_update_subset_insert [of "threads s" i "start_call (cells s) call"]
    by (auto simp: threads_inv_def pc_inv_start)
  then show ?thesis using assms Call by (simp add: threads_inv_def)
next
  case (Run i)
  let ?r = "thread_step (clock s) (cells s) (threads s ! i)"
  have "pc_inv t0 (clock s) (threads s ! i)"
    using assms Run by (auto simp: threads_inv_def)
  then have r: "cells_inv c t0 (clock s) (fst ?r) \<and> pc_inv t0 (clock s) (snd ?r)"
    using assms(1) by (intro thread_step_inv) (simp_all add: threads_inv_def)
  have "\<forall>p \<in> set ((threads s)[i := snd ?r]). pc_inv t0 (clock s) p"
    using assms r set_update_subset_insert [of "threads s" i "snd ?r"]
    by (auto simp: threads_inv_def)
  then show ?thesis using r Run by (simp add: threads_inv_def split_beta)
qed

definition effective_config :: "BreakerConfig \<Rightarrow> BreakerConfig" where
  "effective_config c = c\<lparr>half_open_max_probes := max (half_open_max_probes c) 1\<rparr>"

lemma threads_inv_start: "threads_inv (effective_config c) t0 (breaker_start c t0 n)"
  by (auto simp: threads_inv_def breaker_start_def cells_inv_def with_clock_def pc_inv_def
      effective_config_def)

lemma reach_inv:
  assumes "breaker_reach (breaker_start c t0 n) s"
  shows "threads_inv (effective_config c) t0 s"
proof -
  have "breaker_reach s0 s \<Longrightarrow> threads_inv (effective_config c) t0 s0 \<Longrightarrow>
      threads_inv (effective_config c) t0 s" for s0
    by (induction rule: breaker_reach.induct) (auto intro: exec_event_inv)
  then show ?thesis using assms threads_inv_start by blast
qed

section \<open>A cool-down is enough\<close>

text \<open>Whatever the cells hold, a check that finds the recorded times a cool-down old is
  admitted: no counter value and no stale mirror can keep it out.\<close>

lemma probe_after_lease:
  assumes "as_millis_u64 (open_duration (config b))
    \<le> saturating_sub (elapsed_millis t b) (probe_claimed_at_millis b)"
  shows "fst (try_half_open_probe t b) = Inr ()"
  using assms by (simp add: try_half_open_probe_def Let_def)

lemma check_after_cooldown:
  assumes "state_cell b = as_u8 st"
    and lease: "as_millis_u64 (open_duration (config b))
      \<le> saturating_sub (elapsed_millis t b) (probe_claimed_at_millis b)"
    and opened: "open_duration (config b)
      \<le> from_millis (saturating_sub (elapsed_millis t b) (opened_at_millis b))"
  shows "fst (check t b) = Inr ()"
proof (cases st)
  case Open
  then show ?thesis
    using assms by (simp add: check_def breaker_state_def check_open_eq probe_after_lease
        elapsed_millis_def)
qed (use assms probe_after_lease in \<open>simp_all add: check_def breaker_state_def\<close>)

lemma cooldown_times:
  assumes "cells_inv c t0 t b" and "config_ok c" and "t \<le> t'"
    and u64: "(t' - t0) div 1000000 < 2 ^ 64"
    and wait: "open_duration c \<le> ((t' - t0) div 1000000 - (t - t0) div 1000000) * 1000000"
  shows "as_millis_u64 (open_duration (config b))
      \<le> saturating_sub (elapsed_millis t' b) (probe_claimed_at_millis b)"
    and "open_duration (config b)
      \<le> from_millis (saturating_sub (elapsed_millis t' b) (opened_at_millis b))"
proof -
  let ?ms = "(t' - t0) div 1000000"
  have b: "config b = c" "baseline b = t0"
      "unat (opened_at_millis b) \<le> (t - t0) div 1000000"
      "unat (probe_claimed_at_millis b) \<le> (t - t0) div 1000000"
    using assms(1) by (simp_all add: cells_inv_def)
  have ms: "unat (elapsed_millis t' b) = ?ms"
    using u64 b(2) unat_elapsed_millis [of b t'] by (simp add: millis_since_def)
  have "open_duration c div 1000000 \<le> ?ms - (t - t0) div 1000000"
    using div_le_mono [OF wait, of 1000000] by simp
  then show "as_millis_u64 (open_duration (config b))
      \<le> saturating_sub (elapsed_millis t' b) (probe_claimed_at_millis b)"
    using assms(2) b by (simp add: word_le_nat_alt unat_saturating_sub ms unat_as_millis config_ok_def)
      linarith
  have "open_duration c \<le> (?ms - unat (opened_at_millis b)) * 1000000"
    by (rule order_trans [OF wait]) (use b(3) in \<open>simp add: diff_le_mono2\<close>)
  then show "open_duration (config b)
      \<le> from_millis (saturating_sub (elapsed_millis t' b) (opened_at_millis b))"
    using b by (simp add: from_millis_def unat_saturating_sub ms)
qed

end
