(* ===== verification/Breaker_Schedules.thy ===== *)
theory Breaker_Schedules
  imports Breaker_Threads
begin

text \<open>
  Schedules of the threads of a circuit breaker. The first part measures how many own steps a
  call has left, whatever the other threads do. The second part builds schedules: a thread that
  is scheduled alone does what the sequential operation does, and any number of probes follow
  each other without the clock moving.
\<close>

section \<open>Steps left\<close>

fun steps_left :: "pc \<Rightarrow> nat" where
  "steps_left check_load_state = 12"
| "steps_left open_load_opened = 11"
| "steps_left (open_read_clock _) = 10"
| "steps_left open_cas = 9"
| "steps_left open_clear_mirror = 8"
| "steps_left open_notify = 7"
| "steps_left open_reload_state = 7"
| "steps_left open_reload_opened = 2"
| "steps_left (open_reread_clock _) = 1"
| "steps_left probe_read_clock = 6"
| "steps_left (probe_fetch_add _) = 5"
| "steps_left (probe_store_claim _) = 2"
| "steps_left (probe_fetch_sub _) = 4"
| "steps_left (probe_load_claim _) = 3"
| "steps_left (probe_cas_claim _ _) = 2"
| "steps_left (probe_notify _) = 1"
| "steps_left (record_read_clock _) = 11"
| "steps_left (record_load_state _ _) = 10"
| "steps_left (record_sample _ _) = 9"
| "steps_left (record_sample_open _ _) = 3"
| "steps_left (trip_store_state _ _ _) = 8"
| "steps_left (trip_read_clock _ _ _) = 7"
| "steps_left (trip_store_opened _ _ _ _) = 6"
| "steps_left (trip_reset_probes _ _ _) = 5"
| "steps_left (trip_set_mirror _ _ _) = 4"
| "steps_left (trip_notify _ _ _) = 3"
| "steps_left (close_store_state _ _ _) = 7"
| "steps_left (close_clear_window _ _ _) = 6"
| "steps_left (close_reset_probes _ _ _) = 5"
| "steps_left (close_clear_mirror _ _ _) = 4"
| "steps_left (close_notify _ _ _) = 3"
| "steps_left (record_reload_state _) = 2"
| "steps_left (record_notify _ _) = 1"
| "steps_left _ = 0"

text \<open>Whether the call under way, or the one that returned last, is a check.\<close>

definition is_checking :: "pc \<Rightarrow> bool" where
  "is_checking p = (case p of Done r \<Rightarrow> r \<noteq> None | _ \<Rightarrow> \<not> in_record p \<and> \<not> in_trip p \<and> \<not> in_close p)"

lemma thread_step_progress:
  assumes "\<not> returned p"
  shows "steps_left (snd (thread_step t b p)) < steps_left p \<and> is_checking (snd (thread_step t b p)) = is_checking p
    \<and> snd (thread_step t b p) \<noteq> Idle"
  using assms
  by (cases p) (auto simp: thread_step_def is_checking_def cas_state_def Let_def split: BreakerState.split prod.split)

lemma start_call_steps:
  "steps_left (start_call b call) \<le> 12" "is_checking (start_call b call) \<longleftrightarrow> call = Check" "start_call b call \<noteq> Idle"
  by (auto simp: start_call_def is_checking_def split: breaker_call.split)

lemma events_progress:
  assumes "run_events evs s = Some s'" and "i < length (threads s)" and "\<forall>c. Call i c \<notin> set evs"
  shows "length (filter (\<lambda>ev. ev = Run i) evs) + steps_left (threads s' ! i) \<le> steps_left (threads s ! i)
    \<and> length (threads s') = length (threads s) \<and> is_checking (threads s' ! i) = is_checking (threads s ! i)
    \<and> (threads s ! i \<noteq> Idle \<longrightarrow> threads s' ! i \<noteq> Idle)"
  using assms
proof (induction evs arbitrary: s)
  case (Cons ev evs)
  from Cons.prems have on: "enabled_event s ev" and run: "run_events evs (exec_event ev s) = Some s'"
    by (auto split: if_splits)
  have len: "length (threads (exec_event ev s)) = length (threads s)"
    by (cases ev) (simp_all split: prod.split)
  note IH = Cons.IH [OF run, unfolded len, OF Cons.prems(2)]
  show ?case
  proof (cases "ev = Run i")
    case True
    let ?r = "thread_step (clock s) (cells s) (threads s ! i)"
    have "threads (exec_event ev s) ! i = snd ?r" using True Cons.prems(2) by (simp split: prod.split)
    moreover have "\<not> returned (threads s ! i)" using on True by simp
    ultimately show ?thesis using IH thread_step_progress [of "threads s ! i" "clock s" "cells s"] Cons.prems(3) True
      by auto
  next
    case False
    then have "threads (exec_event ev s) ! i = threads s ! i"
      using Cons.prems(3) by (cases ev) (auto split: prod.split)
    then show ?thesis using IH False Cons.prems(3) by auto
  qed
qed simp

section \<open>Schedules\<close>

definition untimed :: "event list \<Rightarrow> bool" where
  "untimed evs \<longleftrightarrow> (\<forall>d. Tick d \<notin> set evs)"

lemma untimed_append [simp]: "untimed (xs @ ys) \<longleftrightarrow> untimed xs \<and> untimed ys"
  by (auto simp: untimed_def)

lemma run_events_append:
  "run_events xs s = Some s1 \<Longrightarrow> run_events ys s1 = Some s2 \<Longrightarrow> run_events (xs @ ys) s = Some s2"
  by (induction xs arbitrary: s) (auto split: if_splits)

lemma run_alone:
  assumes "i < length (threads s)"
  shows "\<exists>evs. untimed evs \<and> run_events evs s = Some (s\<lparr>cells := fst (solo n (clock s) (cells s, threads s ! i)),
    threads := (threads s)[i := snd (solo n (clock s) (cells s, threads s ! i))]\<rparr>)"
  using assms
proof (induction n arbitrary: s)
  case (Suc n)
  show ?case
  proof (cases "returned (threads s ! i)")
    case False
    obtain b p where step: "thread_step (clock s) (cells s) (threads s ! i) = (b, p)" by fastforce
    let ?s = "s\<lparr>cells := b, threads := (threads s)[i := p]\<rparr>"
    from Suc.IH [of ?s] Suc.prems obtain evs where "untimed evs"
        "run_events evs ?s = Some (s\<lparr>cells := fst (solo n (clock s) (b, p)),
           threads := (threads s)[i := snd (solo n (clock s) (b, p))]\<rparr>)" by auto
    then show ?thesis
      using False step Suc.prems by (intro exI [of _ "Run i # evs"]) (auto simp: untimed_def)
  qed (auto intro!: exI [of _ "[]"] simp: untimed_def)
qed (auto intro!: exI [of _ "[]"] simp: untimed_def)

lemma check_alone:
  assumes "i < length (threads s)" and "returned (threads s ! i)"
  shows "\<exists>evs. untimed evs \<and> run_events evs s = Some (s\<lparr>cells := snd (check (clock s) (cells s)),
    threads := (threads s)[i := Done (Some (fst (check (clock s) (cells s))))]\<rparr>)"
proof -
  let ?s = "s\<lparr>threads := (threads s)[i := start_call (cells s) Check]\<rparr>"
  from run_alone [of i ?s 12] assms(1) obtain evs where "untimed evs"
      "run_events evs ?s = Some (s\<lparr>cells := snd (check (clock s) (cells s)),
         threads := (threads s)[i := Done (Some (fst (check (clock s) (cells s))))]\<rparr>)"
    by (auto simp: solo_check)
  then show ?thesis using assms by (intro exI [of _ "Call i Check # evs"]) (auto simp: untimed_def)
qed

section \<open>A series of probes\<close>

text \<open>What a probe leaves alone.\<close>

definition same_phase :: "CircuitBreakerInner \<Rightarrow> CircuitBreakerInner \<Rightarrow> bool" where
  "same_phase b b' \<longleftrightarrow> config b' = config b \<and> baseline b' = baseline b \<and> state_cell b' = state_cell b
     \<and> opened_at_millis b' = opened_at_millis b \<and> is_open_fast b' = is_open_fast b"

lemma check_half_open:
  assumes "enabled (config b)" and "breaker_state b = HalfOpen" and "half_open_probes b < half_open_max_probes (config b)"
  shows "fst (check t b) = Inr () \<and> same_phase b (snd (check t b))
    \<and> half_open_probes (snd (check t b)) = half_open_probes b + 1"
  using assms by (simp add: check_def try_half_open_probe_def Let_def same_phase_def notify_def)

lemma probe_series:
  assumes "enabled (config (cells s))" and "breaker_state (cells s) = HalfOpen"
    and "unat (half_open_probes (cells s)) + k \<le> unat (half_open_max_probes (config (cells s)))"
    and "j + k \<le> length (threads s)" and "\<forall>i. j \<le> i \<and> i < j + k \<longrightarrow> returned (threads s ! i)"
  shows "\<exists>evs s'. untimed evs \<and> run_events evs s = Some s' \<and> clock s' = clock s \<and> same_phase (cells s) (cells s')
    \<and> length (threads s') = length (threads s)
    \<and> (\<forall>i < length (threads s). threads s' ! i =
         (if j \<le> i \<and> i < j + k then Done (Some (Inr ())) else threads s ! i))"
  using assms
proof (induction k arbitrary: j s)
  case 0
  then show ?case by (intro exI [of _ "[]"] exI [of _ s]) (auto simp: untimed_def same_phase_def)
next
  case (Suc k)
  have room: "half_open_probes (cells s) < half_open_max_probes (config (cells s))"
    using Suc.prems(3) by (simp add: word_less_nat_alt)
  note probe = check_half_open [OF Suc.prems(1,2) room, of "clock s"]
  let ?s = "s\<lparr>cells := snd (check (clock s) (cells s)), threads := (threads s)[j := Done (Some (Inr ()))]\<rparr>"
  from check_alone [of j s] Suc.prems(4,5) probe obtain first
    where first: "untimed first" "run_events first s = Some ?s" by auto
  have "unat (half_open_max_probes (config (cells s))) < 2 ^ 64"
    by (rule order_less_le_trans [OF unsigned_less]) simp
  then have "unat (half_open_probes (cells s) + 1) = unat (half_open_probes (cells s)) + 1"
    using room
    by (simp add: unat_word_ariths word_less_nat_alt)
  then have "\<exists>evs s'. untimed evs \<and> run_events evs ?s = Some s' \<and> clock s' = clock ?s \<and> same_phase (cells ?s) (cells s')
      \<and> length (threads s') = length (threads ?s)
      \<and> (\<forall>i < length (threads ?s). threads s' ! i =
           (if Suc j \<le> i \<and> i < Suc j + k then Done (Some (Inr ())) else threads ?s ! i))"
    using Suc.prems probe by (intro Suc.IH) (auto simp: same_phase_def breaker_state_def)
  then obtain evs s' where rest: "untimed evs" "run_events evs ?s = Some s'" "clock s' = clock s"
      "same_phase (cells ?s) (cells s')" "length (threads s') = length (threads s)"
      "\<forall>i < length (threads s). threads s' ! i =
         (if Suc j \<le> i \<and> i < Suc j + k then Done (Some (Inr ())) else threads ?s ! i)" by auto
  have "same_phase (cells s) (cells s')" using rest(4) probe by (simp add: same_phase_def)
  moreover have "\<forall>i < length (threads s). threads s' ! i =
      (if j \<le> i \<and> i < j + Suc k then Done (Some (Inr ())) else threads s ! i)"
    using rest(6) by (auto simp: nth_list_update)
  ultimately show ?case
    using first rest run_events_append [OF first(2) rest(2)] by (intro exI [of _ "first @ evs"] exI [of _ s']) simp
qed

section \<open>A trip that is overtaken\<close>

text \<open>A recording thread up to the point where it has published \<open>Open\<close> and nothing else.\<close>

lemma trip_published:
  assumes "threads s = Idle # rest" and "enabled (config (cells s))" and "breaker_state (cells s) = Closed"
    and "should_trip (add_sample True (clock s) (cells s))"
  shows "\<exists>evs. untimed evs \<and> run_events evs s = Some (s\<lparr>cells := store_state Open (add_sample True (clock s) (cells s)),
    threads := trip_read_clock Failure Closed ''trip'' # rest\<rparr>)"
  using assms
  by (intro exI [of _ "[Call 0 (Record Failure), Run 0, Run 0, Run 0, Run 0]"])
    (simp add: untimed_def start_call_def thread_step_def Let_def)

text \<open>Its remaining steps, whatever the cells have become.\<close>

lemma trip_rest:
  "\<exists>b'. solo 7 t (b, trip_read_clock Failure Closed r) = (b', Done None) \<and> config b' = config b
     \<and> baseline b' = baseline b \<and> state_cell b' = state_cell b \<and> opened_at_millis b' = elapsed_millis t b
     \<and> half_open_probes b' = 0 \<and> is_open_fast b'"
  by (simp add: eval_nat_numeral thread_step_def notify_def)

text \<open>A check that finds \<open>Open\<close> with a time of an earlier trip is admitted at once.\<close>

lemma check_stale:
  assumes "enabled (config b)" and "breaker_state b = Open" and "half_open_probes b < half_open_max_probes (config b)"
    and "open_duration (config b) \<le> from_millis (saturating_sub (elapsed_millis t b) (opened_at_millis b))"
  shows "fst (check t b) = Inr () \<and> breaker_state (snd (check t b)) = HalfOpen \<and> config (snd (check t b)) = config b
    \<and> baseline (snd (check t b)) = baseline b \<and> half_open_probes (snd (check t b)) = half_open_probes b + 1"
proof -
  have "state_cell b = as_u8 Open" using assms(2) by (simp add: breaker_state_def from_u8_def as_u8_def split: if_splits)
  then show ?thesis
    using assms
    by (simp add: check_def check_open_def cas_state_def try_half_open_probe_def Let_def notify_def elapsed_millis_def
        breaker_state_def)
qed

text \<open>Up to \<open>m\<close> checks overtake the trip between its store of \<open>Open\<close> and its reading of the clock.\<close>

lemma overtaken_trip:
  assumes "threads s = replicate (2 * m + 1) Idle" and "m = unat (half_open_max_probes (config (cells s)))" and "0 < m"
    and "enabled (config (cells s))" and "breaker_state (cells s) = Closed" and "half_open_probes (cells s) = 0"
    and "should_trip (add_sample True (clock s) (cells s))"
    and "open_duration (config (cells s))
      \<le> from_millis (saturating_sub (elapsed_millis (clock s) (cells s)) (opened_at_millis (cells s)))"
  shows "\<exists>evs s'. untimed evs \<and> run_events evs s = Some s' \<and> length (threads s') = 2 * m + 1
    \<and> breaker_state (cells s') = HalfOpen \<and> config (cells s') = config (cells s)
    \<and> threads s' ! 0 = trip_read_clock Failure Closed ''trip''
    \<and> (\<forall>i. 1 \<le> i \<longrightarrow> i \<le> m \<longrightarrow> threads s' ! i = Done (Some (Inr ())))
    \<and> (\<forall>i. m < i \<longrightarrow> i \<le> 2 * m \<longrightarrow> threads s' ! i = Idle)"
proof -
  let ?b1 = "store_state Open (add_sample True (clock s) (cells s))"
  let ?s1 = "s\<lparr>cells := ?b1, threads := trip_read_clock Failure Closed ''trip'' # replicate (2 * m) Idle\<rparr>"
  obtain e1 where e1: "untimed e1" "run_events e1 s = Some ?s1"
    using trip_published [of s "replicate (2 * m) Idle"] assms(1,4,5,7) by auto
  have b1: "config ?b1 = config (cells s)" "breaker_state ?b1 = Open" "half_open_probes ?b1 = 0"
      "opened_at_millis ?b1 = opened_at_millis (cells s)" "baseline ?b1 = baseline (cells s)"
    using assms(6) by (simp_all add: store_state_def add_sample_def breaker_state_def)
  have room: "half_open_probes ?b1 < half_open_max_probes (config ?b1)"
    using assms(2,3) b1 by (simp add: word_less_nat_alt)
  let ?b2 = "snd (check (clock s) ?b1)"
  have b2: "fst (check (clock s) ?b1) = Inr ()" "breaker_state ?b2 = HalfOpen" "config ?b2 = config (cells s)"
      "baseline ?b2 = baseline (cells s)" "half_open_probes ?b2 = 1"
    using check_stale [OF _ b1(2) room, of "clock s"] assms(4,8) b1 by (simp_all add: elapsed_millis_def)
  let ?s2 = "s\<lparr>cells := ?b2, threads := (threads ?s1)[1 := Done (Some (Inr ()))]\<rparr>"
  obtain e2 where e2: "untimed e2" "run_events e2 ?s1 = Some ?s2"
    using check_alone [of 1 ?s1] b2(1) assms(3) by auto
  have t2: "length (threads ?s2) = 2 * m + 1" "threads ?s2 ! 0 = trip_read_clock Failure Closed ''trip''"
      "threads ?s2 ! 1 = Done (Some (Inr ()))" "\<And>i. 2 \<le> i \<Longrightarrow> i < 2 * m + 1 \<Longrightarrow> threads ?s2 ! i = Idle"
    using assms(3) by (auto simp: nth_Cons split: nat.splits)
  have "\<exists>evs s'. untimed evs \<and> run_events evs ?s2 = Some s' \<and> clock s' = clock ?s2 \<and> same_phase (cells ?s2) (cells s')
      \<and> length (threads s') = length (threads ?s2)
      \<and> (\<forall>i < length (threads ?s2). threads s' ! i =
           (if 2 \<le> i \<and> i < 2 + (m - 1) then Done (Some (Inr ())) else threads ?s2 ! i))"
  proof (rule probe_series)
    show "unat (half_open_probes (cells ?s2)) + (m - 1) \<le> unat (half_open_max_probes (config (cells ?s2)))"
      using b2(3,5) assms(2,3) by simp
    show "2 + (m - 1) \<le> length (threads ?s2)" unfolding t2(1) using assms(3) by simp
    show "\<forall>i. 2 \<le> i \<and> i < 2 + (m - 1) \<longrightarrow> returned (threads ?s2 ! i)"
    proof (intro allI impI)
      fix i assume "2 \<le> i \<and> i < 2 + (m - 1)"
      then have "threads ?s2 ! i = Idle" by (intro t2(4)) auto
      then show "returned (threads ?s2 ! i)" by (simp only: returned.simps)
    qed
  qed (use b2 assms(4) in simp_all)
  then obtain e3 s3 where e3: "untimed e3" "run_events e3 ?s2 = Some s3" "clock s3 = clock s"
      "same_phase ?b2 (cells s3)" "length (threads s3) = 2 * m + 1"
      "\<forall>i < 2 * m + 1. threads s3 ! i = (if 2 \<le> i \<and> i < 2 + (m - 1) then Done (Some (Inr ())) else threads ?s2 ! i)"
    unfolding t2(1) by auto
  have t3: "threads s3 ! 0 = trip_read_clock Failure Closed ''trip''"
      "\<And>i. 1 \<le> i \<Longrightarrow> i \<le> m \<Longrightarrow> threads s3 ! i = Done (Some (Inr ()))"
      "\<And>i. m < i \<Longrightarrow> i \<le> 2 * m \<Longrightarrow> threads s3 ! i = Idle"
  proof -
    show "threads s3 ! 0 = trip_read_clock Failure Closed ''trip''" using e3(6) t2(2) by simp
    show "threads s3 ! i = Done (Some (Inr ()))" if "1 \<le> i" "i \<le> m" for i
      using e3(6) t2(3) that by (cases "i = 1") simp_all
    show "threads s3 ! i = Idle" if "m < i" "i \<le> 2 * m" for i
      using e3(6) t2(4) [of i] that assms(3) by simp
  qed
  moreover have "breaker_state (cells s3) = HalfOpen" "config (cells s3) = config (cells s)"
    using b2 e3(4) by (simp_all add: same_phase_def breaker_state_def)
  moreover have "run_events (e1 @ e2 @ e3) s = Some s3" "untimed (e1 @ e2 @ e3)"
    using e1 e2 e3(1,2) by (auto intro: run_events_append)
  ultimately show ?thesis using e3(5) by blast
qed

end
