(* ===== verification/Breaker_Properties.thy ===== *)
theory Breaker_Properties
  imports Breaker_Schedules
begin

text \<open>
  The properties of the circuit breaker, from the schedules of \<open>Breaker_Spec\<close> and the
  interleavings of \<open>Breaker_Threads\<close>, with a concrete breaker for each.
\<close>

section \<open>A breaker to evaluate\<close>

text \<open>The server preset with the sample minimum lowered to two, as \<open>CB_MIN_SAMPLES=2\<close> does.\<close>

definition ex_config :: BreakerConfig where
  "ex_config = config_server\<lparr>min_samples := 2\<rparr>"

definition ex_calls :: "(instant \<times> breaker_call) list" where
  "ex_calls = [(1000000, Check), (2000000, Record Success), (3000000, Record Failure),
     (4000000, Check), (10003000000, Check), (10004000000, Check), (10005000000, Record Success)]"

lemma ex_config_ok: "config_ok ex_config" "enabled ex_config"
  by (simp_all add: ex_config_def config_server_def config_ok_def from_secs_def)

lemma ex_timely: "timely (u64_range 0) 0 ex_calls"
  by (simp add: ex_calls_def u64_range_def)

section \<open>Calls in sequence\<close>

text \<open>C17: refinement. Under calls in time order, from a fresh breaker, every answer and the final state of
  the shared cells are those of the three-phase specification, the lock-free mirror says
  exactly whether the breaker is tripped, and the invariant of the cells holds: the state is
  one of the three codes, at most \<open>half_open_max_probes\<close> probes are counted and none outside
  \<open>HalfOpen\<close>, and the window's failure count is exact and its length bounded.\<close>

theorem breaker_refines:
  assumes "config_ok c" and "enabled c" and "timely (u64_range t0) t0 calls"
    and "run_calls call_breaker calls (with_clock c t0) = (rs, b)"
  shows "run_calls (call_spec (effective_config c) t0) calls \<lparr>phase = Shut, samples = []\<rparr>
      = (rs, abs_breaker b)
    \<and> (is_open b \<longleftrightarrow> (\<exists>since. phase (abs_breaker b) = Tripped since))
    \<and> breaker_inv (last_time t0 calls) b"
proof -
  let ?b = "with_clock c t0"
  have b: "config ?b = effective_config c" "baseline ?b = t0"
    by (simp_all add: with_clock_def effective_config_def)
  have "breaker_ok (effective_config c) t0 t0 ?b"
    using assms(1,2) by (simp add: breaker_ok_def b breaker_inv_new) (simp add: effective_config_def config_ok_def)
  from breaker_sim.run_abs [OF this assms(3)] show ?thesis
    by (auto simp: assms(4) abs_breaker_new is_open_phase breaker_ok_def)
qed

text \<open>Two samples, one failing, trip the breaker; ten seconds later one probe is admitted, a
  second is told to come back in 50 ms, and the probe's success shuts the breaker again.\<close>

lemma ex_samples_trip:
  "\<not> samples_trip (effective_config ex_config) [(t1, False)]"
  "samples_trip (effective_config ex_config) [(t1, False), (t2, True)]"
  using samples_trip_half [of "effective_config ex_config" "[(t1, False), (t2, True)]"]
  by (simp_all add: ex_config_def effective_config_def config_server_def MAX_WINDOW_ENTRIES_def
      failing_def samples_trip_def)

lemma ex_spec_run:
  "run_calls (call_spec (effective_config ex_config) 0) ex_calls \<lparr>phase = Shut, samples = []\<rparr>
    = ([Some (Inr ()), None, None, Some (Inl \<lparr>retry_after = 9999000000\<rparr>), Some (Inr ()),
        Some (Inl \<lparr>retry_after = 50000000\<rparr>), None], \<lparr>phase = Shut, samples = []\<rparr>)"
  by (simp add: ex_calls_def call_spec_def spec_check_def spec_record_def recent_samples_def
      ex_samples_trip MAX_WINDOW_ENTRIES_def Let_def)
    (simp add: ex_config_def effective_config_def config_server_def from_secs_def ex_samples_trip)

theorem breaker_refines_witness:
  "abs_breaker (snd (run_calls call_breaker ex_calls (with_clock ex_config 0)))
      = \<lparr>phase = Shut, samples = []\<rparr>
    \<and> fst (run_calls call_breaker ex_calls (with_clock ex_config 0))
      = [Some (Inr ()), None, None, Some (Inl \<lparr>retry_after = 9999000000\<rparr>), Some (Inr ()),
         Some (Inl \<lparr>retry_after = 50000000\<rparr>), None]"
  using breaker_refines [OF ex_config_ok ex_timely surjective_pairing] ex_spec_run by simp

text \<open>C37: bounds. A breaker that is tripped admits at most \<open>half_open_max_probes\<close> of any sequence of
  checks that spans less than a cool-down, as long as no outcome is recorded.\<close>

theorem probe_limit:
  assumes "config_ok (config b)" and "enabled (config b)" and "breaker_inv t b"
    and "breaker_state b = Open"
    and "timely (u64_range (baseline b)) t (map (\<lambda>t. (t, Check)) ts)"
    and "\<forall>t' \<in> set ts. millis_since b t' < millis_since b t + open_duration (config b) div 1000000"
  shows "admitted (fst (run_calls call_breaker (map (\<lambda>t. (t, Check)) ts) b))
    \<le> unat (half_open_max_probes (config b))"
proof -
  have "breaker_ok (config b) (baseline b) t b"
    using assms(1-3) by (simp add: breaker_ok_def)
  from breaker_sim.run_abs [OF this assms(5)]
  have "fst (run_calls (call_spec (config b) (baseline b)) (map (\<lambda>t. (t, Check)) ts) (abs_breaker b))
      = fst (run_calls call_breaker (map (\<lambda>t. (t, Check)) ts) b)"
    by simp
  moreover have "phase (abs_breaker b) = Tripped (unat (opened_at_millis b))"
    using assms(4) by (simp add: abs_breaker_def)
  moreover have "1 \<le> unat (half_open_max_probes (config b))"
    using assms(3) by (simp add: breaker_inv_def word_le_nat_alt)
  ultimately show ?thesis
    using tripped_admits [OF _ _ assms(5) assms(6) [unfolded millis_since_def]] by metis
qed

definition ex_tripped :: CircuitBreakerInner where
  "ex_tripped = trip 1000000 Closed ''trip'' (with_clock ex_config 0)"

lemma ex_tripped_inv: "breaker_inv 1000000 ex_tripped" "config ex_tripped = effective_config ex_config"
    "breaker_state ex_tripped = Open" "baseline ex_tripped = 0"
proof -
  have "breaker_inv 1000000 (with_clock ex_config 0)"
    by (rule breaker_inv_mono [OF breaker_inv_new]) simp
  then show "breaker_inv 1000000 ex_tripped"
    unfolding ex_tripped_def by (rule trip_refines) (simp add: millis_since_def with_clock_def)
qed (simp_all add: ex_tripped_def trip_cells breaker_state_def with_clock_def effective_config_def)

theorem probe_limit_witness:
  "admitted (fst (run_calls call_breaker
      (map (\<lambda>t. (t, Check)) [2000000, 9990000000, 9995000000]) ex_tripped)) \<le> 1"
proof -
  have c: "config_ok (effective_config ex_config)" "enabled (effective_config ex_config)"
      "open_duration (effective_config ex_config) = 10000000000"
      "half_open_max_probes (effective_config ex_config) = 1"
    by (simp_all add: ex_config_def effective_config_def config_server_def config_ok_def
        from_secs_def)
  show ?thesis
    using probe_limit [of ex_tripped 1000000 "[2000000, 9990000000, 9995000000]"]
    by (simp add: ex_tripped_inv c millis_since_def u64_range_def)
qed

text \<open>C33: equivalence. With the default threshold of one half, the floating-point comparison is exact: a
  closed breaker trips on a sample precisely when the live window then has at least
  \<open>min_samples\<close> samples of which at least half failed.\<close>

theorem trips_exactly:
  assumes "breaker_inv t b" and "millis_since b t < 2 ^ 64" and "enabled (config b)"
    and "breaker_state b = Closed" and "error_rate_threshold (config b) = Finite (1 / 2)"
    and "min_samples (config b) \<noteq> 0"
  shows "breaker_state (record_outcome o' t b) =
    (let xs = recent_samples (config b) t (o' = Failure) (entries (window b))
     in if unat (min_samples (config b)) \<le> length xs \<and> length xs \<le> 2 * failing xs
        then Open else Closed)"
proof -
  let ?xs = "recent_samples (config b) t (o' = Failure) (entries (window b))"
  have "length ?xs \<le> MAX_WINDOW_ENTRIES"
    unfolding recent_samples_def Let_def by (rule order_trans [OF length_filter_le]) simp
  note half = samples_trip_half [OF assms(5) this assms(6)]
  have "phase (abs_breaker (record_outcome o' t b)) =
      (if samples_trip (config b) ?xs then Tripped (millis_since b t) else Shut)"
    unfolding record_refines(1) [OF assms(1-3)]
    using assms(4) by (simp add: spec_record_def Let_def abs_breaker_def)
  then show ?thesis
    unfolding half Let_def
    by (auto simp: abs_breaker_def split: BreakerState.splits if_splits)
qed

theorem trips_exactly_witness:
  "breaker_state (record_outcome Failure 5000000 (with_clock config_client 0)) = Closed"
proof -
  have "breaker_inv 5000000 (with_clock config_client 0)"
    by (rule breaker_inv_mono [OF breaker_inv_new]) simp
  then show ?thesis
    using trips_exactly [of 5000000 "with_clock config_client 0" Failure]
    by (simp add: with_clock_def config_client_def millis_since_def breaker_state_def
        recent_samples_def window_new_def MAX_WINDOW_ENTRIES_def)
qed

section \<open>Calls at once\<close>


text \<open>C18: liveness. No interleaving of any number of threads strands the breaker, whatever calls were
  made, abandoned or raced before: after a wait of one \<open>open_duration\<close>, the next check that
  runs without interruption is admitted.\<close>

theorem never_stranded:
  assumes "breaker_reach (breaker_start c t0 n) s" and "config_ok c"
    and "clock s \<le> t" and "(t - t0) div 1000000 < 2 ^ 64"
    and "open_duration c \<le> ((t - t0) div 1000000 - (clock s - t0) div 1000000) * 1000000"
  shows "snd (solo 12 t (cells s, start_call (cells s) Check)) = Done (Some (Inr ()))"
proof -
  have inv: "cells_inv (effective_config c) t0 (clock s) (cells s)"
    using reach_inv [OF assms(1)] by (simp add: threads_inv_def)
  then obtain st where st: "state_cell (cells s) = as_u8 st" by (auto simp: cells_inv_def)
  have "config_ok (effective_config c)" "open_duration (effective_config c) = open_duration c"
    using assms(2) by (simp_all add: config_ok_def effective_config_def)
  then have "fst (check t (cells s)) = Inr ()"
    using assms(3-5) by (intro check_after_cooldown [OF st] cooldown_times [OF inv]) simp_all
  then show ?thesis by (simp add: solo_check)
qed

definition ex_race_config :: BreakerConfig where
  "ex_race_config = config_server\<lparr>min_samples := 1\<rparr>"

text \<open>Ten seconds after start, thread 0 records a failure and stores \<open>Open\<close>; before it stores
  \<open>opened_at_millis\<close>, thread 1 checks, finds the initial time there, and takes a probe; thread
  0 finishes \<open>trip\<close>; thread 2 checks.\<close>

definition ex_race :: "event list" where
  "ex_race = [Tick 10000000000, Call 0 (Record Failure)] @ [Run 0, Run 0, Run 0, Run 0]
     @ [Call 1 Check, Run 1, Run 1, Run 1, Run 1, Run 1, Run 1, Run 1, Run 1, Run 1, Run 1]
     @ [Run 0, Run 0, Run 0, Run 0, Run 0, Run 0, Run 0]
     @ [Call 2 Check, Run 2, Run 2, Run 2, Run 2, Run 2]"

definition ex_raced :: breaker_system where
  "ex_raced = \<lparr>clock = 10000000000,
     cells = \<lparr>config = ex_race_config, state_cell = as_u8 HalfOpen, baseline = 0,
       opened_at_millis = 10000, half_open_probes = 1, probe_claimed_at_millis = 10000,
       is_open_fast = True, window = \<lparr>entries = [(10000000000, True)], failures = 1\<rparr>,
       installed_observer = None,
       observed = [(None, on_state_change Open HalfOpen ''open_elapsed''),
         (None, on_probe_admission True), (None, on_state_change Closed Open ''trip''),
         (None, on_outcome Failure HalfOpen), (None, on_probe_admission True)]\<rparr>,
     threads = [Done None, Done (Some (Inr ())), Done (Some (Inr ()))]\<rparr>"

lemma ex_race_config_simps:
  "enabled ex_race_config" "open_duration ex_race_config = 10000000000"
  "window_duration ex_race_config = 60000000000" "half_open_max_probes ex_race_config = 1"
  "min_samples ex_race_config = 1" "error_rate_threshold ex_race_config = Finite (1 / 2)"
  "with_clock ex_race_config 0 = \<lparr>config = ex_race_config, state_cell = as_u8 Closed,
     baseline = 0, opened_at_millis = 0, half_open_probes = 0, probe_claimed_at_millis = 0,
     is_open_fast = False, window = \<lparr>entries = [], failures = 0\<rparr>, installed_observer = None,
     observed = []\<rparr>"
  by (simp_all add: ex_race_config_def config_server_def from_secs_def with_clock_def window_new_def)

lemma ex_race_sample:
  "window_evict 60000000000 10000000000 (window_push True 10000000000 \<lparr>entries = [], failures = 0\<rparr>)
    = \<lparr>entries = [(10000000000, True)], failures = 1\<rparr>"
  "f64_ge (window_error_rate \<lparr>entries = [(10000000000, True)], failures = Suc 0\<rparr>) (Finite (1 / 2))"
  by (simp_all add: window_evict_def instant_checked_sub_def window_push_def MAX_WINDOW_ENTRIES_def
      window_error_rate_half window_ok_def)

lemma ex_race_millis:
  "as_millis_u64 10000000000 = 10000" "from_millis (saturating_sub 10000 0) = 10000000000"
  "as_millis_u64 (10000000000 - 0) = 10000"
  by (simp_all add: as_millis_u64_def from_millis_def saturating_sub_def)

lemmas ex_race_eval = ex_race_config_simps ex_race_sample ex_race_millis thread_step_def
  start_call_def breaker_state_def elapsed_millis_def add_sample_def should_trip_def
  sample_count_def store_state_def cas_state_def notify_def Let_def numeral_2_eq_2

lemma ex_race_run: "run_events ex_race (breaker_start ex_race_config 0 3) = Some ex_raced"
proof -
  have "replicate 3 Idle = [Idle, Idle, Idle]" by (simp add: numeral_3_eq_3)
  then show ?thesis
    by (simp add: ex_race_def ex_raced_def breaker_start_def ex_race_eval)
qed

text \<open>C35: safety. The cool-down can be skipped and the probe limit exceeded twofold. Take any closed
  breaker whose last trip, if any, lies a cool-down back, whose next failure trips it, and any
  limit of \<open>m\<close> probes. There is an interleaving of one \<open>record\<close> with \<open>2 * m\<close> \<open>check\<close>s in which
  the clock does not move, all of them return and all \<open>2 * m\<close> checks are admitted; it leaves
  \<open>is_open()\<close> true in the state \<open>HalfOpen\<close>, opened at this very instant. \<open>trip\<close> publishes \<open>Open\<close>
  before it stores \<open>opened_at_millis\<close>, resets the probes and sets the mirror.\<close>

theorem trip_race:
  assumes "threads s = replicate (2 * m + 1) Idle" and "m = unat (half_open_max_probes (config (cells s)))" and "0 < m"
    and "enabled (config (cells s))" and "breaker_state (cells s) = Closed" and "half_open_probes (cells s) = 0"
    and "should_trip (add_sample True (clock s) (cells s))"
    and "open_duration (config (cells s))
      \<le> from_millis (saturating_sub (elapsed_millis (clock s) (cells s)) (opened_at_millis (cells s)))"
  shows "\<exists>evs s'. run_events evs s = Some s' \<and> (\<forall>d. Tick d \<notin> set evs) \<and> threads s' ! 0 = Done None
    \<and> (\<forall>i. 1 \<le> i \<and> i \<le> 2 * m \<longrightarrow> threads s' ! i = Done (Some (Inr ())))
    \<and> breaker_state (cells s') = HalfOpen \<and> is_open (cells s')
    \<and> opened_at_millis (cells s') = elapsed_millis (clock s') (cells s')"
proof -
  obtain e3 s3 where e3: "untimed e3" "run_events e3 s = Some s3" "length (threads s3) = 2 * m + 1"
      "breaker_state (cells s3) = HalfOpen" "config (cells s3) = config (cells s)"
    and t3: "threads s3 ! 0 = trip_read_clock Failure Closed ''trip''"
      "\<And>i. 1 \<le> i \<Longrightarrow> i \<le> m \<Longrightarrow> threads s3 ! i = Done (Some (Inr ()))"
      "\<And>i. m < i \<Longrightarrow> i \<le> 2 * m \<Longrightarrow> threads s3 ! i = Idle"
    using overtaken_trip [OF assms] by blast
  obtain b4 where b4: "solo 7 (clock s3) (cells s3, threads s3 ! 0) = (b4, Done None)" "config b4 = config (cells s3)"
      "baseline b4 = baseline (cells s3)" "state_cell b4 = state_cell (cells s3)"
      "opened_at_millis b4 = elapsed_millis (clock s3) (cells s3)" "half_open_probes b4 = 0" "is_open_fast b4"
    using trip_rest [of "clock s3" "cells s3" "''trip''"] t3(1) by auto
  let ?s4 = "s3\<lparr>cells := b4, threads := (threads s3)[0 := Done None]\<rparr>"
  obtain e4 where e4: "untimed e4" "run_events e4 s3 = Some ?s4"
    using run_alone [of 0 s3 7] b4(1) e3(3) by auto
  have half4: "breaker_state b4 = HalfOpen" "config b4 = config (cells s)"
    using b4 e3(4,5) by (simp_all add: breaker_state_def)
  from probe_series [of ?s4 m "m + 1"] half4 b4(6) assms(2,4) t3(3) e3(3) obtain e5 s5
    where e5: "untimed e5" "run_events e5 ?s4 = Some s5" "clock s5 = clock s3" "same_phase b4 (cells s5)"
      "\<forall>i < 2 * m + 1. threads s5 ! i = (if m + 1 \<le> i \<and> i < m + 1 + m then Done (Some (Inr ())) else threads ?s4 ! i)"
    by auto
  have "run_events (e3 @ e4 @ e5) s = Some s5"
    using e3(2) e4(2) e5(2) by (blast intro: run_events_append)
  moreover have "untimed (e3 @ e4 @ e5)" using e3(1) e4(1) e5(1) by simp
  moreover have "threads s5 ! 0 = Done None" using e5(5) e3(3) by (simp add: nth_list_update)
  moreover have "\<forall>i. 1 \<le> i \<and> i \<le> 2 * m \<longrightarrow> threads s5 ! i = Done (Some (Inr ()))"
    using e5(5) t3(2) by (auto simp: nth_list_update not_le)
  moreover have "breaker_state (cells s5) = HalfOpen" "is_open (cells s5)"
      "opened_at_millis (cells s5) = elapsed_millis (clock s5) (cells s5)"
    using e5(3,4) half4 b4 by (simp_all add: same_phase_def breaker_state_def is_open_def elapsed_millis_def)
  ultimately show ?thesis unfolding untimed_def by blast
qed

theorem trip_race_witness:
  "\<exists>evs s'. run_events evs (exec_event (Tick 10000000000) (breaker_start ex_race_config 0 3)) = Some s'
     \<and> half_open_max_probes ex_race_config = 1 \<and> (\<forall>d. Tick d \<notin> set evs)
     \<and> threads s' ! 1 = Done (Some (Inr ())) \<and> threads s' ! 2 = Done (Some (Inr ()))"
proof -
  let ?s = "exec_event (Tick 10000000000) (breaker_start ex_race_config 0 3)"
  have "threads ?s = replicate (2 * 1 + 1) Idle" "1 = unat (half_open_max_probes (config (cells ?s)))"
      "enabled (config (cells ?s))" "breaker_state (cells ?s) = Closed" "half_open_probes (cells ?s) = 0"
      "should_trip (add_sample True (clock ?s) (cells ?s))"
      "open_duration (config (cells ?s))
        \<le> from_millis (saturating_sub (elapsed_millis (clock ?s) (cells ?s)) (opened_at_millis (cells ?s)))"
    by (simp_all add: breaker_start_def ex_race_eval numeral_3_eq_3)
  from trip_race [OF this(1,2) _ this(3-7)] obtain evs s' where "run_events evs ?s = Some s'" "\<forall>d. Tick d \<notin> set evs"
      "\<forall>i. 1 \<le> i \<and> i \<le> 2 * 1 \<longrightarrow> threads s' ! i = Done (Some (Inr ()))" by auto
  then show ?thesis using ex_race_config_simps(4) by (intro exI [of _ evs] exI [of _ s']) simp
qed


theorem never_stranded_witness:
  "snd (solo 12 20000000000 (cells ex_raced, start_call (cells ex_raced) Check)) = Done (Some (Inr ()))"
  using never_stranded [OF run_events_reach [OF breaker_reach.start ex_race_run], of 20000000000]
  by (simp add: ex_raced_def ex_race_config_simps config_ok_def)

end
