(* ===== verification/Perm_Words.thy ===== *)
theory Perm_Words
  imports Perm_Text
begin

text \<open>
  The argument-vector analysis of \<open>permission/bash_command_splitting.rs\<close>: which inner command a
  wrapper such as \<open>timeout\<close>, \<open>nice\<close> or \<open>env\<close> runs, which one \<open>exec\<close>, \<open>command\<close> or \<open>builtin\<close>
  runs, and the bounded alternation of both that the security gates compare rules against.
  A loop over an index becomes recursion on the words that are left; every loop of the source
  is bounded by its vector or by a depth constant, so no fuel is added. The splitting of a
  script into commands is the work of a tree-sitter grammar and is a parameter of the policy.
\<close>

section \<open>Options of env\<close>

definition is_env_assignment :: "string \<Rightarrow> bool" where
  "is_env_assignment tok =
     (if CHR ''='' \<in> set tok then
        (let name = takeWhile (\<lambda>c. c \<noteq> CHR ''='') tok
         in name \<noteq> [] \<and> (is_ascii_alphabetic (hd name) \<or> hd name = CHR ''_'')
            \<and> list_all (\<lambda>b. is_ascii_alphanumeric b \<or> b = CHR ''_'') name)
      else False)"

record EnvScan =
  scan_chdir :: "string option"
  scan_has_split_string :: bool
  options_uncertain :: bool
  split_string_script :: "string option"
  command_start :: nat

fun decode_spelling :: "char option \<Rightarrow> string \<Rightarrow> string option" where
  "decode_spelling None [] = Some []"
| "decode_spelling (Some _) [] = None"
| "decode_spelling None (ch # rest) =
     (if ch = CHR 0x27 \<or> ch = CHR 0x22 then decode_spelling (Some ch) rest
      else if ch = backslash then
        (case rest of [] \<Rightarrow> None | n # rest' \<Rightarrow> map_option ((#) n) (decode_spelling None rest'))
      else map_option ((#) ch) (decode_spelling None rest))"
| "decode_spelling (Some q) (ch # rest) =
     (if ch = q then decode_spelling None rest
      else if q = CHR 0x22 \<and> ch = backslash then
        (case rest of
           [] \<Rightarrow> None
         | n # rest' \<Rightarrow>
             if n \<in> {CHR ''$'', CHR 0x60, CHR 0x22, backslash, CHR 0x0A}
             then map_option ((#) n) (decode_spelling (Some q) rest')
             else map_option ((@) [backslash, n]) (decode_spelling (Some q) rest'))
      else map_option ((#) ch) (decode_spelling (Some q) rest))"

definition decode_shell_literal_spelling :: "string \<Rightarrow> string option" where
  "decode_shell_literal_spelling raw = decode_spelling None raw"

definition decode_env_option_token :: "string \<Rightarrow> string" where
  "decode_env_option_token raw =
     (if CHR 0x27 \<notin> set raw \<and> CHR 0x22 \<notin> set raw then raw
      else case decode_shell_literal_spelling raw of Some decoded \<Rightarrow> decoded | None \<Rightarrow> raw)"

definition is_high_confidence_env_s_payload :: "string \<Rightarrow> bool" where
  "is_high_confidence_env_s_payload s \<longleftrightarrow> s \<noteq> [] \<and> CHR 0x00 \<notin> set s
     \<and> \<not> list_ex (\<lambda>c. c \<in> {CHR 0x27, CHR 0x22, backslash, CHR ''#'', CHR 0x60, CHR ''$'',
                           CHR 0x0A, CHR 0x0D}) s"

definition take_high_confidence_payload :: "string \<Rightarrow> string option" where
  "take_high_confidence_payload raw = (if is_high_confidence_env_s_payload raw then Some raw else None)"

datatype EnvShort =
    SplitStringNext
  | SplitStringGlued string
  | SplitStringDetect
  | NoArg
  | ArgNeedNext char
  | ArgGlued char
  | Uncertain

fun classify_env_shorts :: "string \<Rightarrow> EnvShort" where
  "classify_env_shorts [] = NoArg"
| "classify_env_shorts (c # rest) =
     (if c \<in> {CHR ''i'', CHR ''v'', CHR ''0''} then classify_env_shorts rest
      else if c = CHR ''S'' then SplitStringDetect
      else if c \<in> {CHR ''u'', CHR ''C'', CHR ''P'', CHR ''a''}
        then if rest \<noteq> [] then ArgGlued c else ArgNeedNext c
      else Uncertain)"

definition classify_env_short :: "string \<Rightarrow> EnvShort" where
  "classify_env_short tok =
     (if \<not> starts_with tok ''-'' \<or> starts_with tok ''--'' \<or> tok = ''-'' then Uncertain
      else
        (let body = tl tok
         in if body = [] then Uncertain
            else case strip_prefix ''S'' body of
              Some rest \<Rightarrow> if rest = [] then SplitStringNext else SplitStringGlued rest
            | None \<Rightarrow> classify_env_shorts body))"

text \<open>One iteration of the scan, as what it does with the word at hand; \<open>Act_Operand\<close> takes the
  next word as a value, the target directory when its argument is true.\<close>

datatype env_action =
    Act_End
  | Act_Skip
  | Act_Command
  | Act_Operand bool
  | Act_Chdir string
  | Act_Split_Next
  | Act_Split "string option"
  | Act_Split_Detect
  | Act_Uncertain

definition env_long_option :: "string \<Rightarrow> env_action" where
  "env_long_option tok =
     (if tok = ''--chdir'' then Act_Operand True
      else case strip_prefix ''--chdir='' tok of
        Some dir \<Rightarrow> Act_Chdir dir
      | None \<Rightarrow>
          if tok = ''--unset'' \<or> tok = ''--path'' \<or> tok = ''--argv0'' then Act_Operand False
          else if starts_with tok ''--unset='' \<or> starts_with tok ''--path=''
              \<or> starts_with tok ''--argv0='' then Act_Skip
          else if tok \<in> {''--ignore-environment'', ''--null'', ''--debug'', ''--version'', ''--help''}
            then Act_Skip
          else if tok = ''--split-string'' then Act_Split_Next
          else case strip_prefix ''--split-string='' tok of
            Some payload \<Rightarrow>
              Act_Split (take_high_confidence_payload
                (case strip_prefix ''--split-string='' (decode_env_option_token tok) of
                   Some p \<Rightarrow> p | None \<Rightarrow> payload))
          | None \<Rightarrow> Act_Uncertain)"

definition env_short_option :: "string \<Rightarrow> env_action" where
  "env_short_option tok = (case classify_env_short (decode_env_option_token tok) of
      SplitStringNext \<Rightarrow> Act_Split_Next
    | SplitStringGlued payload \<Rightarrow> Act_Split (take_high_confidence_payload payload)
    | SplitStringDetect \<Rightarrow> Act_Split_Detect
    | NoArg \<Rightarrow> Act_Skip
    | ArgNeedNext kind \<Rightarrow> Act_Operand (kind = CHR ''C'')
    | ArgGlued kind \<Rightarrow>
        if kind = CHR ''C''
        then Act_Chdir (case strip_prefix ''-C'' tok of Some d \<Rightarrow> d | None \<Rightarrow> [])
        else Act_Skip
    | Uncertain \<Rightarrow> Act_Uncertain)"

definition env_word :: "string \<Rightarrow> env_action" where
  "env_word tok =
     (if tok = ''--'' then Act_End
      else if tok = ''-'' then Act_Skip
      else if \<not> starts_with tok ''-'' then (if is_env_assignment tok then Act_Skip else Act_Command)
      else if starts_with tok ''--'' then env_long_option tok
      else env_short_option tok)"

text \<open>The pass over the words after \<open>env\<close>: \<open>i\<close> is the index of the first word left.\<close>

fun env_scan_loop :: "string list \<Rightarrow> nat \<Rightarrow> EnvScan \<Rightarrow> EnvScan" where
  "env_scan_loop [] i st = st\<lparr>command_start := i\<rparr>"
| "env_scan_loop (tok # rest) i st = (case env_word tok of
      Act_End \<Rightarrow> st\<lparr>command_start := i + 1\<rparr>
    | Act_Skip \<Rightarrow> env_scan_loop rest (i + 1) st
    | Act_Command \<Rightarrow> st\<lparr>command_start := i\<rparr>
    | Act_Operand dir \<Rightarrow>
        (case rest of
           operand # rest' \<Rightarrow> env_scan_loop rest' (i + 2)
             (if dir then st\<lparr>scan_chdir := Some operand\<rparr> else st)
         | [] \<Rightarrow> st\<lparr>options_uncertain := True, command_start := i\<rparr>)
    | Act_Chdir d \<Rightarrow> env_scan_loop rest (i + 1) (st\<lparr>scan_chdir := Some d\<rparr>)
    | Act_Split_Next \<Rightarrow>
        st\<lparr>scan_has_split_string := True,
          split_string_script := (case rest of
              raw # _ \<Rightarrow> take_high_confidence_payload raw
            | [] \<Rightarrow> split_string_script st),
          command_start := i\<rparr>
    | Act_Split script \<Rightarrow>
        st\<lparr>scan_has_split_string := True, split_string_script := script, command_start := i\<rparr>
    | Act_Split_Detect \<Rightarrow> st\<lparr>scan_has_split_string := True, command_start := i\<rparr>
    | Act_Uncertain \<Rightarrow> st\<lparr>options_uncertain := True, command_start := i\<rparr>)"

definition env_scan :: "string list \<Rightarrow> EnvScan" where
  "env_scan cmd = env_scan_loop (tl cmd) 1
     \<lparr>scan_chdir = None, scan_has_split_string = False, options_uncertain = False,
      split_string_script = None, command_start = 1\<rparr>"

definition head_basename :: "string list \<Rightarrow> string option" where
  "head_basename words = (case words of [] \<Rightarrow> None | w # _ \<Rightarrow> Some (basename w))"

definition env_split_string_script :: "string list \<Rightarrow> string option" where
  "env_split_string_script words =
     (if head_basename words \<noteq> Some ''env'' then None
      else
        (let scan = env_scan words
         in if \<not> scan_has_split_string scan then None else split_string_script scan))"

section \<open>Wrappers\<close>

text \<open>\<open>while i < cmd.len() && cmd[i].starts_with('-')\<close>, two steps for an option with a value.\<close>

fun skip_options :: "(string \<Rightarrow> bool) \<Rightarrow> string list \<Rightarrow> nat \<Rightarrow> nat" where
  "skip_options two [] i = i"
| "skip_options two (x # xs) i =
     (if starts_with x ''-'' then
        (if two x then (case xs of [] \<Rightarrow> i + 2 | _ # xs' \<Rightarrow> skip_options two xs' (i + 2))
         else skip_options two xs (i + 1))
      else i)"

definition slice_from :: "nat \<Rightarrow> 'a list \<Rightarrow> 'a list option" where
  "slice_from i xs = (if i \<le> length xs then Some (drop i xs) else None)"

definition nonempty_from :: "nat \<Rightarrow> 'a list \<Rightarrow> 'a list option" where
  "nonempty_from i xs = (case slice_from i xs of
      Some inner \<Rightarrow> if inner = [] then None else Some inner
    | None \<Rightarrow> None)"

definition strip_wrapper_command :: "string list \<Rightarrow> string list option" where
  "strip_wrapper_command cmd = (case head_basename cmd of
      None \<Rightarrow> None
    | Some head \<Rightarrow>
        if head = ''timeout'' then
          (let i = skip_options (\<lambda>x. x \<in> {''-k'', ''-s'', ''--kill-after'', ''--signal''}) (tl cmd) 1
           in if length cmd \<le> i then None else nonempty_from (i + 1) cmd)
        else if head = ''nice'' then
          nonempty_from (skip_options (\<lambda>x. x \<in> {''-n'', ''--adjustment''}) (tl cmd) 1) cmd
        else if head = ''ionice'' then
          nonempty_from (skip_options (\<lambda>x. x \<in> {''-c'', ''-n'', ''-p'', ''-P'', ''-u'', ''--class'',
            ''--classdata'', ''--pid'', ''--pgid'', ''--uid''}) (tl cmd) 1) cmd
        else if head = ''chrt'' then
          (let i = skip_options (\<lambda>_. False) (tl cmd) 1
           in if length cmd \<le> i then None else nonempty_from (i + 1) cmd)
        else if head = ''stdbuf'' then
          nonempty_from (skip_options (\<lambda>x. x \<in> {''-i'', ''-o'', ''-e''}) (tl cmd) 1) cmd
        else if head = ''env'' then
          (let scan = env_scan cmd
           in if scan_has_split_string scan \<or> options_uncertain scan then None
              else nonempty_from (command_start scan) cmd)
        else None)"

definition is_wrapper_command :: "string list \<Rightarrow> bool" where
  "is_wrapper_command words \<longleftrightarrow>
     head_basename words \<in> Some ` {''timeout'', ''nice'', ''ionice'', ''chrt'', ''stdbuf'', ''env''}"

definition MAX_WRAPPER_DEPTH :: nat where "MAX_WRAPPER_DEPTH = 8"
definition MAX_INLINE_SHELL_DEPTH :: nat where "MAX_INLINE_SHELL_DEPTH = 8"

record CheckedWrapperPeel =
  peel_words :: "string list"
  peel_has_chdir :: bool
  peel_has_split_string :: bool
  peel_env_options_uncertain :: bool
  peel_exhausted :: bool

fun unwrap_loop :: "nat \<Rightarrow> CheckedWrapperPeel \<Rightarrow> CheckedWrapperPeel" where
  "unwrap_loop 0 st = st\<lparr>peel_exhausted :=
     is_wrapper_command (peel_words st) \<and> strip_wrapper_command (peel_words st) \<noteq> None\<rparr>"
| "unwrap_loop (Suc n) st =
     (let st1 = (if head_basename (peel_words st) = Some ''env'' then
          (let scan = env_scan (peel_words st)
           in st\<lparr>peel_has_chdir := peel_has_chdir st \<or> scan_chdir scan \<noteq> None,
                peel_has_split_string := peel_has_split_string st \<or> scan_has_split_string scan,
                peel_env_options_uncertain :=
                  peel_env_options_uncertain st \<or> options_uncertain scan\<rparr>)
          else st)
      in case strip_wrapper_command (peel_words st1) of
           Some inner \<Rightarrow> unwrap_loop n (st1\<lparr>peel_words := inner\<rparr>)
         | None \<Rightarrow> st1\<lparr>peel_exhausted := False\<rparr>)"

definition unwrap_wrappers_checked :: "string list \<Rightarrow> CheckedWrapperPeel" where
  "unwrap_wrappers_checked words = unwrap_loop MAX_WRAPPER_DEPTH
     \<lparr>peel_words = words, peel_has_chdir = False, peel_has_split_string = False,
      peel_env_options_uncertain = False, peel_exhausted = False\<rparr>"

definition unwrap_wrappers :: "string list \<Rightarrow> string list" where
  "unwrap_wrappers words = peel_words (unwrap_wrappers_checked words)"

section \<open>Transparent prefixes\<close>

datatype TransparentStrip = NotPrefix | Peeled "string list" | Ambiguous

datatype TransparentPrefixPeel = Peel_Ready "string list" | Peel_Ambiguous

definition nul :: string where "nul = [CHR 0x00]"

text \<open>The option loop of \<open>exec\<close>: what one word does, then the index of the command word, or
  \<open>None\<close> when ambiguous.\<close>

datatype exec_word = Exec_End | Exec_Command | Exec_Flag | Exec_Name | Exec_Unknown

definition exec_word :: "string \<Rightarrow> exec_word" where
  "exec_word tok =
     (if tok = ''--'' then Exec_End
      else if tok = ''-'' \<or> \<not> starts_with tok ''-'' then Exec_Command
      else if tok \<in> {''-c'', ''-l'', ''-cl'', ''-lc''} then Exec_Flag
      else if tok = ''-a'' then Exec_Name
      else if starts_with tok ''-a'' then (if drop 2 tok = nul then Exec_Unknown else Exec_Flag)
      else if \<not> starts_with tok ''--'' \<and> list_all (\<lambda>c. c = CHR ''c'' \<or> c = CHR ''l'') (tl tok)
        then Exec_Flag
      else Exec_Unknown)"

fun exec_options :: "string list \<Rightarrow> nat \<Rightarrow> nat option" where
  "exec_options [] i = Some i"
| "exec_options (tok # rest) i = (case exec_word tok of
      Exec_End \<Rightarrow> Some (i + 1)
    | Exec_Command \<Rightarrow> Some i
    | Exec_Flag \<Rightarrow> exec_options rest (i + 1)
    | Exec_Name \<Rightarrow>
        (case rest of
           v # rest' \<Rightarrow> if v \<noteq> nul \<and> v \<noteq> [] then exec_options rest' (i + 2) else None
         | [] \<Rightarrow> None)
    | Exec_Unknown \<Rightarrow> None)"

definition strip_exec_prefix :: "string list \<Rightarrow> TransparentStrip" where
  "strip_exec_prefix cmd = (case exec_options (tl cmd) 1 of
      None \<Rightarrow> Ambiguous
    | Some i \<Rightarrow> (case nonempty_from i cmd of Some inner \<Rightarrow> Peeled inner | None \<Rightarrow> NotPrefix))"

text \<open>The option loop of \<open>command\<close>; a display option ends it with \<open>NotPrefix\<close>.\<close>

datatype command_scan = Command_At nat | Command_Display | Command_Unknown

definition display_option :: "string \<Rightarrow> bool" where
  "display_option tok \<longleftrightarrow> tok \<in> {''-v'', ''-V'', ''--help'', ''--version''}
     \<or> \<not> starts_with tok ''--'' \<and> list_ex (\<lambda>c. c = CHR ''v'' \<or> c = CHR ''V'') (tl tok)"

definition path_option :: "string \<Rightarrow> bool" where
  "path_option tok \<longleftrightarrow> tok = ''-p'' \<or> \<not> starts_with tok ''--'' \<and> list_all (\<lambda>c. c = CHR ''p'') (tl tok)"

fun command_options :: "string list \<Rightarrow> nat \<Rightarrow> command_scan" where
  "command_options [] i = Command_At i"
| "command_options (tok # rest) i =
     (if tok = ''--'' then Command_At (i + 1)
      else if tok = ''-'' \<or> \<not> starts_with tok ''-'' then Command_At i
      else if display_option tok then Command_Display
      else if path_option tok then command_options rest (i + 1)
      else Command_Unknown)"

definition strip_command_prefix :: "string list \<Rightarrow> TransparentStrip" where
  "strip_command_prefix cmd = (case command_options (tl cmd) 1 of
      Command_Display \<Rightarrow> NotPrefix
    | Command_Unknown \<Rightarrow> Ambiguous
    | Command_At i \<Rightarrow> (case nonempty_from i cmd of Some inner \<Rightarrow> Peeled inner | None \<Rightarrow> NotPrefix))"

definition strip_builtin_prefix :: "string list \<Rightarrow> TransparentStrip" where
  "strip_builtin_prefix cmd = (case tl cmd of
      [] \<Rightarrow> NotPrefix
    | tok # _ \<Rightarrow> if starts_with tok ''-'' \<and> tok \<noteq> ''-'' then Ambiguous else Peeled (tl cmd))"

definition strip_transparent_prefix :: "string list \<Rightarrow> TransparentStrip" where
  "strip_transparent_prefix cmd = (case cmd of
      [] \<Rightarrow> NotPrefix
    | h # _ \<Rightarrow>
        if h = [] \<or> h = nul then NotPrefix
        else if basename h = ''exec'' then strip_exec_prefix cmd
        else if basename h = ''command'' then strip_command_prefix cmd
        else if basename h = ''builtin'' then strip_builtin_prefix cmd
        else NotPrefix)"

definition MAX_TRANSPARENT_PREFIX_DEPTH :: nat where "MAX_TRANSPARENT_PREFIX_DEPTH = 8"

fun peel_loop :: "nat \<Rightarrow> string list \<Rightarrow> TransparentPrefixPeel" where
  "peel_loop 0 current = (case strip_transparent_prefix current of
      NotPrefix \<Rightarrow> Peel_Ready current
    | _ \<Rightarrow> Peel_Ambiguous)"
| "peel_loop (Suc n) current = (case strip_transparent_prefix current of
      NotPrefix \<Rightarrow> Peel_Ready current
    | Peeled inner \<Rightarrow> peel_loop n inner
    | Ambiguous \<Rightarrow> Peel_Ambiguous)"

definition peel_transparent_prefixes :: "string list \<Rightarrow> TransparentPrefixPeel" where
  "peel_transparent_prefixes words = peel_loop MAX_TRANSPARENT_PREFIX_DEPTH words"

section \<open>Normalisation\<close>

definition MAX_NORMALIZE_ROUNDS :: nat where
  "MAX_NORMALIZE_ROUNDS = MAX_WRAPPER_DEPTH + MAX_TRANSPARENT_PREFIX_DEPTH"

record NormalizedCommandPeel =
  norm_words :: "string list"
  norm_has_chdir :: bool
  norm_has_split_string :: bool
  norm_env_options_uncertain :: bool
  norm_exhausted :: bool
  norm_ambiguous :: bool

fun normalize_rounds :: "nat \<Rightarrow> NormalizedCommandPeel \<Rightarrow> NormalizedCommandPeel" where
  "normalize_rounds 0 st = st"
| "normalize_rounds (Suc n) st =
     (let wrapped = unwrap_wrappers_checked (norm_words st);
          st1 = st\<lparr>norm_has_chdir := norm_has_chdir st \<or> peel_has_chdir wrapped,
            norm_has_split_string := norm_has_split_string st \<or> peel_has_split_string wrapped,
            norm_env_options_uncertain :=
              norm_env_options_uncertain st \<or> peel_env_options_uncertain wrapped,
            norm_exhausted := norm_exhausted st \<or> peel_exhausted wrapped,
            norm_words := peel_words wrapped\<rparr>
      in if norm_has_split_string st1 \<or> norm_env_options_uncertain st1 then st1
         else case peel_transparent_prefixes (norm_words st1) of
           Peel_Ambiguous \<Rightarrow> st1\<lparr>norm_ambiguous := True\<rparr>
         | Peel_Ready inner \<Rightarrow>
             (let st2 = st1\<lparr>norm_words := inner\<rparr>
              in if inner = norm_words st then st2 else normalize_rounds n st2))"

definition normalize_command_words :: "string list \<Rightarrow> NormalizedCommandPeel" where
  "normalize_command_words words =
     (let st = normalize_rounds MAX_NORMALIZE_ROUNDS
            \<lparr>norm_words = words, norm_has_chdir = False, norm_has_split_string = False,
             norm_env_options_uncertain = False, norm_exhausted = False, norm_ambiguous = False\<rparr>;
          current = norm_words st
      in if \<not> norm_ambiguous st \<and> \<not> norm_has_split_string st \<and> \<not> norm_env_options_uncertain st
            \<and> (is_wrapper_command current \<and> strip_wrapper_command current \<noteq> None
               \<or> strip_transparent_prefix current \<noteq> NotPrefix)
         then st\<lparr>norm_exhausted := True\<rparr> else st)"

definition norm_certain :: "NormalizedCommandPeel \<Rightarrow> bool" where
  "norm_certain n \<longleftrightarrow> \<not> norm_exhausted n \<and> \<not> norm_ambiguous n \<and> \<not> norm_env_options_uncertain n
     \<and> \<not> norm_has_split_string n"

section \<open>Peeling yields a suffix\<close>

lemma nonempty_from_suffix: "nonempty_from i xs = Some ys \<Longrightarrow> suffix ys xs \<and> ys \<noteq> []"
  by (auto simp: nonempty_from_def slice_from_def suffix_drop split: option.splits if_splits)

lemma strip_wrapper_suffix: "strip_wrapper_command cmd = Some inner \<Longrightarrow> suffix inner cmd"
  using nonempty_from_suffix
  by (auto simp: strip_wrapper_command_def Let_def split: option.splits if_splits)

lemma strip_transparent_suffix: "strip_transparent_prefix cmd = Peeled inner \<Longrightarrow> suffix inner cmd"
  using nonempty_from_suffix
  by (auto simp: strip_transparent_prefix_def strip_exec_prefix_def strip_command_prefix_def
      strip_builtin_prefix_def suffix_ConsI
      split: list.splits option.splits if_splits command_scan.splits)

lemma unwrap_loop_suffix: "suffix (peel_words (unwrap_loop n st)) (peel_words st)"
proof (induction n arbitrary: st)
  case (Suc n)
  show ?case
    by (auto simp: Let_def split: option.splits
        intro: suffix_order.trans [OF Suc.IH] dest!: strip_wrapper_suffix)
qed simp

lemma peel_loop_suffix: "peel_loop n ws = Peel_Ready inner \<Longrightarrow> suffix inner ws"
  by (induction n arbitrary: ws)
    (fastforce split: TransparentStrip.splits dest: strip_transparent_suffix
      intro: suffix_order.trans)+

lemma normalize_rounds_suffix: "suffix (norm_words (normalize_rounds n st)) (norm_words st)"
proof (induction n arbitrary: st)
  case (Suc n)
  let ?w = "unwrap_wrappers_checked (norm_words st)"
  have w: "suffix (peel_words ?w) (norm_words st)"
    unfolding unwrap_wrappers_checked_def by (rule unwrap_loop_suffix [THEN suffix_order.trans]) simp
  have p: "peel_transparent_prefixes (peel_words ?w) = Peel_Ready inner \<Longrightarrow> suffix inner (norm_words st)"
    for inner
    using peel_loop_suffix w by (auto simp: peel_transparent_prefixes_def intro: suffix_order.trans)
  show ?case
    using w p suffix_order.trans [OF Suc.IH]
    by (auto simp: Let_def split: TransparentPrefixPeel.splits)
qed simp

lemma normalize_suffix: "suffix (norm_words (normalize_command_words words)) words"
proof -
  define st where "st = \<lparr>norm_words = words, norm_has_chdir = False, norm_has_split_string = False,
    norm_env_options_uncertain = False, norm_exhausted = False, norm_ambiguous = False\<rparr>"
  have "norm_words (normalize_command_words words) = norm_words (normalize_rounds MAX_NORMALIZE_ROUNDS st)"
    by (simp add: normalize_command_words_def Let_def st_def)
  then show ?thesis using normalize_rounds_suffix [of MAX_NORMALIZE_ROUNDS st] by (simp add: st_def)
qed

lemma normalize_same_length:
  "length (norm_words (normalize_command_words words)) = length words \<Longrightarrow>
   norm_words (normalize_command_words words) = words"
  using normalize_suffix [of words] by (metis suffix_length_less order_less_irrefl strict_suffix_def)

end
