(* ===== verification/Shell_Tree.thy ===== *)
theory Shell_Tree
  imports Perm_Words "HOL-Library.Product_Lexorder"
begin

text \<open>
  Shell scripts as syntax trees (the part of \<open>permission/bash_command_splitting.rs\<close> that walks
  them). The tree-sitter grammar is not part of the repository: its result is a parameter, a
  function from a script to an optional tree. A node has the kind of its grammar rule, whether
  it is named, whether it contains a syntax error, its byte range and its children with their
  field names. A walk that the source does with a stack of nodes is recursion on the tree in
  the same order: a node first, then its children from the last to the first. A position in the
  tree is a node with the parents above it, so \<open>parent\<close> and \<open>next_sibling\<close> are functions.
  Byte ranges of a node are taken to lie on character boundaries of the script.
\<close>

section \<open>Trees\<close>

datatype Node = Node
  (node_kind: string) (node_named: bool) (node_error: bool) (start_byte: nat) (end_byte: nat)
  (node_fields: "(string option \<times> Node) list")

definition children :: "Node \<Rightarrow> Node list" where
  "children n = map snd (node_fields n)"

definition named_children :: "Node \<Rightarrow> Node list" where
  "named_children n = filter node_named (children n)"

definition nth_opt :: "'a list \<Rightarrow> nat \<Rightarrow> 'a option" where
  "nth_opt xs i = (if i < length xs then Some (xs ! i) else None)"

definition child_by_field_name :: "string \<Rightarrow> Node \<Rightarrow> Node option" where
  "child_by_field_name f n = map_option snd (List.find (\<lambda>c. fst c = Some f) (node_fields n))"

definition node_text :: "Node \<Rightarrow> string \<Rightarrow> string" where
  "node_text n src = take (end_byte n - start_byte n) (drop (start_byte n) src)"

text \<open>A position: the node, and the parents with the index of the child below, innermost first.\<close>

type_synonym position = "Node \<times> (Node \<times> nat) list"

lemma field_size: "c \<in> set fs \<Longrightarrow> size (snd c) < Suc (size_list (\<lambda>x. Suc (size (snd x))) fs)"
  by (induction fs) auto

lemma child_size: "c \<in> set (node_fields n) \<Longrightarrow> size (snd c) < size n"
  using field_size [of c "node_fields n"] by (cases n) (simp add: size_prod_simp [abs_def])

lemma nth_child_size: "i < length (node_fields n) \<Longrightarrow> size (snd (node_fields n ! i)) < size n"
  by (simp add: child_size)

text \<open>All positions below a node in the order in which the stack of the source yields them.\<close>

function positions :: "Node \<Rightarrow> (Node \<times> nat) list \<Rightarrow> position list" where
  "positions (Node k nm err a b fs) ctx = (Node k nm err a b fs, ctx) # concat (rev (map
     (\<lambda>(i, c). positions c ((Node k nm err a b fs, i) # ctx)) (zip [0..<length fs] (map snd fs))))"
  by pat_completeness auto
termination
  by (relation "measure (size \<circ> fst)")
    (use nth_child_size [of _ "Node _ _ _ _ _ _"] in \<open>fastforce simp: in_set_zip\<close>)+

definition nodes :: "Node \<Rightarrow> Node list" where
  "nodes root = map fst (positions root [])"

section \<open>Plain commands\<close>

record PlainCommand =
  pc_words :: "string list"
  span_start :: nat
  span_end :: nat

fun ws_len :: "string \<Rightarrow> nat" where
  "ws_len (a # s) =
     (if ascii_ws a then 1
      else case s of
        b # s' \<Rightarrow> if ws2 a b then 2 else (case s' of c # _ \<Rightarrow> if ws3 a b c then 3 else 0 | [] \<Rightarrow> 0)
      | [] \<Rightarrow> 0)"
| "ws_len [] = 0"

definition blank :: "string \<Rightarrow> bool" where
  "blank s \<longleftrightarrow> trim s = []"

text \<open>\<open>script.get(..i)\<close> and \<open>script.get(i..)\<close> are \<open>None\<close> beyond the end.\<close>

definition spans_whole_script :: "PlainCommand \<Rightarrow> string \<Rightarrow> bool" where
  "spans_whole_script c script =
     (if length script < span_start c \<or> length script < span_end c then False
      else blank (take (span_start c) script) \<and> blank (drop (span_end c) script))"

definition ALLOWED_KINDS :: "string list" where
  "ALLOWED_KINDS = [''program'', ''list'', ''pipeline'', ''command'', ''command_name'', ''word'',
     ''string'', ''string_content'', ''raw_string'', ''number'', ''concatenation'',
     ''variable_assignment'', ''variable_name'', ''redirected_statement'', ''file_redirect'',
     ''file_descriptor'', ''comment'', ''heredoc_redirect'', ''heredoc_start'', ''heredoc_body'',
     ''heredoc_content'', ''heredoc_end'']"

definition ALLOWED_PUNCT_TOKENS :: "string list" where
  "ALLOWED_PUNCT_TOKENS = [''&&'', ''||'', '';'', ''|'', [CHR 0x22], [CHR 0x27], ''='', ''>'', ''>>'',
     ''<'', ''<<'', ''>&'', ''&>'', ''&>>'']"

definition operator_char :: "char \<Rightarrow> bool" where
  "operator_char c \<longleftrightarrow> c \<in> {CHR ''&'', CHR '';'', CHR ''|''}"

definition node_allowed :: "Node \<Rightarrow> bool" where
  "node_allowed n =
     (if node_named n then node_kind n \<in> set ALLOWED_KINDS
      else if list_ex operator_char (node_kind n) \<and> node_kind n \<notin> set ALLOWED_PUNCT_TOKENS then False
      else node_kind n \<in> set ALLOWED_PUNCT_TOKENS \<or> blank (node_kind n))"

text \<open>One named child of a command: the word it adds with the range of the node that holds it,
  or no word, or the whole command is refused.\<close>

datatype command_part = Part_Skip | Part_Word string nat nat | Part_Refuse

definition simple_string :: "Node \<Rightarrow> bool" where
  "simple_string n \<longleftrightarrow>
     map node_kind (children n) = [[CHR 0x22], ''string_content'', [CHR 0x22]]"

definition unquote :: "char \<Rightarrow> string \<Rightarrow> string option" where
  "unquote q s = (case strip_prefix [q] s of None \<Rightarrow> None | Some t \<Rightarrow> strip_suffix [q] t)"

definition command_part :: "string \<Rightarrow> Node \<Rightarrow> command_part" where
  "command_part src child =
     (let k = node_kind child
      in if k = ''variable_assignment'' then Part_Skip
         else if k = ''command_name'' then (case named_children child of
             [] \<Rightarrow> Part_Refuse
           | w # _ \<Rightarrow> if node_kind w \<noteq> ''word'' then Part_Refuse
               else Part_Word (node_text w src) (start_byte w) (end_byte w))
         else if k = ''word'' \<or> k = ''number'' \<or> k = ''concatenation''
           then Part_Word (node_text child src) (start_byte child) (end_byte child)
         else if k = ''string'' then
           (if simple_string child
            then Part_Word (node_text (children child ! 1) src) (start_byte child) (end_byte child)
            else Part_Refuse)
         else if k = ''raw_string'' then (case unquote (CHR 0x27) (node_text child src) of
             Some s \<Rightarrow> Part_Word s (start_byte child) (end_byte child)
           | None \<Rightarrow> Part_Refuse)
         else Part_Refuse)"

fun command_parts ::
  "string \<Rightarrow> Node list \<Rightarrow> string list \<Rightarrow> nat option \<Rightarrow> nat option \<Rightarrow>
     (string list \<times> nat option \<times> nat option) option" where
  "command_parts src [] words first final = Some (words, first, final)"
| "command_parts src (c # cs) words first final = (case command_part src c of
      Part_Skip \<Rightarrow> command_parts src cs words first final
    | Part_Word w s e \<Rightarrow> command_parts src cs (words @ [w])
        (case first of None \<Rightarrow> Some s | Some f \<Rightarrow> Some f) (Some e)
    | Part_Refuse \<Rightarrow> None)"

definition parse_plain_command_from_node :: "Node \<Rightarrow> string \<Rightarrow> PlainCommand option" where
  "parse_plain_command_from_node cmd src =
     (if node_kind cmd \<noteq> ''command'' then None
      else case command_parts src (named_children cmd) [] None None of
        None \<Rightarrow> None
      | Some (words, first, final) \<Rightarrow> Some \<lparr>pc_words = words,
          span_start = (case first of Some s \<Rightarrow> s | None \<Rightarrow> start_byte cmd),
          span_end = (case final of Some e \<Rightarrow> e | None \<Rightarrow> end_byte cmd)\<rparr>)"

fun map_all :: "('a \<Rightarrow> 'b option) \<Rightarrow> 'a list \<Rightarrow> 'b list option" where
  "map_all f [] = Some []"
| "map_all f (x # xs) = (case f x of
      None \<Rightarrow> None
    | Some y \<Rightarrow> (case map_all f xs of None \<Rightarrow> None | Some ys \<Rightarrow> Some (y # ys)))"

definition try_parse_word_only_commands_sequence :: "Node \<Rightarrow> string \<Rightarrow> PlainCommand list option" where
  "try_parse_word_only_commands_sequence root src =
     (if node_error root then None
      else if \<not> list_all node_allowed (nodes root) then None
      else map_all (\<lambda>n. parse_plain_command_from_node n src)
        (sort_key start_byte (filter (\<lambda>n. node_named n \<and> node_kind n = ''command'') (nodes root))))"

definition all_commands_from_script ::
  "(string \<Rightarrow> Node option) \<Rightarrow> string \<Rightarrow> PlainCommand list option" where
  "all_commands_from_script parse script = (case parse script of
      None \<Rightarrow> None
    | Some tree \<Rightarrow> try_parse_word_only_commands_sequence tree script)"

definition is_setup_command :: "string list \<Rightarrow> bool" where
  "is_setup_command cmd = (case cmd of
      [] \<Rightarrow> True
    | w # _ \<Rightarrow> w \<in> {''cd'', ''pushd'', ''popd'', ''export'', ''unset'', ''set'', ''sleep'', ''timeout''})"

section \<open>The command a prompt highlights\<close>

function sh_split_loop :: "string \<Rightarrow> bool \<Rightarrow> bool \<Rightarrow> string \<Rightarrow> string list" where
  "sh_split_loop [] in_single in_double current = (if current = [] then [] else [current])"
| "sh_split_loop (c # s) in_single in_double current =
     (if c = CHR 0x27 \<and> \<not> in_double then sh_split_loop s (\<not> in_single) in_double current
      else if c = CHR 0x22 \<and> \<not> in_single then sh_split_loop s in_single (\<not> in_double) current
      else if c = backslash then sh_split_loop (tl s) in_single in_double (current @ take 1 s)
      else if 0 < ws_len (c # s) \<and> \<not> in_single \<and> \<not> in_double
        then (if current = [] then [] else [current])
          @ sh_split_loop (drop (ws_len (c # s)) (c # s)) in_single in_double []
      else sh_split_loop s in_single in_double (current @ [c]))"
  by pat_completeness auto
termination by (relation "measure (\<lambda>(s, _, _, _). length s)") auto

definition sh_split_simple :: "string \<Rightarrow> string list" where
  "sh_split_simple s = sh_split_loop s False False []"

record BashCommandHighlights =
  hl_prefix :: "string list"
  highlighted_words :: "string list"
  hl_suffix :: "string list"

definition is_primary :: "PlainCommand \<Rightarrow> bool" where
  "is_primary c \<longleftrightarrow> unwrap_wrappers (pc_words c) \<noteq> [] \<and> \<not> is_setup_command (unwrap_wrappers (pc_words c))"

definition primary_command_from_script ::
  "(string \<Rightarrow> Node option) \<Rightarrow> string \<Rightarrow> BashCommandHighlights option" where
  "primary_command_from_script parse script = (case all_commands_from_script parse script of
      None \<Rightarrow> None
    | Some commands \<Rightarrow> (case List.find is_primary commands of
        None \<Rightarrow> None
      | Some c \<Rightarrow>
          (let peeled_off = length (pc_words c) - length (unwrap_wrappers (pc_words c))
           in Some \<lparr>
             hl_prefix = sh_split_simple (take (span_start c) script) @ take peeled_off (pc_words c),
             highlighted_words = drop peeled_off (pc_words c),
             hl_suffix = sh_split_simple (drop (span_end c) script)\<rparr>)))"

section \<open>Soft breaks and payload ranges\<close>

text \<open>The walks that do not enter certain nodes: the nodes met, a payload node included.\<close>

function nodes_outside :: "(Node \<Rightarrow> bool) \<Rightarrow> Node \<Rightarrow> Node list" where
  "nodes_outside closed (Node k nm err a b fs) =
     (if closed (Node k nm err a b fs) then [Node k nm err a b fs]
      else Node k nm err a b fs # concat (map (\<lambda>c. nodes_outside closed (snd c)) fs))"
  by pat_completeness auto
termination
  by (relation "measure (size \<circ> snd)") (use child_size [of _ "Node _ _ _ _ _ _"] in fastforce)+

definition PAYLOAD_NODE_KINDS :: "string list" where
  "PAYLOAD_NODE_KINDS = [''heredoc_body'', ''simple_heredoc_body'', ''heredoc_content'', ''heredoc_end'',
     ''string'', ''raw_string'', ''string_content'', ''ansi_c_string'', ''translated_string'', ''comment'']"

definition is_soft_break_operator_kind :: "string \<Rightarrow> bool" where
  "is_soft_break_operator_kind k \<longleftrightarrow> k \<in> {''&&'', ''||'', ''|'', '';''}"

definition is_payload_node_kind :: "string \<Rightarrow> bool" where
  "is_payload_node_kind k \<longleftrightarrow> k \<in> set PAYLOAD_NODE_KINDS"

text \<open>\<open>sort_unstable\<close> and \<open>dedup\<close>: the values in increasing order, each once.\<close>

definition soft_break_offsets_after_operators ::
  "(string \<Rightarrow> Node option) \<Rightarrow> string \<Rightarrow> nat list" where
  "soft_break_offsets_after_operators parse script = (case parse script of
      None \<Rightarrow> []
    | Some root \<Rightarrow>
        if node_error root then []
        else remdups_adj (sort (map end_byte
          (filter (\<lambda>n. \<not> is_payload_node_kind (node_kind n) \<and> is_soft_break_operator_kind (node_kind n)
              \<and> 0 < end_byte n \<and> end_byte n \<le> length script)
            (nodes_outside (\<lambda>n. is_payload_node_kind (node_kind n)) root)))))"

definition heredoc_payload :: "Node \<Rightarrow> bool" where
  "heredoc_payload n \<longleftrightarrow>
     node_kind n \<in> {''heredoc_body'', ''simple_heredoc_body'', ''heredoc_content''}"

definition heredoc_payload_byte_ranges ::
  "(string \<Rightarrow> Node option) \<Rightarrow> string \<Rightarrow> (nat \<times> nat) list" where
  "heredoc_payload_byte_ranges parse script = (case parse script of
      None \<Rightarrow> []
    | Some root \<Rightarrow>
        if node_error root then []
        else remdups_adj (sort (map (\<lambda>n. (start_byte n, end_byte n))
          (filter (\<lambda>n. heredoc_payload n \<and> start_byte n < end_byte n \<and> end_byte n \<le> length script)
            (nodes_outside heredoc_payload root)))))"

definition range_fully_inside :: "nat \<Rightarrow> nat \<Rightarrow> (nat \<times> nat) list \<Rightarrow> bool" where
  "range_fully_inside start stop ranges =
     (if stop < start then False else list_ex (\<lambda>(rs, re). rs \<le> start \<and> stop \<le> re) ranges)"

text \<open>The loop over the relative breaks; a break on a character boundary splits the line.\<close>

fun break_chunks :: "string \<Rightarrow> nat \<Rightarrow> nat list \<Rightarrow> string list" where
  "break_chunks line start [] = (if start < length line then [drop start line] else [])"
| "break_chunks line start (b # bs) =
     (if start < b then take (b - start) (drop start line) # break_chunks line b bs
      else break_chunks line start bs)"

definition is_char_boundary :: "string \<Rightarrow> nat \<Rightarrow> bool" where
  "is_char_boundary s i \<longleftrightarrow> i = length s
     \<or> i < length s \<and> \<not> (let b = of_char (s ! i) :: nat in 128 \<le> b \<and> b < 192)"

definition split_physical_line_at_soft_breaks :: "string \<Rightarrow> nat \<Rightarrow> nat list \<Rightarrow> string list" where
  "split_physical_line_at_soft_breaks line line_start breaks =
     (let line_end = line_start + length line;
          rel = remdups_adj (filter (is_char_boundary line) (map (\<lambda>b. b - line_start)
            (filter (\<lambda>b. line_start < b \<and> b < line_end) breaks)))
      in if rel = [] then [line]
         else (let chunks = break_chunks line 0 rel in if chunks = [] then [line] else chunks))"

fun script_chunks :: "string \<Rightarrow> nat \<Rightarrow> nat list \<Rightarrow> string list" where
  "script_chunks script start [] = (if start < length script then [drop start script] else [])"
| "script_chunks script start (b # bs) =
     (if start < b \<and> b \<le> length script
      then take (b - start) (drop start script) # script_chunks script b bs
      else script_chunks script start bs)"

definition soft_break_chunks :: "(string \<Rightarrow> Node option) \<Rightarrow> string \<Rightarrow> string list" where
  "soft_break_chunks parse script =
     (let breaks = soft_break_offsets_after_operators parse script
      in if breaks = [] then [script] else script_chunks script 0 breaks)"

section \<open>Wrapping loses no text\<close>

lemma break_chunks_concat:
  "\<forall>b \<in> set bs. b \<le> length line \<Longrightarrow> concat (break_chunks line start bs) = drop start line"
proof (induction bs arbitrary: start)
  case (Cons b bs)
  then have "start < b \<Longrightarrow> take (b - start) (drop start line) @ drop b line = drop start line"
    by (metis append_take_drop_id drop_drop le_add_diff_inverse2 less_imp_le_nat)
  with Cons show ?case by simp
qed simp

lemma split_line_concat:
  "concat (split_physical_line_at_soft_breaks line line_start breaks) = line"
proof -
  let ?rel = "remdups_adj (filter (is_char_boundary line) (map (\<lambda>b. b - line_start)
      (filter (\<lambda>b. line_start < b \<and> b < line_start + length line) breaks)))"
  have "\<forall>b \<in> set ?rel. b \<le> length line" by auto
  from break_chunks_concat [OF this, of 0] show ?thesis
    by (auto simp: split_physical_line_at_soft_breaks_def Let_def)
qed

lemma script_chunks_concat: "concat (script_chunks script start bs) = drop start script"
proof (induction bs arbitrary: start)
  case (Cons b bs)
  have "start < b \<Longrightarrow> take (b - start) (drop start script) @ drop b script = drop start script"
    by (metis append_take_drop_id drop_drop le_add_diff_inverse2 less_imp_le_nat)
  with Cons show ?case by simp
qed simp

lemma soft_break_chunks_concat: "concat (soft_break_chunks parse script) = script"
  by (simp add: soft_break_chunks_def Let_def script_chunks_concat)

end
