(* ===== verification/Perm_Paths.thy ===== *)
theory Perm_Paths
  imports Perm_Text
begin

text \<open>
  Lexical paths: \<open>std::path\<close> on Unix as far as the permission policy uses it, the lexical
  normalisation of \<open>xai-grok-paths\<close>, and the spellings of a path that a path rule is compared
  with (\<open>path_match_forms\<close> of \<open>permission/policy.rs\<close>). The lemmas show that a normalised path
  reads back as its components and that relative spellings are produced only for paths under
  the working directory.
\<close>

section \<open>Paths of the standard library\<close>

datatype path_component = RootDir | CurDir | ParentDir | Normal string

definition is_absolute :: "string \<Rightarrow> bool" where
  "is_absolute p = starts_with p ''/''"

definition blank_token :: "string \<Rightarrow> bool" where
  "blank_token t \<longleftrightarrow> t = [] \<or> t = ''.''"

definition body_component :: "string \<Rightarrow> path_component list" where
  "body_component t = (if blank_token t then [] else if t = ''..'' then [ParentDir] else [Normal t])"

text \<open>\<open>Path::components\<close>: repeated separators and inner \<open>.\<close> vanish, a leading \<open>.\<close> stays.\<close>

definition components :: "string \<Rightarrow> path_component list" where
  "components p =
     (if is_absolute p then RootDir # concat (map body_component (tl (split_on slash p)))
      else case split_on slash p of
        t # ts \<Rightarrow> (if t = ''.'' then [CurDir] else body_component t) @ concat (map body_component ts)
      | [] \<Rightarrow> [])"

definition component_str :: "path_component \<Rightarrow> string" where
  "component_str c = (case c of
      RootDir \<Rightarrow> ''/'' | CurDir \<Rightarrow> ''.'' | ParentDir \<Rightarrow> ''..'' | Normal n \<Rightarrow> n)"

definition path_push :: "string \<Rightarrow> string \<Rightarrow> string" where
  "path_push buf p =
     (if is_absolute p then p
      else if buf = [] \<or> last buf = slash then buf @ p
      else buf @ ''/'' @ p)"

definition path_collect :: "path_component list \<Rightarrow> string" where
  "path_collect cs = foldl (\<lambda>buf c. path_push buf (component_str c)) [] cs"

text \<open>What \<open>Components::as_path\<close> shows after \<open>n > 0\<close> components were taken from the front.\<close>

fun drop_body :: "nat \<Rightarrow> string list \<Rightarrow> string list" where
  "drop_body n [] = []"
| "drop_body 0 (t # ts) = t # ts"
| "drop_body (Suc n) (t # ts) = (if blank_token t then drop_body (Suc n) ts else drop_body n ts)"

definition path_rest :: "nat \<Rightarrow> string \<Rightarrow> string" where
  "path_rest n p =
     (let toks = split_on slash p;
          body = (if is_absolute p \<or> hd toks = ''.'' then drop_body (n - 1) (tl toks)
                  else drop_body n toks)
      in join ''/'' (rev (dropWhile blank_token (rev (dropWhile blank_token body)))))"

definition path_strip_prefix :: "string \<Rightarrow> string \<Rightarrow> string option" where
  "path_strip_prefix p base =
     (let n = length (components base)
      in if take n (components p) = components base then Some (path_rest n p) else None)"

section \<open>Normalisation\<close>

definition normalize_step :: "path_component list \<Rightarrow> path_component \<Rightarrow> path_component list" where
  "normalize_step cs c = (case c of
      CurDir \<Rightarrow> cs
    | ParentDir \<Rightarrow>
        if cs = [] then cs @ [ParentDir]
        else (case last cs of
            Normal _ \<Rightarrow> butlast cs
          | RootDir \<Rightarrow> cs
          | _ \<Rightarrow> cs @ [ParentDir])
    | _ \<Rightarrow> cs @ [c])"

definition normalize_lexically :: "string \<Rightarrow> string" where
  "normalize_lexically p =
     (let cs = foldl normalize_step [] (components p)
      in if cs = [] then ''.'' else path_collect cs)"

section \<open>Spellings that rules are compared with\<close>

definition is_tilde_path :: "string \<Rightarrow> bool" where
  "is_tilde_path p = (case components p of
      Normal first # _ \<Rightarrow> starts_with first ''~''
    | _ \<Rightarrow> False)"

definition path_match_string :: "string \<Rightarrow> string" where
  "path_match_string p = replace_char backslash slash p"

definition path_has_parent_dir :: "string \<Rightarrow> bool" where
  "path_has_parent_dir p = (ParentDir \<in> set (components p))"

definition absolute_normalized_path :: "string \<Rightarrow> string option \<Rightarrow> string" where
  "absolute_normalized_path p cwd =
     (if is_tilde_path p then p
      else normalize_lexically (case cwd of
          Some d \<Rightarrow> if \<not> is_absolute p then path_push d p else p
        | None \<Rightarrow> p))"

definition path_match_forms :: "string \<Rightarrow> string option \<Rightarrow> string list" where
  "path_match_forms p cwd =
     (let abs = absolute_normalized_path p cwd;
          forms = [path_match_string abs]
      in case cwd of
        Some d \<Rightarrow>
          (case path_strip_prefix abs (normalize_lexically d) of
             Some rel \<Rightarrow>
               (let rel_s = path_match_string rel
                in if rel_s = [] \<or> rel_s = ''.'' then forms @ [''.'', ''./'']
                   else forms @ [''./'' @ rel_s, rel_s])
           | None \<Rightarrow> forms)
      | None \<Rightarrow>
          if \<not> is_absolute abs \<and> \<not> path_has_parent_dir abs \<and> \<not> is_tilde_path abs then
            (let lex_s = path_match_string abs
             in if lex_s \<noteq> ''.'' \<and> lex_s \<noteq> [] then forms @ [''./'' @ lex_s] else forms)
          else forms)"

section \<open>Reading paths back\<close>

definition valid_name :: "string \<Rightarrow> bool" where
  "valid_name n \<longleftrightarrow> n \<noteq> [] \<and> slash \<notin> set n \<and> n \<noteq> ''.'' \<and> n \<noteq> ''..''"

lemma split_on_no_sep: "c \<notin> set s \<Longrightarrow> split_on c s = [s]"
  by (induction s) auto

lemma split_on_append: "split_on c (a @ c # b) = split_on c a @ split_on c b"
proof (induction a)
  case (Cons x a)
  then show ?case by (cases "split_on c a") auto
qed simp

lemma join_Cons: "ws \<noteq> [] \<Longrightarrow> join sep (w # ws) = w @ sep @ join sep ws"
  by (cases ws) simp_all

lemma split_on_join:
  "ns \<noteq> [] \<Longrightarrow> \<forall>n \<in> set ns. slash \<notin> set n \<Longrightarrow> split_on slash (join ''/'' ns) = ns"
proof (induction ns)
  case (Cons n ns)
  show ?case
  proof (cases "ns = []")
    case True
    then show ?thesis using Cons.prems by (simp add: split_on_no_sep)
  next
    case False
    then have "split_on slash (join ''/'' (n # ns)) = split_on slash n @ split_on slash (join ''/'' ns)"
      by (simp add: join_Cons split_on_append)
    then show ?thesis using Cons False by (simp add: split_on_no_sep)
  qed
qed simp

lemma split_on_tokens: "t \<in> set (split_on c s) \<Longrightarrow> c \<notin> set t"
proof (induction s arbitrary: t)
  case (Cons x s)
  then show ?case by (auto split: list.splits if_splits)
qed simp

definition body_components :: "string \<Rightarrow> path_component list" where
  "body_components s = concat (map body_component (split_on slash s))"

lemma body_valid [simp]: "valid_name n \<Longrightarrow> body_component n = [Normal n]"
  by (simp add: body_component_def blank_token_def valid_name_def)

lemma body_names: "\<forall>n \<in> set ns. valid_name n \<Longrightarrow> concat (map body_component ns) = map Normal ns"
  by (induction ns) auto

lemma is_absolute_Cons [simp]: "is_absolute (slash # s)" "\<not> is_absolute []"
  "is_absolute (c # s) \<longleftrightarrow> c = slash"
  by (auto simp: is_absolute_def starts_with_def)

lemma components_absolute: "components (slash # s) = RootDir # body_components s"
  by (simp add: components_def body_components_def)

lemma body_components_join:
  assumes "\<forall>n \<in> set ns. valid_name n"
  shows "body_components (join ''/'' ns) = map Normal ns"
proof (cases "ns = []")
  case True
  then show ?thesis by (simp add: body_components_def body_component_def blank_token_def)
next
  case False
  then show ?thesis
    using assms by (simp add: body_components_def split_on_join valid_name_def body_names)
qed

lemma body_no_root: "c \<in> set (body_components s) \<Longrightarrow> c = ParentDir \<or> (\<exists>n. c = Normal n \<and> valid_name n)"
  by (auto simp: body_components_def body_component_def blank_token_def valid_name_def
      dest: split_on_tokens split: if_splits)

section \<open>Resolution of absolute paths\<close>

text \<open>The reference: a stack of names, popped by \<open>..\<close>, never below the root.\<close>

definition resolve_step :: "string list \<Rightarrow> path_component \<Rightarrow> string list" where
  "resolve_step ns c = (case c of Normal n \<Rightarrow> ns @ [n] | ParentDir \<Rightarrow> butlast ns | _ \<Rightarrow> ns)"

definition resolve :: "path_component list \<Rightarrow> string list" where
  "resolve cs = foldl resolve_step [] cs"

lemma normalize_resolve:
  assumes "\<forall>c \<in> set cs. c = ParentDir \<or> (\<exists>n. c = Normal n \<and> valid_name n)"
  shows "foldl normalize_step (RootDir # map Normal ns) cs
    = RootDir # map Normal (foldl resolve_step ns cs)"
  using assms
proof (induction cs arbitrary: ns)
  case (Cons c cs)
  have "normalize_step (RootDir # map Normal ns) c = RootDir # map Normal (resolve_step ns c)"
    using Cons.prems by (cases ns rule: rev_cases)
      (auto simp: normalize_step_def resolve_step_def butlast_append)
  then show ?case using Cons by simp
qed simp

lemma resolve_valid_acc:
  assumes "\<forall>c \<in> set cs. c = ParentDir \<or> (\<exists>n. c = Normal n \<and> valid_name n)"
    and "\<forall>n \<in> set ns. valid_name n"
  shows "\<forall>n \<in> set (foldl resolve_step ns cs). valid_name n"
  using assms
proof (induction cs arbitrary: ns)
  case (Cons c cs)
  have "\<forall>n \<in> set (resolve_step ns c). valid_name n"
    using Cons.prems in_set_butlastD by (cases c) (fastforce simp: resolve_step_def)+
  then show ?case using Cons by simp
qed simp

lemma resolve_valid: "\<forall>n \<in> set (resolve (body_components s)). valid_name n"
  unfolding resolve_def by (rule resolve_valid_acc) (use body_no_root in blast, simp)

lemma join_last:
  "ns \<noteq> [] \<Longrightarrow> \<forall>n \<in> set ns. valid_name n \<Longrightarrow> join ''/'' ns \<noteq> [] \<and> last (join ''/'' ns) \<noteq> slash"
proof (induction ns)
  case (Cons n ns)
  then show ?case
    by (cases "ns = []") (auto simp: join_Cons valid_name_def dest: last_in_set)
qed simp

lemma join_snoc: "join sep (ns @ [n]) = (if ns = [] then n else join sep ns @ sep @ n)"
  by (induction ns) (auto simp: join_Cons)

lemma path_collect_names:
  assumes "\<forall>n \<in> set ns. valid_name n"
  shows "path_collect (RootDir # map Normal ns) = slash # join ''/'' ns"
  using assms
proof (induction ns rule: rev_induct)
  case Nil
  show ?case by (simp add: path_collect_def path_push_def component_str_def)
next
  case (snoc n ns)
  have "path_collect (RootDir # map Normal (ns @ [n]))
      = path_push (path_collect (RootDir # map Normal ns)) n"
    by (simp add: path_collect_def component_str_def)
  also have "\<dots> = path_push (slash # join ''/'' ns) n" using snoc by simp
  also have "\<dots> = slash # join ''/'' (ns @ [n])"
  proof -
    have "\<not> is_absolute n" using snoc.prems by (cases n) (auto simp: valid_name_def)
    then show ?thesis
      using join_last [of ns] snoc.prems by (simp add: path_push_def join_snoc)
  qed
  finally show ?case .
qed

lemma normalize_absolute:
  "normalize_lexically (slash # s) = slash # join ''/'' (resolve (body_components s))"
proof -
  have "\<forall>c \<in> set (body_components s). c = ParentDir \<or> (\<exists>n. c = Normal n \<and> valid_name n)"
    using body_no_root by blast
  from normalize_resolve [OF this, of "[]"]
  have "foldl normalize_step [] (components (slash # s)) = RootDir # map Normal (resolve (body_components s))"
    by (simp add: components_absolute resolve_def normalize_step_def)
  then show ?thesis
    by (simp add: normalize_lexically_def path_collect_names [OF resolve_valid])
qed

lemma body_push:
  assumes "\<not> is_absolute p"
  shows "path_push (slash # d) p = slash # (if d = [] then p else if last d = slash then d @ p else d @ slash # p)"
  using assms by (simp add: path_push_def)

lemma body_components_push:
  assumes "\<not> is_absolute p"
  shows "\<exists>s. path_push (slash # d) p = slash # s
    \<and> body_components s = body_components d @ body_components p"
proof (cases d rule: rev_cases)
  case Nil
  then show ?thesis
    using assms by (simp add: body_push body_components_def body_component_def blank_token_def)
next
  case (snoc d' x)
  show ?thesis
  proof (cases "x = slash")
    case True
    have "body_components (d' @ [slash]) = body_components d'"
      using split_on_append [of slash d' "[]"]
      by (simp add: body_components_def body_component_def blank_token_def)
    then show ?thesis
      using snoc True assms split_on_append [of slash d' p]
      by (auto simp: body_push body_components_def)
  next
    case False
    then show ?thesis
      using snoc assms split_on_append [of slash d p]
      by (auto simp: body_push body_components_def)
  qed
qed

section \<open>Relative spellings\<close>

definition resolved_names :: "string \<Rightarrow> string \<Rightarrow> string list" where
  "resolved_names d p = resolve (if is_absolute p then body_components (tl p)
     else body_components (tl d) @ body_components p)"

lemma drop_body_names: "\<forall>n \<in> set ns. valid_name n \<Longrightarrow> drop_body k ns = drop k ns"
proof (induction k ns rule: drop_body.induct)
  case (3 k t ts)
  then show ?case by (auto simp: valid_name_def blank_token_def)
qed simp_all

lemma dropWhile_names: "\<forall>n \<in> set ns. valid_name n \<Longrightarrow> dropWhile blank_token ns = ns"
  by (cases ns) (auto simp: valid_name_def blank_token_def)

lemma path_rest_names:
  assumes "\<forall>n \<in> set ns. valid_name n"
  shows "path_rest (Suc k) (slash # join ''/'' ns) = join ''/'' (drop k ns)"
proof (cases "ns = []")
  case True
  then show ?thesis by (cases k) (simp_all add: path_rest_def blank_token_def)
next
  case False
  have v: "\<forall>n \<in> set (drop k ns). valid_name n" "\<forall>n \<in> set (rev (drop k ns)). valid_name n"
    using assms by (auto dest: in_set_dropD)
  have "split_on slash (slash # join ''/'' ns) = [] # ns"
    using assms False by (simp add: split_on_join valid_name_def)
  then show ?thesis
    using v by (simp add: path_rest_def drop_body_names [OF assms] dropWhile_names)
qed

lemma resolve_chars_acc:
  "n \<in> set (foldl resolve_step ns cs) \<Longrightarrow> n \<in> set ns \<or> Normal n \<in> set cs"
proof (induction cs arbitrary: ns)
  case (Cons c cs)
  then have "n \<in> set (resolve_step ns c) \<or> Normal n \<in> set cs" by simp
  then show ?case by (auto simp: resolve_step_def dest: in_set_butlastD split: path_component.splits)
qed simp

lemma token_chars: "t \<in> set (split_on c s) \<Longrightarrow> set t \<subseteq> set s"
proof (induction s arbitrary: t)
  case (Cons x s)
  obtain w ws where s: "split_on c s = w # ws" by (cases "split_on c s") auto
  have IH: "u \<in> set (w # ws) \<Longrightarrow> set u \<subseteq> set s" for u using Cons.IH [of u] s by simp
  have "t = [] \<or> t \<in> set (w # ws) \<or> t = x # w"
    using Cons.prems by (auto simp: s split: if_splits)
  then show ?case using IH [of t] IH [of w] by auto
qed simp

lemma body_chars: "Normal n \<in> set (body_components s) \<Longrightarrow> set n \<subseteq> set s"
proof -
  assume "Normal n \<in> set (body_components s)"
  then obtain t where t: "t \<in> set (split_on slash s)" and n: "Normal n \<in> set (body_component t)"
    by (auto simp: body_components_def)
  have "t = n" using n by (auto simp: body_component_def split: if_splits)
  then show ?thesis using token_chars [OF t] by simp
qed

lemma join_chars: "x \<in> set (join sep ns) \<Longrightarrow> x \<in> set sep \<or> (\<exists>n \<in> set ns. x \<in> set n)"
  by (induction sep ns rule: join.induct) auto

lemma path_match_string_id: "backslash \<notin> set s \<Longrightarrow> path_match_string s = s"
  by (induction s) (auto simp: path_match_string_def replace_char_def)

lemma resolved_chars:
  assumes "n \<in> set (resolved_names d p)"
  shows "set n \<subseteq> set d \<union> set p"
proof -
  have tl: "set (tl x) \<subseteq> set x" for x :: string by (cases x) auto
  have "Normal n \<in> set (body_components (tl p)) \<or> Normal n \<in> set (body_components (tl d))
      \<or> Normal n \<in> set (body_components p)"
    using resolve_chars_acc [OF assms [unfolded resolved_names_def resolve_def]] by (auto split: if_splits)
  then have "set n \<subseteq> set (tl p) \<or> set n \<subseteq> set (tl d) \<or> set n \<subseteq> set p" using body_chars by blast
  then show ?thesis using tl [of p] tl [of d] by blast
qed

lemma resolved_valid: "\<forall>n \<in> set (resolved_names d p). valid_name n"
  unfolding resolved_names_def resolve_def
  by (rule resolve_valid_acc) (use body_no_root in \<open>auto split: if_splits\<close>)

lemma absolute_normalized_eq:
  assumes "is_absolute d" and "\<not> is_tilde_path p"
  shows "absolute_normalized_path p (Some d) = slash # join ''/'' (resolved_names d p)"
proof -
  obtain d' where d: "d = slash # d'" using assms(1) by (cases d) auto
  show ?thesis
  proof (cases "is_absolute p")
    case True
    then obtain p' where "p = slash # p'" by (cases p) auto
    then show ?thesis
      using assms(2) by (simp add: absolute_normalized_path_def normalize_absolute resolved_names_def)
  next
    case False
    obtain s where s: "path_push (slash # d') p = slash # s"
        "body_components s = body_components d' @ body_components p"
      using body_components_push [OF False] by blast
    then show ?thesis
      using assms(2) False d
      by (simp add: absolute_normalized_path_def normalize_absolute resolved_names_def)
  qed
qed

lemma path_match_string_blank:
  "path_match_string s = [] \<longleftrightarrow> s = []" "path_match_string s = ''.'' \<longleftrightarrow> s = ''.''"
  by (auto simp: path_match_string_def replace_char_def split: if_splits)

theorem path_forms_exact:
  assumes d: "is_absolute d" and t: "\<not> is_tilde_path p"
  shows "path_match_forms p (Some d) = map path_match_string
    (let ns = resolved_names d p; ds = resolved_names d d; r = join ''/'' (drop (length ds) ns)
     in (slash # join ''/'' ns) #
        (if prefix ds ns then if ns = ds then [''.'', ''./''] else [''./'' @ r, r] else []))"
proof -
  let ?ns = "resolved_names d p" and ?ds = "resolved_names d d"
  let ?r = "join ''/'' (drop (length ?ds) ?ns)"
  note ns = resolved_valid [of d p] and ds = resolved_valid [of d d]
  have abs: "absolute_normalized_path p (Some d) = slash # join ''/'' ?ns"
    by (rule absolute_normalized_eq [OF d t])
  have nd: "normalize_lexically d = slash # join ''/'' ?ds"
    using d by (cases d) (auto simp: normalize_absolute resolved_names_def)
  have cs: "components (slash # join ''/'' ?ns) = RootDir # map Normal ?ns"
      "components (slash # join ''/'' ?ds) = RootDir # map Normal ?ds"
    by (simp_all add: components_absolute body_components_join ns ds)
  have "take (length ?ds) ?ns = ?ds \<longleftrightarrow> prefix ?ds ?ns"
    by (metis prefix_def take_is_prefix append_eq_conv_conj)
  then have strip: "path_strip_prefix (slash # join ''/'' ?ns) (normalize_lexically d)
      = (if prefix ?ds ?ns then Some ?r else None)"
    by (simp add: path_strip_prefix_def nd cs path_rest_names [OF ns] take_map inj_map_eq_map inj_def)
  have r: "?r = [] \<or> ?r = ''.'' \<longleftrightarrow> drop (length ?ds) ?ns = []"
  proof -
    have v: "\<forall>n \<in> set (drop (length ?ds) ?ns). valid_name n" using ns by (auto dest: in_set_dropD)
    have "components (slash # ?r) = RootDir # map Normal (drop (length ?ds) ?ns)"
      by (simp add: components_absolute body_components_join v)
    moreover have "body_components ''.'' = []" "body_components [] = []"
      by (simp_all add: body_components_def body_component_def blank_token_def)
    ultimately show ?thesis by (auto simp: components_absolute)
  qed
  have eq: "prefix ?ds ?ns \<Longrightarrow> drop (length ?ds) ?ns = [] \<longleftrightarrow> ?ns = ?ds"
    by (auto simp: prefix_def)
  have fixed: "path_match_string [] = []" "path_match_string ''.'' = ''.''" "path_match_string ''./'' = ''./''"
      "path_match_string (CHR ''.'' # slash # s) = CHR ''.'' # slash # path_match_string s" for s
    by (simp_all add: path_match_string_def replace_char_def)
  have "path_match_forms p (Some d) = path_match_string (slash # join ''/'' ?ns) #
      (if prefix ?ds ?ns then if ?r = [] \<or> ?r = ''.'' then [''.'', ''./'']
        else [''./'' @ path_match_string ?r, path_match_string ?r] else [])"
    by (simp add: path_match_forms_def abs strip Let_def path_match_string_blank)
  then show ?thesis
    using r eq by (simp only: Let_def) (simp add: fixed cong: if_cong)
qed

text \<open>A path into a home directory is compared as it was written, whatever the working directory.\<close>

lemma tilde_forms_exact:
  assumes "is_absolute d" and "is_tilde_path p"
  shows "path_match_forms p (Some d) = [path_match_string p]"
proof -
  obtain n cs where p: "components p = Normal n # cs"
    using assms(2) by (auto simp: is_tilde_path_def split: list.splits path_component.splits)
  have "normalize_lexically d = slash # join ''/'' (resolved_names d d)"
    using assms(1) by (cases d) (auto simp: normalize_absolute resolved_names_def)
  then have "path_strip_prefix p (normalize_lexically d) = None"
    by (simp add: path_strip_prefix_def components_absolute p)
  then show ?thesis using assms(2) by (simp add: path_match_forms_def absolute_normalized_path_def)
qed

end
