(* ===== verification/Perm_Gate.thy ===== *)
theory Perm_Gate
  imports Perm_Policy "HOL-Library.Multiset"
begin

text \<open>
  What the policy decides, independently of how its loops are written. The evaluation of the
  rules is characterised by which rules match; the gate by the commands a script is seen to
  run: the commands the script splits into, what their wrappers run, and the same again for
  the scripts handed to a shell with \<open>-c\<close> or to \<open>env -S\<close>, up to the depth limit.
\<close>

section \<open>Precedence of the rules\<close>

definition rule_matches ::
  "('pat, 'j) policy_env \<Rightarrow> 'j AccessKind \<Rightarrow> string option \<Rightarrow> PermissionRule \<Rightarrow> bool" where
  "rule_matches E access cwd rule \<longleftrightarrow> tool_filter_matches access (rule_tool rule)
     \<and> pattern_matches E access rule (compile_matcher E rule) cwd"

definition some_rule ::
  "('pat, 'j) policy_env \<Rightarrow> PermissionConfig \<Rightarrow> RuleAction \<Rightarrow> 'j AccessKind \<Rightarrow> string option \<Rightarrow> bool" where
  "some_rule E c act access cwd \<longleftrightarrow>
     (\<exists>rule \<in> set (rules c). rule_action rule = act \<and> rule_matches E access cwd rule)"

lemma zip_matchers: "zip rs (map f rs) = map (\<lambda>r. (r, f r)) rs"
  by (induction rs) simp_all

lemma policy_new_simps [simp]:
  "zip (config_rules (policy_new E c)) (matchers (policy_new E c))
     = map (\<lambda>r. (r, compile_matcher E r)) (rules c)"
  "zip (map (\<lambda>r. (r, compile_matcher E r)) (rules c)) (catchall (policy_new E c))
     = map (\<lambda>r. ((r, compile_matcher E r), rule_is_catchall E r)) (rules c)"
  by (simp_all add: policy_new_def zip_matchers zip_map1 zip_map2 zip_same_conv_map)

lemma evaluate_rules_cases:
  "evaluate_rules E access cwd (map (\<lambda>r. (r, compile_matcher E r)) rs) a b =
     (case List.find (\<lambda>r. rule_action r = R_Deny \<and> rule_matches E access cwd r) rs of
        Some r \<Rightarrow> Inl (deny_reason r)
      | None \<Rightarrow> Inr (a \<or> (\<exists>r \<in> set rs. rule_action r = R_Ask \<and> rule_matches E access cwd r),
                     b \<or> (\<exists>r \<in> set rs. rule_action r = R_Allow \<and> rule_matches E access cwd r)))"
proof (induction rs arbitrary: a b)
  case (Cons r rs)
  then show ?case
    by (cases "rule_action r") (auto simp: rule_matches_def split: option.split)
qed simp

definition first_deny ::
  "('pat, 'j) policy_env \<Rightarrow> PermissionConfig \<Rightarrow> 'j AccessKind \<Rightarrow> string option \<Rightarrow> PermissionRule option" where
  "first_deny E c access cwd =
     List.find (\<lambda>r. rule_action r = R_Deny \<and> rule_matches E access cwd r) (rules c)"

lemma first_deny_None: "first_deny E c access cwd = None \<longleftrightarrow> \<not> some_rule E c R_Deny access cwd"
  by (auto simp: first_deny_def some_rule_def find_None_iff)

definition allow_granted ::
  "('pat, 'j) policy_env \<Rightarrow> PermissionConfig \<Rightarrow> 'j AccessKind \<Rightarrow> string option \<Rightarrow> bool" where
  "allow_granted E c access cwd = (case access of
      A_Bash cmd \<Rightarrow> has_bash_allow_rules (policy_new E c)
        \<and> bash_chain_fully_allowed E (policy_new E c) MAX_INLINE_SHELL_DEPTH Scope_Any cmd
    | _ \<Rightarrow> some_rule E c R_Allow access cwd)"

lemma evaluate_cases:
  "evaluate_with_cwd E (policy_new E c) access cwd =
     (case first_deny E c access cwd of
        Some r \<Rightarrow> Some (D_Reject (deny_reason r))
      | None \<Rightarrow>
          if some_rule E c R_Ask access cwd then Some D_Ask
          else if allow_granted E c access cwd then Some D_Allow else None)"
  by (simp add: evaluate_with_cwd_def evaluate_rules_cases first_deny_def some_rule_def
      allow_granted_def split: option.split AccessKind.split)

lemma evaluate_reject_iff:
  "(\<exists>r. evaluate_with_cwd E (policy_new E c) access cwd = Some (D_Reject r))
     \<longleftrightarrow> some_rule E c R_Deny access cwd"
  using first_deny_None [of E c access cwd]
  by (auto simp: evaluate_cases split: option.splits)

section \<open>Deny and ask reach the gate\<close>

definition gate_level :: "GateDecision option \<Rightarrow> nat" where
  "gate_level d = (case d of None \<Rightarrow> 0 | Some g \<Rightarrow> gate_rank g)"

lemma gate_level_combine [simp]:
  "gate_level (combine_gate_decisions a b) = max (gate_level a) (gate_level b)"
  by (cases a; cases b) (auto simp: combine_gate_decisions_def gate_level_def)

lemma gate_level_fold:
  "gate_level (foldl (\<lambda>d w. combine_gate_decisions d (f w)) d ws)
     = fold (\<lambda>w. max (gate_level (f w))) ws (gate_level d)"
  by (induction ws arbitrary: d) (simp_all add: max.commute)

lemma fold_max_least: "(m :: nat) \<le> fold (\<lambda>w. max (f w)) ws m"
proof (induction ws arbitrary: m)
  case (Cons x ws)
  have "m \<le> max (f x) m" by simp
  also have "\<dots> \<le> fold (\<lambda>w. max (f w)) ws (max (f x) m)" by (rule Cons.IH)
  finally show ?case by simp
qed simp

lemma fold_max_mem: "w \<in> set ws \<Longrightarrow> f w \<le> fold (\<lambda>w. max (f w)) ws (m :: nat)"
proof (induction ws arbitrary: m)
  case (Cons x ws)
  then show ?case
    using fold_max_least [of "max (f x) m" f ws] by auto
qed simp

lemma gate_level_fold_mem:
  assumes "w \<in> set ws"
  shows "gate_level (f w) \<le> gate_level (foldl (\<lambda>d w. combine_gate_decisions d (f w)) d ws)"
  unfolding gate_level_fold by (rule fold_max_mem [where f = "\<lambda>w. gate_level (f w)", OF assms])

lemma gate_level_iff:
  "gate_level d = 0 \<longleftrightarrow> d = None" "3 \<le> gate_level d \<longleftrightarrow> (\<exists>r. d = Some (G_Reject r))"
  "2 \<le> gate_level d \<longleftrightarrow> (\<exists>r. d = Some (G_Reject r)) \<or> d = Some AskRuleMatch"
  "1 \<le> gate_level d \<longleftrightarrow> d \<noteq> None"
  by (auto simp: gate_level_def gate_rank_def split: option.splits GateDecision.splits)

text \<open>The commands a script is seen to run, within a depth of nested scripts.\<close>

inductive seen_running ::
  "('pat, 'j) policy_env \<Rightarrow> nat \<Rightarrow> string \<Rightarrow> string list \<Rightarrow> bool" for E where
  raw: "script_commands E s = Some segs \<Longrightarrow> w \<in> set segs \<Longrightarrow> seen_running E n s w"
| peeled: "script_commands E s = Some segs \<Longrightarrow> w \<in> set segs \<Longrightarrow>
    seen_running E n s (norm_words (normalize_command_words w))"
| inline: "script_commands E s = Some segs \<Longrightarrow> w \<in> set segs \<Longrightarrow>
    inner = norm_words (normalize_command_words w) \<Longrightarrow>
    shell_dash_c_script (map W_Literal inner) = Inline_Literal i \<Longrightarrow>
    seen_running E n (inner ! i) v \<Longrightarrow> seen_running E (Suc n) s v"
| packed: "script_commands E s = Some segs \<Longrightarrow> w \<in> set segs \<Longrightarrow>
    env_split_string_script (norm_words (normalize_command_words w)) = Some script \<Longrightarrow>
    seen_running E n script v \<Longrightarrow> seen_running E (Suc n) s v"

definition inline_gate ::
  "('pat, 'j) policy_env \<Rightarrow> 'pat CompiledPolicy \<Rightarrow> nat \<Rightarrow> (string \<Rightarrow> GateDecision option) option" where
  "inline_gate E p n = (case n of 0 \<Rightarrow> None | Suc m \<Rightarrow> Some (evaluate_bash_command_segments E p m))"

lemma segments_eq:
  "evaluate_bash_command_segments E p n cmd = (case script_commands E cmd of
      None \<Rightarrow> Some AskFailClosed
    | Some segments \<Rightarrow>
        foldl (\<lambda>d words. combine_gate_decisions d (evaluate_command_words E p (inline_gate E p n) words))
          None segments)"
  by (cases n) (simp_all add: inline_gate_def split: option.split)

lemma segments_level:
  assumes "script_commands E s = Some segs" and "w \<in> set segs"
  shows "gate_level (evaluate_command_words E p (inline_gate E p n) w)
    \<le> gate_level (evaluate_bash_command_segments E p n s)"
  using gate_level_fold_mem [OF assms(2), of "evaluate_command_words E p (inline_gate E p n)" None]
  by (subst segments_eq) (simp only: assms(1) option.case)

text \<open>The three parts of the decision on one command: its forms, its inline script, its packed script.\<close>

definition forms_part :: "('pat, 'j) policy_env \<Rightarrow> 'pat CompiledPolicy \<Rightarrow> string list \<Rightarrow> GateDecision option" where
  "forms_part E p w = foldl (\<lambda>d words. combine_gate_decisions d (escalate E p (join_words words)))
     (combine_gate_decisions
       (ask_if (norm_exhausted (normalize_command_words w) \<or> norm_ambiguous (normalize_command_words w)
          \<or> norm_env_options_uncertain (normalize_command_words w)))
       (ask_if (norm_has_split_string (normalize_command_words w))))
     (w # (if length (norm_words (normalize_command_words w)) \<noteq> length w
           then [norm_words (normalize_command_words w)] else []))"

definition inline_part :: "(string \<Rightarrow> GateDecision option) option \<Rightarrow> string list \<Rightarrow> GateDecision option" where
  "inline_part inline inner = (case shell_dash_c_script (map W_Literal inner) of
      NotInline \<Rightarrow> None
    | Inline_Literal index \<Rightarrow> (case inline of Some gate \<Rightarrow> gate (inner ! index) | None \<Rightarrow> Some AskFailClosed)
    | _ \<Rightarrow> Some AskFailClosed)"

definition packed_part :: "(string \<Rightarrow> GateDecision option) option \<Rightarrow> string list \<Rightarrow> GateDecision option" where
  "packed_part inline inner = (case env_split_string_script inner of
      None \<Rightarrow> None
    | Some script \<Rightarrow> (case inline of Some gate \<Rightarrow> gate script | None \<Rightarrow> Some AskFailClosed))"

lemma command_words_level:
  "gate_level (evaluate_command_words E p inline w) = max (max (gate_level (forms_part E p w))
     (gate_level (inline_part inline (norm_words (normalize_command_words w)))))
     (gate_level (packed_part inline (norm_words (normalize_command_words w))))"
proof -
  have none: "gate_level None = 0" by (simp add: gate_level_def)
  show ?thesis
    unfolding evaluate_command_words_def Let_def forms_part_def [symmetric] inline_part_def packed_part_def
    by (cases "env_split_string_script (norm_words (normalize_command_words w))";
        cases "shell_dash_c_script (map W_Literal (norm_words (normalize_command_words w)))") (simp_all add: none)
qed

lemma forms_level:
  "form \<in> set (w # (if length (norm_words (normalize_command_words w)) \<noteq> length w
      then [norm_words (normalize_command_words w)] else [])) \<Longrightarrow>
    gate_level (escalate E p (join_words form)) \<le> gate_level (forms_part E p w)"
  unfolding forms_part_def by (rule gate_level_fold_mem)

lemma command_words_raw:
  "gate_level (escalate E p (join_words w)) \<le> gate_level (evaluate_command_words E p inline w)"
  unfolding command_words_level using forms_level [of w w E p] by simp

lemma command_words_peeled:
  "gate_level (escalate E p (join_words (norm_words (normalize_command_words w))))
    \<le> gate_level (evaluate_command_words E p inline w)"
proof (cases "length (norm_words (normalize_command_words w)) = length w")
  case True
  then show ?thesis using command_words_raw normalize_same_length by metis
next
  case False
  then show ?thesis
    unfolding command_words_level using forms_level [of "norm_words (normalize_command_words w)" w E p] by simp
qed

lemma command_words_inline:
  assumes "shell_dash_c_script (map W_Literal (norm_words (normalize_command_words w))) = Inline_Literal i"
  shows "gate_level (gate (norm_words (normalize_command_words w) ! i))
    \<le> gate_level (evaluate_command_words E p (Some gate) w)"
  using assms by (simp add: command_words_level inline_part_def)

lemma command_words_packed:
  assumes "env_split_string_script (norm_words (normalize_command_words w)) = Some script"
  shows "gate_level (gate script) \<le> gate_level (evaluate_command_words E p (Some gate) w)"
  using assms by (simp add: command_words_level packed_part_def)

theorem seen_running_level:
  "seen_running E n s w \<Longrightarrow>
   gate_level (escalate E p (join_words w)) \<le> gate_level (evaluate_bash_command_segments E p n s)"
proof (induction rule: seen_running.induct)
  case (raw s segs w n)
  then show ?case by (intro order_trans [OF command_words_raw segments_level])
next
  case (peeled s segs w n)
  then show ?case by (intro order_trans [OF command_words_peeled segments_level])
next
  case (inline s segs w inner i n v)
  have "gate_level (evaluate_bash_command_segments E p n (inner ! i))
      \<le> gate_level (evaluate_command_words E p (inline_gate E p (Suc n)) w)"
    using command_words_inline inline(3,4) by (simp add: inline_gate_def)
  then show ?case
    using inline(6) segments_level [OF inline(1,2), of p "Suc n"] by (meson order_trans)
next
  case (packed s segs w script n v)
  have "gate_level (evaluate_bash_command_segments E p n script)
      \<le> gate_level (evaluate_command_words E p (inline_gate E p (Suc n)) w)"
    using command_words_packed packed(3) by (simp add: inline_gate_def)
  then show ?case
    using packed(5) segments_level [OF packed(1,2), of p "Suc n"] by (meson order_trans)
qed

lemma tool_filter_bash: "tool_filter_matches (A_Bash s) t \<longleftrightarrow> t = T_Bash \<or> t = T_Any"
  by (cases t) (simp_all add: tool_filter_matches_def)

lemma bash_restrictions:
  assumes "some_rule E c act (A_Bash s) cwd" and "act \<in> {R_Deny, R_Ask}"
  shows "has_bash_command_restrictions (policy_new E c)"
  using assms by (fastforce simp: policy_new_def some_rule_def rule_matches_def tool_filter_bash list_ex_iff)

lemma escalate_level:
  "3 \<le> gate_level (escalate E (policy_new E c) s) \<longleftrightarrow> some_rule E c R_Deny (A_Bash s) None"
  "2 \<le> gate_level (escalate E (policy_new E c) s)
     \<longleftrightarrow> some_rule E c R_Deny (A_Bash s) None \<or> some_rule E c R_Ask (A_Bash s) None"
  using first_deny_None [of E c "A_Bash s" None]
  by (auto simp: escalate_def evaluate_def evaluate_cases gate_level_def gate_rank_def
      split: option.splits)

text \<open>Beyond the depth limit the gate no longer names the command, but it is not silent.\<close>

lemma command_words_too_deep:
  assumes "shell_dash_c_script (map W_Literal (norm_words (normalize_command_words w))) = Inline_Literal i
    \<or> env_split_string_script (norm_words (normalize_command_words w)) = Some script"
  shows "1 \<le> gate_level (evaluate_command_words E p None w)"
proof -
  have one: "gate_level (Some AskFailClosed) = 1" by (simp add: gate_level_def gate_rank_def)
  show ?thesis
    using assms by (auto simp: command_words_level inline_part_def packed_part_def le_max_iff_disj one)
qed

lemma seen_running_any_depth:
  assumes "seen_running E m s w" and "1 \<le> gate_level (escalate E p (join_words w))"
  shows "1 \<le> gate_level (evaluate_bash_command_segments E p n s)"
  using assms
proof (induction arbitrary: n rule: seen_running.induct)
  case (raw s segs w m)
  then show ?case
    using command_words_raw [of E p w] segments_level [OF raw(1,2), of p n] by (meson order_trans)
next
  case (peeled s segs w m)
  then show ?case
    using command_words_peeled [of E p w] segments_level [OF peeled(1,2), of p n] by (meson order_trans)
next
  case (inline s segs w inner i m v)
  have "1 \<le> gate_level (evaluate_command_words E p (inline_gate E p n) w)"
  proof (cases n)
    case 0
    then show ?thesis
      using command_words_too_deep [OF disjI1, of w i E p] inline(3,4) by (simp add: inline_gate_def)
  next
    case (Suc k)
    have "1 \<le> gate_level (evaluate_bash_command_segments E p k (inner ! i))"
      by (rule inline(6)) (rule inline(7))
    then show ?thesis
      using command_words_inline [of w i "evaluate_bash_command_segments E p k" E p] inline(3,4) Suc
      by (simp add: inline_gate_def)
  qed
  then show ?case using segments_level [OF inline(1,2), of p n] by (meson order_trans)
next
  case (packed s segs w script m v)
  have "1 \<le> gate_level (evaluate_command_words E p (inline_gate E p n) w)"
  proof (cases n)
    case 0
    then show ?thesis
      using command_words_too_deep [OF disjI2 [OF packed(3)], of E p] by (simp add: inline_gate_def)
  next
    case (Suc k)
    have "1 \<le> gate_level (evaluate_bash_command_segments E p k script)"
      by (rule packed(5)) (rule packed(6))
    then show ?thesis
      using command_words_packed [OF packed(3), of "evaluate_bash_command_segments E p k" E p] Suc
      by (simp add: inline_gate_def)
  qed
  then show ?case using segments_level [OF packed(1,2), of p n] by (meson order_trans)
qed

section \<open>Allow is conjunctive\<close>

text \<open>The commands a script runs, as the allow check sees them: wrappers removed, at any depth
  of \<open>-c\<close>.\<close>

inductive inner_command :: "('pat, 'j) policy_env \<Rightarrow> string \<Rightarrow> string list \<Rightarrow> bool" for E where
  direct: "script_commands E s = Some segs \<Longrightarrow> w \<in> set segs \<Longrightarrow>
    inner_command E s (norm_words (normalize_command_words w))"
| nested: "script_commands E s = Some segs \<Longrightarrow> w \<in> set segs \<Longrightarrow>
    shell_dash_c_script (map W_Literal (norm_words (normalize_command_words w))) = Inline_Literal i \<Longrightarrow>
    inner_command E (norm_words (normalize_command_words w) ! i) v \<Longrightarrow> inner_command E s v"

definition inline_allowed ::
  "('pat, 'j) policy_env \<Rightarrow> 'pat CompiledPolicy \<Rightarrow> AllowRuleScope \<Rightarrow> nat \<Rightarrow> (string \<Rightarrow> bool) option" where
  "inline_allowed E p scope n =
     (case n of 0 \<Rightarrow> None | Suc m \<Rightarrow> Some (bash_chain_fully_allowed E p m scope))"

lemma chain_allowedD:
  assumes "bash_chain_fully_allowed E p n scope s"
  shows "\<exists>segs. script_commands E s = Some segs \<and> segs \<noteq> []
    \<and> (\<forall>w \<in> set segs. bash_command_allowed E p scope (inline_allowed E p scope n) w)"
  using assms by (cases n) (auto simp: inline_allowed_def list_all_iff split: option.splits)

lemma command_allowedD:
  assumes "bash_command_allowed E p scope inline w"
  shows "bash_words_allowed E p (norm_words (normalize_command_words w)) scope
    \<and> norm_certain (normalize_command_words w)"
    and "shell_dash_c_script (map W_Literal (norm_words (normalize_command_words w))) = Inline_Literal i
      \<Longrightarrow> \<exists>allowed. inline = Some allowed \<and> allowed (norm_words (normalize_command_words w) ! i)"
  using assms
  by (auto simp: bash_command_allowed_def Let_def norm_certain_def split: if_splits option.splits)

lemma chain_allowed_inner:
  assumes "inner_command E s v" and "bash_chain_fully_allowed E p n scope s"
  shows "bash_words_allowed E p v scope"
  using assms
proof (induction arbitrary: n rule: inner_command.induct)
  case (direct s segs w)
  then show ?case using chain_allowedD [OF direct(3)] command_allowedD(1) by fastforce
next
  case (nested s segs w i v)
  have "bash_command_allowed E p scope (inline_allowed E p scope n) w"
    using chain_allowedD [OF nested(6)] nested(1,2) by auto
  from command_allowedD(2) [OF this nested(3)] obtain m
    where "bash_chain_fully_allowed E p m scope (norm_words (normalize_command_words w) ! i)"
    by (auto simp: inline_allowed_def split: nat.splits)
  then show ?case by (rule nested(5))
qed

lemma words_allowed_rule:
  assumes "bash_words_allowed E (policy_new E c) v scope"
  shows "v \<noteq> [] \<and> (\<exists>rule \<in> set (rules c). rule_action rule = R_Allow \<and> rule_tool rule \<in> {T_Bash, T_Any}
    \<and> bash_allow_pattern_matches E (join_words v) rule (compile_matcher E rule)
    \<and> (scope = NarrowOnly \<longrightarrow> \<not> rule_is_catchall E rule \<and> \<not> head_is_exec_vehicle v))"
  using assms by (auto simp: bash_words_allowed_def list_ex_iff split: if_splits)

section \<open>The order of rules does not matter\<close>

definition decision_class :: "Decision \<Rightarrow> Decision" where
  "decision_class d = (case d of D_Reject _ \<Rightarrow> D_Reject [] | _ \<Rightarrow> d)"

definition same_rules :: "PermissionConfig \<Rightarrow> PermissionConfig \<Rightarrow> bool" where
  "same_rules c c' \<longleftrightarrow> set (rules c) = set (rules c')"

lemma same_words_allowed:
  assumes "same_rules c c'"
  shows "bash_words_allowed E (policy_new E c) v scope = bash_words_allowed E (policy_new E c') v scope"
  using assms by (simp add: bash_words_allowed_def list_ex_iff same_rules_def)

lemma same_command_allowed:
  assumes "same_rules c c'"
  shows "bash_command_allowed E (policy_new E c) scope inline w
    = bash_command_allowed E (policy_new E c') scope inline w"
  by (simp add: bash_command_allowed_def same_words_allowed [OF assms])

lemma same_chain_allowed:
  assumes "same_rules c c'"
  shows "bash_chain_fully_allowed E (policy_new E c) n scope s
    = bash_chain_fully_allowed E (policy_new E c') n scope s"
proof (induction n arbitrary: s)
  case (Suc n)
  then have "bash_chain_fully_allowed E (policy_new E c) n scope
      = bash_chain_fully_allowed E (policy_new E c') n scope" by (rule ext)
  then show ?case by (simp add: same_command_allowed [OF assms, abs_def] split: option.split)
qed (simp add: same_command_allowed [OF assms, abs_def] split: option.split)

lemma same_some_rule: "same_rules c c' \<Longrightarrow> some_rule E c act a cwd = some_rule E c' act a cwd"
  by (simp add: some_rule_def same_rules_def)

lemma same_allow_granted:
  assumes "same_rules c c'"
  shows "allow_granted E c a cwd = allow_granted E c' a cwd"
proof -
  have "has_bash_allow_rules (policy_new E c) = has_bash_allow_rules (policy_new E c')"
    using assms by (simp add: policy_new_def list_ex_iff same_rules_def)
  then show ?thesis
    by (simp add: allow_granted_def same_chain_allowed [OF assms] same_some_rule [OF assms]
        split: AccessKind.split)
qed

end
