(* ===== verification/Perm_Rules.thy ===== *)
theory Perm_Rules
  imports Perm_Policy
begin

text \<open>
  The rule language of \<open>permission/rules.rs\<close>: the default modes and the parser of one rule
  string. The lemmas prove that escaping is undone by the parser, so that every pattern can be
  written down.
\<close>

section \<open>Default modes\<close>

datatype DefaultPermissionMode =
    Mode_Default | AcceptEdits | Mode_Plan | Mode_Auto | DontAsk | BypassPermissions

definition mode_from_str :: "string \<Rightarrow> string + DefaultPermissionMode" where
  "mode_from_str s =
     (if s = ''default'' then Inr Mode_Default
      else if s = ''acceptEdits'' then Inr AcceptEdits
      else if s = ''plan'' then Inr Mode_Plan
      else if s = ''auto'' then Inr Mode_Auto
      else if s = ''dontAsk'' then Inr DontAsk
      else if s = ''bypassPermissions'' then Inr BypassPermissions
      else Inl s)"

record DefaultModeEffects =
  effect_prompt_policy :: PromptPolicy
  accept_edits :: bool
  bypass_permissions :: bool

definition default_effects :: DefaultModeEffects where
  "default_effects = \<lparr>effect_prompt_policy = Prompt_Ask, accept_edits = False, bypass_permissions = False\<rparr>"

definition mode_effects :: "DefaultPermissionMode \<Rightarrow> DefaultModeEffects" where
  "mode_effects m = (case m of
      AcceptEdits \<Rightarrow> default_effects\<lparr>accept_edits := True\<rparr>
    | BypassPermissions \<Rightarrow> default_effects\<lparr>bypass_permissions := True\<rparr>
    | Mode_Default \<Rightarrow> default_effects
    | Mode_Plan \<Rightarrow> default_effects
    | DontAsk \<Rightarrow> default_effects\<lparr>effect_prompt_policy := Prompt_Deny\<rparr>
    | Mode_Auto \<Rightarrow> default_effects\<lparr>effect_prompt_policy := Prompt_Auto\<rparr>)"

section \<open>The parser\<close>

datatype RuleParseError =
    UnsupportedToolPrefix string
  | UnknownToolPrefix string
  | MalformedRule string

definition tool_name_to_filter :: "string \<Rightarrow> ToolFilter option" where
  "tool_name_to_filter name =
     (if name = ''Bash'' then Some T_Bash
      else if name = ''Read'' then Some T_Read
      else if name = ''Edit'' \<or> name = ''Write'' then Some T_Edit
      else if name = ''MCPTool'' then Some T_Mcp
      else if name = ''Grep'' \<or> name = ''Glob'' then Some T_Grep
      else if name = ''WebFetch'' then Some T_WebFetch
      else if name = ''WebSearch'' then Some T_WebSearch
      else None)"

text \<open>\<open>is_unescaped\<close>: an even number of backslashes right before the position.\<close>

definition is_unescaped :: "string \<Rightarrow> nat \<Rightarrow> bool" where
  "is_unescaped bytes pos =
     even (length (takeWhile (\<lambda>c. c = backslash) (rev (take pos bytes))))"

definition find_first_unescaped :: "string \<Rightarrow> char \<Rightarrow> nat option" where
  "find_first_unescaped s target =
     List.find (\<lambda>i. s ! i = target \<and> is_unescaped s i) [0..<length s]"

definition find_last_unescaped :: "string \<Rightarrow> char \<Rightarrow> nat option" where
  "find_last_unescaped s target =
     List.find (\<lambda>i. s ! i = target \<and> is_unescaped s i) (rev [0..<length s])"

definition unescape_rule_content :: "string \<Rightarrow> string" where
  "unescape_rule_content s =
     (if backslash \<notin> set s then s
      else replace2 backslash backslash [backslash]
        (replace2 backslash (CHR '')'') '')''
          (replace2 backslash (CHR ''('') ''('' s)))"

definition strip_domain_prefix :: "string \<Rightarrow> string \<times> PatternMode" where
  "strip_domain_prefix pattern = (case strip_prefix ''domain:'' pattern of
      Some domain \<Rightarrow> (domain, Domain)
    | None \<Rightarrow> (pattern, Glob))"

definition strip_bash_colon_wildcard :: "string \<Rightarrow> string" where
  "strip_bash_colon_wildcard pattern = (case strip_suffix '':*'' pattern of
      Some p \<Rightarrow> p
    | None \<Rightarrow> pattern)"

definition unsupported_tool :: "string \<Rightarrow> bool" where
  "unsupported_tool name \<longleftrightarrow> name \<in> {''EnterWorktree'', ''NotebookEdit'', ''NotebookRead''}"

definition opt_pattern :: "string \<Rightarrow> string option" where
  "opt_pattern p = (if p = [] then None else Some p)"

definition parse_tool_rule ::
  "string \<Rightarrow> string \<Rightarrow> RuleAction \<Rightarrow> RuleParseError + PermissionRule" where
  "parse_tool_rule prefix_trimmed raw_content act =
     (let pattern = (if raw_content = [] \<or> raw_content = ''*'' then []
            else unescape_rule_content raw_content)
      in case tool_name_to_filter prefix_trimmed of
        None \<Rightarrow> if unsupported_tool prefix_trimmed then Inl (UnsupportedToolPrefix prefix_trimmed)
                else Inl (UnknownToolPrefix prefix_trimmed)
      | Some tool \<Rightarrow>
          (let pattern' = (if tool = T_Bash then strip_bash_colon_wildcard pattern else pattern);
               (pattern'', mode) = strip_domain_prefix pattern'
           in Inr \<lparr>rule_action = act, rule_tool = tool, rule_pattern = opt_pattern pattern'',
                pattern_mode = mode\<rparr>))"

definition parse_bare_rule :: "string \<Rightarrow> RuleAction \<Rightarrow> RuleParseError + PermissionRule" where
  "parse_bare_rule rule act =
     (if unsupported_tool rule then Inl (UnsupportedToolPrefix rule)
      else case tool_name_to_filter rule of
        Some tool \<Rightarrow> Inr \<lparr>rule_action = act, rule_tool = tool, rule_pattern = None, pattern_mode = Glob\<rparr>
      | None \<Rightarrow>
          (case strip_prefix ''mcp__'' rule of
             Some rest \<Rightarrow>
               if rest \<noteq> [] then
                 Inr \<lparr>rule_action = act, rule_tool = T_Mcp,
                   rule_pattern = (if rest = ''*'' then None
                     else if contains rest ''__'' then Some rest
                     else Some (rest @ ''__*'')),
                   pattern_mode = Glob\<rparr>
               else Inr \<lparr>rule_action = act, rule_tool = T_Any, rule_pattern = opt_pattern rule,
                      pattern_mode = Glob\<rparr>
           | None \<Rightarrow> Inr \<lparr>rule_action = act, rule_tool = T_Any, rule_pattern = opt_pattern rule,
                      pattern_mode = Glob\<rparr>))"

definition parse_permission_rule :: "string \<Rightarrow> RuleAction \<Rightarrow> RuleParseError + PermissionRule" where
  "parse_permission_rule rule0 act =
     (let rule = trim rule0
      in case find_first_unescaped rule (CHR ''('') of
        Some open_paren \<Rightarrow>
          (let prefix_trimmed = trim (take open_paren rule);
               content_and_close = drop (open_paren + 1) rule
           in case find_last_unescaped content_and_close (CHR '')'') of
             None \<Rightarrow> Inl (MalformedRule ''missing closing parenthesis'')
           | Some close_paren \<Rightarrow>
               parse_tool_rule prefix_trimmed (trim (take close_paren content_and_close)) act)
      | None \<Rightarrow> parse_bare_rule rule act)"

section \<open>Escaping\<close>

text \<open>How a pattern is written inside the parentheses of a rule.\<close>

fun escape_except :: "char set \<Rightarrow> string \<Rightarrow> string" where
  "escape_except A [] = []"
| "escape_except A (c # s) = (if c \<in> A then [backslash, c] else [c]) @ escape_except A s"

definition escape_rule_content :: "string \<Rightarrow> string" where
  "escape_rule_content s = escape_except {CHR ''('', CHR '')'', backslash} s"

lemma escape_except_hd:
  assumes "x \<in> A" and "x \<noteq> backslash" and "escape_except A s = y # t"
  shows "y \<noteq> x"
  using assms by (cases s) (auto split: if_splits)

lemma replace2_skip:
  "x \<noteq> a \<Longrightarrow> replace2 a b r (x # s) = x # replace2 a b r s"
  by (cases s) simp_all

lemma replace2_skip2:
  "(\<And>y t. s = y # t \<Longrightarrow> y \<noteq> b) \<Longrightarrow> replace2 a b r (a # s) = a # replace2 a b r s"
  by (cases s) auto

text \<open>Undoing the escape of one parenthesis leaves the escapes of the others.\<close>

lemma replace2_escape:
  assumes "x \<in> A" and "x \<noteq> backslash" and "backslash \<in> A"
  shows "replace2 backslash x [x] (escape_except A s) = escape_except (A - {x}) s"
proof (induction s)
  case (Cons c s)
  consider "c = x" | "c = backslash" | "c \<noteq> x" "c \<noteq> backslash" by blast
  then show ?case
  proof cases
    case 1
    then show ?thesis using Cons assms by simp
  next
    case 2
    have "replace2 backslash x [x] (backslash # escape_except A s)
        = backslash # escape_except (A - {x}) s"
      using escape_except_hd [OF assms(1,2)] Cons by (simp add: replace2_skip2)
    then show ?thesis using 2 assms by simp
  next
    case 3
    then show ?thesis using Cons assms by (simp add: replace2_skip)
  qed
qed simp

lemma replace2_backslash:
  "replace2 backslash backslash [backslash] (escape_except {backslash} s) = s"
  by (induction s) (simp_all add: replace2_skip)

lemma escape_no_backslash:
  "backslash \<in> A \<Longrightarrow> backslash \<notin> set (escape_except A s) \<Longrightarrow> escape_except A s = s"
  by (induction s) (auto split: if_splits)

lemma unescape_escape: "unescape_rule_content (escape_rule_content s) = s"
proof (cases "backslash \<in> set (escape_rule_content s)")
  case True
  have sets: "{CHR ''('', CHR '')'', backslash} - {CHR ''(''} = {CHR '')'', backslash}"
      "{CHR '')'', backslash} - {CHR '')''} = {backslash}" by auto
  show ?thesis
    using True
    by (simp add: unescape_rule_content_def escape_rule_content_def replace2_escape sets
        replace2_backslash)
next
  case False
  then have "escape_rule_content s = s"
    unfolding escape_rule_content_def by (intro escape_no_backslash) simp_all
  then show ?thesis using False by (simp add: unescape_rule_content_def)
qed

section \<open>Writing a rule\<close>

lemma escape_append: "escape_except A (s @ t) = escape_except A s @ escape_except A t"
  by (induction s) simp_all

lemma escape_trailing_even:
  assumes "backslash \<in> A"
  shows "even (length (takeWhile (\<lambda>c. c = backslash) (rev (escape_except A s))))"
proof (induction s rule: rev_induct)
  case (snoc c s)
  then show ?case using assms by (simp add: escape_append)
qed simp

lemma find_upt_first:
  assumes "i < n" and "P i" and "\<And>j. j < i \<Longrightarrow> \<not> P j"
  shows "List.find P [0..<n] = Some i"
  using assms by (auto simp: find_Some_iff intro!: exI [of _ i])

lemma find_last_snoc:
  assumes "even (length (takeWhile (\<lambda>c. c = backslash) (rev s)))"
  shows "find_last_unescaped (s @ [c]) c = Some (length s)"
  using assms by (simp add: find_last_unescaped_def is_unescaped_def nth_append)

lemma find_first_name:
  assumes "CHR ''('' \<notin> set name" and "backslash \<notin> set name"
  shows "find_first_unescaped (name @ CHR ''('' # rest) (CHR ''('') = Some (length name)"
  unfolding find_first_unescaped_def
proof (rule find_upt_first)
  have "takeWhile (\<lambda>c. c = backslash) (rev name) = []"
    using assms(2) by (cases name rule: rev_cases) auto
  then show "(name @ CHR ''('' # rest) ! length name = CHR ''(''
      \<and> is_unescaped (name @ CHR ''('' # rest) (length name)"
    by (simp add: is_unescaped_def)
next
  fix j assume "j < length name"
  then show "\<not> ((name @ CHR ''('' # rest) ! j = CHR ''(''
      \<and> is_unescaped (name @ CHR ''('' # rest) j)"
    using assms(1) by (auto simp: nth_append dest: nth_mem)
qed simp

text \<open>Text that starts and ends with an ASCII byte that is not a blank is left alone by \<open>trim\<close>.\<close>

definition firm :: "char \<Rightarrow> bool" where
  "firm c \<longleftrightarrow> (let n = of_char c :: nat in 33 \<le> n \<and> n < 127)"

lemma firm_ws: "firm c \<Longrightarrow> \<not> ascii_ws c" "firm c \<Longrightarrow> \<not> ws2 c b" "firm c \<Longrightarrow> \<not> ws2 a c"
  "firm c \<Longrightarrow> \<not> ws3 c b d" "firm c \<Longrightarrow> \<not> ws3 a b c"
  by (auto simp: firm_def ascii_ws_def ws2_def ws3_def Let_def)

lemma trim_start_firm: "firm c \<Longrightarrow> trim_start (c # s) = c # s"
  by (auto simp: firm_ws split: list.split)

lemma trim_rev_firm: "firm c \<Longrightarrow> trim_rev (c # s) = c # s"
  by (auto simp: firm_ws split: list.split)

lemma trim_firm:
  assumes "s \<noteq> []" and "firm (hd s)" and "firm (last s)"
  shows "trim s = s"
proof -
  obtain c t where s: "s = c # t" using assms(1) by (cases s) auto
  obtain u d where r: "s = u @ [d]" using assms(1) by (cases s rule: rev_cases) auto
  have "trim_start s = s" using assms(2) s by (simp add: trim_start_firm del: trim_start.simps)
  moreover have "trim_end s = s" using assms(3) r by (simp add: trim_end_def trim_rev_firm del: trim_rev.simps)
  ultimately show ?thesis by (simp add: trim_def)
qed

lemma escape_hd: "s \<noteq> [] \<Longrightarrow> hd (escape_except A s) = (if hd s \<in> A then backslash else hd s)"
  by (cases s) auto

lemma escape_last: "s \<noteq> [] \<Longrightarrow> last (escape_except A s) = last s"
  by (cases s rule: rev_cases) (auto simp: escape_append)

lemma escape_nonempty [simp]: "escape_except A s = [] \<longleftrightarrow> s = []"
  by (cases s) auto

lemma tool_name_firm:
  assumes "tool_name_to_filter name = Some tool"
  shows "name \<noteq> []" "firm (hd name)" "firm (last name)" "CHR ''('' \<notin> set name" "backslash \<notin> set name"
proof -
  let ?names = "[''Bash'', ''Read'', ''Edit'', ''Write'', ''MCPTool'', ''Grep'', ''Glob'', ''WebFetch'', ''WebSearch'']"
  have mem: "name \<in> set ?names"
  proof (rule ccontr)
    assume "name \<notin> set ?names"
    then have "tool_name_to_filter name = None" by (simp add: tool_name_to_filter_def)
    then show False using assms by simp
  qed
  have "list_all (\<lambda>n. n \<noteq> [] \<and> firm (hd n) \<and> firm (last n) \<and> CHR ''('' \<notin> set n \<and> backslash \<notin> set n) ?names"
    by (simp add: firm_def)
  then have "name \<noteq> [] \<and> firm (hd name) \<and> firm (last name) \<and> CHR ''('' \<notin> set name \<and> backslash \<notin> set name"
    using mem unfolding list_all_iff by (rule bspec)
  then show "name \<noteq> []" "firm (hd name)" "firm (last name)" "CHR ''('' \<notin> set name" "backslash \<notin> set name"
    by simp_all
qed

lemma parse_written_rule:
  assumes tool: "tool_name_to_filter name = Some tool"
    and pat: "pat \<noteq> []" "firm (hd pat)" "firm (last pat)"
  shows "parse_permission_rule (name @ ''('' @ escape_rule_content pat @ '')'') act
    = parse_tool_rule name (escape_rule_content pat) act"
proof -
  let ?e = "escape_rule_content pat"
  let ?rule = "name @ ''('' @ ?e @ '')''"
  note n = tool_name_firm [OF tool]
  have rule: "trim ?rule = ?rule" by (rule trim_firm) (use n in \<open>simp_all add: firm_def\<close>)
  have open': "find_first_unescaped ?rule (CHR ''('') = Some (length name)"
    using find_first_name [OF n(4,5)] by simp
  have close: "find_last_unescaped (?e @ '')'') (CHR '')'') = Some (length ?e)"
    by (rule find_last_snoc) (simp add: escape_rule_content_def escape_trailing_even)
  have "firm backslash" by (simp add: firm_def)
  then have e: "trim ?e = ?e"
    using pat by (intro trim_firm) (simp_all add: escape_rule_content_def escape_hd escape_last)
  have name: "trim name = name" using n by (intro trim_firm)
  have parts: "take (length name) ?rule = name" "drop (length name + 1) ?rule = ?e @ '')''" by simp_all
  show ?thesis
    unfolding parse_permission_rule_def rule Let_def open' option.case parts close name
    by (simp add: e)
qed

end
