(* ===== verification/Perm_Examples.thy ===== *)
theory Perm_Examples
  imports Perm_Policy
begin

text \<open>
  An environment for the examples of the permission theories: a parser that knows \<open>;\<close>, blanks
  and the redirection \<open>>\<close>, and a glob engine that knows \<open>*\<close>. They stand for the tree-sitter
  grammar and the glob crate, and no property depends on them.
\<close>

fun star_match :: "string \<Rightarrow> string \<Rightarrow> bool" where
  "star_match [] text = (text = [])"
| "star_match (c # pat) [] = (c = CHR ''*'' \<and> star_match pat [])"
| "star_match (c # pat) (x # text) =
     (if c = CHR ''*'' then star_match pat (x # text) \<or> star_match (c # pat) text
      else c = x \<and> star_match pat text)"

text \<open>The pieces of a text with their offsets.\<close>

fun offsets :: "nat \<Rightarrow> string list \<Rightarrow> (nat \<times> string) list" where
  "offsets p [] = []"
| "offsets p (w # ws) = (p, w) # offsets (p + length w + 1) ws"

definition ex_word :: "nat \<times> string \<Rightarrow> Node" where
  "ex_word q = Node ''word'' True False (fst q) (fst q + length (snd q)) []"

text \<open>The words of a command; after \<open>>\<close> comes the destination of a redirection.\<close>

definition ex_command :: "nat \<Rightarrow> string \<Rightarrow> Node" where
  "ex_command p seg =
     (let ws = filter (\<lambda>q. snd q \<noteq> []) (offsets p (split_on (CHR '' '') seg));
          args = map ex_word (takeWhile (\<lambda>q. snd q \<noteq> ''>'') ws);
          cmd = Node ''command'' True False p (p + length seg) (case args of
              [] \<Rightarrow> []
            | n # ns \<Rightarrow> (Some ''name'', Node ''command_name'' True False (start_byte n) (end_byte n) [(None, n)])
                # map (\<lambda>w. (Some ''argument'', w)) ns)
      in case dropWhile (\<lambda>q. snd q \<noteq> ''>'') ws of
        gt # dest # _ \<Rightarrow> Node ''redirected_statement'' True False p (p + length seg)
          [(Some ''body'', cmd),
           (Some ''redirect'', Node ''file_redirect'' True False (fst gt) (fst dest + length (snd dest))
             [(None, Node ''>'' False False (fst gt) (fst gt + 1) []), (Some ''destination'', ex_word dest)])]
      | _ \<Rightarrow> cmd)"

definition ex_parse :: "string \<Rightarrow> Node option" where
  "ex_parse s = Some (Node ''program'' True False 0 (length s)
     (concat (map (\<lambda>(p, seg). [(None, ex_command p seg),
         (None, Node '';'' False False (p + length seg) (p + length seg + 1) [])])
       (offsets 0 (split_on (CHR '';'') s)))))"

definition ex_perm_env :: "(string, unit) policy_env" where
  "ex_perm_env = \<lparr>parse_shell = ex_parse, glob_new = Some, glob_match = (\<lambda>_. star_match),
     url_host = (\<lambda>_. None), lowercase = to_ascii_lowercase, json_null = ()\<rparr>"

end
