(* ===== verification/Perm_Properties.thy ===== *)
theory Perm_Properties
  imports Perm_Gate Perm_Rules Perm_Examples
begin

text \<open>
  The properties of the permission policy, each with an example in the environment of
  \<open>Perm_Examples\<close>.
\<close>

section \<open>A policy to evaluate\<close>

definition ex_rule :: "RuleAction \<Rightarrow> string \<Rightarrow> PermissionRule" where
  "ex_rule act pat = \<lparr>rule_action = act, rule_tool = T_Bash, rule_pattern = Some pat, pattern_mode = Glob\<rparr>"

definition ex_policy :: PermissionConfig where
  "ex_policy = \<lparr>rules = [ex_rule R_Allow ''git'', ex_rule R_Allow ''bash'', ex_rule R_Deny ''rm'',
     ex_rule R_Ask ''curl''], prompt_policy = Prompt_Ask\<rparr>"

lemma ex_allow:
  "evaluate ex_perm_env (policy_new ex_perm_env ex_policy) (A_Bash ''git status;git diff'') = Some D_Allow"
  by code_simp

definition ex_chrt :: "string list" where
  "ex_chrt = [''chrt'', ''-d'', ''-T'', ''500000'', ''-P'', ''1000000'', ''0'', ''rm'', ''-rf'', ''/'']"

definition ex_chrt_inner :: "string list" where
  "ex_chrt_inner = [''-P'', ''1000000'', ''0'', ''rm'', ''-rf'', ''/'']"

lemma ex_chrt_split: "script_commands ex_perm_env (join_words ex_chrt) = Some [ex_chrt]"
  by code_simp

lemma ex_chrt_forms:
  "escalate ex_perm_env (policy_new ex_perm_env ex_policy) (join_words ex_chrt) = None"
  "escalate ex_perm_env (policy_new ex_perm_env ex_policy) (join_words ex_chrt_inner) = None"
  by code_simp+

lemma ex_wrapped:
  "script_commands ex_perm_env ''git status;timeout 5 rm -rf /''
     = Some [[''git'', ''status''], [''timeout'', ''5'', ''rm'', ''-rf'', ''/'']]"
  "norm_words (normalize_command_words [''timeout'', ''5'', ''rm'', ''-rf'', ''/'']) = [''rm'', ''-rf'', ''/'']"
  by code_simp+

lemma ex_denied: "some_rule ex_perm_env ex_policy R_Deny (A_Bash ''rm -rf /'') None"
  by code_simp

section \<open>An option taken for a command\<close>

lemma basename_word: "slash \<notin> set w \<Longrightarrow> backslash \<notin> set w \<Longrightarrow> basename w = w"
  unfolding basename_def by (subst takeWhile_eq_all_conv [THEN iffD2]) auto

lemma option_word_plain:
  assumes "starts_with opt ''-''" and "slash \<notin> set opt" and "backslash \<notin> set opt"
  shows "strip_wrapper_command (opt # rest) = None" "head_basename (opt # rest) \<noteq> Some ''env''"
    "strip_transparent_prefix (opt # rest) = NotPrefix" "\<not> is_wrapper_command (opt # rest)"
    "shell_dash_c_script (map W_Literal (opt # rest)) = NotInline" "env_split_string_script (opt # rest) = None"
proof -
  obtain w where "opt = CHR ''-'' # w" using assms(1) by (cases opt) (auto simp: starts_with_def)
  moreover have "basename opt = opt" by (rule basename_word [OF assms(2,3)])
  ultimately show "strip_wrapper_command (opt # rest) = None" "head_basename (opt # rest) \<noteq> Some ''env''"
    "strip_transparent_prefix (opt # rest) = NotPrefix" "\<not> is_wrapper_command (opt # rest)"
    "shell_dash_c_script (map W_Literal (opt # rest)) = NotInline" "env_split_string_script (opt # rest) = None"
    by (simp_all add: strip_wrapper_command_def strip_transparent_prefix_def head_basename_def
        is_wrapper_command_def shell_dash_c_script_def env_split_string_script_def nul_def image_iff)
qed

lemma skip_plain_options:
  "\<forall>x \<in> set opts. starts_with x ''-'' \<Longrightarrow> \<not> starts_with v ''-'' \<Longrightarrow>
     skip_options (\<lambda>_. False) (opts @ v # rest) i = i + length opts"
  by (induction opts arbitrary: i) simp_all

lemma chrt_normalized:
  assumes "\<forall>x \<in> set opts. starts_with x ''-''" and "\<not> starts_with v ''-''"
    and "starts_with opt ''-''" and "slash \<notin> set opt" and "backslash \<notin> set opt"
  shows "normalize_command_words (''chrt'' # opts @ v # opt # rest) = \<lparr>norm_words = opt # rest,
    norm_has_chdir = False, norm_has_split_string = False, norm_env_options_uncertain = False,
    norm_exhausted = False, norm_ambiguous = False\<rparr>"
proof -
  let ?raw = "''chrt'' # opts @ v # opt # rest"
  note plain = option_word_plain [OF assms(3-5), of rest]
  have chrt: "basename ''chrt'' = ''chrt''" by code_simp
  have strip: "strip_wrapper_command ?raw = Some (opt # rest)" "head_basename ?raw \<noteq> Some ''env''"
    by (simp_all add: strip_wrapper_command_def head_basename_def chrt skip_plain_options [OF assms(1,2)]
        nonempty_from_def slice_from_def)
  obtain a b c where depth: "MAX_WRAPPER_DEPTH = Suc a" "MAX_TRANSPARENT_PREFIX_DEPTH = Suc b"
      "MAX_NORMALIZE_ROUNDS = Suc (Suc c)"
    using that [of 7 7 14]
    by (simp add: MAX_WRAPPER_DEPTH_def MAX_TRANSPARENT_PREFIX_DEPTH_def MAX_NORMALIZE_ROUNDS_def)
  have "unwrap_loop n \<lparr>peel_words = opt # rest, peel_has_chdir = False, peel_has_split_string = False,
      peel_env_options_uncertain = False, peel_exhausted = False\<rparr> = \<lparr>peel_words = opt # rest,
      peel_has_chdir = False, peel_has_split_string = False, peel_env_options_uncertain = False,
      peel_exhausted = False\<rparr>" for n
    by (cases n) (simp_all add: plain)
  then have unwrapped: "unwrap_wrappers_checked ws = \<lparr>peel_words = opt # rest, peel_has_chdir = False,
      peel_has_split_string = False, peel_env_options_uncertain = False, peel_exhausted = False\<rparr>"
    if "ws = ?raw \<or> ws = opt # rest" for ws
    using that by (auto simp: unwrap_wrappers_checked_def depth strip plain Let_def)
  have peeled: "peel_transparent_prefixes (opt # rest) = Peel_Ready (opt # rest)"
    by (simp add: peel_transparent_prefixes_def depth plain)
  have "?raw \<noteq> opt # rest" by (auto dest: arg_cong [where f = length])
  then show ?thesis
    by (simp add: normalize_command_words_def depth Let_def unwrapped peeled plain)
qed

lemma escalate_silent:
  assumes "\<forall>act \<in> {R_Deny, R_Ask}. \<not> some_rule E c act (A_Bash s) None"
  shows "escalate E (policy_new E c) s = None"
  using assms first_deny_None [of E c "A_Bash s" None]
  by (auto simp: escalate_def evaluate_def evaluate_cases split: option.splits)

section \<open>Commands of a script\<close>

text \<open>C5: safety. A deny rule reaches every command a script is seen to run: one of its chained commands,
  what a wrapper, \<open>exec\<close>, \<open>command\<close> or \<open>builtin\<close> runs, and the same inside scripts given to a
  shell with \<open>-c\<close> or to \<open>env -S\<close>, down to the depth limit, where the gate rejects the whole
  script. Below the limit a deny or ask rule still never passes silently: the gate rejects or
  asks.\<close>

theorem deny_reaches_every_command:
  assumes "seen_running E n script w"
  shows "(n = MAX_INLINE_SHELL_DEPTH \<and> some_rule E c R_Deny (A_Bash (join_words w)) None \<longrightarrow>
      (\<exists>r. evaluate_bash_command_policy E (policy_new E c) script = Some (D_Reject r)))
    \<and> (some_rule E c R_Deny (A_Bash (join_words w)) None
        \<or> some_rule E c R_Ask (A_Bash (join_words w)) None \<longrightarrow>
      (\<exists>r. evaluate_bash_command_policy E (policy_new E c) script \<in> {Some (D_Reject r), Some D_Ask}))"
proof (intro conjI impI)
  let ?p = "policy_new E c" and ?s = "join_words w"
  assume n: "n = MAX_INLINE_SHELL_DEPTH \<and> some_rule E c R_Deny (A_Bash ?s) None"
  then have "3 \<le> gate_level (escalate E ?p ?s)" by (simp add: escalate_level)
  also have "\<dots> \<le> gate_level (evaluate_bash_command_segments E ?p MAX_INLINE_SHELL_DEPTH script)"
    using seen_running_level [OF assms] n by simp
  finally obtain r where "evaluate_bash_command_segments E ?p MAX_INLINE_SHELL_DEPTH script = Some (G_Reject r)"
    by (auto simp: gate_level_iff)
  then show "\<exists>r. evaluate_bash_command_policy E ?p script = Some (D_Reject r)"
    using bash_restrictions n
    by (fastforce simp: evaluate_bash_command_policy_def evaluate_bash_command_gate_def into_decision_def)
next
  let ?p = "policy_new E c" and ?s = "join_words w"
  assume d: "some_rule E c R_Deny (A_Bash ?s) None \<or> some_rule E c R_Ask (A_Bash ?s) None"
  then have "2 \<le> gate_level (escalate E ?p ?s)" by (simp add: escalate_level)
  then have "1 \<le> gate_level (evaluate_bash_command_segments E ?p MAX_INLINE_SHELL_DEPTH script)"
    by (intro seen_running_any_depth [OF assms]) simp
  then have "evaluate_bash_command_segments E ?p MAX_INLINE_SHELL_DEPTH script \<noteq> None"
    by (rule gate_level_iff(4) [THEN iffD1])
  then obtain g where "evaluate_bash_command_segments E ?p MAX_INLINE_SHELL_DEPTH script = Some g"
    by blast
  moreover have "has_bash_command_restrictions ?p" using bash_restrictions d by fastforce
  ultimately show "\<exists>r. evaluate_bash_command_policy E ?p script \<in> {Some (D_Reject r), Some D_Ask}"
    by (cases g) (auto simp: evaluate_bash_command_policy_def evaluate_bash_command_gate_def
        into_decision_def)
qed

theorem deny_reaches_every_command_witness:
  "\<exists>r. evaluate_bash_command_policy ex_perm_env (policy_new ex_perm_env ex_policy)
      ''git status;timeout 5 rm -rf /'' = Some (D_Reject r)"
proof -
  have "seen_running ex_perm_env MAX_INLINE_SHELL_DEPTH ''git status;timeout 5 rm -rf /''
      (norm_words (normalize_command_words [''timeout'', ''5'', ''rm'', ''-rf'', ''/'']))"
    by (rule seen_running.peeled [OF ex_wrapped(1)]) simp
  from deny_reaches_every_command [OF this, of ex_policy] show ?thesis
    using ex_denied by (simp add: ex_wrapped(2))
qed

text \<open>C11: safety. A script is allowed only as a whole: when the policy answers Allow, no deny or ask rule
  matches the script, and every command it runs, with wrappers removed and at any depth of
  \<open>-c\<close>, is covered by some allow rule of its own.\<close>

theorem allow_covers_every_command:
  assumes "evaluate E (policy_new E c) (A_Bash script) = Some D_Allow"
    and "inner_command E script v"
  shows "\<not> some_rule E c R_Deny (A_Bash script) None \<and> \<not> some_rule E c R_Ask (A_Bash script) None
    \<and> (\<exists>rule \<in> set (rules c). rule_action rule = R_Allow \<and> rule_tool rule \<in> {T_Bash, T_Any}
        \<and> bash_allow_pattern_matches E (join_words v) rule (compile_matcher E rule))"
proof -
  have e: "first_deny E c (A_Bash script) None = None" "\<not> some_rule E c R_Ask (A_Bash script) None"
      "allow_granted E c (A_Bash script) None"
    using assms(1) by (auto simp: evaluate_def evaluate_cases split: option.splits if_splits)
  then have "bash_words_allowed E (policy_new E c) v Scope_Any"
    using chain_allowed_inner [OF assms(2)] by (auto simp: allow_granted_def)
  then show ?thesis using words_allowed_rule e first_deny_None by blast
qed

theorem allow_covers_every_command_witness:
  "\<exists>rule \<in> set (rules ex_policy). rule_action rule = R_Allow
     \<and> bash_allow_pattern_matches ex_perm_env ''git diff'' rule (compile_matcher ex_perm_env rule)"
proof -
  have split: "script_commands ex_perm_env ''git status;git diff'' = Some [[''git'', ''status''], [''git'', ''diff'']]"
    and norm: "norm_words (normalize_command_words [''git'', ''diff'']) = [''git'', ''diff'']"
    by code_simp+
  have "inner_command ex_perm_env ''git status;git diff'' (norm_words (normalize_command_words [''git'', ''diff'']))"
    by (rule inner_command.direct [OF split]) simp
  from allow_covers_every_command [OF ex_allow this] show ?thesis by (auto simp: norm)
qed

section \<open>Rules\<close>

text \<open>C29: functional. Deny wins over ask, ask over allow, and nothing else decides: the answer is a rejection
  exactly when some deny rule matches, a question exactly when no deny and some ask rule
  matches, and the kind of answer is the same for every order and repetition of the rules.\<close>

theorem rule_precedence:
  "((\<exists>r. evaluate_with_cwd E (policy_new E c) a cwd = Some (D_Reject r)) \<longleftrightarrow> some_rule E c R_Deny a cwd)
   \<and> (evaluate_with_cwd E (policy_new E c) a cwd = Some D_Ask
      \<longleftrightarrow> \<not> some_rule E c R_Deny a cwd \<and> some_rule E c R_Ask a cwd)
   \<and> (same_rules c c' \<longrightarrow>
      map_option decision_class (evaluate_with_cwd E (policy_new E c) a cwd)
      = map_option decision_class (evaluate_with_cwd E (policy_new E c') a cwd))"
proof (intro conjI impI)
  show "(\<exists>r. evaluate_with_cwd E (policy_new E c) a cwd = Some (D_Reject r)) \<longleftrightarrow> some_rule E c R_Deny a cwd"
    by (rule evaluate_reject_iff)
  show "evaluate_with_cwd E (policy_new E c) a cwd = Some D_Ask
      \<longleftrightarrow> \<not> some_rule E c R_Deny a cwd \<and> some_rule E c R_Ask a cwd"
    unfolding first_deny_None [symmetric] by (auto simp: evaluate_cases split: option.splits)
next
  assume same: "same_rules c c'"
  have "first_deny E c a cwd = None \<longleftrightarrow> first_deny E c' a cwd = None"
    by (simp add: first_deny_None same_some_rule [OF same])
  then show "map_option decision_class (evaluate_with_cwd E (policy_new E c) a cwd)
      = map_option decision_class (evaluate_with_cwd E (policy_new E c') a cwd)"
    by (auto simp: evaluate_cases same_some_rule [OF same] same_allow_granted [OF same]
        decision_class_def split: option.splits)
qed

theorem rule_precedence_witness:
  "map_option decision_class (evaluate_with_cwd ex_perm_env (policy_new ex_perm_env ex_policy) (A_Bash ''rm x'') None)
    = map_option decision_class (evaluate_with_cwd ex_perm_env
        (policy_new ex_perm_env (ex_policy\<lparr>rules := rev (rules ex_policy)\<rparr>)) (A_Bash ''rm x'') None)"
  using rule_precedence [of ex_perm_env ex_policy "A_Bash ''rm x''" None "ex_policy\<lparr>rules := rev (rules ex_policy)\<rparr>"]
  by (simp add: same_rules_def)

text \<open>C30: equivalence. The spellings of a path that path rules are compared with, in a session
  whose working directory is absolute. A path into a home directory (\<open>~\<close>, \<open>~user\<close>) is compared
  only as it was written. Every other path is compared in its absolute form, with every \<open>.\<close> and
  \<open>..\<close> resolved against the working directory, and in spellings relative to that directory exactly
  when the resolved path lies inside it. In all of them a backslash reads as a slash. So no
  traversal and no tilde makes a path outside the workspace match a workspace-relative pattern.\<close>

theorem workspace_spellings:
  assumes "is_absolute d"
  shows "path_match_forms p (Some d) = map path_match_string
    (if is_tilde_path p then [p]
     else let ns = resolved_names d p; ds = resolved_names d d; r = join ''/'' (drop (length ds) ns)
       in (slash # join ''/'' ns) #
          (if prefix ds ns then if ns = ds then [''.'', ''./''] else [''./'' @ r, r] else []))"
  using path_forms_exact [OF assms] tilde_forms_exact [OF assms] by simp

theorem workspace_spellings_witness:
  "path_match_forms ''src/../../etc/passwd'' (Some ''/work/repo'') = [''/work/etc/passwd'']
   \<and> path_match_forms ''./src/a'' (Some ''/work/repo'') = [''/work/repo/src/a'', ''./src/a'', ''src/a'']
   \<and> path_match_forms ''~/../src'' (Some ''/work/repo'') = [''~/../src'']"
proof -
  have h: "is_absolute ''/work/repo''" "\<not> is_tilde_path ''src/../../etc/passwd''"
      "\<not> is_tilde_path ''./src/a''" "is_tilde_path ''~/../src''"
      "resolved_names ''/work/repo'' ''src/../../etc/passwd'' = [''work'', ''etc'', ''passwd'']"
      "resolved_names ''/work/repo'' ''./src/a'' = [''work'', ''repo'', ''src'', ''a'']"
      "resolved_names ''/work/repo'' ''/work/repo'' = [''work'', ''repo'']"
    by code_simp+
  have s: "backslash \<notin> set s \<Longrightarrow> path_match_string s = s" for s by (rule path_match_string_id)
  show ?thesis using workspace_spellings [OF h(1)] by (simp add: h Let_def s)
qed

text \<open>C34: roundtrip. Every pattern can be written as a rule: a pattern that begins and ends with a visible
  ASCII character, escaped and put in the parentheses of a tool name, is parsed back to
  exactly that pattern, unless it is one of the forms with a meaning of their own (\<open>*\<close>, a
  \<open>domain:\<close> prefix, and for Bash a trailing \<open>:*\<close>).\<close>

theorem written_rule_parsed:
  assumes "tool_name_to_filter name = Some tool"
    and "pat \<noteq> []" and "firm (hd pat)" and "firm (last pat)" and "pat \<noteq> ''*''"
    and "\<not> starts_with pat ''domain:''" and "tool = T_Bash \<longrightarrow> \<not> ends_with pat '':*''"
  shows "parse_permission_rule (name @ ''('' @ escape_rule_content pat @ '')'') act
    = Inr \<lparr>rule_action = act, rule_tool = tool, rule_pattern = Some pat, pattern_mode = Glob\<rparr>"
proof -
  have e: "escape_rule_content pat \<noteq> []" "escape_rule_content pat \<noteq> ''*''"
  proof -
    show "escape_rule_content pat \<noteq> []" using assms(2) by (simp add: escape_rule_content_def)
    show "escape_rule_content pat \<noteq> ''*''"
      using unescape_escape [of pat] assms(5) by (auto simp: unescape_rule_content_def)
  qed
  show ?thesis
    unfolding parse_written_rule [OF assms(1-4)] parse_tool_rule_def
    using e assms
    by (simp add: unescape_escape strip_bash_colon_wildcard_def strip_suffix_def
        strip_domain_prefix_def strip_prefix_def opt_pattern_def)
qed

theorem written_rule_parsed_witness:
  "parse_permission_rule
     (''Edit('' @ [CHR ''a'', backslash, CHR ''('', CHR ''b'', backslash, CHR '')'', CHR ''c''] @ '')'') R_Deny
    = Inr \<lparr>rule_action = R_Deny, rule_tool = T_Edit, rule_pattern = Some ''a(b)c'', pattern_mode = Glob\<rparr>"
proof -
  have "tool_name_to_filter ''Edit'' = Some T_Edit" by (simp add: tool_name_to_filter_def)
  from written_rule_parsed [OF this, of "''a(b)c''" R_Deny] show ?thesis
    by (simp add: firm_def starts_with_def escape_rule_content_def)
qed

text \<open>C31: safety. A wrapper whose options take values hides its command from the rules. The
  options of \<open>chrt\<close> are skipped one word each, so when one of them takes a value \<open>v\<close> and a further
  option follows, that value is taken for the priority and everything from the further option on
  for the command. Nothing is reported as uncertain, and when no rule restricts the whole line or
  what follows \<open>v\<close>, the gate stays silent, whatever the rules say of the command that \<open>chrt\<close> runs.
  The example runs \<open>rm -rf /\<close> past a rule that denies \<open>rm\<close>.\<close>

theorem chrt_hides_command:
  assumes "script_commands E script = Some [''chrt'' # opts @ v # opt # rest]"
    and "\<forall>x \<in> set opts. starts_with x ''-''" and "\<not> starts_with v ''-''"
    and "starts_with opt ''-''" and "slash \<notin> set opt" and "backslash \<notin> set opt"
    and "\<forall>form \<in> {''chrt'' # opts @ v # opt # rest, opt # rest}. \<forall>act \<in> {R_Deny, R_Ask}.
      \<not> some_rule E c act (A_Bash (join_words form)) None"
  shows "norm_words (normalize_command_words (''chrt'' # opts @ v # opt # rest)) = opt # rest
    \<and> norm_certain (normalize_command_words (''chrt'' # opts @ v # opt # rest))
    \<and> evaluate_bash_command_policy E (policy_new E c) script = None"
proof -
  let ?raw = "''chrt'' # opts @ v # opt # rest"
  note norm = chrt_normalized [OF assms(2-6), of rest]
  note plain = option_word_plain [OF assms(4-6), of rest]
  have "escalate E (policy_new E c) (join_words ?raw) = None" "escalate E (policy_new E c) (join_words (opt # rest)) = None"
    by (rule escalate_silent [OF bspec [OF assms(7)]], simp)+
  moreover have "norm_words (normalize_command_words ?raw) = opt # rest" by (simp only: norm NormalizedCommandPeel.simps)
  ultimately have "evaluate_command_words E (policy_new E c) inline ?raw = None" for inline
    unfolding evaluate_command_words_def Let_def
    by (simp only: norm NormalizedCommandPeel.simps plain) (simp add: ask_if_def combine_gate_decisions_def)
  then have "evaluate_bash_command_segments E (policy_new E c) n script = None" for n
    by (simp add: segments_eq assms(1) combine_gate_decisions_def)
  then show ?thesis
    by (simp add: norm norm_certain_def evaluate_bash_command_policy_def evaluate_bash_command_gate_def)
qed

theorem chrt_hides_command_witness:
  "some_rule ex_perm_env ex_policy R_Deny (A_Bash ''rm -rf /'') None
   \<and> evaluate_bash_command_policy ex_perm_env (policy_new ex_perm_env ex_policy)
       ''chrt -d -T 500000 -P 1000000 0 rm -rf /'' = None"
proof -
  have "join_words ex_chrt = ''chrt -d -T 500000 -P 1000000 0 rm -rf /''" by code_simp
  then have split: "script_commands ex_perm_env ''chrt -d -T 500000 -P 1000000 0 rm -rf /''
      = Some [''chrt'' # [''-d'', ''-T''] @ ''500000'' # ''-P'' # [''1000000'', ''0'', ''rm'', ''-rf'', ''/'']]"
    using ex_chrt_split by (simp add: ex_chrt_def)
  have silent: "\<not> some_rule ex_perm_env ex_policy act (A_Bash (join_words form)) None"
    if "form \<in> {''chrt'' # [''-d'', ''-T''] @ ''500000'' # ''-P'' # [''1000000'', ''0'', ''rm'', ''-rf'', ''/''],
        ''-P'' # [''1000000'', ''0'', ''rm'', ''-rf'', ''/'']}" and "act \<in> {R_Deny, R_Ask}" for form act
    using that ex_chrt_forms escalate_level(2) [of ex_perm_env ex_policy "join_words form"]
    by (auto simp: ex_chrt_def ex_chrt_inner_def gate_level_def)
  have "evaluate_bash_command_policy ex_perm_env (policy_new ex_perm_env ex_policy)
      ''chrt -d -T 500000 -P 1000000 0 rm -rf /'' = None"
    using chrt_hides_command [OF split, of ex_policy] silent by (simp add: starts_with_def)
  with ex_denied show ?thesis by simp
qed

end
