(* ===== verification/Shell_Args.thy ===== *)
theory Shell_Args
  imports Perm_Policy
begin

text \<open>
  What a shell script does to files, read off its syntax tree (\<open>permission/shell_access.rs\<close>):
  the commands it invokes with their operands folded to literals, its redirections, the scope in
  which a change of directory counts, and which operands of the known readers, writers and
  path-moving programs name files.
\<close>

section \<open>Literals\<close>

datatype ArgText = Arg_Literal string | Arg_Ambiguous

definition expansion_kind :: "string \<Rightarrow> bool" where
  "expansion_kind k \<longleftrightarrow> k \<in> {''expansion'', ''simple_expansion'', ''command_substitution'',
     ''arithmetic_expansion'', ''process_substitution''}"

definition node_has_expansion :: "Node \<Rightarrow> bool" where
  "node_has_expansion n = list_ex (\<lambda>c. expansion_kind (node_kind c)) (tl (nodes n))"

definition is_windows_path_like :: "string \<Rightarrow> bool" where
  "is_windows_path_like raw \<longleftrightarrow> starts_with raw [backslash, backslash]
     \<or> (case raw of a # b # _ \<Rightarrow> is_ascii_alphabetic a \<and> b = CHR '':'' | _ \<Rightarrow> False)"

fun fold_escapes :: "string \<Rightarrow> string option" where
  "fold_escapes [] = Some []"
| "fold_escapes (ch # s) =
     (if ch = backslash then (case s of [] \<Rightarrow> None | n # s' \<Rightarrow> map_option ((#) n) (fold_escapes s'))
      else map_option ((#) ch) (fold_escapes s))"

definition decode_unquoted_word :: "string \<Rightarrow> string option" where
  "decode_unquoted_word raw =
     (if backslash \<notin> set raw then Some raw
      else if is_windows_path_like raw then Some raw
      else fold_escapes raw)"

fun fold_double_quoted :: "string \<Rightarrow> string option" where
  "fold_double_quoted [] = Some []"
| "fold_double_quoted (ch # s) =
     (if ch \<noteq> backslash then map_option ((#) ch) (fold_double_quoted s)
      else case s of
        [] \<Rightarrow> None
      | n # s' \<Rightarrow>
          if n \<in> {CHR ''$'', CHR 0x60, CHR 0x22, backslash, CHR 0x0A}
          then map_option ((#) n) (fold_double_quoted s')
          else map_option ((@) [backslash, n]) (fold_double_quoted s'))"

definition decode_double_quoted_content :: "string \<Rightarrow> string option" where
  "decode_double_quoted_content content =
     (if backslash \<notin> set content then Some content else fold_double_quoted content)"

definition arg_of :: "string option \<Rightarrow> ArgText" where
  "arg_of t = (case t of Some literal \<Rightarrow> Arg_Literal literal | None \<Rightarrow> Arg_Ambiguous)"

definition unquote_or :: "char \<Rightarrow> string \<Rightarrow> string" where
  "unquote_or q raw = (case unquote q raw of Some s \<Rightarrow> s | None \<Rightarrow> raw)"

definition shell_node_arg :: "Node \<Rightarrow> string \<Rightarrow> ArgText option" where
  "shell_node_arg n src =
     (let k = node_kind n; raw = node_text n src
      in if k = ''variable_assignment'' then None
         else if k = ''word'' \<or> k = ''number'' then Some (arg_of (decode_unquoted_word raw))
         else if k = ''raw_string'' then Some (Arg_Literal (unquote_or (CHR 0x27) raw))
         else if k = ''string'' then
           Some (if node_has_expansion n then Arg_Ambiguous
                 else arg_of (decode_double_quoted_content (unquote_or (CHR 0x22) raw)))
         else if k = ''concatenation'' then
           Some (if node_has_expansion n then Arg_Ambiguous else arg_of (decode_shell_literal_spelling raw))
         else Some Arg_Ambiguous)"

section \<open>Scopes of a change of directory\<close>

record ExecutionScope =
  scope_start :: nat
  scope_end :: nat

definition usize_max :: nat where "usize_max = 2 ^ 64 - 1"

definition scope_contains :: "ExecutionScope \<Rightarrow> ExecutionScope \<Rightarrow> bool" where
  "scope_contains a b \<longleftrightarrow> scope_start a \<le> scope_start b \<and> scope_end b \<le> scope_end a"

definition node_scope :: "Node \<Rightarrow> ExecutionScope" where
  "node_scope n = \<lparr>scope_start = start_byte n, scope_end = end_byte n\<rparr>"

fun execution_scope :: "Node \<Rightarrow> (Node \<times> nat) list \<Rightarrow> ExecutionScope" where
  "execution_scope current [] = \<lparr>scope_start = 0, scope_end = usize_max\<rparr>"
| "execution_scope current ((parent, i) # up) =
     (if map_option node_kind (nth_opt (children parent) (Suc i)) = Some ''&''
      then node_scope (if node_kind current = ''list'' then current else parent)
      else if node_kind parent \<in> {''subshell'', ''command_substitution'', ''process_substitution''}
        then node_scope parent
      else if node_kind parent = ''pipeline'' then node_scope current
      else execution_scope parent up)"

record CwdPoison =
  poison_at :: nat
  poison_scope :: ExecutionScope

definition changes_cwd :: "string \<Rightarrow> bool" where
  "changes_cwd program \<longleftrightarrow> program \<in> {''cd'', ''pushd'', ''popd''}"

definition poisons_cwd :: "string \<Rightarrow> Node \<Rightarrow> bool" where
  "poisons_cwd src n \<longleftrightarrow> node_kind n = ''command'' \<and> (case child_by_field_name ''name'' n of
      Some name \<Rightarrow> changes_cwd (basename (node_text name src)) | None \<Rightarrow> False)"

definition cwd_poison_positions :: "Node \<Rightarrow> string \<Rightarrow> CwdPoison list" where
  "cwd_poison_positions root src = map (\<lambda>(n, ctx). \<lparr>poison_at = start_byte n, poison_scope = execution_scope n ctx\<rparr>)
     (filter (\<lambda>(n, ctx). poisons_cwd src n) (positions root []))"

definition cwd_unpinned_before :: "CwdPoison list \<Rightarrow> nat \<Rightarrow> ExecutionScope \<Rightarrow> bool" where
  "cwd_unpinned_before ps at_byte scope = list_ex (\<lambda>poison. poison_at poison < at_byte
     \<and> (poison_scope poison = scope \<or> scope_contains (poison_scope poison) scope)) ps"

section \<open>Invocations\<close>

datatype InvocationWord = IW_Literal string | IW_Untrusted

record ShellInvocation =
  inv_start :: nat
  inv_scope :: ExecutionScope
  inv_words :: "InvocationWord list"
  wrapper_words :: "string list"

definition operand_word :: "string \<Rightarrow> Node \<Rightarrow> InvocationWord option" where
  "operand_word src child =
     (let operand = (if node_kind child = ''command_name''
          then (case named_children child of [] \<Rightarrow> None | inner # _ \<Rightarrow> shell_node_arg inner src)
          else shell_node_arg child src)
      in map_option (\<lambda>a. case a of Arg_Literal w \<Rightarrow> IW_Literal w | Arg_Ambiguous \<Rightarrow> IW_Untrusted) operand)"

definition wrapper_word :: "InvocationWord \<Rightarrow> string" where
  "wrapper_word w = (case w of IW_Literal s \<Rightarrow> s | IW_Untrusted \<Rightarrow> nul)"

definition invocation_at :: "string \<Rightarrow> position \<Rightarrow> ShellInvocation" where
  "invocation_at src pos =
     (let words = List.map_filter (operand_word src) (named_children (fst pos))
      in \<lparr>inv_start = start_byte (fst pos), inv_scope = execution_scope (fst pos) (snd pos),
          inv_words = words, wrapper_words = map wrapper_word words\<rparr>)"

definition shell_command_invocations :: "Node \<Rightarrow> string \<Rightarrow> ShellInvocation list" where
  "shell_command_invocations root src = sort_key inv_start
     (map (invocation_at src) (filter (\<lambda>pos. node_kind (fst pos) = ''command'') (positions root [])))"

definition literal_words :: "InvocationWord list \<Rightarrow> string list" where
  "literal_words ws = List.map_filter (\<lambda>w. case w of IW_Literal s \<Rightarrow> Some s | IW_Untrusted \<Rightarrow> None) ws"

definition shell_words :: "InvocationWord list \<Rightarrow> ShellWord list" where
  "shell_words ws = map (\<lambda>w. case w of IW_Literal s \<Rightarrow> W_Literal s | IW_Untrusted \<Rightarrow> W_Untrusted) ws"

record CheckedInvocationPeel =
  cip_words :: "InvocationWord list"
  cip_has_chdir :: bool
  cip_has_split_string :: bool
  cip_env_options_uncertain :: bool
  cip_exhausted :: bool
  cip_transparent_ambiguous :: bool

definition unwrap_invocation_checked :: "ShellInvocation \<Rightarrow> CheckedInvocationPeel" where
  "unwrap_invocation_checked invocation =
     (let norm = normalize_command_words (wrapper_words invocation);
          peeled_count = length (wrapper_words invocation) - length (norm_words norm)
      in \<lparr>cip_words = drop peeled_count (inv_words invocation),
          cip_has_chdir = norm_has_chdir norm,
          cip_has_split_string = norm_has_split_string norm,
          cip_env_options_uncertain = norm_env_options_uncertain norm,
          cip_exhausted = norm_exhausted norm,
          cip_transparent_ambiguous = norm_ambiguous norm\<rparr>)"

definition words_are_opaque_shell :: "ShellWord list \<Rightarrow> bool" where
  "words_are_opaque_shell words \<longleftrightarrow> is_potential_inline (shell_dash_c_script words)
     \<or> (case words of W_Literal program # _ \<Rightarrow> basename program = ''eval'' | _ \<Rightarrow> False)"

definition tree_has_opaque_shell :: "Node \<Rightarrow> string \<Rightarrow> bool" where
  "tree_has_opaque_shell root src = list_ex
     (\<lambda>iv. words_are_opaque_shell (shell_words (cip_words (unwrap_invocation_checked iv))))
     (shell_command_invocations root src)"

section \<open>Files named by operands\<close>

datatype ShellFileMode = M_Read | M_Write

definition READERS :: "string list" where
  "READERS = [''cat'', ''tac'', ''nl'', ''head'', ''tail'', ''grep'', ''egrep'', ''fgrep'', ''rg'', ''sed'',
     ''awk'', ''less'', ''more'', ''bat'', ''strings'', ''xxd'', ''od'', ''hexdump'', ''base64'',
     ''base32'', ''cut'', ''sort'', ''uniq'', ''wc'', ''type'', ''get-content'', ''gc'', ''diff'',
     ''comm'', ''rev'', ''jq'', ''yq'', ''select-string'', ''sls'', ''ag'', ''ack'', ''zcat'',
     ''zless'', ''zmore'', ''zgrep'', ''zegrep'', ''zfgrep'', ''bzcat'', ''bzgrep'', ''xzcat'',
     ''xzgrep'', ''zstdcat'', ''lz4cat'']"

definition WRITERS :: "string list" where
  "WRITERS = [''tee'', ''set-content'', ''out-file'', ''add-content'', ''tee-object'', ''truncate'']"

definition shell_file_mode :: "string \<Rightarrow> ShellFileMode option" where
  "shell_file_mode program =
     (if program \<in> set READERS then Some M_Read
      else if program \<in> set WRITERS then Some M_Write else None)"

definition shell_arg_is_ambiguous :: "string \<Rightarrow> bool" where
  "shell_arg_is_ambiguous token \<longleftrightarrow> CHR ''*'' \<in> set token \<or> CHR ''?'' \<in> set token \<or> CHR ''['' \<in> set token"

record ShellRedirectTarget =
  rd_path :: "string option"
  rd_mode :: ShellFileMode
  rd_ambiguous :: bool
  rd_start :: nat
  rd_scope :: ExecutionScope

fun redirect_operator :: "Node list \<Rightarrow> string option" where
  "redirect_operator [] = None"
| "redirect_operator (c # cs) =
     (if contains (node_kind c) ''<<'' then None
      else if CHR ''>'' \<in> set (node_kind c) \<or> CHR ''<'' \<in> set (node_kind c) then Some (node_kind c)
      else redirect_operator cs)"

definition redirect_target :: "bool \<Rightarrow> ShellFileMode \<Rightarrow> ArgText \<Rightarrow> (string option \<times> ShellFileMode \<times> bool) option" where
  "redirect_target duplicates_fd mode a = (case a of
      Arg_Literal s \<Rightarrow>
        if s = [] \<or> starts_with s ''&'' \<or> duplicates_fd \<and> (s = ''-'' \<or> list_all is_ascii_digit s)
        then None else Some (Some s, mode, shell_arg_is_ambiguous s)
    | Arg_Ambiguous \<Rightarrow> Some (None, mode, True))"

definition shell_redirect_one :: "Node \<Rightarrow> string \<Rightarrow> (string option \<times> ShellFileMode \<times> bool) option" where
  "shell_redirect_one n src = (case redirect_operator (children n) of
      None \<Rightarrow> None
    | Some redirect \<Rightarrow> (case child_by_field_name ''destination'' n of
        None \<Rightarrow> None
      | Some dest \<Rightarrow> (case shell_node_arg dest src of
          None \<Rightarrow> None
        | Some a \<Rightarrow> redirect_target (redirect = ''>&'' \<or> redirect = ''<&'')
            (if CHR ''>'' \<in> set redirect then M_Write else M_Read) a)))"

definition redirect_at :: "string \<Rightarrow> position \<Rightarrow> ShellRedirectTarget option" where
  "redirect_at src pos =
     (if node_kind (fst pos) = ''file_redirect''
      then map_option (\<lambda>(path, mode, ambiguous).
          \<lparr>rd_path = path, rd_mode = mode, rd_ambiguous = ambiguous, rd_start = start_byte (fst pos),
           rd_scope = execution_scope (fst pos) (snd pos)\<rparr>) (shell_redirect_one (fst pos) src)
      else None)"

definition shell_redirect_targets :: "Node \<Rightarrow> string \<Rightarrow> ShellRedirectTarget list" where
  "shell_redirect_targets root src = List.map_filter (redirect_at src) (positions root [])"

definition short_option_with :: "char list \<Rightarrow> string \<Rightarrow> bool" where
  "short_option_with cs word \<longleftrightarrow> starts_with word ''-'' \<and> \<not> starts_with word ''--''
     \<and> list_ex (\<lambda>c. c \<in> set word) cs"

definition shell_sed_in_place :: "string list \<Rightarrow> bool" where
  "shell_sed_in_place words = list_ex (\<lambda>word. word = ''--in-place'' \<or> starts_with word ''--in-place=''
     \<or> short_option_with [CHR ''i''] word) (tl words)"

fun shell_output_flag_values :: "string list \<Rightarrow> string list" where
  "shell_output_flag_values [] = []"
| "shell_output_flag_values (token # rest) = (case strip_prefix ''--output='' token of
      Some v \<Rightarrow> v # shell_output_flag_values rest
    | None \<Rightarrow>
        if starts_with token ''-o'' \<and> token \<noteq> ''-o'' then drop 2 token # shell_output_flag_values rest
        else if token = ''--output'' \<or> token = ''-o'' then take 1 rest @ shell_output_flag_values rest
        else shell_output_flag_values rest)"

fun value_flag_values :: "string \<Rightarrow> string list \<Rightarrow> string list" where
  "value_flag_values flag [] = []"
| "value_flag_values flag (token # rest) = (case strip_prefix (flag @ ''='') token of
      Some v \<Rightarrow> v # value_flag_values flag rest
    | None \<Rightarrow>
        if token = flag then take 1 rest @ value_flag_values flag rest
        else if \<not> starts_with flag ''--'' \<and> starts_with token flag
          then drop (length flag) token # value_flag_values flag rest
        else value_flag_values flag rest)"

fun file_candidates :: "string list \<Rightarrow> bool \<Rightarrow> string list" where
  "file_candidates [] end_of_options = []"
| "file_candidates (token # rest) end_of_options =
     (if \<not> end_of_options \<and> token = ''--'' then file_candidates rest True
      else if end_of_options \<or> token \<noteq> ''-'' \<and> \<not> starts_with token ''-''
        then token # file_candidates rest end_of_options
      else file_candidates rest end_of_options)"

definition shell_file_candidates :: "string list \<Rightarrow> string list" where
  "shell_file_candidates words = file_candidates (tl words) False"

definition written :: "string list \<Rightarrow> (string \<times> ShellFileMode) list" where
  "written paths = map (\<lambda>p. (p, M_Write)) paths"

definition dd_operand :: "string \<Rightarrow> (string \<times> ShellFileMode) option" where
  "dd_operand token = (case strip_prefix ''if='' token of
      Some path \<Rightarrow> Some (path, M_Read)
    | None \<Rightarrow> map_option (\<lambda>path. (path, M_Write)) (strip_prefix ''of='' token))"

definition special_file_operands :: "string \<Rightarrow> string list \<Rightarrow> (string \<times> ShellFileMode) list" where
  "special_file_operands program words =
     (if program = ''dd'' then List.map_filter dd_operand (tl words)
      else if program \<in> {''sort'', ''go'', ''git''} then written (shell_output_flag_values words)
      else if program = ''rustc''
        then written (shell_output_flag_values words @ value_flag_values ''--out-dir'' words)
      else if program = ''rustfmt'' then written (shell_file_candidates words)
      else [])"

definition shell_path_command_operands ::
  "string \<Rightarrow> string list \<Rightarrow> (string \<times> ShellFileMode) list option" where
  "shell_path_command_operands program words =
     (let operands = shell_file_candidates words
      in if program \<in> {''cp'', ''mv'', ''ln'', ''install''} then
           (if operands = [] then None
            else Some (map (\<lambda>s. (s, M_Read)) (butlast operands) @ [(last operands, M_Write)]))
         else if program \<in> {''rm'', ''rmdir'', ''mkdir'', ''touch''} then Some (written operands)
         else if program = ''uniq'' then (case operands of
             input # output # _ \<Rightarrow> Some [(input, M_Read), (output, M_Write)]
           | _ \<Rightarrow> None)
         else None)"

definition is_directory_operand :: "string \<Rightarrow> bool" where
  "is_directory_operand token \<longleftrightarrow> token = ''.'' \<or> token = ''..'' \<or> ends_with token ''/''"

definition shell_reader_can_recurse :: "string \<Rightarrow> string list \<Rightarrow> string list \<Rightarrow> bool" where
  "shell_reader_can_recurse program words candidates \<longleftrightarrow>
     program \<in> {''grep'', ''egrep'', ''fgrep''} \<and> list_ex (\<lambda>word. word = ''--recursive''
       \<or> word = ''--dereference-recursive'' \<or> short_option_with [CHR ''r'', CHR ''R''] word) words
     \<or> program \<in> {''rg'', ''ag'', ''ack''}
       \<and> (length candidates \<le> 1 \<or> list_ex is_directory_operand (tl candidates))"

section \<open>Written files\<close>

definition command_words_write_paths :: "string list \<Rightarrow> string list" where
  "command_words_write_paths words =
     (let inner = unwrap_wrappers words
      in case inner of
        [] \<Rightarrow> []
      | w # _ \<Rightarrow>
          (let program = to_ascii_lowercase (basename w);
               writes = (\<lambda>ops. map fst (filter (\<lambda>q. snd q = M_Write) ops));
               special = writes (special_file_operands program inner)
           in case shell_path_command_operands program inner of
                Some operands \<Rightarrow> special @ writes operands
              | None \<Rightarrow>
                  if shell_file_mode program = Some M_Write \<or> program = ''sed'' \<and> shell_sed_in_place inner
                  then special @ shell_file_candidates inner else special))"

definition command_write_paths_in_tree :: "Node \<Rightarrow> string \<Rightarrow> string list" where
  "command_write_paths_in_tree root src =
     List.map_filter (\<lambda>r. if rd_mode r = M_Write then rd_path r else None) (shell_redirect_targets root src)
     @ concat (map (\<lambda>iv. command_words_write_paths (literal_words (inv_words iv)))
         (shell_command_invocations root src))"

definition is_safe_write_sink :: "string \<Rightarrow> bool" where
  "is_safe_write_sink path \<longleftrightarrow> path \<in> {''/dev/null'', ''/dev/stdout'', ''/dev/stderr''}"

end
