(* ===== verification/Shell_Files.thy ===== *)
theory Shell_Files
  imports Shell_Args
begin

text \<open>
  The second gate of a shell command (\<open>permission/shell_access.rs\<close>): every file the script is
  seen to read or write is checked against the Read and Edit rules, in its spelling, absolute
  and with symbolic links followed, and whatever cannot be pinned to a file asks. The same
  module decides which targets of a direct edit are protected. The file system is a parameter,
  the calls \<open>canonicalize\<close>, \<open>symlink_metadata\<close> and \<open>read_link\<close>, and so is the user's
  configuration directory.
\<close>

section \<open>Paths\<close>

definition path_eq :: "string \<Rightarrow> string \<Rightarrow> bool" where
  "path_eq p q \<longleftrightarrow> components p = components q"

definition path_starts_with :: "string \<Rightarrow> string \<Rightarrow> bool" where
  "path_starts_with p base \<longleftrightarrow> prefix (components base) (components p)"

definition path_parent :: "string \<Rightarrow> string option" where
  "path_parent p = (case rev (components p) of
      [] \<Rightarrow> None
    | c # cs \<Rightarrow> if c = RootDir then None else Some (path_collect (rev cs)))"

definition path_file_name :: "string \<Rightarrow> string option" where
  "path_file_name p = (case rev (components p) of Normal n # _ \<Rightarrow> Some n | _ \<Rightarrow> None)"

definition is_absolute_shell_path :: "string \<Rightarrow> bool" where
  "is_absolute_shell_path path \<longleftrightarrow> starts_with path ''/'' \<or> starts_with path ''~/''
     \<or> (case path of _ # b # _ \<Rightarrow> b = CHR '':'' | _ \<Rightarrow> False)"

definition double_or_single_quote :: "char \<Rightarrow> bool" where
  "double_or_single_quote c \<longleftrightarrow> c = CHR 0x22 \<or> c = CHR 0x27"

definition normalize_shell_path_raw :: "string \<Rightarrow> string" where
  "normalize_shell_path_raw path =
     (let t = rev (dropWhile double_or_single_quote (rev (dropWhile double_or_single_quote path)));
          p = replace_char backslash slash t
      in case strip_prefix ''/c/'' p of Some rest \<Rightarrow> ''C:/'' @ rest | None \<Rightarrow> p)"

text \<open>One segment of \<open>lexical_normalize\<close>; the output is kept in reverse.\<close>

definition lexical_segment :: "bool \<Rightarrow> string list \<Rightarrow> string \<Rightarrow> string list" where
  "lexical_segment absolute out segment =
     (if segment = [] \<or> segment = ''.'' then out
      else if segment = ''..'' then (case out of
          s # out' \<Rightarrow> if s \<noteq> ''..'' then out' else if \<not> absolute then ''..'' # out else out
        | [] \<Rightarrow> if \<not> absolute then [''..''] else [])
      else segment # out)"

definition lexical_normalize :: "string \<Rightarrow> string" where
  "lexical_normalize path =
     (let prefix_len = (case path of _ # b # _ \<Rightarrow> if b = CHR '':'' then 2 else 0 | _ \<Rightarrow> 0);
          drive = take prefix_len path; rest = drop prefix_len path;
          absolute = starts_with rest ''/'';
          body = join ''/'' (rev (foldl (lexical_segment absolute) [] (split_on slash rest)))
      in if absolute then drive @ slash # body else drive @ body)"

definition normalize_shell_path :: "string \<Rightarrow> string" where
  "normalize_shell_path path = lexical_normalize (normalize_shell_path_raw path)"

section \<open>Symbolic links\<close>

datatype FsMetadata = Meta_NotFound | Meta_Error | Meta_Entry bool

record fs_env =
  fs_canonicalize :: "string \<Rightarrow> string option"
  fs_symlink_metadata :: "string \<Rightarrow> FsMetadata"
  fs_read_link :: "string \<Rightarrow> string option"
  user_grok_home :: "string option"

definition MAX_SYMLINK_DEPTH :: nat where "MAX_SYMLINK_DEPTH = 40"

text \<open>\<open>resolve_following_symlinks(path, depth)\<close> with \<open>MAX_SYMLINK_DEPTH + 1 - depth\<close> calls left.\<close>

fun resolve_links :: "fs_env \<Rightarrow> nat \<Rightarrow> string \<Rightarrow> string option" where
  "resolve_links fs 0 path = None"
| "resolve_links fs (Suc n) path = (case fs_canonicalize fs path of
      Some canonical \<Rightarrow> Some canonical
    | None \<Rightarrow> (case (path_parent path, path_file_name path) of
        (Some parent, Some file_name) \<Rightarrow> (case resolve_links fs n parent of
            None \<Rightarrow> None
          | Some resolved_parent \<Rightarrow>
              (let candidate = path_push resolved_parent file_name
               in case fs_symlink_metadata fs candidate of
                 Meta_Error \<Rightarrow> None
               | Meta_NotFound \<Rightarrow> Some candidate
               | Meta_Entry is_symlink \<Rightarrow>
                   if is_symlink then (case fs_read_link fs candidate of
                       None \<Rightarrow> None
                     | Some target \<Rightarrow> resolve_links fs n
                         (if is_absolute target then target else path_push resolved_parent target))
                   else Some candidate))
      | _ \<Rightarrow> None))"

definition resolve_following_symlinks :: "fs_env \<Rightarrow> string \<Rightarrow> string option" where
  "resolve_following_symlinks fs path = resolve_links fs (Suc MAX_SYMLINK_DEPTH) path"

definition resolve_symlink_target :: "fs_env \<Rightarrow> string \<Rightarrow> string option" where
  "resolve_symlink_target fs absolute =
     (if \<not> is_absolute absolute then None
      else map_option normalize_shell_path (resolve_following_symlinks fs absolute))"

fun prefixes_have_symlink :: "fs_env \<Rightarrow> string \<Rightarrow> path_component list \<Rightarrow> bool" where
  "prefixes_have_symlink fs buf [] = False"
| "prefixes_have_symlink fs buf (c # cs) =
     (let p = path_push buf (component_str c)
      in if fs_symlink_metadata fs p = Meta_Entry True then True else prefixes_have_symlink fs p cs)"

definition path_has_symlink :: "fs_env \<Rightarrow> string \<Rightarrow> bool" where
  "path_has_symlink fs absolute =
     (if \<not> is_absolute absolute then False else prefixes_have_symlink fs [] (components absolute))"

section \<open>Protected targets of an edit\<close>

datatype ProtectedEditReason =
    Pe_HookRoot | Pe_GitHooks | Pe_Ssh | Pe_StartupFile | Pe_Etc | Pe_GrokConfig | Pe_GrokSandbox
  | Pe_ClaudeSettings | Pe_CursorHooks | Pe_Sensitive

definition grok_home_matches :: "fs_env \<Rightarrow> (string \<Rightarrow> bool) \<Rightarrow> bool" where
  "grok_home_matches fs pred = (case user_grok_home fs of
      None \<Rightarrow> False
    | Some home \<Rightarrow>
        (let lexical = normalize_lexically home
         in pred lexical \<or> (case resolve_following_symlinks fs lexical of
              Some resolved \<Rightarrow> pred resolved | None \<Rightarrow> False)))"

definition protected_grok_config_file :: "fs_env \<Rightarrow> string \<Rightarrow> string list \<Rightarrow> ProtectedEditReason option" where
  "protected_grok_config_file fs path comps =
     (case rev comps of
        [] \<Rightarrow> None
      | file # dirs \<Rightarrow>
          (let in_dot_grok = (case dirs of d # _ \<Rightarrow> d = ''.grok'' | [] \<Rightarrow> False);
               in_grok_home = grok_home_matches fs
                 (\<lambda>home. case path_parent path of Some d \<Rightarrow> path_eq d home | None \<Rightarrow> False);
               reason = (if file \<in> {''config.toml'', ''managed_config.toml'', ''requirements.toml''}
                 then Some Pe_GrokConfig
                 else if file = ''sandbox.toml'' then Some Pe_GrokSandbox else None)
           in if in_dot_grok \<or> in_grok_home then reason else None))"

definition path_is_under_user_grok_hook_root :: "string \<Rightarrow> string \<Rightarrow> bool" where
  "path_is_under_user_grok_hook_root path grok_home \<longleftrightarrow>
     path_starts_with path (path_push grok_home ''hooks'')
     \<or> path_eq path (path_push grok_home ''hooks-paths'')"

definition adjacent :: "'a \<Rightarrow> 'a \<Rightarrow> 'a list \<Rightarrow> bool" where
  "adjacent a b xs = list_ex (\<lambda>(x, y). x = a \<and> y = b) (zip xs (tl xs))"

definition protected_grok_hook_root :: "fs_env \<Rightarrow> string \<Rightarrow> string list \<Rightarrow> bool" where
  "protected_grok_hook_root fs path comps \<longleftrightarrow> adjacent ''.grok'' ''hooks'' comps
     \<or> suffix [''.grok'', ''hooks-paths''] comps
     \<or> grok_home_matches fs (path_is_under_user_grok_hook_root path)"

fun submodule_hooks :: "string list \<Rightarrow> bool" where
  "submodule_hooks (c # m # rest) =
     (c = ''.git'' \<and> m = ''modules'' \<and> ''hooks'' \<in> set (tl rest) \<or> submodule_hooks (m # rest))"
| "submodule_hooks _ = False"

definition protected_git_hooks_path :: "string list \<Rightarrow> bool" where
  "protected_git_hooks_path comps \<longleftrightarrow> adjacent ''.git'' ''hooks'' comps \<or> submodule_hooks comps"

definition STARTUP_FILES :: "string list" where
  "STARTUP_FILES = [''.bashrc'', ''.bash_profile'', ''.bash_login'', ''.bash_logout'', ''.profile'',
     ''.zshrc'', ''.zshenv'', ''.zprofile'', ''.zlogin'', ''.zlogout'', ''.kshrc'', ''.cshrc'',
     ''.tcshrc'', ''.login'', ''.logout'', ''.inputrc'', ''.xprofile'']"

definition lower_components :: "string \<Rightarrow> string list" where
  "lower_components path = List.map_filter
     (\<lambda>c. case c of Normal part \<Rightarrow> Some (to_ascii_lowercase part) | _ \<Rightarrow> None) (components path)"

definition protected_edit_reason :: "fs_env \<Rightarrow> string \<Rightarrow> ProtectedEditReason option" where
  "protected_edit_reason fs path =
     (let comps = lower_components path
      in if protected_grok_hook_root fs path comps then Some Pe_HookRoot
         else if suffix [''.claude'', ''settings.json''] comps
           \<or> suffix [''.claude'', ''settings.local.json''] comps then Some Pe_ClaudeSettings
         else if suffix [''.cursor'', ''hooks.json''] comps then Some Pe_CursorHooks
         else if protected_git_hooks_path comps then Some Pe_GitHooks
         else if ''.ssh'' \<in> set comps then Some Pe_Ssh
         else if (case rev comps of file # _ \<Rightarrow> file \<in> set STARTUP_FILES | [] \<Rightarrow> False) then Some Pe_StartupFile
         else case protected_grok_config_file fs path comps of
           Some reason \<Rightarrow> Some reason
         | None \<Rightarrow> if path_starts_with path ''/etc'' then Some Pe_Etc else None)"

definition resolved_path_is_within_root :: "fs_env \<Rightarrow> string \<Rightarrow> string \<Rightarrow> bool" where
  "resolved_path_is_within_root fs resolved_path root =
     (case resolve_following_symlinks fs root of
        Some resolved_root \<Rightarrow> path_starts_with resolved_path resolved_root | None \<Rightarrow> True)"

definition edit_target_protection :: "fs_env \<Rightarrow> string \<Rightarrow> ProtectedEditReason option" where
  "edit_target_protection fs path =
     (if \<not> is_absolute path then Some Pe_Sensitive
      else case protected_edit_reason fs (normalize_lexically path) of
        Some reason \<Rightarrow> Some reason
      | None \<Rightarrow> (case resolve_following_symlinks fs path of
          None \<Rightarrow> Some Pe_Sensitive
        | Some resolved \<Rightarrow> (case protected_edit_reason fs resolved of
            Some reason \<Rightarrow> Some reason
          | None \<Rightarrow> if resolved_path_is_within_root fs resolved ''/etc'' then Some Pe_Sensitive else None)))"

section \<open>The file gate\<close>

definition shell_access :: "ShellFileMode \<Rightarrow> string \<Rightarrow> 'j AccessKind" where
  "shell_access mode path = (case mode of M_Read \<Rightarrow> A_Read (Some path) | M_Write \<Rightarrow> A_Edit path)"

definition escalate_file ::
  "('pat, 'j) policy_env \<Rightarrow> 'pat CompiledPolicy \<Rightarrow> string option \<Rightarrow> 'j AccessKind \<Rightarrow> GateDecision option" where
  "escalate_file E p rule_cwd access = (case evaluate_with_cwd E p access rule_cwd of
      Some (D_Reject reason) \<Rightarrow> Some (G_Reject reason)
    | Some D_Ask \<Rightarrow> Some AskRuleMatch
    | _ \<Rightarrow> None)"

definition absolute_form :: "string \<Rightarrow> string \<Rightarrow> string" where
  "absolute_form cwd path =
     (if is_absolute_shell_path path then path else normalize_shell_path (path_push cwd path))"

definition raw_absolute_form :: "string \<Rightarrow> bool \<Rightarrow> string \<Rightarrow> string option" where
  "raw_absolute_form cwd cwd_unpinned token =
     (let raw = normalize_shell_path_raw token
      in if is_absolute_shell_path raw then Some raw
         else if cwd_unpinned then None
         else Some (normalize_shell_path_raw (path_push cwd raw)))"

definition resolved_decision ::
  "('pat, 'j) policy_env \<Rightarrow> fs_env \<Rightarrow> 'pat CompiledPolicy \<Rightarrow> string \<Rightarrow> ShellFileMode \<Rightarrow> bool \<Rightarrow> string \<Rightarrow>
     GateDecision option" where
  "resolved_decision E fs p cwd mode cwd_unpinned token =
     (let path = normalize_shell_path token;
          rule_cwd = (if is_absolute_shell_path path \<or> \<not> cwd_unpinned then Some cwd else None)
      in case raw_absolute_form cwd cwd_unpinned token of
        None \<Rightarrow> None
      | Some raw_absolute \<Rightarrow> (case resolve_symlink_target fs raw_absolute of
          Some resolved \<Rightarrow>
            if resolved \<noteq> absolute_form cwd path
            then escalate_file E p rule_cwd (shell_access mode resolved) else None
        | None \<Rightarrow> ask_if (path_has_symlink fs raw_absolute)))"

definition evaluate_shell_path ::
  "('pat, 'j) policy_env \<Rightarrow> fs_env \<Rightarrow> 'pat CompiledPolicy \<Rightarrow> string \<Rightarrow> string \<Rightarrow> ShellFileMode \<Rightarrow> bool \<Rightarrow>
     GateDecision option" where
  "evaluate_shell_path E fs p token cwd mode cwd_unpinned =
     (let path = normalize_shell_path token;
          absolute = is_absolute_shell_path path;
          rule_cwd = (if absolute \<or> \<not> cwd_unpinned then Some cwd else None);
          path_decision = escalate_file E p rule_cwd (shell_access mode path);
          anchored_decision = (if cwd_unpinned \<and> \<not> absolute then None
            else combine_gate_decisions
              (escalate_file E p rule_cwd (shell_access mode (absolute_form cwd path)))
              (resolved_decision E fs p cwd mode cwd_unpinned token))
      in combine_gate_decisions (combine_gate_decisions path_decision anchored_decision)
           (ask_if (cwd_unpinned \<and> \<not> absolute)))"

text \<open>The loops carry \<open>forced_ask\<close> and the decision so far.\<close>

type_synonym gate_state = "bool \<times> GateDecision option"

definition force_ask :: "bool \<Rightarrow> gate_state \<Rightarrow> gate_state" where
  "force_ask b st = (fst st \<or> b, snd st)"

definition add_gate :: "GateDecision option \<Rightarrow> gate_state \<Rightarrow> gate_state" where
  "add_gate d st = (fst st, combine_gate_decisions (snd st) d)"

definition check_path ::
  "('pat, 'j) policy_env \<Rightarrow> fs_env \<Rightarrow> 'pat CompiledPolicy \<Rightarrow> string \<Rightarrow> bool \<Rightarrow> gate_state \<Rightarrow>
     string \<times> ShellFileMode \<Rightarrow> gate_state" where
  "check_path E fs p cwd unpinned st q =
     add_gate (evaluate_shell_path E fs p (fst q) cwd (snd q) unpinned)
       (force_ask (shell_arg_is_ambiguous (fst q)) st)"

definition redirect_gate ::
  "('pat, 'j) policy_env \<Rightarrow> fs_env \<Rightarrow> 'pat CompiledPolicy \<Rightarrow> string \<Rightarrow> bool \<Rightarrow> CwdPoison list \<Rightarrow> gate_state \<Rightarrow>
     ShellRedirectTarget \<Rightarrow> gate_state" where
  "redirect_gate E fs p cwd unpinned cwd_changes st0 redirect =
     (let st = force_ask (rd_ambiguous redirect) st0
      in case rd_path redirect of
        None \<Rightarrow> st
      | Some path \<Rightarrow> add_gate (evaluate_shell_path E fs p path cwd (rd_mode redirect)
            (unpinned \<or> cwd_unpinned_before cwd_changes (rd_start redirect) (rd_scope redirect))) st)"

text \<open>The operands of one program: the ones named by flags, then those of a path-moving command or
  those of a known reader or writer.\<close>

definition program_modes :: "string \<Rightarrow> string list \<Rightarrow> ShellFileMode list" where
  "program_modes program words = (case shell_file_mode program of
      None \<Rightarrow> []
    | Some m \<Rightarrow> if program = ''sed'' \<and> shell_sed_in_place words then [M_Read, M_Write] else [m])"

definition program_operands :: "string \<Rightarrow> string list \<Rightarrow> (string \<times> ShellFileMode) list" where
  "program_operands program words =
     special_file_operands program words
     @ (if program = ''dd'' then []
        else case shell_path_command_operands program words of
          Some operands \<Rightarrow> operands
        | None \<Rightarrow> concat (map (\<lambda>token. map (\<lambda>m. (token, m)) (program_modes program words))
            (shell_file_candidates words)))"

definition is_known_program :: "string \<Rightarrow> string list \<Rightarrow> bool" where
  "is_known_program program words \<longleftrightarrow> program = ''dd'' \<or> shell_file_mode program \<noteq> None
     \<or> shell_path_command_operands program words \<noteq> None"

definition reader_recurses :: "string \<Rightarrow> string list \<Rightarrow> bool" where
  "reader_recurses program words \<longleftrightarrow> program \<noteq> ''dd'' \<and> shell_path_command_operands program words = None
     \<and> shell_file_mode program \<noteq> None \<and> shell_reader_can_recurse program words (shell_file_candidates words)"

definition program_gate ::
  "('pat, 'j) policy_env \<Rightarrow> fs_env \<Rightarrow> 'pat CompiledPolicy \<Rightarrow> string \<Rightarrow> bool \<Rightarrow> bool \<Rightarrow> InvocationWord list \<Rightarrow>
     gate_state \<Rightarrow> gate_state" where
  "program_gate E fs p cwd unpinned parse_failed words st = (case words of
      IW_Literal w # _ \<Rightarrow>
        (let program = to_ascii_lowercase (basename w);
             literals = literal_words words
         in if changes_cwd program then st
            else
              (let st1 = force_ask (is_known_program program literals
                     \<and> (unpinned \<or> IW_Untrusted \<in> set words \<or> parse_failed)) st;
                   st2 = foldl (check_path E fs p cwd unpinned) st1 (program_operands program literals)
               in force_ask (reader_recurses program literals) st2))
    | _ \<Rightarrow> st)"

definition inline_state ::
  "(string \<Rightarrow> bool \<Rightarrow> GateDecision option) option \<Rightarrow> bool \<Rightarrow> InvocationWord list \<Rightarrow> gate_state \<Rightarrow> gate_state" where
  "inline_state inline unpinned words st = (case shell_dash_c_script (shell_words words) of
      NotInline \<Rightarrow> st
    | Inline_Literal index \<Rightarrow> (case inline of
        None \<Rightarrow> force_ask True st
      | Some gate \<Rightarrow> (case shell_words words ! index of
          W_Literal inner \<Rightarrow> add_gate (gate inner unpinned) st
        | W_Untrusted \<Rightarrow> st))
    | _ \<Rightarrow> force_ask True st)"

definition invocation_gate ::
  "('pat, 'j) policy_env \<Rightarrow> fs_env \<Rightarrow> 'pat CompiledPolicy \<Rightarrow> string \<Rightarrow> bool \<Rightarrow> bool \<Rightarrow> CwdPoison list \<Rightarrow>
     (string \<Rightarrow> bool \<Rightarrow> GateDecision option) option \<Rightarrow> gate_state \<Rightarrow> ShellInvocation \<Rightarrow> gate_state" where
  "invocation_gate E fs p cwd cwd_unpinned parse_failed cwd_changes inline st0 invocation =
     (let peeled = unwrap_invocation_checked invocation;
          words = cip_words peeled;
          unpinned = (cwd_unpinned \<or> cwd_unpinned_before cwd_changes (inv_start invocation) (inv_scope invocation)
            \<or> cip_has_chdir peeled);
          st1 = force_ask (cip_exhausted peeled \<or> cip_has_split_string peeled
            \<or> cip_env_options_uncertain peeled \<or> cip_transparent_ambiguous peeled) st0;
          st2 = force_ask (parse_failed \<and> shell_dash_c_script (shell_words words) \<noteq> NotInline) st1;
          st3 = inline_state inline unpinned words st2
      in program_gate E fs p cwd unpinned parse_failed words st3)"

text \<open>One script, with the recursion into inline scripts while depth is left.\<close>

definition script_file_gate ::
  "('pat, 'j) policy_env \<Rightarrow> fs_env \<Rightarrow> 'pat CompiledPolicy \<Rightarrow> string \<Rightarrow>
     (string \<Rightarrow> bool \<Rightarrow> GateDecision option) option \<Rightarrow> bool \<Rightarrow> string \<Rightarrow> bool \<Rightarrow> GateDecision option" where
  "script_file_gate E fs p cwd inline entered_inline cmd cwd_unpinned = (case parse_shell E cmd of
      None \<Rightarrow> ask_if entered_inline
    | Some root \<Rightarrow>
        (let parse_failed = node_error root;
             cwd_changes = cwd_poison_positions root cmd;
             st1 = foldl (redirect_gate E fs p cwd cwd_unpinned cwd_changes)
               (entered_inline \<and> parse_failed, None) (shell_redirect_targets root cmd);
             st2 = foldl (invocation_gate E fs p cwd cwd_unpinned parse_failed cwd_changes inline) st1
               (shell_command_invocations root cmd)
         in combine_gate_decisions (snd st2) (ask_if (fst st2))))"

fun evaluate_shell_file_access_inner ::
  "('pat, 'j) policy_env \<Rightarrow> fs_env \<Rightarrow> 'pat CompiledPolicy \<Rightarrow> string \<Rightarrow> nat \<Rightarrow> bool \<Rightarrow> string \<Rightarrow> bool \<Rightarrow>
     GateDecision option" where
  "evaluate_shell_file_access_inner E fs p cwd 0 entered cmd unpinned =
     script_file_gate E fs p cwd None entered cmd unpinned"
| "evaluate_shell_file_access_inner E fs p cwd (Suc n) entered cmd unpinned =
     script_file_gate E fs p cwd (Some (evaluate_shell_file_access_inner E fs p cwd n True)) entered cmd unpinned"

definition evaluate_shell_file_access_gate ::
  "('pat, 'j) policy_env \<Rightarrow> fs_env \<Rightarrow> 'pat CompiledPolicy \<Rightarrow> string \<Rightarrow> string \<Rightarrow> GateDecision option" where
  "evaluate_shell_file_access_gate E fs p cmd cwd =
     (if \<not> has_file_restrictions p then None
      else evaluate_shell_file_access_inner E fs p cwd MAX_INLINE_SHELL_DEPTH False cmd False)"

end
