(* ===== verification/Shell_Gate.thy ===== *)
theory Shell_Gate
  imports Perm_Gate Shell_Files
begin

text \<open>
  What the file gate guarantees, independently of its loops: the decision on every file that a
  script is seen to touch is a lower bound of the gate's decision.
\<close>

section \<open>Levels of the accumulated decision\<close>

definition state_level :: "gate_state \<Rightarrow> nat" where
  "state_level st = gate_level (snd st)"

lemma state_level_steps [simp]:
  "state_level (force_ask b st) = state_level st"
  "state_level (add_gate d st) = max (state_level st) (gate_level d)"
  by (simp_all add: state_level_def force_ask_def add_gate_def)

text \<open>A step that never lowers the level, folded over a list.\<close>

lemma fold_level_mono:
  assumes "\<And>st x. state_level st \<le> state_level (f st x)"
  shows "state_level st \<le> state_level (foldl f st xs)"
proof (induction xs arbitrary: st)
  case (Cons x xs)
  show ?case using order_trans [OF assms Cons.IH] by simp
qed simp

lemma fold_level_mem:
  assumes mono: "\<And>st x. state_level st \<le> state_level (f st x)"
    and "x \<in> set xs" and "\<And>st. l \<le> state_level (f st x)"
  shows "l \<le> state_level (foldl f st xs)"
  using assms(2)
proof (induction xs arbitrary: st)
  case (Cons y ys)
  show ?case
  proof (cases "x = y")
    case True
    then have "l \<le> state_level (f st y)" using assms(3) by simp
    also have "\<dots> \<le> state_level (foldl f (f st y) ys)" using mono by (rule fold_level_mono)
    finally show ?thesis by simp
  qed (use Cons in simp)
qed simp

lemma check_path_level:
  "state_level (check_path E fs p cwd u st q)
    = max (state_level st) (gate_level (evaluate_shell_path E fs p (fst q) cwd (snd q) u))"
  by (simp add: check_path_def)

lemma check_path_mono: "state_level st \<le> state_level (check_path E fs p cwd u st q)"
  by (simp add: check_path_level)

lemma redirect_gate_mono: "state_level st \<le> state_level (redirect_gate E fs p cwd u ps st r)"
  by (simp add: redirect_gate_def Let_def split: option.split)

lemma program_gate_mono: "state_level st \<le> state_level (program_gate E fs p cwd u failed words st)"
proof -
  have "state_level st \<le> state_level (foldl (check_path E fs p cwd u) (force_ask b st) ops)" for b ops
    using fold_level_mono [of "check_path E fs p cwd u" "force_ask b st" ops, OF check_path_mono] by simp
  then show ?thesis
    by (simp add: program_gate_def Let_def split: list.split InvocationWord.split)
qed

lemma inline_state_mono: "state_level st \<le> state_level (inline_state inline u words st)"
  by (simp add: inline_state_def split: InlineShellScript.split option.split ShellWord.split)

lemma invocation_gate_mono:
  "state_level st \<le> state_level (invocation_gate E fs p cwd u failed ps inline st iv)"
proof -
  let ?words = "cip_words (unwrap_invocation_checked iv)"
  have "state_level st \<le> state_level (inline_state inline v ?words (force_ask b (force_ask a st)))" for v a b
    using inline_state_mono [of "force_ask b (force_ask a st)" inline v ?words] by simp
  also have "state_level (inline_state inline v ?words st') \<le> state_level
      (program_gate E fs p cwd v failed ?words (inline_state inline v ?words st'))" for v st'
    by (rule program_gate_mono)
  finally show ?thesis by (simp add: invocation_gate_def Let_def)
qed

section \<open>The files a script touches\<close>

definition invocation_unpinned :: "bool \<Rightarrow> CwdPoison list \<Rightarrow> ShellInvocation \<Rightarrow> bool" where
  "invocation_unpinned u ps iv \<longleftrightarrow> u \<or> cwd_unpinned_before ps (inv_start iv) (inv_scope iv)
     \<or> cip_has_chdir (unwrap_invocation_checked iv)"

inductive touches_file ::
  "('pat, 'j) policy_env \<Rightarrow> nat \<Rightarrow> bool \<Rightarrow> string \<Rightarrow> string \<Rightarrow> ShellFileMode \<Rightarrow> bool \<Rightarrow> bool" for E where
  redirected: "parse_shell E s = Some root \<Longrightarrow> r \<in> set (shell_redirect_targets root s) \<Longrightarrow>
    rd_path r = Some t \<Longrightarrow> touches_file E n u s t (rd_mode r)
      (u \<or> cwd_unpinned_before (cwd_poison_positions root s) (rd_start r) (rd_scope r))"
| operand: "parse_shell E s = Some root \<Longrightarrow> iv \<in> set (shell_command_invocations root s) \<Longrightarrow>
    cip_words (unwrap_invocation_checked iv) = IW_Literal w # ws \<Longrightarrow>
    program = to_ascii_lowercase (basename w) \<Longrightarrow> \<not> changes_cwd program \<Longrightarrow>
    (t, m) \<in> set (program_operands program (literal_words (IW_Literal w # ws))) \<Longrightarrow>
    touches_file E n u s t m (invocation_unpinned u (cwd_poison_positions root s) iv)"
| inline: "parse_shell E s = Some root \<Longrightarrow> iv \<in> set (shell_command_invocations root s) \<Longrightarrow>
    words = shell_words (cip_words (unwrap_invocation_checked iv)) \<Longrightarrow>
    shell_dash_c_script words = Inline_Literal i \<Longrightarrow> words ! i = W_Literal script \<Longrightarrow>
    touches_file E n (invocation_unpinned u (cwd_poison_positions root s) iv) script t m v \<Longrightarrow>
    touches_file E (Suc n) u s t m v"

definition inline_file_gate ::
  "('pat, 'j) policy_env \<Rightarrow> fs_env \<Rightarrow> 'pat CompiledPolicy \<Rightarrow> string \<Rightarrow> nat \<Rightarrow>
     (string \<Rightarrow> bool \<Rightarrow> GateDecision option) option" where
  "inline_file_gate E fs p cwd n = (case n of
      0 \<Rightarrow> None | Suc k \<Rightarrow> Some (evaluate_shell_file_access_inner E fs p cwd k True))"

lemma file_gate_eq:
  "evaluate_shell_file_access_inner E fs p cwd n entered s u
    = script_file_gate E fs p cwd (inline_file_gate E fs p cwd n) entered s u"
  by (cases n) (simp_all add: inline_file_gate_def)

lemma redirect_level:
  assumes "parse_shell E s = Some root" and "r \<in> set (shell_redirect_targets root s)"
    and "\<And>st. l \<le> state_level (redirect_gate E fs p cwd u (cwd_poison_positions root s) st r)"
  shows "l \<le> gate_level (evaluate_shell_file_access_inner E fs p cwd n entered s u)"
proof -
  let ?ps = "cwd_poison_positions root s"
  let ?st = "foldl (redirect_gate E fs p cwd u ?ps) (entered \<and> node_error root, None) (shell_redirect_targets root s)"
  have "l \<le> state_level ?st"
    by (rule fold_level_mem) (rule redirect_gate_mono assms(2,3))+
  also have "\<dots> \<le> state_level (foldl (invocation_gate E fs p cwd u (node_error root) ?ps
      (inline_file_gate E fs p cwd n)) ?st (shell_command_invocations root s))"
    by (rule fold_level_mono) (rule invocation_gate_mono)
  finally show ?thesis
    by (simp add: file_gate_eq script_file_gate_def assms(1) Let_def state_level_def)
qed

lemma invocation_level:
  assumes "parse_shell E s = Some root" and "iv \<in> set (shell_command_invocations root s)"
    and "\<And>st. l \<le> state_level (invocation_gate E fs p cwd u (node_error root)
      (cwd_poison_positions root s) (inline_file_gate E fs p cwd n) st iv)"
  shows "l \<le> gate_level (evaluate_shell_file_access_inner E fs p cwd n entered s u)"
proof -
  let ?ps = "cwd_poison_positions root s"
  have "l \<le> state_level (foldl (invocation_gate E fs p cwd u (node_error root) ?ps
      (inline_file_gate E fs p cwd n)) st (shell_command_invocations root s))" for st
    by (rule fold_level_mem) (rule invocation_gate_mono assms(2,3))+
  then show ?thesis
    by (simp add: file_gate_eq script_file_gate_def assms(1) Let_def state_level_def le_max_iff_disj)
qed

lemma program_gate_operand:
  assumes "words = IW_Literal w # ws" and "\<not> changes_cwd (to_ascii_lowercase (basename w))"
    and "q \<in> set (program_operands (to_ascii_lowercase (basename w)) (literal_words words))"
  shows "gate_level (evaluate_shell_path E fs p (fst q) cwd (snd q) v)
    \<le> state_level (program_gate E fs p cwd v failed words st)"
proof -
  have "gate_level (evaluate_shell_path E fs p (fst q) cwd (snd q) v) \<le> state_level
      (foldl (check_path E fs p cwd v) st' (program_operands (to_ascii_lowercase (basename w)) (literal_words words)))"
    for st'
    by (rule fold_level_mem, rule check_path_mono, rule assms(3)) (simp add: check_path_level)
  then show ?thesis using assms(1,2) by (simp add: program_gate_def Let_def)
qed

theorem touched_file_level:
  "touches_file E n u s t m v \<Longrightarrow> gate_level (evaluate_shell_path E fs p t cwd m v)
    \<le> gate_level (evaluate_shell_file_access_inner E fs p cwd n entered s u)"
proof (induction arbitrary: entered rule: touches_file.induct)
  case (redirected s root r t n u)
  show ?case
    by (rule redirect_level [OF redirected(1,2)]) (simp add: redirect_gate_def redirected(3) Let_def)
next
  case (operand s root iv w ws program t m n u)
  let ?v = "invocation_unpinned u (cwd_poison_positions root s) iv"
  let ?words = "cip_words (unwrap_invocation_checked iv)"
  have *: "gate_level (evaluate_shell_path E fs p t cwd m ?v)
      \<le> state_level (program_gate E fs p cwd ?v (node_error root) ?words st)" for st
    using program_gate_operand [OF operand(3), of "(t, m)"] operand(3-6) by simp
  show ?case
    by (rule invocation_level [OF operand(1,2)])
      (use * in \<open>simp add: invocation_gate_def Let_def invocation_unpinned_def\<close>)
next
  case (inline s root iv words i script n u t m v)
  let ?v = "invocation_unpinned u (cwd_poison_positions root s) iv"
  let ?words = "cip_words (unwrap_invocation_checked iv)"
  let ?l = "gate_level (evaluate_shell_path E fs p t cwd m v)"
  have "?l \<le> state_level (inline_state (inline_file_gate E fs p cwd (Suc n)) ?v ?words st)" for st
    using inline(7) [of True] inline(3-5)
    by (auto simp: inline_state_def inline_file_gate_def le_max_iff_disj)
  then have "?l \<le> state_level (program_gate E fs p cwd ?v (node_error root) ?words
      (inline_state (inline_file_gate E fs p cwd (Suc n)) ?v ?words st))" for st
    using program_gate_mono order_trans by blast
  then show ?case
    by (intro invocation_level [OF inline(1,2)])
      (simp add: invocation_gate_def Let_def invocation_unpinned_def)
qed

section \<open>The spellings that are checked\<close>

definition rule_cwd_of :: "string \<Rightarrow> string \<Rightarrow> bool \<Rightarrow> string option" where
  "rule_cwd_of cwd t v = (if is_absolute_shell_path (normalize_shell_path t) \<or> \<not> v then Some cwd else None)"

text \<open>The file an operand names: as it is written, against the working directory, and with its
  links followed.\<close>

definition checked_spellings :: "fs_env \<Rightarrow> string \<Rightarrow> string \<Rightarrow> bool \<Rightarrow> string set" where
  "checked_spellings fs cwd t v =
     {normalize_shell_path t}
     \<union> (if v \<and> \<not> is_absolute_shell_path (normalize_shell_path t) then {}
        else insert (absolute_form cwd (normalize_shell_path t))
          (set_option (Option.bind (raw_absolute_form cwd v t) (resolve_symlink_target fs))))"

lemma escalate_file_level:
  "3 \<le> gate_level (escalate_file E (policy_new E c) rc a) \<longleftrightarrow> some_rule E c R_Deny a rc"
  "2 \<le> gate_level (escalate_file E (policy_new E c) rc a)
     \<longleftrightarrow> some_rule E c R_Deny a rc \<or> some_rule E c R_Ask a rc"
  using first_deny_None [of E c a rc]
  by (auto simp: escalate_file_def evaluate_cases gate_level_def gate_rank_def split: option.splits)

lemma spelling_level:
  assumes "x \<in> checked_spellings fs cwd t v"
  shows "gate_level (escalate_file E p (rule_cwd_of cwd t v) (shell_access m x))
    \<le> gate_level (evaluate_shell_path E fs p t cwd m v)"
proof -
  consider "x = normalize_shell_path t"
    | "\<not> (v \<and> \<not> is_absolute_shell_path (normalize_shell_path t))"
        "x = absolute_form cwd (normalize_shell_path t)"
    | "\<not> (v \<and> \<not> is_absolute_shell_path (normalize_shell_path t))"
        "x \<noteq> absolute_form cwd (normalize_shell_path t)"
        "Option.bind (raw_absolute_form cwd v t) (resolve_symlink_target fs) = Some x"
    using assms by (fastforce simp: checked_spellings_def split: if_splits)
  then show ?thesis
  proof cases
    case 1
    then show ?thesis
      by (simp add: evaluate_shell_path_def Let_def rule_cwd_of_def le_max_iff_disj)
  next
    case 2
    then show ?thesis
      by (auto simp: evaluate_shell_path_def Let_def rule_cwd_of_def le_max_iff_disj)
  next
    case 3
    then have "resolved_decision E fs p cwd m v t
        = escalate_file E p (rule_cwd_of cwd t v) (shell_access m x)"
      by (auto simp: resolved_decision_def Let_def rule_cwd_of_def bind_eq_Some_conv)
    then show ?thesis
      using 3(1) by (auto simp: evaluate_shell_path_def Let_def le_max_iff_disj)
  qed
qed

lemma unpinned_level:
  assumes "v" and "\<not> is_absolute_shell_path (normalize_shell_path t)"
  shows "1 \<le> gate_level (evaluate_shell_path E fs p t cwd m v)"
proof -
  have one: "gate_level (Some AskFailClosed) = 1" by (simp add: gate_level_def gate_rank_def)
  then show ?thesis
    using assms by (simp add: evaluate_shell_path_def Let_def ask_if_def one le_max_iff_disj)
qed

lemma file_restrictions:
  fixes E :: "('pat, 'j) policy_env"
  assumes "some_rule E c act (shell_access m x) rc" and "act \<in> {R_Deny, R_Ask}"
  shows "has_file_restrictions (policy_new E c)"
proof -
  from assms(1) obtain r where "r \<in> set (rules c)" "rule_action r = act"
      "tool_filter_matches (shell_access m x :: 'j AccessKind) (rule_tool r)"
    by (auto simp: some_rule_def rule_matches_def)
  moreover from this(3) have "rule_tool r \<in> {T_Read, T_Edit, T_Any}"
    by (auto simp: tool_filter_matches_def shell_access_def split: ToolFilter.splits ShellFileMode.splits)
  ultimately show ?thesis using assms(2) by (auto simp: policy_new_def list_ex_iff)
qed

end
