(* ===== verification/Shell_Properties.thy ===== *)
theory Shell_Properties
  imports Shell_Gate Perm_Examples
begin

text \<open>
  The properties of the file gate and of the protection of edit targets.
\<close>

section \<open>A file system and a policy to evaluate\<close>

text \<open>One link, \<open>/work/notes\<close> to \<open>/secret/key\<close>; every other path is its own target.\<close>

definition ex_fs :: fs_env where
  "ex_fs = \<lparr>fs_canonicalize = (\<lambda>p. Some (if p = ''/work/notes'' then ''/secret/key'' else p)),
     fs_symlink_metadata = (\<lambda>p. Meta_Entry (p = ''/work/notes'')), fs_read_link = (\<lambda>_. None),
     user_grok_home = None\<rparr>"

definition ex_file_policy :: PermissionConfig where
  "ex_file_policy = \<lparr>rules = [\<lparr>rule_action = R_Deny, rule_tool = T_Read, rule_pattern = Some ''/secret*'',
     pattern_mode = Glob\<rparr>], prompt_policy = Prompt_Ask\<rparr>"

section \<open>Files of a script\<close>

text \<open>C32: safety. Deny and ask rules on files reach the shell: every file a script is seen to
  touch, as the target of a redirection or as an operand of a command that reads, writes, moves or
  removes files, behind wrappers and inside scripts given to a shell with \<open>-c\<close> down to the depth
  limit, is compared with the rules in all its spellings: as written, against the working
  directory, with symbolic links followed. When a deny rule matches one of them, the gate rejects
  the script; when an ask rule does, the gate rejects it or asks because of a rule. An operand that
  cannot be pinned because the directory may have changed is refused or asked about as soon as any
  rule restricts files.\<close>

theorem file_deny_reaches_shell:
  fixes E :: "('pat, 'j) policy_env"
  assumes "touches_file E MAX_INLINE_SHELL_DEPTH False script t m v"
  shows "((\<exists>x \<in> checked_spellings fs cwd t v.
          some_rule E c R_Deny (shell_access m x :: 'j AccessKind) (rule_cwd_of cwd t v)) \<longrightarrow>
        (\<exists>r. evaluate_shell_file_access_gate E fs (policy_new E c) script cwd = Some (G_Reject r)))
    \<and> ((\<exists>x \<in> checked_spellings fs cwd t v.
          some_rule E c R_Ask (shell_access m x :: 'j AccessKind) (rule_cwd_of cwd t v)) \<longrightarrow>
        (\<exists>r. evaluate_shell_file_access_gate E fs (policy_new E c) script cwd = Some (G_Reject r))
        \<or> evaluate_shell_file_access_gate E fs (policy_new E c) script cwd = Some AskRuleMatch)
    \<and> (has_file_restrictions (policy_new E c) \<and> v \<and> \<not> is_absolute_shell_path (normalize_shell_path t) \<longrightarrow>
        evaluate_shell_file_access_gate E fs (policy_new E c) script cwd \<noteq> None)"
proof -
  let ?p = "policy_new E c"
  have level: "gate_level (evaluate_shell_path E fs ?p t cwd m v)
      \<le> gate_level (evaluate_shell_file_access_gate E fs ?p script cwd)" if "has_file_restrictions ?p"
    using touched_file_level [OF assms(1), of fs ?p cwd False] that
    by (simp add: evaluate_shell_file_access_gate_def)
  have reaches: "n \<le> gate_level (evaluate_shell_file_access_gate E fs ?p script cwd)"
    if x: "x \<in> checked_spellings fs cwd t v"
      "some_rule E c act (shell_access m x :: 'j AccessKind) (rule_cwd_of cwd t v)" "act \<in> {R_Deny, R_Ask}"
      and n: "n \<le> gate_level (escalate_file E ?p (rule_cwd_of cwd t v) (shell_access m x))" for x act n
    using n spelling_level [OF x(1)] level [OF file_restrictions [OF x(2,3)]] by (meson order_trans)
  have "\<exists>r. evaluate_shell_file_access_gate E fs ?p script cwd = Some (G_Reject r)"
    if "x \<in> checked_spellings fs cwd t v"
      "some_rule E c R_Deny (shell_access m x :: 'j AccessKind) (rule_cwd_of cwd t v)" for x
    using reaches [OF that _ escalate_file_level(1) [THEN iffD2, OF that(2)]] by (simp add: gate_level_iff(2))
  moreover have "(\<exists>r. evaluate_shell_file_access_gate E fs ?p script cwd = Some (G_Reject r))
      \<or> evaluate_shell_file_access_gate E fs ?p script cwd = Some AskRuleMatch"
    if "x \<in> checked_spellings fs cwd t v"
      "some_rule E c R_Ask (shell_access m x :: 'j AccessKind) (rule_cwd_of cwd t v)" for x
    using reaches [OF that _ escalate_file_level(2) [THEN iffD2, OF disjI2, OF that(2)]] by (simp add: gate_level_iff(3))
  moreover have "evaluate_shell_file_access_gate E fs ?p script cwd \<noteq> None"
    if "has_file_restrictions ?p" "v" "\<not> is_absolute_shell_path (normalize_shell_path t)"
    using order_trans [OF unpinned_level [OF that(2,3)] level [OF that(1)]]
    by (rule gate_level_iff(4) [THEN iffD1])
  ultimately show ?thesis by blast
qed

definition ex_root :: Node where
  "ex_root = Node ''program'' True False 0 9 [(None, ex_command 0 ''cat notes''), (None, Node '';'' False False 9 10 [])]"

definition ex_invocation :: ShellInvocation where
  "ex_invocation = \<lparr>inv_start = 0, inv_scope = \<lparr>scope_start = 0, scope_end = usize_max\<rparr>,
     inv_words = [IW_Literal ''cat'', IW_Literal ''notes''], wrapper_words = [''cat'', ''notes'']\<rparr>"

definition ex_cat_command :: Node where
  "ex_cat_command = ex_command 0 ''cat notes''"

lemma ex_commands:
  "filter (\<lambda>pos. node_kind (fst pos) = ''command'') (positions ex_root []) = [(ex_cat_command, [(ex_root, 0)])]"
  "filter (\<lambda>(n, ctx). poisons_cwd ''cat notes'' n) (positions ex_root []) = []"
  "List.map_filter (operand_word ''cat notes'') (named_children ex_cat_command)
     = [IW_Literal ''cat'', IW_Literal ''notes'']"
  "start_byte ex_cat_command = 0" "node_kind ex_root = ''program''"
  "map_option node_kind (nth_opt (children ex_root) (Suc 0)) = Some '';''"
  by code_simp+

lemma ex_cat:
  "parse_shell ex_perm_env ''cat notes'' = Some ex_root"
  "norm_words (normalize_command_words [''cat'', ''notes'']) = [''cat'', ''notes'']"
  "norm_has_chdir (normalize_command_words [''cat'', ''notes'']) = False"
  "program_operands ''cat'' (literal_words [IW_Literal ''cat'', IW_Literal ''notes'']) = [(''notes'', M_Read)]"
  by code_simp+

lemma ex_cat_invocation:
  "shell_command_invocations ex_root ''cat notes'' = [ex_invocation]"
  "cip_words (unwrap_invocation_checked ex_invocation) = [IW_Literal ''cat'', IW_Literal ''notes'']"
  "invocation_unpinned False (cwd_poison_positions ex_root ''cat notes'') ex_invocation = False"
  by (simp_all add: shell_command_invocations_def ex_commands invocation_at_def ex_invocation_def
      wrapper_word_def unwrap_invocation_checked_def ex_cat Let_def invocation_unpinned_def
      cwd_poison_positions_def cwd_unpinned_before_def)

lemma ex_link:
  "raw_absolute_form ''/work'' False ''notes'' = Some ''/work/notes''"
  "normalize_shell_path ''/secret/key'' = ''/secret/key''"
  "is_absolute ''/work/notes''"
  by code_simp+

lemma ex_link_target: "resolve_symlink_target ex_fs ''/work/notes'' = Some ''/secret/key''"
  by (simp add: resolve_symlink_target_def resolve_following_symlinks_def ex_link ex_fs_def)

lemma ex_notes:
  "''/secret/key'' \<in> checked_spellings ex_fs ''/work'' ''notes'' False"
  "some_rule ex_perm_env ex_file_policy R_Deny (shell_access M_Read ''/secret/key'')
     (rule_cwd_of ''/work'' ''notes'' False)"
  by (simp add: checked_spellings_def ex_link ex_link_target) code_simp

theorem file_deny_reaches_shell_witness:
  "\<exists>r. evaluate_shell_file_access_gate ex_perm_env ex_fs (policy_new ex_perm_env ex_file_policy)
      ''cat notes'' ''/work'' = Some (G_Reject r)"
proof -
  have "touches_file ex_perm_env MAX_INLINE_SHELL_DEPTH False ''cat notes'' ''notes'' M_Read
      (invocation_unpinned False (cwd_poison_positions ex_root ''cat notes'') ex_invocation)"
    by (rule touches_file.operand [where w = "''cat''" and ws = "[IW_Literal ''notes'']" and program = "''cat''"])
      (simp_all add: ex_cat ex_cat_invocation basename_def to_ascii_lowercase_def ascii_lower_def changes_cwd_def)
  from file_deny_reaches_shell [OF this, of ex_fs "''/work''" ex_file_policy] show ?thesis
    using ex_notes by (auto simp: ex_cat_invocation)
qed

end
