(* ===== verification/Perm_Exec.thy ===== *)
theory Perm_Exec
  imports Perm_Policy
begin

text \<open>
  Execution risk of an argument vector (\<open>permission/exec_risk.rs\<close>): options that make \<open>sort\<close> or
  \<open>git\<close> start programs, the single decision which \<open>git\<close> queries are read-only, and the plan
  which directories a script's \<open>git\<close> commands would read their configuration from. The scan of
  the configuration itself is libgit2 and the file system, so its result is a parameter of the
  manager; the decision on one configuration entry is here, with libgit2's reading of a boolean
  as a parameter.
\<close>

section \<open>Normalisation\<close>

datatype NormalizedArgv = Argv_Ready "string list" | Argv_FailClosed

text \<open>The source compares slices of one vector by address and length; every slice is a suffix of
  it, and equal suffixes are equal lists.\<close>

fun exec_risk_rounds :: "nat \<Rightarrow> string list \<Rightarrow> NormalizedArgv" where
  "exec_risk_rounds 0 current = Argv_FailClosed"
| "exec_risk_rounds (Suc n) current =
     (let checked = unwrap_wrappers_checked current
      in if peel_exhausted checked \<or> peel_has_split_string checked \<or> peel_has_chdir checked
         then Argv_FailClosed
         else case peel_transparent_prefixes (peel_words checked) of
           Peel_Ambiguous \<Rightarrow> Argv_FailClosed
         | Peel_Ready after_trans \<Rightarrow>
             if after_trans = current \<or> after_trans = peel_words checked then Argv_Ready after_trans
             else exec_risk_rounds n after_trans)"

definition normalize_for_exec_risk :: "string list \<Rightarrow> NormalizedArgv" where
  "normalize_for_exec_risk words = exec_risk_rounds MAX_NORMALIZE_ROUNDS words"

section \<open>Program names and long options\<close>

definition is_accepted_long_option_prefix :: "string \<Rightarrow> string \<Rightarrow> nat \<Rightarrow> bool" where
  "is_accepted_long_option_prefix flag full min_len \<longleftrightarrow> starts_with flag ''--''
     \<and> min_len \<le> length flag \<and> starts_with full flag
     \<and> list_all (\<lambda>b. is_ascii_alphanumeric b \<or> b = CHR ''-'') flag"

definition normalized_token_basename :: "string \<Rightarrow> string" where
  "normalized_token_basename token =
     (let name = to_ascii_lowercase (basename token)
      in case strip_suffix ''.exe'' name of Some stem \<Rightarrow> stem | None \<Rightarrow> name)"

definition normalized_program_name :: "string list \<Rightarrow> string option" where
  "normalized_program_name words = (case words of
      [] \<Rightarrow> None
    | raw # _ \<Rightarrow> if basename raw = [] then None else Some (normalized_token_basename raw))"

definition is_git_program :: "string list \<Rightarrow> bool" where
  "is_git_program words \<longleftrightarrow> normalized_program_name words = Some ''git''"

definition is_sort_program :: "string list \<Rightarrow> bool" where
  "is_sort_program words \<longleftrightarrow> normalized_program_name words = Some ''sort''"

text \<open>\<open>split_once('=')\<close> with the whole text when there is none.\<close>

definition before_eq :: "string \<Rightarrow> string" where
  "before_eq w = takeWhile (\<lambda>c. c \<noteq> CHR ''='') w"

fun compress_flag :: "string list \<Rightarrow> bool" where
  "compress_flag [] = False"
| "compress_flag (w # ws) =
     (if w = ''--'' then False
      else if w = ''--compress-program'' \<or> starts_with w ''--compress-program='' then True
      else if is_accepted_long_option_prefix (before_eq w) ''--compress-program'' 4 then True
      else compress_flag ws)"

definition sort_has_compress_program_flag :: "string list \<Rightarrow> bool" where
  "sort_has_compress_program_flag words = compress_flag (tl words)"

section \<open>Global options of git\<close>

definition is_git_config_env_flag :: "string \<Rightarrow> bool" where
  "is_git_config_env_flag tok \<longleftrightarrow> tok = ''--config-env'' \<or> starts_with tok ''--config-env=''
     \<or> is_accepted_long_option_prefix (before_eq tok) ''--config-env'' 4"

definition is_git_repo_retarget_flag :: "string \<Rightarrow> bool" where
  "is_git_repo_retarget_flag tok \<longleftrightarrow> tok = ''--git-dir'' \<or> starts_with tok ''--git-dir=''
     \<or> tok = ''--work-tree'' \<or> starts_with tok ''--work-tree=''
     \<or> is_accepted_long_option_prefix (before_eq tok) ''--git-dir'' 4
     \<or> is_accepted_long_option_prefix (before_eq tok) ''--work-tree'' 4"

definition is_attached_git_config_c :: "string \<Rightarrow> bool" where
  "is_attached_git_config_c tok \<longleftrightarrow> starts_with tok ''-c'' \<and> 2 < length tok \<and> \<not> starts_with tok ''--''"

definition attached_git_c_path :: "string \<Rightarrow> string option" where
  "attached_git_c_path tok = (case strip_prefix ''-C'' tok of
      Some rest \<Rightarrow> if rest \<noteq> [] \<and> \<not> starts_with tok ''--'' then Some rest else None
    | None \<Rightarrow> None)"

definition git_global_option_takes_value :: "string \<Rightarrow> bool" where
  "git_global_option_takes_value tok \<longleftrightarrow>
     tok \<in> {''-C'', ''-c'', ''--git-dir'', ''--work-tree'', ''--namespace'', ''--super-prefix'',
       ''--exec-path'', ''--list-cmds'', ''--attr-source'', ''--config-env''}
     \<or> is_accepted_long_option_prefix tok ''--config-env'' 4
     \<or> is_accepted_long_option_prefix tok ''--git-dir'' 4
     \<or> is_accepted_long_option_prefix tok ''--work-tree'' 4
     \<or> is_accepted_long_option_prefix tok ''--namespace'' 7
     \<or> is_accepted_long_option_prefix tok ''--super-prefix'' 8
     \<or> is_accepted_long_option_prefix tok ''--exec-path'' 7
     \<or> is_accepted_long_option_prefix tok ''--list-cmds'' 7
     \<or> is_accepted_long_option_prefix tok ''--attr-source'' 8"

text \<open>Whether the option at hand also consumes the word after it.\<close>

definition takes_next :: "string \<Rightarrow> string \<Rightarrow> bool" where
  "takes_next tok n \<longleftrightarrow> CHR ''='' \<notin> set tok \<and> git_global_option_takes_value tok
     \<and> (\<not> starts_with n ''-'' \<or> n = ''-'')"

definition risky_global :: "string \<Rightarrow> bool" where
  "risky_global tok \<longleftrightarrow> tok = ''-c'' \<or> is_attached_git_config_c tok \<or> is_git_config_env_flag tok
     \<or> is_git_repo_retarget_flag tok"

fun exec_risk_globals :: "string list \<Rightarrow> bool" where
  "exec_risk_globals [] = False"
| "exec_risk_globals (tok # rest) =
     (if tok = ''--'' then False
      else if \<not> starts_with tok ''-'' \<or> tok = ''-'' then False
      else if risky_global tok then True
      else if attached_git_c_path tok \<noteq> None then exec_risk_globals rest
      else (case rest of
          n # rest' \<Rightarrow> if takes_next tok n then exec_risk_globals rest' else exec_risk_globals rest
        | [] \<Rightarrow> False))"

definition git_has_exec_risk_global :: "string list \<Rightarrow> bool" where
  "git_has_exec_risk_global words = exec_risk_globals (tl words)"

definition segment_has_exec_risk_flag :: "string list \<Rightarrow> bool" where
  "segment_has_exec_risk_flag words =
     (if is_sort_program words then sort_has_compress_program_flag words
      else if is_git_program words then git_has_exec_risk_global words
      else False)"

record SegmentExecFacts =
  exec_risk :: bool
  has_git :: bool

definition segment_exec_facts :: "string list \<Rightarrow> SegmentExecFacts" where
  "segment_exec_facts words = (case normalize_for_exec_risk words of
      Argv_FailClosed \<Rightarrow> \<lparr>exec_risk = True, has_git = False\<rparr>
    | Argv_Ready inner \<Rightarrow>
        \<lparr>exec_risk = segment_has_exec_risk_flag inner, has_git = is_git_program inner\<rparr>)"

section \<open>Read-only git queries\<close>

definition SAFE_GIT_SUBCOMMANDS :: "string list" where
  "SAFE_GIT_SUBCOMMANDS = [''status'', ''branch'', ''log'', ''diff'', ''ls-files'', ''show'',
     ''rev-parse'', ''blame'', ''grep'', ''describe'', ''merge-base'', ''check-ignore'',
     ''check-attr'', ''cat-file'', ''ls-tree'', ''show-ref'', ''for-each-ref'', ''rev-list'',
     ''name-rev'', ''count-objects'', ''shortlog'']"

definition GIT_QUERY_UNSAFE_OPTIONS :: "string list" where
  "GIT_QUERY_UNSAFE_OPTIONS =
     [''--filters'', ''--textconv'', ''--output'', ''--ext-diff'', ''--open-files-in-pager'']"

definition git_query_option_is_unsafe :: "string \<Rightarrow> bool" where
  "git_query_option_is_unsafe word =
     (let flag = before_eq word
      in 2 < length flag \<and> list_ex (\<lambda>full. starts_with full flag) GIT_QUERY_UNSAFE_OPTIONS)"

fun safe_query_verb :: "string list \<Rightarrow> nat \<Rightarrow> nat option" where
  "safe_query_verb [] i = None"
| "safe_query_verb (tok # rest) i =
     (if tok = ''-'' \<or> tok = ''--'' then None
      else if \<not> starts_with tok ''-'' then Some i
      else if tok = ''-C'' then (case rest of [] \<Rightarrow> None | _ # rest' \<Rightarrow> safe_query_verb rest' (i + 2))
      else if attached_git_c_path tok \<noteq> None \<or> tok = ''--no-pager'' \<or> tok = ''-P''
        then safe_query_verb rest (i + 1)
      else None)"

definition git_safe_query_verb_index :: "string list \<Rightarrow> nat option" where
  "git_safe_query_verb_index words = safe_query_verb (tl words) 1"

definition first_is :: "string \<Rightarrow> string list \<Rightarrow> bool" where
  "first_is name words = (case words of [] \<Rightarrow> False | w # _ \<Rightarrow> w = name)"

definition git_words_have_unsafe_query_option :: "string list \<Rightarrow> bool" where
  "git_words_have_unsafe_query_option words =
     (if \<not> first_is ''git'' words then False
      else if list_ex git_query_option_is_unsafe (tl words) then True
      else (case git_safe_query_verb_index words of
          Some i \<Rightarrow> words ! i = ''grep'' \<and> list_ex (\<lambda>w. starts_with w ''-O'') (tl words)
        | None \<Rightarrow> False))"

definition git_words_are_read_only_query :: "string list \<Rightarrow> bool" where
  "git_words_are_read_only_query words =
     (if \<not> first_is ''git'' words then False
      else if git_has_exec_risk_global words then False
      else case git_safe_query_verb_index words of
        None \<Rightarrow> False
      | Some verb_idx \<Rightarrow>
          if words ! verb_idx \<notin> set SAFE_GIT_SUBCOMMANDS then False
          else \<not> git_words_have_unsafe_query_option words)"

definition local_git_config_entry_is_exec :: "(string \<Rightarrow> bool option) \<Rightarrow> string \<Rightarrow> string \<Rightarrow> bool" where
  "local_git_config_entry_is_exec parse_bool name0 value0 =
     (let name = to_ascii_lowercase name0; val = trim value0
      in if val = [] then False
         else if name = ''core.fsmonitor'' then parse_bool val = None
         else if name = ''diff.external'' then True
         else if (case strip_prefix ''diff.'' name of
             Some rest \<Rightarrow> ends_with rest ''.command'' \<or> ends_with rest ''.textconv''
               \<or> ends_with rest ''.external''
           | None \<Rightarrow> False) then True
         else (case strip_prefix ''alias.'' name of
             Some alias \<Rightarrow> alias \<in> set SAFE_GIT_SUBCOMMANDS \<and> starts_with val ''!''
           | None \<Rightarrow> False))"

section \<open>The directories git would read\<close>

definition is_static_path_operand :: "string \<Rightarrow> bool" where
  "is_static_path_operand p \<longleftrightarrow> p \<noteq> [] \<and> p \<noteq> ''-'' \<and> \<not> starts_with p ''-''
     \<and> CHR ''$'' \<notin> set p \<and> CHR 0x60 \<notin> set p \<and> \<not> contains p ''$(''"

definition join_cwd :: "string \<Rightarrow> string \<Rightarrow> string" where
  "join_cwd base operand = (if is_absolute operand then operand else path_push base operand)"

text \<open>The operand of \<open>cd\<close> or \<open>pushd\<close>: \<open>None\<close> for an option or a second operand; after \<open>--\<close> the
  next word is the operand and the rest is not looked at.\<close>

fun chdir_target :: "string list \<Rightarrow> string option \<Rightarrow> string option" where
  "chdir_target [] target = target"
| "chdir_target (tok # rest) target =
     (if tok = ''--'' then (case rest of [] \<Rightarrow> None | t # _ \<Rightarrow> Some t)
      else if starts_with tok ''-'' then None
      else if target \<noteq> None then None
      else chdir_target rest (Some tok))"

definition apply_literal_chdir :: "string \<Rightarrow> string list \<Rightarrow> string option" where
  "apply_literal_chdir cwd words = (case chdir_target (tl words) None of
      None \<Rightarrow> None
    | Some target \<Rightarrow> if is_static_path_operand target then Some (join_cwd cwd target) else None)"

fun effective_cwd :: "string list \<Rightarrow> string \<Rightarrow> string option" where
  "effective_cwd [] cwd = Some cwd"
| "effective_cwd (tok # rest) cwd =
     (if tok = ''--'' \<or> \<not> starts_with tok ''-'' \<or> tok = ''-'' then Some cwd
      else if is_git_repo_retarget_flag tok then None
      else if tok = ''-C'' then
        (case rest of
           [] \<Rightarrow> None
         | path # rest' \<Rightarrow>
             if is_static_path_operand path then effective_cwd rest' (join_cwd cwd path) else None)
      else (case attached_git_c_path tok of
          Some path \<Rightarrow> if is_static_path_operand path then effective_cwd rest (join_cwd cwd path) else None
        | None \<Rightarrow> (case rest of
              n # rest' \<Rightarrow> if takes_next tok n then effective_cwd rest' cwd else effective_cwd rest cwd
            | [] \<Rightarrow> Some cwd)))"

definition git_effective_cwd :: "string list \<Rightarrow> string \<Rightarrow> string option" where
  "git_effective_cwd words start_cwd = effective_cwd (tl words) start_cwd"

datatype AmbientScanPlan = FailClosed | CheckDirs "string list"

text \<open>What one segment does to the plan: \<open>None\<close> fails closed.\<close>

definition plan_segment :: "string list \<Rightarrow> string \<times> string list \<Rightarrow> (string \<times> string list) option" where
  "plan_segment raw st = (case normalize_for_exec_risk raw of
      Argv_FailClosed \<Rightarrow> None
    | Argv_Ready words \<Rightarrow>
        (let name = normalized_program_name words
         in if name = Some ''cd'' \<or> name = Some ''pushd'' then
              map_option (\<lambda>next. (next, snd st)) (apply_literal_chdir (fst st) words)
            else if name = Some ''popd'' then None
            else if name = Some ''git'' then
              map_option (\<lambda>effective. (fst st, snd st @ [effective])) (git_effective_cwd words (fst st))
            else Some st))"

fun plan_segments :: "string list list \<Rightarrow> string \<times> string list \<Rightarrow> (string \<times> string list) option" where
  "plan_segments [] st = Some st"
| "plan_segments (raw # rest) st = (case plan_segment raw st of
      None \<Rightarrow> None | Some st' \<Rightarrow> plan_segments rest st')"

definition ambient_scan_plan_from_segments :: "string list list \<Rightarrow> string \<Rightarrow> AmbientScanPlan" where
  "ambient_scan_plan_from_segments raw_segments session_cwd =
     (case plan_segments raw_segments (session_cwd, []) of
        None \<Rightarrow> FailClosed
      | Some (_, git_cwds) \<Rightarrow> if git_cwds = [] then FailClosed else CheckDirs git_cwds)"

definition ambient_exec_risk_from_plan :: "(string \<Rightarrow> bool) \<Rightarrow> AmbientScanPlan \<Rightarrow> bool" where
  "ambient_exec_risk_from_plan local_repo_config_has_exec_risk plan = (case plan of
      FailClosed \<Rightarrow> True
    | CheckDirs dirs \<Rightarrow> list_ex local_repo_config_has_exec_risk dirs)"

text \<open>The token probe for scripts that cannot be parsed.\<close>

definition probe_separator :: "char \<Rightarrow> bool" where
  "probe_separator c \<longleftrightarrow> ascii_ws c
     \<or> c \<in> {CHR ''|'', CHR ''&'', CHR '';'', CHR ''('', CHR '')'', CHR 0x60, CHR 0x0A, CHR ''<'', CHR ''>''}"

definition cons_token :: "char \<Rightarrow> string list \<Rightarrow> string list" where
  "cons_token a ts = (case ts of [] \<Rightarrow> [[a]] | t # ts' \<Rightarrow> (a # t) # ts')"

fun probe_tokens :: "string \<Rightarrow> string list" where
  "probe_tokens [] = [[]]"
| "probe_tokens (a # s) =
     (if probe_separator a then [] # probe_tokens s
      else case s of
        b # s' \<Rightarrow> if ws2 a b then [] # probe_tokens s'
          else (case s' of
              c # s'' \<Rightarrow> if ws3 a b c then [] # probe_tokens s'' else cons_token a (probe_tokens s)
            | [] \<Rightarrow> cons_token a (probe_tokens s))
      | [] \<Rightarrow> cons_token a (probe_tokens s))"

definition quote_char :: "char \<Rightarrow> bool" where
  "quote_char c \<longleftrightarrow> c \<in> {CHR 0x27, CHR 0x22, CHR 0x60}"

definition trim_quotes :: "string \<Rightarrow> string" where
  "trim_quotes t = rev (dropWhile quote_char (rev (dropWhile quote_char t)))"

definition script_may_invoke_git :: "string \<Rightarrow> bool" where
  "script_may_invoke_git cmd = list_ex (\<lambda>token. trim_quotes token \<noteq> []
     \<and> normalized_token_basename (trim_quotes token) = ''git'') (probe_tokens cmd)"

end
