(* ===== verification/Perm_Safe.thy ===== *)
theory Perm_Safe
  imports Perm_Exec
begin

text \<open>
  Which shell commands the permission manager knows: those it allows unasked, those it never
  allows by a prefix, and how many words of a command a remembered answer covers
  (\<open>permission/manager/mod.rs\<close>), and the risk of the environment variables a command sets
  (\<open>permission/auto_mode/mod.rs\<close>).
\<close>

section \<open>Commands whose options decide\<close>

definition rg_has_pre_flag :: "string list \<Rightarrow> bool" where
  "rg_has_pre_flag words =
     (if \<not> first_is ''rg'' words then False
      else list_ex (\<lambda>w. w = ''--pre'' \<or> starts_with w ''--pre='') words)"

definition KUBECTL_UNSAFE_FLAGS :: "string list" where
  "KUBECTL_UNSAFE_FLAGS = [''--kubeconfig'', ''--context'', ''--cluster'', ''--server'', ''-s'',
     ''--token'', ''--user'', ''--as'', ''--as-group'', ''--as-uid'', ''--as-user-extra'',
     ''--username'', ''--password'', ''--client-certificate'', ''--client-key'',
     ''--certificate-authority'']"

definition kubectl_has_unsafe_flag :: "string list \<Rightarrow> bool" where
  "kubectl_has_unsafe_flag words =
     (if \<not> first_is ''kubectl'' words then False
      else list_ex (\<lambda>w. before_eq w \<in> set KUBECTL_UNSAFE_FLAGS) (tl words))"

definition PS_VALUE_FLAGS :: "string list" where
  "PS_VALUE_FLAGS = [''-o'', ''-O'', ''--format'', ''--sort'', ''-p'', ''-q'', ''-t'', ''-u'', ''-U'',
     ''-g'', ''-G'', ''-C'', ''-s'', ''--pid'', ''--ppid'', ''--sid'', ''--tty'', ''--user'', ''--group'',
     ''--cols'', ''--columns'', ''--width'', ''o'', ''O'']"

text \<open>What one word of \<open>ps\<close> does: nothing, swallow the next word, or show environments.\<close>

datatype ps_word = Ps_Continue | Ps_Skip_Next | Ps_Dumps

definition ps_word :: "string \<Rightarrow> ps_word" where
  "ps_word s =
     (let dash = starts_with s ''-''; ddash = starts_with s ''--'';
          bsd = (dash \<and> \<not> ddash \<and> (CHR ''a'' \<in> set s \<or> CHR ''x'' \<in> set s))
      in if starts_with s ''--format='' \<or> starts_with s ''--sort='' then Ps_Continue
         else if s \<in> set PS_VALUE_FLAGS then Ps_Skip_Next
         else if starts_with s ''-o'' \<or> starts_with s ''-O'' then Ps_Continue
         else if CHR ''E'' \<in> set s \<or> CHR ''e'' \<in> set s \<and> (\<not> dash \<or> bsd) then Ps_Dumps
         else if dash \<and> \<not> ddash \<and> (ends_with s ''o'' \<or> ends_with s ''O'') then Ps_Skip_Next
         else Ps_Continue)"

fun ps_words :: "bool \<Rightarrow> string list \<Rightarrow> bool" where
  "ps_words skip_next [] = False"
| "ps_words skip_next (w # ws) =
     (if skip_next then ps_words False ws
      else case ps_word w of
        Ps_Continue \<Rightarrow> ps_words False ws
      | Ps_Skip_Next \<Rightarrow> ps_words True ws
      | Ps_Dumps \<Rightarrow> True)"

definition ps_dumps_environment :: "string list \<Rightarrow> bool" where
  "ps_dumps_environment words = (if \<not> first_is ''ps'' words then False else ps_words False (tl words))"

section \<open>Safe and dangerous commands\<close>

definition is_safe_git_query_prefix :: "string \<Rightarrow> bool" where
  "is_safe_git_query_prefix cmd = (case strip_prefix ''git '' cmd of
      Some rest \<Rightarrow> list_ex (matches_command_prefix rest) SAFE_GIT_SUBCOMMANDS
    | None \<Rightarrow> False)"

definition SAFE_PREFIXES :: "string list" where
  "SAFE_PREFIXES = [''ls'', ''cat'', ''pwd'', ''date'', ''whoami'', ''hostname'', ''uptime'', ''grep'',
     ''rg'', ''kubectl get'', ''kubectl logs'', ''kubectl describe'', ''ps'', ''bin/explorer ls'',
     ''head'', ''tail'', ''wc'', ''sort'', ''uniq'', ''tr'', ''cut'']"

definition is_safe_command_words_str :: "string \<Rightarrow> bool" where
  "is_safe_command_words_str cmd \<longleftrightarrow>
     list_ex (matches_command_prefix cmd) SAFE_PREFIXES \<or> is_safe_git_query_prefix cmd"

definition safe_by :: "(string \<Rightarrow> bool) \<Rightarrow> string list \<Rightarrow> bool" where
  "safe_by listed words =
     (if words = [] then False
      else if rg_has_pre_flag words then False
      else if kubectl_has_unsafe_flag words then False
      else if ps_dumps_environment words then False
      else if first_is ''git'' words then git_words_are_read_only_query words
      else listed (join_words words))"

definition is_safe_command_words :: "string list \<Rightarrow> bool" where
  "is_safe_command_words words = safe_by is_safe_command_words_str words"

definition ALWAYS_SAFE_COMMANDS :: "string list" where
  "ALWAYS_SAFE_COMMANDS = [''ls'', ''cat'', ''pwd'', ''date'', ''whoami'', ''hostname'', ''uptime'',
     ''ps'', ''grep'', ''rg'', ''kubectl get'', ''kubectl logs'', ''kubectl describe'', ''bin/explorer ls'']"

definition is_always_safe_command_words :: "string list \<Rightarrow> bool" where
  "is_always_safe_command_words words =
     safe_by (\<lambda>joined. list_ex (matches_command_prefix joined) ALWAYS_SAFE_COMMANDS) words"

definition DANGEROUS_PREFIXES :: "string list" where
  "DANGEROUS_PREFIXES = [''rm'', ''chmod'', ''chown'', ''chgrp'', ''chattr'', ''pkill'', ''kill'',
     ''killall'', ''git push'']"

definition is_dangerous_command_words :: "string list \<Rightarrow> bool" where
  "is_dangerous_command_words words =
     (if words = [] then False
      else list_ex (matches_command_prefix (join_words words)) DANGEROUS_PREFIXES)"

definition matches_whitelist_prefix :: "string \<Rightarrow> string \<Rightarrow> bool" where
  "matches_whitelist_prefix segment allowed_prefix = matches_command_prefix segment allowed_prefix"

definition matches_bash_glob :: "('pat, 'j) policy_env \<Rightarrow> string \<Rightarrow> string \<Rightarrow> bool" where
  "matches_bash_glob E segment pattern = bash_pattern_matches_command E pattern segment"

section \<open>Scopes of a remembered answer\<close>

definition always_allow_scope_pinned :: "string list \<Rightarrow> bool" where
  "always_allow_scope_pinned words \<longleftrightarrow> is_dangerous_command_words words \<or> head_is_exec_vehicle words"

definition base_scope :: "string list \<Rightarrow> nat" where
  "base_scope words =
     (if is_safe_command_words words \<and> is_safe_command_words_str (hd words) then 1
      else if is_safe_command_words words \<and> 2 \<le> length words
        \<and> is_safe_command_words_str (join_words (take 2 words)) then 2
      else (let n = min (length words) 2
            in n + length (takeWhile (\<lambda>w. starts_with w ''-'') (drop n words))))"

definition default_always_allow_scope :: "string list \<Rightarrow> nat" where
  "default_always_allow_scope words =
     (if words = [] then 0
      else if always_allow_scope_pinned words then length words
      else base_scope words)"

definition default_always_deny_scope :: "string list \<Rightarrow> nat" where
  "default_always_deny_scope words = (if words = [] then 0 else base_scope words)"

definition minimum_always_allow_scope :: "string list \<Rightarrow> nat" where
  "minimum_always_allow_scope words = (if always_allow_scope_pinned words then length words else 1)"

section \<open>Environment variables\<close>

datatype EnvRisk = Env_Safe | Env_Unvetted | Env_Injection

definition env_rank :: "EnvRisk \<Rightarrow> nat" where
  "env_rank r = (case r of Env_Safe \<Rightarrow> 0 | Env_Unvetted \<Rightarrow> 1 | Env_Injection \<Rightarrow> 2)"

definition env_max :: "EnvRisk \<Rightarrow> EnvRisk \<Rightarrow> EnvRisk" where
  "env_max a b = (if env_rank b < env_rank a then a else b)"

definition SAFE_ENV_KEYS :: "string list" where
  "SAFE_ENV_KEYS = [''CARGO_TERM_COLOR'', ''CARGO_TERM_PROGRESS_WHEN'', ''RUST_LOG'',
     ''RUST_LOG_STYLE'', ''RUST_BACKTRACE'', ''RUST_TEST_THREADS'', ''RUST_MIN_STACK'', ''NO_COLOR'',
     ''CLICOLOR'', ''CLICOLOR_FORCE'', ''FORCE_COLOR'', ''COLORTERM'']"

definition INJECTION_ENV_KEYS :: "string list" where
  "INJECTION_ENV_KEYS = [''LD_PRELOAD'', ''LD_AUDIT'', ''BASH_ENV'', ''ENV'', ''IFS'', ''PATH'',
     ''GIT_EXTERNAL_DIFF'', ''GIT_PROXY_COMMAND'', ''PROMPT_COMMAND'']"

definition INJECTION_ENV_KEY_PREFIXES :: "string list" where
  "INJECTION_ENV_KEY_PREFIXES = [''DYLD_'', ''GIT_CONFIG'']"

definition env_key_risk :: "string \<Rightarrow> EnvRisk" where
  "env_key_risk key =
     (if key \<in> set SAFE_ENV_KEYS then Env_Safe
      else if key \<in> set INJECTION_ENV_KEYS \<or> list_ex (starts_with key) INJECTION_ENV_KEY_PREFIXES
        then Env_Injection
      else Env_Unvetted)"

definition assignment_key :: "Node \<Rightarrow> string \<Rightarrow> string" where
  "assignment_key n src = (case List.find (\<lambda>c. node_kind c = ''variable_name'') (children n) of
      Some c \<Rightarrow> node_text c src
    | None \<Rightarrow> before_eq (node_text n src))"

text \<open>The words after \<open>env\<close>: \<open>None\<close> for an option, which counts as injection at once.\<close>

fun env_args_risk :: "bool \<Rightarrow> string list \<Rightarrow> EnvRisk \<Rightarrow> EnvRisk option" where
  "env_args_risk options_done [] risk = Some risk"
| "env_args_risk options_done (arg # args) risk =
     (if arg = ''--'' then env_args_risk True args risk
      else if \<not> options_done \<and> starts_with arg ''-'' then None
      else if CHR ''='' \<in> set arg
        then env_args_risk options_done args (env_max risk (env_key_risk (before_eq arg)))
      else Some risk)"

fun command_env_rounds :: "nat \<Rightarrow> string list \<Rightarrow> EnvRisk \<Rightarrow> EnvRisk" where
  "command_env_rounds 0 current risk = risk"
| "command_env_rounds (Suc n) current risk =
     (case (if head_basename current = Some ''env'' then env_args_risk False (tl current) risk
            else Some risk) of
        None \<Rightarrow> Env_Injection
      | Some risk' \<Rightarrow> (case strip_wrapper_command current of
            Some inner \<Rightarrow> command_env_rounds n inner risk'
          | None \<Rightarrow> risk'))"

definition command_env_risk :: "string list \<Rightarrow> EnvRisk" where
  "command_env_risk words = command_env_rounds 8 words Env_Safe"

definition script_env_risk :: "Node \<Rightarrow> string \<Rightarrow> PlainCommand list \<Rightarrow> EnvRisk" where
  "script_env_risk root src cmds =
     (let inline_risk = foldl (\<lambda>risk n. if node_kind n = ''variable_assignment''
            then env_max risk (env_key_risk (assignment_key n src)) else risk) Env_Safe (nodes root)
      in foldl (\<lambda>risk c. env_max risk (command_env_risk (pc_words c))) inline_risk cmds)"

section \<open>Scopes agree\<close>

lemma base_scope_bounds:
  assumes "words \<noteq> []"
  shows "1 \<le> base_scope words \<and> base_scope words \<le> length words"
proof -
  have "length (takeWhile P (drop n words)) \<le> length words - n" for P n
    by (metis length_drop length_takeWhile_le)
  then have "min (length words) 2 + length (takeWhile P (drop (min (length words) 2) words)) \<le> length words" for P
    by (metis le_diff_conv2 min.cobounded1 add.commute)
  then show ?thesis using assms by (cases words) (auto simp: base_scope_def Let_def)
qed

lemma scope_bounds:
  assumes "words \<noteq> []"
  shows "minimum_always_allow_scope words \<le> default_always_allow_scope words"
    and "default_always_allow_scope words \<le> length words"
    and "1 \<le> default_always_deny_scope words"
  using base_scope_bounds [OF assms] assms
  by (auto simp: minimum_always_allow_scope_def default_always_allow_scope_def default_always_deny_scope_def)

section \<open>What a read-only query looks like\<close>

text \<open>The options that may stand before the verb of a safe query.\<close>

inductive benign_globals :: "string list \<Rightarrow> bool" where
  none: "benign_globals []"
| chdir: "benign_globals opts \<Longrightarrow> benign_globals (''-C'' # path # opts)"
| attached: "benign_globals opts \<Longrightarrow> path \<noteq> [] \<Longrightarrow> benign_globals ((''-C'' @ path) # opts)"
| pager: "benign_globals opts \<Longrightarrow> benign_globals (''--no-pager'' # opts)"
| pager_short: "benign_globals opts \<Longrightarrow> benign_globals (''-P'' # opts)"

lemma attached_path: "attached_git_c_path tok = Some path \<Longrightarrow> tok = ''-C'' @ path \<and> path \<noteq> []"
  by (auto simp: attached_git_c_path_def strip_prefix_Some split: option.splits if_splits)

lemma safe_query_verb_shape:
  "safe_query_verb ws i = Some j \<Longrightarrow> \<exists>opts verb args. ws = opts @ verb # args \<and> j = i + length opts
     \<and> benign_globals opts \<and> \<not> starts_with verb ''-''"
proof (induction ws i rule: safe_query_verb.induct)
  case (2 tok rest i)
  consider "\<not> starts_with tok ''-''" "j = i"
    | p rest' where "tok = ''-C''" "rest = p # rest'" "safe_query_verb rest' (i + 2) = Some j"
    | "tok \<noteq> ''-C''" "attached_git_c_path tok \<noteq> None \<or> tok = ''--no-pager'' \<or> tok = ''-P''"
        "tok \<noteq> ''-''" "tok \<noteq> ''--''" "starts_with tok ''-''" "safe_query_verb rest (i + 1) = Some j"
    using "2.prems" by (auto split: if_splits list.splits)
  then show ?case
  proof cases
    case 1
    then show ?thesis using benign_globals.none by fastforce
  next
    case (2 p rest')
    then obtain opts verb args where "rest' = opts @ verb # args" "j = (i + 2) + length opts"
        "benign_globals opts" "\<not> starts_with verb ''-''"
      using "2.IH"(1) [of p rest'] by (auto simp: starts_with_def)
    then show ?thesis
      using 2 benign_globals.chdir [of opts p] by (intro exI [of _ "''-C'' # p # opts"]) auto
  next
    case 3
    then obtain opts verb args where ih: "rest = opts @ verb # args" "j = (i + 1) + length opts"
        "benign_globals opts" "\<not> starts_with verb ''-''"
      using "2.IH"(2) by auto
    have "benign_globals (tok # opts)"
      using 3(2) ih(3) attached_path benign_globals.intros by (metis option.exhaust)
    then show ?thesis using ih by (intro exI [of _ "tok # opts"]) auto
  qed
qed simp

end
