(* ===== verification/Perm_State.thy ===== *)
theory Perm_State
  imports Perm_Policy
begin

text \<open>
  The remembered answers of a project (\<open>permission/state.rs\<close>): the grants and denials a user
  gave, how they are stored, merged with what other sessions stored, migrated and reset. A
  \<open>HashSet\<close> is the list of its elements in iteration order; nothing below depends on that
  order but the wording of a reason. The TOML reader and printer and the file system are
  parameters, with an unspecified type of file contents: the disk is a map from paths to what reading them gives, and a write may fail.
\<close>

section \<open>Sets and the state\<close>

definition hs_insert :: "'a \<Rightarrow> 'a list \<Rightarrow> 'a list" where
  "hs_insert x xs = (if x \<in> set xs then xs else xs @ [x])"

definition hs_extend :: "'a list \<Rightarrow> 'a list \<Rightarrow> 'a list" where
  "hs_extend xs ys = foldl (\<lambda>acc y. hs_insert y acc) xs ys"

lemma set_hs_insert [simp]: "set (hs_insert x xs) = insert x (set xs)"
  by (auto simp: hs_insert_def)

lemma set_hs_extend [simp]: "set (hs_extend xs ys) = set xs \<union> set ys"
  unfolding hs_extend_def by (induction ys arbitrary: xs) auto

datatype EditPolicy = Edit_Ask | Edit_Reject | Edit_Allow

type_synonym i64 = "64 word"

definition VALIDATED_MCP_SERVER_GRANTS_VERSION :: i64 where
  "VALIDATED_MCP_SERVER_GRANTS_VERSION = 1"

record PermissionState =
  edit_policy :: EditPolicy
  allow_bash_execute :: bool
  allowed_bash_commands :: "string list"
  disallowed_bash_commands :: "string list"
  allowed_bash_globs :: "string list"
  allowed_web_fetch_domains :: "string list"
  allowed_mcp_tools :: "string list"
  allowed_mcp_servers :: "string list"
  disallowed_mcp_tools :: "string list"
  disallowed_web_fetch_domains :: "string list"
  validated_mcp_server_grants_version :: i64

definition default_state :: PermissionState where
  "default_state = \<lparr>edit_policy = Edit_Ask, allow_bash_execute = False, allowed_bash_commands = [],
     disallowed_bash_commands = [], allowed_bash_globs = [], allowed_web_fetch_domains = [],
     allowed_mcp_tools = [], allowed_mcp_servers = [], disallowed_mcp_tools = [],
     disallowed_web_fetch_domains = [],
     validated_mcp_server_grants_version = VALIDATED_MCP_SERVER_GRANTS_VERSION\<rparr>"

text \<open>The marker of a file, as TOML has it: a signed integer or a value of another type.\<close>

datatype toml_value = Toml_Integer i64 | Toml_Other

definition legacy_mcp_server_grants_version :: i64 where
  "legacy_mcp_server_grants_version = 0"

definition deserialize_mcp_server_grants_version :: "toml_value \<Rightarrow> i64" where
  "deserialize_mcp_server_grants_version value = (case value of
      Toml_Integer version \<Rightarrow> if 0 \<le> sint version then version else 0
    | Toml_Other \<Rightarrow> 0)"

definition merge_grants_from :: "PermissionState \<Rightarrow> PermissionState \<Rightarrow> PermissionState" where
  "merge_grants_from self other = self\<lparr>
     allow_bash_execute := allow_bash_execute self \<or> allow_bash_execute other,
     allowed_bash_commands := hs_extend (allowed_bash_commands self) (allowed_bash_commands other),
     disallowed_bash_commands := hs_extend (disallowed_bash_commands self) (disallowed_bash_commands other),
     allowed_bash_globs := hs_extend (allowed_bash_globs self) (allowed_bash_globs other),
     allowed_web_fetch_domains := hs_extend (allowed_web_fetch_domains self) (allowed_web_fetch_domains other),
     allowed_mcp_tools := hs_extend (allowed_mcp_tools self) (allowed_mcp_tools other),
     allowed_mcp_servers := hs_extend (allowed_mcp_servers self) (allowed_mcp_servers other),
     disallowed_mcp_tools := hs_extend (disallowed_mcp_tools self) (disallowed_mcp_tools other),
     disallowed_web_fetch_domains :=
       hs_extend (disallowed_web_fetch_domains self) (disallowed_web_fetch_domains other)\<rparr>"

section \<open>The store\<close>

datatype 'f read_result = Read_Ok 'f | Read_NotFound | Read_Error

type_synonym 'f disk = "string \<Rightarrow> 'f read_result"

text \<open>Reading TOML gives the fields of the state, and beside them the marker as the file has it,
  if it has one.\<close>

record 'f store_env =
  toml_parse :: "'f \<Rightarrow> (PermissionState \<times> toml_value option) option"
  toml_print :: "PermissionState \<Rightarrow> 'f option"
  write_fails :: "string \<Rightarrow> bool"

text \<open>One sanitised character for each character, not for each byte.\<close>

definition continuation_byte :: "char \<Rightarrow> bool" where
  "continuation_byte c = (let b = of_char c :: nat in 128 \<le> b \<and> b < 192)"

definition sanitize_client_id :: "string \<Rightarrow> string" where
  "sanitize_client_id ident = map (\<lambda>c. if is_ascii_alphanumeric c \<or> c = CHR ''-'' \<or> c = CHR ''_'' then c else CHR ''_'')
     (filter (\<lambda>c. \<not> continuation_byte c) ident)"

definition state_file_path :: "string \<Rightarrow> string option \<Rightarrow> string" where
  "state_file_path dir client = (case client of
      Some ident \<Rightarrow> path_push dir (''permission_'' @ sanitize_client_id ident @ ''.toml'')
    | None \<Rightarrow> path_push dir ''permission.toml'')"

definition persist_state_to_path :: "'f store_env \<Rightarrow> string \<Rightarrow> PermissionState \<Rightarrow> 'f disk \<Rightarrow> 'f disk" where
  "persist_state_to_path S path st d = (case toml_print S st of
      None \<Rightarrow> d
    | Some contents \<Rightarrow> if write_fails S path then d else d(path := Read_Ok contents))"

definition migrate_grants :: "PermissionState \<Rightarrow> PermissionState" where
  "migrate_grants st = st\<lparr>allowed_mcp_servers := [],
     validated_mcp_server_grants_version := VALIDATED_MCP_SERVER_GRANTS_VERSION\<rparr>"

definition state_from_toml :: "'f store_env \<Rightarrow> 'f \<Rightarrow> PermissionState option" where
  "state_from_toml S s = map_option (\<lambda>(st, marker). st\<lparr>validated_mcp_server_grants_version :=
     (case marker of
        Some value \<Rightarrow> deserialize_mcp_server_grants_version value
      | None \<Rightarrow> legacy_mcp_server_grants_version)\<rparr>) (toml_parse S s)"

definition try_load_state :: "'f store_env \<Rightarrow> string \<Rightarrow> 'f disk \<Rightarrow> PermissionState option \<times> 'f disk" where
  "try_load_state S path d = (case d path of
      Read_Ok s \<Rightarrow>
        (let st = (case state_from_toml S s of Some st \<Rightarrow> st | None \<Rightarrow> default_state)
         in if sint (validated_mcp_server_grants_version st) < sint VALIDATED_MCP_SERVER_GRANTS_VERSION
            then (Some (migrate_grants st), persist_state_to_path S path (migrate_grants st) d)
            else (Some st, d))
    | _ \<Rightarrow> (None, d))"

definition load_state_from_dir :: "'f store_env \<Rightarrow> string \<Rightarrow> string option \<Rightarrow> 'f disk \<Rightarrow> PermissionState \<times> 'f disk" where
  "load_state_from_dir S dir client d =
     (let shared = (\<lambda>d. case try_load_state S (state_file_path dir None) d of
          (Some st, d') \<Rightarrow> (st, d') | (None, d') \<Rightarrow> (default_state, d'))
      in case client of
        None \<Rightarrow> shared d
      | Some ident \<Rightarrow> (case try_load_state S (state_file_path dir (Some ident)) d of
            (Some st, d') \<Rightarrow> (st, d') | (None, d') \<Rightarrow> shared d'))"

text \<open>\<open>try_exists\<close> gives \<open>Ok(false)\<close> only for a file that is known to be missing.\<close>

definition state_dir_has_store :: "string \<Rightarrow> string option \<Rightarrow> 'f disk \<Rightarrow> bool" where
  "state_dir_has_store dir client d \<longleftrightarrow>
     (case client of Some ident \<Rightarrow> d (state_file_path dir (Some ident)) \<noteq> Read_NotFound | None \<Rightarrow> False)
     \<or> d (state_file_path dir None) \<noteq> Read_NotFound"

definition load_state_with_fallback ::
  "'f store_env \<Rightarrow> string \<Rightarrow> string option \<Rightarrow> string option \<Rightarrow> 'f disk \<Rightarrow> PermissionState \<times> 'f disk" where
  "load_state_with_fallback S dir legacy_dir client d = (case legacy_dir of
      Some legacy \<Rightarrow>
        if \<not> state_dir_has_store dir client d then load_state_from_dir S legacy client d
        else load_state_from_dir S dir client d
    | None \<Rightarrow> load_state_from_dir S dir client d)"

definition persist_state :: "'f store_env \<Rightarrow> string \<Rightarrow> string option \<Rightarrow> PermissionState \<Rightarrow> 'f disk \<Rightarrow> 'f disk" where
  "persist_state S dir client st d = (case try_load_state S (state_file_path dir client) d of
      (Some on_disk, d') \<Rightarrow>
        persist_state_to_path S (state_file_path dir client) (merge_grants_from st on_disk) d'
    | (None, d') \<Rightarrow> persist_state_to_path S (state_file_path dir client) st d')"

definition replace_state_on_disk ::
  "'f store_env \<Rightarrow> string \<Rightarrow> string option \<Rightarrow> PermissionState \<Rightarrow> 'f disk \<Rightarrow> 'f disk" where
  "replace_state_on_disk S dir client st d = persist_state_to_path S (state_file_path dir client) st d"

section \<open>What a merge keeps\<close>

text \<open>All answers that refuse, and all that grant.\<close>

definition denials :: "PermissionState \<Rightarrow> string set \<times> string set \<times> string set" where
  "denials st = (set (disallowed_bash_commands st), set (disallowed_mcp_tools st),
     set (disallowed_web_fetch_domains st))"

definition answers_le :: "PermissionState \<Rightarrow> PermissionState \<Rightarrow> bool" where
  "answers_le a b \<longleftrightarrow> (allow_bash_execute a \<longrightarrow> allow_bash_execute b)
     \<and> set (allowed_bash_commands a) \<subseteq> set (allowed_bash_commands b)
     \<and> set (disallowed_bash_commands a) \<subseteq> set (disallowed_bash_commands b)
     \<and> set (allowed_bash_globs a) \<subseteq> set (allowed_bash_globs b)
     \<and> set (allowed_web_fetch_domains a) \<subseteq> set (allowed_web_fetch_domains b)
     \<and> set (allowed_mcp_tools a) \<subseteq> set (allowed_mcp_tools b)
     \<and> set (allowed_mcp_servers a) \<subseteq> set (allowed_mcp_servers b)
     \<and> set (disallowed_mcp_tools a) \<subseteq> set (disallowed_mcp_tools b)
     \<and> set (disallowed_web_fetch_domains a) \<subseteq> set (disallowed_web_fetch_domains b)"

lemma answers_le_refl [simp]: "answers_le a a"
  by (simp add: answers_le_def)

lemma answers_le_trans [trans]: "answers_le a b \<Longrightarrow> answers_le b c \<Longrightarrow> answers_le a c"
  unfolding answers_le_def by (meson subset_trans)

lemma merge_upper: "answers_le a (merge_grants_from a b)" "answers_le b (merge_grants_from a b)"
  by (auto simp: answers_le_def merge_grants_from_def)

lemma merge_least: "answers_le a c \<Longrightarrow> answers_le b c \<Longrightarrow> answers_le (merge_grants_from a b) c"
  by (auto simp: answers_le_def merge_grants_from_def)

text \<open>What the documentation of the TOML crate promises: what is printed reads back, sets as
  sets, and the marker as the integer it was. What the state then takes from the marker is the
  deserializer of this crate.\<close>

definition toml_faithful :: "'f store_env \<Rightarrow> bool" where
  "toml_faithful S \<longleftrightarrow> (\<forall>st. \<exists>s st'. toml_print S st = Some s \<and> answers_le st st' \<and> answers_le st' st
     \<and> toml_parse S s = Some (st', Some (Toml_Integer (validated_mcp_server_grants_version st))))"

lemma answers_le_version [simp]:
  "answers_le (a\<lparr>validated_mcp_server_grants_version := v\<rparr>) b = answers_le a b"
  "answers_le a (b\<lparr>validated_mcp_server_grants_version := v\<rparr>) = answers_le a b"
  by (simp_all add: answers_le_def)

text \<open>A marker below zero reads back as zero, any other as it was printed.\<close>

lemma faithful_reads_back:
  assumes "toml_faithful S"
  shows "\<exists>s st'. toml_print S st = Some s \<and> state_from_toml S s = Some st'
    \<and> answers_le st st' \<and> answers_le st' st
    \<and> sint (validated_mcp_server_grants_version st') = max 0 (sint (validated_mcp_server_grants_version st))"
  using assms unfolding toml_faithful_def state_from_toml_def
  by (fastforce simp: deserialize_mcp_server_grants_version_def dest: spec [of _ st])

text \<open>The answers a path holds; a file of an old version holds them after its migration.\<close>

definition stored :: "'f store_env \<Rightarrow> string \<Rightarrow> 'f disk \<Rightarrow> PermissionState option" where
  "stored S path d = fst (try_load_state S path d)"

definition current_version :: "PermissionState \<Rightarrow> bool" where
  "current_version st \<longleftrightarrow>
     sint VALIDATED_MCP_SERVER_GRANTS_VERSION \<le> sint (validated_mcp_server_grants_version st)"

lemma current_version_merge [simp]: "current_version (merge_grants_from a b) = current_version a"
  by (simp add: current_version_def merge_grants_from_def)

lemma stored_persist_to_path:
  assumes "toml_faithful S" and "\<not> write_fails S path" and "current_version st"
  shows "\<exists>st'. stored S path (persist_state_to_path S path st d) = Some st'
    \<and> answers_le st st' \<and> answers_le st' st"
proof -
  from faithful_reads_back [OF assms(1)] obtain s st'
    where s: "toml_print S st = Some s" "state_from_toml S s = Some st'"
      "answers_le st st'" "answers_le st' st"
      "sint (validated_mcp_server_grants_version st') = max 0 (sint (validated_mcp_server_grants_version st))"
    by blast
  then have "\<not> sint (validated_mcp_server_grants_version st') < sint VALIDATED_MCP_SERVER_GRANTS_VERSION"
    using assms(3) by (simp add: current_version_def)
  then show ?thesis
    using s(1-4) assms(2) by (simp add: stored_def persist_state_to_path_def try_load_state_def Let_def)
qed

text \<open>After a persist the file holds exactly the union of what it held and what was persisted.\<close>

lemma stored_persist:
  assumes "toml_faithful S" and "\<not> write_fails S (state_file_path dir client)" and "current_version st"
  shows "\<exists>st'. stored S (state_file_path dir client) (persist_state S dir client st d) = Some st'
    \<and> answers_le st st'
    \<and> (\<forall>old. stored S (state_file_path dir client) d = Some old \<longrightarrow> answers_le old st')
    \<and> (\<forall>c. answers_le st c \<longrightarrow>
         (\<forall>old. stored S (state_file_path dir client) d = Some old \<longrightarrow> answers_le old c) \<longrightarrow>
         answers_le st' c)"
proof (cases "try_load_state S (state_file_path dir client) d")
  case (Pair loaded d')
  let ?new = "case loaded of Some old \<Rightarrow> merge_grants_from st old | None \<Rightarrow> st"
  have "current_version ?new" using assms(3) by (simp split: option.split)
  from stored_persist_to_path [OF assms(1,2) this, of d'] obtain st'
    where st': "stored S (state_file_path dir client) (persist_state S dir client st d) = Some st'"
      "answers_le ?new st'" "answers_le st' ?new"
    using Pair by (auto simp: persist_state_def split: option.splits)
  have loaded: "stored S (state_file_path dir client) d = loaded" using Pair by (simp add: stored_def)
  have "answers_le st ?new" "\<And>old. loaded = Some old \<Longrightarrow> answers_le old ?new"
    by (auto simp: merge_upper split: option.split)
  moreover have "answers_le ?new c"
    if "answers_le st c" "\<And>old. loaded = Some old \<Longrightarrow> answers_le old c" for c
    using that by (auto intro: merge_least split: option.split)
  ultimately show ?thesis
    using st' answers_le_trans unfolding loaded by (intro exI [of _ st']) blast
qed

text \<open>Any number of sessions of a project, persisting in any order.\<close>

definition persist_each ::
  "'f store_env \<Rightarrow> string \<Rightarrow> string option \<Rightarrow> PermissionState list \<Rightarrow> 'f disk \<Rightarrow> 'f disk" where
  "persist_each S dir client sts d = foldl (\<lambda>d st. persist_state S dir client st d) d sts"

lemma stored_persist_each:
  assumes "toml_faithful S" and "\<not> write_fails S (state_file_path dir client)"
    and "\<forall>st \<in> set sts. current_version st"
    and "stored S (state_file_path dir client) d = Some old"
  shows "\<exists>final. stored S (state_file_path dir client) (persist_each S dir client sts d) = Some final
    \<and> answers_le old final \<and> (\<forall>st \<in> set sts. answers_le st final)"
  using assms(3,4)
proof (induction sts arbitrary: d old)
  case (Cons st sts)
  from stored_persist [OF assms(1,2), of st d] Cons.prems obtain mid
    where mid: "stored S (state_file_path dir client) (persist_state S dir client st d) = Some mid"
      "answers_le st mid" "answers_le old mid" by auto
  from Cons.IH [OF _ mid(1)] Cons.prems(1) obtain final
    where "stored S (state_file_path dir client)
        (persist_each S dir client sts (persist_state S dir client st d)) = Some final"
      "answers_le mid final" "\<forall>st \<in> set sts. answers_le st final" by auto
  then show ?case
    using mid answers_le_trans by (intro exI [of _ final]) (auto simp: persist_each_def)
qed (simp add: persist_each_def)

end
