(* ===== verification/Perm_Findings.thy ===== *)
theory Perm_Findings
  imports Perm_Safe Perm_State Shell_Files
begin

text \<open>
  What the permission manager (\<open>permission/manager/\<close>) knows about one request: the security
  findings of a shell command (\<open>auto_mode/security_findings.rs\<close>), the managed policy's verdict
  with its provenance (\<open>gate_preflight.rs\<close>), the outcome of the auto-mode classifier
  (\<open>auto_mode/mod.rs\<close>, \<open>manager/request_classification.rs\<close>), the vocabulary of reasons
  (\<open>manager/reasons.rs\<close>) and the answers of a prompt (\<open>prompter.rs\<close>).
\<close>

section \<open>Security findings\<close>

datatype ClassifierSecurityFinding =
    FailClosedPolicy | UnparseableShell | OpaqueShell | ExecOrAmbientGit | EnvInjection
  | UnvettedEnv | FileWrite | DangerousCommand | SpecialExecSurface

definition ALL_FINDINGS :: "ClassifierSecurityFinding list" where
  "ALL_FINDINGS = [FailClosedPolicy, UnparseableShell, OpaqueShell, ExecOrAmbientGit, EnvInjection,
     UnvettedEnv, FileWrite, DangerousCommand, SpecialExecSurface]"

fun finding_token :: "ClassifierSecurityFinding \<Rightarrow> string" where
  "finding_token FailClosedPolicy = ''fail_closed_policy''"
| "finding_token UnparseableShell = ''unparseable_shell''"
| "finding_token OpaqueShell = ''opaque_shell''"
| "finding_token ExecOrAmbientGit = ''exec_or_ambient_git''"
| "finding_token EnvInjection = ''env_injection''"
| "finding_token UnvettedEnv = ''unvetted_env''"
| "finding_token FileWrite = ''file_write''"
| "finding_token DangerousCommand = ''dangerous_command''"
| "finding_token SpecialExecSurface = ''special_exec_surface''"

definition is_grant_floor :: "ClassifierSecurityFinding \<Rightarrow> bool" where
  "is_grant_floor f \<longleftrightarrow> f \<in> {FileWrite, UnvettedEnv, EnvInjection, OpaqueShell, ExecOrAmbientGit,
     SpecialExecSurface}"

text \<open>A \<open>BTreeSet\<close> of findings: a set, listed in the order of the constructors.\<close>

type_synonym BashSecurityAssessment = "ClassifierSecurityFinding set"

definition constrains_broad_grant :: "BashSecurityAssessment \<Rightarrow> bool" where
  "constrains_broad_grant a \<longleftrightarrow> list_ex (\<lambda>f. f \<in> a \<and> is_grant_floor f) ALL_FINDINGS"

definition finding_tokens :: "BashSecurityAssessment \<Rightarrow> string list" where
  "finding_tokens a = map finding_token (filter (\<lambda>f. f \<in> a) ALL_FINDINGS)"

lemma all_findings: "f \<in> set ALL_FINDINGS"
  by (cases f) (simp_all add: ALL_FINDINGS_def)

lemma constrains_broad_grant_iff: "constrains_broad_grant a \<longleftrightarrow> (\<exists>f \<in> a. is_grant_floor f)"
  using all_findings by (auto simp: constrains_broad_grant_def list_ex_iff)

section \<open>The policy's verdict and where an ask comes from\<close>

definition decision_rank :: "Decision \<Rightarrow> nat" where
  "decision_rank d = (case d of
      D_Reject _ \<Rightarrow> 3 | D_PolicyDeny _ \<Rightarrow> 3 | D_Ask \<Rightarrow> 2 | D_Allow \<Rightarrow> 1 | _ \<Rightarrow> 0)"

definition combine_decisions :: "Decision option \<Rightarrow> Decision option \<Rightarrow> Decision option" where
  "combine_decisions a b = (case (a, b) of
      (None, other) \<Rightarrow> other
    | (other, None) \<Rightarrow> other
    | (Some x, Some y) \<Rightarrow> Some (if decision_rank y \<le> decision_rank x then x else y))"

record GatePreflight =
  direct :: "Decision option"
  bash_command :: "GateDecision option"
  shell_file :: "GateDecision option"
  defers_gate_ask :: bool

definition is_ask :: "GateDecision \<Rightarrow> bool" where
  "is_ask g \<longleftrightarrow> g = AskRuleMatch \<or> g = AskFailClosed"

definition rule_match_ask :: "GatePreflight \<Rightarrow> bool" where
  "rule_match_ask pf \<longleftrightarrow> direct pf = Some D_Ask \<or> bash_command pf = Some AskRuleMatch
     \<or> shell_file pf = Some AskRuleMatch"

definition fail_closed_ask :: "GatePreflight \<Rightarrow> bool" where
  "fail_closed_ask pf \<longleftrightarrow> bash_command pf = Some AskFailClosed \<or> shell_file pf = Some AskFailClosed"

definition preflight_evaluate ::
  "('pat, 'j) policy_env \<Rightarrow> fs_env \<Rightarrow> 'pat CompiledPolicy option \<Rightarrow> 'j AccessKind \<Rightarrow> string \<Rightarrow> bool \<Rightarrow>
     GatePreflight" where
  "preflight_evaluate E fs policy access cwd auto_mode =
     (let base = (case policy of
          None \<Rightarrow> \<lparr>direct = None, bash_command = None, shell_file = None, defers_gate_ask = False\<rparr>
        | Some p \<Rightarrow> \<lparr>direct = evaluate_with_cwd E p access (Some cwd),
            bash_command = (case access of A_Bash cmd \<Rightarrow> evaluate_bash_command_gate E p cmd | _ \<Rightarrow> None),
            shell_file = (case access of A_Bash cmd \<Rightarrow> evaluate_shell_file_access_gate E fs p cmd cwd
              | _ \<Rightarrow> None),
            defers_gate_ask = False\<rparr>)
      in base\<lparr>defers_gate_ask := auto_mode \<and> fail_closed_ask base \<and> \<not> rule_match_ask base\<rparr>)"

definition policy_decision :: "GatePreflight \<Rightarrow> Decision option" where
  "policy_decision pf = combine_decisions
     (combine_decisions (direct pf) (map_option into_decision (bash_command pf)))
     (map_option into_decision (shell_file pf))"

definition policy_forced_prompt :: "GatePreflight \<Rightarrow> bool" where
  "policy_forced_prompt pf \<longleftrightarrow> policy_decision pf = Some D_Ask"

definition shell_file_forced_prompt :: "GatePreflight \<Rightarrow> bool" where
  "shell_file_forced_prompt pf \<longleftrightarrow> (case shell_file pf of Some g \<Rightarrow> is_ask g | None \<Rightarrow> False)"

definition bash_command_asks :: "GatePreflight \<Rightarrow> bool" where
  "bash_command_asks pf \<longleftrightarrow> (case bash_command pf of Some g \<Rightarrow> is_ask g | None \<Rightarrow> False)"

definition shell_forced_prompt :: "GatePreflight \<Rightarrow> bool" where
  "shell_forced_prompt pf \<longleftrightarrow> bash_command_asks pf \<or> shell_file_forced_prompt pf"

definition admits_auto_classifier :: "GatePreflight \<Rightarrow> bool" where
  "admits_auto_classifier pf \<longleftrightarrow> \<not> policy_forced_prompt pf \<or> defers_gate_ask pf"

section \<open>Reasons\<close>

datatype Reason =
    YOLO | POLICY_ALLOW | POLICY_DENY | POLICY_ASK | BASH_COMMAND_GATE_ASK | SHELL_FILE_GATE_ASK
  | AUTO_FAST_PATH | AUTO_CLASSIFIER_ALLOW | AUTO_CLASSIFIER_DENY | AUTO_CLASSIFIER_TIMEOUT
  | AUTO_CLASSIFIER_UNAVAILABLE | AUTO_DENIAL_LIMIT | SANDBOX_AUTO | PERSISTED_GRANT | SESSION_GRANT
  | STATIC_ALLOWLIST | SAFE_COMMAND | SESSION_DENY | PROMPT_DENY | NEEDS_USER | BASH_REQUEST_FLOOR
  | OPAQUE_SHELL | REQUESTER_GONE

fun reason_str :: "Reason \<Rightarrow> string" where
  "reason_str YOLO = ''yolo''"
| "reason_str POLICY_ALLOW = ''policy_allow''"
| "reason_str POLICY_DENY = ''policy_deny''"
| "reason_str POLICY_ASK = ''policy_ask''"
| "reason_str BASH_COMMAND_GATE_ASK = ''bash_command_gate_ask''"
| "reason_str SHELL_FILE_GATE_ASK = ''shell_file_gate_ask''"
| "reason_str AUTO_FAST_PATH = ''auto_fast_path''"
| "reason_str AUTO_CLASSIFIER_ALLOW = ''auto_classifier_allow''"
| "reason_str AUTO_CLASSIFIER_DENY = ''auto_classifier_deny''"
| "reason_str AUTO_CLASSIFIER_TIMEOUT = ''auto_classifier_timeout''"
| "reason_str AUTO_CLASSIFIER_UNAVAILABLE = ''auto_classifier_unavailable''"
| "reason_str AUTO_DENIAL_LIMIT = ''auto_denial_limit''"
| "reason_str SANDBOX_AUTO = ''sandbox_auto''"
| "reason_str PERSISTED_GRANT = ''persisted_grant''"
| "reason_str SESSION_GRANT = ''session_grant''"
| "reason_str STATIC_ALLOWLIST = ''static_allowlist''"
| "reason_str SAFE_COMMAND = ''safe_command''"
| "reason_str SESSION_DENY = ''session_deny''"
| "reason_str PROMPT_DENY = ''prompt_deny''"
| "reason_str NEEDS_USER = ''needs_user''"
| "reason_str BASH_REQUEST_FLOOR = ''bash_request_floor''"
| "reason_str OPAQUE_SHELL = ''opaque_shell''"
| "reason_str REQUESTER_GONE = ''requester_gone''"

definition prompt_trigger :: "GatePreflight \<Rightarrow> Reason option \<Rightarrow> Reason option" where
  "prompt_trigger pf auto_prompt_reason =
     (if direct pf = Some D_Ask then Some POLICY_ASK
      else if defers_gate_ask pf then auto_prompt_reason
      else if bash_command_asks pf then Some BASH_COMMAND_GATE_ASK
      else if shell_file_forced_prompt pf then Some SHELL_FILE_GATE_ASK
      else auto_prompt_reason)"

section \<open>The classifier's outcome\<close>

datatype ClassifierVerdict = V_Allow | V_Block | V_Unavailable

fun verdict_str :: "ClassifierVerdict \<Rightarrow> string" where
  "verdict_str V_Allow = ''allow''"
| "verdict_str V_Block = ''block''"
| "verdict_str V_Unavailable = ''unavailable''"

datatype ClassifierSourceKind =
  K_Llm | K_Heuristic | K_Timeout | K_TransportError | K_FastPath | K_NotWired

fun source_kind_str :: "ClassifierSourceKind \<Rightarrow> string" where
  "source_kind_str K_Llm = ''llm''"
| "source_kind_str K_Heuristic = ''heuristic''"
| "source_kind_str K_Timeout = ''timeout''"
| "source_kind_str K_TransportError = ''transport_error''"
| "source_kind_str K_FastPath = ''fast_path''"
| "source_kind_str K_NotWired = ''not_wired''"

datatype ClassifierSource = S_Llm | S_Heuristic | S_Timeout | S_TransportError

fun source_kind :: "ClassifierSource \<Rightarrow> ClassifierSourceKind" where
  "source_kind S_Llm = K_Llm"
| "source_kind S_Heuristic = K_Heuristic"
| "source_kind S_Timeout = K_Timeout"
| "source_kind S_TransportError = K_TransportError"

datatype ClassifierFailure = F_Timeout | F_TransportError string

fun failure_text :: "ClassifierFailure \<Rightarrow> string" where
  "failure_text F_Timeout = ''permission auto classifier timed out''"
| "failure_text (F_TransportError reason) = reason"

datatype ClassifierProvenance = P_Llm | P_Heuristic | P_Failure ClassifierFailure

record ClassifierOutcome =
  clf_verdict :: ClassifierVerdict
  outcome_reason :: "string option"
  provenance :: ClassifierProvenance

definition outcome_heuristic :: "ClassifierVerdict \<Rightarrow> ClassifierOutcome" where
  "outcome_heuristic v = \<lparr>clf_verdict = v, outcome_reason = None, provenance = P_Heuristic\<rparr>"

definition outcome_llm :: "ClassifierVerdict \<Rightarrow> string option \<Rightarrow> ClassifierOutcome" where
  "outcome_llm v reason = \<lparr>clf_verdict = v, outcome_reason = reason, provenance = P_Llm\<rparr>"

definition outcome_failure :: "ClassifierFailure \<Rightarrow> ClassifierOutcome" where
  "outcome_failure f = \<lparr>clf_verdict = V_Unavailable, outcome_reason = Some (failure_text f),
     provenance = P_Failure f\<rparr>"

definition outcome_source :: "ClassifierOutcome \<Rightarrow> ClassifierSource" where
  "outcome_source o' = (case provenance o' of
      P_Llm \<Rightarrow> S_Llm
    | P_Heuristic \<Rightarrow> S_Heuristic
    | P_Failure f \<Rightarrow> (case f of F_Timeout \<Rightarrow> S_Timeout | F_TransportError _ \<Rightarrow> S_TransportError))"

definition is_timeout :: "ClassifierOutcome \<Rightarrow> bool" where
  "is_timeout o' \<longleftrightarrow> provenance o' = P_Failure F_Timeout"

text \<open>The classification of one request; latencies are not modelled.\<close>

datatype ClassificationSource = CS_Classifier ClassifierSource | CS_NotWired

record ClassificationOutcome =
  co_verdict :: ClassifierVerdict
  co_source :: ClassificationSource

datatype RequestClassification =
    NotClassified
  | FastPath
  | Classified BashSecurityAssessment "ClassificationOutcome option"

definition classification_source_kind :: "ClassificationSource \<Rightarrow> ClassifierSourceKind" where
  "classification_source_kind s = (case s of CS_Classifier c \<Rightarrow> source_kind c | CS_NotWired \<Rightarrow> K_NotWired)"

fun classifier_source :: "RequestClassification \<Rightarrow> ClassifierSourceKind option" where
  "classifier_source NotClassified = None"
| "classifier_source FastPath = Some K_FastPath"
| "classifier_source (Classified _ out) = map_option (\<lambda>x. classification_source_kind (co_source x)) out"

fun classifier_verdict :: "RequestClassification \<Rightarrow> ClassifierVerdict option" where
  "classifier_verdict (Classified _ out) = map_option co_verdict out"
| "classifier_verdict _ = None"

fun security_findings_tokens :: "RequestClassification \<Rightarrow> string list option" where
  "security_findings_tokens (Classified a _) = Some (finding_tokens a)"
| "security_findings_tokens _ = None"

definition AUTO_DENY_CONSECUTIVE_LIMIT :: nat where "AUTO_DENY_CONSECUTIVE_LIMIT = 3"
definition AUTO_DENY_TOTAL_LIMIT :: nat where "AUTO_DENY_TOTAL_LIMIT = 20"

section \<open>Accesses and the fast path of auto mode\<close>

fun tool_name_for_access :: "'j AccessKind \<Rightarrow> string" where
  "tool_name_for_access (A_Read _) = ''read_file''"
| "tool_name_for_access (A_Grep _ _) = ''grep''"
| "tool_name_for_access (A_Edit _) = ''search_replace''"
| "tool_name_for_access (A_Bash _) = ''run_terminal_command''"
| "tool_name_for_access (A_MCPTool name _) = ''mcp:'' @ name"
| "tool_name_for_access (A_WebFetch _) = ''web_fetch''"
| "tool_name_for_access (A_WebSearch _) = ''web_search''"

definition access_requires_user_interaction :: "string \<Rightarrow> 'j AccessKind \<Rightarrow> bool" where
  "access_requires_user_interaction tool_name access =
     (let t = to_ascii_lowercase tool_name
      in if contains t ''ask_user'' \<or> contains t ''askuserquestion'' \<or> contains t ''user_question''
            \<or> t = ''ask_user_question'' then True
         else case access of
           A_MCPTool name _ \<Rightarrow>
             (let n = to_ascii_lowercase name
              in contains n ''ask_user'' \<or> contains n ''confirm'' \<and> contains n ''human'')
         | _ \<Rightarrow> False)"

definition is_auto_mode_allowlisted_access :: "'j AccessKind \<Rightarrow> bool" where
  "is_auto_mode_allowlisted_access access \<longleftrightarrow> (case access of
      A_Read _ \<Rightarrow> True | A_Grep _ _ \<Rightarrow> True | A_WebSearch _ \<Rightarrow> True | _ \<Rightarrow> False)"

definition is_auto_mode_allowlisted_tool_name :: "string \<Rightarrow> bool" where
  "is_auto_mode_allowlisted_tool_name tool_name \<longleftrightarrow> List.member
     [''todo_write'', ''TodoWrite'', ''task_output'', ''TaskOutput'', ''wait_tasks'', ''WaitTasks'',
      ''ask_user_question'', ''AskUserQuestion'', ''enter_plan_mode'', ''EnterPlanMode'',
      ''exit_plan_mode'', ''ExitPlanMode'', ''switch_mode'', ''SwitchMode'', ''create_plan'',
      ''CreatePlan'', ''update_plan'', ''UpdatePlan'', ''list_mcp_resources'', ''ListMcpResources'',
      ''read_mcp_resource'', ''ReadMcpResource'', ''tool_search'', ''ToolSearch'', ''sleep'', ''Sleep'']
     tool_name"

datatype AutoFastPath = Fast_Allow | Fast_PromptUser | Fast_Classify

definition is_noop_command :: "string \<Rightarrow> bool" where
  "is_noop_command cmd \<longleftrightarrow> trim cmd \<in> {''true'', '':'', ''false''}"

definition auto_mode_fast_path :: "'j AccessKind \<Rightarrow> string \<Rightarrow> bool \<Rightarrow> AutoFastPath" where
  "auto_mode_fast_path access tool_name requires_user_interaction =
     (if requires_user_interaction then Fast_PromptUser
      else if is_auto_mode_allowlisted_access access \<or> is_auto_mode_allowlisted_tool_name tool_name
        then Fast_Allow
      else case access of
        A_Edit _ \<Rightarrow> Fast_Allow
      | A_Bash cmd \<Rightarrow> if is_noop_command cmd then Fast_Allow else Fast_Classify
      | _ \<Rightarrow> Fast_Classify)"

section \<open>Answers of a prompt\<close>

datatype PromptOutcome =
    AllowOnce
  | AllowAlways
  | AllowEditsForSession
  | AllowAlwaysBashCommand string
  | AllowAlwaysBashGlob string
  | AllowAlwaysDomain string
  | AllowAlwaysMcpTool string
  | AllowAlwaysMcpServer string
  | RejectOnce
  | RejectAlwaysBashCommand string
  | RejectAlwaysMcpTool string
  | RejectAlwaysDomain string
  | Cancelled
  | FollowupMessage string
  | PromptError string

datatype PromptOutcomeKind =
    O_AllowOnce | O_AllowAlways | O_AllowEditsForSession | O_AllowAlwaysBash | O_AllowAlwaysBashGlob
  | O_AllowAlwaysDomain | O_AllowAlwaysMcpTool | O_AllowAlwaysMcpServer | O_RejectOnce
  | O_RejectAlwaysBash | O_RejectAlwaysMcpTool | O_RejectAlwaysDomain | O_Cancelled | O_Followup
  | O_Error

fun outcome_wire_str :: "PromptOutcomeKind \<Rightarrow> string" where
  "outcome_wire_str O_AllowOnce = ''allow_once''"
| "outcome_wire_str O_AllowAlways = ''allow_always''"
| "outcome_wire_str O_AllowEditsForSession = ''allow_edits_for_session''"
| "outcome_wire_str O_AllowAlwaysBash = ''allow_always_bash''"
| "outcome_wire_str O_AllowAlwaysBashGlob = ''allow_always_bash_glob''"
| "outcome_wire_str O_AllowAlwaysDomain = ''allow_always_domain''"
| "outcome_wire_str O_AllowAlwaysMcpTool = ''allow_always_mcp_tool''"
| "outcome_wire_str O_AllowAlwaysMcpServer = ''allow_always_mcp_server''"
| "outcome_wire_str O_RejectOnce = ''reject_once''"
| "outcome_wire_str O_RejectAlwaysBash = ''reject_always_bash''"
| "outcome_wire_str O_RejectAlwaysMcpTool = ''reject_always_mcp_tool''"
| "outcome_wire_str O_RejectAlwaysDomain = ''reject_always_domain''"
| "outcome_wire_str O_Cancelled = ''cancelled''"
| "outcome_wire_str O_Followup = ''followup''"
| "outcome_wire_str O_Error = ''error''"

fun outcome_kind :: "PromptOutcome \<Rightarrow> PromptOutcomeKind" where
  "outcome_kind AllowOnce = O_AllowOnce"
| "outcome_kind AllowAlways = O_AllowAlways"
| "outcome_kind AllowEditsForSession = O_AllowEditsForSession"
| "outcome_kind (AllowAlwaysBashCommand _) = O_AllowAlwaysBash"
| "outcome_kind (AllowAlwaysBashGlob _) = O_AllowAlwaysBashGlob"
| "outcome_kind (AllowAlwaysDomain _) = O_AllowAlwaysDomain"
| "outcome_kind (AllowAlwaysMcpTool _) = O_AllowAlwaysMcpTool"
| "outcome_kind (AllowAlwaysMcpServer _) = O_AllowAlwaysMcpServer"
| "outcome_kind RejectOnce = O_RejectOnce"
| "outcome_kind (RejectAlwaysBashCommand _) = O_RejectAlwaysBash"
| "outcome_kind (RejectAlwaysMcpTool _) = O_RejectAlwaysMcpTool"
| "outcome_kind (RejectAlwaysDomain _) = O_RejectAlwaysDomain"
| "outcome_kind Cancelled = O_Cancelled"
| "outcome_kind (FollowupMessage _) = O_Followup"
| "outcome_kind (PromptError _) = O_Error"

end
