(* ===== verification/Perm_Evaluate.thy ===== *)
theory Perm_Evaluate
  imports Perm_Findings
begin

text \<open>
  What the manager makes of a shell command before anybody is asked (\<open>manager/mod.rs\<close>,
  \<open>evaluate_bash\<close>): its segments are denied, granted, safe or in need of a prompt, and its
  security findings are collected on the way. Then the remembered grants: how an answer of
  the user becomes a grant key (\<open>manager/bash_grants.rs\<close>) and which remembered answer settles a
  later request (\<open>mcp_pre_decision\<close>, \<open>web_fetch_deny_pre_decision\<close>,
  \<open>bash_grant_pre_decision\<close>, \<open>session_grant_pre_decision\<close>).
\<close>

section \<open>Segments\<close>

datatype SegmentEvaluation =
    Seg_AutoAllow bool
  | Seg_Reject string
  | Seg_NeedsPrompts "string list"
  | Seg_Unparseable

record BashEvaluation =
  segments :: SegmentEvaluation
  exact_grant :: bool
  all_segments_granted :: bool
  assessment :: BashSecurityAssessment
  ambient_segments :: "string list list option"

definition env_risk_finding :: "EnvRisk \<Rightarrow> ClassifierSecurityFinding option" where
  "env_risk_finding r = (case r of
      Env_Injection \<Rightarrow> Some EnvInjection | Env_Unvetted \<Rightarrow> Some UnvettedEnv | Env_Safe \<Rightarrow> None)"

definition previously_rejected :: "string \<Rightarrow> string" where
  "previously_rejected d = ''User previously rejected `'' @ d @ ''` in this project''"

definition raw_deny_rejection :: "string \<Rightarrow> PermissionState \<Rightarrow> SegmentEvaluation option" where
  "raw_deny_rejection cmd st = map_option (\<lambda>d. Seg_Reject (previously_rejected d))
     (List.find (matches_whitelist_prefix cmd) (disallowed_bash_commands st))"

definition words_join_unambiguously :: "('pat, 'j) policy_env \<Rightarrow> string list \<Rightarrow> bool" where
  "words_join_unambiguously E words =
     (let joined = join_words words
      in case all_commands_from_script (parse_shell E) joined of
        Some [only] \<Rightarrow> spans_whole_script only joined \<and> pc_words only = words
      | _ \<Rightarrow> False)"

definition whole_script_grant ::
  "('pat, 'j) policy_env \<Rightarrow> string \<Rightarrow> PlainCommand list \<Rightarrow> PermissionState \<Rightarrow> bool" where
  "whole_script_grant E cmd segs st =
     (if cmd \<in> set (allowed_bash_commands st) then True
      else case segs of
        [only] \<Rightarrow> spans_whole_script only cmd \<and> words_join_unambiguously E (pc_words only)
          \<and> join_words (pc_words only) \<in> set (allowed_bash_commands st)
      | _ \<Rightarrow> False)"

text \<open>The state of the loop over the segments; \<open>rejected\<close> is its early return.\<close>

record segment_scan =
  needs_prompt :: "string list"
  via_session_grant :: bool
  all_granted :: bool
  scan_exec_risk :: bool
  has_git_command :: bool
  findings :: BashSecurityAssessment
  rejected :: "string option"

definition segment_granted :: "('pat, 'j) policy_env \<Rightarrow> PermissionState \<Rightarrow> string list \<Rightarrow> bool" where
  "segment_granted E st words =
     (let s = join_words words
      in (if head_is_exec_vehicle words then s \<in> set (allowed_bash_commands st)
          else list_ex (matches_whitelist_prefix s) (allowed_bash_commands st))
         \<or> list_ex (matches_bash_glob E s) (allowed_bash_globs st))"

definition special_exec_surface :: "string list \<Rightarrow> bool" where
  "special_exec_surface words \<longleftrightarrow> kubectl_has_unsafe_flag words \<or> rg_has_pre_flag words
     \<or> ps_dumps_environment words \<or> git_words_have_unsafe_query_option words"

definition scan_facts :: "string list \<Rightarrow> segment_scan \<Rightarrow> segment_scan" where
  "scan_facts raw_words sc =
     (let words = unwrap_wrappers raw_words;
          facts = segment_exec_facts raw_words;
          sc1 = (if words_are_opaque_shell (map W_Literal words)
                 then sc\<lparr>findings := insert OpaqueShell (findings sc)\<rparr> else sc);
          sc2 = (if exec_risk facts
                 then sc1\<lparr>scan_exec_risk := True, findings := insert ExecOrAmbientGit (findings sc1)\<rparr>
                 else sc1)
      in if has_git facts then sc2\<lparr>has_git_command := True\<rparr> else sc2)"

definition scan_verdict ::
  "('pat, 'j) policy_env \<Rightarrow> PermissionState \<Rightarrow> bool \<Rightarrow> string list \<Rightarrow> segment_scan \<Rightarrow> segment_scan" where
  "scan_verdict E st honor_safe_lists words sc =
     (let s = join_words words
      in case List.find (matches_whitelist_prefix s) (disallowed_bash_commands st) of
        Some d \<Rightarrow> sc\<lparr>rejected := Some (previously_rejected d)\<rparr>
      | None \<Rightarrow>
          (let matched_grant = segment_granted E st words;
               sc1 = sc\<lparr>all_granted := all_granted sc \<and> matched_grant\<rparr>
           in if is_dangerous_command_words words then
                sc1\<lparr>findings := insert DangerousCommand (findings sc1), needs_prompt := needs_prompt sc1 @ [s]\<rparr>
              else if special_exec_surface words \<and> s \<notin> set (allowed_bash_commands st) then
                sc1\<lparr>findings := insert SpecialExecSurface (findings sc1), needs_prompt := needs_prompt sc1 @ [s]\<rparr>
              else if matched_grant
                \<or> honor_safe_lists \<and> (is_safe_command_words words \<or> is_always_safe_command_words words) then
                (if matched_grant then sc1\<lparr>via_session_grant := True\<rparr> else sc1)
              else sc1\<lparr>needs_prompt := needs_prompt sc1 @ [s]\<rparr>))"

definition scan_segment ::
  "('pat, 'j) policy_env \<Rightarrow> PermissionState \<Rightarrow> bool \<Rightarrow> PlainCommand \<Rightarrow> segment_scan \<Rightarrow> segment_scan" where
  "scan_segment E st honor_safe_lists parsed sc =
     (let words = unwrap_wrappers (pc_words parsed); sc1 = scan_facts (pc_words parsed) sc
      in if is_setup_command words then sc1 else scan_verdict E st honor_safe_lists words sc1)"

fun scan_segments ::
  "('pat, 'j) policy_env \<Rightarrow> PermissionState \<Rightarrow> bool \<Rightarrow> PlainCommand list \<Rightarrow> segment_scan \<Rightarrow> segment_scan" where
  "scan_segments E st honor [] sc = sc"
| "scan_segments E st honor (parsed # rest) sc =
     (let sc1 = scan_segment E st honor parsed sc
      in if rejected sc1 \<noteq> None then sc1 else scan_segments E st honor rest sc1)"

text \<open>A script that is not a sequence of plain commands.\<close>

definition undecomposable ::
  "string \<Rightarrow> PermissionState \<Rightarrow> BashSecurityAssessment \<Rightarrow> BashEvaluation" where
  "undecomposable cmd st found = \<lparr>
     segments = (case raw_deny_rejection cmd st of Some r \<Rightarrow> r | None \<Rightarrow> Seg_Unparseable),
     exact_grant = cmd \<in> set (allowed_bash_commands st),
     all_segments_granted = False,
     assessment = (if script_may_invoke_git cmd then insert ExecOrAmbientGit found else found),
     ambient_segments = None\<rparr>"

definition tree_findings :: "Node \<Rightarrow> string \<Rightarrow> PlainCommand list \<Rightarrow> BashSecurityAssessment" where
  "tree_findings root cmd segs =
     (let fs = (if list_ex (\<lambda>path. \<not> is_safe_write_sink path) (command_write_paths_in_tree root cmd)
          then {FileWrite} else {})
      in case env_risk_finding (script_env_risk root cmd segs) of Some f \<Rightarrow> insert f fs | None \<Rightarrow> fs)"

definition scan_start :: "BashSecurityAssessment \<Rightarrow> segment_scan" where
  "scan_start found = \<lparr>needs_prompt = [], via_session_grant = False, all_granted = True,
     scan_exec_risk = False, has_git_command = False, findings = found, rejected = None\<rparr>"

definition evaluation_of_scan :: "PlainCommand list \<Rightarrow> bool \<Rightarrow> segment_scan \<Rightarrow> BashEvaluation" where
  "evaluation_of_scan segs exact sc = \<lparr>
     segments = (case rejected sc of
         Some reason \<Rightarrow> Seg_Reject reason
       | None \<Rightarrow> if needs_prompt sc = [] then Seg_AutoAllow (via_session_grant sc)
           else Seg_NeedsPrompts (needs_prompt sc)),
     exact_grant = exact,
     all_segments_granted = all_granted sc,
     assessment = findings sc,
     ambient_segments = (if rejected sc = None \<and> has_git_command sc \<and> \<not> scan_exec_risk sc
       then Some (map pc_words segs) else None)\<rparr>"

definition evaluate_bash ::
  "('pat, 'j) policy_env \<Rightarrow> string \<Rightarrow> PermissionState \<Rightarrow> bool \<Rightarrow> BashEvaluation" where
  "evaluate_bash E cmd st honor_safe_lists = (case parse_shell E cmd of
      None \<Rightarrow> undecomposable cmd st {UnparseableShell}
    | Some root \<Rightarrow> (case try_parse_word_only_commands_sequence root cmd of
          None \<Rightarrow>
            (let found = insert UnparseableShell (tree_findings root cmd [])
             in undecomposable cmd st (if tree_has_opaque_shell root cmd then insert OpaqueShell found else found))
        | Some segs \<Rightarrow> evaluation_of_scan segs (whole_script_grant E cmd segs st)
            (scan_segments E st honor_safe_lists segs (scan_start (tree_findings root cmd segs)))))"

section \<open>From an answer to a grant\<close>

definition always_allow_scope_persists ::
  "('pat, 'j) policy_env \<Rightarrow> BashCommandHighlights \<Rightarrow> nat \<Rightarrow> bool" where
  "always_allow_scope_persists E h n =
     (let words = highlighted_words h
      in if n = 0 \<or> length words < n \<or> n < minimum_always_allow_scope words then False
         else words_join_unambiguously E (take n words)
           \<or> n = length words \<and> hl_prefix h = [] \<and> hl_suffix h = [])"

definition MAX_SEGMENT_GRANTS :: nat where "MAX_SEGMENT_GRANTS = 5"

definition segment_grant :: "('pat, 'j) policy_env \<Rightarrow> PlainCommand \<Rightarrow> string option" where
  "segment_grant E parsed =
     (let words = unwrap_wrappers (pc_words parsed)
      in if words \<noteq> [] \<and> \<not> is_setup_command words \<and> \<not> is_dangerous_command_words words
           \<and> \<not> head_is_exec_vehicle words \<and> words_join_unambiguously E words
         then Some (join_words words) else None)"

definition bash_grant_segments :: "('pat, 'j) policy_env \<Rightarrow> string \<Rightarrow> string list" where
  "bash_grant_segments E cmd = (case all_commands_from_script (parse_shell E) cmd of
      None \<Rightarrow> []
    | Some segs \<Rightarrow>
        (let grants = List.map_filter (segment_grant E) segs
         in if MAX_SEGMENT_GRANTS < length grants then [] else grants))"

definition allow_bash_command :: "string \<Rightarrow> PermissionState \<Rightarrow> PermissionState" where
  "allow_bash_command key st = st\<lparr>allowed_bash_commands := hs_insert key (allowed_bash_commands st)\<rparr>"

definition persist_bash_always_allow ::
  "('pat, 'j) policy_env \<Rightarrow> string \<Rightarrow> string \<Rightarrow> PermissionState \<Rightarrow> PermissionState" where
  "persist_bash_always_allow E cmd label st =
     (case primary_command_from_script (parse_shell E) cmd of
        None \<Rightarrow> st
      | Some h \<Rightarrow>
          (let words = highlighted_words h;
               min_scope = minimum_always_allow_scope words;
               labeled_words_verified = list_ex (\<lambda>n. words_join_unambiguously E (take n words)
                 \<and> join_words (take n words) = label) [min_scope..<Suc (length words)]
           in if labeled_words_verified then allow_bash_command label st
              else if hl_prefix h = [] \<and> hl_suffix h = [] \<and> join_words words = label
                then allow_bash_command cmd st
              else st))"

definition bash_glob_covers_script :: "('pat, 'j) policy_env \<Rightarrow> string \<Rightarrow> string \<Rightarrow> bool" where
  "bash_glob_covers_script E cmd pattern =
     (if bash_glob_is_catchall E pattern then False
      else case all_commands_from_script (parse_shell E) cmd of
        None \<Rightarrow> bash_pattern_matches_command E pattern cmd
      | Some segs \<Rightarrow> list_ex (\<lambda>seg. let words = unwrap_wrappers (pc_words seg)
          in words \<noteq> [] \<and> \<not> is_setup_command words
             \<and> bash_pattern_matches_command E pattern (join_words words)) segs)"

section \<open>Remembered answers for MCP tools\<close>

definition is_id_char :: "char \<Rightarrow> bool" where
  "is_id_char c \<longleftrightarrow> is_ascii_alphanumeric c \<or> c = CHR ''_'' \<or> c = CHR ''-''"

definition is_valid_segment :: "string \<Rightarrow> bool" where
  "is_valid_segment s \<longleftrightarrow> s \<noteq> [] \<and> list_all is_id_char s"

text \<open>\<open>splitn(3, ':')\<close> gives a third part exactly when there are two colons or more.\<close>

definition is_well_formed_tool_id :: "string \<Rightarrow> bool" where
  "is_well_formed_tool_id s = (case split_on (CHR '':'') s of
      [a] \<Rightarrow> is_valid_segment a
    | [a, b] \<Rightarrow> is_valid_segment a \<and> is_valid_segment b
    | _ \<Rightarrow> False)"

fun delimiter_positions :: "nat \<Rightarrow> string \<Rightarrow> nat list" where
  "delimiter_positions i (a # b # s) =
     (if a = CHR ''_'' \<and> b = CHR ''_'' then [i] else []) @ delimiter_positions (Suc i) (b # s)"
| "delimiter_positions i s = []"

definition parse_mcp_qualified_name :: "string \<Rightarrow> (string \<times> string) option" where
  "parse_mcp_qualified_name name = (case delimiter_positions 0 name of
      [boundary] \<Rightarrow>
        (let server = take boundary name; tool = drop (boundary + 2) name
         in if server = [] \<or> tool = [] then None
            else if is_well_formed_tool_id name then Some (server, tool) else None)
    | _ \<Rightarrow> None)"

definition mcp_server_prefix_allowed :: "string \<Rightarrow> string list \<Rightarrow> bool" where
  "mcp_server_prefix_allowed name servers \<longleftrightarrow> servers \<noteq> [] \<and> (case parse_mcp_qualified_name name of
      Some (server, _) \<Rightarrow> server \<in> set servers | None \<Rightarrow> False)"

definition mcp_pre_decision :: "string \<Rightarrow> PermissionState \<Rightarrow> bool \<Rightarrow> bool \<Rightarrow> Decision option" where
  "mcp_pre_decision name st policy_forced remember_tool_approvals =
     (if name \<in> set (disallowed_mcp_tools st) then Some (D_Reject (previously_rejected name))
      else if policy_forced \<and> \<not> remember_tool_approvals then None
      else if name \<in> set (allowed_mcp_tools st) then Some D_Allow
      else if mcp_server_prefix_allowed name (allowed_mcp_servers st) then Some D_Allow
      else None)"

section \<open>Remembered answers for web domains\<close>

definition web_fetch_deny_key :: "('pat, 'j) policy_env \<Rightarrow> string \<Rightarrow> string" where
  "web_fetch_deny_key E host = lowercase E (trim_end_matches (CHR ''.'') (trim host))"

definition web_fetch_deny_key_from_url :: "('pat, 'j) policy_env \<Rightarrow> string \<Rightarrow> string option" where
  "web_fetch_deny_key_from_url E url = (case url_host E url of
      None \<Rightarrow> None
    | Some host \<Rightarrow> (let key = web_fetch_deny_key E host in if key = [] then None else Some key))"

definition covers_domain :: "string \<Rightarrow> string \<Rightarrow> bool" where
  "covers_domain domain denied \<longleftrightarrow> denied \<noteq> [] \<and> (domain = denied
     \<or> length denied + 1 < length domain \<and> ends_with domain denied
       \<and> domain ! (length domain - length denied - 1) = CHR ''.'')"

definition denied_web_fetch_domain ::
  "('pat, 'j) policy_env \<Rightarrow> string \<Rightarrow> string list \<Rightarrow> string option" where
  "denied_web_fetch_domain E host disallowed =
     (if disallowed = [] then None
      else List.find (covers_domain (web_fetch_deny_key E host)) disallowed)"

text \<open>The URL is given as text; one that cannot be parsed has no host either.\<close>

definition web_fetch_deny_pre_decision ::
  "('pat, 'j) policy_env \<Rightarrow> string \<Rightarrow> PermissionState \<Rightarrow> Decision option" where
  "web_fetch_deny_pre_decision E url st = (case url_host E url of
      None \<Rightarrow> None
    | Some host \<Rightarrow> map_option (\<lambda>denied. D_Reject (previously_rejected denied))
        (denied_web_fetch_domain E host (disallowed_web_fetch_domains st)))"

datatype HostEntry = AnyPath | PathPrefixes "string list"

type_synonym DomainMatcher = "string \<rightharpoonup> HostEntry"

definition add_domain_entry ::
  "('pat, 'j) policy_env \<Rightarrow> DomainMatcher \<Rightarrow> string \<Rightarrow> DomainMatcher" where
  "add_domain_entry E entries raw =
     (let normalized = normalize_domain E raw;
          host = takeWhile (\<lambda>c. c \<noteq> slash) normalized;
          raw_path = dropWhile (\<lambda>c. c \<noteq> slash) normalized
      in if normalized = [] then entries
         else if raw_path = [] then entries(host \<mapsto> AnyPath)
         else if entries host = Some AnyPath then entries
         else (let path_prefix = trim_end_matches slash raw_path
               in if path_prefix = [] then entries(host \<mapsto> AnyPath)
                  else case entries host of
                    Some (PathPrefixes v) \<Rightarrow>
                      if path_prefix \<in> set v then entries else entries(host \<mapsto> PathPrefixes (v @ [path_prefix]))
                  | Some AnyPath \<Rightarrow> entries
                  | None \<Rightarrow> entries(host \<mapsto> PathPrefixes [path_prefix])))"

definition domain_matcher_new :: "('pat, 'j) policy_env \<Rightarrow> string list \<Rightarrow> DomainMatcher" where
  "domain_matcher_new E raw_entries = foldl (add_domain_entry E) Map.empty raw_entries"

text \<open>\<open>DomainMatcher::check\<close> gives nothing exactly when the URL is permitted.\<close>

definition domain_permitted ::
  "('pat, 'j) policy_env \<Rightarrow> (string \<Rightarrow> string) \<Rightarrow> DomainMatcher \<Rightarrow> string \<Rightarrow> bool" where
  "domain_permitted E url_path entries url = (case url_host E url of
      None \<Rightarrow> False
    | Some raw_host \<Rightarrow> (case entries (normalize_domain E raw_host) of
          None \<Rightarrow> False
        | Some AnyPath \<Rightarrow> True
        | Some (PathPrefixes ps) \<Rightarrow>
            (let path = lowercase E (url_path url)
             in list_ex (\<lambda>p. path = p \<or> starts_with path p \<and> length p < length path
                  \<and> path ! length p = slash) ps)))"

section \<open>Remembered answers for shell commands\<close>

definition clamp_yolo :: "bool \<Rightarrow> string option \<Rightarrow> bool" where
  "clamp_yolo requested pin \<longleftrightarrow> requested \<and> pin = None"

definition persisted_bash_auto_allows :: "PermissionState \<Rightarrow> string \<Rightarrow> string option \<Rightarrow> bool" where
  "persisted_bash_auto_allows st cmd pin \<longleftrightarrow>
     allow_bash_execute st \<and> pin = None \<or> cmd \<in> set (allowed_bash_commands st)"

definition bash_request_floor_requires_prompt :: "BashEvaluation option \<Rightarrow> bool" where
  "bash_request_floor_requires_prompt evaluation \<longleftrightarrow> (case evaluation of
      Some e \<Rightarrow> \<not> exact_grant e \<and> constrains_broad_grant (assessment e) | None \<Rightarrow> False)"

definition bash_assessment_is_clear :: "BashEvaluation option \<Rightarrow> bool" where
  "bash_assessment_is_clear evaluation \<longleftrightarrow> (case evaluation of
      Some e \<Rightarrow> assessment e = {} | None \<Rightarrow> True)"

definition classifier_assessment :: "BashEvaluation option \<Rightarrow> bool \<Rightarrow> BashSecurityAssessment" where
  "classifier_assessment evaluation fail_closed_policy =
     (let a = (case evaluation of Some e \<Rightarrow> assessment e | None \<Rightarrow> {})
      in if fail_closed_policy then insert FailClosedPolicy a else a)"

definition sandbox_may_auto_allow_bash :: "BashEvaluation option \<Rightarrow> bool \<Rightarrow> bool" where
  "sandbox_may_auto_allow_bash evaluation sandbox_active \<longleftrightarrow>
     sandbox_active \<and> \<not> bash_request_floor_requires_prompt evaluation"

record BashGrantOpts =
  honor_safe_lists :: bool
  allow_blanket :: bool
  conservative_blanket :: bool

definition PRE_CLASSIFIER :: BashGrantOpts where
  "PRE_CLASSIFIER = \<lparr>honor_safe_lists = True, allow_blanket = True, conservative_blanket = True\<rparr>"

definition ASK_FLOOR_REMEMBER :: BashGrantOpts where
  "ASK_FLOOR_REMEMBER = \<lparr>honor_safe_lists = False, allow_blanket = False, conservative_blanket = False\<rparr>"

definition post_classify :: "bool \<Rightarrow> BashGrantOpts" where
  "post_classify auto_forced_prompt =
     \<lparr>honor_safe_lists = True, allow_blanket = \<not> auto_forced_prompt, conservative_blanket = False\<rparr>"

definition grant_if :: "bool \<Rightarrow> Reason \<Rightarrow> (Decision \<times> Reason) option" where
  "grant_if b reason = (if b then Some (D_Allow, reason) else None)"

definition bash_grant_pre_decision ::
  "string \<Rightarrow> BashEvaluation \<Rightarrow> PermissionState \<Rightarrow> string option \<Rightarrow> BashGrantOpts \<Rightarrow>
     (Decision \<times> Reason) option" where
  "bash_grant_pre_decision cmd e st pin opts = (case segments e of
      Seg_Reject reason \<Rightarrow> Some (D_Reject reason, SESSION_DENY)
    | seg \<Rightarrow>
        if bash_request_floor_requires_prompt (Some e) then None
        else case seg of
          Seg_AutoAllow via \<Rightarrow>
            grant_if (honor_safe_lists opts \<or> all_segments_granted e) (if via then SESSION_GRANT else SAFE_COMMAND)
        | Seg_NeedsPrompts _ \<Rightarrow>
            if \<not> allow_blanket opts then None
            else if conservative_blanket opts \<and> DangerousCommand \<in> assessment e
              then grant_if (exact_grant e) SESSION_GRANT
            else grant_if (persisted_bash_auto_allows st cmd pin) SESSION_GRANT
        | _ \<Rightarrow>
            if \<not> allow_blanket opts then None
            else grant_if (if conservative_blanket opts then exact_grant e
                 else persisted_bash_auto_allows st cmd pin) SESSION_GRANT)"

definition always_allow_row_is_effective :: "('pat, 'j) policy_env \<Rightarrow> string \<Rightarrow> bool" where
  "always_allow_row_is_effective E cmd =
     (case primary_command_from_script (parse_shell E) cmd of
        None \<Rightarrow> False
      | Some h \<Rightarrow>
          (let scope = default_always_allow_scope (highlighted_words h);
               scratch = persist_bash_always_allow E cmd (join_words (take scope (highlighted_words h))) default_state
           in always_allow_scope_persists E h scope
              \<and> (case bash_grant_pre_decision cmd (evaluate_bash E cmd scratch True) scratch None PRE_CLASSIFIER of
                   Some (decision, _) \<Rightarrow> decision = D_Allow | None \<Rightarrow> False)))"

section \<open>Any remembered answer\<close>

definition deny_or_grant :: "Reason \<Rightarrow> Decision \<Rightarrow> Decision \<times> Reason" where
  "deny_or_grant granted d = (d, case d of D_Reject _ \<Rightarrow> SESSION_DENY | _ \<Rightarrow> granted)"

definition web_fetch_pre_decision ::
  "('pat, 'j) policy_env \<Rightarrow> (string \<Rightarrow> string) \<Rightarrow> string \<Rightarrow> PermissionState \<Rightarrow> DomainMatcher \<Rightarrow> bool \<Rightarrow> Reason \<Rightarrow>
     (Decision \<times> Reason) option" where
  "web_fetch_pre_decision E url_path url st matcher honor_static granted = (case url_host E url of
      None \<Rightarrow> None
    | Some host \<Rightarrow> (case web_fetch_deny_pre_decision E url st of
          Some reject \<Rightarrow> Some (reject, SESSION_DENY)
        | None \<Rightarrow>
            if honor_static \<and> domain_permitted E url_path matcher url then Some (D_Allow, STATIC_ALLOWLIST)
            else grant_if (normalize_domain E host \<in> set (allowed_web_fetch_domains st)) granted))"

definition session_grant_pre_decision ::
  "('pat, 'j) policy_env \<Rightarrow> (string \<Rightarrow> string) \<Rightarrow> 'j AccessKind \<Rightarrow> BashEvaluation option \<Rightarrow> PermissionState \<Rightarrow> bool \<Rightarrow>
     DomainMatcher \<Rightarrow> bool \<Rightarrow> string option \<Rightarrow> (Decision \<times> Reason) option" where
  "session_grant_pre_decision E url_path access evaluation st allow_edits matcher honor_static pin =
     (case access of
        A_MCPTool name _ \<Rightarrow> map_option (deny_or_grant SESSION_GRANT) (mcp_pre_decision name st False False)
      | A_WebFetch url \<Rightarrow> web_fetch_pre_decision E url_path url st matcher honor_static SESSION_GRANT
      | A_Edit _ \<Rightarrow> if allow_edits then Some (D_Allow, SESSION_GRANT) else None
      | A_Bash cmd \<Rightarrow> (case evaluation of
            None \<Rightarrow> None
          | Some e \<Rightarrow> bash_grant_pre_decision cmd e st pin PRE_CLASSIFIER)
      | _ \<Rightarrow> None)"

end
