(* ===== verification/Perm_Manager.thy ===== *)
theory Perm_Manager
  imports Perm_Evaluate
begin

text \<open>
  The permission manager (\<open>spawn_permission_manager_with_pin\<close> in \<open>manager/mod.rs\<close>): one actor
  that takes commands from a queue. Its local variables are the record \<open>manager_state\<close>; what
  it captures when it is spawned is \<open>manager_config\<close>; a request is decided in stages, each a
  function of its own in the order of the source: facts, the decisions before auto mode, auto
  mode with its classifier and denial counters, the decisions after it, the prompt and its
  persistence. What the actor awaits is an answer of the environment, in \<open>request_env\<close>: whether
  the requester is gone, the classifier's outcome for what it is handed, the user's answer to
  what is shown. Code of other crates is in \<open>manager_env\<close>. Time stamps, waiting times and the
  number of requests in flight, which an event only reports, are not modelled.
\<close>

section \<open>Parameters and state\<close>

record ('pat, 'j, 'f) manager_env =
  rule_env :: "('pat, 'j) policy_env"
  file_env :: fs_env
  disk_env :: "'f store_env"
  url_path :: "string \<Rightarrow> string"
  shellexpand_tilde :: "string \<Rightarrow> string"
  json_compact :: "'j \<Rightarrow> string"
  command_json :: "string \<Rightarrow> string"
  repo_config_has_exec_risk :: "string \<Rightarrow> bool"

datatype ClassifierTurn =
    UserText string
  | AssistantToolUse string string
  | PermissionDecision string string bool

record ClassifierContext =
  ctx_turns :: "ClassifierTurn list"
  ctx_project_instructions :: "string option"
  ctx_security_findings :: BashSecurityAssessment

record 'pat manager_config =
  manager_cwd :: string
  client_identifier :: "string option"
  state_dir :: string
  compiled_policy :: "'pat CompiledPolicy option"
  session_prompt_policy :: PromptPolicy
  static_domain_matcher :: DomainMatcher
  web_fetch_allowlist_is_default :: bool
  remember_tool_approvals :: bool
  yolo_pin :: "string option"

record ('c, 'f) manager_state =
  grants :: PermissionState
  yolo_mode :: bool
  auto_mode :: bool
  yolo_cell :: bool
  auto_cell :: bool
  auto_classifier :: "'c option"
  auto_consecutive_denials :: nat
  auto_total_denials :: nat
  classifier_turns :: "ClassifierTurn list"
  recorded_permission_decisions :: "ClassifierTurn list"
  project_instructions :: "string option"
  pin_refusal_logged :: bool
  allow_edits_for_session :: bool
  store_disk :: "'f disk"

record 'j permission_request =
  req_access :: "'j AccessKind"
  req_tool_call_id :: string
  req_path_context :: "(string \<times> string option) option"
  req_session_id :: "string option"
  req_subagent_type :: "string option"
  req_subagent_description :: "string option"

record ('j, 'c) request_env =
  closed_at_dequeue :: bool
  scan_failed :: bool
  closed_after_scan :: bool
  classify_answer :: "'c \<Rightarrow> string \<Rightarrow> 'j AccessKind \<Rightarrow> string option \<Rightarrow> ClassifierContext \<Rightarrow> ClassifierOutcome option"
  sandbox_active :: bool
  closed_before_prompt :: bool
  prompt_user :: "'j AccessKind \<Rightarrow> ProtectedEditReason option \<Rightarrow> PromptOutcome"
  closed_at_end :: bool

record PermissionEvent =
  ev_tool_id :: string
  ev_tool_name :: string
  ev_access_kind :: string
  ev_access_detail :: "string option"
  ev_yolo_mode :: bool
  ev_auto_approved :: bool
  ev_user_prompted :: bool
  ev_decision :: string
  ev_prompt_outcome :: "string option"
  ev_reject_reason :: "string option"
  ev_subagent :: "string option \<times> string option \<times> string option"
  ev_permission_mode :: string
  ev_decision_reason :: Reason
  ev_classifier_source :: "string option"
  ev_denials :: "(nat \<times> nat) option"
  ev_security_findings :: "string list option"
  ev_classifier_verdict :: "string option"
  ev_remember_tool_approvals :: bool

text \<open>The domains a web fetch may reach when the user has configured none.\<close>

definition DEFAULT_ALLOWED_DOMAINS :: "string list" where
  "DEFAULT_ALLOWED_DOMAINS = [
    ''x.ai'', ''console.x.ai'', ''docs.x.ai'', ''api.x.ai'', ''docs.python.org'',
    ''en.cppreference.com'', ''docs.oracle.com'', ''learn.microsoft.com'',
    ''developer.mozilla.org'', ''go.dev'', ''pkg.go.dev'', ''www.php.net'', ''docs.swift.org'',
    ''kotlinlang.org'', ''ruby-doc.org'', ''doc.rust-lang.org'', ''docs.rs'',
    ''www.typescriptlang.org'', ''react.dev'', ''angular.io'', ''vuejs.org'', ''nextjs.org'',
    ''expressjs.com'', ''nodejs.org'', ''bun.sh'', ''jquery.com'', ''getbootstrap.com'',
    ''tailwindcss.com'', ''d3js.org'', ''threejs.org'', ''redux.js.org'', ''webpack.js.org'',
    ''jestjs.io'', ''reactrouter.com'', ''docs.djangoproject.com'',
    ''flask.palletsprojects.com'', ''fastapi.tiangolo.com'', ''pandas.pydata.org'',
    ''numpy.org'', ''www.tensorflow.org'', ''pytorch.org'', ''scikit-learn.org'',
    ''matplotlib.org'', ''requests.readthedocs.io'', ''jupyter.org'', ''laravel.com'',
    ''symfony.com'', ''wordpress.org'', ''docs.spring.io'', ''hibernate.org'',
    ''tomcat.apache.org'', ''gradle.org'', ''maven.apache.org'', ''asp.net'',
    ''dotnet.microsoft.com'', ''nuget.org'', ''blazor.net'', ''reactnative.dev'',
    ''docs.flutter.dev'', ''developer.apple.com'', ''developer.android.com'', ''keras.io'',
    ''spark.apache.org'', ''huggingface.co'', ''www.kaggle.com'', ''redis.io'',
    ''www.postgresql.org'', ''dev.mysql.com'', ''www.sqlite.org'', ''graphql.org'',
    ''prisma.io'', ''docs.aws.amazon.com'', ''cloud.google.com'', ''kubernetes.io'',
    ''www.docker.com'', ''www.terraform.io'', ''www.ansible.com'', ''vercel.com/docs'',
    ''docs.netlify.com'', ''devcenter.heroku.com'', ''cypress.io'', ''selenium.dev'',
    ''docs.unity.com'', ''docs.unrealengine.com'', ''git-scm.com'', ''nginx.org'',
    ''httpd.apache.org'']"

section \<open>Texts\<close>

fun decimal :: "nat \<Rightarrow> string" where
  "decimal n = (if n < 10 then [char_of (48 + n)] else decimal (n div 10) @ [char_of (48 + n mod 10)])"

declare decimal.simps [simp del]

fun take_chars :: "nat \<Rightarrow> string \<Rightarrow> string" where
  "take_chars 0 s = []"
| "take_chars (Suc n) [] = []"
| "take_chars (Suc n) (c # s) =
     c # takeWhile continuation_byte s @ take_chars n (dropWhile continuation_byte s)"

definition truncate_line :: "string \<Rightarrow> nat \<Rightarrow> string" where
  "truncate_line line max_chars =
     (let char_count = length (filter (\<lambda>c. \<not> continuation_byte c) line)
      in if length line \<le> max_chars \<or> char_count \<le> max_chars then line
         else take_chars max_chars line @ '' [... truncated ('' @ decimal char_count @ '' chars total)]'')"

definition TRUNCATION_MARKER :: string where "TRUNCATION_MARKER = [CHR 0xE2, CHR 0x80, CHR 0xA6]"

fun floor_char_boundary :: "string \<Rightarrow> nat \<Rightarrow> nat" where
  "floor_char_boundary s 0 = 0"
| "floor_char_boundary s (Suc i) = (if is_char_boundary s (Suc i) then Suc i else floor_char_boundary s i)"

definition truncate_str_with_marker :: "string \<Rightarrow> nat \<Rightarrow> string" where
  "truncate_str_with_marker s max_bytes =
     (if length s \<le> max_bytes then s
      else if max_bytes < length TRUNCATION_MARKER then take (floor_char_boundary s max_bytes) s
      else take (floor_char_boundary s (max_bytes - length TRUNCATION_MARKER)) s @ TRUNCATION_MARKER)"

definition MCP_ACCESS_DETAIL_MAX_LEN :: nat where "MCP_ACCESS_DETAIL_MAX_LEN = 1024"

definition mcp_access_detail :: "('pat, 'j, 'f) manager_env \<Rightarrow> string \<Rightarrow> 'j \<Rightarrow> string" where
  "mcp_access_detail M name input =
     (if input = json_null (rule_env M) then name
      else truncate_line (name @ '' '' @ json_compact M input) MCP_ACCESS_DETAIL_MAX_LEN)"

definition CLASSIFIER_TURN_MAX_LEN :: nat where "CLASSIFIER_TURN_MAX_LEN = 400"

definition permission_decision_args ::
  "('pat, 'j, 'f) manager_env \<Rightarrow> 'j AccessKind \<Rightarrow> string option \<Rightarrow> string" where
  "permission_decision_args M access detail = truncate_str_with_marker (case access of
      A_Bash cmd \<Rightarrow> command_json M cmd
    | _ \<Rightarrow> (case detail of Some d \<Rightarrow> d | None \<Rightarrow> ''(none)'')) CLASSIFIER_TURN_MAX_LEN"

definition access_kind_and_detail ::
  "('pat, 'j, 'f) manager_env \<Rightarrow> 'j AccessKind \<Rightarrow> string \<times> string option" where
  "access_kind_and_detail M access = (case access of
      A_Read _ \<Rightarrow> (''read'', None)
    | A_Grep path _ \<Rightarrow> (''grep'', path)
    | A_Edit path \<Rightarrow> (''edit'', Some path)
    | A_Bash cmd \<Rightarrow> (''bash'', Some cmd)
    | A_MCPTool name input \<Rightarrow> (''mcp'', Some (mcp_access_detail M name input))
    | A_WebFetch url \<Rightarrow> (''web_fetch'', Some url)
    | A_WebSearch query \<Rightarrow> (''web_search'', Some query))"

definition AUTO_DENY_GUIDANCE :: string where
  "AUTO_DENY_GUIDANCE = ''Take a safer approach that stays within what the user asked for; do not retry this exact action or attempt to work around the denial. If no safer alternative exists, ask the user how to proceed.''"

definition auto_deny_reason :: "string option \<Rightarrow> string" where
  "auto_deny_reason reason = (case reason of
      Some r \<Rightarrow> ''Auto mode blocked this action ('' @ trim_end_matches (CHR ''.'') r @ ''). '' @ AUTO_DENY_GUIDANCE
    | None \<Rightarrow> ''Auto mode blocked this action. '' @ AUTO_DENY_GUIDANCE)"

section \<open>The target of an edit\<close>

lemma trim_rev_length: "length (trim_rev s) \<le> length s"
proof (induction "length s" arbitrary: s rule: less_induct)
  case less
  have ih: "length t < length s \<Longrightarrow> length (trim_rev t) \<le> length s" for t
    using less [of t] by simp
  show ?case
  proof (cases s)
    case (Cons a s')
    show ?thesis unfolding Cons trim_rev.simps
      using ih [of s'] ih [of "tl s'"] ih [of "tl (tl s')"] Cons
      by (auto simp del: trim_rev.simps split: list.splits)
  qed simp
qed

function strip_literal_escapes :: "string \<Rightarrow> string" where
  "strip_literal_escapes s =
     (if ends_with s [backslash, CHR ''n''] \<or> ends_with s [backslash, CHR ''r'']
         \<or> ends_with s [backslash, CHR ''t'']
      then strip_literal_escapes (trim_end (take (length s - 2) s)) else s)"
  by pat_completeness auto
termination
proof (relation "measure length")
  fix s :: string
  assume "ends_with s [backslash, CHR ''n''] \<or> ends_with s [backslash, CHR ''r'']
    \<or> ends_with s [backslash, CHR ''t'']"
  then have "2 \<le> length s" by (auto simp: ends_with_def starts_with_def dest: arg_cong [where f = length])
  moreover have "length (trim_end (take (length s - 2) s)) \<le> length s - 2"
    using trim_rev_length [of "rev (take (length s - 2) s)"] by (simp add: trim_end_def)
  ultimately show "(trim_end (take (length s - 2) s), s) \<in> measure length" by simp
qed simp

declare strip_literal_escapes.simps [simp del]

definition sanitize_model_path_arg :: "string \<Rightarrow> string" where
  "sanitize_model_path_arg input =
     (let trimmed = trim input;
          quote_wrapped = (2 \<le> length trimmed \<and> double_or_single_quote (hd trimmed)
            \<and> double_or_single_quote (last trimmed));
          unquoted = trim (rev (dropWhile double_or_single_quote
            (rev (dropWhile double_or_single_quote trimmed))))
      in if \<not> quote_wrapped then unquoted else strip_literal_escapes unquoted)"

definition resolve_model_path ::
  "('pat, 'j, 'f) manager_env \<Rightarrow> string \<Rightarrow> string option \<Rightarrow> string \<Rightarrow> string" where
  "resolve_model_path M cwd display_cwd input0 =
     (let expanded = shellexpand_tilde M (sanitize_model_path_arg input0)
      in case (if is_absolute expanded then display_cwd else None) of
        Some display \<Rightarrow> (case path_strip_prefix expanded display of
            Some rest \<Rightarrow> path_push cwd rest | None \<Rightarrow> expanded)
      | None \<Rightarrow>
          if \<not> is_absolute expanded \<and> expanded \<noteq> [] then
            (let base = (case display_cwd of Some d \<Rightarrow> d | None \<Rightarrow> cwd)
             in case path_strip_prefix (slash # expanded) base of
                  Some rest \<Rightarrow> path_push cwd rest
                | None \<Rightarrow> path_push cwd expanded)
          else path_push cwd expanded)"

definition protected_edit_target ::
  "('pat, 'j, 'f) manager_env \<Rightarrow> 'pat manager_config \<Rightarrow> 'j permission_request \<Rightarrow> ProtectedEditReason option" where
  "protected_edit_target M C R = (case req_access R of
      A_Edit path \<Rightarrow> edit_target_protection (file_env M) (case req_path_context R of
          Some (real_cwd, display_cwd) \<Rightarrow> resolve_model_path M real_cwd display_cwd path
        | None \<Rightarrow> resolve_model_path M (manager_cwd C) None path)
    | _ \<Rightarrow> None)"

section \<open>Facts of one request\<close>

record 'j request_facts =
  tool_name :: string
  access_kind :: string
  access_detail :: "string option"
  bash_evaluation :: "BashEvaluation option"
  protected_edit :: "ProtectedEditReason option"
  preflight :: GatePreflight

definition request_cwd :: "'pat manager_config \<Rightarrow> 'j permission_request \<Rightarrow> string" where
  "request_cwd C R = (case req_path_context R of Some (real_cwd, _) \<Rightarrow> real_cwd | None \<Rightarrow> manager_cwd C)"

text \<open>The shell evaluation, with the directories git would read already scanned.\<close>

definition ambient_risk ::
  "('pat, 'j, 'f) manager_env \<Rightarrow> bool \<Rightarrow> string list list \<Rightarrow> string \<Rightarrow> bool" where
  "ambient_risk M failed raw cwd =
     (let plan = ambient_scan_plan_from_segments raw cwd
      in case plan of
        FailClosed \<Rightarrow> True
      | CheckDirs _ \<Rightarrow> failed \<or> ambient_exec_risk_from_plan (repo_config_has_exec_risk M) plan)"

definition request_bash_evaluation ::
  "('pat, 'j, 'f) manager_env \<Rightarrow> PermissionState \<Rightarrow> bool \<Rightarrow> string \<Rightarrow> 'j AccessKind \<Rightarrow>
     BashEvaluation option \<times> bool" where
  "request_bash_evaluation M st failed cwd access = (case access of
      A_Bash cmd \<Rightarrow>
        (let e = evaluate_bash (rule_env M) cmd st True
         in case ambient_segments e of
           None \<Rightarrow> (Some e, False)
         | Some raw \<Rightarrow> (Some (e\<lparr>ambient_segments := None,
               assessment := (if ambient_risk M failed raw cwd then insert ExecOrAmbientGit (assessment e)
                 else assessment e)\<rparr>), True))
    | _ \<Rightarrow> (None, False))"

definition request_facts_of ::
  "('pat, 'j, 'f) manager_env \<Rightarrow> 'pat manager_config \<Rightarrow> 'j permission_request \<Rightarrow> ('j, 'c) request_env \<Rightarrow>
     ('c, 'f) manager_state \<Rightarrow> 'j request_facts" where
  "request_facts_of M C R W st =
     (let access = req_access R
      in \<lparr>tool_name = tool_name_for_access access,
          access_kind = fst (access_kind_and_detail M access),
          access_detail = snd (access_kind_and_detail M access),
          bash_evaluation = fst (request_bash_evaluation M (grants st) (scan_failed W) (request_cwd C R) access),
          protected_edit = protected_edit_target M C R,
          preflight = preflight_evaluate (rule_env M) (file_env M) (compiled_policy C) access
            (request_cwd C R) (auto_mode st)\<rparr>)"

section \<open>The event of a decision\<close>

definition permission_mode_str :: "('c, 'f) manager_state \<Rightarrow> string" where
  "permission_mode_str st =
     (if yolo_mode st then ''always-approve'' else if auto_mode st then ''auto'' else ''ask'')"

definition decision_str :: "Decision \<Rightarrow> string \<times> string option" where
  "decision_str d = (case d of
      D_Allow \<Rightarrow> (''allow'', None)
    | D_Ask \<Rightarrow> (''ask'', None)
    | D_Reject reason \<Rightarrow> (''reject'', Some reason)
    | D_PolicyDeny reason \<Rightarrow> (''reject'', Some reason)
    | D_FollowupMessage _ \<Rightarrow> (''followup'', None)
    | D_Cancelled \<Rightarrow> (''cancelled'', None))"

definition emit_event ::
  "'pat manager_config \<Rightarrow> 'j permission_request \<Rightarrow> 'j request_facts \<Rightarrow> ('c, 'f) manager_state \<Rightarrow>
     RequestClassification \<Rightarrow> nat \<times> nat \<Rightarrow> Decision \<Rightarrow> bool \<Rightarrow> bool \<Rightarrow> string option \<Rightarrow> Reason \<Rightarrow>
     PermissionEvent" where
  "emit_event C R F st classification counts decision auto_approved user_prompted outcome reason =
     \<lparr>ev_tool_id = req_tool_call_id R,
      ev_tool_name = tool_name F,
      ev_access_kind = access_kind F,
      ev_access_detail = access_detail F,
      ev_yolo_mode = yolo_mode st,
      ev_auto_approved = auto_approved,
      ev_user_prompted = user_prompted,
      ev_decision = fst (decision_str decision),
      ev_prompt_outcome = outcome,
      ev_reject_reason = snd (decision_str decision),
      ev_subagent = (req_session_id R, req_subagent_type R, req_subagent_description R),
      ev_permission_mode = permission_mode_str st,
      ev_decision_reason = reason,
      ev_classifier_source = map_option source_kind_str (classifier_source classification),
      ev_denials = (if auto_mode st then Some counts else None),
      ev_security_findings = security_findings_tokens classification,
      ev_classifier_verdict = map_option verdict_str (classifier_verdict classification),
      ev_remember_tool_approvals = remember_tool_approvals C\<rparr>"

section \<open>Decisions before auto mode\<close>

text \<open>A settled decision, whether it counts as approved automatically, and its reason.\<close>

type_synonym settled = "Decision \<times> bool \<times> Reason"

definition policy_deny_decision :: "'j request_facts \<Rightarrow> settled option" where
  "policy_deny_decision F = (case policy_decision (preflight F) of
      Some (D_Reject reason) \<Rightarrow> Some (D_PolicyDeny reason, False, POLICY_DENY)
    | _ \<Rightarrow> None)"

definition yolo_decision :: "'j request_facts \<Rightarrow> ('c, 'f) manager_state \<Rightarrow> settled option" where
  "yolo_decision F st =
     (if yolo_mode st \<and> \<not> shell_forced_prompt (preflight F) then Some (D_Allow, True, YOLO) else None)"

definition session_grant_decision ::
  "('pat, 'j, 'f) manager_env \<Rightarrow> 'pat manager_config \<Rightarrow> 'j AccessKind \<Rightarrow> 'j request_facts \<Rightarrow>
     ('c, 'f) manager_state \<Rightarrow> settled option" where
  "session_grant_decision M C access F st =
     (if policy_forced_prompt (preflight F) \<or> shell_forced_prompt (preflight F) \<or> protected_edit F \<noteq> None
      then None
      else map_option (\<lambda>(decision, reason). (decision, True, reason))
        (session_grant_pre_decision (rule_env M) (url_path M) access (bash_evaluation F) (grants st)
          (allow_edits_for_session st) (static_domain_matcher C)
          (\<not> (auto_mode st \<and> web_fetch_allowlist_is_default C)) (yolo_pin C)))"

definition broad_allow_decision ::
  "('pat, 'j, 'f) manager_env \<Rightarrow> 'pat manager_config \<Rightarrow> 'j AccessKind \<Rightarrow> 'j request_facts \<Rightarrow>
     ('c, 'f) manager_state \<Rightarrow> settled option" where
  "broad_allow_decision M C access F st =
     (if auto_mode st \<and> \<not> policy_forced_prompt (preflight F) \<and> \<not> shell_forced_prompt (preflight F)
        \<and> protected_edit F = None \<and> policy_decision (preflight F) = Some D_Allow
        \<and> (bash_assessment_is_clear (bash_evaluation F)
           \<or> \<not> bash_request_floor_requires_prompt (bash_evaluation F)
             \<and> (case compiled_policy C of Some p \<Rightarrow> narrow_allow_authorizes (rule_env M) p access | None \<Rightarrow> False))
      then Some (D_Allow, True, POLICY_ALLOW) else None)"

definition first_settled :: "settled option list \<Rightarrow> settled option" where
  "first_settled ds = (case List.find (\<lambda>d. d \<noteq> None) ds of Some d \<Rightarrow> d | None \<Rightarrow> None)"

definition decide_before_auto ::
  "('pat, 'j, 'f) manager_env \<Rightarrow> 'pat manager_config \<Rightarrow> 'j AccessKind \<Rightarrow> 'j request_facts \<Rightarrow>
     ('c, 'f) manager_state \<Rightarrow> settled option" where
  "decide_before_auto M C access F st = first_settled
     [policy_deny_decision F, yolo_decision F st, session_grant_decision M C access F st,
      broad_allow_decision M C access F st]"

section \<open>Auto mode\<close>

datatype auto_result =
    Auto_Skip
  | Auto_Settled settled
  | Auto_Gone
  | Auto_Prompt Reason

text \<open>What an outcome of the classifier does: the result and the two denial counters.\<close>

definition auto_verdict ::
  "ClassifierVerdict \<Rightarrow> string option \<Rightarrow> bool \<Rightarrow> nat \<times> nat \<Rightarrow> auto_result \<times> nat \<times> nat" where
  "auto_verdict v reason timed_out counters = (case v of
      V_Allow \<Rightarrow> (Auto_Settled (D_Allow, True, AUTO_CLASSIFIER_ALLOW), 0, snd counters)
    | V_Block \<Rightarrow>
        if fst counters < AUTO_DENY_CONSECUTIVE_LIMIT \<and> snd counters < AUTO_DENY_TOTAL_LIMIT
        then (Auto_Settled (D_PolicyDeny (auto_deny_reason reason), False, AUTO_CLASSIFIER_DENY),
          fst counters + 1, snd counters + 1)
        else (Auto_Prompt AUTO_DENIAL_LIMIT, counters)
    | V_Unavailable \<Rightarrow>
        (Auto_Prompt (if timed_out then AUTO_CLASSIFIER_TIMEOUT else AUTO_CLASSIFIER_UNAVAILABLE), counters))"

definition classifier_context :: "('c, 'f) manager_state \<Rightarrow> BashSecurityAssessment \<Rightarrow> ClassifierContext" where
  "classifier_context st found = \<lparr>ctx_turns = classifier_turns st @ recorded_permission_decisions st,
     ctx_project_instructions = project_instructions st, ctx_security_findings = found\<rparr>"

definition run_classifier ::
  "'j AccessKind \<Rightarrow> 'j request_facts \<Rightarrow> ('j, 'c) request_env \<Rightarrow> ('c, 'f) manager_state \<Rightarrow>
     auto_result \<times> (nat \<times> nat) \<times> RequestClassification" where
  "run_classifier access F W st =
     (let found = classifier_assessment (bash_evaluation F) (defers_gate_ask (preflight F));
          counters = (auto_consecutive_denials st, auto_total_denials st)
      in case auto_classifier st of
        None \<Rightarrow> (let (r, counters') = auto_verdict V_Unavailable None False counters
          in (r, counters', Classified found (Some \<lparr>co_verdict = V_Unavailable, co_source = CS_NotWired\<rparr>)))
      | Some clf \<Rightarrow> (case classify_answer W clf (tool_name F) access (access_detail F) (classifier_context st found) of
            None \<Rightarrow> (Auto_Gone, counters, Classified found None)
          | Some out \<Rightarrow> (let (r, counters') = auto_verdict (clf_verdict out) (outcome_reason out) (is_timeout out) counters
              in (r, counters', Classified found (Some \<lparr>co_verdict = clf_verdict out,
                    co_source = CS_Classifier (outcome_source out)\<rparr>)))))"

definition auto_stage ::
  "'j AccessKind \<Rightarrow> 'j request_facts \<Rightarrow> ('j, 'c) request_env \<Rightarrow> ('c, 'f) manager_state \<Rightarrow>
     auto_result \<times> (nat \<times> nat) \<times> RequestClassification" where
  "auto_stage access F W st =
     (let counters = (auto_consecutive_denials st, auto_total_denials st);
          needs_user = (protected_edit F \<noteq> None \<or> access_requires_user_interaction (tool_name F) access)
      in if \<not> auto_mode st \<or> \<not> admits_auto_classifier (preflight F) then (Auto_Skip, counters, NotClassified)
         else case auto_mode_fast_path access (tool_name F) needs_user of
           Fast_Allow \<Rightarrow> (Auto_Settled (D_Allow, True, AUTO_FAST_PATH), counters, FastPath)
         | Fast_PromptUser \<Rightarrow> (Auto_Prompt NEEDS_USER, counters, NotClassified)
         | Fast_Classify \<Rightarrow> run_classifier access F W st)"

section \<open>Decisions after auto mode\<close>

definition is_bash :: "'j AccessKind \<Rightarrow> bool" where
  "is_bash access \<longleftrightarrow> (case access of A_Bash _ \<Rightarrow> True | _ \<Rightarrow> False)"

definition auto_prompt_blocks_allow :: "'j AccessKind \<Rightarrow> bool" where
  "auto_prompt_blocks_allow access \<longleftrightarrow> \<not> is_bash access"

definition sandbox_decision ::
  "'j AccessKind \<Rightarrow> 'j request_facts \<Rightarrow> bool \<Rightarrow> bool \<Rightarrow> settled option" where
  "sandbox_decision access F active auto_forced_prompt =
     (if is_bash access \<and> sandbox_may_auto_allow_bash (bash_evaluation F) active
        \<and> \<not> policy_forced_prompt (preflight F) \<and> \<not> auto_forced_prompt
      then Some (D_Allow, True, SANDBOX_AUTO) else None)"

definition policy_allow_decision :: "'j request_facts \<Rightarrow> bool \<Rightarrow> settled option" where
  "policy_allow_decision F auto_forced_prompt = (case policy_decision (preflight F) of
      Some D_Ask \<Rightarrow> None
    | Some D_Allow \<Rightarrow>
        if protected_edit F \<noteq> None \<or> auto_forced_prompt \<or> bash_request_floor_requires_prompt (bash_evaluation F)
        then None else Some (D_Allow, True, POLICY_ALLOW)
    | Some decision \<Rightarrow> Some (decision, True, POLICY_ALLOW)
    | None \<Rightarrow> None)"

definition edit_pre_decision ::
  "'j request_facts \<Rightarrow> ('c, 'f) manager_state \<Rightarrow> (Decision \<times> Reason) option" where
  "edit_pre_decision F st =
     (if allow_edits_for_session st \<and> protected_edit F = None then Some (D_Allow, PERSISTED_GRANT)
      else case edit_policy (grants st) of
        Edit_Reject \<Rightarrow> Some (D_Reject ''edits prohibited'', SESSION_DENY)
      | _ \<Rightarrow> None)"

definition bash_pre_decision ::
  "'pat manager_config \<Rightarrow> string \<Rightarrow> 'j request_facts \<Rightarrow> ('c, 'f) manager_state \<Rightarrow> bool \<Rightarrow>
     (Decision \<times> Reason) option" where
  "bash_pre_decision C cmd F st auto_forced_prompt = (case bash_evaluation F of
      None \<Rightarrow> None
    | Some e \<Rightarrow>
        if bash_request_floor_requires_prompt (Some e) then None
        else if policy_forced_prompt (preflight F) then
          (if remember_tool_approvals C \<and> \<not> auto_forced_prompt \<and> \<not> shell_file_forced_prompt (preflight F)
           then bash_grant_pre_decision cmd e (grants st) (yolo_pin C) ASK_FLOOR_REMEMBER else None)
        else bash_grant_pre_decision cmd e (grants st) (yolo_pin C) (post_classify auto_forced_prompt))"

definition access_pre_decision ::
  "('pat, 'j, 'f) manager_env \<Rightarrow> 'pat manager_config \<Rightarrow> 'j AccessKind \<Rightarrow> 'j request_facts \<Rightarrow>
     ('c, 'f) manager_state \<Rightarrow> bool \<Rightarrow> (Decision \<times> Reason) option" where
  "access_pre_decision M C access F st auto_forced_prompt = (case access of
      A_Read _ \<Rightarrow> if policy_forced_prompt (preflight F) then None else Some (D_Allow, SAFE_COMMAND)
    | A_Grep _ _ \<Rightarrow> if policy_forced_prompt (preflight F) then None else Some (D_Allow, SAFE_COMMAND)
    | A_WebSearch _ \<Rightarrow> Some (D_Allow, SAFE_COMMAND)
    | A_MCPTool name _ \<Rightarrow> map_option (deny_or_grant PERSISTED_GRANT)
        (mcp_pre_decision name (grants st) (policy_forced_prompt (preflight F)) (remember_tool_approvals C))
    | A_Edit _ \<Rightarrow> edit_pre_decision F st
    | A_Bash cmd \<Rightarrow> bash_pre_decision C cmd F st auto_forced_prompt
    | A_WebFetch url \<Rightarrow> web_fetch_pre_decision (rule_env M) (url_path M) url (grants st)
        (static_domain_matcher C) True PERSISTED_GRANT)"

definition pre_decision ::
  "('pat, 'j, 'f) manager_env \<Rightarrow> 'pat manager_config \<Rightarrow> 'j AccessKind \<Rightarrow> 'j request_facts \<Rightarrow>
     ('c, 'f) manager_state \<Rightarrow> bool \<Rightarrow> settled option" where
  "pre_decision M C access F st auto_forced_prompt =
     (case access_pre_decision M C access F st auto_forced_prompt of
        None \<Rightarrow> None
      | Some (decision, reason) \<Rightarrow>
          if auto_forced_prompt \<and> auto_prompt_blocks_allow access \<and> decision = D_Allow then None
          else Some (decision, True, reason))"

definition prompt_deny_decision :: "'pat manager_config \<Rightarrow> settled option" where
  "prompt_deny_decision C =
     (if session_prompt_policy C = Prompt_Deny
      then Some (D_PolicyDeny ''denied by prompt policy (tool not pre-approved)'', False, PROMPT_DENY)
      else None)"

definition decide_after_auto ::
  "('pat, 'j, 'f) manager_env \<Rightarrow> 'pat manager_config \<Rightarrow> 'j AccessKind \<Rightarrow> 'j request_facts \<Rightarrow> bool \<Rightarrow>
     ('c, 'f) manager_state \<Rightarrow> bool \<Rightarrow> settled option" where
  "decide_after_auto M C access F active st auto_forced_prompt = first_settled
     [sandbox_decision access F active auto_forced_prompt, policy_allow_decision F auto_forced_prompt,
      pre_decision M C access F st auto_forced_prompt, prompt_deny_decision C]"

section \<open>The prompt\<close>

definition request_prompt_trigger :: "'j request_facts \<Rightarrow> Reason option \<Rightarrow> Reason" where
  "request_prompt_trigger F auto_prompt_reason =
     (let opaque_floor = (case bash_evaluation F of
          Some e \<Rightarrow> \<not> exact_grant e \<and> OpaqueShell \<in> assessment e | None \<Rightarrow> False)
      in case prompt_trigger (preflight F) auto_prompt_reason of
        Some r \<Rightarrow> r
      | None \<Rightarrow>
          if opaque_floor then OPAQUE_SHELL
          else if bash_request_floor_requires_prompt (bash_evaluation F) then BASH_REQUEST_FLOOR
          else NEEDS_USER)"

text \<open>What an answer does: the new grants and whether they are persisted, whether edits are
  allowed for the session, the decision, and the kind of outcome the event reports.\<close>

record prompt_effect =
  eff_grants :: PermissionState
  eff_persist :: bool
  eff_allow_edits :: bool
  eff_decision :: Decision
  eff_kind :: PromptOutcomeKind

definition plain_effect :: "PermissionState \<Rightarrow> Decision \<Rightarrow> PromptOutcomeKind \<Rightarrow> prompt_effect" where
  "plain_effect st decision kind = \<lparr>eff_grants = st, eff_persist = False, eff_allow_edits = False,
     eff_decision = decision, eff_kind = kind\<rparr>"

definition saved_effect :: "PermissionState \<Rightarrow> Decision \<Rightarrow> PromptOutcomeKind \<Rightarrow> prompt_effect" where
  "saved_effect st decision kind = \<lparr>eff_grants = st, eff_persist = True, eff_allow_edits = False,
     eff_decision = decision, eff_kind = kind\<rparr>"

definition rejected_by_user :: Decision where
  "rejected_by_user = D_Reject ''User rejected the execution''"

definition excluded_by_user :: "string \<Rightarrow> Decision" where
  "excluded_by_user what = D_Reject (''User rejected the execution and excluded `'' @ what
     @ ''` from future runs in this project'')"

definition prompt_failed :: "string \<Rightarrow> Decision" where
  "prompt_failed e = D_Reject (''Failed to request permission from user: '' @ e)"

definition bash_prompt_effect ::
  "('pat, 'j) policy_env \<Rightarrow> string \<Rightarrow> PromptOutcome \<Rightarrow> PermissionState \<Rightarrow> prompt_effect" where
  "bash_prompt_effect E cmd outcome st =
     (let kind = outcome_kind outcome
      in case outcome of
        AllowOnce \<Rightarrow> plain_effect st D_Allow kind
      | AllowAlways \<Rightarrow>
          (let st1 = allow_bash_command cmd st
           in saved_effect (st1\<lparr>allowed_bash_commands :=
                hs_extend (allowed_bash_commands st1) (bash_grant_segments E cmd)\<rparr>) D_Allow kind)
      | AllowAlwaysBashCommand label \<Rightarrow> saved_effect (persist_bash_always_allow E cmd label st) D_Allow kind
      | AllowAlwaysBashGlob pattern \<Rightarrow>
          if bash_glob_covers_script E cmd pattern
          then saved_effect (st\<lparr>allowed_bash_globs := hs_insert pattern (allowed_bash_globs st)\<rparr>) D_Allow kind
          else plain_effect st D_Allow kind
      | AllowAlwaysDomain _ \<Rightarrow> plain_effect st D_Allow O_AllowOnce
      | AllowAlwaysMcpTool _ \<Rightarrow> plain_effect st D_Allow O_AllowOnce
      | AllowAlwaysMcpServer _ \<Rightarrow> plain_effect st D_Allow O_AllowOnce
      | AllowEditsForSession \<Rightarrow> plain_effect st D_Allow O_AllowOnce
      | RejectOnce \<Rightarrow> plain_effect st rejected_by_user kind
      | RejectAlwaysBashCommand label \<Rightarrow> saved_effect
          (st\<lparr>disallowed_bash_commands := hs_insert label (disallowed_bash_commands st)\<rparr>) (excluded_by_user label) kind
      | RejectAlwaysMcpTool _ \<Rightarrow> plain_effect st rejected_by_user O_RejectOnce
      | RejectAlwaysDomain _ \<Rightarrow> plain_effect st rejected_by_user O_RejectOnce
      | Cancelled \<Rightarrow> plain_effect st D_Cancelled kind
      | FollowupMessage msg \<Rightarrow> plain_effect st (D_FollowupMessage msg) kind
      | PromptError e \<Rightarrow> plain_effect st (prompt_failed e) kind)"

definition allow_mcp_tool :: "string \<Rightarrow> PermissionState \<Rightarrow> PermissionState" where
  "allow_mcp_tool name st = st\<lparr>allowed_mcp_tools := hs_insert name (allowed_mcp_tools st)\<rparr>"

definition mcp_server_effect ::
  "'j AccessKind \<Rightarrow> string \<Rightarrow> PermissionState \<Rightarrow> prompt_effect" where
  "mcp_server_effect access server_prefix st = (case access of
      A_MCPTool name _ \<Rightarrow> saved_effect (case parse_mcp_qualified_name name of
          Some (canonical, _) \<Rightarrow> if canonical = server_prefix
            then st\<lparr>allowed_mcp_servers := hs_insert canonical (allowed_mcp_servers st)\<rparr> else allow_mcp_tool name st
        | None \<Rightarrow> allow_mcp_tool name st) D_Allow O_AllowAlwaysMcpServer
    | _ \<Rightarrow> plain_effect st D_Allow O_AllowAlwaysMcpServer)"

definition allow_domain_effect ::
  "('pat, 'j) policy_env \<Rightarrow> 'j AccessKind \<Rightarrow> PermissionState \<Rightarrow> prompt_effect" where
  "allow_domain_effect E access st =
     (case (case access of A_WebFetch url \<Rightarrow> url_host E url | _ \<Rightarrow> None) of
        Some host \<Rightarrow> saved_effect (st\<lparr>allowed_web_fetch_domains :=
          hs_insert (normalize_domain E host) (allowed_web_fetch_domains st)\<rparr>) D_Allow O_AllowAlwaysDomain
      | None \<Rightarrow> plain_effect st D_Allow O_AllowAlwaysDomain)"

definition reject_mcp_effect :: "'j AccessKind \<Rightarrow> PermissionState \<Rightarrow> prompt_effect" where
  "reject_mcp_effect access st = (case access of
      A_MCPTool name _ \<Rightarrow> saved_effect
        (st\<lparr>disallowed_mcp_tools := hs_insert name (disallowed_mcp_tools st)\<rparr>) (excluded_by_user name) O_RejectAlwaysMcpTool
    | _ \<Rightarrow> plain_effect st rejected_by_user O_RejectOnce)"

definition reject_domain_effect ::
  "('pat, 'j) policy_env \<Rightarrow> 'j AccessKind \<Rightarrow> PermissionState \<Rightarrow> prompt_effect" where
  "reject_domain_effect E access st =
     (case (case access of A_WebFetch url \<Rightarrow> web_fetch_deny_key_from_url E url | _ \<Rightarrow> None) of
        Some domain \<Rightarrow> saved_effect (st\<lparr>disallowed_web_fetch_domains :=
          hs_insert domain (disallowed_web_fetch_domains st)\<rparr>) (excluded_by_user domain) O_RejectAlwaysDomain
      | None \<Rightarrow> plain_effect st rejected_by_user O_RejectOnce)"

definition other_prompt_effect ::
  "('pat, 'j) policy_env \<Rightarrow> 'j AccessKind \<Rightarrow> PromptOutcome \<Rightarrow> PermissionState \<Rightarrow> prompt_effect" where
  "other_prompt_effect E access outcome st =
     (let kind = outcome_kind outcome
      in case outcome of
        AllowOnce \<Rightarrow> plain_effect st D_Allow kind
      | AllowEditsForSession \<Rightarrow> (plain_effect st D_Allow kind)\<lparr>eff_allow_edits := True\<rparr>
      | AllowAlways \<Rightarrow> saved_effect (case access of A_MCPTool name _ \<Rightarrow> allow_mcp_tool name st | _ \<Rightarrow> st) D_Allow kind
      | AllowAlwaysBashCommand _ \<Rightarrow> plain_effect st D_Allow O_AllowAlwaysBash
      | AllowAlwaysBashGlob _ \<Rightarrow> plain_effect st D_Allow O_AllowAlwaysBash
      | AllowAlwaysDomain _ \<Rightarrow> allow_domain_effect E access st
      | AllowAlwaysMcpTool _ \<Rightarrow> (case access of
            A_MCPTool name _ \<Rightarrow> saved_effect (allow_mcp_tool name st) D_Allow kind
          | _ \<Rightarrow> plain_effect st D_Allow kind)
      | AllowAlwaysMcpServer server_prefix \<Rightarrow> mcp_server_effect access server_prefix st
      | RejectAlwaysBashCommand _ \<Rightarrow> plain_effect st rejected_by_user kind
      | RejectAlwaysMcpTool _ \<Rightarrow> reject_mcp_effect access st
      | RejectAlwaysDomain _ \<Rightarrow> reject_domain_effect E access st
      | RejectOnce \<Rightarrow> plain_effect st rejected_by_user kind
      | Cancelled \<Rightarrow> plain_effect st D_Cancelled kind
      | PromptError e \<Rightarrow> plain_effect st (prompt_failed e) kind
      | FollowupMessage msg \<Rightarrow> plain_effect st (D_FollowupMessage msg) kind)"

definition prompt_effect_of ::
  "('pat, 'j) policy_env \<Rightarrow> 'j AccessKind \<Rightarrow> PromptOutcome \<Rightarrow> PermissionState \<Rightarrow> prompt_effect" where
  "prompt_effect_of E access outcome st = (case access of
      A_Bash cmd \<Rightarrow> bash_prompt_effect E cmd outcome st
    | _ \<Rightarrow> other_prompt_effect E access outcome st)"

definition save_grants ::
  "('pat, 'j, 'f) manager_env \<Rightarrow> 'pat manager_config \<Rightarrow> PermissionState \<Rightarrow> 'f disk \<Rightarrow> 'f disk" where
  "save_grants M C st d = persist_state (disk_env M) (state_dir C) (client_identifier C) st d"

definition apply_effect ::
  "('pat, 'j, 'f) manager_env \<Rightarrow> 'pat manager_config \<Rightarrow> prompt_effect \<Rightarrow> ('c, 'f) manager_state \<Rightarrow>
     ('c, 'f) manager_state" where
  "apply_effect M C eff st = st\<lparr>grants := eff_grants eff,
     store_disk := (if eff_persist eff then save_grants M C (eff_grants eff) (store_disk st) else store_disk st),
     allow_edits_for_session := allow_edits_for_session st \<or> eff_allow_edits eff\<rparr>"

definition MAX_RECORDED_PERMISSION_DECISIONS :: nat where "MAX_RECORDED_PERMISSION_DECISIONS = 12"

definition prompted_decision_approved :: "Decision \<Rightarrow> string \<Rightarrow> bool option" where
  "prompted_decision_approved decision outcome_str = (case decision of
      D_Allow \<Rightarrow> Some True
    | D_Reject _ \<Rightarrow> if outcome_str \<noteq> ''error'' then Some False else None
    | _ \<Rightarrow> None)"

definition record_decision ::
  "('pat, 'j, 'f) manager_env \<Rightarrow> 'j AccessKind \<Rightarrow> 'j request_facts \<Rightarrow> Decision \<Rightarrow> string \<Rightarrow> ClassifierTurn list \<Rightarrow>
     ClassifierTurn list" where
  "record_decision M access F decision outcome_str turns =
     (case prompted_decision_approved decision outcome_str of
        None \<Rightarrow> turns
      | Some approved \<Rightarrow>
          (let turns' = turns @ [PermissionDecision (tool_name F)
               (permission_decision_args M access (access_detail F)) approved]
           in drop (length turns' - MAX_RECORDED_PERMISSION_DECISIONS) turns'))"

section \<open>One request\<close>

text \<open>The next state, the event, and the decision the requester receives, if it receives one.\<close>

type_synonym ('c, 'f) request_result = "('c, 'f) manager_state \<times> PermissionEvent \<times> Decision option"

definition set_counters :: "nat \<times> nat \<Rightarrow> ('c, 'f) manager_state \<Rightarrow> ('c, 'f) manager_state" where
  "set_counters counters st =
     st\<lparr>auto_consecutive_denials := fst counters, auto_total_denials := snd counters\<rparr>"

definition prompt_stage ::
  "('pat, 'j, 'f) manager_env \<Rightarrow> 'pat manager_config \<Rightarrow> 'j permission_request \<Rightarrow> 'j request_facts \<Rightarrow>
     ('j, 'c) request_env \<Rightarrow> RequestClassification \<Rightarrow> nat \<times> nat \<Rightarrow> Reason option \<Rightarrow> ('c, 'f) manager_state \<Rightarrow>
     ('c, 'f) request_result" where
  "prompt_stage M C R F W classification counts auto_prompt_reason st =
     (let access = req_access R; emit = emit_event C R F st classification counts
      in if closed_before_prompt W then (st, emit D_Cancelled False False None REQUESTER_GONE, None)
         else
           (let eff = prompt_effect_of (rule_env M) access (prompt_user W access (protected_edit F)) (grants st);
                decision = eff_decision eff;
                outcome_str = outcome_wire_str (eff_kind eff);
                gone = (decision = D_Cancelled \<and> closed_at_end W);
                trigger = (if gone then REQUESTER_GONE else request_prompt_trigger F auto_prompt_reason);
                st1 = apply_effect M C eff st;
                st2 = st1\<lparr>recorded_permission_decisions := record_decision M access F decision outcome_str
                  (recorded_permission_decisions st1)\<rparr>;
                st3 = (if outcome_str \<noteq> ''error'' \<and> \<not> gone then st2\<lparr>auto_consecutive_denials := 0\<rparr> else st2)
            in (st3, emit decision False True (Some outcome_str) trigger,
                if closed_at_end W then None else Some decision)))"

definition settle ::
  "'pat manager_config \<Rightarrow> 'j permission_request \<Rightarrow> 'j request_facts \<Rightarrow> ('c, 'f) manager_state \<Rightarrow>
     RequestClassification \<Rightarrow> nat \<times> nat \<Rightarrow> settled \<Rightarrow> ('c, 'f) request_result" where
  "settle C R F st classification counts d = (case d of (decision, auto_approved, reason) \<Rightarrow>
     (st, emit_event C R F st classification counts decision auto_approved False None reason, Some decision))"

definition after_auto ::
  "('pat, 'j, 'f) manager_env \<Rightarrow> 'pat manager_config \<Rightarrow> 'j permission_request \<Rightarrow> 'j request_facts \<Rightarrow>
     ('j, 'c) request_env \<Rightarrow> RequestClassification \<Rightarrow> nat \<times> nat \<Rightarrow> Reason option \<Rightarrow> ('c, 'f) manager_state \<Rightarrow>
     ('c, 'f) request_result" where
  "after_auto M C R F W classification counts auto_prompt_reason st =
     (case decide_after_auto M C (req_access R) F (sandbox_active W) st (auto_prompt_reason \<noteq> None) of
        Some d \<Rightarrow> settle C R F st classification counts d
      | None \<Rightarrow> prompt_stage M C R F W classification counts auto_prompt_reason st)"

definition handle_request ::
  "('pat, 'j, 'f) manager_env \<Rightarrow> 'pat manager_config \<Rightarrow> 'j permission_request \<Rightarrow> ('j, 'c) request_env \<Rightarrow>
     ('c, 'f) manager_state \<Rightarrow> ('c, 'f) request_result" where
  "handle_request M C R W st =
     (let access = req_access R;
          F = request_facts_of M C R W st;
          scanned = snd (request_bash_evaluation M (grants st) (scan_failed W) (request_cwd C R) access);
          counters = (auto_consecutive_denials st, auto_total_denials st);
          gone = (\<lambda>classification. emit_event C R F st classification counters D_Cancelled False False None
            REQUESTER_GONE)
      in if closed_at_dequeue W \<or> scanned \<and> closed_after_scan W then (st, gone NotClassified, None)
         else case decide_before_auto M C access F st of
           Some d \<Rightarrow> settle C R F st NotClassified counters d
         | None \<Rightarrow> (case auto_stage access F W st of (result, counts, classification) \<Rightarrow>
             (let st1 = set_counters counts st
              in case result of
                Auto_Settled d \<Rightarrow> settle C R F st1 classification counts d
              | Auto_Gone \<Rightarrow> (st1, gone classification, None)
              | Auto_Prompt reason \<Rightarrow> after_auto M C R F W classification counts (Some reason) st1
              | Auto_Skip \<Rightarrow> after_auto M C R F W classification counts None st1)))"

section \<open>Commands\<close>

datatype ('j, 'c) permission_command =
    Cmd_Request "'j permission_request"
  | Cmd_SetYoloMode bool
  | Cmd_SetAutoMode bool
  | Cmd_SetClassifier "'c option"
  | Cmd_SetClassifierTranscript "ClassifierTurn list"
  | Cmd_SetProjectInstructions "string option"
  | Cmd_ResetState
  | Cmd_Shutdown

definition set_yolo_mode_command :: "'pat manager_config \<Rightarrow> bool \<Rightarrow> ('c, 'f) manager_state \<Rightarrow> ('c, 'f) manager_state" where
  "set_yolo_mode_command C enabled st =
     (let clamped = clamp_yolo enabled (yolo_pin C);
          st1 = (if enabled \<and> \<not> clamped \<and> \<not> pin_refusal_logged st then st\<lparr>pin_refusal_logged := True\<rparr> else st);
          st2 = st1\<lparr>yolo_mode := clamped, yolo_cell := clamped\<rparr>
      in if clamped then st2\<lparr>auto_mode := False, auto_cell := False\<rparr> else st2)"

definition set_auto_mode_command :: "'c \<Rightarrow> bool \<Rightarrow> ('c, 'f) manager_state \<Rightarrow> ('c, 'f) manager_state" where
  "set_auto_mode_command default_classifier enabled st =
     (let st1 = st\<lparr>auto_mode := enabled, auto_cell := enabled\<rparr>
      in if enabled then st1\<lparr>yolo_mode := False, yolo_cell := False,
           auto_classifier := (case auto_classifier st1 of None \<Rightarrow> Some default_classifier | Some c \<Rightarrow> Some c)\<rparr>
         else st1)"

definition reset_command ::
  "('pat, 'j, 'f) manager_env \<Rightarrow> 'pat manager_config \<Rightarrow> ('c, 'f) manager_state \<Rightarrow> ('c, 'f) manager_state" where
  "reset_command M C st = st\<lparr>grants := default_state,
     store_disk := replace_state_on_disk (disk_env M) (state_dir C) (client_identifier C) default_state (store_disk st),
     allow_edits_for_session := False\<rparr>"

text \<open>One command; a request also has an event and perhaps a reply. \<open>Shutdown\<close> ends the actor.\<close>

definition manager_step ::
  "('pat, 'j, 'f) manager_env \<Rightarrow> 'pat manager_config \<Rightarrow> 'c \<Rightarrow> ('j, 'c) request_env \<Rightarrow>
     ('j, 'c) permission_command \<Rightarrow> ('c, 'f) manager_state \<Rightarrow>
     (('c, 'f) manager_state \<times> (PermissionEvent \<times> Decision option) option) option" where
  "manager_step M C default_classifier W cmd st = (case cmd of
      Cmd_Request R \<Rightarrow> Some (map_prod id Some (handle_request M C R W st))
    | Cmd_SetYoloMode enabled \<Rightarrow> Some (set_yolo_mode_command C enabled st, None)
    | Cmd_SetAutoMode enabled \<Rightarrow> Some (set_auto_mode_command default_classifier enabled st, None)
    | Cmd_SetClassifier c \<Rightarrow> Some (st\<lparr>auto_classifier := c\<rparr>, None)
    | Cmd_SetClassifierTranscript turns \<Rightarrow> Some (st\<lparr>classifier_turns := turns\<rparr>, None)
    | Cmd_SetProjectInstructions text \<Rightarrow> Some (st\<lparr>project_instructions := text\<rparr>, None)
    | Cmd_ResetState \<Rightarrow> Some (reset_command M C st, None)
    | Cmd_Shutdown \<Rightarrow> None)"

section \<open>The start\<close>

record spawn_args =
  sp_cwd :: string
  sp_state_dir :: string
  sp_legacy_dir :: "string option"
  sp_permission_config :: "PermissionConfig option"
  sp_web_fetch_allowed_domains :: "string list"
  sp_initial_yolo :: bool
  sp_client_identifier :: "string option"
  sp_remember_tool_approvals :: bool
  sp_yolo_pin :: "string option"

definition spawn_config :: "('pat, 'j, 'f) manager_env \<Rightarrow> spawn_args \<Rightarrow> 'pat manager_config" where
  "spawn_config M a = \<lparr>manager_cwd = sp_cwd a,
     client_identifier = sp_client_identifier a,
     state_dir = sp_state_dir a,
     compiled_policy = map_option (policy_new (rule_env M)) (sp_permission_config a),
     session_prompt_policy = (case sp_permission_config a of Some c \<Rightarrow> prompt_policy c | None \<Rightarrow> Prompt_Ask),
     static_domain_matcher = domain_matcher_new (rule_env M) (sp_web_fetch_allowed_domains a),
     web_fetch_allowlist_is_default = sp_web_fetch_allowed_domains a = DEFAULT_ALLOWED_DOMAINS,
     remember_tool_approvals = sp_remember_tool_approvals a,
     yolo_pin = sp_yolo_pin a\<rparr>"

text \<open>A persisted \<open>Allow\<close> of edits is a session grant of an old version: it becomes \<open>Ask\<close>, on disk too.\<close>

definition load_grants :: "('pat, 'j, 'f) manager_env \<Rightarrow> spawn_args \<Rightarrow> 'f disk \<Rightarrow> PermissionState \<times> 'f disk" where
  "load_grants M a d =
     (case load_state_with_fallback (disk_env M) (sp_state_dir a) (sp_legacy_dir a) (sp_client_identifier a) d of
        (st, d1) \<Rightarrow>
          if edit_policy st = Edit_Allow then
            (let st1 = st\<lparr>edit_policy := Edit_Ask\<rparr>
             in (st1, persist_state (disk_env M) (sp_state_dir a) (sp_client_identifier a) st1 d1))
          else (st, d1))"

definition spawn_manager ::
  "('pat, 'j, 'f) manager_env \<Rightarrow> 'c \<Rightarrow> spawn_args \<Rightarrow> 'f disk \<Rightarrow> ('c, 'f) manager_state" where
  "spawn_manager M default_classifier a d =
     (let initial_yolo = clamp_yolo (sp_initial_yolo a) (sp_yolo_pin a);
          seed_auto = (\<not> initial_yolo \<and> (case sp_permission_config a of
            Some c \<Rightarrow> prompt_policy c = Prompt_Auto | None \<Rightarrow> False));
          (loaded, d1) = load_grants M a d
      in \<lparr>grants = loaded, yolo_mode = initial_yolo, auto_mode = seed_auto,
          yolo_cell = initial_yolo, auto_cell = seed_auto,
          auto_classifier = Some default_classifier, auto_consecutive_denials = 0, auto_total_denials = 0,
          classifier_turns = [], recorded_permission_decisions = [], project_instructions = None,
          pin_refusal_logged = False, allow_edits_for_session = False, store_disk = d1\<rparr>)"

text \<open>Every run of the actor: the events it has emitted and the state it is in.\<close>

definition step_events :: "(PermissionEvent \<times> Decision option) option \<Rightarrow> PermissionEvent list" where
  "step_events out = (case out of Some (ev, _) \<Rightarrow> [ev] | None \<Rightarrow> [])"

inductive manager_run ::
  "('pat, 'j, 'f) manager_env \<Rightarrow> 'c \<Rightarrow> spawn_args \<Rightarrow> PermissionEvent list \<Rightarrow> ('c, 'f) manager_state \<Rightarrow> bool"
  for M :: "('pat, 'j, 'f) manager_env" and default_classifier :: 'c and a :: spawn_args where
  spawned: "manager_run M default_classifier a [] (spawn_manager M default_classifier a d)"
| commanded: "manager_run M default_classifier a evs st \<Longrightarrow>
    manager_step M (spawn_config M a) default_classifier W cmd st = Some (st', out) \<Longrightarrow>
    manager_run M default_classifier a (evs @ step_events out) st'"

end
