(* ===== verification/Perm_Decisions.thy ===== *)
theory Perm_Decisions
  imports Perm_Manager Perm_Gate Shell_Gate
begin

text \<open>
  How a request is settled. \<open>handled_cases\<close> splits \<open>handle_request\<close> into its five ends:
  the requester is gone, a decision before auto mode, one of auto mode, one after it, and the
  prompt. The other lemmas say what each stage needs to allow a request, and how the stages see
  a policy that denies or asks.
\<close>

section \<open>The stages\<close>

lemma first_settled_simps [simp]:
  "first_settled [] = None"
  "first_settled (None # ds) = first_settled ds"
  "first_settled (Some d # ds) = Some d"
  by (simp_all add: first_settled_def del: not_None_eq)

lemma first_settled_SomeD: "first_settled ds = Some d \<Longrightarrow> Some d \<in> set ds"
proof (induction ds)
  case (Cons x xs)
  then show ?case by (cases x) auto
qed simp

lemma first_settled_cases [consumes 1, case_names first second third fourth]:
  assumes "first_settled [a, b, c, d] = Some x"
  obtains "a = Some x" | "b = Some x" | "c = Some x" | "d = Some x"
  using first_settled_SomeD [OF assms] by auto

lemma set_counters_simps [simp]:
  "grants (set_counters k st) = grants st" "yolo_mode (set_counters k st) = yolo_mode st"
  "auto_mode (set_counters k st) = auto_mode st" "yolo_cell (set_counters k st) = yolo_cell st"
  "auto_cell (set_counters k st) = auto_cell st"
  "auto_classifier (set_counters k st) = auto_classifier st"
  "auto_consecutive_denials (set_counters k st) = fst k" "auto_total_denials (set_counters k st) = snd k"
  "recorded_permission_decisions (set_counters k st) = recorded_permission_decisions st"
  "allow_edits_for_session (set_counters k st) = allow_edits_for_session st"
  "store_disk (set_counters k st) = store_disk st"
  by (simp_all add: set_counters_def)

lemma decide_after_auto_counters [simp]:
  "decide_after_auto M C access F active (set_counters k st) forced = decide_after_auto M C access F active st forced"
proof -
  have "access_pre_decision M C access F (set_counters k st) forced = access_pre_decision M C access F st forced"
    by (cases access) (auto simp: access_pre_decision_def edit_pre_decision_def bash_pre_decision_def
        split: option.split)
  then show ?thesis by (simp add: decide_after_auto_def pre_decision_def)
qed

text \<open>The ends of a request, as one predicate per end.\<close>

definition settles_after ::
  "('pat, 'j, 'f) manager_env \<Rightarrow> 'pat manager_config \<Rightarrow> 'j permission_request \<Rightarrow> ('j, 'c) request_env \<Rightarrow>
     ('c, 'f) manager_state \<Rightarrow> bool \<Rightarrow> settled option" where
  "settles_after M C R W st forced = decide_after_auto M C (req_access R) (request_facts_of M C R W st)
     (sandbox_active W) st forced"

lemma handled_cases:
  assumes "handle_request M C R W st = (st', ev, reply)"
  obtains
    (gone) k cl where "st' = st \<or> st' = set_counters k st
        \<and> auto_stage (req_access R) (request_facts_of M C R W st) W st = (Auto_Gone, k, cl)"
      "reply = None" "ev_decision_reason ev = REQUESTER_GONE"
      "\<not> ev_user_prompted ev"
  | (before) d where "decide_before_auto M C (req_access R) (request_facts_of M C R W st) st = Some d"
      "st' = st" "reply = Some (fst d)" "ev_decision_reason ev = snd (snd d)" "\<not> ev_user_prompted ev"
  | (auto) d k cl where "decide_before_auto M C (req_access R) (request_facts_of M C R W st) st = None"
      "auto_stage (req_access R) (request_facts_of M C R W st) W st = (Auto_Settled d, k, cl)"
      "st' = set_counters k st" "reply = Some (fst d)" "ev_decision_reason ev = snd (snd d)"
      "\<not> ev_user_prompted ev"
  | (later) d r k cl where "decide_before_auto M C (req_access R) (request_facts_of M C R W st) st = None"
      "auto_stage (req_access R) (request_facts_of M C R W st) W st = (r, k, cl)"
      "r = Auto_Skip \<or> (\<exists>reason. r = Auto_Prompt reason)"
      "settles_after M C R W st (r \<noteq> Auto_Skip) = Some d"
      "st' = set_counters k st" "reply = Some (fst d)" "ev_decision_reason ev = snd (snd d)"
      "\<not> ev_user_prompted ev"
  | (prompted) r k cl reason where
      "decide_before_auto M C (req_access R) (request_facts_of M C R W st) st = None"
      "auto_stage (req_access R) (request_facts_of M C R W st) W st = (r, k, cl)"
      "r = Auto_Skip \<and> reason = None \<or> (\<exists>x. r = Auto_Prompt x \<and> reason = Some x)"
      "settles_after M C R W st (r \<noteq> Auto_Skip) = None"
      "prompt_stage M C R (request_facts_of M C R W st) W cl k reason (set_counters k st) = (st', ev, reply)"
proof (cases "closed_at_dequeue W
    \<or> snd (request_bash_evaluation M (grants st) (scan_failed W) (request_cwd C R) (req_access R)) \<and> closed_after_scan W")
  case True
  show thesis by (rule gone) (use assms True in \<open>auto simp: handle_request_def Let_def emit_event_def\<close>)
next
  case open_request: False
  let ?F = "request_facts_of M C R W st"
  show thesis
  proof (cases "decide_before_auto M C (req_access R) ?F st")
    case (Some d)
    show thesis
      by (rule before [OF Some])
        (use assms open_request Some in \<open>auto simp: handle_request_def Let_def settle_def emit_event_def
          split: prod.splits\<close>)
  next
    case None
    obtain r k cl where stage: "auto_stage (req_access R) ?F W st = (r, k, cl)" by (metis prod_cases3)
    have run: "(case r of
        Auto_Settled d \<Rightarrow> settle C R ?F (set_counters k st) cl k d
      | Auto_Gone \<Rightarrow> (set_counters k st, emit_event C R ?F st cl (auto_consecutive_denials st, auto_total_denials st)
          D_Cancelled False False None REQUESTER_GONE, None)
      | Auto_Prompt reason \<Rightarrow> after_auto M C R ?F W cl k (Some reason) (set_counters k st)
      | Auto_Skip \<Rightarrow> after_auto M C R ?F W cl k None (set_counters k st)) = (st', ev, reply)"
      using assms open_request None stage by (simp add: handle_request_def Let_def)
    have after: thesis if "after_auto M C R ?F W cl k reason (set_counters k st) = (st', ev, reply)"
      and r: "r = Auto_Skip \<and> reason = None \<or> (\<exists>x. r = Auto_Prompt x \<and> reason = Some x)" for reason
    proof (cases "settles_after M C R W st (r \<noteq> Auto_Skip)")
      case (Some d)
      show thesis
        by (rule later [OF None stage _ Some])
          (use r that(1) Some in \<open>auto simp: after_auto_def settles_after_def settle_def emit_event_def
            split: prod.splits\<close>)
    next
      case settled: None
      show thesis
        by (rule prompted [OF None stage r settled])
          (use r that(1) settled in \<open>auto simp: after_auto_def settles_after_def\<close>)
    qed
    show thesis
    proof (cases r)
      case (Auto_Settled d)
      show thesis
        by (rule auto [OF None stage [unfolded Auto_Settled]])
          (use run Auto_Settled in \<open>auto simp: settle_def emit_event_def split: prod.splits\<close>)
    next
      case Auto_Gone
      show thesis by (rule gone) (use run stage Auto_Gone in \<open>auto simp: emit_event_def\<close>)
    qed (use run after in auto)
  qed
qed

section \<open>What the policy makes of a request\<close>

text \<open>The direct check answers with a rejection, a question or an approval.\<close>

definition plain_direct :: "GatePreflight \<Rightarrow> bool" where
  "plain_direct pf \<longleftrightarrow> direct pf \<in> {None, Some D_Allow, Some D_Ask} \<or> (\<exists>r. direct pf = Some (D_Reject r))"

definition rejects :: "GatePreflight \<Rightarrow> bool" where
  "rejects pf \<longleftrightarrow> (\<exists>r. direct pf = Some (D_Reject r) \<or> bash_command pf = Some (G_Reject r)
     \<or> shell_file pf = Some (G_Reject r))"

definition asks :: "GatePreflight \<Rightarrow> bool" where
  "asks pf \<longleftrightarrow> direct pf = Some D_Ask \<or> shell_forced_prompt pf"

lemma policy_decision_cases:
  assumes "plain_direct pf"
  shows "rejects pf \<Longrightarrow> \<exists>r. policy_decision pf = Some (D_Reject r)"
    and "\<not> rejects pf \<Longrightarrow> policy_decision pf =
      (if asks pf then Some D_Ask else direct pf)"
proof -
  obtain d b f where pf: "direct pf = d" "bash_command pf = b" "shell_file pf = f" by blast
  note defs = rejects_def asks_def policy_decision_def pf combine_decisions_def into_decision_def
    decision_rank_def shell_forced_prompt_def bash_command_asks_def shell_file_forced_prompt_def is_ask_def
  have d: "d \<in> {None, Some D_Allow, Some D_Ask} \<or> (\<exists>r. d = Some (D_Reject r))"
    using assms by (simp add: plain_direct_def pf)
  have b: "b \<in> {None, Some AskRuleMatch, Some AskFailClosed} \<or> (\<exists>r. b = Some (G_Reject r))"
    by (cases b; cases "the b") auto
  have f: "f \<in> {None, Some AskRuleMatch, Some AskFailClosed} \<or> (\<exists>r. f = Some (G_Reject r))"
    by (cases f; cases "the f") auto
  show "rejects pf \<Longrightarrow> \<exists>r. policy_decision pf = Some (D_Reject r)"
    using d b f by (elim disjE exE) (auto simp: defs)
  show "\<not> rejects pf \<Longrightarrow> policy_decision pf = (if asks pf then Some D_Ask else direct pf)"
    using d b f by (elim disjE exE) (auto simp: defs)
qed

lemma preflight_simps [simp]:
  "direct (preflight_evaluate E fs (Some p) access cwd auto) = evaluate_with_cwd E p access (Some cwd)"
  "bash_command (preflight_evaluate E fs (Some p) access cwd auto)
     = (case access of A_Bash cmd \<Rightarrow> evaluate_bash_command_gate E p cmd | _ \<Rightarrow> None)"
  "shell_file (preflight_evaluate E fs (Some p) access cwd auto)
     = (case access of A_Bash cmd \<Rightarrow> evaluate_shell_file_access_gate E fs p cmd cwd | _ \<Rightarrow> None)"
  "direct (preflight_evaluate E fs None access cwd auto) = None"
  "bash_command (preflight_evaluate E fs None access cwd auto) = None"
  "shell_file (preflight_evaluate E fs None access cwd auto) = None"
  by (simp_all add: preflight_evaluate_def Let_def split: AccessKind.split)

lemma preflight_defers:
  "defers_gate_ask (preflight_evaluate E fs p access cwd auto) \<longleftrightarrow> auto
     \<and> fail_closed_ask (preflight_evaluate E fs p access cwd auto)
     \<and> \<not> rule_match_ask (preflight_evaluate E fs p access cwd auto)"
  by (auto simp: preflight_evaluate_def Let_def fail_closed_ask_def rule_match_ask_def)

lemma plain_preflight: "plain_direct (preflight_evaluate E fs (map_option (policy_new E) c) access cwd auto)"
  by (cases c) (auto simp: plain_direct_def evaluate_cases split: option.split)

text \<open>A deny rule concerns a request itself, a command it is seen to run or a file it is seen to touch.\<close>

inductive denied_access ::
  "('pat, 'j) policy_env \<Rightarrow> fs_env \<Rightarrow> PermissionConfig \<Rightarrow> string \<Rightarrow> 'j AccessKind \<Rightarrow> bool" for E fs c cwd where
  itself: "some_rule E c R_Deny access (Some cwd) \<Longrightarrow> denied_access E fs c cwd access"
| runs: "seen_running E MAX_INLINE_SHELL_DEPTH script w \<Longrightarrow>
    some_rule E c R_Deny (A_Bash (join_words w)) None \<Longrightarrow> denied_access E fs c cwd (A_Bash script)"
| touches: "touches_file E MAX_INLINE_SHELL_DEPTH False script t m v \<Longrightarrow> x \<in> checked_spellings fs cwd t v \<Longrightarrow>
    some_rule E c R_Deny (shell_access m x) (rule_cwd_of cwd t v) \<Longrightarrow> denied_access E fs c cwd (A_Bash script)"

lemma seen_running_rejected:
  assumes "seen_running E MAX_INLINE_SHELL_DEPTH script w" and "some_rule E c R_Deny (A_Bash (join_words w)) None"
  shows "\<exists>r. evaluate_bash_command_gate E (policy_new E c) script = Some (G_Reject r)"
proof -
  have "3 \<le> gate_level (escalate E (policy_new E c) (join_words w))" using assms(2) by (simp add: escalate_level)
  also have "\<dots> \<le> gate_level (evaluate_bash_command_segments E (policy_new E c) MAX_INLINE_SHELL_DEPTH script)"
    by (rule seen_running_level [OF assms(1)])
  finally show ?thesis
    using bash_restrictions assms(2) by (fastforce simp: gate_level_iff evaluate_bash_command_gate_def)
qed

lemma touched_file_rejected:
  fixes E :: "('pat, 'j) policy_env"
  assumes "touches_file E MAX_INLINE_SHELL_DEPTH False script t m v" and "x \<in> checked_spellings fs cwd t v"
    and "some_rule E c R_Deny (shell_access m x :: 'j AccessKind) (rule_cwd_of cwd t v)"
  shows "\<exists>r. evaluate_shell_file_access_gate E fs (policy_new E c) script cwd = Some (G_Reject r)"
proof -
  let ?p = "policy_new E c"
  have "3 \<le> gate_level (escalate_file E ?p (rule_cwd_of cwd t v) (shell_access m x))"
    using assms(3) by (simp add: escalate_file_level)
  also have "\<dots> \<le> gate_level (evaluate_shell_path E fs ?p t cwd m v)" by (rule spelling_level [OF assms(2)])
  also have "\<dots> \<le> gate_level (evaluate_shell_file_access_gate E fs ?p script cwd)"
    using touched_file_level [OF assms(1), of fs ?p cwd False] file_restrictions [OF assms(3)]
    by (simp add: evaluate_shell_file_access_gate_def)
  finally show ?thesis by (simp add: gate_level_iff)
qed

lemma denied_rejects:
  assumes "denied_access E fs c cwd access"
  shows "rejects (preflight_evaluate E fs (Some (policy_new E c)) access cwd auto)"
  using assms
proof cases
  case itself
  then show ?thesis using evaluate_reject_iff [of E c access "Some cwd"] by (auto simp: rejects_def)
next
  case (runs script w)
  then show ?thesis using seen_running_rejected [OF runs(2,3)] by (auto simp: rejects_def)
next
  case (touches script t m v x)
  then show ?thesis using touched_file_rejected [OF touches(2-4)] by (auto simp: rejects_def)
qed

lemma denied_decision:
  assumes "denied_access E fs c cwd access"
  shows "\<exists>r. policy_decision (preflight_evaluate E fs (Some (policy_new E c)) access cwd auto) = Some (D_Reject r)"
  using policy_decision_cases(1) [OF plain_preflight [of E fs "Some c"], simplified] denied_rejects [OF assms] by blast

lemma facts_simps [simp]:
  "preflight (request_facts_of M C R W st) = preflight_evaluate (rule_env M) (file_env M) (compiled_policy C)
     (req_access R) (request_cwd C R) (auto_mode st)"
  "protected_edit (request_facts_of M C R W st) = protected_edit_target M C R"
  "tool_name (request_facts_of M C R W st) = tool_name_for_access (req_access R)"
  "bash_evaluation (request_facts_of M C R W st)
     = fst (request_bash_evaluation M (grants st) (scan_failed W) (request_cwd C R) (req_access R))"
  by (simp_all add: request_facts_of_def Let_def)

lemma policy_deny_first:
  assumes "policy_decision (preflight F) = Some (D_Reject r)"
  shows "decide_before_auto M C access F st = Some (D_PolicyDeny r, False, POLICY_DENY)"
  using assms by (simp add: decide_before_auto_def policy_deny_decision_def)

section \<open>What an approval needs\<close>

text \<open>Some one who may say yes: the user who was shown the request, or the classifier of auto mode.\<close>

definition user_approves :: "PromptOutcome \<Rightarrow> bool" where
  "user_approves outcome \<longleftrightarrow> outcome \<in> {AllowOnce, AllowAlways, AllowEditsForSession}
     \<or> (\<exists>x. outcome \<in> {AllowAlwaysBashCommand x, AllowAlwaysBashGlob x, AllowAlwaysDomain x,
          AllowAlwaysMcpTool x, AllowAlwaysMcpServer x})"

definition classifier_approves ::
  "('pat, 'j, 'f) manager_env \<Rightarrow> 'j permission_request \<Rightarrow> ('j, 'c) request_env \<Rightarrow> ('c, 'f) manager_state \<Rightarrow>
     BashSecurityAssessment \<Rightarrow> bool" where
  "classifier_approves M R W st found \<longleftrightarrow> auto_mode st \<and> (\<exists>clf out. auto_classifier st = Some clf
     \<and> classify_answer W clf (tool_name_for_access (req_access R)) (req_access R)
         (snd (access_kind_and_detail M (req_access R))) (classifier_context st found) = Some out
     \<and> clf_verdict out = V_Allow)"

lemma effect_approves:
  "eff_decision (prompt_effect_of E access outcome g) = D_Allow \<longleftrightarrow> user_approves outcome"
  by (cases access; cases outcome)
    (auto simp: prompt_effect_of_def bash_prompt_effect_def other_prompt_effect_def plain_effect_def saved_effect_def
      user_approves_def rejected_by_user_def excluded_by_user_def prompt_failed_def mcp_server_effect_def
      allow_domain_effect_def reject_mcp_effect_def reject_domain_effect_def Let_def
      split: option.split)

lemma prompt_approval:
  assumes "prompt_stage M C R F W cl k reason st = (st', ev, Some D_Allow)"
  shows "ev_user_prompted ev" and "user_approves (prompt_user W (req_access R) (protected_edit F))"
  using assms
  by (auto simp: prompt_stage_def Let_def emit_event_def dest: effect_approves [THEN iffD1] split: if_splits)

lemma auto_approval:
  assumes "auto_stage (req_access R) (request_facts_of M C R W st) W st = (Auto_Settled d, k, cl)" and "fst d = D_Allow"
  shows "auto_mode st \<and> admits_auto_classifier (preflight (request_facts_of M C R W st))
    \<and> (auto_mode_fast_path (req_access R) (tool_name_for_access (req_access R)) False = Fast_Allow
       \<or> classifier_approves M R W st (classifier_assessment (bash_evaluation (request_facts_of M C R W st))
           (defers_gate_ask (preflight (request_facts_of M C R W st)))))"
proof -
  let ?F = "request_facts_of M C R W st"
  have on: "auto_mode st" "admits_auto_classifier (preflight ?F)"
    using assms(1) by (auto simp: auto_stage_def Let_def split: if_splits)
  let ?needs = "protected_edit ?F \<noteq> None \<or> access_requires_user_interaction (tool_name ?F) (req_access R)"
  show ?thesis
  proof (cases "auto_mode_fast_path (req_access R) (tool_name ?F) ?needs")
    case Fast_Allow
    then have "\<not> ?needs" by (auto simp: auto_mode_fast_path_def split: if_splits)
    then show ?thesis using on Fast_Allow by simp
  next
    case Fast_PromptUser
    then show ?thesis using assms(1) on by (simp add: auto_stage_def Let_def)
  next
    case Fast_Classify
    then have run: "run_classifier (req_access R) ?F W st = (Auto_Settled d, k, cl)"
      using assms(1) on by (simp add: auto_stage_def Let_def)
    have "access_detail ?F = snd (access_kind_and_detail M (req_access R))"
      by (simp add: request_facts_of_def Let_def)
    then show ?thesis
      using run on assms(2)
      by (auto simp: run_classifier_def Let_def auto_verdict_def classifier_approves_def
          split: option.splits prod.splits ClassifierVerdict.splits if_splits)
  qed
qed

text \<open>The four ways a shell command is allowed after auto mode, and the three before it.\<close>

lemma bash_before_approval:
  assumes "decide_before_auto M C (A_Bash cmd) F st = Some d" and "fst d = D_Allow"
  shows "yolo_mode st \<and> \<not> shell_forced_prompt (preflight F)
    \<or> \<not> policy_forced_prompt (preflight F) \<and> \<not> shell_forced_prompt (preflight F)
      \<and> (\<exists>e reason. bash_evaluation F = Some e
          \<and> bash_grant_pre_decision cmd e (grants st) (yolo_pin C) PRE_CLASSIFIER = Some (D_Allow, reason))
    \<or> auto_mode st \<and> \<not> policy_forced_prompt (preflight F) \<and> \<not> shell_forced_prompt (preflight F)
      \<and> policy_decision (preflight F) = Some D_Allow \<and> \<not> bash_request_floor_requires_prompt (bash_evaluation F)"
proof -
  have clear: "bash_assessment_is_clear x \<Longrightarrow> \<not> bash_request_floor_requires_prompt x" for x
    by (auto simp: bash_assessment_is_clear_def bash_request_floor_requires_prompt_def
        constrains_broad_grant_iff split: option.splits)
  from assms(1) [unfolded decide_before_auto_def] show ?thesis
  proof (cases rule: first_settled_cases)
    case first
    then show ?thesis
      using assms(2) by (auto simp: policy_deny_decision_def split: option.splits Decision.splits)
  next
    case second
    then show ?thesis by (auto simp: yolo_decision_def split: if_splits)
  next
    case third
    then show ?thesis
      using assms(2)
      by (auto simp: session_grant_decision_def session_grant_pre_decision_def split: if_splits option.splits)
  next
    case fourth
    then show ?thesis by (auto simp: broad_allow_decision_def clear split: if_splits)
  qed
qed

lemma bash_later_approval:
  assumes "decide_after_auto M C (A_Bash cmd) F active st forced = Some d" and "fst d = D_Allow"
  shows "\<not> bash_request_floor_requires_prompt (bash_evaluation F)
    \<and> (active \<and> \<not> policy_forced_prompt (preflight F) \<and> \<not> forced
       \<or> policy_decision (preflight F) = Some D_Allow \<and> \<not> forced
       \<or> (\<exists>e reason. bash_evaluation F = Some e
          \<and> (\<not> policy_forced_prompt (preflight F) \<and>
               bash_grant_pre_decision cmd e (grants st) (yolo_pin C) (post_classify forced) = Some (D_Allow, reason)
             \<or> policy_forced_prompt (preflight F) \<and> remember_tool_approvals C \<and> \<not> forced
               \<and> \<not> shell_file_forced_prompt (preflight F)
               \<and> bash_grant_pre_decision cmd e (grants st) (yolo_pin C) ASK_FLOOR_REMEMBER = Some (D_Allow, reason))))"
  using assms(1) [unfolded decide_after_auto_def]
proof (cases rule: first_settled_cases)
  case first
  then show ?thesis by (auto simp: sandbox_decision_def sandbox_may_auto_allow_bash_def split: if_splits)
next
  case second
  then show ?thesis
    using assms(2) by (auto simp: policy_allow_decision_def split: option.splits Decision.splits if_splits)
next
  case third
  then obtain reason where "access_pre_decision M C (A_Bash cmd) F st forced = Some (D_Allow, reason)"
    using assms(2) by (auto simp: pre_decision_def split: option.splits if_splits)
  then show ?thesis
    by (auto simp: access_pre_decision_def bash_pre_decision_def split: option.splits if_splits)
next
  case fourth
  then show ?thesis using assms(2) by (auto simp: prompt_deny_decision_def split: if_splits)
qed

lemma floor_no_grant:
  assumes "bash_grant_pre_decision cmd e g pin opts = Some (D_Allow, reason)"
  shows "\<not> bash_request_floor_requires_prompt (Some e)"
  using assms by (auto simp: bash_grant_pre_decision_def split: SegmentEvaluation.splits if_splits)

end
