(* ===== verification/Perm_Grants.thy ===== *)
theory Perm_Grants
  imports Perm_Evaluate
begin

text \<open>
  What the evaluation of a shell command depends on. Its verdict in terms of the single
  segments; its monotonicity: more grants with no new refusal never turn an approval into a
  question; and what an answer adds to the grants.
\<close>

section \<open>The scan, segment by segment\<close>

definition segment_words :: "PlainCommand \<Rightarrow> string list" where
  "segment_words parsed = unwrap_wrappers (pc_words parsed)"

text \<open>A segment that passes: bookkeeping of the shell, or not refused, not dangerous, without a
  special way to run code unless granted word for word, and granted or known to be safe.\<close>

definition segment_refused :: "PermissionState \<Rightarrow> string list \<Rightarrow> bool" where
  "segment_refused g words \<longleftrightarrow> (\<exists>d \<in> set (disallowed_bash_commands g). matches_whitelist_prefix (join_words words) d)"

definition segment_passes :: "('pat, 'j) policy_env \<Rightarrow> PermissionState \<Rightarrow> bool \<Rightarrow> string list \<Rightarrow> bool" where
  "segment_passes E g honor words \<longleftrightarrow> is_setup_command words
     \<or> \<not> segment_refused g words \<and> \<not> is_dangerous_command_words words
       \<and> (special_exec_surface words \<longrightarrow> join_words words \<in> set (allowed_bash_commands g))
       \<and> (segment_granted E g words \<or> honor \<and> (is_safe_command_words words \<or> is_always_safe_command_words words))"

lemma scan_facts_simps [simp]:
  "needs_prompt (scan_facts words sc) = needs_prompt sc" "rejected (scan_facts words sc) = rejected sc"
  "all_granted (scan_facts words sc) = all_granted sc"
  by (simp_all add: scan_facts_def Let_def)

lemma find_refused: "List.find (matches_whitelist_prefix (join_words words)) (disallowed_bash_commands g) = None
    \<longleftrightarrow> \<not> segment_refused g words"
  by (auto simp: segment_refused_def find_None_iff)

lemma scan_segment_rejected:
  assumes "rejected sc = None"
  shows "rejected (scan_segment E g honor parsed sc) = None
    \<longleftrightarrow> is_setup_command (segment_words parsed) \<or> \<not> segment_refused g (segment_words parsed)"
  using assms find_refused [of "segment_words parsed" g]
  by (auto simp: scan_segment_def scan_verdict_def Let_def segment_words_def split: option.splits)

lemma scan_segment_passes:
  assumes "rejected (scan_segment E g honor parsed sc) = None" and "rejected sc = None"
  shows "needs_prompt (scan_segment E g honor parsed sc) =
      needs_prompt sc @ (if segment_passes E g honor (segment_words parsed) then []
        else [join_words (segment_words parsed)])
    \<and> (all_granted (scan_segment E g honor parsed sc) \<longleftrightarrow> all_granted sc
      \<and> (is_setup_command (segment_words parsed) \<or> segment_granted E g (segment_words parsed)))"
proof (cases "is_setup_command (segment_words parsed)")
  case False
  then have "List.find (matches_whitelist_prefix (join_words (segment_words parsed))) (disallowed_bash_commands g) = None"
    and "\<not> segment_refused g (segment_words parsed)"
    using assms scan_segment_rejected [OF assms(2)] by (auto simp: find_refused)
  with False show ?thesis
    by (auto simp: scan_segment_def scan_verdict_def Let_def segment_words_def segment_passes_def)
qed (simp add: scan_segment_def Let_def segment_words_def segment_passes_def)

lemma scan_segments_split:
  "rejected (scan_segments E g honor (parsed # rest) sc) = None \<longleftrightarrow>
     rejected (scan_segment E g honor parsed sc) = None
     \<and> rejected (scan_segments E g honor rest (scan_segment E g honor parsed sc)) = None"
  by (auto simp: Let_def)

lemma scan_segments_step:
  "rejected (scan_segment E g honor parsed sc) = None \<Longrightarrow>
     scan_segments E g honor (parsed # rest) sc = scan_segments E g honor rest (scan_segment E g honor parsed sc)"
  by (simp add: Let_def)

declare scan_segments.simps(2) [simp del]

lemma scan_segments_clean:
  assumes "rejected sc = None" and "rejected (scan_segments E g honor segs sc) = None"
  shows "needs_prompt (scan_segments E g honor segs sc) = needs_prompt sc
      @ map (\<lambda>parsed. join_words (segment_words parsed))
          (filter (\<lambda>parsed. \<not> segment_passes E g honor (segment_words parsed)) segs)
    \<and> (all_granted (scan_segments E g honor segs sc) \<longleftrightarrow> all_granted sc
      \<and> (\<forall>parsed \<in> set segs. is_setup_command (segment_words parsed) \<or> segment_granted E g (segment_words parsed)))"
  using assms
proof (induction segs arbitrary: sc)
  case (Cons parsed rest)
  from Cons.prems(2) have one: "rejected (scan_segment E g honor parsed sc) = None"
    and rest: "rejected (scan_segments E g honor rest (scan_segment E g honor parsed sc)) = None"
    by (simp_all add: scan_segments_split)
  show ?case
    unfolding scan_segments_step [OF one] using Cons.IH [OF one rest] scan_segment_passes [OF one Cons.prems(1)]
    by auto
qed simp

lemma scan_segments_rejected:
  "rejected sc = None \<Longrightarrow> rejected (scan_segments E g honor segs sc) = None \<longleftrightarrow>
     (\<forall>parsed \<in> set segs. is_setup_command (segment_words parsed) \<or> \<not> segment_refused g (segment_words parsed))"
proof (induction segs arbitrary: sc)
  case (Cons parsed rest)
  show ?case
    unfolding scan_segments_split
    using scan_segment_rejected [OF Cons.prems, of E g honor parsed]
      Cons.IH [of "scan_segment E g honor parsed sc"] by auto
qed simp

section \<open>Findings\<close>

definition surface_excused :: "PermissionState \<Rightarrow> string list \<Rightarrow> bool" where
  "surface_excused g words \<longleftrightarrow> special_exec_surface words \<longrightarrow> join_words words \<in> set (allowed_bash_commands g)"

text \<open>The findings of one segment depend on the grants only through an exact grant.\<close>

definition verdict_findings :: "PermissionState \<Rightarrow> string list \<Rightarrow> BashSecurityAssessment" where
  "verdict_findings g words =
     (if is_setup_command words \<or> segment_refused g words then {}
      else if is_dangerous_command_words words then {DangerousCommand}
      else if \<not> surface_excused g words then {SpecialExecSurface} else {})"

definition fact_findings :: "string list \<Rightarrow> BashSecurityAssessment" where
  "fact_findings raw = (if words_are_opaque_shell (map W_Literal (unwrap_wrappers raw)) then {OpaqueShell} else {})
     \<union> (if exec_risk (segment_exec_facts raw) then {ExecOrAmbientGit} else {})"

lemma findings_scan_facts: "findings (scan_facts raw sc) = findings sc \<union> fact_findings raw"
  by (auto simp: scan_facts_def Let_def fact_findings_def)

lemma scan_facts_git:
  "has_git_command (scan_facts raw sc) \<longleftrightarrow> has_git_command sc \<or> has_git (segment_exec_facts raw)"
  "scan_exec_risk (scan_facts raw sc) \<longleftrightarrow> scan_exec_risk sc \<or> exec_risk (segment_exec_facts raw)"
  by (simp_all add: scan_facts_def Let_def)

lemma scan_segment_findings:
  "findings (scan_segment E g honor parsed sc)
     = findings sc \<union> fact_findings (pc_words parsed) \<union> verdict_findings g (segment_words parsed)"
  "has_git_command (scan_segment E g honor parsed sc)
     \<longleftrightarrow> has_git_command sc \<or> has_git (segment_exec_facts (pc_words parsed))"
  "scan_exec_risk (scan_segment E g honor parsed sc)
     \<longleftrightarrow> scan_exec_risk sc \<or> exec_risk (segment_exec_facts (pc_words parsed))"
  using find_refused [of "segment_words parsed" g]
  by (auto simp: scan_segment_def scan_verdict_def Let_def segment_words_def [symmetric] verdict_findings_def
      surface_excused_def findings_scan_facts scan_facts_git split: option.splits)

lemma scan_segments_findings:
  assumes "rejected sc = None" and "rejected (scan_segments E g honor segs sc) = None"
  shows "findings (scan_segments E g honor segs sc) = findings sc
      \<union> (\<Union>parsed \<in> set segs. fact_findings (pc_words parsed) \<union> verdict_findings g (segment_words parsed))
    \<and> (has_git_command (scan_segments E g honor segs sc) \<longleftrightarrow> has_git_command sc
      \<or> (\<exists>parsed \<in> set segs. has_git (segment_exec_facts (pc_words parsed))))
    \<and> (scan_exec_risk (scan_segments E g honor segs sc) \<longleftrightarrow> scan_exec_risk sc
      \<or> (\<exists>parsed \<in> set segs. exec_risk (segment_exec_facts (pc_words parsed))))"
  using assms
proof (induction segs arbitrary: sc)
  case (Cons parsed rest)
  from Cons.prems(2) have one: "rejected (scan_segment E g honor parsed sc) = None"
    and rest: "rejected (scan_segments E g honor rest (scan_segment E g honor parsed sc)) = None"
    by (simp_all add: scan_segments_split)
  show ?case
    unfolding scan_segments_step [OF one] using Cons.IH [OF one rest]
    by (auto simp: scan_segment_findings)
qed simp

section \<open>More grants\<close>

definition more_grants :: "PermissionState \<Rightarrow> PermissionState \<Rightarrow> bool" where
  "more_grants g h \<longleftrightarrow> (allow_bash_execute g \<longrightarrow> allow_bash_execute h)
     \<and> set (allowed_bash_commands g) \<subseteq> set (allowed_bash_commands h)
     \<and> set (allowed_bash_globs g) \<subseteq> set (allowed_bash_globs h)"

lemma more_grants_trans: "more_grants f g \<Longrightarrow> more_grants g h \<Longrightarrow> more_grants f h"
  unfolding more_grants_def by (meson subset_trans)

lemma granted_mono: "more_grants g h \<Longrightarrow> segment_granted E g words \<Longrightarrow> segment_granted E h words"
  by (auto simp: segment_granted_def more_grants_def list_ex_iff Let_def split: if_splits)

lemma whole_script_mono:
  "more_grants g h \<Longrightarrow> whole_script_grant E cmd segs g \<Longrightarrow> whole_script_grant E cmd segs h"
  by (auto simp: whole_script_grant_def more_grants_def split: list.splits if_splits)

lemma verdict_findings_mono:
  "more_grants g h \<Longrightarrow> \<not> segment_refused g words \<Longrightarrow> verdict_findings h words \<subseteq> verdict_findings g words"
  by (auto simp: verdict_findings_def surface_excused_def more_grants_def)

lemma passes_mono:
  "more_grants g h \<Longrightarrow> is_setup_command words \<or> \<not> segment_refused h words \<Longrightarrow> segment_passes E g honor words \<Longrightarrow>
     segment_passes E h honor words"
  using granted_mono [of g h E words] by (auto simp: segment_passes_def more_grants_def)

definition not_rejected :: "SegmentEvaluation \<Rightarrow> bool" where
  "not_rejected seg \<longleftrightarrow> (case seg of Seg_Reject _ \<Rightarrow> False | _ \<Rightarrow> True)"

text \<open>What an evaluation says when nothing is refused, and how it changes with more grants.\<close>

definition evaluation_le :: "BashEvaluation \<Rightarrow> BashEvaluation \<Rightarrow> bool" where
  "evaluation_le d e \<longleftrightarrow> (exact_grant d \<longrightarrow> exact_grant e) \<and> assessment e \<subseteq> assessment d
     \<and> (DangerousCommand \<in> assessment d \<longrightarrow> DangerousCommand \<in> assessment e)
     \<and> (all_segments_granted d \<longrightarrow> all_segments_granted e)
     \<and> ambient_segments e = ambient_segments d
     \<and> (case segments d of
          Seg_AutoAllow _ \<Rightarrow> (\<exists>v. segments e = Seg_AutoAllow v)
        | Seg_Unparseable \<Rightarrow> segments e = Seg_Unparseable
        | Seg_NeedsPrompts _ \<Rightarrow> (\<exists>v. segments e = Seg_AutoAllow v) \<or> (\<exists>ps. segments e = Seg_NeedsPrompts ps)
        | Seg_Reject _ \<Rightarrow> False)"

lemma undecomposable_mono:
  assumes "more_grants g h" and "not_rejected (segments (undecomposable cmd g found))"
    and "not_rejected (segments (undecomposable cmd h found))"
  shows "evaluation_le (undecomposable cmd g found) (undecomposable cmd h found)"
  using assms
  by (auto simp: undecomposable_def raw_deny_rejection_def evaluation_le_def not_rejected_def more_grants_def
      split: option.splits)

lemma evaluation_of_scan_mono:
  assumes "more_grants g h"
    and g: "rejected (scan_segments E g honor segs (scan_start found)) = None"
    and h: "rejected (scan_segments E h honor segs (scan_start found)) = None"
  shows "evaluation_le
    (evaluation_of_scan segs (whole_script_grant E cmd segs g) (scan_segments E g honor segs (scan_start found)))
    (evaluation_of_scan segs (whole_script_grant E cmd segs h) (scan_segments E h honor segs (scan_start found)))"
proof -
  have start: "rejected (scan_start found) = None" "needs_prompt (scan_start found) = []"
    "all_granted (scan_start found)" "findings (scan_start found) = found"
    "\<not> has_git_command (scan_start found)" "\<not> scan_exec_risk (scan_start found)"
    by (simp_all add: scan_start_def)
  have ok: "is_setup_command (segment_words parsed) \<or> \<not> segment_refused h (segment_words parsed)"
      "is_setup_command (segment_words parsed) \<or> \<not> segment_refused g (segment_words parsed)"
    if "parsed \<in> set segs" for parsed
    using that g h scan_segments_rejected [OF start(1)] by blast+
  have found: "verdict_findings h (segment_words parsed) \<subseteq> verdict_findings g (segment_words parsed)"
    if "parsed \<in> set segs" for parsed
  proof (cases "is_setup_command (segment_words parsed)")
    case False
    then show ?thesis using ok(2) [OF that] verdict_findings_mono [OF assms(1)] by blast
  qed (simp add: verdict_findings_def)
  note cg = scan_segments_clean [OF start(1) g] scan_segments_findings [OF start(1) g]
  note ch = scan_segments_clean [OF start(1) h] scan_segments_findings [OF start(1) h]
  have dangerous: "DangerousCommand \<in> verdict_findings h (segment_words parsed)"
    if "parsed \<in> set segs" "DangerousCommand \<in> verdict_findings g (segment_words parsed)" for parsed
    using ok [OF that(1)] that(2) by (auto simp: verdict_findings_def split: if_splits)
  define a where "a = scan_segments E g honor segs (scan_start found)"
  define b where "b = scan_segments E h honor segs (scan_start found)"
  have fa: "findings a = found \<union> (\<Union>parsed \<in> set segs. fact_findings (pc_words parsed)
      \<union> verdict_findings g (segment_words parsed))"
    and fb: "findings b = found \<union> (\<Union>parsed \<in> set segs. fact_findings (pc_words parsed)
      \<union> verdict_findings h (segment_words parsed))"
    using cg(2) ch(2) start(4) unfolding a_def b_def by simp_all
  have "findings b \<subseteq> findings a" and "DangerousCommand \<in> findings a \<longrightarrow> DangerousCommand \<in> findings b"
    unfolding fa fb using found dangerous by blast+
  moreover have "all_granted a \<longrightarrow> all_granted b"
    using conjunct2 [OF cg(1)] conjunct2 [OF ch(1)] granted_mono [OF assms(1)] start(3)
    unfolding a_def b_def by simp blast
  moreover have "needs_prompt a = [] \<longrightarrow> needs_prompt b = []"
    using conjunct1 [OF cg(1)] conjunct1 [OF ch(1)] passes_mono [OF assms(1) ok(1)] start(2)
    unfolding a_def b_def by (auto simp: filter_empty_conv)
  moreover have "has_git_command b = has_git_command a" "scan_exec_risk b = scan_exec_risk a"
    using cg(2) ch(2) start(5,6) unfolding a_def b_def by simp_all
  moreover have "rejected a = None" "rejected b = None" using g h by (simp_all add: a_def b_def)
  ultimately show ?thesis
    unfolding a_def [symmetric] b_def [symmetric]
    using whole_script_mono [OF assms(1)] by (auto simp: evaluation_le_def evaluation_of_scan_def)
qed

lemma evaluate_mono:
  assumes "more_grants g h" and "not_rejected (segments (evaluate_bash E cmd g honor))"
    and "not_rejected (segments (evaluate_bash E cmd h honor))"
  shows "evaluation_le (evaluate_bash E cmd g honor) (evaluate_bash E cmd h honor)"
proof (cases "\<exists>root segs. parse_shell E cmd = Some root \<and> try_parse_word_only_commands_sequence root cmd = Some segs")
  case True
  then obtain root segs where parsed: "parse_shell E cmd = Some root"
    "try_parse_word_only_commands_sequence root cmd = Some segs" by blast
  have clean: "rejected sc = None" if "not_rejected (segments (evaluation_of_scan segs x sc))" for sc x
    using that by (auto simp: evaluation_of_scan_def not_rejected_def split: option.splits)
  have "rejected (scan_segments E k honor segs (scan_start (tree_findings root cmd segs))) = None"
    if "not_rejected (segments (evaluate_bash E cmd k honor))" for k
    by (rule clean) (use that parsed in \<open>simp add: evaluate_bash_def\<close>)
  from evaluation_of_scan_mono [OF assms(1) this [OF assms(2)] this [OF assms(3)]] show ?thesis
    using parsed by (simp add: evaluate_bash_def)
next
  case False
  then show ?thesis
    using undecomposable_mono [OF assms(1)] assms(2,3)
    by (auto simp: evaluate_bash_def Let_def split: option.splits)
qed

lemma grant_decision_mono:
  assumes "bash_grant_pre_decision cmd d g pin0 opts = Some (D_Allow, reason)"
    and "evaluation_le d e" and "more_grants g h" and "allow_bash_execute g \<longrightarrow> pin0 = None \<longrightarrow> pin = None"
    and "honor_safe_lists opts \<or> \<not> allow_blanket opts"
  shows "\<exists>reason'. bash_grant_pre_decision cmd e h pin opts = Some (D_Allow, reason')"
proof -
  have floor: "\<not> bash_request_floor_requires_prompt (Some e)"
    if "\<not> bash_request_floor_requires_prompt (Some d)"
    using that assms(2) by (auto simp: bash_request_floor_requires_prompt_def evaluation_le_def constrains_broad_grant_iff)
  have blanket: "persisted_bash_auto_allows h cmd pin" if "persisted_bash_auto_allows g cmd pin0"
    using that assms(3,4) by (auto simp: persisted_bash_auto_allows_def more_grants_def)
  have exact: "exact_grant d \<Longrightarrow> exact_grant e" and found: "f \<in> assessment e \<Longrightarrow> f \<in> assessment d"
    and all: "all_segments_granted d \<Longrightarrow> all_segments_granted e" for f
    using assms(2) by (auto simp: evaluation_le_def)
  have exact_blanket: "exact_grant d \<Longrightarrow> exact_grant e" by (rule exact)
  show ?thesis
  proof (cases "segments d")
    case (Seg_AutoAllow v)
    then show ?thesis
      using assms floor all by (auto simp: bash_grant_pre_decision_def grant_if_def evaluation_le_def split: if_splits)
  next
    case (Seg_NeedsPrompts ps)
    have "allow_blanket opts" "\<not> bash_request_floor_requires_prompt (Some d)"
      "(if conservative_blanket opts \<and> DangerousCommand \<in> assessment d then exact_grant d
        else persisted_bash_auto_allows g cmd pin0)"
      using assms(1) Seg_NeedsPrompts by (auto simp: bash_grant_pre_decision_def grant_if_def split: if_splits)
    then show ?thesis
      using assms(2,5) Seg_NeedsPrompts floor blanket exact found
      by (auto simp: bash_grant_pre_decision_def grant_if_def evaluation_le_def split: if_splits)
  next
    case Seg_Unparseable
    then show ?thesis
      using assms floor blanket exact
      by (auto simp: bash_grant_pre_decision_def grant_if_def evaluation_le_def split: if_splits)
  qed (use assms(1) in \<open>simp add: bash_grant_pre_decision_def\<close>)
qed

section \<open>What an answer adds\<close>

lemma more_grants_default: "more_grants default_state g"
  by (simp add: more_grants_def default_state_def)

lemma allow_bash_command_simps [simp]:
  "allowed_bash_commands (allow_bash_command key g) = hs_insert key (allowed_bash_commands g)"
  "allowed_bash_globs (allow_bash_command key g) = allowed_bash_globs g"
  "allow_bash_execute (allow_bash_command key g) = allow_bash_execute g"
  "disallowed_bash_commands (allow_bash_command key g) = disallowed_bash_commands g"
  by (simp_all add: allow_bash_command_def)

text \<open>The grant key of an always-allow answer depends only on the command and the label.\<close>

definition always_allow_key :: "('pat, 'j) policy_env \<Rightarrow> string \<Rightarrow> string \<Rightarrow> string option" where
  "always_allow_key E cmd label =
     (case primary_command_from_script (parse_shell E) cmd of
        None \<Rightarrow> None
      | Some h \<Rightarrow>
          (let words = highlighted_words h
           in if list_ex (\<lambda>n. words_join_unambiguously E (take n words) \<and> join_words (take n words) = label)
                [minimum_always_allow_scope words..<Suc (length words)] then Some label
              else if hl_prefix h = [] \<and> hl_suffix h = [] \<and> join_words words = label then Some cmd else None))"

lemma persist_key:
  "persist_bash_always_allow E cmd label g =
     (case always_allow_key E cmd label of Some key \<Rightarrow> allow_bash_command key g | None \<Rightarrow> g)"
  by (simp add: persist_bash_always_allow_def always_allow_key_def Let_def split: option.split)

lemma persist_mono:
  "more_grants g h \<Longrightarrow> more_grants (persist_bash_always_allow E cmd label g) (persist_bash_always_allow E cmd label h)"
  by (auto simp: persist_key more_grants_def split: option.split)

text \<open>A key is the whole command, or a prefix of its primary command that reads back as itself and
  is no shorter than the least scope.\<close>

lemma key_shown:
  assumes "always_allow_key E cmd label = Some key"
  shows "key = cmd \<or> (\<exists>h n. primary_command_from_script (parse_shell E) cmd = Some h
    \<and> minimum_always_allow_scope (highlighted_words h) \<le> n \<and> n \<le> length (highlighted_words h)
    \<and> key = label \<and> label = join_words (take n (highlighted_words h))
    \<and> words_join_unambiguously E (take n (highlighted_words h)))"
  using assms
  by (auto simp: always_allow_key_def Let_def list_ex_iff less_Suc_eq_le split: option.splits if_splits)

end
