(* ===== verification/Perm_Runs.thy ===== *)
theory Perm_Runs
  imports Perm_Decisions Perm_Grants
begin

text \<open>
  What a request changes in the manager, and what holds in every run of it: the modes, the
  counters of auto mode, the events, and the grants on disk.
\<close>

section \<open>What one request changes\<close>

definition same_modes :: "('c, 'f) manager_state \<Rightarrow> ('c, 'f) manager_state \<Rightarrow> bool" where
  "same_modes st st' \<longleftrightarrow> yolo_mode st' = yolo_mode st \<and> auto_mode st' = auto_mode st
     \<and> yolo_cell st' = yolo_cell st \<and> auto_cell st' = auto_cell st"

lemma same_modes_simps [simp]: "same_modes st st" "same_modes st (set_counters k st)"
  by (simp_all add: same_modes_def)

text \<open>The counters after auto mode: a refusal of the classifier counts, an approval resets.\<close>

lemma auto_counters:
  assumes "auto_stage access F W st = (r, k, cl)"
  shows "(\<exists>d. r = Auto_Settled d \<and> snd (snd d) = AUTO_CLASSIFIER_DENY
        \<and> auto_consecutive_denials st < AUTO_DENY_CONSECUTIVE_LIMIT \<and> auto_total_denials st < AUTO_DENY_TOTAL_LIMIT
        \<and> k = (auto_consecutive_denials st + 1, auto_total_denials st + 1))
    \<or> (\<forall>d. r = Auto_Settled d \<longrightarrow> snd (snd d) \<noteq> AUTO_CLASSIFIER_DENY) \<and> r \<noteq> Auto_Prompt AUTO_CLASSIFIER_DENY
      \<and> snd k = auto_total_denials st \<and> fst k \<in> {0, auto_consecutive_denials st}
      \<and> (r = Auto_Gone \<longrightarrow> fst k = auto_consecutive_denials st)"
  using assms
  by (auto simp: auto_stage_def Let_def run_classifier_def auto_verdict_def
      split: if_splits AutoFastPath.splits option.splits prod.splits ClassifierVerdict.splits)

lemma record_decision_length:
  "length turns \<le> MAX_RECORDED_PERMISSION_DECISIONS \<Longrightarrow>
     length (record_decision M access F decision outcome turns) \<le> MAX_RECORDED_PERMISSION_DECISIONS"
  by (auto simp: record_decision_def Let_def MAX_RECORDED_PERMISSION_DECISIONS_def split: option.split)

lemma apply_effect_simps [simp]:
  "same_modes st (apply_effect M C eff st)" "auto_total_denials (apply_effect M C eff st) = auto_total_denials st"
  "auto_consecutive_denials (apply_effect M C eff st) = auto_consecutive_denials st"
  "recorded_permission_decisions (apply_effect M C eff st) = recorded_permission_decisions st"
  "grants (apply_effect M C eff st) = eff_grants eff"
  "store_disk (apply_effect M C eff st)
     = (if eff_persist eff then save_grants M C (eff_grants eff) (store_disk st) else store_disk st)"
  by (simp_all add: apply_effect_def same_modes_def)

text \<open>The prompt applies the answer, records it and may end a streak of refusals; nothing else.\<close>

lemma prompt_stage_frame:
  assumes "prompt_stage M C R F W cl k reason st = (st', ev, reply)"
  shows "st' = st \<or> ev_user_prompted ev \<and> (\<exists>turns c. st' = (apply_effect M C
      (prompt_effect_of (rule_env M) (req_access R) (prompt_user W (req_access R) (protected_edit F)) (grants st)) st)
        \<lparr>recorded_permission_decisions := turns, auto_consecutive_denials := c\<rparr>
    \<and> c \<in> {0, auto_consecutive_denials st}
    \<and> (length (recorded_permission_decisions st) \<le> MAX_RECORDED_PERMISSION_DECISIONS \<longrightarrow>
        length turns \<le> MAX_RECORDED_PERMISSION_DECISIONS))"
proof (cases "closed_before_prompt W")
  case False
  define eff where "eff = prompt_effect_of (rule_env M) (req_access R)
    (prompt_user W (req_access R) (protected_edit F)) (grants st)"
  define turns where "turns = record_decision M (req_access R) F (eff_decision eff) (outcome_wire_str (eff_kind eff))
    (recorded_permission_decisions st)"
  have ev: "ev_user_prompted ev"
    using assms False by (auto simp: prompt_stage_def Let_def emit_event_def)
  have "st' = (apply_effect M C eff st)\<lparr>recorded_permission_decisions := turns, auto_consecutive_denials :=
      (if outcome_wire_str (eff_kind eff) \<noteq> ''error'' \<and> \<not> (eff_decision eff = D_Cancelled \<and> closed_at_end W)
       then 0 else auto_consecutive_denials st)\<rparr>" (is "_ = _\<lparr>recorded_permission_decisions := _, auto_consecutive_denials := ?c\<rparr>")
    using assms False
    by (auto simp: prompt_stage_def Let_def eff_def [symmetric] turns_def [symmetric] apply_effect_def
        split: if_splits)
  moreover have "length (recorded_permission_decisions st) \<le> MAX_RECORDED_PERMISSION_DECISIONS \<Longrightarrow>
      length turns \<le> MAX_RECORDED_PERMISSION_DECISIONS"
    unfolding turns_def by (rule record_decision_length)
  ultimately show ?thesis
    unfolding eff_def [symmetric] using ev by (intro disjI2 conjI exI [of _ turns] exI [of _ ?c]) simp_all
qed (use assms in \<open>simp add: prompt_stage_def\<close>)

lemma grant_reasons:
  "bash_grant_pre_decision cmd e g pin opts = Some (d, reason) \<Longrightarrow> reason \<in> {SESSION_DENY, SESSION_GRANT, SAFE_COMMAND}"
  by (auto simp: bash_grant_pre_decision_def grant_if_def split: SegmentEvaluation.splits if_splits)

lemma web_reasons:
  "web_fetch_pre_decision E path_of url g matcher honor granted = Some (d, reason) \<Longrightarrow>
     reason \<in> {SESSION_DENY, STATIC_ALLOWLIST, granted}"
  by (auto simp: web_fetch_pre_decision_def grant_if_def split: option.splits if_splits)

lemma deny_or_grant_reason: "snd (deny_or_grant reason d) \<in> {SESSION_DENY, reason}"
  by (simp add: deny_or_grant_def split: Decision.split)

lemma session_reasons:
  assumes "session_grant_pre_decision E path_of access e g edits matcher honor pin = Some (d, reason)"
  shows "reason \<in> {SESSION_DENY, SESSION_GRANT, SAFE_COMMAND, STATIC_ALLOWLIST}"
proof (cases access)
  case (A_Bash cmd)
  then show ?thesis
    using assms grant_reasons by (fastforce simp: session_grant_pre_decision_def split: option.splits)
next
  case (A_MCPTool name input)
  then show ?thesis
    using assms deny_or_grant_reason [of SESSION_GRANT] by (auto simp: session_grant_pre_decision_def) (metis snd_conv)
next
  case (A_WebFetch url)
  then show ?thesis using assms web_reasons by (fastforce simp: session_grant_pre_decision_def)
qed (use assms in \<open>auto simp: session_grant_pre_decision_def split: if_splits\<close>)

lemma before_reasons:
  assumes "decide_before_auto M C access F st = Some d"
  shows "snd (snd d) \<noteq> AUTO_CLASSIFIER_DENY"
  using assms [unfolded decide_before_auto_def]
proof (cases rule: first_settled_cases)
  case first
  then show ?thesis by (auto simp: policy_deny_decision_def split: option.splits Decision.splits)
next
  case third
  then show ?thesis by (auto simp: session_grant_decision_def dest: session_reasons split: if_splits)
qed (auto simp: yolo_decision_def broad_allow_decision_def split: if_splits)

lemma access_pre_reasons:
  assumes "access_pre_decision M C access F st forced = Some (d, reason)"
  shows "reason \<noteq> AUTO_CLASSIFIER_DENY"
proof (cases access)
  case (A_Bash cmd)
  then show ?thesis
    using assms grant_reasons
    by (fastforce simp: access_pre_decision_def bash_pre_decision_def split: option.splits if_splits)
next
  case (A_MCPTool name input)
  then show ?thesis
    using assms deny_or_grant_reason [of PERSISTED_GRANT] by (auto simp: access_pre_decision_def) (metis snd_conv Reason.distinct)
next
  case (A_WebFetch url)
  then show ?thesis using assms web_reasons by (fastforce simp: access_pre_decision_def)
qed (use assms in \<open>auto simp: access_pre_decision_def edit_pre_decision_def split: if_splits EditPolicy.splits\<close>)

lemma later_reasons:
  assumes "decide_after_auto M C access F active st forced = Some d"
  shows "snd (snd d) \<noteq> AUTO_CLASSIFIER_DENY"
  using assms [unfolded decide_after_auto_def]
proof (cases rule: first_settled_cases)
  case second
  then show ?thesis by (auto simp: policy_allow_decision_def split: option.splits Decision.splits if_splits)
next
  case third
  then show ?thesis using access_pre_reasons by (fastforce simp: pre_decision_def split: option.splits if_splits)
qed (auto simp: sandbox_decision_def prompt_deny_decision_def split: if_splits)

lemma trigger_reason:
  assumes "reason \<noteq> Some AUTO_CLASSIFIER_DENY"
  shows "request_prompt_trigger F reason \<noteq> AUTO_CLASSIFIER_DENY"
proof -
  have "prompt_trigger (preflight F) reason \<noteq> Some AUTO_CLASSIFIER_DENY"
    using assms by (simp add: prompt_trigger_def)
  then show ?thesis by (auto simp: request_prompt_trigger_def Let_def split: option.split)
qed

lemma prompt_reason:
  assumes "prompt_stage M C R F W cl k reason st = (st', ev, reply)" and "reason \<noteq> Some AUTO_CLASSIFIER_DENY"
  shows "ev_decision_reason ev \<noteq> AUTO_CLASSIFIER_DENY"
proof (cases "closed_before_prompt W")
  case True
  then show ?thesis using assms(1) by (auto simp: prompt_stage_def Let_def emit_event_def)
next
  case False
  then have "ev_decision_reason ev \<in> {REQUESTER_GONE, request_prompt_trigger F reason}"
    using assms(1) unfolding prompt_stage_def Let_def if_not_P [OF False] prod.inject
    by (elim conjE) (drule sym [of _ ev], simp add: emit_event_def)
  then show ?thesis using trigger_reason [OF assms(2), of F] by auto
qed

text \<open>What a request does to the modes, the counters, the grants and the disk.\<close>

definition counted :: "('c, 'f) manager_state \<Rightarrow> PermissionEvent \<Rightarrow> ('c, 'f) manager_state \<Rightarrow> bool" where
  "counted st ev st' \<longleftrightarrow>
     (if ev_decision_reason ev = AUTO_CLASSIFIER_DENY
      then auto_consecutive_denials st < AUTO_DENY_CONSECUTIVE_LIMIT \<and> auto_total_denials st < AUTO_DENY_TOTAL_LIMIT
        \<and> auto_consecutive_denials st' = auto_consecutive_denials st + 1
        \<and> auto_total_denials st' = auto_total_denials st + 1
      else auto_consecutive_denials st' \<in> {0, auto_consecutive_denials st}
        \<and> auto_total_denials st' = auto_total_denials st)"

definition answered ::
  "('pat, 'j, 'f) manager_env \<Rightarrow> 'pat manager_config \<Rightarrow> 'j permission_request \<Rightarrow> ('j, 'c) request_env \<Rightarrow>
     ('c, 'f) manager_state \<Rightarrow> ('c, 'f) manager_state \<Rightarrow> bool" where
  "answered M C R W st st' \<longleftrightarrow>
     (let eff = prompt_effect_of (rule_env M) (req_access R)
        (prompt_user W (req_access R) (protected_edit_target M C R)) (grants st)
      in grants st' = eff_grants eff
         \<and> store_disk st' = (if eff_persist eff then save_grants M C (eff_grants eff) (store_disk st) else store_disk st))"

lemma handle_frame:
  assumes "handle_request M C R W st = (st', ev, reply)"
  shows "same_modes st st' \<and> counted st ev st'
    \<and> (length (recorded_permission_decisions st) \<le> MAX_RECORDED_PERMISSION_DECISIONS \<longrightarrow>
        length (recorded_permission_decisions st') \<le> MAX_RECORDED_PERMISSION_DECISIONS)
    \<and> (grants st' = grants st \<and> store_disk st' = store_disk st \<or> ev_user_prompted ev \<and> answered M C R W st st')"
  using assms
proof (cases rule: handled_cases)
  case (gone k cl)
  then show ?thesis
    using auto_counters [of "req_access R" "request_facts_of M C R W st" W st Auto_Gone k cl]
    by (auto simp: counted_def)
next
  case (before d)
  then show ?thesis using before_reasons [OF before(1)] by (simp add: counted_def)
next
  case (auto d k cl)
  then show ?thesis using auto_counters [OF auto(2)] by (auto simp: counted_def)
next
  case (later d r k cl)
  then show ?thesis
    using auto_counters [OF later(2)] later_reasons [OF later(4) [unfolded settles_after_def]]
    by (auto simp: counted_def)
next
  case (prompted r k cl reason)
  have k: "snd k = auto_total_denials st" "fst k \<in> {0, auto_consecutive_denials st}"
      "reason \<noteq> Some AUTO_CLASSIFIER_DENY"
    using auto_counters [OF prompted(2)] prompted(3) by auto
  from prompt_stage_frame [OF prompted(5)] show ?thesis
    using k prompt_reason [OF prompted(5) k(3)] by (auto simp: counted_def same_modes_def apply_effect_def answered_def)
qed

lemma effect_keeps [simp]:
  "edit_policy (eff_grants (prompt_effect_of E access outcome g)) = edit_policy g"
  "validated_mcp_server_grants_version (eff_grants (prompt_effect_of E access outcome g))
     = validated_mcp_server_grants_version g"
  "allow_bash_execute (eff_grants (prompt_effect_of E access outcome g)) = allow_bash_execute g"
  by (cases access; cases outcome;
      auto simp: prompt_effect_of_def bash_prompt_effect_def other_prompt_effect_def plain_effect_def saved_effect_def
        mcp_server_effect_def allow_domain_effect_def reject_mcp_effect_def reject_domain_effect_def allow_mcp_tool_def
        allow_bash_command_def persist_key Let_def split: option.split)+

section \<open>What holds in every run\<close>

definition manager_inv :: "'pat manager_config \<Rightarrow> ('c, 'f) manager_state \<Rightarrow> bool" where
  "manager_inv C st \<longleftrightarrow> \<not> (yolo_mode st \<and> auto_mode st) \<and> (yolo_mode st \<longrightarrow> yolo_pin C = None)
     \<and> yolo_cell st = yolo_mode st \<and> auto_cell st = auto_mode st
     \<and> auto_consecutive_denials st \<le> AUTO_DENY_CONSECUTIVE_LIMIT
     \<and> auto_consecutive_denials st \<le> auto_total_denials st \<and> auto_total_denials st \<le> AUTO_DENY_TOTAL_LIMIT
     \<and> length (recorded_permission_decisions st) \<le> MAX_RECORDED_PERMISSION_DECISIONS
     \<and> edit_policy (grants st) \<noteq> Edit_Allow \<and> current_version (grants st)"

lemma current_default [simp]: "current_version default_state"
  by (simp add: current_version_def default_state_def)

lemma try_load_current: "try_load_state S path d = (Some g, d') \<Longrightarrow> current_version g"
  by (auto simp: try_load_state_def Let_def current_version_def migrate_grants_def split: read_result.splits if_splits)

lemma load_from_dir_current: "current_version (fst (load_state_from_dir S dir client d))"
  by (auto simp: load_state_from_dir_def Let_def dest: try_load_current split: option.split prod.split)

lemma load_current: "current_version (fst (load_state_with_fallback S dir legacy client d))"
  by (simp add: load_state_with_fallback_def load_from_dir_current split: option.split)

lemma load_grants_ok:
  "edit_policy (fst (load_grants M a d)) \<noteq> Edit_Allow \<and> current_version (fst (load_grants M a d))"
  using load_current [of "disk_env M" "sp_state_dir a" "sp_legacy_dir a" "sp_client_identifier a" d]
  by (auto simp: load_grants_def Let_def current_version_def split: prod.splits)

lemma spawn_inv: "manager_inv (spawn_config M a) (spawn_manager M dc a d)"
  using load_grants_ok [of M a d]
  by (auto simp: manager_inv_def spawn_manager_def spawn_config_def Let_def clamp_yolo_def split: prod.splits)

lemma handle_inv:
  assumes "manager_inv C st" and "handle_request M C R W st = (st', ev, reply)"
  shows "manager_inv C st'"
proof -
  note frame = handle_frame [OF assms(2)]
  have "edit_policy (grants st') = edit_policy (grants st) \<and> current_version (grants st') = current_version (grants st)"
    using frame by (auto simp: answered_def Let_def current_version_def)
  moreover have "auto_consecutive_denials st' \<le> AUTO_DENY_CONSECUTIVE_LIMIT
      \<and> auto_consecutive_denials st' \<le> auto_total_denials st' \<and> auto_total_denials st' \<le> AUTO_DENY_TOTAL_LIMIT"
    using frame assms(1) by (auto simp: counted_def manager_inv_def split: if_splits)
  ultimately show ?thesis using frame assms(1) by (simp add: manager_inv_def same_modes_def)
qed

lemma yolo_command_inv: "manager_inv C st \<Longrightarrow> manager_inv C (set_yolo_mode_command C enabled st)"
  by (cases "clamp_yolo enabled (yolo_pin C)")
    (auto simp: manager_inv_def set_yolo_mode_command_def clamp_yolo_def Let_def)

lemma auto_command_inv: "manager_inv C st \<Longrightarrow> manager_inv C (set_auto_mode_command dc enabled st)"
  by (cases enabled) (simp_all add: manager_inv_def set_auto_mode_command_def Let_def)

lemma reset_inv: "manager_inv C st \<Longrightarrow> manager_inv C (reset_command M C st)"
  by (simp add: manager_inv_def reset_command_def) (simp add: default_state_def)

text \<open>A predicate that the start establishes and every command keeps holds in every run.\<close>

locale manager_invariant =
  fixes M :: "('pat, 'j, 'f) manager_env" and default_classifier :: 'c and a :: spawn_args
    and inv :: "('c, 'f) manager_state \<Rightarrow> bool"
  assumes spawn_kept: "inv (spawn_manager M default_classifier a d)"
    and request_kept: "inv st \<Longrightarrow> handle_request M (spawn_config M a) R W st = (st', ev, reply) \<Longrightarrow> inv st'"
    and yolo_kept: "inv st \<Longrightarrow> inv (set_yolo_mode_command (spawn_config M a) enabled st)"
    and auto_kept: "inv st \<Longrightarrow> inv (set_auto_mode_command default_classifier enabled st)"
    and reset_kept: "inv st \<Longrightarrow> inv (reset_command M (spawn_config M a) st)"
    and classifier_kept: "inv st \<Longrightarrow> inv (st\<lparr>auto_classifier := clf\<rparr>)"
    and transcript_kept: "inv st \<Longrightarrow> inv (st\<lparr>classifier_turns := turns\<rparr>)"
    and instructions_kept: "inv st \<Longrightarrow> inv (st\<lparr>project_instructions := text\<rparr>)"
begin

lemma step_kept:
  assumes "inv st" and "manager_step M (spawn_config M a) default_classifier W cmd st = Some (st', out)"
  shows "inv st'"
proof (cases cmd)
  case (Cmd_Request R)
  then obtain ev reply where "handle_request M (spawn_config M a) R W st = (st', ev, reply)"
    using assms(2) by (cases "handle_request M (spawn_config M a) R W st") (auto simp: manager_step_def)
  then show ?thesis by (rule request_kept [OF assms(1)])
qed (use assms yolo_kept auto_kept reset_kept classifier_kept transcript_kept instructions_kept in
  \<open>auto simp: manager_step_def\<close>)

lemma run_kept: "manager_run M default_classifier a evs st \<Longrightarrow> inv st"
  by (induction rule: manager_run.induct) (auto intro: spawn_kept step_kept)

end

interpretation mode_runs: manager_invariant M default_classifier a "manager_inv (spawn_config M a)"
  for M default_classifier a
  by unfold_locales
    (rule spawn_inv, erule (1) handle_inv, erule yolo_command_inv, erule auto_command_inv, erule reset_inv,
     simp_all add: manager_inv_def)

lemma run_inv: "manager_run M dc a evs st \<Longrightarrow> manager_inv (spawn_config M a) st"
  by (rule mode_runs.run_kept)

lemma step_denials:
  assumes "manager_step M C dc W cmd st = Some (st', out)"
  shows "auto_total_denials st' = auto_total_denials st
    + length (filter (\<lambda>ev. ev_decision_reason ev = AUTO_CLASSIFIER_DENY) (step_events out))"
proof (cases cmd)
  case (Cmd_Request R)
  then obtain ev reply where "handle_request M C R W st = (st', ev, reply)" "out = Some (ev, reply)"
    using assms by (cases "handle_request M C R W st") (auto simp: manager_step_def)
  then show ?thesis using handle_frame by (fastforce simp: step_events_def counted_def split: if_splits)
qed (use assms in \<open>auto simp: manager_step_def set_yolo_mode_command_def set_auto_mode_command_def
  reset_command_def step_events_def Let_def split: option.splits\<close>)

lemma run_denials:
  "manager_run M dc a evs st \<Longrightarrow>
     length (filter (\<lambda>ev. ev_decision_reason ev = AUTO_CLASSIFIER_DENY) evs) = auto_total_denials st"
proof (induction rule: manager_run.induct)
  case (spawned d)
  show ?case by (simp add: spawn_manager_def Let_def split: prod.split)
next
  case (commanded evs st W cmd st' out)
  then show ?case using step_denials [OF commanded(2)] by simp
qed

end
