(* ===== verification/Perm_Consent.thy ===== *)
theory Perm_Consent
  imports Perm_Runs Perm_Properties Shell_Properties
begin

text \<open>
  The properties of one request to the permission manager: what it takes for an access to be
  allowed, whatever the modes, the remembered answers, the classifier and the user do. The
  examples use a manager with the parser, the policy and the file system of the other examples.
\<close>

section \<open>A manager to evaluate\<close>

definition ex_store_env :: "PermissionState store_env" where
  "ex_store_env = \<lparr>toml_parse = (\<lambda>st. Some (st, Some (Toml_Integer (validated_mcp_server_grants_version st)))),
     toml_print = Some, write_fails = (\<lambda>_. False)\<rparr>"

definition ex_manager_env :: "(string, unit, PermissionState) manager_env" where
  "ex_manager_env = \<lparr>rule_env = ex_perm_env, file_env = ex_fs, disk_env = ex_store_env, url_path = id,
     shellexpand_tilde = id, json_compact = (\<lambda>_. ''{}''), command_json = id,
     repo_config_has_exec_risk = (\<lambda>_. False)\<rparr>"

text \<open>The same with a parser that gives up on every script.\<close>

definition ex_opaque_env :: "(string, unit, PermissionState) manager_env" where
  "ex_opaque_env = ex_manager_env\<lparr>rule_env := ex_perm_env\<lparr>parse_shell := (\<lambda>_. None)\<rparr>\<rparr>"

definition ex_config ::
  "(string, unit, PermissionState) manager_env \<Rightarrow> PermissionConfig option \<Rightarrow> string manager_config" where
  "ex_config M c = \<lparr>manager_cwd = ''/work'', client_identifier = None, state_dir = ''/state'',
     compiled_policy = map_option (policy_new (rule_env M)) c, session_prompt_policy = Prompt_Ask,
     static_domain_matcher = Map.empty, web_fetch_allowlist_is_default = False,
     remember_tool_approvals = False, yolo_pin = None\<rparr>"

definition ex_request :: "unit AccessKind \<Rightarrow> unit permission_request" where
  "ex_request access = \<lparr>req_access = access, req_tool_call_id = ''call'', req_path_context = None,
     req_session_id = None, req_subagent_type = None, req_subagent_description = None\<rparr>"

text \<open>A classifier that approves everything, and a user who approves everything once.\<close>

definition ex_world :: "PromptOutcome \<Rightarrow> (unit, unit) request_env" where
  "ex_world answer = \<lparr>closed_at_dequeue = False, scan_failed = False, closed_after_scan = False,
     classify_answer = (\<lambda>_ _ _ _ _. Some (outcome_llm V_Allow None)), sandbox_active = False,
     closed_before_prompt = False, prompt_user = (\<lambda>_ _. answer), closed_at_end = False\<rparr>"

definition ex_manager :: "bool \<Rightarrow> PermissionState \<Rightarrow> (unit, PermissionState) manager_state" where
  "ex_manager auto g = \<lparr>grants = g, yolo_mode = False, auto_mode = auto, yolo_cell = False, auto_cell = auto,
     auto_classifier = Some (), auto_consecutive_denials = 0, auto_total_denials = 0, classifier_turns = [],
     recorded_permission_decisions = [], project_instructions = None, pin_refusal_logged = False,
     allow_edits_for_session = False, store_disk = (\<lambda>_. Read_NotFound)\<rparr>"

lemma ex_manager_simps [simp]:
  "grants (ex_manager auto g) = g" "\<not> yolo_mode (ex_manager auto g)" "auto_mode (ex_manager auto g) = auto"
  "auto_classifier (ex_manager auto g) = Some ()" "auto_consecutive_denials (ex_manager auto g) = 0"
  "auto_total_denials (ex_manager auto g) = 0"
  by (simp_all add: ex_manager_def)

lemma ex_world_simps [simp]:
  "\<not> closed_at_dequeue (ex_world answer)" "\<not> scan_failed (ex_world answer)" "\<not> closed_after_scan (ex_world answer)"
  "classify_answer (ex_world answer) = (\<lambda>_ _ _ _ _. Some (outcome_llm V_Allow None))"
  "\<not> sandbox_active (ex_world answer)" "\<not> closed_before_prompt (ex_world answer)"
  "prompt_user (ex_world answer) = (\<lambda>_ _. answer)" "\<not> closed_at_end (ex_world answer)"
  by (simp_all add: ex_world_def)

lemma ex_config_simps [simp]:
  "compiled_policy (ex_config M c) = map_option (policy_new (rule_env M)) c"
  "\<not> remember_tool_approvals (ex_config M c)" "yolo_pin (ex_config M c) = None"
  by (simp_all add: ex_config_def)

lemma ex_request_simps [simp]: "req_access (ex_request access) = access"
  by (simp add: ex_request_def)

section \<open>Denied by the policy\<close>

lemma settled_before:
  assumes "decide_before_auto M C (req_access R) (request_facts_of M C R W st) st = Some d"
    and "handle_request M C R W st = (st', ev, reply)"
  shows "st' = st \<and> \<not> ev_user_prompted ev \<and> (reply = None \<or> reply = Some (fst d))"
  using assms(2) unfolding handle_request_def Let_def assms(1)
  by (auto simp: settle_def emit_event_def split: if_splits prod.splits)

text \<open>C2: safety. What the managed policy denies is never allowed: when a deny rule matches a request, a
  command a shell script is seen to run or a file it is seen to touch, then in every state of
  the manager (always-approve and auto mode, any remembered answers, any classifier) and
  whatever the user would answer, nobody is asked, nothing changes, and the requester is
  either gone or gets the policy's refusal.\<close>

theorem denied_never_allowed:
  assumes "compiled_policy C = Some (policy_new (rule_env M) c)"
    and "denied_access (rule_env M) (file_env M) c (request_cwd C R) (req_access R)"
    and "handle_request M C R W st = (st', ev, reply)"
  shows "st' = st \<and> \<not> ev_user_prompted ev \<and> (reply = None \<or> (\<exists>r. reply = Some (D_PolicyDeny r)))"
proof -
  obtain r where "policy_decision (preflight (request_facts_of M C R W st)) = Some (D_Reject r)"
    using denied_decision [OF assms(2)] assms(1) by auto
  from policy_deny_first [OF this] show ?thesis
    using settled_before [OF _ assms(3)] by fastforce
qed

lemma ex_rm_denied:
  "denied_access ex_perm_env fs ex_policy cwd (A_Bash ''git status;timeout 5 rm -rf /'' :: unit AccessKind)"
proof (rule denied_access.runs)
  have "seen_running ex_perm_env MAX_INLINE_SHELL_DEPTH ''git status;timeout 5 rm -rf /''
      (norm_words (normalize_command_words [''timeout'', ''5'', ''rm'', ''-rf'', ''/'']))"
    by (rule seen_running.peeled [OF ex_wrapped(1)]) simp
  then show "seen_running ex_perm_env MAX_INLINE_SHELL_DEPTH ''git status;timeout 5 rm -rf /'' [''rm'', ''-rf'', ''/'']"
    by (simp only: ex_wrapped(2))
  have "join_words [''rm'', ''-rf'', ''/''] = ''rm -rf /''" by code_simp
  then show "some_rule ex_perm_env ex_policy R_Deny (A_Bash (join_words [''rm'', ''-rf'', ''/''])) None"
    using ex_denied by simp
qed

theorem denied_never_allowed_witness:
  "\<not> (\<exists>W st. snd (snd (handle_request ex_manager_env (ex_config ex_manager_env (Some ex_policy))
      (ex_request (A_Bash ''git status;timeout 5 rm -rf /'')) W (st :: (unit, PermissionState) manager_state))) = Some D_Allow)"
proof -
  let ?R = "ex_request (A_Bash ''git status;timeout 5 rm -rf /'')" and ?C = "ex_config ex_manager_env (Some ex_policy)"
  have "compiled_policy ?C = Some (policy_new (rule_env ex_manager_env) ex_policy)"
    by (simp add: ex_config_def ex_manager_env_def)
  moreover have "denied_access (rule_env ex_manager_env) (file_env ex_manager_env) ex_policy (request_cwd ?C ?R) (req_access ?R)"
    using ex_rm_denied by (simp add: ex_request_def ex_manager_env_def)
  ultimately have "snd (snd (handle_request ex_manager_env ?C ?R W st)) \<noteq> Some D_Allow" for W
      and st :: "(unit, PermissionState) manager_state"
    using denied_never_allowed [of ?C ex_manager_env ex_policy ?R W st]
    by (cases "handle_request ex_manager_env ?C ?R W st") auto
  then show ?thesis by blast
qed

section \<open>Risky commands\<close>

lemma bash_not_allowlisted: "\<not> is_auto_mode_allowlisted_tool_name ''run_terminal_command''"
  by code_simp

lemma bash_fast_allow:
  "auto_mode_fast_path (A_Bash cmd) (tool_name_for_access (A_Bash cmd)) b = Fast_Allow \<Longrightarrow> is_noop_command cmd"
  using bash_not_allowlisted
  by (auto simp: auto_mode_fast_path_def is_auto_mode_allowlisted_access_def split: if_splits)

text \<open>C4: safety. A shell command with a finding that overrides broad grants (opaque shell, execution
  or ambient git configuration, environment injection or unvetted variables, a file write, a
  special way to execute) and no exact grant is never allowed silently by rules, remembered
  answers, safe lists or the sandbox. If it is allowed, then the session is in always-approve
  mode; or it is one of the no-ops of auto mode; or the classifier approved it, having been
  shown every such finding; or the user was asked and approved.\<close>

theorem risky_command_needs_consent:
  assumes "handle_request M C R W st = (st', ev, Some D_Allow)" and "req_access R = A_Bash cmd"
    and "bash_evaluation (request_facts_of M C R W st) = Some e"
    and "\<not> exact_grant e" and "f \<in> assessment e" and "is_grant_floor f"
  shows "yolo_mode st \<or> auto_mode st \<and> is_noop_command cmd
    \<or> (\<exists>found. f \<in> found \<and> assessment e \<subseteq> found \<and> classifier_approves M R W st found)
    \<or> ev_user_prompted ev \<and> user_approves (prompt_user W (A_Bash cmd) None)"
proof -
  let ?F = "request_facts_of M C R W st"
  have floor: "bash_request_floor_requires_prompt (bash_evaluation ?F)"
    using assms(3-6) by (auto simp: bash_request_floor_requires_prompt_def constrains_broad_grant_iff)
  from assms(1) show ?thesis
  proof (cases rule: handled_cases)
    case (before d)
    then show ?thesis
      using bash_before_approval [of M C cmd ?F st d] floor floor_no_grant assms(2) by fastforce
  next
    case (auto d k cl)
    have shown: "assessment e \<subseteq> classifier_assessment (bash_evaluation ?F) b" for b
      unfolding assms(3) by (auto simp: classifier_assessment_def Let_def)
    have on: "auto_mode st" and "auto_mode_fast_path (req_access R) (tool_name_for_access (req_access R)) False = Fast_Allow
        \<or> (\<exists>b. classifier_approves M R W st (classifier_assessment (bash_evaluation ?F) b))"
      using auto_approval [OF auto(2)] auto(4) by (simp_all only: option.inject) blast
    from this(2) show ?thesis
    proof
      assume "auto_mode_fast_path (req_access R) (tool_name_for_access (req_access R)) False = Fast_Allow"
      then have "is_noop_command cmd" unfolding assms(2) by (rule bash_fast_allow)
      with on show ?thesis by blast
    next
      assume "\<exists>b. classifier_approves M R W st (classifier_assessment (bash_evaluation ?F) b)"
      then obtain b where "classifier_approves M R W st (classifier_assessment (bash_evaluation ?F) b)" ..
      moreover have "f \<in> classifier_assessment (bash_evaluation ?F) b" using shown assms(5) by (rule subsetD)
      ultimately show ?thesis using shown by (intro disjI2 disjI1 exI conjI)
    qed
  next
    case (later d r k cl)
    then show ?thesis
      using bash_later_approval [of M C cmd ?F "sandbox_active W" st "r \<noteq> Auto_Skip" d] floor assms(2)
      by (simp add: settles_after_def)
  next
    case (prompted r k cl reason)
    have "protected_edit ?F = None" using assms(2) by (simp add: protected_edit_target_def)
    then show ?thesis using prompt_approval [OF prompted(5)] assms(2) by simp
  qed simp
qed

lemma ex_git_evaluation:
  "bash_evaluation (request_facts_of ex_opaque_env (ex_config ex_opaque_env None) (ex_request (A_Bash ''git status''))
      (ex_world RejectOnce) (ex_manager True default_state))
    = Some \<lparr>segments = Seg_Unparseable, exact_grant = False, all_segments_granted = False,
        assessment = {ExecOrAmbientGit, UnparseableShell}, ambient_segments = None\<rparr>"
proof -
  have "script_may_invoke_git ''git status''" by code_simp
  then show ?thesis
    by (simp add: request_facts_of_def Let_def request_bash_evaluation_def evaluate_bash_def undecomposable_def
        raw_deny_rejection_def ex_opaque_env_def ex_manager_env_def ex_request_def ex_manager_def default_state_def)
qed

theorem risky_command_needs_consent_witness:
  "\<exists>found. ExecOrAmbientGit \<in> found \<and> classifier_approves ex_opaque_env (ex_request (A_Bash ''git status''))
     (ex_world RejectOnce) (ex_manager True default_state) found"
proof -
  let ?C = "ex_config ex_opaque_env None" and ?R = "ex_request (A_Bash ''git status'')" and ?W = "ex_world RejectOnce"
  let ?st = "ex_manager True default_state"
  let ?F = "request_facts_of ex_opaque_env ?C ?R ?W ?st"
  have pf: "policy_decision (preflight ?F) = None" "\<not> shell_forced_prompt (preflight ?F)"
    "\<not> policy_forced_prompt (preflight ?F)" "protected_edit ?F = None"
    by (simp_all add: ex_config_def policy_decision_def combine_decisions_def shell_forced_prompt_def
        bash_command_asks_def shell_file_forced_prompt_def policy_forced_prompt_def protected_edit_target_def ex_request_def)
  have "\<not> is_noop_command ''git status''" by code_simp
  have before: "decide_before_auto ex_opaque_env ?C (req_access ?R) ?F ?st = None"
    using pf ex_git_evaluation
    by (simp add: decide_before_auto_def policy_deny_decision_def yolo_decision_def session_grant_decision_def
        session_grant_pre_decision_def broad_allow_decision_def ex_manager_def ex_request_def
        bash_grant_pre_decision_def PRE_CLASSIFIER_def bash_request_floor_requires_prompt_def
        constrains_broad_grant_iff is_grant_floor_def)
  have needs: "\<not> access_requires_user_interaction ''run_terminal_command'' (A_Bash ''git status'' :: unit AccessKind)"
    by code_simp
  have stage: "auto_stage (req_access ?R) ?F ?W ?st = (Auto_Settled (D_Allow, True, AUTO_CLASSIFIER_ALLOW), (0, 0),
      snd (snd (auto_stage (req_access ?R) ?F ?W ?st)))"
    using pf needs bash_not_allowlisted \<open>\<not> is_noop_command _\<close>
    by (simp add: auto_stage_def Let_def ex_manager_def admits_auto_classifier_def ex_request_def
        auto_mode_fast_path_def is_auto_mode_allowlisted_access_def run_classifier_def auto_verdict_def ex_world_def outcome_llm_def)
  have "snd (snd (handle_request ex_opaque_env ?C ?R ?W ?st)) = Some D_Allow"
    unfolding handle_request_def Let_def before
    by (subst stage) (simp add: ex_world_def settle_def)
  then obtain st' ev where run: "handle_request ex_opaque_env ?C ?R ?W ?st = (st', ev, Some D_Allow)"
    by (metis prod.collapse)
  show ?thesis
    using risky_command_needs_consent [OF run _ ex_git_evaluation, of "''git status''" ExecOrAmbientGit]
      \<open>\<not> is_noop_command _\<close>
    by (auto simp: ex_request_def ex_manager_def is_grant_floor_def ex_world_def user_approves_def)
qed

section \<open>Questions of the shell gates\<close>

text \<open>C7: safety. A question raised by the command gate or the file gate cannot be skipped, not even in
  always-approve mode: a shell command that one of them asks about is allowed only if the user
  was asked and approved; or the gates only failed closed, without an ask rule that matches,
  and in auto mode the command is a no-op or the classifier approved it, having been told so;
  or the session honours remembered approvals, the file gate is silent, and every segment of
  the command has been granted before.\<close>

theorem gate_ask_survives:
  assumes "handle_request M C R W st = (st', ev, Some D_Allow)" and "req_access R = A_Bash cmd"
    and "compiled_policy C = map_option (policy_new (rule_env M)) c"
    and "shell_forced_prompt (preflight (request_facts_of M C R W st))"
  shows "ev_user_prompted ev \<and> user_approves (prompt_user W (A_Bash cmd) None)
    \<or> auto_mode st \<and> \<not> rule_match_ask (preflight (request_facts_of M C R W st))
      \<and> (is_noop_command cmd \<or> (\<exists>found. FailClosedPolicy \<in> found \<and> classifier_approves M R W st found))
    \<or> remember_tool_approvals C \<and> \<not> shell_file_forced_prompt (preflight (request_facts_of M C R W st))
      \<and> (\<exists>e. bash_evaluation (request_facts_of M C R W st) = Some e \<and> all_segments_granted e)"
proof -
  let ?F = "request_facts_of M C R W st"
  have plain: "plain_direct (preflight ?F)" by (simp add: assms(3) plain_preflight)
  have "\<not> rejects (preflight ?F)"
  proof
    assume "rejects (preflight ?F)"
    from policy_decision_cases(1) [OF plain this] obtain r where "policy_decision (preflight ?F) = Some (D_Reject r)" ..
    from settled_before [OF policy_deny_first [OF this] assms(1)] show False by simp
  qed
  then have forced: "policy_forced_prompt (preflight ?F)"
    using policy_decision_cases(2) [OF plain] assms(4) by (simp add: policy_forced_prompt_def asks_def)
  from assms(1) show ?thesis
  proof (cases rule: handled_cases)
    case (before d)
    then show ?thesis using bash_before_approval [of M C cmd ?F st d] forced assms(2,4) by simp
  next
    case (auto d k cl)
    have approved: "auto_mode st \<and> admits_auto_classifier (preflight ?F)
      \<and> (auto_mode_fast_path (req_access R) (tool_name_for_access (req_access R)) False = Fast_Allow
         \<or> classifier_approves M R W st (classifier_assessment (bash_evaluation ?F) (defers_gate_ask (preflight ?F))))"
      by (rule auto_approval [OF auto(2)]) (use auto(4) in simp)
    then have defers: "defers_gate_ask (preflight ?F)" using forced by (simp add: admits_auto_classifier_def del: facts_simps)
    then have "\<not> rule_match_ask (preflight ?F)" unfolding facts_simps preflight_defers by blast
    moreover have "FailClosedPolicy \<in> classifier_assessment (bash_evaluation ?F) (defers_gate_ask (preflight ?F))"
      using defers by (simp add: classifier_assessment_def Let_def)
    moreover have "is_noop_command cmd \<or> classifier_approves M R W st
        (classifier_assessment (bash_evaluation ?F) (defers_gate_ask (preflight ?F)))"
      using approved bash_fast_allow [of cmd False] unfolding assms(2) by blast
    ultimately show ?thesis using approved by blast
  next
    case (later d r k cl)
    then obtain e reason where "remember_tool_approvals C" "\<not> shell_file_forced_prompt (preflight ?F)"
      "bash_evaluation ?F = Some e"
      "bash_grant_pre_decision cmd e (grants st) (yolo_pin C) ASK_FLOOR_REMEMBER = Some (D_Allow, reason)"
      using bash_later_approval [of M C cmd ?F "sandbox_active W" st "r \<noteq> Auto_Skip" d] forced assms(2)
      by (auto simp: settles_after_def policy_forced_prompt_def simp del: facts_simps)
    then show ?thesis
      by (auto simp: bash_grant_pre_decision_def ASK_FLOOR_REMEMBER_def grant_if_def
          simp del: facts_simps split: SegmentEvaluation.splits if_splits)
  next
    case (prompted r k cl reason)
    have "protected_edit ?F = None" using assms(2) by (simp add: protected_edit_target_def)
    then show ?thesis using prompt_approval [OF prompted(5)] assms(2) by simp
  qed simp
qed

text \<open>The example: a parser that gives up, so the command gate fails closed, and a remembered refusal.\<close>

definition ex_refusing :: PermissionState where
  "ex_refusing = default_state\<lparr>disallowed_bash_commands := [''make'']\<rparr>"

abbreviation ex_make_config :: "string manager_config" where
  "ex_make_config \<equiv> ex_config ex_opaque_env (Some ex_policy)"

abbreviation ex_make :: "unit permission_request" where
  "ex_make \<equiv> ex_request (A_Bash ''make deploy'')"

abbreviation ex_make_facts :: "unit request_facts" where
  "ex_make_facts \<equiv> request_facts_of ex_opaque_env ex_make_config ex_make (ex_world RejectOnce) (ex_manager True ex_refusing)"

lemma ex_make_preflight:
  "preflight ex_make_facts = \<lparr>direct = None, bash_command = Some AskFailClosed, shell_file = None, defers_gate_ask = True\<rparr>"
  by code_simp

lemma ex_make_evaluation:
  "bash_evaluation ex_make_facts = Some \<lparr>segments = Seg_Reject (previously_rejected ''make''), exact_grant = False,
     all_segments_granted = False, assessment = {UnparseableShell}, ambient_segments = None\<rparr>"
proof -
  have "\<not> script_may_invoke_git ''make deploy''" "matches_whitelist_prefix ''make deploy'' ''make''" by code_simp+
  then show ?thesis
    by (simp add: request_bash_evaluation_def evaluate_bash_def undecomposable_def Let_def
        raw_deny_rejection_def ex_opaque_env_def ex_manager_env_def ex_request_def ex_manager_def ex_refusing_def default_state_def)
qed

text \<open>When a gate failed closed and no ask rule matches, auto mode hands the question to the classifier.\<close>

lemma deferred_ask_allowed:
  assumes "req_access R = A_Bash cmd" and "\<not> yolo_mode st" and "auto_mode st"
    and "\<not> closed_at_dequeue W" and "\<not> closed_after_scan W"
    and "policy_forced_prompt (preflight (request_facts_of M C R W st))"
    and "fail_closed_ask (preflight (request_facts_of M C R W st))"
    and "\<not> rule_match_ask (preflight (request_facts_of M C R W st))"
    and "classifier_approves M R W st (classifier_assessment (bash_evaluation (request_facts_of M C R W st)) True)"
  shows "\<exists>st' ev. handle_request M C R W st = (st', ev, Some D_Allow) \<and> \<not> ev_user_prompted ev"
proof -
  let ?F = "request_facts_of M C R W st"
  have decision: "policy_decision (preflight ?F) = Some D_Ask"
    using assms(6) by (simp add: policy_forced_prompt_def del: facts_simps)
  have defers: "defers_gate_ask (preflight ?F)"
    using assms(3,7,8) unfolding facts_simps preflight_defers by blast
  then have admits: "admits_auto_classifier (preflight ?F)" by (simp add: admits_auto_classifier_def del: facts_simps)
  have none: "protected_edit ?F = None" "tool_name ?F = ''run_terminal_command''"
    by (simp_all add: assms(1) protected_edit_target_def)
  have before: "decide_before_auto M C (req_access R) ?F st = None"
    using assms(2,6) decision
    by (simp add: decide_before_auto_def policy_deny_decision_def yolo_decision_def session_grant_decision_def
        broad_allow_decision_def del: facts_simps)
  have needs: "\<not> access_requires_user_interaction ''run_terminal_command'' (A_Bash cmd :: 'a AccessKind)"
    for cmd by (simp add: access_requires_user_interaction_def Let_def) code_simp
  have detail: "access_detail ?F = snd (access_kind_and_detail M (req_access R))"
    by (simp add: request_facts_of_def Let_def)
  have "\<exists>d k cl. auto_stage (req_access R) ?F W st = (Auto_Settled d, k, cl) \<and> fst d = D_Allow"
  proof (cases "is_noop_command cmd")
    case True
    then show ?thesis
      using assms(1,3) admits none needs
      by (simp add: auto_stage_def Let_def auto_mode_fast_path_def ex_bool_eq del: facts_simps)
  next
    case False
    then have "auto_stage (req_access R) ?F W st = run_classifier (req_access R) ?F W st"
      using assms(1,3) admits none needs bash_not_allowlisted
      by (simp add: auto_stage_def Let_def auto_mode_fast_path_def is_auto_mode_allowlisted_access_def
          del: facts_simps)
    moreover obtain clf out where "auto_classifier st = Some clf" "clf_verdict out = V_Allow"
      "classify_answer W clf (tool_name_for_access (req_access R)) (req_access R)
         (snd (access_kind_and_detail M (req_access R)))
         (classifier_context st (classifier_assessment (bash_evaluation ?F) True)) = Some out"
      using assms(9) unfolding classifier_approves_def by blast
    ultimately show ?thesis
      using defers none(2) detail facts_simps(3) [of M C R W st]
      by (simp add: run_classifier_def Let_def auto_verdict_def del: facts_simps)
  qed
  then obtain d k cl where "auto_stage (req_access R) ?F W st = (Auto_Settled d, k, cl)" "fst d = D_Allow" by blast
  then show ?thesis
    using assms(4,5) before unfolding handle_request_def Let_def
    by (cases d) (simp add: settle_def emit_event_def del: facts_simps)
qed

lemma ex_make_deferred:
  "policy_forced_prompt (preflight ex_make_facts)" "fail_closed_ask (preflight ex_make_facts)"
  "\<not> rule_match_ask (preflight ex_make_facts)"
  "classifier_approves ex_opaque_env ex_make (ex_world RejectOnce) (ex_manager True ex_refusing) found"
  by (simp_all del: facts_simps add: ex_make_preflight policy_forced_prompt_def policy_decision_def
      combine_decisions_def into_decision_def fail_closed_ask_def rule_match_ask_def)
    (simp add: classifier_approves_def ex_manager_def ex_world_def outcome_llm_def)

lemma ex_make_world:
  "\<not> closed_at_dequeue (ex_world answer)" "\<not> closed_after_scan (ex_world answer)"
  "\<not> yolo_mode (ex_manager True g)" "auto_mode (ex_manager True g)"
  "req_access ex_make = A_Bash ''make deploy''"
  by (simp_all add: ex_world_def ex_manager_def ex_request_def)

theorem gate_ask_survives_witness:
  "\<exists>found. FailClosedPolicy \<in> found
     \<and> classifier_approves ex_opaque_env ex_make (ex_world RejectOnce) (ex_manager True ex_refusing) found"
proof -
  obtain st' ev where run: "handle_request ex_opaque_env ex_make_config ex_make (ex_world RejectOnce)
      (ex_manager True ex_refusing) = (st', ev, Some D_Allow)"
    using deferred_ask_allowed [OF ex_make_world(5,3,4,1,2) ex_make_deferred] by blast
  have "\<not> is_noop_command ''make deploy''" by code_simp
  then show ?thesis
    using gate_ask_survives [OF run, of "''make deploy''" "Some ex_policy"] ex_make_evaluation
    by (auto simp del: facts_simps simp: ex_make_preflight shell_forced_prompt_def bash_command_asks_def is_ask_def
        user_approves_def)
qed

text \<open>C36: error. A remembered refusal of a shell command can be overruled without the user. In auto
  mode, when the policy asks about a command only because a gate failed closed, the answers of the
  user are not consulted: the command is allowed, without a prompt, when the classifier approves
  it, although a segment of it was refused for the project and that refusal, were it consulted,
  would reject the command. The example is \<open>make deploy\<close> after \<open>make\<close> was refused, in a script that
  cannot be parsed.\<close>

theorem remembered_refusal_overruled:
  assumes "req_access R = A_Bash cmd" and "\<not> yolo_mode st" and "auto_mode st"
    and "\<not> closed_at_dequeue W" and "\<not> closed_after_scan W"
    and "policy_forced_prompt (preflight (request_facts_of M C R W st))"
    and "fail_closed_ask (preflight (request_facts_of M C R W st))"
    and "\<not> rule_match_ask (preflight (request_facts_of M C R W st))"
    and "bash_evaluation (request_facts_of M C R W st) = Some e" and "segments e = Seg_Reject r"
    and "classifier_approves M R W st (insert FailClosedPolicy (assessment e))"
  shows "session_grant_pre_decision (rule_env M) (url_path M) (req_access R) (Some e) (grants st)
      (allow_edits_for_session st) (static_domain_matcher C) honor (yolo_pin C) = Some (D_Reject r, SESSION_DENY)
    \<and> (\<exists>st' ev. handle_request M C R W st = (st', ev, Some D_Allow) \<and> \<not> ev_user_prompted ev)"
proof -
  have "classifier_approves M R W st (classifier_assessment (bash_evaluation (request_facts_of M C R W st)) True)"
    using assms(11) by (simp add: assms(9) classifier_assessment_def Let_def del: facts_simps)
  from deferred_ask_allowed [OF assms(1-8) this] show ?thesis
    by (simp add: assms(1,10) session_grant_pre_decision_def bash_grant_pre_decision_def)
qed

theorem remembered_refusal_overruled_witness:
  "''make'' \<in> set (disallowed_bash_commands (grants (ex_manager True ex_refusing)))
   \<and> (\<exists>st' ev. handle_request ex_opaque_env ex_make_config ex_make (ex_world RejectOnce)
        (ex_manager True ex_refusing) = (st', ev, Some D_Allow) \<and> \<not> ev_user_prompted ev)"
proof -
  have "''make'' \<in> set (disallowed_bash_commands (grants (ex_manager True ex_refusing)))"
    by (simp add: ex_manager_def ex_refusing_def)
  then show ?thesis
    using remembered_refusal_overruled [OF ex_make_world(5,3,4,1,2) ex_make_deferred(1-3) ex_make_evaluation _ ex_make_deferred(4)]
    by simp
qed

section \<open>Remembered refusals\<close>

text \<open>An MCP tool or a web domain the user refused for the project.\<close>

definition refusal_remembered :: "('pat, 'j) policy_env \<Rightarrow> 'j AccessKind \<Rightarrow> PermissionState \<Rightarrow> bool" where
  "refusal_remembered E access g \<longleftrightarrow> (case access of
      A_MCPTool name _ \<Rightarrow> name \<in> set (disallowed_mcp_tools g)
    | A_WebFetch url \<Rightarrow> (\<exists>host d. url_host E url = Some host \<and> d \<in> set (disallowed_web_fetch_domains g)
        \<and> covers_domain (web_fetch_deny_key E host) d)
    | _ \<Rightarrow> False)"

lemma refused_domain:
  assumes "url_host E url = Some host" and "d \<in> set (disallowed_web_fetch_domains g)"
    and "covers_domain (web_fetch_deny_key E host) d"
  shows "\<exists>r. web_fetch_pre_decision E path_of url g matcher honor granted = Some (D_Reject r, SESSION_DENY)"
proof -
  have "List.find (covers_domain (web_fetch_deny_key E host)) (disallowed_web_fetch_domains g) \<noteq> None"
    unfolding find_None_iff using assms(2,3) by blast
  then show ?thesis
    using assms(1,2) by (auto simp: web_fetch_pre_decision_def web_fetch_deny_pre_decision_def denied_web_fetch_domain_def)
qed

lemma refusal_decides:
  assumes "refusal_remembered (rule_env M) access (grants st)"
  shows "\<exists>r. session_grant_pre_decision (rule_env M) (url_path M) access e (grants st) edits matcher honor pin
      = Some (D_Reject r, SESSION_DENY)"
    and "\<exists>r reason. access_pre_decision M C access F st forced = Some (D_Reject r, reason)"
    and "\<not> is_bash access" and "\<forall>path. access \<noteq> A_Edit path"
  using assms
  by (auto simp: refusal_remembered_def session_grant_pre_decision_def access_pre_decision_def mcp_pre_decision_def
      deny_or_grant_def is_bash_def split: AccessKind.splits intro: refused_domain)
    (metis refused_domain)+

end
