(* ===== verification/Perm_Silent.thy ===== *)
theory Perm_Silent
  imports Perm_Consent
begin

text \<open>
  The properties of requests that are settled without a prompt: refusals the user asked to be
  remembered, web searches, and what stands behind a shell command that is allowed silently in
  ask mode.
\<close>

section \<open>Without a question\<close>

lemma no_bash_gates:
  assumes "\<not> is_bash access"
  shows "\<not> shell_forced_prompt (preflight_evaluate E fs p access cwd auto)"
    and "\<not> defers_gate_ask (preflight_evaluate E fs p access cwd auto)"
  using assms
  by (cases p; cases access; simp add: is_bash_def shell_forced_prompt_def bash_command_asks_def
      shell_file_forced_prompt_def preflight_defers fail_closed_ask_def)+

lemma forced_skips:
  assumes "policy_forced_prompt (preflight F)" and "\<not> yolo_mode st \<or> shell_forced_prompt (preflight F)"
  shows "decide_before_auto M C access F st = None"
    and "\<not> defers_gate_ask (preflight F) \<Longrightarrow>
      auto_stage access F W st = (Auto_Skip, (auto_consecutive_denials st, auto_total_denials st), NotClassified)"
  using assms
  by (auto simp: decide_before_auto_def policy_deny_decision_def yolo_decision_def session_grant_decision_def
      broad_allow_decision_def policy_forced_prompt_def auto_stage_def admits_auto_classifier_def)

section \<open>Remembered refusals\<close>

text \<open>C13: safety. A refusal the user asked to be remembered holds: an MCP tool refused for the project, or a
  URL whose host is a refused domain or lies below one, is not allowed and the user is not
  asked again, in every mode but always-approve, whatever policy rules allow it or ask about
  it, whatever has been granted, and whatever the classifier would say.\<close>

theorem remembered_refusal_holds:
  assumes "handle_request M C R W st = (st', ev, reply)" and "\<not> yolo_mode st"
    and "refusal_remembered (rule_env M) (req_access R) (grants st)"
    and "compiled_policy C = map_option (policy_new (rule_env M)) c"
  shows "\<not> ev_user_prompted ev \<and> reply \<noteq> Some D_Allow \<and> grants st' = grants st"
proof -
  let ?F = "request_facts_of M C R W st"
  note decides = refusal_decides [OF assms(3)]
  have gates: "\<not> shell_forced_prompt (preflight ?F)" "\<not> defers_gate_ask (preflight ?F)" "protected_edit ?F = None"
    using decides(4) by (simp_all add: no_bash_gates [OF decides(3)] protected_edit_target_def split: AccessKind.split)
  show ?thesis
  proof (cases "policy_forced_prompt (preflight ?F)")
    case False
    obtain r where session: "session_grant_decision M C (req_access R) ?F st = Some (D_Reject r, True, SESSION_DENY)"
      using decides(1) gates False by (fastforce simp: session_grant_decision_def)
    have "yolo_decision ?F st = None" using assms(2) by (simp add: yolo_decision_def)
    with session obtain d where d: "decide_before_auto M C (req_access R) ?F st = Some d" "fst d \<noteq> D_Allow"
      by (cases "policy_deny_decision ?F")
        (auto simp: decide_before_auto_def policy_deny_decision_def split: option.splits Decision.splits)
    from settled_before [OF d(1) assms(1)] show ?thesis using d(2) by auto
  next
    case True
    note skip = forced_skips(1) [OF True disjI1 [OF assms(2)]] forced_skips(2) [OF True disjI1 [OF assms(2)] gates(2)]
    obtain r reason where pre: "access_pre_decision M C (req_access R) ?F st False = Some (D_Reject r, reason)"
      using decides(2) by blast
    have ask: "policy_decision (preflight ?F) = Some D_Ask" using True by (simp add: policy_forced_prompt_def)
    have after: "settles_after M C R W st False = Some (D_Reject r, True, reason)"
      unfolding settles_after_def decide_after_auto_def
      by (simp add: sandbox_decision_def decides(3) policy_allow_decision_def ask pre_decision_def pre del: facts_simps)
    from assms(1) show ?thesis
      by (cases rule: handled_cases) (auto simp: skip after simp del: facts_simps)
  qed
qed

definition ex_refusing_tool :: PermissionState where
  "ex_refusing_tool = default_state\<lparr>disallowed_mcp_tools := [''github__create_issue''],
     allowed_mcp_servers := [''github'']\<rparr>"

theorem remembered_refusal_holds_witness:
  "snd (snd (handle_request ex_manager_env (ex_config ex_manager_env (Some ex_policy))
      (ex_request (A_MCPTool ''github__create_issue'' ())) (ex_world AllowOnce) (ex_manager True ex_refusing_tool)))
    \<noteq> Some D_Allow"
proof -
  let ?C = "ex_config ex_manager_env (Some ex_policy)" and ?R = "ex_request (A_MCPTool ''github__create_issue'' ())"
  obtain st' ev reply where run: "handle_request ex_manager_env ?C ?R (ex_world AllowOnce)
      (ex_manager True ex_refusing_tool) = (st', ev, reply)" by (metis prod.collapse)
  have "refusal_remembered (rule_env ex_manager_env) (req_access ?R) (grants (ex_manager True ex_refusing_tool))"
    by (simp add: refusal_remembered_def ex_refusing_tool_def)
  from remembered_refusal_holds [OF run _ this, of "Some ex_policy"] show ?thesis by (simp add: run)
qed

section \<open>Web searches\<close>

text \<open>C37: error. No policy makes the manager ask about a web search: with an ask rule on web searches, in
  every mode, the user is never prompted, and a search no deny rule matches is allowed.\<close>

theorem web_search_never_asked:
  fixes R :: "'j permission_request"
  assumes "handle_request M C R W st = (st', ev, reply)" and "req_access R = A_WebSearch query"
    and "compiled_policy C = Some (policy_new (rule_env M) c)"
  shows "\<not> ev_user_prompted ev
    \<and> (some_rule (rule_env M) c R_Deny (A_WebSearch query) (Some (request_cwd C R)) \<or> reply \<in> {None, Some D_Allow})"
proof -
  let ?F = "request_facts_of M C R W st" and ?cwd = "request_cwd C R"
  have plain: "plain_direct (preflight ?F)"
    using plain_preflight [of "rule_env M" "file_env M" "Some c"] by (simp add: assms(3))
  have gates: "\<not> shell_forced_prompt (preflight ?F)" "\<not> defers_gate_ask (preflight ?F)" "protected_edit ?F = None"
    using no_bash_gates [of "req_access R"] assms(2) by (simp_all add: is_bash_def protected_edit_target_def)
  have name: "\<not> access_requires_user_interaction ''web_search'' (A_WebSearch query :: 'j AccessKind)"
  proof -
    have "\<not> contains ''web_search'' ''ask_user''" "\<not> contains ''web_search'' ''askuserquestion''"
      "\<not> contains ''web_search'' ''user_question''" "to_ascii_lowercase ''web_search'' = ''web_search''"
      by code_simp+
    then show ?thesis by (simp add: access_requires_user_interaction_def)
  qed
  show ?thesis
  proof (cases "rejects (preflight ?F)")
    case True
    then obtain r where r: "policy_decision (preflight ?F) = Some (D_Reject r)"
      using policy_decision_cases(1) [OF plain] by blast
    have "some_rule (rule_env M) c R_Deny (A_WebSearch query) (Some ?cwd)"
      using True evaluate_reject_iff [of "rule_env M" c "A_WebSearch query" "Some ?cwd"]
      by (auto simp: rejects_def assms(2,3))
    then show ?thesis using settled_before [OF policy_deny_first [OF r] assms(1)] by simp
  next
    case False
    then have verdict: "policy_decision (preflight ?F) \<in> {None, Some D_Allow, Some D_Ask}"
      using policy_decision_cases(2) [OF plain] plain by (auto simp: plain_direct_def rejects_def)
    have before: "fst d = D_Allow" if "decide_before_auto M C (req_access R) ?F st = Some d" for d
      using that [unfolded decide_before_auto_def] verdict
      by (cases rule: first_settled_cases)
        (auto simp: policy_deny_decision_def yolo_decision_def session_grant_decision_def assms(2)
          session_grant_pre_decision_def broad_allow_decision_def simp del: facts_simps split: if_splits)
    have stage: "r = Auto_Skip \<or> (\<exists>d. r = Auto_Settled d \<and> fst d = D_Allow)"
      if "auto_stage (req_access R) ?F W st = (r, k, cl)" for r k cl
      using that gates(3) name
      by (auto simp: auto_stage_def Let_def assms(2) auto_mode_fast_path_def is_auto_mode_allowlisted_access_def
          simp del: facts_simps(1,2) split: if_splits)
    have after: "\<exists>reason. settles_after M C R W st False = Some (D_Allow, True, reason)"
      using verdict
      by (auto simp: settles_after_def decide_after_auto_def sandbox_decision_def is_bash_def assms(2)
          policy_allow_decision_def pre_decision_def access_pre_decision_def simp del: facts_simps)
    from assms(1) show ?thesis
    proof (cases rule: handled_cases)
      case (before d)
      then show ?thesis using \<open>\<And>d. _ \<Longrightarrow> fst d = D_Allow\<close> by simp
    next
      case (auto d k cl)
      then show ?thesis using stage by fastforce
    next
      case (later d r k cl)
      then show ?thesis using stage after by fastforce
    next
      case (prompted r k cl reason)
      then show ?thesis using stage after by fastforce
    qed simp
  qed
qed

definition ex_search_policy :: PermissionConfig where
  "ex_search_policy = \<lparr>rules = [\<lparr>rule_action = R_Ask, rule_tool = T_WebSearch, rule_pattern = None, pattern_mode = Glob\<rparr>],
     prompt_policy = Prompt_Ask\<rparr>"

theorem web_search_never_asked_witness:
  "some_rule ex_perm_env ex_search_policy R_Ask (A_WebSearch ''salary'') (Some ''/work'')
   \<and> \<not> ev_user_prompted (fst (snd (handle_request ex_manager_env (ex_config ex_manager_env (Some ex_search_policy))
       (ex_request (A_WebSearch ''salary'')) (ex_world RejectOnce) (ex_manager False default_state))))"
proof -
  let ?C = "ex_config ex_manager_env (Some ex_search_policy)" and ?R = "ex_request (A_WebSearch ''salary'')"
  obtain st' ev reply where run: "handle_request ex_manager_env ?C ?R (ex_world RejectOnce)
      (ex_manager False default_state) = (st', ev, reply)" by (metis prod.collapse)
  have "\<not> ev_user_prompted ev"
    using web_search_never_asked [OF run, of "''salary''" ex_search_policy] by simp
  moreover have "some_rule ex_perm_env ex_search_policy R_Ask (A_WebSearch ''salary'') (Some ''/work'')"
    by code_simp
  ultimately show ?thesis by (simp add: run)
qed

section \<open>Shell commands allowed silently\<close>

lemma request_evaluation:
  assumes "bash_evaluation (request_facts_of M C R W st) = Some e" and "req_access R = A_Bash cmd"
  shows "segments e = segments (evaluate_bash (rule_env M) cmd (grants st) True)"
    and "exact_grant e = exact_grant (evaluate_bash (rule_env M) cmd (grants st) True)"
  using assms by (auto simp: request_bash_evaluation_def Let_def split: option.splits)

lemma auto_allowed_segments:
  assumes "segments (evaluate_bash E cmd g honor) = Seg_AutoAllow via"
  shows "\<exists>segs. all_commands_from_script (parse_shell E) cmd = Some segs
    \<and> (\<forall>parsed \<in> set segs. segment_passes E g honor (segment_words parsed))"
proof -
  from assms obtain root segs where parsed: "parse_shell E cmd = Some root"
      "try_parse_word_only_commands_sequence root cmd = Some segs"
    by (auto simp: evaluate_bash_def undecomposable_def raw_deny_rejection_def Let_def split: option.splits)
  let ?sc = "scan_segments E g honor segs (scan_start (tree_findings root cmd segs))"
  have clean: "rejected ?sc = None" "needs_prompt ?sc = []"
    using assms parsed by (auto simp: evaluate_bash_def evaluation_of_scan_def split: option.splits if_splits)
  have "rejected (scan_start found) = None" "needs_prompt (scan_start found) = []" for found
    by (simp_all add: scan_start_def)
  then have "\<forall>parsed \<in> set segs. segment_passes E g honor (segment_words parsed)"
    using scan_segments_clean [of "scan_start (tree_findings root cmd segs)" E g honor segs] clean
    by (simp add: filter_empty_conv)
  then show ?thesis using parsed by (simp add: all_commands_from_script_def)
qed

lemma exact_grant_cases:
  assumes "exact_grant (evaluate_bash E cmd g honor)"
  shows "cmd \<in> set (allowed_bash_commands g)
    \<or> (\<exists>only. all_commands_from_script (parse_shell E) cmd = Some [only] \<and> spans_whole_script only cmd
        \<and> join_words (pc_words only) \<in> set (allowed_bash_commands g))"
  using assms
  by (auto simp: evaluate_bash_def undecomposable_def evaluation_of_scan_def whole_script_grant_def Let_def
      all_commands_from_script_def split: option.splits list.splits if_splits)

lemma granted_command:
  assumes "bash_grant_pre_decision cmd e g pin opts = Some (D_Allow, reason)"
  shows "(\<exists>via. segments e = Seg_AutoAllow via) \<or> exact_grant e \<or> persisted_bash_auto_allows g cmd pin"
  using assms by (auto simp: bash_grant_pre_decision_def grant_if_def split: SegmentEvaluation.splits if_splits)

text \<open>C12: safety. Behind every shell command that is allowed silently in ask mode stands
  a rule, an answer or the sandbox: the policy allows it; or the user granted all commands and no
  pin forbids it; or the user granted exactly this command; or it is a sequence of plain commands
  each of which is free of danger, was not refused, and is either granted or on a safe list; or
  the sandbox confines it, and then no rule asks about it and nothing in it is dangerous or was
  refused.\<close>

theorem silent_allow_is_covered:
  assumes "handle_request M C R W st = (st', ev, Some D_Allow)" and "req_access R = A_Bash cmd"
    and "\<not> ev_user_prompted ev" and "\<not> yolo_mode st" and "\<not> auto_mode st"
  shows "policy_decision (preflight (request_facts_of M C R W st)) = Some D_Allow
    \<or> allow_bash_execute (grants st) \<and> yolo_pin C = None
    \<or> cmd \<in> set (allowed_bash_commands (grants st))
    \<or> (\<exists>only. all_commands_from_script (parse_shell (rule_env M)) cmd = Some [only] \<and> spans_whole_script only cmd
        \<and> join_words (pc_words only) \<in> set (allowed_bash_commands (grants st)))
    \<or> (\<exists>segs. all_commands_from_script (parse_shell (rule_env M)) cmd = Some segs
        \<and> (\<forall>parsed \<in> set segs. segment_passes (rule_env M) (grants st) True (segment_words parsed)))
    \<or> sandbox_active W \<and> \<not> policy_forced_prompt (preflight (request_facts_of M C R W st))
      \<and> \<not> bash_request_floor_requires_prompt (bash_evaluation (request_facts_of M C R W st))"
proof -
  let ?F = "request_facts_of M C R W st"
  have granted: ?thesis if e: "bash_evaluation ?F = Some e"
    and grant: "bash_grant_pre_decision cmd e (grants st) (yolo_pin C) opts = Some (D_Allow, reason)" for e opts reason
    using granted_command [OF grant] unfolding request_evaluation [OF e assms(2)] persisted_bash_auto_allows_def
    using auto_allowed_segments exact_grant_cases by blast
  from assms(1) show ?thesis
  proof (cases rule: handled_cases)
    case (before d)
    then show ?thesis
      using bash_before_approval [of M C cmd ?F st d] assms(2,4,5) granted by (auto simp del: facts_simps)
  next
    case (auto d k cl)
    then show ?thesis using auto_approval [OF auto(2)] assms(5) by (simp del: facts_simps)
  next
    case (later d r k cl)
    then have "fst d = D_Allow" by (auto simp: settles_after_def simp del: facts_simps)
    with later assms(2) have "decide_after_auto M C (A_Bash cmd) ?F (sandbox_active W) st (r \<noteq> Auto_Skip) = Some d"
      by (simp add: settles_after_def del: facts_simps)
    from bash_later_approval [OF this \<open>fst d = D_Allow\<close>] consider
        (sandbox) "sandbox_active W \<and> \<not> policy_forced_prompt (preflight ?F)
          \<and> \<not> bash_request_floor_requires_prompt (bash_evaluation ?F)"
      | (policy) "policy_decision (preflight ?F) = Some D_Allow"
      | (grant) e opts reason where "bash_evaluation ?F = Some e"
          "bash_grant_pre_decision cmd e (grants st) (yolo_pin C) opts = Some (D_Allow, reason)" by blast
    then show ?thesis
    proof cases
      case grant
      then show ?thesis by (rule granted)
    qed blast+
  next
    case (prompted r k cl reason)
    then show ?thesis using prompt_approval(1) [OF prompted(5)] assms(3) by simp
  qed simp
qed

text \<open>The example: a script the parser gives up on, granted word for word.\<close>

definition ex_granting :: PermissionState where
  "ex_granting = default_state\<lparr>allowed_bash_commands := [''make deploy'']\<rparr>"

abbreviation ex_granted_config :: "string manager_config" where
  "ex_granted_config \<equiv> ex_config ex_opaque_env None"

abbreviation ex_granted_facts :: "unit request_facts" where
  "ex_granted_facts \<equiv> request_facts_of ex_opaque_env ex_granted_config ex_make (ex_world RejectOnce)
     (ex_manager False ex_granting)"

lemma ex_granted_before:
  "decide_before_auto ex_opaque_env ex_granted_config (req_access ex_make) ex_granted_facts (ex_manager False ex_granting)
     = Some (D_Allow, True, SESSION_GRANT)"
proof -
  have pf: "policy_decision (preflight ex_granted_facts) = None" "\<not> shell_forced_prompt (preflight ex_granted_facts)"
    "\<not> policy_forced_prompt (preflight ex_granted_facts)" "protected_edit ex_granted_facts = None"
    by (simp_all add: policy_decision_def combine_decisions_def shell_forced_prompt_def
        bash_command_asks_def shell_file_forced_prompt_def policy_forced_prompt_def protected_edit_target_def)
  obtain e where e: "bash_evaluation ex_granted_facts = Some e" "segments e = Seg_Unparseable" "exact_grant e"
    by (auto simp: request_bash_evaluation_def evaluate_bash_def undecomposable_def Let_def raw_deny_rejection_def
        ex_opaque_env_def ex_granting_def default_state_def)
  show ?thesis
    by (simp del: facts_simps add: decide_before_auto_def policy_deny_decision_def yolo_decision_def
        session_grant_decision_def pf e session_grant_pre_decision_def bash_grant_pre_decision_def PRE_CLASSIFIER_def
        bash_request_floor_requires_prompt_def grant_if_def)
qed

theorem silent_allow_is_covered_witness:
  "\<exists>st' ev. handle_request ex_opaque_env ex_granted_config ex_make (ex_world RejectOnce)
       (ex_manager False ex_granting) = (st', ev, Some D_Allow) \<and> \<not> ev_user_prompted ev \<and>
     ''make deploy'' \<in> set (allowed_bash_commands (grants (ex_manager False ex_granting)))"
proof -
  have "snd (snd (handle_request ex_opaque_env ex_granted_config ex_make (ex_world RejectOnce)
      (ex_manager False ex_granting))) = Some D_Allow"
    unfolding handle_request_def Let_def ex_granted_before by (simp add: settle_def)
  then obtain st' ev where run: "handle_request ex_opaque_env ex_granted_config ex_make (ex_world RejectOnce)
      (ex_manager False ex_granting) = (st', ev, Some D_Allow)" by (metis prod.collapse)
  have silent: "\<not> ev_user_prompted ev" using settled_before [OF ex_granted_before run] by simp
  have "all_commands_from_script (parse_shell (rule_env ex_opaque_env)) script = None" for script
    by (simp add: all_commands_from_script_def ex_opaque_env_def)
  moreover have "policy_decision (preflight ex_granted_facts) \<noteq> Some D_Allow" "\<not> allow_bash_execute ex_granting"
    by (simp_all add: policy_decision_def combine_decisions_def ex_granting_def default_state_def)
  ultimately have "''make deploy'' \<in> set (allowed_bash_commands (grants (ex_manager False ex_granting)))"
    using silent_allow_is_covered [OF run] silent by (simp del: facts_simps)
  with run silent show ?thesis by blast
qed

end
