(* ===== verification/Perm_Memory.thy ===== *)
theory Perm_Memory
  imports Perm_Silent
begin

text \<open>
  The properties of the manager's memory: what one answer adds to the remembered answers, that
  an accepted row of the prompt is not shown again, that remembered answers survive a restart,
  and the invariants of every run.
\<close>

section \<open>What one answer adds\<close>

text \<open>The grant keys of a shell command: the command itself, its plain segments, and the prefixes of its
  primary command from the least scope on that read back as themselves.\<close>

definition shown_prefixes :: "('pat, 'j) policy_env \<Rightarrow> string \<Rightarrow> string set" where
  "shown_prefixes E cmd = {key. \<exists>h n. primary_command_from_script (parse_shell E) cmd = Some h
     \<and> minimum_always_allow_scope (highlighted_words h) \<le> n \<and> n \<le> length (highlighted_words h)
     \<and> key = join_words (take n (highlighted_words h)) \<and> words_join_unambiguously E (take n (highlighted_words h))}"

definition shown_keys :: "('pat, 'j) policy_env \<Rightarrow> 'j AccessKind \<Rightarrow> string set" where
  "shown_keys E access = (case access of
      A_Bash cmd \<Rightarrow> {cmd} \<union> set (bash_grant_segments E cmd) \<union> shown_prefixes E cmd | _ \<Rightarrow> {})"

definition shown_globs :: "('pat, 'j) policy_env \<Rightarrow> 'j AccessKind \<Rightarrow> string set" where
  "shown_globs E access = (case access of A_Bash cmd \<Rightarrow> {p. bash_glob_covers_script E cmd p} | _ \<Rightarrow> {})"

definition shown_domains :: "('pat, 'j) policy_env \<Rightarrow> 'j AccessKind \<Rightarrow> string set" where
  "shown_domains E access = (case access of
      A_WebFetch url \<Rightarrow> {normalize_domain E host | host. url_host E url = Some host} | _ \<Rightarrow> {})"

definition shown_tools :: "'j AccessKind \<Rightarrow> string set" where
  "shown_tools access = (case access of A_MCPTool name _ \<Rightarrow> {name} | _ \<Rightarrow> {})"

definition shown_servers :: "'j AccessKind \<Rightarrow> string set" where
  "shown_servers access = (case access of
      A_MCPTool name _ \<Rightarrow> {server. \<exists>tool. parse_mcp_qualified_name name = Some (server, tool)} | _ \<Rightarrow> {})"

lemma persist_shown:
  "set (allowed_bash_commands (persist_bash_always_allow E cmd label g))
     \<subseteq> set (allowed_bash_commands g) \<union> {cmd} \<union> shown_prefixes E cmd"
  using key_shown [of E cmd label]
  by (auto simp: persist_key shown_prefixes_def split: option.splits)

lemma persist_keeps [simp]:
  "allowed_bash_globs (persist_bash_always_allow E cmd label g) = allowed_bash_globs g"
  "allowed_web_fetch_domains (persist_bash_always_allow E cmd label g) = allowed_web_fetch_domains g"
  "allowed_mcp_tools (persist_bash_always_allow E cmd label g) = allowed_mcp_tools g"
  "allowed_mcp_servers (persist_bash_always_allow E cmd label g) = allowed_mcp_servers g"
  "denials (persist_bash_always_allow E cmd label g) = denials g"
  by (simp_all add: persist_key allow_bash_command_def denials_def split: option.split)

lemma persist_allow_mono: "set (allowed_bash_commands g) \<subseteq> set (allowed_bash_commands (persist_bash_always_allow E cmd label g))"
  by (auto simp: persist_key split: option.split)

lemmas effect_defs = prompt_effect_of_def bash_prompt_effect_def other_prompt_effect_def plain_effect_def
  saved_effect_def mcp_server_effect_def allow_domain_effect_def reject_mcp_effect_def reject_domain_effect_def
  allow_mcp_tool_def Let_def

lemma bash_answer_adds:
  fixes E :: "('pat, 'j) policy_env" and g :: PermissionState
  assumes h_def: "h = eff_grants (bash_prompt_effect E cmd outcome g)"
  shows "set (allowed_bash_commands h) \<subseteq> set (allowed_bash_commands g) \<union> shown_keys E (A_Bash cmd :: 'j AccessKind)
    \<and> set (allowed_bash_globs h) \<subseteq> set (allowed_bash_globs g) \<union> shown_globs E (A_Bash cmd :: 'j AccessKind)
    \<and> allowed_web_fetch_domains h = allowed_web_fetch_domains g \<and> allowed_mcp_tools h = allowed_mcp_tools g
    \<and> allowed_mcp_servers h = allowed_mcp_servers g"
  using persist_shown [of E cmd "case outcome of AllowAlwaysBashCommand l \<Rightarrow> l | _ \<Rightarrow> []" g] unfolding h_def
  by (cases outcome)
    (auto simp: bash_prompt_effect_def plain_effect_def saved_effect_def Let_def shown_keys_def shown_globs_def
      allow_bash_command_def)

lemma other_answer_adds:
  assumes "\<not> is_bash access" and h_def: "h = eff_grants (other_prompt_effect E access outcome g)"
  shows "allowed_bash_commands h = allowed_bash_commands g \<and> allowed_bash_globs h = allowed_bash_globs g
    \<and> set (allowed_web_fetch_domains h) \<subseteq> set (allowed_web_fetch_domains g) \<union> shown_domains E access
    \<and> set (allowed_mcp_tools h) \<subseteq> set (allowed_mcp_tools g) \<union> shown_tools access
    \<and> set (allowed_mcp_servers h) \<subseteq> set (allowed_mcp_servers g) \<union> shown_servers access"
  using assms(1) unfolding h_def
  by (cases outcome; cases access)
    (auto simp: other_prompt_effect_def plain_effect_def saved_effect_def mcp_server_effect_def allow_domain_effect_def
      reject_mcp_effect_def reject_domain_effect_def allow_mcp_tool_def Let_def shown_domains_def shown_tools_def
      shown_servers_def is_bash_def split: option.splits)

text \<open>Nothing is forgotten, and only an approval grants while only a refusal refuses.\<close>

definition same_grants :: "PermissionState \<Rightarrow> PermissionState \<Rightarrow> bool" where
  "same_grants g h \<longleftrightarrow> set (allowed_bash_commands g) = set (allowed_bash_commands h)
     \<and> set (allowed_bash_globs g) = set (allowed_bash_globs h)
     \<and> set (allowed_web_fetch_domains g) = set (allowed_web_fetch_domains h)
     \<and> set (allowed_mcp_tools g) = set (allowed_mcp_tools h)
     \<and> set (allowed_mcp_servers g) = set (allowed_mcp_servers h)"

lemma persist_answers: "answers_le g (persist_bash_always_allow E cmd label g)"
  using persist_allow_mono [of g E cmd label]
  by (auto simp: answers_le_def persist_key allow_bash_command_def split: option.split)

lemma answers_le_updates [simp]:
  "answers_le g (g\<lparr>allowed_bash_globs := hs_insert x (allowed_bash_globs g)\<rparr>)"
  "answers_le g (g\<lparr>disallowed_bash_commands := hs_insert x (disallowed_bash_commands g)\<rparr>)"
  "answers_le g (g\<lparr>allowed_web_fetch_domains := hs_insert x (allowed_web_fetch_domains g)\<rparr>)"
  "answers_le g (g\<lparr>disallowed_web_fetch_domains := hs_insert x (disallowed_web_fetch_domains g)\<rparr>)"
  "answers_le g (g\<lparr>allowed_mcp_tools := hs_insert x (allowed_mcp_tools g)\<rparr>)"
  "answers_le g (g\<lparr>allowed_mcp_servers := hs_insert x (allowed_mcp_servers g)\<rparr>)"
  "answers_le g (g\<lparr>disallowed_mcp_tools := hs_insert x (disallowed_mcp_tools g)\<rparr>)"
  "answers_le g (allow_bash_command x g\<lparr>allowed_bash_commands :=
     hs_extend (hs_insert x (allowed_bash_commands g)) ys\<rparr>)"
  by (auto simp: answers_le_def allow_bash_command_def)

lemmas answer_cases = effect_defs user_approves_def

lemma answer_keeps: "answers_le g (eff_grants (prompt_effect_of E access outcome g))"
  by (cases access; cases outcome; simp add: effect_defs persist_answers split: option.split)

lemma approval_refuses_nothing:
  "user_approves outcome \<Longrightarrow> denials (eff_grants (prompt_effect_of E access outcome g)) = denials g"
  by (cases access; cases outcome;
      simp add: answer_cases split: option.split) (auto simp: denials_def allow_bash_command_def)

lemma refusal_grants_nothing:
  "\<not> user_approves outcome \<Longrightarrow> same_grants g (eff_grants (prompt_effect_of E access outcome g))"
  by (cases access; cases outcome; simp add: answer_cases same_grants_def split: option.split)

lemma unsaved_answer:
  "\<not> eff_persist (prompt_effect_of E access outcome g) \<Longrightarrow> eff_grants (prompt_effect_of E access outcome g) = g"
  by (cases access; cases outcome; simp add: effect_defs split: option.splits if_splits)

text \<open>C14: bounds. An answer grants no more than what was shown: whatever label, pattern, tool, server or
  domain the answer carries, the only new grants are the command itself, its plain segments or
  a prefix of its primary command no shorter than the least scope, a pattern that covers the
  script and is not a catch-all, the domain of the URL, the tool itself or its own server;
  nothing remembered is lost, an approval refuses nothing, a refusal grants nothing, and no
  answer ever grants all shell commands or all edits for good.\<close>

theorem answer_grants_what_was_shown:
  "let h = eff_grants (prompt_effect_of E access outcome g) in
    set (allowed_bash_commands h) \<subseteq> set (allowed_bash_commands g) \<union> shown_keys E access
    \<and> set (allowed_bash_globs h) \<subseteq> set (allowed_bash_globs g) \<union> shown_globs E access
    \<and> set (allowed_web_fetch_domains h) \<subseteq> set (allowed_web_fetch_domains g) \<union> shown_domains E access
    \<and> set (allowed_mcp_tools h) \<subseteq> set (allowed_mcp_tools g) \<union> shown_tools access
    \<and> set (allowed_mcp_servers h) \<subseteq> set (allowed_mcp_servers g) \<union> shown_servers access
    \<and> answers_le g h
    \<and> (if user_approves outcome then denials h = denials g
       else same_grants g h)
    \<and> allow_bash_execute h = allow_bash_execute g
    \<and> edit_policy h = edit_policy g"
proof -
  let ?h = "eff_grants (prompt_effect_of E access outcome g)"
  have adds: "set (allowed_bash_commands ?h) \<subseteq> set (allowed_bash_commands g) \<union> shown_keys E access
    \<and> set (allowed_bash_globs ?h) \<subseteq> set (allowed_bash_globs g) \<union> shown_globs E access
    \<and> set (allowed_web_fetch_domains ?h) \<subseteq> set (allowed_web_fetch_domains g) \<union> shown_domains E access
    \<and> set (allowed_mcp_tools ?h) \<subseteq> set (allowed_mcp_tools g) \<union> shown_tools access
    \<and> set (allowed_mcp_servers ?h) \<subseteq> set (allowed_mcp_servers g) \<union> shown_servers access"
  proof (cases access)
    case (A_Bash cmd)
    then show ?thesis
      using bash_answer_adds [OF refl, where E = E and cmd = cmd and outcome = outcome and g = g] by (auto simp: prompt_effect_of_def)
  qed (use other_answer_adds [OF _ refl, where access = access and E = E and outcome = outcome and g = g] in \<open>auto simp: prompt_effect_of_def is_bash_def\<close>)
  then show ?thesis
    by (simp add: Let_def answer_keeps approval_refuses_nothing refusal_grants_nothing)
qed

end
