(* ===== verification/Perm_Restart.thy ===== *)
theory Perm_Restart
  imports Perm_Memory
begin

text \<open>
  The properties of the manager over time: an accepted row of the prompt is not shown again,
  the invariants of every run, the bound on the refusals of the classifier, and the remembered
  answers after a restart.
\<close>

section \<open>Accepted rows\<close>

lemma bash_grant_ambient [simp]:
  "bash_grant_pre_decision cmd (e\<lparr>ambient_segments := x\<rparr>) g pin opts
     = bash_grant_pre_decision cmd e g pin opts"
  by (simp add: bash_grant_pre_decision_def bash_request_floor_requires_prompt_def cong: SegmentEvaluation.case_cong)

lemma effective_row_replays:
  assumes "always_allow_row_is_effective E cmd" and "primary_command_from_script (parse_shell E) cmd = Some h"
    and "label = join_words (take (default_always_allow_scope (highlighted_words h)) (highlighted_words h))"
    and "more_grants (persist_bash_always_allow E cmd label g0) g"
    and "not_rejected (segments (evaluate_bash E cmd g True))"
  shows "\<exists>reason. bash_grant_pre_decision cmd (evaluate_bash E cmd g True) g pin PRE_CLASSIFIER = Some (D_Allow, reason)"
proof -
  let ?s = "persist_bash_always_allow E cmd label default_state"
  obtain reason where row: "bash_grant_pre_decision cmd (evaluate_bash E cmd ?s True) ?s None PRE_CLASSIFIER
      = Some (D_Allow, reason)"
    using assms(1-3) by (auto simp: always_allow_row_is_effective_def Let_def split: option.splits)
  have more: "more_grants ?s g"
    using persist_mono [OF more_grants_default] assms(4) by (rule more_grants_trans)
  have "not_rejected (segments (evaluate_bash E cmd ?s True))"
    using row by (auto simp: not_rejected_def bash_grant_pre_decision_def split: SegmentEvaluation.splits)
  from evaluate_mono [OF more this assms(5)]
  have le: "evaluation_le (evaluate_bash E cmd ?s True) (evaluate_bash E cmd g True)" .
  have "\<not> allow_bash_execute ?s" by (simp add: persist_key default_state_def split: option.split)
  then show ?thesis
    using grant_decision_mono [OF row le more, of pin] by (simp add: PRE_CLASSIFIER_def)
qed

text \<open>C38: liveness. An accepted row of the prompt is not shown again: when the manager offers to always
  allow a command and the user accepts, then in every later state that has at least the
  grants of that moment, and whatever the modes, a request for the same command is allowed
  without a question (or not answered, when the requester is gone), provided that no segment of
  it has been refused since, the policy neither denies it nor asks about it, and the directories
  git would read carry no code of their own.\<close>

theorem accepted_row_not_asked_again:
  assumes "always_allow_row_is_effective (rule_env M) cmd"
    and "primary_command_from_script (parse_shell (rule_env M)) cmd = Some h"
    and "label = join_words (take (default_always_allow_scope (highlighted_words h)) (highlighted_words h))"
    and "more_grants (eff_grants (prompt_effect_of (rule_env M) (A_Bash cmd) (AllowAlwaysBashCommand label) g)) (grants st)"
    and "not_rejected (segments (evaluate_bash (rule_env M) cmd (grants st) True))"
    and "req_access R = A_Bash cmd" 
    and "\<forall>raw. ambient_segments (evaluate_bash (rule_env M) cmd (grants st) True) = Some raw \<longrightarrow>
      \<not> ambient_risk M (scan_failed W) raw (request_cwd C R)"
    and "compiled_policy C = map_option (policy_new (rule_env M)) c"
    and "\<not> rejects (preflight (request_facts_of M C R W st))" and "\<not> asks (preflight (request_facts_of M C R W st))"
    and "handle_request M C R W st = (st', ev, reply)"
  shows "st' = st \<and> \<not> ev_user_prompted ev \<and> (reply = None \<or> reply = Some D_Allow)"
proof -
  let ?F = "request_facts_of M C R W st"
  have plain: "plain_direct (preflight ?F)" by (simp add: assms(8) plain_preflight)
  have verdict: "policy_decision (preflight ?F) = direct (preflight ?F)"
    using policy_decision_cases(2) [OF plain assms(9)] assms(10) by simp
  then have pf: "policy_decision (preflight ?F) \<in> {None, Some D_Allow}" "\<not> policy_forced_prompt (preflight ?F)"
    "\<not> shell_forced_prompt (preflight ?F)" "protected_edit ?F = None"
    using plain assms(6,9,10) by (auto simp: plain_direct_def rejects_def asks_def policy_forced_prompt_def
        protected_edit_target_def simp del: facts_simps(1,3,4))
  from effective_row_replays [OF assms(1-3) _ assms(5), of g "yolo_pin C"] assms(4) obtain reason
    where grant: "bash_grant_pre_decision cmd (evaluate_bash (rule_env M) cmd (grants st) True) (grants st)
        (yolo_pin C) PRE_CLASSIFIER = Some (D_Allow, reason)"
    by (auto simp: prompt_effect_of_def bash_prompt_effect_def saved_effect_def Let_def)
  obtain e where e: "bash_evaluation ?F = Some e"
      "bash_grant_pre_decision cmd e (grants st) (yolo_pin C) PRE_CLASSIFIER = Some (D_Allow, reason)"
    using grant assms(6,7) by (cases "ambient_segments (evaluate_bash (rule_env M) cmd (grants st) True)")
      (auto simp: request_bash_evaluation_def Let_def)
  have "\<exists>d. decide_before_auto M C (req_access R) ?F st = Some d \<and> fst d = D_Allow"
    using pf e by (auto simp: decide_before_auto_def policy_deny_decision_def yolo_decision_def assms(6)
        session_grant_decision_def session_grant_pre_decision_def simp del: facts_simps split: option.split)
  then show ?thesis using settled_before [OF _ assms(11)] by fastforce
qed

text \<open>The example: \<open>make\<close>, offered, accepted and requested again.\<close>

definition ex_accepting :: PermissionState where
  "ex_accepting = eff_grants (prompt_effect_of ex_perm_env (A_Bash ''make'' :: unit AccessKind)
     (AllowAlwaysBashCommand ''make'') default_state)"

lemma ex_make_words:
  "map_option (map pc_words) (all_commands_from_script ex_parse ''make'') = Some [[''make'']]"
  "map_option highlighted_words (primary_command_from_script ex_parse ''make'') = Some [''make'']"
  "words_join_unambiguously ex_perm_env [''make'']" "minimum_always_allow_scope [''make''] = 1"
  "default_always_allow_scope [''make''] = 1" "unwrap_wrappers [''make''] = [''make'']"
  "matches_whitelist_prefix ''make'' ''make''" "join_words [''make''] = ''make''"
  by code_simp+

lemma ex_make_segment:
  "\<not> special_exec_surface [''make'']" "\<not> is_dangerous_command_words [''make'']" "\<not> is_setup_command [''make'']"
  "\<not> head_is_exec_vehicle [''make'']" "\<not> has_git (segment_exec_facts [''make''])"
  by code_simp+

lemma ex_make_scan:
  assumes "allowed_bash_commands g = [''make'']" and "disallowed_bash_commands g = []"
  shows "segments (evaluate_bash ex_perm_env ''make'' g True) = Seg_AutoAllow True
    \<and> exact_grant (evaluate_bash ex_perm_env ''make'' g True)
    \<and> ambient_segments (evaluate_bash ex_perm_env ''make'' g True) = None"
proof -
  obtain root p where parsed: "parse_shell ex_perm_env ''make'' = Some root"
      "try_parse_word_only_commands_sequence root ''make'' = Some [p]" and p: "pc_words p = [''make'']"
    using ex_make_words(1) by (auto simp: all_commands_from_script_def ex_perm_env_def split: option.splits)
  have "segment_granted ex_perm_env g [''make'']"
    using assms ex_make_words ex_make_segment by (simp add: segment_granted_def)
  then show ?thesis
    using assms ex_make_segment ex_make_words parsed p
    by (simp add: evaluate_bash_def whole_script_grant_def evaluation_of_scan_def scan_segments_step
        scan_segment_def scan_verdict_def scan_facts_def scan_start_def Let_def)
qed

lemma ex_accepting_grants: "allowed_bash_commands ex_accepting = [''make''] \<and> disallowed_bash_commands ex_accepting = []"
proof -
  obtain h where h: "primary_command_from_script ex_parse ''make'' = Some h" "highlighted_words h = [''make'']"
    using ex_make_words(2) by auto
  have "always_allow_key ex_perm_env ''make'' ''make'' = Some ''make''"
    using h ex_make_words by (auto simp: always_allow_key_def ex_perm_env_def Let_def)
  then show ?thesis
    by (simp add: ex_accepting_def prompt_effect_of_def bash_prompt_effect_def saved_effect_def Let_def persist_key
        default_state_def hs_insert_def)
qed

theorem accepted_row_not_asked_again_witness:
  "snd (snd (handle_request ex_manager_env (ex_config ex_manager_env None) (ex_request (A_Bash ''make''))
      (ex_world RejectOnce) (ex_manager False ex_accepting))) \<in> {None, Some D_Allow}"
proof -
  let ?C = "ex_config ex_manager_env None" and ?R = "ex_request (A_Bash ''make'')" and ?W = "ex_world RejectOnce"
  obtain h where h: "primary_command_from_script ex_parse ''make'' = Some h" "highlighted_words h = [''make'']"
    using ex_make_words(2) by auto
  have env: "rule_env ex_manager_env = ex_perm_env" "parse_shell ex_perm_env = ex_parse"
    by (simp_all add: ex_manager_env_def ex_perm_env_def)
  obtain st' ev reply where run: "handle_request ex_manager_env ?C ?R ?W (ex_manager False ex_accepting) = (st', ev, reply)"
    by (metis prod.collapse)
  have "persist_bash_always_allow ex_perm_env ''make'' ''make'' default_state = ex_accepting"
    by (simp add: ex_accepting_def prompt_effect_of_def bash_prompt_effect_def saved_effect_def Let_def)
  then have row: "always_allow_row_is_effective (rule_env ex_manager_env) ''make''"
    using h ex_make_words ex_make_scan [of ex_accepting] ex_accepting_grants
    by (simp add: always_allow_row_is_effective_def Let_def env always_allow_scope_persists_def
        bash_grant_pre_decision_def bash_request_floor_requires_prompt_def grant_if_def PRE_CLASSIFIER_def)
  have "\<not> rejects (preflight (request_facts_of ex_manager_env ?C ?R ?W (ex_manager False ex_accepting)))"
    "\<not> asks (preflight (request_facts_of ex_manager_env ?C ?R ?W (ex_manager False ex_accepting)))"
    by (simp_all add: rejects_def asks_def shell_forced_prompt_def bash_command_asks_def shell_file_forced_prompt_def)
  then have "st' = ex_manager False ex_accepting \<and> \<not> ev_user_prompted ev \<and> (reply = None \<or> reply = Some D_Allow)"
  proof (intro accepted_row_not_asked_again [OF row, where h = h and label = "''make''" and g = default_state and c = None
        and st = "ex_manager False ex_accepting" and R = ?R and W = ?W and C = ?C])
    show "more_grants (eff_grants (prompt_effect_of (rule_env ex_manager_env) (A_Bash ''make'')
        (AllowAlwaysBashCommand ''make'') default_state)) (grants (ex_manager False ex_accepting))"
      unfolding env ex_accepting_def by (simp add: more_grants_def)
    show "''make'' = join_words (take (default_always_allow_scope (highlighted_words h)) (highlighted_words h))"
      using h(2) ex_make_words(5,8) by simp
  qed (use h(1) run ex_make_scan [of ex_accepting] ex_accepting_grants in \<open>simp_all add: env not_rejected_def del: facts_simps\<close>)
  then show ?thesis by (auto simp: run)
qed

section \<open>Invariants of a run\<close>

text \<open>In every state an actor reaches, after any sequence of requests and commands: the two
  modes exclude each other, a pinned session is never in always-approve mode, the denial
  counters and the record of decisions stay within their limits, and no session starts or ends with a standing permission to edit.\<close>

theorem manager_modes:
  assumes "manager_run M default_classifier a evs st"
  shows "\<not> (yolo_mode st \<and> auto_mode st) \<and> (sp_yolo_pin a = None \<or> \<not> yolo_mode st)
    \<and> auto_consecutive_denials st \<le> 3 \<and> auto_total_denials st \<le> 20
    \<and> length (recorded_permission_decisions st) \<le> 12 \<and> edit_policy (grants st) \<noteq> Edit_Allow"
  using run_inv [OF assms]
  by (auto simp: manager_inv_def spawn_config_def AUTO_DENY_CONSECUTIVE_LIMIT_def AUTO_DENY_TOTAL_LIMIT_def
      MAX_RECORDED_PERMISSION_DECISIONS_def)

definition ex_spawn :: spawn_args where
  "ex_spawn = \<lparr>sp_cwd = ''/work'', sp_state_dir = ''/state'', sp_legacy_dir = None, sp_permission_config = Some ex_policy,
     sp_web_fetch_allowed_domains = [], sp_initial_yolo = True, sp_client_identifier = None,
     sp_remember_tool_approvals = False, sp_yolo_pin = Some ''managed''\<rparr>"

theorem manager_modes_witness:
  "\<not> yolo_mode (set_yolo_mode_command (spawn_config ex_manager_env ex_spawn) True
     (spawn_manager ex_manager_env () ex_spawn (\<lambda>_. Read_NotFound)))"
proof -
  have "manager_run ex_manager_env () ex_spawn [] (spawn_manager ex_manager_env () ex_spawn (\<lambda>_. Read_NotFound))"
    by (rule spawned)
  from commanded [OF this, of "ex_world AllowOnce" "Cmd_SetYoloMode True"]
  have "manager_run ex_manager_env () ex_spawn (step_events None) (set_yolo_mode_command
      (spawn_config ex_manager_env ex_spawn) True (spawn_manager ex_manager_env () ex_spawn (\<lambda>_. Read_NotFound)))"
    by (simp add: manager_step_def)
  from manager_modes [OF this] show ?thesis by (simp add: ex_spawn_def)
qed

text \<open>C39: bounds. The refusals of the classifier are rationed: a run has at most twenty of them in all,
  exactly as many as the actor counts, whatever requests and commands come in between; after
  that auto mode asks the user instead.\<close>

theorem classifier_refusals_bounded:
  assumes "manager_run M default_classifier a evs st"
  shows "length (filter (\<lambda>ev. ev_decision_reason ev = AUTO_CLASSIFIER_DENY) evs) = auto_total_denials st
    \<and> auto_total_denials st \<le> AUTO_DENY_TOTAL_LIMIT"
  using run_denials [OF assms] run_inv [OF assms] by (simp add: manager_inv_def)

theorem classifier_refusals_bounded_witness:
  "auto_total_denials (spawn_manager ex_manager_env () ex_spawn (\<lambda>_. Read_NotFound)) \<le> 20"
  using classifier_refusals_bounded [OF spawned [of ex_manager_env "()" ex_spawn "\<lambda>_. Read_NotFound"]]
  by (simp add: AUTO_DENY_TOTAL_LIMIT_def)

section \<open>After a restart\<close>

lemma try_load_cases:
  assumes "try_load_state S path d = (loaded, d')"
  shows "loaded = None \<and> d' = d
    \<or> (\<exists>g s. loaded = Some g \<and> d path = Read_Ok s \<and> (d' = d \<or> d' = persist_state_to_path S path g d))"
  using assms by (auto simp: try_load_state_def Let_def split: read_result.splits if_splits)

text \<open>Reading twice gives the same answers, also when the first reading migrates the file.\<close>

lemma try_load_again:
  assumes "toml_faithful S" and "try_load_state S path d = (Some g, d')"
  shows "\<exists>g' d''. try_load_state S path d' = (Some g', d'') \<and> answers_le g g'"
proof (cases "d' = d")
  case True
  then show ?thesis using assms(2) by auto
next
  case False
  then have d': "d' = persist_state_to_path S path g d" using try_load_cases [OF assms(2)] by auto
  with False have "\<not> write_fails S path" by (auto simp: persist_state_to_path_def split: option.splits)
  from stored_persist_to_path [OF assms(1) this try_load_current [OF assms(2)], of d] obtain g'
    where "fst (try_load_state S path d') = Some g'" "answers_le g g'" by (auto simp: d' stored_def)
  then show ?thesis by (metis prod.collapse)
qed

lemma try_load_elsewhere:
  assumes "try_load_state S path d = (loaded, d')" and "q \<noteq> path \<or> loaded = None"
  shows "d' q = d q"
  using try_load_cases [OF assms(1)] assms(2) by (auto simp: persist_state_to_path_def split: option.splits)

lemma try_load_present:
  assumes "try_load_state S path d = (loaded, d')"
  shows "d' q = Read_NotFound \<longleftrightarrow> d q = Read_NotFound"
  using try_load_cases [OF assms]
  by (elim disjE exE conjE) (simp_all add: persist_state_to_path_def split: option.split)

lemma try_load_local: "d' path = d path \<Longrightarrow> fst (try_load_state S path d') = fst (try_load_state S path d)"
  by (simp add: try_load_state_def Let_def split: read_result.split)

definition load_shared :: "'f store_env \<Rightarrow> string \<Rightarrow> 'f disk \<Rightarrow> PermissionState \<times> 'f disk" where
  "load_shared S dir d = (case try_load_state S (state_file_path dir None) d of
     (Some st, d') \<Rightarrow> (st, d') | (None, d') \<Rightarrow> (default_state, d'))"

lemma load_from_dir_eq:
  "load_state_from_dir S dir client d = (case client of
     None \<Rightarrow> load_shared S dir d
   | Some ident \<Rightarrow> (case try_load_state S (state_file_path dir (Some ident)) d of
       (Some st, d') \<Rightarrow> (st, d') | (None, d') \<Rightarrow> load_shared S dir d'))"
  by (simp add: load_state_from_dir_def load_shared_def Let_def split: option.split prod.split)

lemma load_shared_again:
  assumes "toml_faithful S" and "load_shared S dir d = (g, d')"
  shows "answers_le g (fst (load_shared S dir d'))"
proof (cases "try_load_state S (state_file_path dir None) d")
  case (Pair loaded e)
  show ?thesis
  proof (cases loaded)
    case None
    then have "d' = d" "g = default_state"
      using assms(2) Pair try_load_cases [OF Pair] by (auto simp: load_shared_def)
    then show ?thesis using assms(2) by simp
  next
    case (Some g0)
    then have "try_load_state S (state_file_path dir None) d = (Some g, d')"
      using assms(2) Pair by (simp add: load_shared_def)
    from try_load_again [OF assms(1) this] show ?thesis by (auto simp: load_shared_def)
  qed
qed

lemma load_from_dir_again:
  assumes "toml_faithful S" and "load_state_from_dir S dir client d = (g, d')"
  shows "answers_le g (fst (load_state_from_dir S dir client d'))"
proof (cases client)
  case None
  then show ?thesis using load_shared_again [OF assms(1)] assms(2) by (simp add: load_from_dir_eq)
next
  case (Some ident)
  let ?own = "state_file_path dir (Some ident)"
  show ?thesis
  proof (cases "fst (try_load_state S ?own d)")
    case None
    then obtain e where own: "try_load_state S ?own d = (None, e)" by (metis prod.collapse)
    then have "e = d" using try_load_cases by blast
    then have shared: "load_shared S dir d = (g, d')" using own assms(2) Some by (simp add: load_from_dir_eq)
    have "d' ?own = d ?own"
    proof (cases "try_load_state S (state_file_path dir None) d")
      case (Pair loaded f)
      then have "f = d'" using shared by (auto simp: load_shared_def split: option.splits)
      moreover have "?own \<noteq> state_file_path dir None \<or> loaded = None" using own Pair by auto
      ultimately show ?thesis using try_load_elsewhere [OF Pair] by simp
    qed
    from try_load_local [of d' ?own d S, OF this] None
    obtain e' where "try_load_state S ?own d' = (None, e')" by (metis prod.collapse)
    moreover from this have "e' = d'" using try_load_cases by blast
    ultimately show ?thesis using load_shared_again [OF assms(1) shared] Some by (simp add: load_from_dir_eq)
  next
    case (Some g0)
    then have "try_load_state S ?own d = (Some g, d')"
      using assms(2) \<open>client = Some ident\<close> by (cases "try_load_state S ?own d") (auto simp: load_from_dir_eq)
    from try_load_again [OF assms(1) this] show ?thesis
      using \<open>client = Some ident\<close> by (auto simp: load_from_dir_eq)
  qed
qed

lemma load_from_dir_present:
  assumes "load_state_from_dir S dir client d = (g, d')"
  shows "d' q = Read_NotFound \<longleftrightarrow> d q = Read_NotFound"
proof -
  have shared: "f q = Read_NotFound \<longleftrightarrow> e q = Read_NotFound" if "load_shared S dir e = (g, f)" for e f g
    using that try_load_present by (fastforce simp: load_shared_def split: prod.splits option.splits)
  show ?thesis
    using assms shared try_load_present
    by (fastforce simp: load_from_dir_eq split: prod.splits option.splits)
qed

lemma load_again:
  assumes "toml_faithful S" and "load_state_with_fallback S dir legacy client d = (g, d')"
  shows "answers_le g (fst (load_state_with_fallback S dir legacy client d'))"
proof -
  obtain from_dir where from_dir: "load_state_from_dir S from_dir client d = (g, d')"
    and chosen: "from_dir = (case legacy of Some l \<Rightarrow> if state_dir_has_store dir client d then dir else l | None \<Rightarrow> dir)"
    using assms(2) by (auto simp: load_state_with_fallback_def split: option.splits if_splits)
  have "state_dir_has_store dir client d' = state_dir_has_store dir client d"
    using load_from_dir_present [OF from_dir] by (simp add: state_dir_has_store_def split: option.split)
  then have "load_state_with_fallback S dir legacy client d' = load_state_from_dir S from_dir client d'"
    by (simp add: load_state_with_fallback_def chosen split: option.split)
  then show ?thesis using load_from_dir_again [OF assms(1) from_dir] by simp
qed

text \<open>What a new manager would load from a disk.\<close>

lemma edit_policy_answers [simp]:
  "answers_le g (h\<lparr>edit_policy := p\<rparr>) = answers_le g h" "answers_le (g\<lparr>edit_policy := p\<rparr>) h = answers_le g h"
  by (simp_all add: answers_le_def)

lemma load_grants_answers:
  "answers_le g (fst (load_grants M a d)) = answers_le g (fst (load_state_with_fallback (disk_env M) (sp_state_dir a)
     (sp_legacy_dir a) (sp_client_identifier a) d))"
  by (simp add: load_grants_def Let_def split: prod.split)

lemma load_stored:
  assumes "stored S (state_file_path dir client) d = Some g"
  shows "fst (load_state_with_fallback S dir legacy client d) = g"
proof -
  obtain d' where own: "try_load_state S (state_file_path dir client) d = (Some g, d')"
    using assms by (metis prod.collapse stored_def)
  then have "d (state_file_path dir client) \<noteq> Read_NotFound" using try_load_cases by fastforce
  then have "state_dir_has_store dir client d" by (cases client) (simp_all add: state_dir_has_store_def)
  moreover have "fst (load_state_from_dir S dir client d) = g"
    using own by (cases client) (simp_all add: load_from_dir_eq load_shared_def)
  ultimately show ?thesis by (simp add: load_state_with_fallback_def split: option.split)
qed

lemma stored_recoverable:
  assumes "stored (disk_env M) (state_file_path (sp_state_dir a) (sp_client_identifier a)) d = Some g"
    and "answers_le h g"
  shows "answers_le h (fst (load_grants M a d))"
  unfolding load_grants_answers using load_stored [OF assms(1)] assms(2) by simp

text \<open>What the code relies on: the TOML crate is faithful and the store of the session can be written.\<close>

definition store_works :: "('pat, 'j, 'f) manager_env \<Rightarrow> spawn_args \<Rightarrow> bool" where
  "store_works M a \<longleftrightarrow> toml_faithful (disk_env M)
     \<and> \<not> write_fails (disk_env M) (state_file_path (sp_state_dir a) (sp_client_identifier a))"

text \<open>What the manager expects of a store of answers.\<close>

locale answer_store =
  fixes load :: "'d \<Rightarrow> PermissionState \<times> 'd" and save replace :: "PermissionState \<Rightarrow> 'd \<Rightarrow> 'd" and works :: bool
  assumes load_save: "works \<Longrightarrow> current_version g \<Longrightarrow> answers_le g (fst (load (save g d)))"
    and load_replace: "works \<Longrightarrow> current_version g \<Longrightarrow> answers_le g (fst (load (replace g d)))"
    and load_load: "works \<Longrightarrow> answers_le (fst (load d)) (fst (load (snd (load d))))"
begin

lemma answer_held:
  assumes "works" and "answers_le g (fst (load d))" and "current_version h" and "\<not> save_it \<Longrightarrow> answers_le h g"
  shows "answers_le h (fst (load (if save_it then save h d else d)))"
  using assms load_save answers_le_trans by auto

end

lemma load_grants_again:
  assumes "toml_faithful (disk_env M)" and "edit_policy (fst (load_state_with_fallback (disk_env M) (sp_state_dir a)
      (sp_legacy_dir a) (sp_client_identifier a) d)) \<noteq> Edit_Allow"
  shows "answers_le (fst (load_grants M a d)) (fst (load_grants M a (snd (load_grants M a d))))"
proof -
  obtain g e where loaded: "load_state_with_fallback (disk_env M) (sp_state_dir a) (sp_legacy_dir a)
      (sp_client_identifier a) d = (g, e)" by (metis prod.collapse)
  then have "load_grants M a d = (g, e)" using assms(2) by (simp add: load_grants_def)
  then show ?thesis using load_again [OF assms(1) loaded] by (simp add: load_grants_answers)
qed

lemma saved_recoverable:
  assumes "store_works M a" and "current_version g"
  shows "answers_le g (fst (load_grants M a (save_grants M (spawn_config M a) g d)))"
proof -
  from stored_persist [of "disk_env M" "sp_state_dir a" "sp_client_identifier a" g d] assms obtain g'
    where "stored (disk_env M) (state_file_path (sp_state_dir a) (sp_client_identifier a))
        (persist_state (disk_env M) (sp_state_dir a) (sp_client_identifier a) g d) = Some g'" "answers_le g g'"
    by (auto simp: store_works_def)
  then show ?thesis using stored_recoverable by (simp add: save_grants_def spawn_config_def)
qed

lemma replaced_recoverable:
  assumes "store_works M a" and "current_version g"
  shows "answers_le g (fst (load_grants M a
    (replace_state_on_disk (disk_env M) (sp_state_dir a) (sp_client_identifier a) g d)))"
proof -
  from stored_persist_to_path [of "disk_env M" "state_file_path (sp_state_dir a) (sp_client_identifier a)" g d] assms
  obtain g' where "stored (disk_env M) (state_file_path (sp_state_dir a) (sp_client_identifier a))
      (persist_state_to_path (disk_env M) (state_file_path (sp_state_dir a) (sp_client_identifier a)) g d) = Some g'"
      "answers_le g g'"
    by (auto simp: store_works_def)
  then show ?thesis using stored_recoverable by (simp add: replace_state_on_disk_def)
qed

interpretation answers: answer_store "load_grants M a" "save_grants M (spawn_config M a)"
    "replace_state_on_disk (disk_env M) (sp_state_dir a) (sp_client_identifier a)" "store_works M a" for M a
proof (unfold_locales, goal_cases)
  case (3 d)
  let ?loaded = "load_state_with_fallback (disk_env M) (sp_state_dir a) (sp_legacy_dir a) (sp_client_identifier a) d"
  have cur: "current_version (fst ?loaded)" by (rule load_current)
  show ?case
  proof (cases "edit_policy (fst ?loaded) = Edit_Allow")
    case True
    then have "load_grants M a d = ((fst ?loaded)\<lparr>edit_policy := Edit_Ask\<rparr>,
        save_grants M (spawn_config M a) ((fst ?loaded)\<lparr>edit_policy := Edit_Ask\<rparr>) (snd ?loaded))"
      by (cases ?loaded) (simp add: load_grants_def Let_def save_grants_def spawn_config_def)
    moreover have "current_version ((fst ?loaded)\<lparr>edit_policy := Edit_Ask\<rparr>)" using cur by (simp add: current_version_def)
    ultimately show ?thesis
      using saved_recoverable [OF 3, of "(fst ?loaded)\<lparr>edit_policy := Edit_Ask\<rparr>" "snd ?loaded"] by simp
  qed (use 3 load_grants_again in \<open>auto simp: store_works_def\<close>)
qed (auto intro: saved_recoverable replaced_recoverable)

lemma spawn_simps:
  "grants (spawn_manager M dc a d) = fst (load_grants M a d)"
  "store_disk (spawn_manager M dc a d) = snd (load_grants M a d)"
  by (simp_all add: spawn_manager_def Let_def split: prod.split)

definition recoverable :: "('pat, 'j, 'f) manager_env \<Rightarrow> spawn_args \<Rightarrow> ('c, 'f) manager_state \<Rightarrow> bool" where
  "recoverable M a st \<longleftrightarrow> (store_works M a \<longrightarrow> answers_le (grants st) (fst (load_grants M a (store_disk st))))"

lemma request_held:
  assumes "recoverable M a st" and "current_version (grants st)"
    and "handle_request M (spawn_config M a) R W st = (st', ev, reply)"
  shows "recoverable M a st'"
  unfolding recoverable_def
proof
  assume works: "store_works M a"
  let ?eff = "prompt_effect_of (rule_env M) (req_access R)
    (prompt_user W (req_access R) (protected_edit_target M (spawn_config M a) R)) (grants st)"
  have "current_version (eff_grants ?eff)" using assms(2) by (simp add: current_version_def)
  moreover have before: "answers_le (grants st) (fst (load_grants M a (store_disk st)))"
    using assms(1) works by (simp add: recoverable_def)
  moreover have "answers_le (eff_grants ?eff) (grants st)" if "\<not> eff_persist ?eff"
    using unsaved_answer [OF that] by simp
  ultimately have "answers_le (eff_grants ?eff) (fst (load_grants M a (if eff_persist ?eff
      then save_grants M (spawn_config M a) (eff_grants ?eff) (store_disk st) else store_disk st)))"
    using answers.answer_held [OF works, of "grants st" "store_disk st" "eff_grants ?eff" "eff_persist ?eff"] by simp
  with before handle_frame [OF assms(3)] show "answers_le (grants st') (fst (load_grants M a (store_disk st')))"
    by (auto simp: answered_def Let_def)
qed

interpretation held_runs: manager_invariant M default_classifier a
    "\<lambda>st. manager_inv (spawn_config M a) st \<and> recoverable M a st"
  for M default_classifier a
proof (unfold_locales, goal_cases)
  case (1 d)
  show ?case by (simp add: spawn_simps recoverable_def mode_runs.spawn_kept answers.load_load)
next
  case (2 st R W st' ev reply)
  then show ?case
    using mode_runs.request_kept [of M a st R W st' ev reply] request_held by (auto simp: manager_inv_def)
next
  case (3 st enabled)
  then show ?case using yolo_command_inv [of "spawn_config M a" st enabled]
    by (simp add: set_yolo_mode_command_def recoverable_def Let_def)
next
  case (4 st enabled)
  then show ?case using auto_command_inv [of "spawn_config M a" st default_classifier enabled]
    by (simp add: set_auto_mode_command_def recoverable_def Let_def)
next
  case (5 st)
  then show ?case using reset_inv [of "spawn_config M a" st M]
    by (simp add: reset_command_def recoverable_def spawn_config_def answers.load_replace)
qed (simp_all add: manager_inv_def recoverable_def)

text \<open>C8: roundtrip. Remembered answers survive a restart, where the state file of the session
  can be written and TOML reads back what it prints: whatever requests, answers, resets and mode
  changes a session has seen, a manager that is started on the disk it leaves behind knows at
  least every grant and every refusal the session knew at its end, through the fallback to an
  older directory, the migration of files whose marker is missing, malformed or old, and the
  withdrawal of standing edit permissions.\<close>

theorem answers_survive_restart:
  assumes "store_works M a" and "manager_run M default_classifier a evs st"
  shows "answers_le (grants st) (grants (spawn_manager M default_classifier a (store_disk st)))"
  using held_runs.run_kept [OF assms(2)] assms(1) by (simp add: recoverable_def spawn_simps)

theorem answers_survive_restart_witness:
  "''make'' \<in> set (allowed_bash_commands (grants (spawn_manager ex_manager_env () ex_spawn
     (store_disk (spawn_manager ex_manager_env () ex_spawn
        ((\<lambda>_. Read_NotFound)(state_file_path ''/state'' None := Read_Ok ex_accepting)))))))"
proof -
  let ?d = "(\<lambda>_. Read_NotFound)(state_file_path ''/state'' None := Read_Ok ex_accepting)"
  let ?st = "spawn_manager ex_manager_env () ex_spawn ?d"
  have "store_works ex_manager_env ex_spawn"
    by (auto simp: store_works_def toml_faithful_def ex_manager_env_def ex_store_env_def)
  from answers_survive_restart [OF this spawned [of ex_manager_env "()" ex_spawn ?d]]
  have le: "answers_le (grants ?st) (grants (spawn_manager ex_manager_env () ex_spawn (store_disk ?st)))" .
  have "validated_mcp_server_grants_version ex_accepting = VALIDATED_MCP_SERVER_GRANTS_VERSION"
    by (simp add: ex_accepting_def default_state_def)
  moreover have "ex_accepting\<lparr>validated_mcp_server_grants_version := VALIDATED_MCP_SERVER_GRANTS_VERSION\<rparr> = ex_accepting"
    by (simp add: ex_accepting_def default_state_def)
  ultimately have "stored (disk_env ex_manager_env) (state_file_path (sp_state_dir ex_spawn) (sp_client_identifier ex_spawn)) ?d
      = Some ex_accepting"
    by (simp add: stored_def try_load_state_def state_from_toml_def deserialize_mcp_server_grants_version_def
        VALIDATED_MCP_SERVER_GRANTS_VERSION_def ex_manager_env_def ex_store_env_def ex_spawn_def)
  from stored_recoverable [OF this answers_le_refl]
  have "answers_le ex_accepting (grants ?st)"
    by (simp add: spawn_simps)
  with le have "answers_le ex_accepting (grants (spawn_manager ex_manager_env () ex_spawn (store_disk ?st)))"
    by (rule answers_le_trans [rotated])
  then show ?thesis using ex_accepting_grants by (auto simp: answers_le_def)
qed

end
