(* ===== verification/Perm_Handle.thy ===== *)
theory Perm_Handle
  imports Perm_Manager
begin

text \<open>
  The handle of the permission manager (\<open>PermissionHandle\<close> in \<open>manager/mod.rs\<close>). Every
  session and subagent has a clone of it. A handle changes a mode by storing into the two shared
  flags and sending a command to the actor, which decides for itself and stores into the same
  flags. Here the stores and sends of any number of callers and of the actor interleave one by
  one; an unbounded channel keeps its order. The second part is what a request returns when the
  actor is gone or drops it.
\<close>

section \<open>Mode changes\<close>

datatype mode_command = SetYoloMode bool | SetAutoMode bool

datatype mode_action = Store_Yolo bool | Store_Auto bool | Send mode_command

text \<open>What a caller does, and what the actor does with a command: its own modes, then the flags.\<close>

definition set_yolo_mode_actions :: "string option \<Rightarrow> bool \<Rightarrow> mode_action list" where
  "set_yolo_mode_actions pin enabled =
     (let clamped = clamp_yolo enabled pin
      in Store_Yolo clamped # (if clamped then [Store_Auto False] else []) @ [Send (SetYoloMode enabled)])"

definition set_auto_mode_actions :: "bool \<Rightarrow> mode_action list" where
  "set_auto_mode_actions enabled =
     Store_Auto enabled # (if enabled then [Store_Yolo False] else []) @ [Send (SetAutoMode enabled)]"

definition actor_modes_after :: "string option \<Rightarrow> mode_command \<Rightarrow> bool \<times> bool \<Rightarrow> bool \<times> bool" where
  "actor_modes_after pin cmd modes = (case cmd of
      SetYoloMode enabled \<Rightarrow>
        (let clamped = clamp_yolo enabled pin in (clamped, if clamped then False else snd modes))
    | SetAutoMode enabled \<Rightarrow> (if enabled then False else fst modes, enabled))"

definition actor_actions :: "string option \<Rightarrow> mode_command \<Rightarrow> mode_action list" where
  "actor_actions pin cmd = (case cmd of
      SetYoloMode enabled \<Rightarrow>
        (let clamped = clamp_yolo enabled pin in Store_Yolo clamped # (if clamped then [Store_Auto False] else []))
    | SetAutoMode enabled \<Rightarrow> Store_Auto enabled # (if enabled then [Store_Yolo False] else []))"

record mode_system =
  callers :: "mode_action list list"
  command_queue :: "mode_command list"
  actor_modes :: "bool \<times> bool"
  actor_pending :: "mode_action list"
  flags :: "bool \<times> bool"

fun store_flags :: "mode_action \<Rightarrow> bool \<times> bool \<Rightarrow> bool \<times> bool" where
  "store_flags (Store_Yolo b) f = (b, snd f)"
| "store_flags (Store_Auto b) f = (fst f, b)"
| "store_flags (Send c) f = f"

fun send_command :: "mode_action \<Rightarrow> mode_command list \<Rightarrow> mode_command list" where
  "send_command (Send c) q = q @ [c]"
| "send_command _ q = q"

inductive mode_step :: "string option \<Rightarrow> mode_system \<Rightarrow> mode_system \<Rightarrow> bool" for pin where
  call_yolo: "mode_step pin s (s\<lparr>callers := callers s @ [set_yolo_mode_actions pin enabled]\<rparr>)"
| call_auto: "mode_step pin s (s\<lparr>callers := callers s @ [set_auto_mode_actions enabled]\<rparr>)"
| caller: "i < length (callers s) \<Longrightarrow> callers s ! i = act # rest \<Longrightarrow>
    mode_step pin s (s\<lparr>callers := (callers s)[i := rest], flags := store_flags act (flags s),
      command_queue := send_command act (command_queue s)\<rparr>)"
| receive: "actor_pending s = [] \<Longrightarrow> command_queue s = cmd # rest \<Longrightarrow>
    mode_step pin s (s\<lparr>command_queue := rest, actor_modes := actor_modes_after pin cmd (actor_modes s),
      actor_pending := actor_actions pin cmd\<rparr>)"
| actor: "actor_pending s = act # rest \<Longrightarrow>
    mode_step pin s (s\<lparr>actor_pending := rest, flags := store_flags act (flags s)\<rparr>)"

definition mode_start :: "bool \<times> bool \<Rightarrow> mode_system" where
  "mode_start modes = \<lparr>callers = [], command_queue = [], actor_modes = modes, actor_pending = [], flags = modes\<rparr>"

inductive mode_reachable :: "string option \<Rightarrow> bool \<times> bool \<Rightarrow> mode_system \<Rightarrow> bool" for pin modes where
  start: "mode_reachable pin modes (mode_start modes)"
| step: "mode_reachable pin modes s \<Longrightarrow> mode_step pin s s' \<Longrightarrow> mode_reachable pin modes s'"

text \<open>The two commands of the manager are the actor's part run without interruption.\<close>

lemma yolo_command_actions:
  "(yolo_mode (set_yolo_mode_command C enabled st), auto_mode (set_yolo_mode_command C enabled st))
     = actor_modes_after (yolo_pin C) (SetYoloMode enabled) (yolo_mode st, auto_mode st)"
  "(yolo_cell (set_yolo_mode_command C enabled st), auto_cell (set_yolo_mode_command C enabled st))
     = fold store_flags (actor_actions (yolo_pin C) (SetYoloMode enabled)) (yolo_cell st, auto_cell st)"
  by (simp_all add: set_yolo_mode_command_def actor_modes_after_def actor_actions_def Let_def)

lemma auto_command_actions:
  "(yolo_mode (set_auto_mode_command dc enabled st), auto_mode (set_auto_mode_command dc enabled st))
     = actor_modes_after pin (SetAutoMode enabled) (yolo_mode st, auto_mode st)"
  "(yolo_cell (set_auto_mode_command dc enabled st), auto_cell (set_auto_mode_command dc enabled st))
     = fold store_flags (actor_actions pin (SetAutoMode enabled)) (yolo_cell st, auto_cell st)"
  by (simp_all add: set_auto_mode_command_def actor_modes_after_def actor_actions_def Let_def)

section \<open>The flags and the modes\<close>

text \<open>Which flag a command makes the actor write, and the writers still to come.\<close>

definition writes_yolo :: "string option \<Rightarrow> mode_command \<Rightarrow> bool" where
  "writes_yolo pin cmd \<longleftrightarrow> (\<exists>b. Store_Yolo b \<in> set (actor_actions pin cmd))"

definition writes_auto :: "string option \<Rightarrow> mode_command \<Rightarrow> bool" where
  "writes_auto pin cmd \<longleftrightarrow> (\<exists>b. Store_Auto b \<in> set (actor_actions pin cmd))"

definition coming :: "mode_system \<Rightarrow> mode_command set" where
  "coming s = set (command_queue s) \<union> {c. \<exists>p \<in> set (callers s). Send c \<in> set p}"

text \<open>A caller announces, after each store, a command that makes the actor write the same flag.\<close>

fun announces :: "string option \<Rightarrow> mode_action list \<Rightarrow> bool" where
  "announces pin [] = True"
| "announces pin (Store_Yolo b # p) \<longleftrightarrow> (\<exists>c. Send c \<in> set p \<and> writes_yolo pin c) \<and> (b \<longrightarrow> pin = None) \<and> announces pin p"
| "announces pin (Store_Auto b # p) \<longleftrightarrow> (\<exists>c. Send c \<in> set p \<and> writes_auto pin c) \<and> announces pin p"
| "announces pin (Send c # p) = announces pin p"

text \<open>A flag is right, or somebody is about to write it.\<close>

definition yolo_due :: "string option \<Rightarrow> mode_system \<Rightarrow> bool" where
  "yolo_due pin s \<longleftrightarrow> fst (flags s) = fst (actor_modes s) \<or> (\<exists>b. Store_Yolo b \<in> set (actor_pending s))
     \<or> (\<exists>c \<in> coming s. writes_yolo pin c)"

definition auto_due :: "string option \<Rightarrow> mode_system \<Rightarrow> bool" where
  "auto_due pin s \<longleftrightarrow> snd (flags s) = snd (actor_modes s) \<or> (\<exists>b. Store_Auto b \<in> set (actor_pending s))
     \<or> (\<exists>c \<in> coming s. writes_auto pin c)"

text \<open>What the actor still has to store are its modes.\<close>

definition pending_ok :: "mode_action list \<Rightarrow> bool \<times> bool \<Rightarrow> bool" where
  "pending_ok p modes \<longleftrightarrow> (\<forall>act \<in> set p. act = Store_Yolo (fst modes) \<or> act = Store_Auto (snd modes))"

definition mode_inv :: "string option \<Rightarrow> mode_system \<Rightarrow> bool" where
  "mode_inv pin s \<longleftrightarrow> (\<forall>p \<in> set (callers s). announces pin p)
     \<and> \<not> (fst (actor_modes s) \<and> snd (actor_modes s)) \<and> (fst (actor_modes s) \<longrightarrow> pin = None)
     \<and> (fst (flags s) \<longrightarrow> pin = None) \<and> pending_ok (actor_pending s) (actor_modes s)
     \<and> yolo_due pin s \<and> auto_due pin s"

lemma announces_calls [simp]: "announces pin (set_yolo_mode_actions pin enabled)" "announces pin (set_auto_mode_actions enabled)"
  by (auto simp: set_yolo_mode_actions_def set_auto_mode_actions_def writes_yolo_def writes_auto_def actor_actions_def
      clamp_yolo_def Let_def)

lemma actor_actions_stores:
  "pending_ok (actor_actions pin cmd) (actor_modes_after pin cmd modes)"
  "\<not> writes_yolo pin cmd \<Longrightarrow> fst (actor_modes_after pin cmd modes) = fst modes"
  "\<not> writes_auto pin cmd \<Longrightarrow> snd (actor_modes_after pin cmd modes) = snd modes"
  by (auto simp: actor_actions_def actor_modes_after_def writes_yolo_def writes_auto_def pending_ok_def Let_def
      split: mode_command.splits if_splits)

lemma modes_exclusive:
  "\<not> (fst modes \<and> snd modes) \<Longrightarrow> \<not> (fst (actor_modes_after pin cmd modes) \<and> snd (actor_modes_after pin cmd modes))"
  "(fst modes \<longrightarrow> pin = None) \<Longrightarrow> fst (actor_modes_after pin cmd modes) \<longrightarrow> pin = None"
  by (auto simp: actor_modes_after_def clamp_yolo_def Let_def split: mode_command.splits)

lemma coming_call: "coming s \<subseteq> coming (s\<lparr>callers := callers s @ [p]\<rparr>)"
  by (auto simp: coming_def)

text \<open>A caller's action: what was coming still is, and a store is announced.\<close>

lemma coming_caller:
  assumes "i < length (callers s)" and "callers s ! i = act # rest"
  shows "coming (s\<lparr>callers := (callers s)[i := rest], flags := f, command_queue := send_command act (command_queue s)\<rparr>) = coming s"
proof -
  have "{c. \<exists>p \<in> set (callers s). Send c \<in> set p} = {c. \<exists>p \<in> set ((callers s)[i := rest]). Send c \<in> set p}
      \<union> {c. act = Send c}"
  proof (intro set_eqI iffI)
    fix c assume "c \<in> {c. \<exists>p \<in> set (callers s). Send c \<in> set p}"
    then obtain p where "p \<in> set (callers s)" "Send c \<in> set p" by blast
    then obtain j where "j < length (callers s)" "Send c \<in> set (callers s ! j)" by (metis in_set_conv_nth)
    then show "c \<in> {c. \<exists>p \<in> set ((callers s)[i := rest]). Send c \<in> set p} \<union> {c. act = Send c}"
      using assms by (cases "j = i") (force simp: in_set_conv_nth)+
  next
    fix c assume "c \<in> {c. \<exists>p \<in> set ((callers s)[i := rest]). Send c \<in> set p} \<union> {c. act = Send c}"
    then consider "Send c \<in> set (callers s ! i)" | p where "p \<in> set (callers s)" "Send c \<in> set p"
      using set_update_subset_insert [of "callers s" i rest] assms(2) by fastforce
    then show "c \<in> {c. \<exists>p \<in> set (callers s). Send c \<in> set p}"
      using nth_mem [OF assms(1)] by cases blast+
  qed
  then show ?thesis by (cases act) (auto simp: coming_def)
qed

lemma coming_rest:
  assumes "i < length (callers s)" and "callers s ! i = act # rest" and "Send c \<in> set rest"
  shows "c \<in> coming s"
  using assms nth_mem [OF assms(1)] by (auto simp: coming_def intro!: bexI [of _ "callers s ! i"])

lemma announces_tail: "announces pin (act # rest) \<Longrightarrow> announces pin rest"
  by (cases act) auto

lemma receive_inv:
  assumes "mode_inv pin s" and "actor_pending s = []" and "command_queue s = cmd # rest"
  shows "mode_inv pin (s\<lparr>command_queue := rest, actor_modes := actor_modes_after pin cmd (actor_modes s),
    actor_pending := actor_actions pin cmd\<rparr>)" (is "mode_inv pin ?s")
proof -
  have coming: "coming s = insert cmd (coming ?s)" using assms(3) by (auto simp: coming_def)
  have "yolo_due pin ?s"
  proof (cases "writes_yolo pin cmd")
    case True
    then show ?thesis by (simp add: yolo_due_def writes_yolo_def)
  next
    case False
    then show ?thesis
      using assms(1,2) coming actor_actions_stores(2) by (auto simp: mode_inv_def yolo_due_def)
  qed
  moreover have "auto_due pin ?s"
  proof (cases "writes_auto pin cmd")
    case True
    then show ?thesis by (simp add: auto_due_def writes_auto_def)
  next
    case False
    then show ?thesis
      using assms(1,2) coming actor_actions_stores(3) by (auto simp: mode_inv_def auto_due_def)
  qed
  ultimately show ?thesis
    using assms(1) actor_actions_stores(1) modes_exclusive(1) [of "actor_modes s" pin cmd]
      modes_exclusive(2) [of "actor_modes s" pin cmd] unfolding mode_inv_def by simp
qed

lemma mode_step_inv:
  assumes "mode_step pin s s'" and "mode_inv pin s"
  shows "mode_inv pin s'"
  using assms(1)
proof cases
  case (call_yolo enabled)
  then show ?thesis
    using assms(2) coming_call [of s "set_yolo_mode_actions pin enabled"]
    by (auto simp: mode_inv_def yolo_due_def auto_due_def)
next
  case (call_auto enabled)
  then show ?thesis
    using assms(2) coming_call [of s "set_auto_mode_actions enabled"]
    by (auto simp: mode_inv_def yolo_due_def auto_due_def)
next
  case (caller i act rest)
  note same = coming_caller [OF caller(2,3)] and later = coming_rest [OF caller(2,3)]
  have act: "announces pin (act # rest)" using caller(2,3) assms(2) nth_mem [of i "callers s"] by (auto simp: mode_inv_def)
  have rest: "\<forall>p \<in> set ((callers s)[i := rest]). announces pin p"
    using assms(2) announces_tail [OF act] set_update_subset_insert [of "callers s" i rest] by (auto simp: mode_inv_def)
  have due: "yolo_due pin s" "auto_due pin s" using assms(2) by (simp_all add: mode_inv_def)
  have "yolo_due pin s'"
    using due(1) act later unfolding caller(1) yolo_due_def same by (cases act) auto
  moreover have "auto_due pin s'"
    using due(2) act later unfolding caller(1) auto_due_def same by (cases act) auto
  moreover have "fst (flags s') \<longrightarrow> pin = None"
    unfolding caller(1) using assms(2) act by (cases act) (auto simp: mode_inv_def)
  ultimately show ?thesis using assms(2) rest unfolding caller(1) by (simp add: mode_inv_def)
next
  case (receive cmd rest)
  then show ?thesis using receive_inv [OF assms(2)] by simp
next
  case (actor act rest)
  have coming: "coming s' = coming s" unfolding actor(1) by (simp add: coming_def)
  have act: "act = Store_Yolo (fst (actor_modes s)) \<or> act = Store_Auto (snd (actor_modes s))"
    using assms(2) actor(2) by (simp add: mode_inv_def pending_ok_def)
  have due: "yolo_due pin s" "auto_due pin s" using assms(2) by (simp_all add: mode_inv_def)
  have "yolo_due pin s'" using due(1) actor act unfolding yolo_due_def coming by auto
  moreover have "auto_due pin s'" using due(2) actor act unfolding auto_due_def coming by auto
  moreover have "fst (flags s') \<longrightarrow> pin = None" using assms(2) actor act by (auto simp: mode_inv_def)
  ultimately show ?thesis using assms(2) unfolding actor(1) by (simp add: mode_inv_def pending_ok_def actor(2))
qed

lemma mode_reachable_inv:
  assumes "mode_reachable pin modes s" and "\<not> (fst modes \<and> snd modes)" and "fst modes \<longrightarrow> pin = None"
  shows "mode_inv pin s"
  using assms(1)
proof induction
  case start
  then show ?case using assms(2,3) by (simp add: mode_inv_def mode_start_def yolo_due_def auto_due_def pending_ok_def)
next
  case (step s s')
  then show ?case using mode_step_inv by blast
qed

text \<open>C15: invariant. The flags the handles read agree with the actor's modes whenever nothing is under way: for
  any number of callers that switch modes at the same time, in every interleaving of their
  stores and sends with the actor's receives and stores, the two modes of the actor exclude
  each other; under a pin neither the actor nor, at any moment, the flag says always-approve;
  and once every caller has returned, the queue is empty and the actor is idle, both flags are
  the actor's modes, whichever caller was last.\<close>

theorem flags_agree_when_idle:
  assumes "mode_reachable pin modes s" and "\<not> (fst modes \<and> snd modes)" and "fst modes \<longrightarrow> pin = None"
  shows "\<not> (fst (actor_modes s) \<and> snd (actor_modes s))
    \<and> (pin = None \<or> \<not> fst (actor_modes s) \<and> \<not> fst (flags s))
    \<and> (list_all (\<lambda>p. p = []) (callers s) \<and> command_queue s = [] \<and> actor_pending s = [] \<longrightarrow> flags s = actor_modes s)"
proof -
  have I: "mode_inv pin s" by (rule mode_reachable_inv [OF assms])
  have "flags s = actor_modes s"
    if "list_all (\<lambda>p. p = []) (callers s)" "command_queue s = []" "actor_pending s = []"
  proof -
    have "coming s = {}" using that by (auto simp: coming_def list_all_iff)
    then show ?thesis using I that by (auto simp: mode_inv_def yolo_due_def auto_due_def prod_eq_iff)
  qed
  then show ?thesis using I by (auto simp: mode_inv_def)
qed

text \<open>The example: one caller switches to auto mode, and the actor follows.\<close>

theorem flags_agree_when_idle_witness:
  "\<exists>s. mode_reachable None (True, False) s \<and> command_queue s = [] \<and> flags s = (False, True) \<and> flags s = actor_modes s"
proof -
  let ?s0 = "mode_start (True, False)"
  let ?s1 = "?s0\<lparr>callers := [set_auto_mode_actions True]\<rparr>"
  let ?s2 = "?s1\<lparr>callers := [[Store_Yolo False, Send (SetAutoMode True)]], flags := (True, True)\<rparr>"
  let ?s3 = "?s2\<lparr>callers := [[Send (SetAutoMode True)]], flags := (False, True)\<rparr>"
  let ?s4 = "?s3\<lparr>callers := [[]], command_queue := [SetAutoMode True]\<rparr>"
  let ?s5 = "?s4\<lparr>command_queue := [], actor_modes := (False, True), actor_pending := [Store_Auto True, Store_Yolo False]\<rparr>"
  let ?s6 = "?s5\<lparr>actor_pending := [Store_Yolo False]\<rparr>" and ?s7 = "?s5\<lparr>actor_pending := []\<rparr>"
  note simps = mode_start_def set_auto_mode_actions_def actor_modes_after_def actor_actions_def
  have "mode_step None ?s0 ?s1" using mode_step.call_auto [of None ?s0 True] by (simp add: simps)
  moreover have "mode_step None ?s1 ?s2"
    using mode_step.caller [of 0 ?s1 "Store_Auto True" "[Store_Yolo False, Send (SetAutoMode True)]" None] by (simp add: simps)
  moreover have "mode_step None ?s2 ?s3"
    using mode_step.caller [of 0 ?s2 "Store_Yolo False" "[Send (SetAutoMode True)]" None] by (simp add: simps)
  moreover have "mode_step None ?s3 ?s4"
    using mode_step.caller [of 0 ?s3 "Send (SetAutoMode True)" "[]" None] by (simp add: simps)
  moreover have "mode_step None ?s4 ?s5"
    using mode_step.receive [of ?s4 "SetAutoMode True" "[]" None] by (simp add: simps)
  moreover have "mode_step None ?s5 ?s6" using mode_step.actor [of ?s5 "Store_Auto True" "[Store_Yolo False]" None] by (simp add: simps)
  moreover have "mode_step None ?s6 ?s7" using mode_step.actor [of ?s6 "Store_Yolo False" "[]" None] by (simp add: simps)
  ultimately have reached: "mode_reachable None (True, False) ?s7"
    using mode_reachable.start [of None "(True, False)"] mode_reachable.step by blast
  from flags_agree_when_idle [OF this] have "flags ?s7 = actor_modes ?s7" by (simp add: simps)
  then show ?thesis using reached by (intro exI [of _ ?s7]) (simp add: simps)
qed

section \<open>What a request returns\<close>

text \<open>\<open>AllowAll\<close>, or the actor: \<open>None\<close> when the command cannot be sent any more, and otherwise the
  reply, which is \<open>None\<close> when the actor dropped the request.\<close>

datatype 'r PermissionHandle = Actor 'r | AllowAll

definition request_resolved :: "Decision option option PermissionHandle \<Rightarrow> Decision" where
  "request_resolved handle = (case handle of
      AllowAll \<Rightarrow> D_Allow
    | Actor None \<Rightarrow> D_Reject ''permission manager unavailable''
    | Actor (Some None) \<Rightarrow> D_Reject ''failed to receive permission decision''
    | Actor (Some (Some decision)) \<Rightarrow> decision)"

definition handle_is_yolo_mode :: "('c, 'f) manager_state PermissionHandle \<Rightarrow> bool" where
  "handle_is_yolo_mode handle = (case handle of AllowAll \<Rightarrow> True | Actor st \<Rightarrow> yolo_cell st)"

definition handle_is_auto_mode :: "('c, 'f) manager_state PermissionHandle \<Rightarrow> bool" where
  "handle_is_auto_mode handle = (case handle of AllowAll \<Rightarrow> False | Actor st \<Rightarrow> auto_cell st)"

end
