(* ===== verification/Perm_Prompt.thy ===== *)
theory Perm_Prompt
  imports Perm_Memory
begin

text \<open>
  The local prompt (\<open>AcpPrompter\<close> in \<open>prompter.rs\<close>): the rows a client of some type is shown for
  an access, and the answer a response of the client becomes. A client may send any option id
  and any metadata. The metadata is JSON: its decoding into a selection of words or of an MCP
  scope, its follow-up text and Unicode title case are parameters. The transport through the
  hub and the metadata attached to the rows are not modelled.
\<close>

section \<open>Rows\<close>

datatype ClientType = Generic | GrokWeb | Nebula | GrokTUI | GrokPager | Desktop | Extension

datatype PermissionOptionKind = K_AllowOnce | K_AllowAlways | K_RejectOnce | K_RejectAlways

record PermissionOption =
  option_name :: string
  option_kind :: PermissionOptionKind

text \<open>An \<open>IndexMap\<close> from ids to rows: insertion replaces in place or appends.\<close>

type_synonym option_map = "(string \<times> PermissionOption) list"

fun im_insert :: "string \<Rightarrow> PermissionOption \<Rightarrow> option_map \<Rightarrow> option_map" where
  "im_insert k v [] = [(k, v)]"
| "im_insert k v ((k', v') # m) = (if k = k' then (k, v) # m else (k', v') # im_insert k v m)"

definition im_extend :: "option_map \<Rightarrow> option_map \<Rightarrow> option_map" where
  "im_extend m n = foldl (\<lambda>acc (k, v). im_insert k v acc) m n"

definition im_remove :: "string \<Rightarrow> option_map \<Rightarrow> option_map" where
  "im_remove k m = filter (\<lambda>(k', _). k' \<noteq> k) m"

definition row :: "string \<Rightarrow> string \<Rightarrow> PermissionOptionKind \<Rightarrow> string \<times> PermissionOption" where
  "row oid label kind = (oid, \<lparr>option_name = label, option_kind = kind\<rparr>)"

definition REJECT_ONCE_LABEL :: string where
  "REJECT_ONCE_LABEL = ''No, and tell Grok what to do differently''"

definition ALLOW_EDITS_SESSION_OPTION_ID :: string where
  "ALLOW_EDITS_SESSION_OPTION_ID = ''allow-edits-session''"

definition ENABLE_ALWAYS_APPROVE_OPTION_ID :: string where
  "ENABLE_ALWAYS_APPROVE_OPTION_ID = ''enable-always-approve''"

definition ENABLE_ALWAYS_APPROVE_LABEL :: string where
  "ENABLE_ALWAYS_APPROVE_LABEL = ''Yes, and don'' @ [CHR 0x27] @ ''t ask again for anything (always-approve mode)''"

definition enable_always_approve_option :: "string \<times> PermissionOption" where
  "enable_always_approve_option = row ENABLE_ALWAYS_APPROVE_OPTION_ID ENABLE_ALWAYS_APPROVE_LABEL K_AllowOnce"

definition client_supports_enable_always_approve :: "ClientType \<Rightarrow> bool" where
  "client_supports_enable_always_approve ct \<longleftrightarrow> ct = GrokTUI \<or> ct = GrokPager \<or> ct = Desktop"

definition prepend_enable_always_approve :: "ClientType \<Rightarrow> option_map \<Rightarrow> option_map" where
  "prepend_enable_always_approve ct base =
     (if \<not> client_supports_enable_always_approve ct then base
      else im_extend [enable_always_approve_option] base)"

definition edit_options :: option_map where
  "edit_options =
     [row ALLOW_EDITS_SESSION_OPTION_ID ''Yes, allow all edits during this session'' K_AllowAlways,
      row ''allow-once'' ''Yes'' K_AllowOnce, row ''reject-once'' REJECT_ONCE_LABEL K_RejectOnce]"

definition bash_options :: option_map where
  "bash_options = [row ''allow-once'' ''Yes, proceed'' K_AllowOnce, row ''reject-once'' REJECT_ONCE_LABEL K_RejectOnce]"

definition generic_bash_options :: option_map where
  "generic_bash_options =
     [row ''always-allow'' (''Yes, and don'' @ [CHR 0x27] @ ''t ask again for bash commands'') K_AllowAlways,
      row ''allow-once'' ''Yes, proceed'' K_AllowOnce,
      row ''reject-once'' REJECT_ONCE_LABEL K_RejectOnce,
      row ''reject-always'' (''No, and don'' @ [CHR 0x27] @ ''t ask again for this command'') K_RejectAlways]"

definition fallback_options :: option_map where
  "fallback_options = [row ''always-allow'' ''always allow'' K_AllowAlways,
     row ''allow-once'' ''allow once'' K_AllowOnce, row ''reject-once'' ''reject once'' K_RejectOnce]"

definition REMEMBER_TOOL_APPROVALS_GATED_IDS :: "string list" where
  "REMEMBER_TOOL_APPROVALS_GATED_IDS = [''allow-always-command'', ''reject-always-command'', ''allow-always-mcp'',
     ''reject-always-mcp'', ''allow-always-domain'', ''reject-always-domain'', ''always-allow'', ''reject-always'']"

datatype McpScopeSelection = Scope_Tool string | Scope_Server string

record BashCommandSelectedTerms =
  command_parts :: "string list"
  is_glob :: bool

text \<open>Decoding of the client's metadata, and title case of a word.\<close>

record 'm prompt_env =
  decode_mcp_scope :: "'m \<Rightarrow> McpScopeSelection option"
  decode_bash_terms :: "'m \<Rightarrow> BashCommandSelectedTerms option"
  followup_text :: "'m \<Rightarrow> string option"
  title_word :: "string \<Rightarrow> string"

definition mcp_tool_action :: "string \<Rightarrow> string option \<Rightarrow> string" where
  "mcp_tool_action name server_prefix = (case server_prefix of
      None \<Rightarrow> name
    | Some p \<Rightarrow> (case Option.bind (strip_prefix p name) (strip_prefix ''__'') of
          Some act \<Rightarrow> act | None \<Rightarrow> name))"

definition mcp_titleize_segment :: "'m prompt_env \<Rightarrow> string \<Rightarrow> string" where
  "mcp_titleize_segment P name = join_words (map (title_word P) (split_on (CHR ''_'') name))"

definition mcp_tool_display_name :: "'m prompt_env \<Rightarrow> string \<Rightarrow> string option \<Rightarrow> string" where
  "mcp_tool_display_name P name server_prefix =
     (let act = mcp_tool_action name server_prefix
      in case server_prefix of
        Some server \<Rightarrow> ''('' @ mcp_titleize_segment P server @ '') '' @ mcp_titleize_segment P act
      | None \<Rightarrow> mcp_titleize_segment P name)"

definition bash_scope_option ::
  "string \<Rightarrow> string \<Rightarrow> PermissionOptionKind \<Rightarrow> BashCommandHighlights \<Rightarrow> string \<times> PermissionOption" where
  "bash_scope_option oid label kind primary = row oid (label @ '' '' @ join_words (highlighted_words primary)) kind"

definition domain_from_url :: "('pat, 'j) policy_env \<Rightarrow> string \<Rightarrow> string option" where
  "domain_from_url E url = map_option (normalize_domain E) (url_host E url)"

definition bash_rows :: "('pat, 'j) policy_env \<Rightarrow> ClientType \<Rightarrow> string \<Rightarrow> option_map" where
  "bash_rows E ct cmd =
     (if client_supports_enable_always_approve ct then
        (let primary = primary_command_from_script (parse_shell E) cmd;
             allow = (case primary of
                 Some h \<Rightarrow> if always_allow_row_is_effective E cmd
                   then [bash_scope_option ''allow-always-command'' ''Always allow:'' K_AllowAlways h] else []
               | None \<Rightarrow> []);
             base = im_extend allow bash_options
         in case primary of
              Some h \<Rightarrow> im_extend base [bash_scope_option ''reject-always-command'' ''Never allow:'' K_RejectAlways h]
            | None \<Rightarrow> base)
      else generic_bash_options)"

definition web_fetch_rows :: "('pat, 'j) policy_env \<Rightarrow> string \<Rightarrow> option_map" where
  "web_fetch_rows E url =
     (let domain = (case domain_from_url E url of Some d \<Rightarrow> d | None \<Rightarrow> ''unknown domain'');
          deny_domain = (case web_fetch_deny_key_from_url E url of Some d \<Rightarrow> d | None \<Rightarrow> domain)
      in [row ''allow-always-domain'' (''Yes, always allow '' @ domain @ '' for this project'') K_AllowAlways,
          row ''allow-once'' ''Yes, allow once'' K_AllowOnce,
          row ''reject-once'' REJECT_ONCE_LABEL K_RejectOnce,
          row ''reject-always-domain'' (''No, never allow '' @ deny_domain @ '' for this project'') K_RejectAlways])"

definition mcp_rows :: "'m prompt_env \<Rightarrow> ClientType \<Rightarrow> string \<Rightarrow> option_map" where
  "mcp_rows P ct name =
     (if client_supports_enable_always_approve ct then
        [row ''allow-always-mcp'' (''Always allow: '' @ name) K_AllowAlways,
         row ''allow-once'' ''Yes'' K_AllowOnce,
         row ''reject-once'' REJECT_ONCE_LABEL K_RejectOnce,
         row ''reject-always-mcp'' (''Never allow: '' @ mcp_tool_display_name P name
           (map_option fst (parse_mcp_qualified_name name))) K_RejectAlways]
      else fallback_options)"

definition build_options_inner ::
  "('pat, 'j) policy_env \<Rightarrow> 'm prompt_env \<Rightarrow> ClientType \<Rightarrow> 'j AccessKind \<Rightarrow> option_map" where
  "build_options_inner E P ct access = (case access of
      A_Edit _ \<Rightarrow> edit_options
    | A_Bash cmd \<Rightarrow> bash_rows E ct cmd
    | A_WebFetch url \<Rightarrow> web_fetch_rows E url
    | A_MCPTool name _ \<Rightarrow> mcp_rows P ct name
    | _ \<Rightarrow> fallback_options)"

definition build_options ::
  "('pat, 'j) policy_env \<Rightarrow> 'm prompt_env \<Rightarrow> ClientType \<Rightarrow> bool \<Rightarrow> 'j AccessKind \<Rightarrow> option_map" where
  "build_options E P ct remember access =
     (let base = build_options_inner E P ct access;
          shown = (if remember then base else foldl (\<lambda>m oid. im_remove oid m) base REMEMBER_TOOL_APPROVALS_GATED_IDS)
      in prepend_enable_always_approve ct shown)"

section \<open>The answer\<close>

definition mcp_scope_outcome :: "'m prompt_env \<Rightarrow> 'm option \<Rightarrow> 'j AccessKind \<Rightarrow> PromptOutcome" where
  "mcp_scope_outcome P meta access =
     (let own = (case access of A_MCPTool name _ \<Rightarrow> AllowAlwaysMcpTool name | _ \<Rightarrow> AllowAlways)
      in case Option.bind meta (decode_mcp_scope P) of
        Some (Scope_Tool tool) \<Rightarrow> AllowAlwaysMcpTool tool
      | Some (Scope_Server server) \<Rightarrow> if server = [] then own else AllowAlwaysMcpServer server
      | None \<Rightarrow> own)"

definition domain_outcome :: "('pat, 'j) policy_env \<Rightarrow> 'j AccessKind \<Rightarrow> PromptOutcome" where
  "domain_outcome E access = (case (case access of A_WebFetch url \<Rightarrow> domain_from_url E url | _ \<Rightarrow> None) of
      Some domain \<Rightarrow> if domain \<noteq> [] then AllowAlwaysDomain domain else AllowOnce
    | None \<Rightarrow> AllowOnce)"

definition command_outcome ::
  "('pat, 'j) policy_env \<Rightarrow> 'm prompt_env \<Rightarrow> 'm option \<Rightarrow> 'j AccessKind \<Rightarrow> PromptOutcome" where
  "command_outcome E P meta access = (case Option.bind meta (decode_bash_terms P) of
      Some terms \<Rightarrow> (let pattern = join_words (command_parts terms)
        in if is_glob terms then AllowAlwaysBashGlob pattern else AllowAlwaysBashCommand pattern)
    | None \<Rightarrow> (case access of
        A_Bash cmd \<Rightarrow> (case primary_command_from_script (parse_shell E) cmd of
            Some h \<Rightarrow> AllowAlwaysBashCommand (join_words (highlighted_words h)) | None \<Rightarrow> AllowAlways)
      | _ \<Rightarrow> AllowAlways))"

definition allow_always_outcome ::
  "('pat, 'j) policy_env \<Rightarrow> 'm prompt_env \<Rightarrow> string \<Rightarrow> 'm option \<Rightarrow> 'j AccessKind \<Rightarrow> PromptOutcome" where
  "allow_always_outcome E P oid meta access =
     (if oid = ENABLE_ALWAYS_APPROVE_OPTION_ID then AllowOnce
      else if oid = ''allow-always-mcp'' then mcp_scope_outcome P meta access
      else if oid = ''allow-always-domain'' then domain_outcome E access
      else if oid = ''allow-always-command'' then command_outcome E P meta access
      else if oid = ALLOW_EDITS_SESSION_OPTION_ID then AllowEditsForSession
      else AllowAlways)"

definition reject_once_outcome :: "'m prompt_env \<Rightarrow> 'm option \<Rightarrow> PromptOutcome" where
  "reject_once_outcome P meta = (case Option.bind meta (followup_text P) of
      Some text \<Rightarrow> if trim text \<noteq> [] then FollowupMessage text else RejectOnce
    | None \<Rightarrow> RejectOnce)"

definition reject_always_outcome ::
  "('pat, 'j) policy_env \<Rightarrow> 'm prompt_env \<Rightarrow> string \<Rightarrow> 'm option \<Rightarrow> 'j AccessKind \<Rightarrow> PromptOutcome" where
  "reject_always_outcome E P oid meta access =
     (if oid = ''reject-always-command'' \<or> oid = ''reject-always'' then
        (case Option.bind meta (decode_bash_terms P) of
           Some terms \<Rightarrow> RejectAlwaysBashCommand (join_words (command_parts terms))
         | None \<Rightarrow> (case access of
             A_Bash cmd \<Rightarrow> RejectAlwaysBashCommand (case primary_command_from_script (parse_shell E) cmd of
                 Some h \<Rightarrow> join_words (highlighted_words h) | None \<Rightarrow> cmd)
           | _ \<Rightarrow> RejectOnce))
      else if oid = ''reject-always-mcp'' then
        (case access of A_MCPTool name _ \<Rightarrow> RejectAlwaysMcpTool name | _ \<Rightarrow> RejectOnce)
      else if oid = ''reject-always-domain'' then
        (case (case access of A_WebFetch url \<Rightarrow> web_fetch_deny_key_from_url E url | _ \<Rightarrow> None) of
           Some domain \<Rightarrow> RejectAlwaysDomain domain | None \<Rightarrow> RejectOnce)
      else RejectOnce)"

definition map_selected_outcome ::
  "('pat, 'j) policy_env \<Rightarrow> 'm prompt_env \<Rightarrow> option_map \<Rightarrow> string \<Rightarrow> 'm option \<Rightarrow> 'j AccessKind \<Rightarrow> PromptOutcome" where
  "map_selected_outcome E P opts oid meta access = (case map_of opts oid of
      None \<Rightarrow> PromptError ''unknown permission option''
    | Some opt \<Rightarrow> (case option_kind opt of
        K_AllowOnce \<Rightarrow> AllowOnce
      | K_AllowAlways \<Rightarrow> allow_always_outcome E P oid meta access
      | K_RejectOnce \<Rightarrow> reject_once_outcome P meta
      | K_RejectAlways \<Rightarrow> reject_always_outcome E P oid meta access))"

datatype 'm client_response = Resp_Cancelled | Resp_Selected string "'m option" | Resp_Unknown | Resp_Failed

definition prompter_request ::
  "('pat, 'j) policy_env \<Rightarrow> 'm prompt_env \<Rightarrow> ClientType \<Rightarrow> bool \<Rightarrow> (option_map \<Rightarrow> 'm client_response) \<Rightarrow>
     'j AccessKind \<Rightarrow> PromptOutcome" where
  "prompter_request E P ct remember client access =
     (let opts = build_options E P ct remember access
      in case client opts of
        Resp_Cancelled \<Rightarrow> Cancelled
      | Resp_Selected oid meta \<Rightarrow> map_selected_outcome E P opts oid meta access
      | Resp_Unknown \<Rightarrow> PromptError ''unknown permission outcome''
      | Resp_Failed \<Rightarrow> PromptError ''failed to request permission'')"

section \<open>Rows and answers\<close>

lemma set_im_insert: "set (im_insert k v m) \<subseteq> insert (k, v) (set m)"
  by (induction k v m rule: im_insert.induct) auto

lemma set_im_extend: "set (im_extend m n) \<subseteq> set m \<union> set n"
  unfolding im_extend_def
proof (induction n arbitrary: m)
  case (Cons kv n)
  obtain k v where kv: "kv = (k, v)" by (cases kv)
  show ?case using Cons.IH [of "im_insert k v m"] set_im_insert [of k v m] by (auto simp: kv)
qed simp

lemma scoped_outcomes_approve:
  "user_approves (mcp_scope_outcome P meta access)" "user_approves (domain_outcome E access)"
  "user_approves (command_outcome E P meta access)"
  by (auto simp: user_approves_def mcp_scope_outcome_def domain_outcome_def command_outcome_def Let_def
      split: option.split AccessKind.split McpScopeSelection.split)

lemma approving_rows:
  "user_approves (allow_always_outcome E P oid meta access)" "\<not> user_approves (reject_once_outcome P meta)"
  "\<not> user_approves (reject_always_outcome E P oid meta access)"
proof -
  have simple: "user_approves AllowOnce" "user_approves AllowAlways" "user_approves AllowEditsForSession"
    by (simp_all add: user_approves_def)
  show "user_approves (allow_always_outcome E P oid meta access)"
    unfolding allow_always_outcome_def by (simp add: scoped_outcomes_approve simple)
  show "\<not> user_approves (reject_once_outcome P meta)"
    by (auto simp: user_approves_def reject_once_outcome_def split: option.split)
  show "\<not> user_approves (reject_always_outcome E P oid meta access)"
    by (auto simp: user_approves_def reject_always_outcome_def Let_def split: option.split AccessKind.split)
qed

lemma selected_approves:
  "user_approves (map_selected_outcome E P opts oid meta access) \<longleftrightarrow>
     (\<exists>opt. map_of opts oid = Some opt \<and> option_kind opt \<in> {K_AllowOnce, K_AllowAlways})"
proof (cases "map_of opts oid")
  case None
  then show ?thesis by (simp add: map_selected_outcome_def user_approves_def)
next
  case (Some opt)
  have "user_approves AllowOnce" by (simp add: user_approves_def)
  with Some show ?thesis by (cases "option_kind opt") (simp_all add: map_selected_outcome_def approving_rows)
qed

text \<open>The rows that make something be remembered are all behind the gate.\<close>

definition gated_row :: "string \<times> PermissionOption \<Rightarrow> bool" where
  "gated_row r \<longleftrightarrow> option_kind (snd r) \<in> {K_AllowOnce, K_RejectOnce}
     \<or> fst r = ALLOW_EDITS_SESSION_OPTION_ID \<and> option_kind (snd r) = K_AllowAlways
     \<or> fst r \<in> set REMEMBER_TOOL_APPROVALS_GATED_IDS"

lemmas row_defs = gated_row_def row_def REMEMBER_TOOL_APPROVALS_GATED_IDS_def

lemma bash_rows_gated:
  fixes E :: "('pat, 'j) policy_env"
  shows "\<forall>r \<in> set (bash_rows E ct cmd). gated_row r"
proof -
  have scope: "gated_row (bash_scope_option ''allow-always-command'' l K_AllowAlways h)"
    "gated_row (bash_scope_option ''reject-always-command'' l K_RejectAlways h)" for l h
    by (simp_all add: bash_scope_option_def row_defs)
  have base: "\<forall>r \<in> set bash_options. gated_row r" "\<forall>r \<in> set generic_bash_options. gated_row r"
    by (simp_all add: bash_options_def generic_bash_options_def row_defs)
  show ?thesis
  proof (cases "primary_command_from_script (parse_shell E) cmd")
    case None
    then show ?thesis using base set_im_extend [of "[]" bash_options] by (auto simp: bash_rows_def)
  next
    case (Some h)
    define allow where "allow = (if always_allow_row_is_effective E cmd
      then [bash_scope_option ''allow-always-command'' ''Always allow:'' K_AllowAlways h] else [])"
    have "\<forall>r \<in> set allow. gated_row r" using scope by (simp add: allow_def)
    then have "\<forall>r \<in> set (im_extend (im_extend allow bash_options)
        [bash_scope_option ''reject-always-command'' ''Never allow:'' K_RejectAlways h]). gated_row r"
      using set_im_extend [of "im_extend allow bash_options"] set_im_extend [of allow bash_options] base(1) scope(2)
      by fastforce
    then show ?thesis using Some base(2) by (simp add: bash_rows_def Let_def allow_def [symmetric])
  qed
qed

lemma inner_rows_gated: "\<forall>r \<in> set (build_options_inner E P ct access). gated_row r"
proof (cases access)
  case (A_Bash cmd)
  then show ?thesis using bash_rows_gated by (simp add: build_options_inner_def)
qed (simp_all add: build_options_inner_def edit_options_def web_fetch_rows_def mcp_rows_def fallback_options_def
  row_defs Let_def)

lemma foldl_remove: "set (foldl (\<lambda>m k. im_remove k m) m ids) = {r \<in> set m. fst r \<notin> set ids}"
  by (induction ids arbitrary: m) (auto simp: im_remove_def)

lemma ungated_rows:
  assumes "r \<in> set (build_options E P ct False access)"
  shows "option_kind (snd r) \<in> {K_AllowOnce, K_RejectOnce}
    \<or> fst r = ALLOW_EDITS_SESSION_OPTION_ID \<and> option_kind (snd r) = K_AllowAlways"
proof -
  have "r = enable_always_approve_option \<or> r \<in> set (foldl (\<lambda>m k. im_remove k m) (build_options_inner E P ct access)
      REMEMBER_TOOL_APPROVALS_GATED_IDS)"
    using assms set_im_extend [of "[enable_always_approve_option]"]
    by (fastforce simp: build_options_def prepend_enable_always_approve_def Let_def split: if_splits)
  then show ?thesis
    using inner_rows_gated [of E P ct access]
    by (auto simp: foldl_remove gated_row_def enable_always_approve_option_def row_def)
qed

definition forgotten :: "PromptOutcome \<Rightarrow> bool" where
  "forgotten outcome \<longleftrightarrow> outcome \<in> {AllowOnce, AllowEditsForSession, RejectOnce, Cancelled}
     \<or> (\<exists>x. outcome \<in> {FollowupMessage x, PromptError x})"

lemma forgotten_unsaved: "forgotten outcome \<Longrightarrow> \<not> eff_persist (prompt_effect_of E access outcome g)"
  by (cases access; cases outcome; simp add: forgotten_def effect_defs)

lemma ungated_forgotten: "forgotten (prompter_request E P ct False client access)"
proof -
  let ?opts = "build_options E P ct False access"
  have "forgotten (map_selected_outcome E P ?opts oid meta access)" for oid meta
  proof (cases "map_of ?opts oid")
    case None
    then show ?thesis by (simp add: map_selected_outcome_def forgotten_def)
  next
    case (Some opt)
    have ids: "ALLOW_EDITS_SESSION_OPTION_ID \<noteq> ENABLE_ALWAYS_APPROVE_OPTION_ID"
      "ALLOW_EDITS_SESSION_OPTION_ID \<notin> {''allow-always-mcp'', ''allow-always-domain'', ''allow-always-command''}"
      by (simp_all add: ALLOW_EDITS_SESSION_OPTION_ID_def ENABLE_ALWAYS_APPROVE_OPTION_ID_def)
    from Some have "(oid, opt) \<in> set ?opts" by (rule map_of_SomeD)
    from ungated_rows [OF this] consider "option_kind opt = K_AllowOnce" | "option_kind opt = K_RejectOnce"
      | "oid = ALLOW_EDITS_SESSION_OPTION_ID" "option_kind opt = K_AllowAlways" by auto
    then show ?thesis
      using Some ids
      by cases (auto simp: map_selected_outcome_def forgotten_def reject_once_outcome_def allow_always_outcome_def
          split: option.split)
  qed
  then show ?thesis by (simp add: prompter_request_def Let_def forgotten_def split: client_response.split)
qed

text \<open>C40: safety. A client decides by the row it picks and by nothing else: whatever option id and metadata
  it sends, the request is approved exactly when the id names a row the client was shown whose
  kind allows, so no metadata turns a refusal into an approval and an id that was not offered
  fails; and while remembering approvals is switched off, no response whatever changes the
  remembered answers.\<close>

theorem client_picks_a_row:
  "(user_approves (prompter_request E P ct remember (\<lambda>_. Resp_Selected oid meta) access) \<longleftrightarrow>
     (\<exists>opt. map_of (build_options E P ct remember access) oid = Some opt \<and> option_kind opt \<in> {K_AllowOnce, K_AllowAlways}))
   \<and> eff_grants (prompt_effect_of E access (prompter_request E P ct False client access) g) = g"
proof
  show "user_approves (prompter_request E P ct remember (\<lambda>_. Resp_Selected oid meta) access) \<longleftrightarrow>
     (\<exists>opt. map_of (build_options E P ct remember access) oid = Some opt \<and> option_kind opt \<in> {K_AllowOnce, K_AllowAlways})"
    by (simp add: prompter_request_def selected_approves)
  show "eff_grants (prompt_effect_of E access (prompter_request E P ct False client access) g) = g"
    by (rule unsaved_answer [OF forgotten_unsaved [OF ungated_forgotten]])
qed

end
