(* ===== verification/Run_Base.thy ===== *)
theory Run_Base
  imports Prelude
begin

text \<open>
  The bottom of the Run model (\<open>run/model.rs\<close>): the schema bounds, the identifier
  types, \<open>RunError\<close>, and the validators of text and identifiers that every later
  validator calls.
\<close>

section \<open>Schema bounds\<close>

definition RUN_SCHEMA_VERSION :: u32 where "RUN_SCHEMA_VERSION = 4"
definition MAX_RUN_ENVELOPE_BYTES :: nat where "MAX_RUN_ENVELOPE_BYTES = 16 * 1024 * 1024"
definition MAX_OBJECTIVE_BYTES :: nat where "MAX_OBJECTIVE_BYTES = 16 * 1024"
definition MAX_LIST_ITEMS :: nat where "MAX_LIST_ITEMS = 128"
definition MAX_ITEM_BYTES :: nat where "MAX_ITEM_BYTES = 8 * 1024"
definition MAX_EVENTS :: nat where "MAX_EVENTS = 256"
definition MAX_COMMAND_RECEIPTS :: nat where "MAX_COMMAND_RECEIPTS = 4096"
definition MAX_MESSAGES :: nat where "MAX_MESSAGES = 1024"
definition MAX_ITERATION_SUMMARIES :: nat where "MAX_ITERATION_SUMMARIES = 128"
definition MAX_OPERATIONS :: nat where "MAX_OPERATIONS = 1024"
definition MAX_ARTIFACT_SIZE :: u64 where "MAX_ARTIFACT_SIZE = 2 ^ 50"

lemmas schema_bounds =
  RUN_SCHEMA_VERSION_def MAX_RUN_ENVELOPE_BYTES_def MAX_OBJECTIVE_BYTES_def MAX_LIST_ITEMS_def
  MAX_ITEM_BYTES_def MAX_EVENTS_def MAX_COMMAND_RECEIPTS_def MAX_MESSAGES_def
  MAX_ITERATION_SUMMARIES_def MAX_OPERATIONS_def MAX_ARTIFACT_SIZE_def

section \<open>Identifiers\<close>

text \<open>The \<open>string_id!\<close> newtypes are transparent wrappers of a checked string, the
  \<open>numeric_id!\<close> newtypes transparent wrappers of a \<open>u64\<close>.\<close>

type_synonym run_id = string
type_synonym session_ref = string
type_synonym command_id = string
type_synonym operation_id = string
type_synonym dispatch_token = string
type_synonym iteration_token = string
type_synonym child_id = string
type_synonym message_id = string
type_synonym worker_id = string
type_synonym activation_token = string
type_synonym run_revision = u64
type_synonym controller_epoch = u64
type_synonym run_event_cursor = u64
type_synonym iteration_id = u64

section \<open>Errors\<close>

datatype run_error =
    Validation string
  | NotFound
  | Conflict "run_revision option" "run_revision option"
  | StaleEpoch
  | StaleCallback
  | Storage string
  | CommitUnknown string
  | AuthorityLost
  | ReloadRequired
  | Capability string
  | Budget
  | InvalidTransition string
  | Integrity string
  | DedupCapacity
  | UnsupportedSchema u32

type_synonym 'a result = "run_error + 'a"

text \<open>Messages are opaque to every proof: the simplifier does not descend into them.\<close>

lemma run_error_message_cong [cong]:
  "Validation m = Validation m" "Storage m = Storage m" "CommitUnknown m = CommitUnknown m"
  "Capability m = Capability m" "InvalidTransition m = InvalidTransition m"
  "Integrity m = Integrity m"
  by (rule refl)+

section \<open>Text validators\<close>

definition validate_text :: "string \<Rightarrow> nat \<Rightarrow> string \<Rightarrow> bool \<Rightarrow> unit result" where
  "validate_text value max_bytes description allow_empty =
     (if length value > max_bytes \<or> (\<not> allow_empty \<and> trim_is_empty value)
      then Inl (Validation (''invalid '' @ description)) else Inr ())"

definition validate_text_set :: "string fset \<Rightarrow> nat \<Rightarrow> nat \<Rightarrow> string \<Rightarrow> unit result" where
  "validate_text_set values max_items max_item_bytes description =
     (if fcard values > max_items
      then Inl (Validation (description @ '' exceeds its item bound''))
      else for_each (\<lambda>value. validate_text value max_item_bytes description False)
             (sorted_list_of_fset values))"

definition valid_identifier :: "string \<Rightarrow> nat \<Rightarrow> bool" where
  "valid_identifier value max_bytes =
     (value \<noteq> [] \<and> length value \<le> max_bytes \<and>
      list_all (\<lambda>byte. is_ascii_alphanumeric byte \<or> byte \<in> {CHR ''-'', CHR ''_'', CHR ''.''}) value)"

text \<open>\<open>X::new\<close> of the \<open>string_id!\<close> macro; \<open>description\<close> is the macro's literal.\<close>

definition string_id_new :: "string \<Rightarrow> string \<Rightarrow> string result" where
  "string_id_new description value =
     (if \<not> valid_identifier value 160 then Inl (Validation (''invalid '' @ description))
      else Inr value)"

text \<open>The \<open>random\<close> constructors; the UUID in its simple form is drawn by the caller.\<close>

definition run_id_random :: "string \<Rightarrow> run_id" where
  "run_id_random uuid = ''run_'' @ uuid"

definition dispatch_token_random :: "string \<Rightarrow> dispatch_token" where
  "dispatch_token_random uuid = ''dispatch_'' @ uuid"

definition iteration_token_random :: "string \<Rightarrow> iteration_token" where
  "iteration_token_random uuid = ''iteration_'' @ uuid"

definition activation_token_random :: "string \<Rightarrow> activation_token" where
  "activation_token_random uuid = ''activation_'' @ uuid"

definition hex_byte :: "char \<Rightarrow> bool" where
  "hex_byte byte =
     (is_ascii_digit byte \<or> (97 \<le> (of_char byte :: nat) \<and> of_char byte \<le> (102 :: nat)))"

definition valid_sha256 :: "string \<Rightarrow> bool" where
  "valid_sha256 value = (length value = 64 \<and> list_all hex_byte value)"

lemma validate_text_eq_Inr [result_simps]:
  "validate_text v n d e = Inr () \<longleftrightarrow> length v \<le> n \<and> (e \<or> \<not> trim_is_empty v)"
  by (auto simp: validate_text_def)

lemma validate_text_set_eq_Inr [result_simps]:
  "validate_text_set vs n b d = Inr () \<longleftrightarrow>
     fcard vs \<le> n \<and> (\<forall>v. v |\<in>| vs \<longrightarrow> length v \<le> b \<and> \<not> trim_is_empty v)"
  by (auto simp: validate_text_set_def result_simps)

lemma hex_digit_valid: "n < 16 \<Longrightarrow> hex_byte (hex_digit n)"
  by (auto simp: hex_byte_def hex_digit_def is_ascii_digit_def Let_def)

lemma list_all_hex_lower_hex: "list_all hex_byte (lower_hex bs)"
proof -
  have "of_char b div 16 < (16 :: nat)" for b :: char
    using nat_of_char_less_256 [of b] by (simp add: less_mult_imp_div_less)
  then show ?thesis
    by (induction bs) (simp_all add: lower_hex_def hex_digit_valid)
qed

lemma valid_sha256_lower_hex: "length bs = 32 \<Longrightarrow> valid_sha256 (lower_hex bs)"
  by (simp add: valid_sha256_def list_all_hex_lower_hex)

lemma valid_identifier_bounds:
  "string_id_new d v = Inr w \<Longrightarrow> w = v \<and> 0 < length v \<and> length v \<le> 160"
  by (auto simp: string_id_new_def valid_identifier_def split: if_splits)

end
