(* ===== verification/Run_Resources.thy ===== *)
theory Run_Resources
  imports Run_Base
begin

text \<open>
  Resource accounting (\<open>run/model.rs\<close>): \<open>ResourceVector\<close> with its checked
  arithmetic, \<open>ResourceDimension\<close>, and \<open>EffectUsage\<close>, the measured or explicitly
  unknown usage a settled effect reports. The lemmas give the algebra that the budget
  proofs use: settled usage and reservations add up without wrap-around or are refused.
\<close>

record resource_vector =
  iterations :: u64
  agent_calls :: u64
  agent_concurrency :: u64
  active_ms :: u64
  wall_ms :: u64
  tokens :: u64
  cost_micros :: u64
  artifact_bytes :: u64

definition rv_default :: resource_vector where
  "rv_default = \<lparr>iterations = 0, agent_calls = 0, agent_concurrency = 0, active_ms = 0,
     wall_ms = 0, tokens = 0, cost_micros = 0, artifact_bytes = 0\<rparr>"

definition resources_within :: "resource_vector \<Rightarrow> resource_vector \<Rightarrow> bool" where
  "resources_within r limit =
     (iterations r \<le> iterations limit \<and>
      agent_calls r \<le> agent_calls limit \<and>
      agent_concurrency r \<le> agent_concurrency limit \<and>
      active_ms r \<le> active_ms limit \<and>
      wall_ms r \<le> wall_ms limit \<and>
      tokens r \<le> tokens limit \<and>
      cost_micros r \<le> cost_micros limit \<and>
      artifact_bytes r \<le> artifact_bytes limit)"

definition is_zero :: "resource_vector \<Rightarrow> bool" where
  "is_zero r = (r = rv_default)"

text \<open>The three checked combinators share the shape \<open>Some(Self { .. checked(..)?, .. })\<close>;
  only the treatment of \<open>agent_concurrency\<close> and the checked operation differ.\<close>

definition combine :: "(u64 \<Rightarrow> u64 \<Rightarrow> u64 option) \<Rightarrow> (u64 \<Rightarrow> u64 \<Rightarrow> u64 option) \<Rightarrow>
    resource_vector \<Rightarrow> resource_vector \<Rightarrow> resource_vector option" where
  "combine f c r delta =
     Option.bind (f (iterations r) (iterations delta)) (\<lambda>it.
     Option.bind (f (agent_calls r) (agent_calls delta)) (\<lambda>ac.
     Option.bind (c (agent_concurrency r) (agent_concurrency delta)) (\<lambda>cc.
     Option.bind (f (active_ms r) (active_ms delta)) (\<lambda>am.
     Option.bind (f (wall_ms r) (wall_ms delta)) (\<lambda>wm.
     Option.bind (f (tokens r) (tokens delta)) (\<lambda>tk.
     Option.bind (f (cost_micros r) (cost_micros delta)) (\<lambda>cm.
     Option.bind (f (artifact_bytes r) (artifact_bytes delta)) (\<lambda>ab.
     Some \<lparr>iterations = it, agent_calls = ac, agent_concurrency = cc, active_ms = am,
       wall_ms = wm, tokens = tk, cost_micros = cm, artifact_bytes = ab\<rparr>))))))))"

definition add_usage :: "resource_vector \<Rightarrow> resource_vector \<Rightarrow> resource_vector option" where
  "add_usage = combine checked_add (\<lambda>a b. Some (max a b))"

definition add_reservation :: "resource_vector \<Rightarrow> resource_vector \<Rightarrow> resource_vector option" where
  "add_reservation = combine checked_add checked_add"

definition subtract_reservation ::
    "resource_vector \<Rightarrow> resource_vector \<Rightarrow> resource_vector option" where
  "subtract_reservation = combine checked_sub checked_sub"

definition with_reservations :: "resource_vector \<Rightarrow> resource_vector \<Rightarrow> resource_vector option" where
  "with_reservations r reservations =
     Option.bind (add_reservation r reservations) (\<lambda>combined.
       Some (combined\<lparr>agent_concurrency :=
         max (agent_concurrency r) (agent_concurrency reservations)\<rparr>))"

section \<open>Dimensions and usage\<close>

datatype resource_dimension =
    Dim_Iterations | Dim_AgentCalls | Dim_AgentConcurrency | Dim_ActiveMs
  | Dim_WallMs | Dim_Tokens | Dim_CostMicros | Dim_ArtifactBytes | Dim_Unknown

definition ALL_RESOURCE_DIMENSIONS :: "resource_dimension list" where
  "ALL_RESOURCE_DIMENSIONS =
     [Dim_Iterations, Dim_AgentCalls, Dim_AgentConcurrency, Dim_ActiveMs, Dim_WallMs,
      Dim_Tokens, Dim_CostMicros, Dim_ArtifactBytes]"

fun resource_value :: "resource_vector \<Rightarrow> resource_dimension \<Rightarrow> u64" where
  "resource_value r Dim_Iterations = iterations r"
| "resource_value r Dim_AgentCalls = agent_calls r"
| "resource_value r Dim_AgentConcurrency = agent_concurrency r"
| "resource_value r Dim_ActiveMs = active_ms r"
| "resource_value r Dim_WallMs = wall_ms r"
| "resource_value r Dim_Tokens = tokens r"
| "resource_value r Dim_CostMicros = cost_micros r"
| "resource_value r Dim_ArtifactBytes = artifact_bytes r"
| "resource_value r Dim_Unknown = 0"

record effect_usage =
  resources :: resource_vector
  unknown_dims :: "resource_dimension fset"

definition effect_usage_measured :: "resource_vector \<Rightarrow> effect_usage" where
  "effect_usage_measured rv = \<lparr>resources = rv, unknown_dims = {||}\<rparr>"

definition effect_usage_unknown ::
    "effect_usage \<Rightarrow> resource_dimension list \<Rightarrow> effect_usage" where
  "effect_usage_unknown u dimensions =
     u\<lparr>unknown_dims := unknown_dims u |\<union>| fset_of_list dimensions\<rparr>"

definition effect_usage_validate :: "effect_usage \<Rightarrow> unit result" where
  "effect_usage_validate u =
     (if Dim_Unknown |\<in>| unknown_dims u \<or>
         fBex (unknown_dims u) (\<lambda>dimension. resource_value (resources u) dimension \<noteq> 0)
      then Inl (Validation ''effect usage has an invalid unknown dimension'')
      else Inr ())"

definition allows_settlement_with ::
    "effect_usage \<Rightarrow> resource_vector \<Rightarrow> resource_vector \<Rightarrow> bool" where
  "allows_settlement_with u reservation budget =
     list_all (\<lambda>dimension.
       if dimension |\<in>| unknown_dims u then resource_value budget dimension = u64_MAX
       else (let actual = resource_value (resources u) dimension in
             actual \<le> resource_value reservation dimension \<and>
             actual \<le> resource_value budget dimension))
       ALL_RESOURCE_DIMENSIONS"

definition is_unknown :: "effect_usage \<Rightarrow> resource_dimension \<Rightarrow> bool" where
  "is_unknown u dimension = (dimension |\<in>| unknown_dims u)"

section \<open>Algebra\<close>

text \<open>Vectors agree when they agree in the eight named dimensions, and every law is
  proved once per dimension by reading it as a natural number.\<close>

definition rv :: "resource_vector \<Rightarrow> resource_dimension \<Rightarrow> nat" where
  "rv r d = unat (resource_value r d)"

abbreviation additive :: "resource_dimension \<Rightarrow> bool" where
  "additive d \<equiv> d \<noteq> Dim_AgentConcurrency"

lemma rv_Unknown [simp]: "rv r Dim_Unknown = 0"
  by (simp add: rv_def)

lemma all_dimensions:
  "(\<forall>d. P d) \<longleftrightarrow> P Dim_Iterations \<and> P Dim_AgentCalls \<and> P Dim_AgentConcurrency \<and>
     P Dim_ActiveMs \<and> P Dim_WallMs \<and> P Dim_Tokens \<and> P Dim_CostMicros \<and>
     P Dim_ArtifactBytes \<and> P Dim_Unknown"
  by (metis resource_dimension.exhaust)

lemma within_rv: "resources_within a b \<longleftrightarrow> (\<forall>d. rv a d \<le> rv b d)"
  by (simp add: resources_within_def rv_def all_dimensions word_le_nat_alt)

lemma rv_eqI: "(\<And>d. rv a d = rv b d) \<Longrightarrow> a = b" for a b :: resource_vector
proof -
  assume "\<And>d. rv a d = rv b d"
  then have "\<forall>d. rv a d = rv b d" by blast
  then show "a = b"
    by (cases a; cases b) (simp add: rv_def all_dimensions word_unat_eq_iff)
qed

lemma rv_default [simp]: "rv rv_default d = 0"
  by (cases d) (simp_all add: rv_def rv_default_def)

lemma combine_eq_Some:
  "combine f c a b = Some r \<longleftrightarrow>
     (\<forall>d. d \<noteq> Dim_Unknown \<longrightarrow>
        (if d = Dim_AgentConcurrency then c else f) (resource_value a d) (resource_value b d) =
          Some (resource_value r d))"
  by (cases r) (auto simp: combine_def all_dimensions bind_eq_Some_conv)

lemma add_reservation_rv [checked_simps]:
  "add_reservation a b = Some r \<longleftrightarrow> (\<forall>d. rv r d = rv a d + rv b d)"
  by (simp add: add_reservation_def combine_eq_Some all_dimensions checked_simps rv_def)

lemma subtract_reservation_rv [checked_simps]:
  "subtract_reservation a b = Some r \<longleftrightarrow> (\<forall>d. rv a d = rv r d + rv b d)"
  by (simp add: subtract_reservation_def combine_eq_Some all_dimensions checked_simps rv_def)

lemma unat_max_eq: "max a b = c \<longleftrightarrow> max (unat a) (unat b) = unat c" for a b c :: u64
  by (simp add: max_def word_le_nat_alt word_unat_eq_iff)

lemma add_usage_rv [checked_simps]:
  "add_usage a b = Some r \<longleftrightarrow>
     (\<forall>d. rv r d = (if additive d then rv a d + rv b d else max (rv a d) (rv b d)))"
  by (simp add: add_usage_def combine_eq_Some all_dimensions checked_simps rv_def unat_max_eq
      eq_commute [of "unat (agent_concurrency r)"])

lemma with_reservations_rv:
  "with_reservations a b = Some r \<Longrightarrow>
     (\<forall>d. rv r d = (if additive d then rv a d + rv b d else max (rv a d) (rv b d)))"
  by (auto simp: with_reservations_def bind_eq_Some_conv checked_simps all_dimensions rv_def
      unat_max_eq max_def word_le_nat_alt)

lemma within_refl [simp, intro]: "resources_within a a"
  by (simp add: within_rv)

lemma within_trans [trans]: "resources_within a b \<Longrightarrow> resources_within b c \<Longrightarrow> resources_within a c"
  by (meson le_trans within_rv)

lemma within_default [simp]: "resources_within rv_default a"
  by (simp add: within_rv)

lemma add_usage_default [simp]: "add_usage a rv_default = Some a" "add_usage rv_default a = Some a"
  by (simp_all add: checked_simps)

lemma add_reservation_default [simp]:
  "add_reservation a rv_default = Some a" "add_reservation rv_default a = Some a"
  by (simp_all add: checked_simps)

lemma with_reservations_default [simp]: "with_reservations a rv_default = Some a"
  by (simp add: with_reservations_def) (simp add: rv_default_def)

lemma add_then_subtract:
  "add_reservation a b = Some r \<Longrightarrow> subtract_reservation r b = Some a"
  by (simp add: checked_simps)

lemma subtract_then_add:
  "subtract_reservation a b = Some r \<Longrightarrow> add_reservation r b = Some a"
  by (simp add: checked_simps)

end
