(* ===== verification/Run_Types.thy ===== *)
theory Run_Types
  imports Run_Resources
begin

text \<open>
  The durable data of a Run (\<open>run/model.rs\<close>): the residency types, goals, statuses,
  drivers, artifacts, iterations, effects, operations, children, messages, revisions and
  Harness pins, the Run record itself, and the inputs of every command and callback. The
  constructors carry the name of their Rust enum as a prefix, the fields that of their
  struct. \<open>Box\<close> is transparent; \<open>VecDeque\<close> and \<open>Vec\<close> are lists.
\<close>

section \<open>Residency\<close>

datatype wake_reason = Wake_Requested | Wake_Timer | Wake_Retry | Wake_Dependency | Wake_CatchUp

record wake_intent =
  wake_reasons :: "wake_reason fset"
  wake_deadline_ms :: "u64 option"

record activation_lease =
  lease_worker_id :: worker_id
  lease_claim_command_id :: command_id
  lease_epoch :: controller_epoch
  lease_token :: activation_token
  lease_expires_at_ms :: u64
  lease_reasons :: "wake_reason fset"

record wake_request =
  wreq_reason :: wake_reason
  wreq_deadline_ms :: "u64 option"

record claim_activation_input =
  ca_worker_id :: worker_id
  ca_lease_ms :: u64

record activation_fence =
  fence_worker_id :: worker_id
  fence_epoch :: controller_epoch
  fence_token :: activation_token

section \<open>Goals, status and stage\<close>

record goal_spec =
  objective :: string
  acceptance_criteria :: "string list"
  constraints :: "string list"
  required_evidence :: "string list"

datatype goal_verdict = Achieved | NotAchieved | Unverifiable

datatype run_status =
    Status_Active | Status_UserPaused | Status_BackOffPaused | Status_NoProgressPaused
  | Status_InfraPaused | Status_Blocked | Status_BudgetLimited | Status_RecoveryRequired
  | Status_Interrupted | Status_Complete | Status_Failed | Status_Cancelled | Status_Tombstoned

datatype waiting_reason =
    Wait_User | Wait_Backoff | Wait_NoProgress | Wait_Infrastructure | Wait_Blocked
  | Wait_BudgetExhausted | Wait_Approval | Wait_Unknown

datatype finished_outcome =
    Fin_Succeeded | Fin_Failed | Fin_Cancelled | Fin_Interrupted | Fin_Tombstoned | Fin_Unknown

datatype run_lifecycle =
    Life_Active | Life_Waiting waiting_reason | Life_Finished finished_outcome | Life_Recovering

datatype run_stage =
    Stage_Idle | Stage_Planning | Stage_Preparing | Stage_Executing | Stage_Collecting
  | Stage_Verifying | Stage_Refining | Stage_AwaitingApproval | Stage_Recovering | Stage_Unknown

datatype run_driver_spec =
    Driver_AutonomousTurnLoop session_ref u64
  | Driver_RhaiWorkflow session_ref string u64 string
  | Driver_External string string
  | Driver_Unknown

record capability_policy =
  cap_required :: "string fset"
  cap_available :: "string fset"
  cap_ceiling :: "string fset"

section \<open>Artifacts and iterations\<close>

record artifact_ref =
  art_digest :: string
  art_media_type :: string
  art_size :: u64
  art_provenance :: string
  art_owner :: string
  art_retention :: string
  art_evidence_labels :: "string fset"
  art_workspace_digest :: "string option"

record skill_descriptor_pin =
  skill_name :: string
  skill_version :: string
  skill_descriptor :: artifact_ref

record compaction_checkpoint =
  cc_artifact :: artifact_ref
  cc_history_start :: u64
  cc_history_end :: u64
  cc_cursor :: u64
  cc_evidence :: "artifact_ref list"

record iteration_context_manifest =
  ctx_goal_revision :: run_revision
  ctx_strategy_revision :: u64
  ctx_workflow_revision :: "u64 option"
  ctx_policy_digest :: string
  ctx_model_revision :: string
  ctx_workspace_revision :: string
  ctx_history_range :: "u64 \<times> u64"
  ctx_memory_snapshot :: "string option"
  ctx_artifacts :: "artifact_ref list"
  ctx_steering_high_water :: u64
  ctx_harness_snapshot_digest :: string

record iteration_manifest =
  it_iteration_id :: iteration_id
  it_token :: iteration_token
  it_context :: iteration_context_manifest
  it_started_at_ms :: u64
  it_driver_terminal_success :: bool
  it_summary :: "string option"
  it_evidence :: "artifact_ref list"
  it_gates :: "(string, bool) fmap"
  it_verdict :: "goal_verdict option"
  it_finished_at_ms :: "u64 option"
  it_result_digest :: "string option"
  it_recovery_abandoned :: bool

section \<open>Effects\<close>

datatype effect_class = Replayable | Idempotent | Reconcilable | NonRepeatable

record program_execution =
  pe_program :: artifact_ref
  pe_context :: artifact_ref
  pe_skills :: "skill_descriptor_pin list"
  pe_compaction :: "compaction_checkpoint option"
  pe_checkpoint :: "artifact_ref option"
  pe_action_limit :: u32
  pe_provider :: string
  pe_capability_revision :: string
  pe_credential_key_id :: string
  pe_credential_generation :: u64
  pe_credential_scope :: string

datatype effect_spec =
    Eff_SessionTurn (st_session: session_ref) (st_turn_id: string) (st_prompt_digest: string)
      (st_input: artifact_ref)
  | Eff_RhaiWorkflow session_ref artifact_ref artifact_ref
  | Eff_ChildAgent child_id artifact_ref
  | Eff_Gate string artifact_ref
  | Eff_ArtifactMutation artifact_ref
  | Eff_External string string artifact_ref
  | Eff_ProgramExecution program_execution
  | Eff_Unknown

datatype operation_state =
    Op_Prepared | Op_Dispatching | Op_Acknowledged | Op_Reconciled | Op_Abandoned
  | Op_FailedRetryable | Op_Uncertain

record operation_attempt =
  at_attempt :: u32
  at_claim_command_id :: command_id
  at_token :: dispatch_token
  at_epoch :: controller_epoch

datatype session_turn_outcome =
    Turn_End | Turn_Cancelled | Turn_MaxTokens | Turn_MaxTurnRequests | Turn_Refusal | Turn_Unknown

record program_receipt_binding =
  pb_operation_id :: operation_id
  pb_handle_id :: string
  pb_handle_generation :: u64
  pb_result :: artifact_ref
  pb_checkpoint :: "artifact_ref option"

record effect_receipt =
  rc_receipt_id :: string
  rc_settlement_id :: "string option"
  rc_runtime_prompt_index :: "u64 option"
  rc_outcome :: "session_turn_outcome option"
  rc_session_usage :: "effect_usage option"
  rc_actual_usage :: "effect_usage option"
  rc_program :: "program_receipt_binding option"

record operation =
  op_id :: operation_id
  op_iteration_id :: iteration_id
  op_effect_class :: effect_class
  op_spec :: effect_spec
  op_spec_digest :: string
  op_state :: operation_state
  op_next_attempt :: u32
  op_active_attempt :: "operation_attempt option"
  op_reservation :: "resource_vector option"
  op_receipt :: "effect_receipt option"
  op_terminal_result_digest :: "string option"

record committed_effect =
  ce_run_id :: run_id
  ce_operation_id :: operation_id
  ce_iteration_id :: iteration_id
  ce_attempt :: u32
  ce_token :: dispatch_token
  ce_epoch :: controller_epoch
  ce_effect_class :: effect_class
  ce_spec :: effect_spec
  ce_reservation :: resource_vector

datatype effect_outcome =
    Outcome_Applied effect_receipt
  | Outcome_FailedRetryable string
  | Outcome_Unknown string

record effect_callback =
  ec_run_id :: run_id
  ec_epoch :: controller_epoch
  ec_operation_id :: operation_id
  ec_iteration_id :: iteration_id
  ec_attempt :: u32
  ec_token :: dispatch_token
  ec_outcome :: effect_outcome

datatype reconcile_decision =
    Decision_Applied effect_receipt | Decision_NotApplied | Decision_Unknown string

section \<open>Children, messages, revisions\<close>

datatype child_state =
    Child_Admitted | Child_Started | Child_Completed | Child_Failed | Child_Cancelled
  | Child_Tombstoned | Child_Unknown

datatype child_completion_policy =
    Policy_MustSucceed | Policy_MayFail | Policy_Detached | Policy_Unknown

record child_run =
  ch_id :: child_id
  ch_state :: child_state
  ch_iteration_id :: iteration_id
  ch_callback_token :: dispatch_token
  ch_reservation :: resource_vector
  ch_settlement :: "resource_vector option"
  ch_workspace_isolation :: string
  ch_completion_policy :: child_completion_policy
  ch_artifacts :: "artifact_ref list"

record child_callback_input =
  cb_run_id :: run_id
  cb_epoch :: controller_epoch
  cb_iteration_id :: iteration_id
  cb_child_id :: child_id
  cb_token :: dispatch_token
  cb_state :: child_state
  cb_settlement :: "resource_vector option"
  cb_artifacts :: "artifact_ref list"

datatype message_state =
    Msg_Accepted | Msg_Queued | Msg_DeliveredToContext | Msg_Processed | Msg_Unknown

record mail_message =
  msg_id :: message_id
  msg_sequence :: u64
  msg_causation_id :: "message_id option"
  msg_sender :: string
  msg_trust_label :: string
  msg_body :: string
  msg_state :: message_state

record strategy_revision =
  sr_revision :: u64
  sr_digest :: string
  sr_provenance :: string
  sr_applied :: bool
  sr_promotion_proposal :: "string option"

datatype workflow_revision_state =
    Wf_Proposal | Wf_Validated | Wf_Applied | Wf_Rejected | Wf_RolledBack | Wf_Unknown

record workflow_revision =
  wr_revision :: u64
  wr_source_digest :: string
  wr_provenance :: string
  wr_state :: workflow_revision_state
  wr_compiled :: bool
  wr_static_policy_valid :: bool
  wr_dry_run_valid :: bool
  wr_promotion_proposal :: "string option"

section \<open>Harness governance\<close>

record harness_snapshot_pin =
  pin_digest :: string
  pin_descriptor_digest :: string
  pin_capability_revision :: string
  pin_negotiated_capabilities :: "string fset"
  pin_revision :: u64
  pin_evidence :: "artifact_ref list"
  pin_provenance :: string

datatype harness_proposal_state =
    Harness_Proposed | Harness_Validated | Harness_Active | Harness_Rejected | Harness_RolledBack

record harness_proposal =
  hp_pin :: harness_snapshot_pin
  hp_state :: harness_proposal_state

record harness_governance =
  hg_active :: "harness_snapshot_pin option"
  hg_previous :: "harness_snapshot_pin option"
  hg_proposals :: "(string, harness_proposal) fmap"

section \<open>The Run record and its envelope\<close>

datatype command_disposition = Disp_Applied | Disp_Rejected | Disp_Unknown

record command_receipt =
  cr_command_id :: command_id
  cr_input_digest :: string
  cr_disposition :: command_disposition
  cr_committed_revision :: run_revision
  cr_epoch :: controller_epoch

record run_record =
  revision :: run_revision
  controller_epoch :: controller_epoch
  wake :: wake_intent
  activation_lease :: "activation_lease option"
  created_at_ms :: u64
  updated_at_ms :: u64
  run_id :: run_id
  session :: session_ref
  goal :: goal_spec
  driver :: run_driver_spec
  status :: run_status
  stage :: run_stage
  capabilities :: capability_policy
  required_gates :: "string fset"
  verifier_policy_digest :: string
  budget :: resource_vector
  usage :: resource_vector
  usage_unknown :: "resource_dimension fset"
  child_reserved :: resource_vector
  next_iteration_id :: u64
  active_iteration :: "iteration_manifest option"
  run_iterations :: "iteration_manifest list"
  operations :: "(operation_id, operation) fmap"
  children :: "(child_id, child_run) fmap"
  mailbox :: "(message_id, mail_message) fmap"
  next_message_sequence :: u64
  steering :: "(message_id, mail_message) fmap"
  steering_high_water :: u64
  strategy_revisions :: "strategy_revision list"
  current_strategy_revision :: u64
  workflow_revisions :: "workflow_revision list"
  current_workflow_revision :: "u64 option"
  harness :: harness_governance
  verdict :: "goal_verdict option"
  pending_approval :: bool
  recovery_prior_status :: "run_status option"
  command_receipts :: "(command_id, command_receipt) fmap"
  terminal_report_claimed :: bool
  event_cursor :: run_event_cursor

record run_event =
  ev_cursor :: run_event_cursor
  ev_revision :: run_revision
  ev_kind :: string
  ev_at_ms :: u64

record run_envelope =
  schema_version :: u32
  run :: run_record
  events :: "run_event list"

section \<open>Command inputs\<close>

record 't mutation_request =
  mr_run_id :: run_id
  mr_expected_revision :: run_revision
  mr_command_id :: command_id
  mr_input :: 't

record create_run_request =
  cq_run_id :: "run_id option"
  cq_command_id :: command_id
  cq_session :: session_ref
  cq_goal :: goal_spec
  cq_driver :: run_driver_spec
  cq_capabilities :: capability_policy
  cq_required_gates :: "string fset"
  cq_verifier_policy_digest :: string
  cq_budget :: resource_vector
  cq_harness_snapshot :: "harness_snapshot_pin option"

record validate_harness_input =
  vh_digest :: string
  vh_accepted :: bool

datatype run_action =
    Act_Pause
  | Act_PauseFor waiting_reason
  | Act_Resume "resource_vector option"
  | Act_Steer message_id string
  | Act_Cancel
  | Act_Approve
  | Act_Reject
  | Act_TryComplete
  | Act_ClaimTerminalReport
  | Act_Tombstone

record iteration_handle =
  ih_run_id :: run_id
  ih_iteration_id :: iteration_id
  ih_token :: iteration_token
  ih_epoch :: controller_epoch
  ih_committed_revision :: run_revision

record finish_iteration_input =
  fi_run_id :: run_id
  fi_epoch :: controller_epoch
  fi_iteration_id :: iteration_id
  fi_token :: iteration_token
  fi_driver_terminal_success :: bool
  fi_summary :: string
  fi_evidence :: "artifact_ref list"
  fi_gates :: "(string, bool) fmap"
  fi_verdict :: goal_verdict
  fi_usage :: resource_vector

record prepare_operation_input =
  po_operation_id :: operation_id
  po_iteration_id :: iteration_id
  po_effect_class :: effect_class
  po_spec :: effect_spec

record claim_effect_input =
  cl_operation_id :: operation_id
  cl_reservation :: resource_vector
  cl_activation :: "activation_fence option"

record reconcile_effect_input =
  re_operation_id :: operation_id
  re_decision :: reconcile_decision

record admit_child_input =
  ad_child_id :: child_id
  ad_iteration_id :: iteration_id
  ad_reservation :: resource_vector
  ad_workspace_isolation :: string
  ad_completion_policy :: child_completion_policy

record accept_message_input =
  am_message_id :: message_id
  am_causation_id :: "message_id option"
  am_sender :: string
  am_trust_label :: string
  am_body :: string

record transition_message_input =
  tm_message_id :: message_id
  tm_state :: message_state

record propose_strategy_input =
  ps_digest :: string
  ps_provenance :: string
  ps_promotion_proposal :: "string option"

record propose_workflow_input =
  pw_source_digest :: string
  pw_provenance :: string
  pw_promotion_proposal :: "string option"

record validate_workflow_input =
  vw_revision :: u64
  vw_compiled :: bool
  vw_static_policy_valid :: bool
  vw_dry_run_valid :: bool

record recovery_resolution =
  rr_resume :: bool
  rr_abandon_active_iteration :: bool

section \<open>Outputs\<close>

datatype recovery_need =
    Need_SessionTurnLedger operation_id session_ref string string
  | Need_EffectReconciliation operation_id effect_class
  | Need_ActiveIteration iteration_id
  | Need_ActiveChild child_id

record recovery_plan_t =
  rp_snapshot :: run_envelope
  rp_needs :: "recovery_need list"

datatype run_attach =
    Attach_Replay run_id run_event_cursor "run_event list"
  | Attach_Snapshot run_envelope

record run_command_result =
  res_receipt :: command_receipt
  res_snapshot :: run_envelope
  res_duplicate :: bool

record 't command_output =
  co_command :: run_command_result
  co_output :: 't

record callback_result =
  cbr_snapshot :: run_envelope
  cbr_duplicate :: bool

record residency_inspection =
  ri_run_id :: run_id
  ri_revision :: run_revision
  ri_wake :: wake_intent
  ri_lease :: "activation_lease option"
  ri_overdue :: bool

end
