(* ===== verification/Run_Digest.thy ===== *)
theory Run_Digest
  imports Run_Types
begin

text \<open>
  Content identities (\<open>run/model.rs\<close>): \<open>canonicalize_json\<close>, \<open>canonical_digest\<close>, and
  the SessionLedger settlement identity \<open>session_turn_settlement_id\<close>. Serialisation
  (\<open>serde_json\<close>) and SHA-256 (\<open>sha2\<close>) are third-party code: they are the fields of the
  environment \<open>run_env\<close>, an argument of every definition that uses them. What a proof
  needs of them is named: \<open>sha256_bytes\<close> says that a digest has 32 bytes.
\<close>

section \<open>Canonical JSON\<close>

text \<open>\<open>serde_json::Value\<close>; an object is its list of entries.\<close>

datatype json_number = PosInt u64 | NegInt string | Float string

datatype json =
    J_Null | J_Bool bool | J_Number json_number | J_String string
  | J_Array "json list" | J_Object "(string \<times> json) list"

fun canonicalize_json :: "json \<Rightarrow> json" where
  "canonicalize_json (J_Array vs) = J_Array (map canonicalize_json vs)"
| "canonicalize_json (J_Object entries) =
     J_Object (sort_key fst (map (\<lambda>p. (fst p, canonicalize_json (snd p))) entries))"
| "canonicalize_json value = value"

section \<open>What is digested\<close>

datatype command_input =
    In_Wake wake_request
  | In_Claim claim_activation_input
  | In_Renew activation_fence u64
  | In_Fence activation_fence
  | In_Unit
  | In_Recovery recovery_resolution
  | In_Action run_action
  | In_BeginIteration iteration_context_manifest
  | In_ProposeHarness harness_snapshot_pin
  | In_ValidateHarness validate_harness_input
  | In_ActivateHarness string
  | In_RollbackHarness string
  | In_Prepare prepare_operation_input
  | In_ClaimEffect claim_effect_input
  | In_Reconcile reconcile_effect_input
  | In_AdmitChild admit_child_input
  | In_AcceptMessage accept_message_input
  | In_TransitionMessage transition_message_input
  | In_ProposeStrategy propose_strategy_input
  | In_ApplyStrategy u64
  | In_ProposeWorkflow propose_workflow_input
  | In_ValidateWorkflow validate_workflow_input
  | In_SetWorkflow u64

datatype digest_input =
    Dig_CreateRun create_run_request
  | Dig_Command string command_input
  | Dig_Spec effect_spec
  | Dig_Usage effect_usage
  | Dig_Program program_receipt_binding effect_usage
  | Dig_Finish finish_iteration_input
  | Dig_Outcome effect_outcome
  | Dig_Decision reconcile_decision
  | Dig_Abandon iteration_id iteration_token

record run_env =
  env_to_value :: "digest_input \<Rightarrow> string + json"
  env_to_vec :: "json \<Rightarrow> string + string"
  env_sha256 :: "string \<Rightarrow> string"
  env_usage_to_vec :: "effect_usage \<Rightarrow> string"

definition canonical_digest :: "run_env \<Rightarrow> digest_input \<Rightarrow> string result" where
  "canonical_digest env value =
     (case env_to_value env value of
        Inl e \<Rightarrow> Inl (Integrity e)
      | Inr v \<Rightarrow>
          (case env_to_vec env (canonicalize_json v) of
             Inl e \<Rightarrow> Inl (Integrity e)
           | Inr bytes \<Rightarrow> Inr (lower_hex (env_sha256 env bytes))))"

definition effect_spec_digest :: "run_env \<Rightarrow> effect_spec \<Rightarrow> string result" where
  "effect_spec_digest env spec = canonical_digest env (Dig_Spec spec)"

section \<open>Settlement identities\<close>

fun ledger_name :: "session_turn_outcome \<Rightarrow> string" where
  "ledger_name Turn_End = ''End''"
| "ledger_name Turn_Cancelled = ''Cancelled''"
| "ledger_name Turn_MaxTokens = ''MaxTokens''"
| "ledger_name Turn_MaxTurnRequests = ''MaxTurnRequests''"
| "ledger_name Turn_Refusal = ''Refusal''"
| "ledger_name Turn_Unknown = ''Unknown''"

text \<open>The bytes fed to SHA-256: a domain separator, then each field after its length.\<close>

definition length_prefixed :: "string \<Rightarrow> string" where
  "length_prefixed field = to_be_bytes (of_nat (length field)) @ field"

definition settlement_preimage ::
    "session_ref \<Rightarrow> string \<Rightarrow> string \<Rightarrow> u64 \<Rightarrow> session_turn_outcome \<Rightarrow> string \<Rightarrow> string" where
  "settlement_preimage sess turn_id prompt_digest runtime_prompt_index outcome usage_json =
     ''origin-grok-runtime.settlement.v2'' @ [CHR 0x00] @
     concat (map length_prefixed
       [sess, turn_id, prompt_digest, to_be_bytes runtime_prompt_index, ledger_name outcome]) @
     length_prefixed usage_json"

definition session_turn_settlement_id ::
    "run_env \<Rightarrow> session_ref \<Rightarrow> string \<Rightarrow> string \<Rightarrow> u64 \<Rightarrow> session_turn_outcome \<Rightarrow>
     effect_usage \<Rightarrow> string" where
  "session_turn_settlement_id env sess turn_id prompt_digest runtime_prompt_index outcome u =
     ''sha256:'' @ lower_hex (env_sha256 env
       (settlement_preimage sess turn_id prompt_digest runtime_prompt_index outcome
         (env_usage_to_vec env u)))"

section \<open>Properties\<close>

definition sha256_bytes :: "run_env \<Rightarrow> bool" where
  "sha256_bytes env \<longleftrightarrow> (\<forall>bytes. length (env_sha256 env bytes) = 32)"

lemma canonical_digest_valid:
  "sha256_bytes env \<Longrightarrow> canonical_digest env x = Inr d \<Longrightarrow> valid_sha256 d"
  by (auto simp: canonical_digest_def sha256_bytes_def valid_sha256_lower_hex split: sum.splits)

lemma sort_key_canonical_map:
  "sort_key fst (map (\<lambda>p. (fst p, f (snd p))) xs) = map (\<lambda>p. (fst p, f (snd p))) (sort_key fst xs)"
  for xs :: "('a::linorder \<times> 'b) list"
proof (rule properties_for_sort_key)
  show "mset (map (\<lambda>p. (fst p, f (snd p))) (sort_key fst xs)) =
      mset (map (\<lambda>p. (fst p, f (snd p))) xs)"
    by simp
  show "sorted (map fst (map (\<lambda>p. (fst p, f (snd p))) (sort_key fst xs)))"
    by (simp add: comp_def)
  fix p :: "'a \<times> 'c"
  show "filter (\<lambda>q. fst p = fst q) (map (\<lambda>p. (fst p, f (snd p))) (sort_key fst xs)) =
      filter (\<lambda>q. fst p = fst q) (map (\<lambda>p. (fst p, f (snd p))) xs)"
    using sort_key_stable [of fst "fst p" xs] by (simp add: filter_map comp_def eq_commute)
qed

lemma canonicalize_json_idem: "canonicalize_json (canonicalize_json v) = canonicalize_json v"
proof (induction v rule: canonicalize_json.induct)
  case (1 vs)
  then show ?case by simp
next
  case (2 entries)
  let ?c = "\<lambda>p :: string \<times> json. (fst p, canonicalize_json (snd p))"
  have "canonicalize_json (canonicalize_json (J_Object entries)) =
      J_Object (sort_key fst (map ?c (sort_key fst (map ?c entries))))"
    by simp
  also have "map ?c (sort_key fst (map ?c entries)) = sort_key fst (map ?c (map ?c entries))"
    by (rule sort_key_canonical_map [symmetric])
  also have "map ?c (map ?c entries) = map ?c entries"
    using 2 by (auto simp: comp_def)
  finally show ?case by (simp add: sort_key_id_if_sorted)
qed simp_all

text \<open>The canonical form forgets the order of an object's entries.\<close>

lemma canonicalize_object_order:
  assumes "distinct (map fst xs)" and "mset xs = mset ys"
  shows "canonicalize_json (J_Object xs) = canonicalize_json (J_Object ys)"
proof -
  let ?c = "\<lambda>p :: string \<times> json. (fst p, canonicalize_json (snd p))"
  have inj: "inj_on fst (set (map ?c xs))"
  proof -
    have "inj_on fst (set xs)" and d: "distinct xs" using assms(1) by (simp_all add: distinct_map)
    then show ?thesis by (auto simp: inj_on_def)
  qed
  have m: "mset (map ?c xs) = mset (map ?c ys)" using assms(2) by simp
  have "sort_key fst (map ?c xs) = sort_key fst (map ?c ys)"
    by (rule sort_key_inj_key_eq) (use inj m in simp_all)
  then show ?thesis by simp
qed

section \<open>The settlement preimage determines its fields\<close>

lemma to_be_bytes_inj: "to_be_bytes v = to_be_bytes w \<Longrightarrow> v = w"
proof -
  assume eq: "to_be_bytes v = to_be_bytes w"
  have digit: "unat v div 256 ^ k mod 256 = unat w div 256 ^ k mod 256" if "k < 8" for k
  proof -
    have "to_be_bytes v ! (7 - k) = to_be_bytes w ! (7 - k)" by (simp add: eq)
    then have "(char_of (unat v div 256 ^ k) :: char) = char_of (unat w div 256 ^ k)"
      using that nth_upt [of 0 "7 - k" 8] by (simp add: to_be_bytes_def del: upt_rec_numeral)
    then show ?thesis by (metis of_char_of)
  qed
  have expand: "n mod 256 ^ m = (\<Sum>k < m. (n div 256 ^ k mod 256) * 256 ^ k)" for n m :: nat
  proof (induction m)
    case (Suc m)
    have "n mod 256 ^ Suc m = 256 ^ m * (n div 256 ^ m mod 256) + n mod 256 ^ m"
      using mod_mult2_eq [of n "256 ^ m" 256] by (simp add: mult.commute)
    then show ?case using Suc by simp
  qed simp
  have lt: "unat x < 256 ^ 8" for x :: u64
    using unsigned_less [of x, where 'a = nat] by simp
  have "unat v mod 256 ^ 8 = unat w mod 256 ^ 8"
    unfolding expand using digit by (intro sum.cong) auto
  then show "v = w" using lt by (simp add: word_unat_eq_iff)
qed

lemma length_prefixed_append_inj:
  assumes eq: "length_prefixed a @ s = length_prefixed b @ t"
    and "length a < 2 ^ 64" and "length b < 2 ^ 64"
  shows "a = b \<and> s = t"
proof -
  have "to_be_bytes (of_nat (length a)) = to_be_bytes (of_nat (length b))"
    and rest: "a @ s = b @ t"
    using eq by (simp_all add: length_prefixed_def)
  then have "unat (of_nat (length a) :: u64) = unat (of_nat (length b) :: u64)"
    by (auto dest: to_be_bytes_inj)
  then have "length a = length b"
    using assms(2,3) by (simp add: unat_of_nat)
  with rest show ?thesis by simp
qed

lemma ledger_name_inj: "ledger_name a = ledger_name b \<Longrightarrow> a = b"
  by (cases a; cases b) simp_all

lemma ledger_name_length: "length (ledger_name a) < 2 ^ 64"
  by (cases a) simp_all

text \<open>The preimage of a settlement identifier determines every component it was built from.\<close>

lemma settlement_components:
  assumes eq: "settlement_preimage s t p i out u = settlement_preimage s' t' p' i' out' u'"
    and short: "list_all (\<lambda>x. length x < 2 ^ 64) [s, t, p, u, s', t', p', u']"
  shows "s = s' \<and> t = t' \<and> p = p' \<and> i = i' \<and> out = out' \<and> u = u'"
proof -
  have len: "length (to_be_bytes v) < 2 ^ 64" for v :: u64 by (simp add: to_be_bytes_def)
  let ?rest = "\<lambda>xs u. concat (map length_prefixed xs) @ length_prefixed u"
  from eq have "?rest [s, t, p, to_be_bytes i, ledger_name out] u =
      ?rest [s', t', p', to_be_bytes i', ledger_name out'] u'"
    by (simp add: settlement_preimage_def)
  then have "s = s' \<and> t = t' \<and> p = p' \<and> to_be_bytes i = to_be_bytes i' \<and>
      ledger_name out = ledger_name out' \<and> length_prefixed u = length_prefixed u'"
    using short len ledger_name_length by (auto dest!: length_prefixed_append_inj)
  moreover from this have "u = u'"
    using length_prefixed_append_inj [of u "[]" u' "[]"] short by simp
  ultimately show ?thesis by (auto dest: to_be_bytes_inj ledger_name_inj)
qed

end
