(* ===== verification/Run_Validate.thy ===== *)
theory Run_Validate
  imports Run_Digest
begin

text \<open>
  The validators of \<open>run/model.rs\<close>: goals, drivers, capability policies, artifacts,
  iteration manifests, effect specifications, receipts, operations, children, messages,
  revisions and Harness pins. Each is the source's \<open>validate\<close> method, with its checks in
  the source's order; the receipt constructors \<open>for_session_turn\<close> and \<open>for_program\<close> are
  here too, with the lemma that what they build passes validation.
\<close>

section \<open>Goals, drivers, capabilities\<close>

definition goal_spec_new :: "string \<Rightarrow> goal_spec" where
  "goal_spec_new obj = \<lparr>objective = obj, acceptance_criteria = [], constraints = [],
     required_evidence = []\<rparr>"

definition goal_spec_validate :: "goal_spec \<Rightarrow> unit result" where
  "goal_spec_validate g =
     (if trim_is_empty (objective g) \<or> length (objective g) > MAX_OBJECTIVE_BYTES
      then Inl (Validation ''objective is empty or exceeds 16 KiB'')
      else for_each (\<lambda>vs.
        if length vs > MAX_LIST_ITEMS \<or>
           list_ex (\<lambda>v. trim_is_empty v \<or> length v > MAX_ITEM_BYTES) vs
        then Inl (Validation ''goal list exceeds bounds'') else Inr ())
        [acceptance_criteria g, constraints g, required_evidence g])"

fun driver_session :: "run_driver_spec \<Rightarrow> session_ref option" where
  "driver_session (Driver_AutonomousTurnLoop s _) = Some s"
| "driver_session (Driver_RhaiWorkflow s _ _ _) = Some s"
| "driver_session (Driver_External _ _) = None"
| "driver_session Driver_Unknown = None"

fun driver_validate :: "run_driver_spec \<Rightarrow> unit result" where
  "driver_validate (Driver_AutonomousTurnLoop _ _) = Inr ()"
| "driver_validate (Driver_RhaiWorkflow _ workflow_name _ args_digest) =
     rseq (validate_text workflow_name 256 ''workflow name'' False)
          (validate_text args_digest 512 ''workflow args digest'' False)"
| "driver_validate (Driver_External driver_name driver_version) =
     rseq (validate_text driver_name 256 ''external driver name'' False)
          (validate_text driver_version 256 ''external driver version'' False)"
| "driver_validate Driver_Unknown =
     Inl (Integrity ''unknown durable Run driver requires schema migration'')"

definition capability_policy_validate :: "capability_policy \<Rightarrow> unit result" where
  "capability_policy_validate p =
     rseq (for_each (\<lambda>vs. validate_text_set vs MAX_LIST_ITEMS 256 ''capability name'')
             [cap_required p, cap_available p, cap_ceiling p])
     (if \<not> cap_required p |\<subseteq>| cap_available p \<or> \<not> cap_required p |\<subseteq>| cap_ceiling p
      then Inl (Capability ''required capabilities exceed runtime availability or Run ceiling'')
      else Inr ())"

section \<open>Artifacts, skills, compaction, iterations\<close>

definition artifact_validate :: "artifact_ref \<Rightarrow> unit result" where
  "artifact_validate a =
     (if \<not> valid_sha256 (art_digest a) \<or> trim_is_empty (art_media_type a) \<or>
         trim_is_empty (art_owner a) \<or> art_size a > MAX_ARTIFACT_SIZE
      then Inl (Validation ''invalid artifact reference'')
      else
        rseq (validate_text (art_media_type a) 256 ''artifact media type'' False)
        (rseq (validate_text (art_provenance a) 1024 ''artifact provenance'' False)
        (rseq (validate_text (art_owner a) 160 ''artifact owner'' False)
        (rseq (validate_text (art_retention a) 128 ''artifact retention'' False)
        (rseq (validate_text_set (art_evidence_labels a) MAX_LIST_ITEMS 256
                 ''artifact evidence label'')
        (case art_workspace_digest a of
           Some d \<Rightarrow> validate_text d 512 ''artifact workspace digest'' False
         | None \<Rightarrow> Inr ()))))))"

definition skill_pin_validate :: "skill_descriptor_pin \<Rightarrow> unit result" where
  "skill_pin_validate p =
     rseq (validate_text (skill_name p) 256 ''skill name'' False)
     (rseq (validate_text (skill_version p) 128 ''skill version'' False)
     (artifact_validate (skill_descriptor p)))"

definition compaction_validate :: "compaction_checkpoint \<Rightarrow> unit result" where
  "compaction_validate c =
     (if cc_history_start c > cc_history_end c \<or> cc_cursor c < cc_history_end c \<or>
         length (cc_evidence c) > MAX_LIST_ITEMS
      then Inl (Validation ''invalid compaction evidence continuity'')
      else rseq (artifact_validate (cc_artifact c)) (for_each artifact_validate (cc_evidence c)))"

definition iteration_context_validate :: "iteration_context_manifest \<Rightarrow> unit result" where
  "iteration_context_validate c =
     rseq (validate_text (ctx_policy_digest c) 256 ''iteration policy digest'' False)
     (rseq (validate_text (ctx_model_revision c) 256 ''iteration model revision'' False)
     (if \<not> valid_sha256 (ctx_harness_snapshot_digest c)
      then Inl (Validation ''iteration omitted a valid Harness snapshot pin'')
      else
        rseq (validate_text (ctx_workspace_revision c) 512 ''iteration workspace revision'' False)
        (if fst (ctx_history_range c) > snd (ctx_history_range c) \<or>
            length (ctx_artifacts c) > MAX_LIST_ITEMS
         then Inl (Validation ''iteration context range or artifact count is invalid'')
         else
           rseq (case ctx_memory_snapshot c of
                   Some m \<Rightarrow> validate_text m 512 ''iteration memory snapshot'' False
                 | None \<Rightarrow> Inr ())
           (for_each artifact_validate (ctx_artifacts c)))))"

definition iteration_validate :: "iteration_manifest \<Rightarrow> unit result" where
  "iteration_validate i =
     (if it_iteration_id i = 0 \<or>
         (\<exists>s \<in> set_option (it_summary i). length s > MAX_ITEM_BYTES) \<or>
         length (it_evidence i) > MAX_LIST_ITEMS \<or>
         btree_len (it_gates i) > MAX_LIST_ITEMS \<or>
         (\<exists>d \<in> set_option (it_result_digest i). \<not> valid_sha256 d)
      then Inl (Validation ''invalid iteration manifest'')
      else
        rseq (iteration_context_validate (it_context i))
        (rseq (for_each artifact_validate (it_evidence i))
        (for_each (\<lambda>gate. validate_text (fst gate) 256 ''gate name'' False)
           (btree_iter (it_gates i)))))"

section \<open>Effects\<close>

definition program_execution_validate :: "program_execution \<Rightarrow> unit result" where
  "program_execution_validate p =
     (if pe_action_limit p = 0 \<or> pe_action_limit p > 1024 \<or> length (pe_skills p) > 128
      then Inl (Validation ''invalid bounded program effect'')
      else
        rseq (validate_text (pe_provider p) 256 ''program provider'' False)
        (rseq (validate_text (pe_capability_revision p) 256 ''program capability revision'' False)
        (rseq (validate_text (pe_credential_key_id p) 512 ''credential key id'' False)
        (rseq (validate_text (pe_credential_scope p) 512 ''credential scope'' False)
        (rseq (artifact_validate (pe_program p))
        (rseq (artifact_validate (pe_context p))
        (rseq (for_each skill_pin_validate (pe_skills p))
        (rseq (case pe_compaction p of Some c \<Rightarrow> compaction_validate c | None \<Rightarrow> Inr ())
        (case pe_checkpoint p of Some c \<Rightarrow> artifact_validate c | None \<Rightarrow> Inr ())))))))))"

fun effect_spec_validate :: "effect_spec \<Rightarrow> unit result" where
  "effect_spec_validate (Eff_SessionTurn _ turn_id prompt_digest input) =
     rseq (validate_text turn_id 512 ''Session Turn id'' False)
     (rseq (validate_text prompt_digest 160 ''Session Turn prompt digest'' False)
     (artifact_validate input))"
| "effect_spec_validate (Eff_RhaiWorkflow _ workflow args) =
     rseq (artifact_validate workflow) (artifact_validate args)"
| "effect_spec_validate (Eff_ChildAgent _ request) = artifact_validate request"
| "effect_spec_validate (Eff_Gate name input) =
     rseq (validate_text name 256 ''gate name'' False) (artifact_validate input)"
| "effect_spec_validate (Eff_ArtifactMutation mutation) = artifact_validate mutation"
| "effect_spec_validate (Eff_External provider version payload) =
     rseq (validate_text provider 256 ''effect provider'' False)
     (rseq (validate_text version 256 ''effect provider version'' False)
     (artifact_validate payload))"
| "effect_spec_validate (Eff_ProgramExecution p) = program_execution_validate p"
| "effect_spec_validate Eff_Unknown =
     Inl (Integrity ''unknown durable Run effect requires schema migration'')"

definition validate_program_binding :: "program_receipt_binding \<Rightarrow> unit result" where
  "validate_program_binding b =
     rseq (validate_text (pb_handle_id b) 512 ''program handle'' False)
     (if pb_handle_generation b = 0
      then Inl (Validation ''program handle generation must be non-zero'')
      else
        rseq (artifact_validate (pb_result b))
        (case pb_checkpoint b of Some c \<Rightarrow> artifact_validate c | None \<Rightarrow> Inr ()))"

definition validate_effect_receipt_evidence :: "effect_receipt \<Rightarrow> unit result" where
  "validate_effect_receipt_evidence r =
     (if trim_is_empty (rc_receipt_id r) \<or> length (rc_receipt_id r) > 512
      then Inl (Validation ''invalid effect receipt'')
      else if \<exists>v \<in> set_option (rc_settlement_id r). length v > 512 \<or> trim_is_empty v
      then Inl (Validation ''invalid effect settlement identity'')
      else Inr ())"

text \<open>The branch of \<open>validate_effect_receipt\<close> for a Session turn.\<close>

definition validate_session_turn_receipt ::
    "run_env \<Rightarrow> session_ref \<Rightarrow> string \<Rightarrow> string \<Rightarrow> effect_receipt \<Rightarrow> unit result" where
  "validate_session_turn_receipt env sess turn_id prompt_digest r =
     rbind (ok_or (Integrity
         ''Session turn receipt must reference SessionLedger settlement evidence'')
       (rc_settlement_id r)) (\<lambda>settlement_id.
     rbind (ok_or (Integrity ''Session turn receipt omitted runtime prompt index'')
       (rc_runtime_prompt_index r)) (\<lambda>runtime_prompt_index.
     rbind (ok_or (Integrity ''Session turn receipt omitted typed outcome'')
       (rc_outcome r)) (\<lambda>outcome.
     rbind (ok_or (Integrity ''Session turn receipt omitted ledger usage evidence'')
       (rc_session_usage r)) (\<lambda>session_usage.
     rbind (ok_or (Integrity ''Session turn receipt omitted Run usage evidence'')
       (rc_actual_usage r)) (\<lambda>actual_usage.
     rseq (effect_usage_validate session_usage)
     (rseq (effect_usage_validate actual_usage)
     (if outcome = Turn_Unknown
      then Inl (Integrity ''unknown Session turn outcome is not settlement evidence'')
      else
        (let expected = session_turn_settlement_id env sess turn_id prompt_digest
               runtime_prompt_index outcome session_usage in
         rbind (canonical_digest env (Dig_Usage actual_usage)) (\<lambda>usage_digest.
         if settlement_id \<noteq> expected \<or>
            rc_receipt_id r \<noteq> ''session-ledger:'' @ expected @ '':'' @ usage_digest
         then Inl (Integrity ''Session turn receipt does not match its durable intent'')
         else Inr ())))))))))"

text \<open>The branch of \<open>validate_effect_receipt\<close> for a program execution.\<close>

definition validate_program_receipt :: "run_env \<Rightarrow> effect_receipt \<Rightarrow> unit result" where
  "validate_program_receipt env r =
     rbind (ok_or (Integrity ''program receipt omitted exact operation/handle/result binding'')
       (rc_program r)) (\<lambda>binding.
     rseq (validate_program_binding binding)
     (rbind (ok_or (Integrity ''program receipt omitted measured actual usage'')
       (rc_actual_usage r)) (\<lambda>actual_usage.
     let mismatch =
       Integrity ''program receipt identity does not match its exact binding and usage'' in
     if unknown_dims actual_usage \<noteq> {||} then Inl mismatch
     else rbind (canonical_digest env (Dig_Program binding actual_usage)) (\<lambda>digest.
       if rc_receipt_id r \<noteq> ''program:sha256:'' @ digest then Inl mismatch else Inr ()))))"

definition validate_effect_receipt :: "run_env \<Rightarrow> effect_spec \<Rightarrow> effect_receipt \<Rightarrow> unit result" where
  "validate_effect_receipt env spec r =
     rseq (validate_effect_receipt_evidence r)
     (rseq (case rc_session_usage r of Some u \<Rightarrow> effect_usage_validate u | None \<Rightarrow> Inr ())
     (rseq (case rc_actual_usage r of Some u \<Rightarrow> effect_usage_validate u | None \<Rightarrow> Inr ())
     (rseq (case spec of
              Eff_SessionTurn sess turn_id prompt_digest _ \<Rightarrow>
                validate_session_turn_receipt env sess turn_id prompt_digest r
            | _ \<Rightarrow> Inr ())
     (case spec of
        Eff_ProgramExecution _ \<Rightarrow> validate_program_receipt env r
      | _ \<Rightarrow> Inr ()))))"

definition effect_receipt_new :: "string \<Rightarrow> effect_receipt" where
  "effect_receipt_new receipt_id =
     \<lparr>rc_receipt_id = receipt_id, rc_settlement_id = None, rc_runtime_prompt_index = None,
      rc_outcome = None, rc_session_usage = None, rc_actual_usage = None, rc_program = None\<rparr>"

text \<open>\<open>canonical_digest(..).expect(..)\<close>: serialising \<open>EffectUsage\<close> cannot fail, so the
  panic is the \<open>None\<close> of this constructor.\<close>

definition for_session_turn ::
    "run_env \<Rightarrow> session_ref \<Rightarrow> string \<Rightarrow> string \<Rightarrow> u64 \<Rightarrow> session_turn_outcome \<Rightarrow>
     effect_usage \<Rightarrow> effect_usage \<Rightarrow> effect_receipt option" where
  "for_session_turn env sess turn_id prompt_digest runtime_prompt_index outcome session_usage
     actual_usage =
     (let settlement_id = session_turn_settlement_id env sess turn_id prompt_digest
            runtime_prompt_index outcome session_usage in
      case canonical_digest env (Dig_Usage actual_usage) of
        Inl _ \<Rightarrow> None
      | Inr usage_digest \<Rightarrow> Some
          \<lparr>rc_receipt_id = ''session-ledger:'' @ settlement_id @ '':'' @ usage_digest,
           rc_settlement_id = Some settlement_id,
           rc_runtime_prompt_index = Some runtime_prompt_index,
           rc_outcome = Some outcome,
           rc_session_usage = Some session_usage,
           rc_actual_usage = Some actual_usage,
           rc_program = None\<rparr>)"

definition for_program ::
    "run_env \<Rightarrow> program_receipt_binding \<Rightarrow> effect_usage \<Rightarrow> effect_receipt result" where
  "for_program env binding actual_usage =
     rseq (effect_usage_validate actual_usage)
     (if unknown_dims actual_usage \<noteq> {||}
      then Inl (Validation ''program receipt requires fully measured usage'')
      else
        rseq (validate_program_binding binding)
        (rbind (canonical_digest env (Dig_Program binding actual_usage)) (\<lambda>digest.
         Inr \<lparr>rc_receipt_id = ''program:sha256:'' @ digest, rc_settlement_id = None,
           rc_runtime_prompt_index = None, rc_outcome = None, rc_session_usage = None,
           rc_actual_usage = Some actual_usage, rc_program = Some binding\<rparr>)))"

section \<open>Children, messages, revisions, Harness pins\<close>

fun child_is_terminal :: "child_state \<Rightarrow> bool" where
  "child_is_terminal Child_Completed = True"
| "child_is_terminal Child_Failed = True"
| "child_is_terminal Child_Cancelled = True"
| "child_is_terminal Child_Tombstoned = True"
| "child_is_terminal _ = False"

definition child_validate :: "child_run \<Rightarrow> unit result" where
  "child_validate c =
     (if ch_state c = Child_Unknown \<or> ch_completion_policy c = Policy_Unknown \<or>
         length (ch_artifacts c) > MAX_LIST_ITEMS
      then Inl (Integrity ''invalid durable child Run'')
      else
        rseq (validate_text (ch_workspace_isolation c) 256 ''child workspace isolation'' False)
        (for_each artifact_validate (ch_artifacts c)))"

definition message_validate :: "mail_message \<Rightarrow> unit result" where
  "message_validate m =
     (if msg_sequence m = 0 \<or> msg_state m = Msg_Unknown
      then Inl (Integrity ''invalid durable Run message'')
      else
        rseq (validate_text (msg_sender m) 256 ''message sender'' False)
        (rseq (validate_text (msg_trust_label m) 128 ''message trust label'' False)
        (validate_text (msg_body m) MAX_ITEM_BYTES ''message body'' False)))"

definition strategy_validate :: "strategy_revision \<Rightarrow> unit result" where
  "strategy_validate s =
     (if sr_revision s = 0 \<or> \<not> valid_sha256 (sr_digest s)
      then Inl (Integrity ''invalid durable strategy revision'')
      else
        rseq (validate_text (sr_provenance s) 512 ''strategy revision provenance'' False)
        (case sr_promotion_proposal s of
           Some p \<Rightarrow> validate_text p MAX_ITEM_BYTES ''strategy promotion proposal'' True
         | None \<Rightarrow> Inr ()))"

definition workflow_validate :: "workflow_revision \<Rightarrow> unit result" where
  "workflow_validate w =
     (if wr_revision w = 0 \<or> \<not> valid_sha256 (wr_source_digest w) \<or> wr_state w = Wf_Unknown
      then Inl (Integrity ''invalid durable workflow revision'')
      else
        rseq (validate_text (wr_provenance w) 512 ''workflow revision provenance'' False)
        (case wr_promotion_proposal w of
           Some p \<Rightarrow> validate_text p MAX_ITEM_BYTES ''workflow promotion proposal'' True
         | None \<Rightarrow> Inr ()))"

definition harness_pin_validate :: "harness_snapshot_pin \<Rightarrow> unit result" where
  "harness_pin_validate p =
     (if \<not> valid_sha256 (pin_digest p) \<or> \<not> valid_sha256 (pin_descriptor_digest p) \<or>
         pin_revision p = 0
      then Inl (Validation ''invalid immutable Harness snapshot pin'')
      else
        rseq (validate_text (pin_capability_revision p) 256 ''Harness capability revision'' False)
        (rseq (validate_text (pin_provenance p) 1024 ''Harness provenance'' False)
        (rseq (validate_text_set (pin_negotiated_capabilities p) MAX_LIST_ITEMS 256
                 ''Harness capability'')
        (for_each artifact_validate (pin_evidence p)))))"

section \<open>Receipts built by the constructors are valid\<close>

lemma for_program_receipt_valid:
  assumes "for_program env binding u = Inr r" and "sha256_bytes env"
  shows "validate_effect_receipt env (Eff_ProgramExecution p) r = Inr ()"
proof -
  from assms(1) obtain d where
    u: "effect_usage_validate u = Inr ()" and known: "unknown_dims u = {||}" and
    b: "validate_program_binding binding = Inr ()" and
    d: "canonical_digest env (Dig_Program binding u) = Inr d" and
    r: "r = \<lparr>rc_receipt_id = ''program:sha256:'' @ d, rc_settlement_id = None,
        rc_runtime_prompt_index = None, rc_outcome = None, rc_session_usage = None,
        rc_actual_usage = Some u, rc_program = Some binding\<rparr>"
    by (auto simp: for_program_def result_simps)
  have "length d = 64"
    using canonical_digest_valid [OF assms(2) d] by (simp add: valid_sha256_def)
  then have "validate_effect_receipt_evidence r = Inr ()"
    by (simp add: validate_effect_receipt_evidence_def r ascii_ws_def ws2_def ws3_def)
  then show ?thesis
    by (simp add: validate_effect_receipt_def validate_program_receipt_def r u known b d Let_def)
qed

lemma lower_hex_length_digest:
  "sha256_bytes env \<Longrightarrow>
     length (session_turn_settlement_id env s t p i outcome u) = 71"
  by (simp add: session_turn_settlement_id_def sha256_bytes_def)

lemma for_session_turn_receipt_valid:
  assumes built: "for_session_turn env s t p i outcome su u = Some r"
    and "sha256_bytes env" and "outcome \<noteq> Turn_Unknown"
    and su: "effect_usage_validate su = Inr ()" and u: "effect_usage_validate u = Inr ()"
  shows "validate_effect_receipt env (Eff_SessionTurn s t p input) r = Inr ()"
proof -
  let ?id = "session_turn_settlement_id env s t p i outcome su"
  from built obtain d where
    d: "canonical_digest env (Dig_Usage u) = Inr d" and
    r: "r = \<lparr>rc_receipt_id = ''session-ledger:'' @ ?id @ '':'' @ d, rc_settlement_id = Some ?id,
        rc_runtime_prompt_index = Some i, rc_outcome = Some outcome, rc_session_usage = Some su,
        rc_actual_usage = Some u, rc_program = None\<rparr>"
    by (auto simp: for_session_turn_def Let_def split: sum.splits)
  have "length d = 64"
    using canonical_digest_valid [OF assms(2) d] by (simp add: valid_sha256_def)
  moreover have "\<not> trim_is_empty ?id"
    by (simp add: session_turn_settlement_id_def ascii_ws_def ws2_def ws3_def)
  ultimately have "validate_effect_receipt_evidence r = Inr ()"
    using lower_hex_length_digest [OF assms(2)]
    by (simp add: validate_effect_receipt_evidence_def r ascii_ws_def ws2_def ws3_def)
  then show ?thesis
    using assms(3)
    by (simp add: validate_effect_receipt_def validate_session_turn_receipt_def r u su d Let_def)
qed

end
