(* ===== verification/Run_Envelope.thy ===== *)
theory Run_Envelope
  imports Run_Validate
begin

text \<open>
  The Run record and its durable envelope (\<open>run/model.rs\<close>): the wire names of statuses
  and states, the \<open>lifecycle\<close> projection, \<open>RunEnvelope::validate\<close> split along its loops,
  decoding with the byte bound, and the legacy goal import \<open>migrate_legacy_goal\<close>.
\<close>

section \<open>Wire names\<close>

definition status_wire_names :: "(string \<times> run_status) list" where
  "status_wire_names =
     [(''active'', Status_Active), (''Active'', Status_Active),
      (''user_paused'', Status_UserPaused), (''paused'', Status_UserPaused),
      (''Paused'', Status_UserPaused), (''doom_loop_paused'', Status_UserPaused),
      (''back_off_paused'', Status_BackOffPaused),
      (''no_progress_paused'', Status_NoProgressPaused),
      (''infra_paused'', Status_InfraPaused),
      (''blocked'', Status_Blocked),
      (''budget_limited'', Status_BudgetLimited), (''BudgetLimited'', Status_BudgetLimited),
      (''recovery_required'', Status_RecoveryRequired),
      (''interrupted'', Status_Interrupted),
      (''complete'', Status_Complete), (''Complete'', Status_Complete),
      (''failed'', Status_Failed),
      (''cancelled'', Status_Cancelled),
      (''tombstoned'', Status_Tombstoned)]"

definition from_wire_str :: "string \<Rightarrow> run_status" where
  "from_wire_str v =
     (case map_of status_wire_names v of Some s \<Rightarrow> s | None \<Rightarrow> Status_RecoveryRequired)"

fun status_as_str :: "run_status \<Rightarrow> string" where
  "status_as_str Status_Active = ''active''"
| "status_as_str Status_UserPaused = ''user_paused''"
| "status_as_str Status_BackOffPaused = ''back_off_paused''"
| "status_as_str Status_NoProgressPaused = ''no_progress_paused''"
| "status_as_str Status_InfraPaused = ''infra_paused''"
| "status_as_str Status_Blocked = ''blocked''"
| "status_as_str Status_BudgetLimited = ''budget_limited''"
| "status_as_str Status_RecoveryRequired = ''recovery_required''"
| "status_as_str Status_Interrupted = ''interrupted''"
| "status_as_str Status_Complete = ''complete''"
| "status_as_str Status_Failed = ''failed''"
| "status_as_str Status_Cancelled = ''cancelled''"
| "status_as_str Status_Tombstoned = ''tombstoned''"

definition is_terminal :: "run_status \<Rightarrow> bool" where
  "is_terminal s =
     (s \<in> {Status_Interrupted, Status_Complete, Status_Failed, Status_Cancelled, Status_Tombstoned})"

definition effect_class_of_wire :: "string \<Rightarrow> effect_class" where
  "effect_class_of_wire v =
     (if v = ''replayable'' then Replayable
      else if v = ''idempotent'' then Idempotent
      else if v = ''reconcilable'' then Reconcilable
      else NonRepeatable)"

definition operation_state_of_wire :: "string \<Rightarrow> operation_state" where
  "operation_state_of_wire v =
     (if v = ''prepared'' then Op_Prepared
      else if v = ''dispatching'' then Op_Dispatching
      else if v = ''acknowledged'' then Op_Acknowledged
      else if v = ''reconciled'' then Op_Reconciled
      else if v = ''abandoned'' then Op_Abandoned
      else if v = ''failed_retryable'' then Op_FailedRetryable
      else Op_Uncertain)"

definition run_event_kind_new :: "string \<Rightarrow> string result" where
  "run_event_kind_new v =
     (if valid_identifier v 96 then Inr v else Inl (Validation ''invalid Run event kind''))"

section \<open>The user-facing lifecycle\<close>

definition lifecycle :: "run_record \<Rightarrow> run_lifecycle" where
  "lifecycle r =
     (case status r of
        Status_Active \<Rightarrow>
          (if pending_approval r \<or> stage r = Stage_AwaitingApproval
           then Life_Waiting Wait_Approval else Life_Active)
      | Status_UserPaused \<Rightarrow> Life_Waiting Wait_User
      | Status_BackOffPaused \<Rightarrow> Life_Waiting Wait_Backoff
      | Status_NoProgressPaused \<Rightarrow> Life_Waiting Wait_NoProgress
      | Status_InfraPaused \<Rightarrow> Life_Waiting Wait_Infrastructure
      | Status_Blocked \<Rightarrow> Life_Waiting Wait_Blocked
      | Status_BudgetLimited \<Rightarrow> Life_Waiting Wait_BudgetExhausted
      | Status_RecoveryRequired \<Rightarrow> Life_Recovering
      | Status_Complete \<Rightarrow> Life_Finished Fin_Succeeded
      | Status_Failed \<Rightarrow> Life_Finished Fin_Failed
      | Status_Cancelled \<Rightarrow> Life_Finished Fin_Cancelled
      | Status_Interrupted \<Rightarrow> Life_Finished Fin_Interrupted
      | Status_Tombstoned \<Rightarrow> Life_Finished Fin_Tombstoned)"

section \<open>Envelope validation\<close>

definition wake_default :: wake_intent where
  "wake_default = \<lparr>wake_reasons = {||}, wake_deadline_ms = None\<rparr>"

definition validate_harness_state :: "run_record \<Rightarrow> unit result" where
  "validate_harness_state r =
     rbind (ok_or (Integrity ''Run omitted active Harness snapshot'') (hg_active (harness r)))
       (\<lambda>active_harness.
     rseq (harness_pin_validate active_harness)
     (for_each (\<lambda>(digest, proposal).
        rseq (harness_pin_validate (hp_pin proposal))
        (if digest \<noteq> pin_digest (hp_pin proposal)
         then Inl (Integrity ''Harness proposal identity mismatch'') else Inr ()))
        (btree_iter (hg_proposals (harness r)))))"

definition residency_invalid :: "run_record \<Rightarrow> bool" where
  "residency_invalid r =
     (fcard (wake_reasons (wake r)) > 8 \<or>
      (\<exists>lease \<in> set_option (activation_lease r).
         lease_expires_at_ms lease = 0 \<or> lease_reasons lease = {||} \<or>
         lease_epoch lease \<noteq> controller_epoch r) \<or>
      ((is_terminal (status r) \<or> status r \<noteq> Status_Active) \<and>
       (activation_lease r \<noteq> None \<or> wake_reasons (wake r) \<noteq> {||} \<or>
        wake_deadline_ms (wake r) \<noteq> None)))"

definition collections_invalid :: "run_envelope \<Rightarrow> bool" where
  "collections_invalid e =
     (let r = run e in
      length (events e) > MAX_EVENTS \<or>
      btree_len (command_receipts r) > MAX_COMMAND_RECEIPTS \<or>
      length (run_iterations r) > MAX_ITERATION_SUMMARIES \<or>
      btree_len (mailbox r) > MAX_MESSAGES \<or>
      btree_len (steering r) > MAX_MESSAGES \<or>
      btree_len (operations r) > MAX_OPERATIONS \<or>
      btree_len (children r) > MAX_MESSAGES \<or>
      fcard (required_gates r) > MAX_LIST_ITEMS \<or>
      length (strategy_revisions r) > MAX_ITERATION_SUMMARIES \<or>
      length (workflow_revisions r) > MAX_ITERATION_SUMMARIES)"

definition usage_unknown_invalid :: "run_record \<Rightarrow> bool" where
  "usage_unknown_invalid r =
     (Dim_Unknown |\<in>| usage_unknown r \<or>
      fBex (usage_unknown r) (\<lambda>dimension. resource_value (budget r) dimension \<noteq> u64_MAX))"

definition validate_archived :: "iteration_manifest \<Rightarrow> unit result" where
  "validate_archived i =
     rseq (iteration_validate i)
     (if it_finished_at_ms i = None \<or> it_result_digest i = None
      then Inl (Integrity ''archived iteration is not durably finished'') else Inr ())"

text \<open>The body of the loop over \<open>run.operations\<close>, in three parts: identity and
  specification, receipt evidence, settlement and ownership.\<close>

definition validate_operation_identity ::
    "run_env \<Rightarrow> run_record \<Rightarrow> operation_id \<Rightarrow> operation \<Rightarrow> unit result" where
  "validate_operation_identity env r operation_id opn =
     (let inconsistent = Integrity ''unknown or inconsistent durable Run operation'' in
      if operation_id \<noteq> op_id opn \<or> \<not> valid_sha256 (op_spec_digest opn) then Inl inconsistent
      else rbind (effect_spec_digest env (op_spec opn)) (\<lambda>digest.
        if op_spec_digest opn \<noteq> digest \<or>
           (\<exists>d \<in> set_option (op_terminal_result_digest opn). \<not> valid_sha256 d)
        then Inl inconsistent
        else
          rseq (effect_spec_validate (op_spec opn))
          (if \<exists>reservation \<in> set_option (op_reservation opn). is_zero reservation
           then Inl (Integrity ''durable effect has an empty reservation'')
           else if (case op_spec opn of
                      Eff_SessionTurn sess _ _ _ \<Rightarrow> sess \<noteq> session r
                    | Eff_RhaiWorkflow sess _ _ \<Rightarrow> sess \<noteq> session r
                    | _ \<Rightarrow> False)
           then Inl (Integrity ''durable Run operation references a different Session'')
           else if op_state opn \<in> {Op_Dispatching, Op_Acknowledged, Op_Reconciled, Op_Uncertain} \<and>
                   op_reservation opn = None
           then Inl (Integrity ''claimed durable effect omitted its reservation'')
           else if op_state opn = Op_Abandoned \<and> op_receipt opn \<noteq> None
           then Inl (Integrity ''abandoned effect retained Applied receipt evidence'')
           else Inr ())))"

definition validate_operation_receipt :: "run_env \<Rightarrow> operation_id \<Rightarrow> operation \<Rightarrow> unit result" where
  "validate_operation_receipt env operation_id opn =
     (case op_receipt opn of
        None \<Rightarrow> Inr ()
      | Some receipt \<Rightarrow>
          if \<exists>binding \<in> set_option (rc_program receipt). pb_operation_id binding \<noteq> operation_id
          then Inl (Integrity ''program receipt operation identity mismatch'')
          else if op_state opn = Op_Uncertain then validate_effect_receipt_evidence receipt
          else validate_effect_receipt env (op_spec opn) receipt)"

definition validate_operation_settlement ::
    "run_env \<Rightarrow> run_record \<Rightarrow> operation \<Rightarrow> unit result" where
  "validate_operation_settlement env r opn =
     rseq
     (if op_state opn \<in> {Op_Acknowledged, Op_Reconciled} then
        rbind (ok_or (Integrity ''settled operation omitted its receipt'') (op_receipt opn))
          (\<lambda>receipt.
        rseq (validate_effect_receipt env (op_spec opn) receipt)
        (rbind (ok_or (Integrity ''settled effect omitted its reservation'') (op_reservation opn))
          (\<lambda>reservation.
        rbind (ok_or (Integrity ''settled effect omitted actual usage'') (rc_actual_usage receipt))
          (\<lambda>actual.
        if \<not> allows_settlement_with actual reservation (budget r)
        then Inl (Integrity ''settled effect usage exceeds reservation or finite budget'')
        else Inr ()))))
      else Inr ())
     (if op_state opn = Op_Acknowledged \<and>
         (op_active_attempt opn = None \<or> op_terminal_result_digest opn = None)
      then Inl (Integrity ''acknowledged operation omitted callback identity'')
      else if op_state opn \<in> {Op_Prepared, Op_Dispatching, Op_FailedRetryable, Op_Uncertain} \<and>
              (case active_iteration r of
                 None \<Rightarrow> True
               | Some iteration \<Rightarrow> it_iteration_id iteration \<noteq> op_iteration_id opn)
      then Inl (Integrity ''unsettled operation has no active owning iteration'')
      else Inr ())"

definition validate_operation ::
    "run_env \<Rightarrow> run_record \<Rightarrow> operation_id \<times> operation \<Rightarrow> unit result" where
  "validate_operation env r entry =
     rseq (validate_operation_identity env r (fst entry) (snd entry))
     (rseq (validate_operation_receipt env (fst entry) (snd entry))
     (validate_operation_settlement env r (snd entry)))"

definition validate_child_entry :: "child_id \<times> child_run \<Rightarrow> unit result" where
  "validate_child_entry entry =
     (if fst entry \<noteq> ch_id (snd entry)
      then Inl (Integrity ''durable child map identity is inconsistent'')
      else child_validate (snd entry))"

definition validate_message_entry :: "message_id \<times> mail_message \<Rightarrow> unit result" where
  "validate_message_entry entry =
     (if fst entry \<noteq> msg_id (snd entry)
      then Inl (Integrity ''durable message map identity is inconsistent'')
      else message_validate (snd entry))"

definition receipts_invalid :: "run_record \<Rightarrow> bool" where
  "receipts_invalid r =
     (list_ex (\<lambda>(command_id, receipt).
        command_id \<noteq> cr_command_id receipt \<or>
        \<not> valid_sha256 (cr_input_digest receipt) \<or>
        cr_committed_revision receipt > revision r \<or>
        cr_disposition receipt = Disp_Unknown) (btree_iter (command_receipts r)) \<or>
      (\<exists>s \<in> set_option (recovery_prior_status r).
         s \<in> {Status_Active, Status_RecoveryRequired}))"

text \<open>The loop over the journal carries the previous cursor and revision.\<close>

fun validate_events ::
    "run_event_cursor \<Rightarrow> (run_event_cursor \<times> run_revision) option \<Rightarrow> run_event list \<Rightarrow> unit result" where
  "validate_events current previous [] = Inr ()"
| "validate_events current previous (event # rest) =
     (if ev_cursor event > current \<or>
         (\<exists>(cursor, rev) \<in> set_option previous.
            checked_add cursor 1 \<noteq> Some (ev_cursor event) \<or>
            checked_add rev 1 \<noteq> Some (ev_revision event))
      then Inl (Integrity ''Run event cursor ordering is inconsistent'')
      else validate_events current (Some (ev_cursor event, ev_revision event)) rest)"

definition journal_tail_matches :: "run_envelope \<Rightarrow> bool" where
  "journal_tail_matches e =
     (if events e = [] then event_cursor (run e) = 0
      else event_cursor (run e) \<noteq> 0 \<and>
           ev_cursor (last (events e)) = event_cursor (run e) \<and>
           ev_revision (last (events e)) = revision (run e))"

definition envelope_validate :: "run_env \<Rightarrow> run_envelope \<Rightarrow> unit result" where
  "envelope_validate env e =
     (let r = run e in
      if schema_version e \<noteq> RUN_SCHEMA_VERSION then Inl (UnsupportedSchema (schema_version e))
      else
        rseq (goal_spec_validate (goal r))
        (rseq (capability_policy_validate (capabilities r))
        (rseq (driver_validate (driver r))
        (rseq (validate_harness_state r)
        (if residency_invalid r
         then Inl (Integrity ''invalid durable Run residency state'')
         else if collections_invalid e
         then Inl (Integrity ''durable Run collection exceeds its schema bound'')
         else
           rseq (validate_text_set (required_gates r) MAX_LIST_ITEMS 256 ''required gate'')
           (rseq (validate_text (verifier_policy_digest r) 256 ''verifier policy digest'' False)
           (if usage_unknown_invalid r
            then Inl (Integrity ''unknown usage is not permitted by the finite Run budget'')
            else if stage r = Stage_Unknown \<or> driver r = Driver_Unknown
            then Inl (Integrity ''unknown durable Run driver or stage requires schema migration'')
            else
              rseq (case active_iteration r of Some i \<Rightarrow> iteration_validate i | None \<Rightarrow> Inr ())
              (rseq (for_each validate_archived (run_iterations r))
              (rseq (for_each (validate_operation env r) (btree_iter (operations r)))
              (rseq (for_each validate_child_entry (btree_iter (children r)))
              (rseq (for_each (\<lambda>messages. for_each validate_message_entry (btree_iter messages))
                       [mailbox r, steering r])
              (rseq (for_each strategy_validate (strategy_revisions r))
              (rseq (for_each workflow_validate (workflow_revisions r))
              (if receipts_invalid r
               then Inl (Integrity
                 ''unknown or inconsistent durable Run child, message, or receipt state'')
               else
                 rseq (validate_events (event_cursor r) None (events e))
                 (if \<not> journal_tail_matches e
                  then Inl (Integrity ''Run event journal is not a complete suffix'')
                  else if \<exists>sess \<in> set_option (driver_session (driver r)). sess \<noteq> session r
                  then Inl (Integrity ''driver session differs from Run session'')
                  else Inr ())))))))))))))))"

text \<open>\<open>RunEnvelope::from_json_slice\<close>: the byte bound, then \<open>serde_json\<close> (the parameter
  \<open>decode_wire\<close>, giving the wire struct or its error text), then \<open>validate\<close> with the
  error turned into text by \<open>D::Error::custom\<close> (the parameter \<open>show_error\<close>).\<close>

definition from_json_slice ::
    "run_env \<Rightarrow> (string \<Rightarrow> string + run_envelope) \<Rightarrow> (run_error \<Rightarrow> string) \<Rightarrow> string \<Rightarrow>
     run_envelope result" where
  "from_json_slice env decode_wire show_error bytes =
     (if length bytes > MAX_RUN_ENVELOPE_BYTES
      then Inl (Storage ''Run envelope exceeds size limit'')
      else
        (case decode_wire bytes of
           Inl e \<Rightarrow> Inl (Storage e)
         | Inr envelope \<Rightarrow>
             (case envelope_validate env envelope of
                Inl e \<Rightarrow> Inl (Storage (show_error e))
              | Inr _ \<Rightarrow> Inr envelope)))"

section \<open>Legacy import\<close>

fun as_object :: "json \<Rightarrow> (string \<times> json) list option" where
  "as_object (J_Object entries) = Some entries"
| "as_object _ = None"

fun as_str :: "json \<Rightarrow> string option" where
  "as_str (J_String s) = Some s"
| "as_str _ = None"

fun as_u64 :: "json \<Rightarrow> u64 option" where
  "as_u64 (J_Number (PosInt n)) = Some n"
| "as_u64 _ = None"

definition unwrap_or :: "'a \<Rightarrow> 'a option \<Rightarrow> 'a" where
  "unwrap_or d v = (case v of None \<Rightarrow> d | Some x \<Rightarrow> x)"

definition stable_legacy_statuses :: "string list" where
  "stable_legacy_statuses =
     [''user_paused'', ''paused'', ''Paused'', ''doom_loop_paused'', ''back_off_paused'',
      ''no_progress_paused'', ''infra_paused'', ''blocked'', ''budget_limited'', ''BudgetLimited'',
      ''complete'', ''Complete'', ''failed'', ''cancelled'']"

definition legacy_status :: "string \<Rightarrow> run_status" where
  "legacy_status raw_status =
     (let parsed = from_wire_str raw_status in
      if parsed = Status_Active \<or> raw_status \<notin> set stable_legacy_statuses
      then Status_RecoveryRequired else parsed)"

definition legacy_pin :: harness_snapshot_pin where
  "legacy_pin =
     \<lparr>pin_digest = replicate 64 (CHR ''0''), pin_descriptor_digest = replicate 64 (CHR ''0''),
      pin_capability_revision = ''legacy-import'', pin_negotiated_capabilities = {||},
      pin_revision = 1, pin_evidence = [], pin_provenance = ''legacy-import''\<rparr>"

text \<open>\<open>verdict_of\<close> is the derived deserialiser of \<open>GoalVerdict\<close>, \<open>None\<close> on error.\<close>

definition migrate_legacy_goal ::
    "(json \<Rightarrow> goal_verdict option) \<Rightarrow> json \<Rightarrow> session_ref \<Rightarrow> u64 \<Rightarrow> run_envelope result" where
  "migrate_legacy_goal verdict_of value sess now_ms =
     rbind (ok_or (Validation ''legacy goal snapshot is not an object'') (as_object value))
       (\<lambda>object.
     let field = map_of object;
         g = goal_spec_new
           (unwrap_or ''Recovered legacy goal'' (Option.bind (field ''objective'') as_str)) in
     rseq (goal_spec_validate g)
     (rbind (string_id_new ''run id''
         (unwrap_or ''legacy_goal'' (Option.bind (field ''goal_id'') as_str))) (\<lambda>rid.
     let st = legacy_status (unwrap_or ''unknown'' (Option.bind (field ''status'') as_str)) in
     Inr \<lparr>schema_version = RUN_SCHEMA_VERSION,
       run = \<lparr>
         revision = 1, controller_epoch = 1, wake = wake_default, activation_lease = None,
         created_at_ms = now_ms, updated_at_ms = now_ms, run_id = rid, session = sess, goal = g,
         driver = Driver_AutonomousTurnLoop sess 0, status = st,
         stage = (if st = Status_RecoveryRequired then Stage_Recovering else Stage_Idle),
         capabilities = \<lparr>cap_required = {||}, cap_available = {||}, cap_ceiling = {||}\<rparr>,
         required_gates = {||}, verifier_policy_digest = ''legacy-import'',
         budget = rv_default\<lparr>tokens :=
           unwrap_or 0 (Option.bind (field ''token_budget'') as_u64)\<rparr>,
         usage = rv_default\<lparr>tokens :=
           unwrap_or 0 (Option.bind (field ''tokens_used'') as_u64)\<rparr>,
         usage_unknown = {||}, child_reserved = rv_default, next_iteration_id = 1,
         active_iteration = None, run_iterations = [], operations = fmempty, children = fmempty,
         mailbox = fmempty, next_message_sequence = 1, steering = fmempty,
         steering_high_water = 0, strategy_revisions = [], current_strategy_revision = 0,
         workflow_revisions = [], current_workflow_revision = None,
         harness = \<lparr>hg_active = Some legacy_pin, hg_previous = None, hg_proposals = fmempty\<rparr>,
         verdict = Option.bind (field ''verdict'') verdict_of, pending_approval = False,
         recovery_prior_status = None, command_receipts = fmempty,
         terminal_report_claimed = False, event_cursor = 0\<rparr>,
       events = []\<rparr>)))"

section \<open>Lemmas\<close>

lemma from_wire_as_str: "from_wire_str (status_as_str s) = s"
  by (cases s) (simp_all add: from_wire_str_def status_wire_names_def)

lemma legacy_status_not_active: "legacy_status raw \<noteq> Status_Active"
  by (simp add: legacy_status_def Let_def)

lemma lifecycle_finished_iff:
  "(\<exists>out. lifecycle r = Life_Finished out) \<longleftrightarrow> is_terminal (status r)"
  by (cases "status r") (simp_all add: lifecycle_def is_terminal_def)

text \<open>Validation of the journal: cursors and revisions are consecutive.\<close>

lemma validate_events_consecutive:
  "validate_events current (Some (c, v)) es = Inr () \<Longrightarrow> i < length es \<Longrightarrow>
     unat (ev_cursor (es ! i)) = unat c + Suc i \<and> unat (ev_revision (es ! i)) = unat v + Suc i"
proof (induction es arbitrary: c v i)
  case (Cons e es)
  from Cons.prems(1) have
    c: "unat (ev_cursor e) = unat c + 1" and v: "unat (ev_revision e) = unat v + 1" and
    rest: "validate_events current (Some (ev_cursor e, ev_revision e)) es = Inr ()"
    by (auto simp: result_simps checked_simps)
  show ?case
  proof (cases i)
    case 0
    with c v show ?thesis by simp
  next
    case (Suc j)
    with Cons.IH [OF rest, of j] Cons.prems(2) c v show ?thesis by simp
  qed
qed simp

lemma validate_events_bound:
  "validate_events current prev es = Inr () \<Longrightarrow> e \<in> set es \<Longrightarrow> ev_cursor e \<le> current"
  by (induction es arbitrary: prev) (auto simp: result_simps)

text \<open>Appending the successor event keeps a valid journal valid.\<close>

lemma validate_events_mono:
  "validate_events current prev es = Inr () \<Longrightarrow> current \<le> current' \<Longrightarrow>
     validate_events current' prev es = Inr ()"
  by (induction es arbitrary: prev) (auto simp: result_simps)

lemma validate_events_snoc:
  assumes "validate_events current prev es = Inr ()" and "ev_cursor e \<le> current"
    and "es = [] \<Longrightarrow> prev = None"
    and "es \<noteq> [] \<Longrightarrow> checked_add (ev_cursor (last es)) 1 = Some (ev_cursor e) \<and>
           checked_add (ev_revision (last es)) 1 = Some (ev_revision e)"
  shows "validate_events current prev (es @ [e]) = Inr ()"
  using assms
proof (induction es arbitrary: prev)
  case Nil
  then show ?case by auto
next
  case (Cons x xs)
  show ?case
  proof (cases "xs = []")
    case True
    with Cons.prems show ?thesis by (auto simp: result_simps)
  next
    case False
    from Cons.prems(1) have
      "validate_events current (Some (ev_cursor x, ev_revision x)) xs = Inr ()"
      by (auto simp: result_simps)
    from Cons.IH [OF this Cons.prems(2)] False Cons.prems(4)
    have "validate_events current (Some (ev_cursor x, ev_revision x)) (xs @ [e]) = Inr ()"
      by simp
    with Cons.prems(1) show ?thesis by (auto simp: result_simps)
  qed
qed

lemma validate_events_weaken:
  "validate_events current prev es = Inr () \<Longrightarrow> validate_events current None es = Inr ()"
  by (cases es) (auto simp: result_simps)

lemma validate_events_drop:
  "validate_events current None es = Inr () \<Longrightarrow> validate_events current None (drop n es) = Inr ()"
proof (induction n arbitrary: es)
  case (Suc n)
  show ?case
  proof (cases es)
    case (Cons x xs)
    with Suc.prems have "validate_events current None xs = Inr ()"
      by (auto simp: result_simps intro: validate_events_weaken)
    with Cons Suc.IH show ?thesis by simp
  qed (use Suc.prems in simp)
qed simp

text \<open>The conjuncts of a valid envelope that later proofs use.\<close>

lemma envelope_validateD:
  assumes "envelope_validate env e = Inr ()"
  shows "schema_version e = RUN_SCHEMA_VERSION"
    and "\<not> residency_invalid (run e)"
    and "\<not> collections_invalid e"
    and "validate_harness_state (run e) = Inr ()"
    and "\<forall>entry \<in> set (btree_iter (operations (run e))). validate_operation env (run e) entry = Inr ()"
    and "validate_events (event_cursor (run e)) None (events e) = Inr ()"
    and "journal_tail_matches e"
    and "\<not> receipts_invalid (run e)"
    and "\<forall>entry \<in> set (btree_iter (children (run e))). validate_child_entry entry = Inr ()"
  using assms by (simp_all add: envelope_validate_def Let_def result_simps)

end
