(* ===== verification/Run_Store.thy ===== *)
theory Run_Store
  imports Run_Envelope
begin

text \<open>
  Acknowledged persistence (\<open>run/store.rs\<close>): \<open>StoreCommit::validate_and_encode\<close>, the
  trait \<open>RunStore\<close> as the locale \<open>run_store\<close>, and \<open>LocalRunStore\<close>, whose SQL statements
  are modelled over its two tables. JSON encoding is the parameter \<open>store_codec\<close>; whether
  a SQL statement fails is the parameter \<open>sql_faults\<close>. The locale is interpreted on the
  local store for every codec and every fault pattern.
\<close>

section \<open>Commits\<close>

definition RUN_SCHEMA_MARKER :: string where
  "RUN_SCHEMA_MARKER = ''xai-agent-lifecycle.run-envelope''"

record run_schema_marker =
  rsm_namespace :: string
  rsm_version :: u32
  rsm_max_envelope_bytes :: nat

definition CURRENT_RUN_SCHEMA :: run_schema_marker where
  "CURRENT_RUN_SCHEMA = \<lparr>rsm_namespace = RUN_SCHEMA_MARKER, rsm_version = RUN_SCHEMA_VERSION,
     rsm_max_envelope_bytes = MAX_RUN_ENVELOPE_BYTES\<rparr>"

record store_commit =
  sc_run_id :: run_id
  sc_expected_revision :: "run_revision option"
  sc_next :: run_envelope
  sc_finished_iteration :: "iteration_manifest option"

record prepared_iteration =
  pi_iteration_id :: u64
  pi_manifest :: string

record prepared_store_commit =
  psc_schema :: run_schema_marker
  psc_run_id :: run_id
  psc_expected_revision :: "run_revision option"
  psc_next_revision :: run_revision
  psc_tombstoned :: bool
  psc_envelope :: string
  psc_finished_iteration :: "prepared_iteration option"

datatype store_commit_result =
    Store_Applied
  | Store_Conflict "run_revision option"
  | Store_Tombstoned
  | Store_CommitUnknown string

record store_codec =
  enc_envelope :: "run_envelope \<Rightarrow> string + string"
  enc_iteration :: "iteration_manifest \<Rightarrow> string + string"
  dec_wire :: "string \<Rightarrow> string + run_envelope"
  show_error :: "run_error \<Rightarrow> string"

definition prepare_iteration ::
    "store_codec \<Rightarrow> run_record \<Rightarrow> iteration_manifest \<Rightarrow> prepared_iteration result" where
  "prepare_iteration codec r iteration =
     rseq (iteration_validate iteration)
     (if it_finished_at_ms iteration = None \<or> iteration \<notin> set (run_iterations r)
      then Inl (Integrity ''finished iteration is not the exact committed Run iteration'')
      else
        (case enc_iteration codec iteration of
           Inl e \<Rightarrow> Inl (Storage e)
         | Inr manifest \<Rightarrow>
             if length manifest > MAX_RUN_ENVELOPE_BYTES
             then Inl (Validation ''serialized iteration manifest exceeds 16 MiB'')
             else Inr \<lparr>pi_iteration_id = it_iteration_id iteration, pi_manifest = manifest\<rparr>))"

definition validate_and_encode ::
    "run_env \<Rightarrow> store_codec \<Rightarrow> store_commit \<Rightarrow> prepared_store_commit result" where
  "validate_and_encode env codec c =
     (if run_id (run (sc_next c)) \<noteq> sc_run_id c
      then Inl (Integrity ''commit Run id differs from envelope Run id'')
      else
        rseq (envelope_validate env (sc_next c))
        (rbind (case sc_expected_revision c of
                  None \<Rightarrow> Inr 1
                | Some v \<Rightarrow> ok_or (Integrity ''Run revision overflow'') (checked_add v 1))
          (\<lambda>expected_next.
        if revision (run (sc_next c)) \<noteq> expected_next
        then Inl (Integrity ''commit revision is not the expected successor'')
        else
          (case enc_envelope codec (sc_next c) of
             Inl e \<Rightarrow> Inl (Storage e)
           | Inr envelope \<Rightarrow>
               if length envelope > MAX_RUN_ENVELOPE_BYTES
               then Inl (Validation ''serialized Run envelope exceeds 16 MiB'')
               else
                 rbind (case sc_finished_iteration c of
                          None \<Rightarrow> Inr None
                        | Some iteration \<Rightarrow>
                            rbind (prepare_iteration codec (run (sc_next c)) iteration)
                              (\<lambda>p. Inr (Some p)))
                   (\<lambda>finished.
                 Inr \<lparr>psc_schema = CURRENT_RUN_SCHEMA, psc_run_id = sc_run_id c,
                   psc_expected_revision = sc_expected_revision c,
                   psc_next_revision = revision (run (sc_next c)),
                   psc_tombstoned = (status (run (sc_next c)) = Status_Tombstoned),
                   psc_envelope = envelope, psc_finished_iteration = finished\<rparr>)))))"

section \<open>The store interface\<close>

record 's store_ops =
  so_load :: "'s \<Rightarrow> run_id \<Rightarrow> run_envelope option result"
  so_list :: "'s \<Rightarrow> run_envelope list result"
  so_commit :: "'s \<Rightarrow> store_commit \<Rightarrow> 's \<times> store_commit_result result"

text \<open>The contract of \<open>RunStore\<close>. \<open>content\<close> is what the store durably holds; a commit
  is a compare-and-swap on the revision, refuses a tombstoned Run, installs exactly the
  proposed envelope when it reports \<open>Applied\<close>, leaves everything as it was when it reports
  a conflict, a tombstone or an error, and may have done either when it reports
  \<open>CommitUnknown\<close>.\<close>

definition commit_installs :: "(run_id \<Rightarrow> run_envelope option) \<Rightarrow> store_commit \<Rightarrow>
    (run_id \<Rightarrow> run_envelope option) \<Rightarrow> bool" where
  "commit_installs before c after \<longleftrightarrow>
     after = before(sc_run_id c \<mapsto> sc_next c) \<and>
     run_id (run (sc_next c)) = sc_run_id c \<and>
     (case before (sc_run_id c) of
        None \<Rightarrow> sc_expected_revision c = None \<and> revision (run (sc_next c)) = 1
      | Some old \<Rightarrow>
          sc_expected_revision c = Some (revision (run old)) \<and>
          status (run old) \<noteq> Status_Tombstoned \<and>
          unat (revision (run (sc_next c))) = unat (revision (run old)) + 1)"

text \<open>Sequences of commits, by any number of writers.\<close>

fun store_commits :: "'s store_ops \<Rightarrow> 's \<Rightarrow> store_commit list \<Rightarrow> 's" where
  "store_commits ops s [] = s"
| "store_commits ops s (c # cs) = store_commits ops (fst (so_commit ops s c)) cs"

locale run_store =
  fixes ops :: "'s store_ops"
    and content :: "'s \<Rightarrow> run_id \<Rightarrow> run_envelope option"
    and ok :: "'s \<Rightarrow> bool"
    and good :: "run_envelope \<Rightarrow> bool"
  assumes content_id: "ok s \<Longrightarrow> content s rid = Some e \<Longrightarrow> run_id (run e) = rid"
    and content_good: "ok s \<Longrightarrow> content s rid = Some e \<Longrightarrow> good e"
    and load_content: "ok s \<Longrightarrow> so_load ops s rid = Inr v \<Longrightarrow> v = content s rid"
    and list_content: "ok s \<Longrightarrow> so_list ops s = Inr es \<Longrightarrow> e \<in> set es \<Longrightarrow>
      content s (run_id (run e)) = Some e"
    and commit_ok: "ok s \<Longrightarrow> so_commit ops s c = (s', r) \<Longrightarrow> ok s'"
    and commit_applied: "ok s \<Longrightarrow> so_commit ops s c = (s', Inr Store_Applied) \<Longrightarrow>
      commit_installs (content s) c (content s')"
    and commit_unknown: "ok s \<Longrightarrow> so_commit ops s c = (s', Inr (Store_CommitUnknown m)) \<Longrightarrow>
      content s' = content s \<or> commit_installs (content s) c (content s')"
    and commit_refused: "ok s \<Longrightarrow> so_commit ops s c = (s', r) \<Longrightarrow>
      r \<noteq> Inr Store_Applied \<Longrightarrow> (\<forall>m. r \<noteq> Inr (Store_CommitUnknown m)) \<Longrightarrow> content s' = content s"
begin

lemma commits_ok: "ok s \<Longrightarrow> ok (store_commits ops s cs)"
  by (induction cs arbitrary: s) (auto simp: prod.collapse intro: commit_ok [OF _ surjective_pairing])

lemma commit_cases:
  assumes "ok s" and "so_commit ops s c = (s', r)"
  obtains "content s' = content s" | "commit_installs (content s) c (content s')"
  using assms commit_applied commit_unknown commit_refused by metis

lemma commit_monotone:
  assumes "ok s" and "so_commit ops s c = (s', r)" and "content s rid = Some e"
  shows "\<exists>e'. content s' rid = Some e' \<and> revision (run e) \<le> revision (run e') \<and>
    (revision (run e) = revision (run e') \<longrightarrow> e = e') \<and>
    (status (run e) = Status_Tombstoned \<longrightarrow> e = e')"
  using commit_cases [OF assms(1,2)]
proof cases
  case 1
  with assms(3) show ?thesis by simp
next
  case 2
  then show ?thesis
  proof (cases "rid = sc_run_id c")
    case True
    with 2 assms(3) show ?thesis
      by (auto simp: commit_installs_def word_le_nat_alt)
  next
    case False
    with 2 assms(3) show ?thesis by (simp add: commit_installs_def)
  qed
qed

text \<open>A durable revision is never lost or rewritten, and a tombstone is final.\<close>

lemma commits_monotone:
  "ok s \<Longrightarrow> content s rid = Some e \<Longrightarrow>
     \<exists>e'. content (store_commits ops s cs) rid = Some e' \<and> revision (run e) \<le> revision (run e') \<and>
       (revision (run e) = revision (run e') \<longrightarrow> e = e') \<and>
       (status (run e) = Status_Tombstoned \<longrightarrow> e = e')"
proof (induction cs arbitrary: s e)
  case (Cons c cs)
  obtain s' r where c: "so_commit ops s c = (s', r)" by fastforce
  from commit_monotone [OF Cons.prems(1) c Cons.prems(2)] obtain e1 where
    e1: "content s' rid = Some e1" "revision (run e) \<le> revision (run e1)"
      "revision (run e) = revision (run e1) \<longrightarrow> e = e1"
      "status (run e) = Status_Tombstoned \<longrightarrow> e = e1" by blast
  from Cons.IH [OF commit_ok [OF Cons.prems(1) c] e1(1)] obtain e2 where
    e2: "content (store_commits ops s' cs) rid = Some e2" "revision (run e1) \<le> revision (run e2)"
      "revision (run e1) = revision (run e2) \<longrightarrow> e1 = e2"
      "status (run e1) = Status_Tombstoned \<longrightarrow> e1 = e2" by blast
  have "revision (run e) = revision (run e2) \<longrightarrow> e = e2"
    using e1 e2 by (metis order_antisym)
  with e1 e2 c show ?case by (auto intro: order_trans)
qed auto

text \<open>Of two writers that prepared a commit against the same revision, the one that comes
  later, however many commits lie between, is not applied.\<close>

lemma compare_and_swap_exclusive:
  assumes "ok s" and first: "so_commit ops s c = (s', Inr Store_Applied)"
    and same: "sc_run_id d = sc_run_id c" "sc_expected_revision d = sc_expected_revision c"
  shows "snd (so_commit ops (store_commits ops s' cs) d) \<noteq> Inr Store_Applied"
proof
  assume "snd (so_commit ops (store_commits ops s' cs) d) = Inr Store_Applied"
  then obtain s'' where second: "so_commit ops (store_commits ops s' cs) d = (s'', Inr Store_Applied)"
    by (metis prod.collapse)
  have ok': "ok s'" using assms(1) first by (rule commit_ok)
  have inst: "commit_installs (content s) c (content s')"
    using assms(1) first by (rule commit_applied)
  then have new: "content s' (sc_run_id c) = Some (sc_next c)"
    by (simp add: commit_installs_def)
  from commits_monotone [OF ok' new] obtain e where
    e: "content (store_commits ops s' cs) (sc_run_id c) = Some e"
      "revision (run (sc_next c)) \<le> revision (run e)" by blast
  have "commit_installs (content (store_commits ops s' cs)) d (content s'')"
    using commits_ok [OF ok'] second by (rule commit_applied)
  with e same have "sc_expected_revision c = Some (revision (run e))"
    by (simp add: commit_installs_def)
  with inst e(2) show False
    by (auto simp: commit_installs_def word_le_nat_alt split: option.splits)
qed

end

section \<open>The local store\<close>

record run_row =
  row_revision :: run_revision
  row_tombstoned :: bool
  row_envelope :: string

record run_db =
  db_runs :: "(run_id, run_row) fmap"
  db_iterations :: "(run_id \<times> u64, string) fmap"

text \<open>Which statement fails, and with what text. A failing \<open>COMMIT\<close> may have taken
  effect: its Boolean says whether it did.\<close>

record sql_faults =
  sf_lock_poisoned :: bool
  sf_begin :: "string option"
  sf_query :: "string option"
  sf_scan :: "string option"
  sf_upsert :: "string option"
  sf_iteration :: "string option"
  sf_commit :: "(string \<times> bool) option"

definition lock :: "sql_faults \<Rightarrow> unit result" where
  "lock f = (if sf_lock_poisoned f then Inl (Storage ''Run store lock is poisoned'') else Inr ())"

definition sql :: "string option \<Rightarrow> unit result" where
  "sql fault = (case fault of None \<Rightarrow> Inr () | Some m \<Rightarrow> Inl (Storage m))"

definition decode_envelope :: "run_env \<Rightarrow> store_codec \<Rightarrow> string \<Rightarrow> run_envelope result" where
  "decode_envelope env codec bytes = from_json_slice env (dec_wire codec) (show_error codec) bytes"

definition local_load ::
    "run_env \<Rightarrow> store_codec \<Rightarrow> sql_faults \<Rightarrow> run_db \<Rightarrow> run_id \<Rightarrow> run_envelope option result" where
  "local_load env codec f db rid =
     rseq (lock f)
     (rseq (sql (sf_query f))
     (case fmlookup (db_runs db) rid of
        None \<Rightarrow> Inr None
      | Some row \<Rightarrow>
          rbind (decode_envelope env codec (row_envelope row)) (\<lambda>envelope.
          if run_id (run envelope) \<noteq> rid
          then Inl (Integrity ''Run store returned an envelope for a different Run id'')
          else Inr (Some envelope))))"

definition local_list ::
    "run_env \<Rightarrow> store_codec \<Rightarrow> sql_faults \<Rightarrow> run_db \<Rightarrow> run_envelope list result" where
  "local_list env codec f db =
     rseq (lock f)
     (rseq (sql (sf_query f))
     (fold_res (\<lambda>row acc. rbind (decode_envelope env codec (row_envelope row))
         (\<lambda>e. Inr (acc @ [e]))) (btree_values (db_runs db)) []))"

text \<open>The scan for another nonterminal Run of the Session, over the rows with
  \<open>tombstoned=0\<close>; \<open>True\<close> means a conflicting Run was found. The order of the rows is
  that of the primary key.\<close>

fun session_scan ::
    "run_env \<Rightarrow> store_codec \<Rightarrow> session_ref \<Rightarrow> run_row list \<Rightarrow> bool result" where
  "session_scan env codec sess [] = Inr False"
| "session_scan env codec sess (row # rows) =
     rbind (decode_envelope env codec (row_envelope row)) (\<lambda>existing.
     if session (run existing) = sess \<and> \<not> is_terminal (status (run existing)) then Inr True
     else session_scan env codec sess rows)"

definition apply_rows :: "prepared_store_commit \<Rightarrow> run_db \<Rightarrow> run_db" where
  "apply_rows p db =
     db\<lparr>db_runs := fmupd (psc_run_id p) \<lparr>row_revision = psc_next_revision p,
           row_tombstoned = psc_tombstoned p, row_envelope = psc_envelope p\<rparr> (db_runs db),
        db_iterations := (case psc_finished_iteration p of
           None \<Rightarrow> db_iterations db
         | Some i \<Rightarrow> fmupd (psc_run_id p, pi_iteration_id i) (pi_manifest i) (db_iterations db))\<rparr>"

text \<open>The check of the current row: \<open>None\<close> means that the commit may proceed.\<close>

definition current_row_verdict ::
    "run_db \<Rightarrow> store_commit \<Rightarrow> store_commit_result option" where
  "current_row_verdict db c =
     (case fmlookup (db_runs db) (sc_run_id c) of
        Some row \<Rightarrow>
          if row_tombstoned row then Some Store_Tombstoned
          else if sc_expected_revision c = Some (row_revision row) then None
          else Some (Store_Conflict (Some (row_revision row)))
      | None \<Rightarrow>
          if sc_expected_revision c = None then None else Some (Store_Conflict None))"

text \<open>\<open>commit\<close> up to the \<open>COMMIT\<close> statement: an error, an answer given without writing,
  or the prepared rows to write.\<close>

definition local_prepare ::
    "run_env \<Rightarrow> store_codec \<Rightarrow> sql_faults \<Rightarrow> run_db \<Rightarrow> store_commit \<Rightarrow>
     (store_commit_result + prepared_store_commit) result" where
  "local_prepare env codec f db c =
     rbind (validate_and_encode env codec c) (\<lambda>prepared.
     rseq (lock f)
     (rseq (sql (sf_begin f))
     (rseq (sql (sf_query f))
     (case current_row_verdict db c of
        Some answer \<Rightarrow> Inr (Inl answer)
      | None \<Rightarrow>
          rbind (if sc_expected_revision c = None \<and> \<not> is_terminal (status (run (sc_next c)))
                 then rseq (sql (sf_scan f))
                   (session_scan env codec (session (run (sc_next c)))
                     (filter (\<lambda>row. \<not> row_tombstoned row) (btree_values (db_runs db))))
                 else Inr False) (\<lambda>found.
          if found then Inr (Inl (Store_Conflict None))
          else rseq (sql (sf_upsert f))
            (rseq (if psc_finished_iteration prepared = None then Inr () else sql (sf_iteration f))
            (Inr (Inr prepared))))))))"

definition local_commit ::
    "run_env \<Rightarrow> store_codec \<Rightarrow> sql_faults \<Rightarrow> run_db \<Rightarrow> store_commit \<Rightarrow>
     run_db \<times> store_commit_result result" where
  "local_commit env codec f db c =
     (case local_prepare env codec f db c of
        Inl e \<Rightarrow> (db, Inl e)
      | Inr (Inl answer) \<Rightarrow> (db, Inr answer)
      | Inr (Inr prepared) \<Rightarrow>
          (case sf_commit f of
             None \<Rightarrow> (apply_rows prepared db, Inr Store_Applied)
           | Some (m, took_effect) \<Rightarrow>
               (if took_effect then apply_rows prepared db else db, Inr (Store_CommitUnknown m))))"

definition local_store_ops :: "run_env \<Rightarrow> store_codec \<Rightarrow> sql_faults \<Rightarrow> run_db store_ops" where
  "local_store_ops env codec f =
     \<lparr>so_load = local_load env codec f, so_list = local_list env codec f,
      so_commit = local_commit env codec f\<rparr>"

section \<open>The local store implements the interface\<close>

text \<open>What is needed of the JSON codec: decoding inverts encoding.\<close>

definition codec_roundtrip :: "store_codec \<Rightarrow> bool" where
  "codec_roundtrip codec \<longleftrightarrow>
     (\<forall>e bytes. enc_envelope codec e = Inr bytes \<longrightarrow> dec_wire codec bytes = Inr e)"

definition row_holds :: "run_env \<Rightarrow> store_codec \<Rightarrow> run_id \<Rightarrow> run_row \<Rightarrow> run_envelope \<Rightarrow> bool" where
  "row_holds env codec rid row e \<longleftrightarrow>
     decode_envelope env codec (row_envelope row) = Inr e \<and> run_id (run e) = rid \<and>
     row_revision row = revision (run e) \<and>
     row_tombstoned row = (status (run e) = Status_Tombstoned)"

definition local_content :: "run_env \<Rightarrow> store_codec \<Rightarrow> run_db \<Rightarrow> run_id \<Rightarrow> run_envelope option" where
  "local_content env codec db rid =
     Option.bind (fmlookup (db_runs db) rid) (\<lambda>row.
       case decode_envelope env codec (row_envelope row) of Inl _ \<Rightarrow> None | Inr e \<Rightarrow> Some e)"

definition local_ok :: "run_env \<Rightarrow> store_codec \<Rightarrow> run_db \<Rightarrow> bool" where
  "local_ok env codec db \<longleftrightarrow>
     codec_roundtrip codec \<and>
     (\<forall>rid row. fmlookup (db_runs db) rid = Some row \<longrightarrow> (\<exists>e. row_holds env codec rid row e))"

abbreviation envelope_good :: "run_env \<Rightarrow> run_envelope \<Rightarrow> bool" where
  "envelope_good env e \<equiv> envelope_validate env e = Inr ()"

lemma decode_envelope_good: "decode_envelope env codec b = Inr e \<Longrightarrow> envelope_good env e"
  by (auto simp: decode_envelope_def from_json_slice_def split: sum.splits if_splits)

lemma local_content_row:
  assumes "local_ok env codec db" and "fmlookup (db_runs db) rid = Some row"
  obtains e where "local_content env codec db rid = Some e" and "row_holds env codec rid row e"
  using assms by (fastforce simp: local_ok_def local_content_def row_holds_def)

lemma local_content_None:
  "local_ok env codec db \<Longrightarrow> local_content env codec db rid = None \<longleftrightarrow> fmlookup (db_runs db) rid = None"
  by (cases "fmlookup (db_runs db) rid")
    (auto simp: local_content_def elim: local_content_row)

lemma fold_decode_set:
  "fold_res (\<lambda>row acc. rbind (decode_envelope env codec (row_envelope row)) (\<lambda>e. Inr (acc @ [e])))
     rows acc = Inr es \<Longrightarrow> e \<in> set es \<Longrightarrow>
   e \<in> set acc \<or> (\<exists>row \<in> set rows. decode_envelope env codec (row_envelope row) = Inr e)"
proof (induction rows arbitrary: acc)
  case (Cons row rows)
  from Cons.prems obtain e1 where d: "decode_envelope env codec (row_envelope row) = Inr e1"
    and f: "fold_res (\<lambda>row acc. rbind (decode_envelope env codec (row_envelope row))
      (\<lambda>e. Inr (acc @ [e]))) rows (acc @ [e1]) = Inr es"
    by (auto simp: result_simps)
  from Cons.IH [OF f Cons.prems(2)] d show ?case by auto
qed simp

lemma local_list_content:
  assumes ok: "local_ok env codec db" and l: "local_list env codec f db = Inr es" and e: "e \<in> set es"
  shows "local_content env codec db (run_id (run e)) = Some e"
proof -
  from l have "fold_res (\<lambda>row acc. rbind (decode_envelope env codec (row_envelope row))
      (\<lambda>e. Inr (acc @ [e]))) (btree_values (db_runs db)) [] = Inr es"
    by (simp add: local_list_def result_simps)
  from fold_decode_set [OF this e] obtain row rid where
    r: "fmlookup (db_runs db) rid = Some row" "decode_envelope env codec (row_envelope row) = Inr e"
    by (auto simp: set_btree_values)
  from local_content_row [OF ok r(1)] r show ?thesis by (auto simp: row_holds_def)
qed

lemma validate_and_encodeD:
  assumes "validate_and_encode env codec c = Inr p"
  shows "run_id (run (sc_next c)) = sc_run_id c" and "envelope_good env (sc_next c)"
    and "psc_run_id p = sc_run_id c" and "psc_next_revision p = revision (run (sc_next c))"
    and "psc_tombstoned p = (status (run (sc_next c)) = Status_Tombstoned)"
    and "enc_envelope codec (sc_next c) = Inr (psc_envelope p)"
    and "length (psc_envelope p) \<le> MAX_RUN_ENVELOPE_BYTES"
    and "case sc_expected_revision c of None \<Rightarrow> revision (run (sc_next c)) = 1
      | Some v \<Rightarrow> unat (revision (run (sc_next c))) = unat v + 1"
  using assms
  by (auto simp: validate_and_encode_def result_simps checked_simps split: sum.splits option.splits)

lemma prepared_row_holds:
  assumes "validate_and_encode env codec c = Inr p" and "codec_roundtrip codec"
  shows "row_holds env codec (sc_run_id c) \<lparr>row_revision = psc_next_revision p,
    row_tombstoned = psc_tombstoned p, row_envelope = psc_envelope p\<rparr> (sc_next c)"
  using validate_and_encodeD [OF assms(1)] assms(2)
  by (simp add: row_holds_def decode_envelope_def from_json_slice_def codec_roundtrip_def)

lemma apply_rows_ok:
  assumes p: "validate_and_encode env codec c = Inr p" and ok: "local_ok env codec db"
  shows "local_ok env codec (apply_rows p db)"
    and "local_content env codec (apply_rows p db) = (local_content env codec db)(sc_run_id c \<mapsto> sc_next c)"
proof -
  have rt: "codec_roundtrip codec" using ok by (simp add: local_ok_def)
  note row = prepared_row_holds [OF p rt] and D = validate_and_encodeD [OF p]
  show "local_ok env codec (apply_rows p db)"
    using ok row D by (auto simp: local_ok_def apply_rows_def)
  show "local_content env codec (apply_rows p db) = (local_content env codec db)(sc_run_id c \<mapsto> sc_next c)"
    using row D by (auto simp: local_content_def apply_rows_def row_holds_def fun_eq_iff)
qed

text \<open>Every outcome of \<open>local_commit\<close>: nothing happened, or the prepared rows were
  written after the current row admitted the commit.\<close>

lemma local_prepareD:
  assumes "local_prepare env codec f db c = Inr x"
  shows "x = Inr p \<Longrightarrow> validate_and_encode env codec c = Inr p \<and> current_row_verdict db c = None"
    and "x = Inl a \<Longrightarrow> a \<noteq> Store_Applied \<and> (\<forall>m. a \<noteq> Store_CommitUnknown m)"
proof -
  have "current_row_verdict db c \<noteq> Some Store_Applied"
    and "current_row_verdict db c \<noteq> Some (Store_CommitUnknown m)" for m
    by (auto simp: current_row_verdict_def split: option.splits)
  with assms show "x = Inl a \<Longrightarrow> a \<noteq> Store_Applied \<and> (\<forall>m. a \<noteq> Store_CommitUnknown m)"
    by (cases "current_row_verdict db c") (auto simp: local_prepare_def result_simps split: if_splits)
  from assms show "x = Inr p \<Longrightarrow>
      validate_and_encode env codec c = Inr p \<and> current_row_verdict db c = None"
    by (cases "current_row_verdict db c") (auto simp: local_prepare_def result_simps split: if_splits)
qed

lemma local_commit_cases:
  assumes "local_commit env codec f db c = (db', r)"
  obtains (unchanged) "db' = db" "r \<noteq> Inr Store_Applied"
  | (written) p where "validate_and_encode env codec c = Inr p" "current_row_verdict db c = None"
      "db' = apply_rows p db" "r = Inr Store_Applied \<or> (\<exists>m. r = Inr (Store_CommitUnknown m))"
proof (cases "local_prepare env codec f db c")
  case (Inl e)
  with assms show ?thesis by (intro unchanged) (auto simp: local_commit_def)
next
  case prep: (Inr x)
  show ?thesis
  proof (cases x)
    case (Inl a)
    with prep assms local_prepareD(2) [OF prep Inl] show ?thesis
      by (intro unchanged) (auto simp: local_commit_def)
  next
    case (Inr p)
    note D = local_prepareD(1) [OF prep Inr]
    consider "sf_commit f = None \<or> (\<exists>m. sf_commit f = Some (m, True))"
      | m where "sf_commit f = Some (m, False)"
      by (cases "sf_commit f") auto
    then show ?thesis
    proof cases
      case 1
      with prep Inr assms D show ?thesis by (intro written [of p]) (auto simp: local_commit_def)
    next
      case 2
      with prep Inr assms show ?thesis by (intro unchanged) (auto simp: local_commit_def)
    qed
  qed
qed

lemma current_row_admits:
  assumes ok: "local_ok env codec db" and p: "validate_and_encode env codec c = Inr p"
    and admits: "current_row_verdict db c = None"
    and after: "local_content env codec db' =
      (local_content env codec db)(sc_run_id c \<mapsto> sc_next c)"
  shows "commit_installs (local_content env codec db) c (local_content env codec db')"
proof (cases "fmlookup (db_runs db) (sc_run_id c)")
  case None
  then have "local_content env codec db (sc_run_id c) = None" by (simp add: local_content_def)
  with None admits validate_and_encodeD [OF p] after show ?thesis
    by (auto simp: commit_installs_def current_row_verdict_def split: if_splits)
next
  case (Some row)
  from local_content_row [OF ok Some] obtain e where
    "local_content env codec db (sc_run_id c) = Some e" "row_holds env codec (sc_run_id c) row e" .
  with Some admits validate_and_encodeD [OF p] after show ?thesis
    by (auto simp: commit_installs_def current_row_verdict_def row_holds_def split: if_splits)
qed

lemma local_commit_effect:
  assumes ok: "local_ok env codec db" and c: "local_commit env codec f db c = (db', r)"
  shows "local_ok env codec db' \<and>
    (r = Inr Store_Applied \<longrightarrow>
       commit_installs (local_content env codec db) c (local_content env codec db')) \<and>
    (db' = db \<or> (r = Inr Store_Applied \<or> (\<exists>m. r = Inr (Store_CommitUnknown m))) \<and>
       commit_installs (local_content env codec db) c (local_content env codec db'))"
  using c
proof (cases rule: local_commit_cases)
  case unchanged
  with ok show ?thesis by simp
next
  case (written p)
  with apply_rows_ok [OF written(1) ok] current_row_admits [OF ok written(1,2)]
  show ?thesis by simp
qed

interpretation local_runs: run_store "local_store_ops env codec f" "local_content env codec"
    "local_ok env codec" "envelope_good env" for env codec f
proof unfold_locales
  fix s rid e
  assume ok: "local_ok env codec s" and e: "local_content env codec s rid = Some e"
  then obtain row where row: "fmlookup (db_runs s) rid = Some row"
    by (auto simp: local_content_def bind_eq_Some_conv)
  from local_content_row [OF ok row] e show "run_id (run e) = rid"
    by (auto simp: row_holds_def)
  from local_content_row [OF ok row] e show "envelope_good env e"
    by (auto simp: row_holds_def intro: decode_envelope_good)
next
  fix s rid v
  assume "local_ok env codec s" and "so_load (local_store_ops env codec f) s rid = Inr v"
  then show "v = local_content env codec s rid"
    by (auto simp: local_store_ops_def local_load_def local_content_def result_simps
        split: option.splits)
next
  fix s es e
  assume "local_ok env codec s" and "so_list (local_store_ops env codec f) s = Inr es" and "e \<in> set es"
  then show "local_content env codec s (run_id (run e)) = Some e"
    by (auto simp: local_store_ops_def intro: local_list_content)
next
  fix s c s' r
  assume "local_ok env codec s" and "so_commit (local_store_ops env codec f) s c = (s', r)"
  then show "local_ok env codec s'"
    by (auto simp: local_store_ops_def dest: local_commit_effect)
next
  fix s c s'
  assume "local_ok env codec s"
    and "so_commit (local_store_ops env codec f) s c = (s', Inr Store_Applied)"
  then show "commit_installs (local_content env codec s) c (local_content env codec s')"
    by (auto simp: local_store_ops_def dest: local_commit_effect)
next
  fix s c s' m
  assume "local_ok env codec s"
    and "so_commit (local_store_ops env codec f) s c = (s', Inr (Store_CommitUnknown m))"
  then show "local_content env codec s' = local_content env codec s \<or>
      commit_installs (local_content env codec s) c (local_content env codec s')"
    by (auto simp: local_store_ops_def dest: local_commit_effect)
next
  fix s c s' r
  assume "local_ok env codec s" and "so_commit (local_store_ops env codec f) s c = (s', r)"
    and "r \<noteq> Inr Store_Applied" and "\<forall>m. r \<noteq> Inr (Store_CommitUnknown m)"
  then show "local_content env codec s' = local_content env codec s"
    by (auto simp: local_store_ops_def dest: local_commit_effect)
qed

end
