(* ===== verification/Run_Reducers.thy ===== *)
theory Run_Reducers
  imports Run_Store
begin

text \<open>
  The reducers of \<open>run/controller.rs\<close>: the free functions of the file and the body of the
  closure that each command hands to \<open>apply_command\<close>, as a function from the Run record to
  its successor or an error. A closure that fails leaves a clone behind that the
  controller drops, so the error carries no state.
\<close>

section \<open>Free functions\<close>

definition successor :: "run_revision \<Rightarrow> string \<Rightarrow> run_revision result" where
  "successor v description = ok_or (Integrity (description @ '' overflow'')) (checked_add v 1)"

definition successor_cursor :: "run_event_cursor \<Rightarrow> run_event_cursor result" where
  "successor_cursor v = ok_or (Integrity ''Run event cursor overflow'') (checked_add v 1)"

definition trim_events :: "run_event list \<Rightarrow> run_event list" where
  "trim_events es = pop_front_while MAX_EVENTS es"

definition push_iteration :: "run_record \<Rightarrow> iteration_manifest \<Rightarrow> run_record" where
  "push_iteration r iteration =
     r\<lparr>run_iterations := pop_front_while MAX_ITERATION_SUMMARIES (run_iterations r @ [iteration])\<rparr>"

text \<open>\<open>RunEventKind::new(value).expect(..)\<close> on the literals of the controller.\<close>

definition internal_event_kind :: "string \<Rightarrow> string" where
  "internal_event_kind v = v"

definition boundary :: "run_record \<Rightarrow> unit result" where
  "boundary r =
     (if active_iteration r \<noteq> None \<or> stage r \<noteq> Stage_Idle
      then Inl (InvalidTransition ''Harness governance is allowed only at iteration boundaries'')
      else Inr ())"

definition next_epoch :: "controller_epoch \<Rightarrow> controller_epoch result" where
  "next_epoch v = ok_or (Integrity ''controller epoch overflow'') (checked_add v 1)"

definition fence_activation :: "run_record \<Rightarrow> run_record result" where
  "fence_activation r =
     rbind (if activation_lease r \<noteq> None then next_epoch (controller_epoch r)
            else Inr (controller_epoch r))
       (\<lambda>epoch. Inr (r\<lparr>controller_epoch := epoch, activation_lease := None, wake := wake_default\<rparr>))"

definition check_activation :: "run_record \<Rightarrow> activation_fence \<Rightarrow> u64 \<Rightarrow> unit result" where
  "check_activation r fence now_ms =
     rbind (ok_or (InvalidTransition ''activation is no longer held'') (activation_lease r))
       (\<lambda>lease.
     if lease_worker_id lease \<noteq> fence_worker_id fence \<or> lease_epoch lease \<noteq> fence_epoch fence \<or>
        lease_token lease \<noteq> fence_token fence \<or> lease_expires_at_ms lease \<le> now_ms
     then Inl (InvalidTransition ''stale activation fence'')
     else Inr ())"

definition op_settled :: "operation \<Rightarrow> bool" where
  "op_settled opn = (op_state opn \<in> {Op_Acknowledged, Op_Reconciled})"

definition has_unsettled_operations :: "run_record \<Rightarrow> bool" where
  "has_unsettled_operations r =
     list_ex (\<lambda>opn. op_state opn \<notin> {Op_Acknowledged, Op_Reconciled, Op_Abandoned})
       (btree_values (operations r))"

definition has_active_children :: "run_record \<Rightarrow> bool" where
  "has_active_children r =
     list_ex (\<lambda>child. \<not> child_is_terminal (ch_state child)) (btree_values (children r))"

definition has_unsettled_work :: "run_record \<Rightarrow> bool" where
  "has_unsettled_work r =
     (active_iteration r \<noteq> None \<or> has_unsettled_operations r \<or> has_active_children r)"

definition needs_controller_recovery :: "run_record \<Rightarrow> bool" where
  "needs_controller_recovery r =
     (status r = Status_RecoveryRequired \<or> \<not> is_terminal (status r) \<or>
      active_iteration r \<noteq> None \<or> has_unsettled_work r)"

text \<open>\<open>recovery_prior_status.get_or_insert(status)\<close> for a status other than active and
  recovery-required.\<close>

definition remember_status :: "run_record \<Rightarrow> run_record" where
  "remember_status r =
     (if status r \<notin> {Status_Active, Status_RecoveryRequired} then
        r\<lparr>recovery_prior_status :=
          (case recovery_prior_status r of None \<Rightarrow> Some (status r) | Some p \<Rightarrow> Some p)\<rparr>
      else r)"

definition enter_recovery :: "run_record \<Rightarrow> run_record result" where
  "enter_recovery r =
     fence_activation ((remember_status r)\<lparr>status := Status_RecoveryRequired,
       stage := Stage_Recovering\<rparr>)"

definition require_capability :: "run_record \<Rightarrow> string \<Rightarrow> unit result" where
  "require_capability r capability =
     (if capability |\<in>| cap_available (capabilities r) \<and> capability |\<in>| cap_ceiling (capabilities r)
      then Inr ()
      else Inl (Capability (''effect requires capability '' @ capability)))"

definition validate_effect_capability :: "run_record \<Rightarrow> effect_spec \<Rightarrow> unit result" where
  "validate_effect_capability r spec =
     rbind (case spec of
        Eff_SessionTurn sess _ _ input \<Rightarrow>
          if sess \<noteq> session r
          then Inl (Integrity ''Session turn effect references a different Session'')
          else rseq (artifact_validate input) (Inr ''session.turn'')
      | Eff_RhaiWorkflow sess workflow args \<Rightarrow>
          if sess \<noteq> session r
          then Inl (Integrity ''workflow effect references a different Session'')
          else rseq (artifact_validate workflow)
            (rseq (artifact_validate args) (Inr ''workflow.execute''))
      | Eff_ChildAgent _ request \<Rightarrow> rseq (artifact_validate request) (Inr ''agent.spawn'')
      | Eff_Gate _ input \<Rightarrow> rseq (artifact_validate input) (Inr ''gate.execute'')
      | Eff_ArtifactMutation mutation \<Rightarrow> rseq (artifact_validate mutation) (Inr ''artifact.write'')
      | Eff_External provider _ payload \<Rightarrow>
          rseq (artifact_validate payload) (Inr (''external.'' @ provider))
      | Eff_ProgramExecution p \<Rightarrow> Inr (''program.'' @ pe_provider p)
      | Eff_Unknown \<Rightarrow> Inl (Capability ''unknown effect type is never executable''))
     (require_capability r)"

definition ensure_refinement_boundary :: "run_record \<Rightarrow> unit result" where
  "ensure_refinement_boundary r =
     (if status r \<noteq> Status_Active \<or> active_iteration r \<noteq> None
      then Inl (InvalidTransition ''refinement is only applied between bounded iterations'')
      else Inr ())"

definition validate_revision_input :: "string \<Rightarrow> string \<Rightarrow> unit result" where
  "validate_revision_input digest provenance =
     (if \<not> valid_sha256 digest \<or> trim_is_empty provenance \<or> length provenance > 512
      then Inl (Validation ''invalid refinement digest or provenance'')
      else Inr ())"

definition operation_need :: "operation \<Rightarrow> recovery_need list" where
  "operation_need opn =
     (if op_state opn \<noteq> Op_Uncertain then []
      else (case op_spec opn of
         Eff_SessionTurn sess turn_id prompt_digest _ \<Rightarrow>
           [Need_SessionTurnLedger (op_id opn) sess turn_id prompt_digest]
       | _ \<Rightarrow> [Need_EffectReconciliation (op_id opn) (op_effect_class opn)]))"

definition recovery_needs :: "run_record \<Rightarrow> recovery_need list" where
  "recovery_needs r =
     concat (map operation_need (btree_values (operations r))) @
     (case active_iteration r of
        Some iteration \<Rightarrow> [Need_ActiveIteration (it_iteration_id iteration)]
      | None \<Rightarrow> []) @
     map (\<lambda>child. Need_ActiveChild (ch_id child))
       (filter (\<lambda>child. \<not> child_is_terminal (ch_state child)) (btree_values (children r)))"

definition in_active_iteration :: "run_record \<Rightarrow> operation \<Rightarrow> bool" where
  "in_active_iteration r opn =
     (case active_iteration r of
        Some iteration \<Rightarrow> it_iteration_id iteration = op_iteration_id opn
      | None \<Rightarrow> False)"

definition active_operation_reservations ::
    "run_record \<Rightarrow> operation_id option \<Rightarrow> resource_vector result" where
  "active_operation_reservations r skip =
     fold_res (\<lambda>opn reserved.
         rbind (ok_or (Integrity ''claimed operation omitted its reservation'')
             (op_reservation opn)) (\<lambda>reservation.
         ok_or Budget (add_reservation reserved reservation)))
       (filter (\<lambda>opn. skip \<noteq> Some (op_id opn) \<and>
           op_state opn \<in> {Op_Dispatching, Op_Acknowledged, Op_Reconciled, Op_Uncertain} \<and>
           in_active_iteration r opn) (btree_values (operations r)))
       rv_default"

definition evidence_satisfied :: "iteration_manifest \<Rightarrow> string \<Rightarrow> bool" where
  "evidence_satisfied iteration required =
     list_ex (\<lambda>artifact. required |\<in>| art_evidence_labels artifact \<and>
       art_workspace_digest artifact = Some (ctx_workspace_revision (it_context iteration)))
       (it_evidence iteration)"

fun child_blocks_completion :: "child_run \<Rightarrow> bool" where
  "child_blocks_completion child =
     (case ch_completion_policy child of
        Policy_MustSucceed \<Rightarrow> ch_state child \<noteq> Child_Completed
      | Policy_MayFail \<Rightarrow> \<not> child_is_terminal (ch_state child)
      | Policy_Detached \<Rightarrow> False
      | Policy_Unknown \<Rightarrow> True)"

definition validate_completion :: "run_record \<Rightarrow> unit result" where
  "validate_completion r =
     (if status r \<noteq> Status_Active \<or> active_iteration r \<noteq> None \<or> pending_approval r
      then Inl (InvalidTransition ''completion requires an active Run at an iteration boundary'')
      else if run_iterations r = []
      then Inl (InvalidTransition ''completion requires a finished iteration'')
      else
        (let iteration = last (run_iterations r) in
         if \<not> it_driver_terminal_success iteration \<or> it_verdict iteration \<noteq> Some Achieved
         then Inl (InvalidTransition ''driver and skeptic verifier have not accepted the goal'')
         else if \<not> fBall (required_gates r) (\<lambda>gate. fmlookup (it_gates iteration) gate = Some True)
         then Inl (InvalidTransition ''required deterministic gates have not passed'')
         else if \<not> list_all (evidence_satisfied iteration) (required_evidence (goal r))
         then Inl (InvalidTransition ''required workspace-bound evidence is missing'')
         else if has_unsettled_operations r \<or>
                 list_ex child_blocks_completion (btree_values (children r)) \<or>
                 \<not> resources_within (usage r) (budget r)
         then Inl (InvalidTransition ''effects, child Runs, or budgets are not settled'')
         else Inr ()))"

section \<open>Control actions\<close>

fun waiting_status :: "waiting_reason \<Rightarrow> run_status result" where
  "waiting_status Wait_User = Inr Status_UserPaused"
| "waiting_status Wait_Backoff = Inr Status_BackOffPaused"
| "waiting_status Wait_NoProgress = Inr Status_NoProgressPaused"
| "waiting_status Wait_Infrastructure = Inr Status_InfraPaused"
| "waiting_status Wait_Blocked = Inr Status_Blocked"
| "waiting_status Wait_BudgetExhausted = Inr Status_BudgetLimited"
| "waiting_status Wait_Approval =
     Inl (InvalidTransition ''approval and unknown waits require their dedicated transition'')"
| "waiting_status Wait_Unknown =
     Inl (InvalidTransition ''approval and unknown waits require their dedicated transition'')"

definition committed_resources :: "run_record \<Rightarrow> resource_vector result" where
  "committed_resources r = ok_or Budget (with_reservations (usage r) (child_reserved r))"

definition control_resume :: "resource_vector option \<Rightarrow> run_record \<Rightarrow> run_record result" where
  "control_resume new_budget r =
     (if status r \<notin> {Status_UserPaused, Status_BackOffPaused, Status_NoProgressPaused,
         Status_InfraPaused, Status_Blocked, Status_BudgetLimited}
      then Inl (InvalidTransition ''Run must finish recovery or be paused before resume'')
      else
        rbind (case new_budget of
                 None \<Rightarrow> Inr r
               | Some b \<Rightarrow>
                   rbind (committed_resources r) (\<lambda>committed.
                   if \<not> resources_within (budget r) b \<or> \<not> resources_within committed b then Inl Budget
                   else Inr (r\<lparr>budget := b\<rparr>))) (\<lambda>r1.
        rbind (committed_resources r1) (\<lambda>committed.
        if \<not> resources_within committed (budget r1) then Inl Budget
        else Inr (r1\<lparr>status := Status_Active\<rparr>))))"

definition control_steer :: "message_id \<Rightarrow> string \<Rightarrow> run_record \<Rightarrow> run_record result" where
  "control_steer message_id body r =
     (if is_terminal (status r) \<or> trim_is_empty body \<or> length body > MAX_ITEM_BYTES
      then Inl (InvalidTransition ''terminal Run or invalid steering message'')
      else
        (case fmlookup (steering r) message_id of
           Some existing \<Rightarrow>
             if msg_body existing = body then Inr r
             else Inl (Integrity ''steering message id was reused with different body'')
         | None \<Rightarrow>
             if btree_len (steering r) \<ge> MAX_MESSAGES then Inl DedupCapacity
             else
               rbind (ok_or (Integrity ''steering sequence overflow'')
                   (checked_add (steering_high_water r) 1)) (\<lambda>high.
               Inr (r\<lparr>steering_high_water := high,
                 steering := fmupd message_id
                   \<lparr>msg_id = message_id, msg_sequence = high, msg_causation_id = None,
                    msg_sender = ''user'', msg_trust_label = ''trusted'', msg_body = body,
                    msg_state = Msg_Accepted\<rparr> (steering r)\<rparr>))))"

fun apply_control :: "run_action \<Rightarrow> run_record \<Rightarrow> run_record result" where
  "apply_control Act_Pause r =
     (if status r \<noteq> Status_Active then Inl (InvalidTransition ''Run is not active'')
      else fence_activation (r\<lparr>status := Status_UserPaused\<rparr>))"
| "apply_control (Act_PauseFor reason) r =
     (if status r \<noteq> Status_Active \<or> active_iteration r \<noteq> None
      then Inl (InvalidTransition ''Run can wait only at an active iteration boundary'')
      else rbind (waiting_status reason) (\<lambda>s. fence_activation (r\<lparr>status := s\<rparr>)))"
| "apply_control (Act_Resume new_budget) r = control_resume new_budget r"
| "apply_control (Act_Steer message_id body) r = control_steer message_id body r"
| "apply_control Act_Cancel r =
     (if is_terminal (status r) then Inl (InvalidTransition ''Run is already terminal'')
      else fence_activation (r\<lparr>status := Status_Cancelled, stage := Stage_Idle\<rparr>))"
| "apply_control Act_Approve r =
     (if \<not> pending_approval r \<or> stage r \<noteq> Stage_AwaitingApproval
      then Inl (InvalidTransition ''Run is not awaiting approval'')
      else Inr (r\<lparr>pending_approval := False, stage := Stage_Idle\<rparr>))"
| "apply_control Act_Reject r =
     (if \<not> pending_approval r then Inl (InvalidTransition ''Run is not awaiting approval'')
      else fence_activation (r\<lparr>pending_approval := False, status := Status_UserPaused,
        stage := Stage_Idle\<rparr>))"
| "apply_control Act_TryComplete r =
     rseq (validate_completion r)
       (fence_activation (r\<lparr>status := Status_Complete, stage := Stage_Idle\<rparr>))"
| "apply_control Act_ClaimTerminalReport r =
     (if \<not> is_terminal (status r) \<or> terminal_report_claimed r \<or> has_unsettled_work r
      then Inl (InvalidTransition ''terminal report is unavailable or already claimed'')
      else Inr (r\<lparr>terminal_report_claimed := True\<rparr>))"
| "apply_control Act_Tombstone r =
     (if \<not> is_terminal (status r) \<or> has_unsettled_work r
      then Inl (InvalidTransition ''only a settled terminal Run may be tombstoned'')
      else Inr (r\<lparr>status := Status_Tombstoned, stage := Stage_Idle\<rparr>))"

section \<open>Residency\<close>

definition earlier_deadline :: "u64 option \<Rightarrow> u64 option \<Rightarrow> u64 option" where
  "earlier_deadline x y =
     (case (x, y) of (Some a, Some b) \<Rightarrow> Some (min a b) | (None, v) \<Rightarrow> v | (v, None) \<Rightarrow> v)"

definition request_wake_reduce :: "wake_request \<Rightarrow> run_record \<Rightarrow> run_record result" where
  "request_wake_reduce input r =
     (if status r \<noteq> Status_Active then Inl (InvalidTransition ''only an active Run can be woken'')
      else Inr (r\<lparr>wake := \<lparr>wake_reasons = finsert (wreq_reason input) (wake_reasons (wake r)),
        wake_deadline_ms = earlier_deadline (wake_deadline_ms (wake r)) (wreq_deadline_ms input)\<rparr>\<rparr>))"

definition deadline_due :: "run_record \<Rightarrow> u64 \<Rightarrow> bool" where
  "deadline_due r now_ms = (\<exists>deadline \<in> set_option (wake_deadline_ms (wake r)). deadline \<le> now_ms)"

definition claim_activation_reduce ::
    "claim_activation_input \<Rightarrow> command_id \<Rightarrow> activation_token \<Rightarrow> u64 \<Rightarrow> run_record \<Rightarrow>
     run_record result" where
  "claim_activation_reduce input claim_command_id token now_ms r =
     (if status r \<noteq> Status_Active \<or> pending_approval r
      then Inl (InvalidTransition ''inactive Run cannot be claimed'')
      else if \<exists>lease \<in> set_option (activation_lease r). lease_expires_at_ms lease > now_ms
      then Inl (InvalidTransition ''Run already has an active worker'')
      else
        (let expired = activation_lease r; due = deadline_due r now_ms in
         if wake_reasons (wake r) = {||} \<and> \<not> due \<and> expired = None
         then Inl (InvalidTransition ''Run has no due wake intent'')
         else
           rbind (next_epoch (controller_epoch r)) (\<lambda>epoch.
           let reasons = wake_reasons (wake r) |\<union>|
                 (case expired of Some lease \<Rightarrow> lease_reasons lease | None \<Rightarrow> {||}) |\<union>|
                 (if due then {|Wake_CatchUp|} else {||}) in
           rbind (ok_or (Validation ''lease expiry overflow'')
               (checked_add now_ms (ca_lease_ms input))) (\<lambda>expires.
           Inr (r\<lparr>controller_epoch := epoch, wake := wake_default,
             activation_lease := Some \<lparr>lease_worker_id = ca_worker_id input,
               lease_claim_command_id = claim_command_id, lease_epoch = epoch,
               lease_token = token, lease_expires_at_ms = expires, lease_reasons = reasons\<rparr>\<rparr>)))))"

definition renew_activation_reduce ::
    "activation_fence \<Rightarrow> u64 \<Rightarrow> u64 \<Rightarrow> run_record \<Rightarrow> run_record result" where
  "renew_activation_reduce fence lease_ms now_ms r =
     rseq (check_activation r fence now_ms)
     (rbind (ok_or (Validation ''lease expiry overflow'') (checked_add now_ms lease_ms)) (\<lambda>expires.
      Inr (r\<lparr>activation_lease := map_option (\<lambda>l. l\<lparr>lease_expires_at_ms := expires\<rparr>)
        (activation_lease r)\<rparr>)))"

definition release_activation_reduce ::
    "activation_fence \<Rightarrow> u64 \<Rightarrow> run_record \<Rightarrow> run_record result" where
  "release_activation_reduce fence now_ms r =
     rseq (check_activation r fence now_ms) (Inr (r\<lparr>activation_lease := None\<rparr>))"

section \<open>Recovery\<close>

definition begin_recovery_reduce :: "run_record \<Rightarrow> run_record result" where
  "begin_recovery_reduce r =
     (if status r = Status_Tombstoned \<or>
         (is_terminal (status r) \<and> active_iteration r = None \<and> \<not> has_unsettled_work r)
      then Inl (InvalidTransition ''settled terminal Run cannot enter recovery'')
      else
        rbind (next_epoch (controller_epoch r)) (\<lambda>epoch.
        Inr ((remember_status r)\<lparr>controller_epoch := epoch, activation_lease := None,
          wake := wake_default, status := Status_RecoveryRequired, stage := Stage_Recovering,
          operations := fmmap (\<lambda>opn. if op_state opn = Op_Dispatching
            then opn\<lparr>op_state := Op_Uncertain\<rparr> else opn) (operations r)\<rparr>)))"

text \<open>The loop over the settled operations of the abandoned iteration.\<close>

definition settle_step ::
    "run_record \<Rightarrow> operation \<Rightarrow> resource_vector \<times> resource_dimension fset \<Rightarrow>
     (resource_vector \<times> resource_dimension fset) result" where
  "settle_step r opn acc =
     rbind (ok_or (Integrity ''settled recovery effect omitted its reservation'')
         (op_reservation opn)) (\<lambda>reservation.
     rbind (ok_or (InvalidTransition ''applied iteration recovery lacks typed usage evidence'')
         (Option.bind (op_receipt opn) rc_actual_usage)) (\<lambda>actual.
     rseq (effect_usage_validate actual)
     (if \<not> allows_settlement_with actual reservation (budget r) then Inl Budget
      else rbind (ok_or Budget (add_usage (fst acc) (resources actual))) (\<lambda>u.
        Inr (u, snd acc |\<union>| unknown_dims actual)))))"

definition settled_in :: "iteration_id \<Rightarrow> run_record \<Rightarrow> operation list" where
  "settled_in iid r =
     filter (\<lambda>opn. op_iteration_id opn = iid \<and> op_settled opn) (btree_values (operations r))"

definition charge_abandoned :: "iteration_id \<Rightarrow> run_record \<Rightarrow> run_record result" where
  "charge_abandoned iid r =
     (if settled_in iid r = [] then Inr r
      else
        rbind (fold_res (settle_step r) (settled_in iid r) (rv_default, {||})) (\<lambda>(u, unknown).
        if iterations u \<noteq> 1 \<or> agent_calls u = 0
        then Inl (Validation
          ''typed recovery usage must charge one iteration and at least one agent call'')
        else
          rbind (ok_or Budget (Option.bind (add_usage (usage r) u)
              (\<lambda>v. with_reservations v (child_reserved r)))) (\<lambda>total.
          if \<not> resources_within total (budget r) then Inl Budget
          else
            rbind (ok_or Budget (add_usage (usage r) u)) (\<lambda>u'.
            Inr (r\<lparr>usage := u', usage_unknown := usage_unknown r |\<union>| unknown\<rparr>)))))"

definition abandon_operations :: "iteration_id \<Rightarrow> run_record \<Rightarrow> run_record" where
  "abandon_operations iid r =
     r\<lparr>operations := fmmap (\<lambda>opn.
        if op_iteration_id opn = iid \<and> op_state opn \<in> {Op_Prepared, Op_FailedRetryable}
        then opn\<lparr>op_state := Op_Abandoned, op_active_attempt := None,
          op_terminal_result_digest := None\<rparr> else opn) (operations r)\<rparr>"

definition abandon_iteration ::
    "run_env \<Rightarrow> u64 \<Rightarrow> iteration_manifest \<Rightarrow> run_record \<Rightarrow> run_record result" where
  "abandon_iteration env now_ms iteration r =
     rbind (charge_abandoned (it_iteration_id iteration) (r\<lparr>active_iteration := None\<rparr>)) (\<lambda>r1.
     let r2 = abandon_operations (it_iteration_id iteration) r1 in
     if has_unsettled_operations r2
     then Inl (InvalidTransition ''abandoned iteration still has unresolved effects'')
     else
       rbind (canonical_digest env (Dig_Abandon (it_iteration_id iteration) (it_token iteration)))
         (\<lambda>digest.
       Inr (push_iteration r2 (iteration\<lparr>it_driver_terminal_success := False,
         it_summary := Some ''abandoned during durable recovery'',
         it_verdict := Some Unverifiable, it_finished_at_ms := Some now_ms,
         it_result_digest := Some digest, it_recovery_abandoned := True\<rparr>))))"

definition finish_recovery_reduce ::
    "run_env \<Rightarrow> recovery_resolution \<Rightarrow> u64 \<Rightarrow> run_record \<Rightarrow> run_record result" where
  "finish_recovery_reduce env input now_ms r =
     (if status r \<noteq> Status_RecoveryRequired \<or> stage r \<noteq> Stage_Recovering
      then Inl (InvalidTransition ''Run is not reconciling'')
      else if list_ex (\<lambda>opn. op_state opn \<in> {Op_Dispatching, Op_Uncertain})
                (btree_values (operations r)) \<or> has_active_children r
      then Inl (InvalidTransition ''recovery evidence remains unresolved'')
      else
        rbind (case active_iteration r of
                 None \<Rightarrow> Inr r
               | Some iteration \<Rightarrow>
                   if \<not> rr_abandon_active_iteration input
                   then Inl (InvalidTransition ''active iteration requires explicit reconciliation'')
                   else abandon_iteration env now_ms iteration r) (\<lambda>r1.
        Inr (r1\<lparr>status := (case recovery_prior_status r1 of
              Some s \<Rightarrow> s
            | None \<Rightarrow> if rr_resume input then Status_Active else Status_UserPaused),
          recovery_prior_status := None, stage := Stage_Idle\<rparr>)))"

section \<open>Iterations\<close>

definition one_iteration :: resource_vector where
  "one_iteration = rv_default\<lparr>iterations := 1\<rparr>"

definition begin_iteration_reduce ::
    "iteration_context_manifest \<Rightarrow> run_revision \<Rightarrow> iteration_token \<Rightarrow> u64 \<Rightarrow> run_record \<Rightarrow>
     run_record result" where
  "begin_iteration_reduce ctx expected_revision token now_ms r =
     (if status r \<noteq> Status_Active \<or> active_iteration r \<noteq> None
      then Inl (InvalidTransition ''Run is paused, recovering, terminal, or already executing'')
      else if ctx_goal_revision ctx \<noteq> expected_revision \<or>
              ctx_strategy_revision ctx \<noteq> current_strategy_revision r \<or>
              ctx_workflow_revision ctx \<noteq> current_workflow_revision r \<or>
              ctx_policy_digest ctx \<noteq> verifier_policy_digest r \<or>
              map_option pin_digest (hg_active (harness r)) \<noteq> Some (ctx_harness_snapshot_digest ctx)
      then Inl (Conflict (Some expected_revision) (Some (revision r)))
      else if length (ctx_artifacts ctx) > MAX_LIST_ITEMS
      then Inl (Validation ''iteration context has too many artifacts'')
      else
        rseq (for_each artifact_validate (ctx_artifacts ctx))
        (rbind (ok_or Budget (Option.bind (add_usage (usage r) one_iteration)
            (\<lambda>u. with_reservations u (child_reserved r)))) (\<lambda>projected.
        if \<not> resources_within projected (budget r) then Inl Budget
        else
          rbind (ok_or (Integrity ''iteration id overflow'') (checked_add (next_iteration_id r) 1))
            (\<lambda>following.
          Inr (r\<lparr>next_iteration_id := following,
            active_iteration := Some \<lparr>it_iteration_id = next_iteration_id r, it_token = token,
              it_context = ctx, it_started_at_ms = now_ms, it_driver_terminal_success = False,
              it_summary = None, it_evidence = [], it_gates = fmempty, it_verdict = None,
              it_finished_at_ms = None, it_result_digest = None, it_recovery_abandoned = False\<rparr>,
            stage := Stage_Executing\<rparr>)))))"

section \<open>Harness governance\<close>

definition set_proposals ::
    "run_record \<Rightarrow> (string, harness_proposal) fmap \<Rightarrow> run_record" where
  "set_proposals r ps = r\<lparr>harness := (harness r)\<lparr>hg_proposals := ps\<rparr>\<rparr>"

definition propose_harness_reduce :: "harness_snapshot_pin \<Rightarrow> run_record \<Rightarrow> run_record result" where
  "propose_harness_reduce pin r =
     rseq (boundary r)
     (rseq (harness_pin_validate pin)
     (if btree_contains_key (hg_proposals (harness r)) (pin_digest pin)
      then Inl (Conflict None None)
      else Inr (set_proposals r (fmupd (pin_digest pin)
        \<lparr>hp_pin = pin, hp_state = Harness_Proposed\<rparr> (hg_proposals (harness r))))))"

definition validate_harness_reduce :: "validate_harness_input \<Rightarrow> run_record \<Rightarrow> run_record result" where
  "validate_harness_reduce input r =
     rseq (boundary r)
     (rbind (ok_or NotFound (fmlookup (hg_proposals (harness r)) (vh_digest input))) (\<lambda>proposal.
      if hp_state proposal \<noteq> Harness_Proposed
      then Inl (InvalidTransition ''Harness proposal is not proposed'')
      else Inr (set_proposals r (fmupd (vh_digest input)
        (proposal\<lparr>hp_state := (if vh_accepted input then Harness_Validated else Harness_Rejected)\<rparr>)
        (hg_proposals (harness r))))))"

definition activate_harness_reduce :: "string \<Rightarrow> run_record \<Rightarrow> run_record result" where
  "activate_harness_reduce digest r =
     rseq (boundary r)
     (rbind (ok_or NotFound (fmlookup (hg_proposals (harness r)) digest)) (\<lambda>proposal.
      if hp_state proposal \<noteq> Harness_Validated
      then Inl (InvalidTransition ''Harness proposal is not validated'')
      else Inr (r\<lparr>harness := \<lparr>hg_active = Some (hp_pin proposal),
        hg_previous = hg_active (harness r),
        hg_proposals = fmupd digest (proposal\<lparr>hp_state := Harness_Active\<rparr>)
          (hg_proposals (harness r))\<rparr>\<rparr>)))"

definition rollback_harness_reduce :: "string \<Rightarrow> run_record \<Rightarrow> run_record result" where
  "rollback_harness_reduce expected_active_digest r =
     rseq (boundary r)
     (if map_option pin_digest (hg_active (harness r)) \<noteq> Some expected_active_digest
      then Inl (Conflict None None)
      else
        rbind (ok_or (InvalidTransition ''no Harness snapshot to roll back to'')
            (hg_previous (harness r))) (\<lambda>previous.
        Inr (r\<lparr>harness := \<lparr>hg_active = Some previous, hg_previous = None,
          hg_proposals =
            (case fmlookup (hg_proposals (harness r)) expected_active_digest of
               Some proposal \<Rightarrow> fmupd expected_active_digest
                 (proposal\<lparr>hp_state := Harness_RolledBack\<rparr>) (hg_proposals (harness r))
             | None \<Rightarrow> hg_proposals (harness r))\<rparr>\<rparr>)))"

section \<open>Effects\<close>

definition prepare_operation_reduce ::
    "run_env \<Rightarrow> prepare_operation_input \<Rightarrow> run_record \<Rightarrow> run_record result" where
  "prepare_operation_reduce env input r =
     (if status r \<noteq> Status_Active
      then Inl (InvalidTransition ''effects can only be prepared by an active Run'')
      else
        rbind (ok_or (InvalidTransition ''no active iteration'') (active_iteration r)) (\<lambda>iteration.
        if it_iteration_id iteration \<noteq> po_iteration_id input then Inl StaleCallback
        else
          rseq (validate_effect_capability r (po_spec input))
          (rbind (effect_spec_digest env (po_spec input)) (\<lambda>digest.
          case fmlookup (operations r) (po_operation_id input) of
            Some existing \<Rightarrow>
              if op_spec_digest existing = digest \<and>
                 op_iteration_id existing = po_iteration_id input \<and>
                 op_effect_class existing = po_effect_class input
              then Inr r
              else Inl (Integrity ''operation id was reused for a different effect'')
          | None \<Rightarrow>
              Inr (r\<lparr>operations := fmupd (po_operation_id input)
                \<lparr>op_id = po_operation_id input, op_iteration_id = po_iteration_id input,
                 op_effect_class = po_effect_class input, op_spec = po_spec input,
                 op_spec_digest = digest, op_state = Op_Prepared, op_next_attempt = 1,
                 op_active_attempt = None, op_reservation = None, op_receipt = None,
                 op_terminal_result_digest = None\<rparr> (operations r)\<rparr>)))))"

definition check_claim_fence ::
    "run_record \<Rightarrow> activation_fence option \<Rightarrow> u64 \<Rightarrow> unit result" where
  "check_claim_fence r activation now_ms =
     (case (activation_lease r, activation) of
        (Some _, Some fence) \<Rightarrow> check_activation r fence now_ms
      | (Some _, None) \<Rightarrow>
          Inl (InvalidTransition ''leased Run effect claim requires its activation fence'')
      | (None, Some _) \<Rightarrow> Inl StaleEpoch
      | (None, None) \<Rightarrow> Inr ())"

fun turn_reservation_invalid :: "effect_spec \<Rightarrow> resource_vector \<Rightarrow> bool" where
  "turn_reservation_invalid (Eff_SessionTurn _ _ _ input) reservation =
     (iterations reservation \<noteq> 1 \<or> agent_calls reservation \<noteq> 1 \<or>
      agent_concurrency reservation \<noteq> 1 \<or> artifact_bytes reservation < art_size input)"
| "turn_reservation_invalid _ _ = False"

definition claim_budget_ok :: "run_record \<Rightarrow> operation_id \<Rightarrow> resource_vector \<Rightarrow> unit result" where
  "claim_budget_ok r operation_id reservation =
     rbind (rbind (active_operation_reservations r (Some operation_id))
         (\<lambda>reserved. ok_or Budget (add_reservation reserved reservation))) (\<lambda>active_reserved.
     rbind (ok_or Budget (add_reservation (child_reserved r) active_reserved)) (\<lambda>reserved.
     rbind (ok_or Budget (with_reservations (usage r) reserved)) (\<lambda>projected.
     if \<not> resources_within projected (budget r) then Inl Budget else Inr ())))"

definition claim_effect_reduce ::
    "claim_effect_input \<Rightarrow> command_id \<Rightarrow> dispatch_token \<Rightarrow> u64 \<Rightarrow> run_record \<Rightarrow> run_record result" where
  "claim_effect_reduce input claim_command_id token now_ms r =
     (if status r \<noteq> Status_Active
      then Inl (InvalidTransition ''only active Runs may claim effects'')
      else
        rseq (check_claim_fence r (cl_activation input) now_ms)
        (rbind (ok_or NotFound (fmlookup (operations r) (cl_operation_id input))) (\<lambda>opn.
        rbind (ok_or (InvalidTransition ''effect has no active owning iteration'')
            (active_iteration r)) (\<lambda>iteration.
        if it_iteration_id iteration \<noteq> op_iteration_id opn
        then Inl (InvalidTransition ''effect does not belong to the active iteration'')
        else if op_state opn \<notin> {Op_Prepared, Op_FailedRetryable}
        then Inl (InvalidTransition ''effect is not available in the committed outbox'')
        else if op_effect_class opn = NonRepeatable \<and> op_next_attempt opn > 1
        then Inl (InvalidTransition ''non-repeatable effect cannot be retried automatically'')
        else if is_zero (cl_reservation input)
        then Inl (Validation ''effect claim requires a non-empty durable reservation'')
        else if turn_reservation_invalid (op_spec opn) (cl_reservation input)
        then Inl (Validation ''Session Turn reservation does not cover its bounded effect'')
        else
          rseq (claim_budget_ok r (cl_operation_id input) (cl_reservation input))
          (rbind (ok_or (Integrity ''effect attempt overflow'') (checked_add (op_next_attempt opn) 1))
            (\<lambda>following.
          Inr (r\<lparr>operations := fmupd (cl_operation_id input)
            (opn\<lparr>op_next_attempt := following,
              op_active_attempt := Some \<lparr>at_attempt = op_next_attempt opn,
                at_claim_command_id = claim_command_id, at_token = token,
                at_epoch = controller_epoch r\<rparr>,
              op_terminal_result_digest := None,
              op_reservation := Some (cl_reservation input),
              op_state := Op_Dispatching\<rparr>) (operations r)\<rparr>)))))))"

definition reconcile_operation ::
    "run_env \<Rightarrow> resource_vector \<Rightarrow> reconcile_decision \<Rightarrow> operation \<Rightarrow> operation result" where
  "reconcile_operation env bdgt decision opn =
     (case decision of
        Decision_Applied receipt \<Rightarrow>
          rseq (validate_effect_receipt env (op_spec opn) receipt)
          (rbind (ok_or (Integrity ''reconciled effect omitted its reservation'')
              (op_reservation opn)) (\<lambda>reservation.
          rbind (ok_or (InvalidTransition
                ''applied effect reconciliation requires typed actual usage'')
              (rc_actual_usage receipt)) (\<lambda>actual.
          if \<not> allows_settlement_with actual reservation bdgt then Inl Budget
          else
            rbind (canonical_digest env (Dig_Decision decision)) (\<lambda>digest.
            Inr (opn\<lparr>op_receipt := Some receipt, op_terminal_result_digest := Some digest,
              op_state := Op_Reconciled\<rparr>)))))
      | Decision_NotApplied \<Rightarrow>
          if op_receipt opn \<noteq> None
          then Inl (InvalidTransition
            ''retained Applied evidence requires typed Applied reconciliation'')
          else Inr (opn\<lparr>op_state := Op_Abandoned\<rparr>)
      | Decision_Unknown _ \<Rightarrow> Inr (opn\<lparr>op_state := Op_Uncertain\<rparr>))"

definition reconcile_effect_reduce ::
    "run_env \<Rightarrow> reconcile_effect_input \<Rightarrow> run_record \<Rightarrow> run_record result" where
  "reconcile_effect_reduce env input r =
     (if status r \<noteq> Status_RecoveryRequired
      then Inl (InvalidTransition ''effect reconciliation requires recovery state'')
      else
        rbind (ok_or NotFound (fmlookup (operations r) (re_operation_id input))) (\<lambda>opn.
        if op_state opn \<noteq> Op_Uncertain
        then Inl (InvalidTransition ''only uncertain effects require reconciliation'')
        else
          rbind (reconcile_operation env (budget r) (re_decision input)
              (opn\<lparr>op_active_attempt := None\<rparr>)) (\<lambda>opn'.
          Inr (r\<lparr>operations := fmupd (re_operation_id input) opn' (operations r)\<rparr>))))"

section \<open>Children and messages\<close>

definition admit_child_reduce ::
    "admit_child_input \<Rightarrow> dispatch_token \<Rightarrow> run_record \<Rightarrow> run_record result" where
  "admit_child_reduce input token r =
     (if status r \<noteq> Status_Active
      then Inl (InvalidTransition ''child admission requires an active Run'')
      else
        rbind (ok_or (InvalidTransition ''no active iteration'') (active_iteration r)) (\<lambda>iteration.
        if it_iteration_id iteration \<noteq> ad_iteration_id input then Inl StaleCallback
        else
          (case fmlookup (children r) (ad_child_id input) of
             Some existing \<Rightarrow>
               if ch_iteration_id existing = ad_iteration_id input \<and>
                  ch_reservation existing = ad_reservation input \<and>
                  ch_workspace_isolation existing = ad_workspace_isolation input \<and>
                  ch_completion_policy existing = ad_completion_policy input
               then Inr r
               else Inl (Integrity ''child id was reused with different admission input'')
           | None \<Rightarrow>
               if ad_completion_policy input = Policy_Unknown \<or>
                  trim_is_empty (ad_workspace_isolation input) \<or>
                  length (ad_workspace_isolation input) > 256
               then Inl (Validation ''invalid child policy'')
               else
                 rbind (ok_or Budget (add_reservation (child_reserved r) (ad_reservation input)))
                   (\<lambda>reserved.
                 rbind (ok_or Budget (with_reservations (usage r) reserved)) (\<lambda>projected.
                 if \<not> resources_within projected (budget r) then Inl Budget
                 else Inr (r\<lparr>child_reserved := reserved,
                   children := fmupd (ad_child_id input)
                     \<lparr>ch_id = ad_child_id input, ch_state = Child_Admitted,
                      ch_iteration_id = ad_iteration_id input, ch_callback_token = token,
                      ch_reservation = ad_reservation input, ch_settlement = None,
                      ch_workspace_isolation = ad_workspace_isolation input,
                      ch_completion_policy = ad_completion_policy input, ch_artifacts = []\<rparr>
                     (children r)\<rparr>))))))"

definition accept_message_reduce :: "accept_message_input \<Rightarrow> run_record \<Rightarrow> run_record result" where
  "accept_message_reduce input r =
     (if is_terminal (status r) \<or> trim_is_empty (am_body input) \<or>
         length (am_body input) > MAX_ITEM_BYTES \<or> trim_is_empty (am_sender input) \<or>
         trim_is_empty (am_trust_label input)
      then Inl (Validation ''invalid mailbox message'')
      else
        (case fmlookup (mailbox r) (am_message_id input) of
           Some existing \<Rightarrow>
             if msg_body existing = am_body input \<and> msg_sender existing = am_sender input \<and>
                msg_causation_id existing = am_causation_id input \<and>
                msg_trust_label existing = am_trust_label input
             then Inr r
             else Inl (Integrity ''message id was reused with different content'')
         | None \<Rightarrow>
             if btree_len (mailbox r) \<ge> MAX_MESSAGES then Inl DedupCapacity
             else
               rbind (ok_or (Integrity ''mailbox sequence overflow'')
                   (checked_add (next_message_sequence r) 1)) (\<lambda>following.
               Inr (r\<lparr>next_message_sequence := following,
                 mailbox := fmupd (am_message_id input)
                   \<lparr>msg_id = am_message_id input, msg_sequence = next_message_sequence r,
                    msg_causation_id = am_causation_id input, msg_sender = am_sender input,
                    msg_trust_label = am_trust_label input, msg_body = am_body input,
                    msg_state = Msg_Accepted\<rparr> (mailbox r)\<rparr>))))"

definition message_transition_valid :: "message_state \<Rightarrow> message_state \<Rightarrow> bool" where
  "message_transition_valid old new =
     ((old, new) \<in> {(Msg_Accepted, Msg_Queued), (Msg_Queued, Msg_DeliveredToContext),
        (Msg_DeliveredToContext, Msg_Processed)})"

definition transition_message_reduce ::
    "transition_message_input \<Rightarrow> run_record \<Rightarrow> run_record result" where
  "transition_message_reduce input r =
     rbind (ok_or NotFound (fmlookup (mailbox r) (tm_message_id input))) (\<lambda>message.
     if \<not> message_transition_valid (msg_state message) (tm_state input)
     then Inl (InvalidTransition ''mailbox transition is not monotonic'')
     else Inr (r\<lparr>mailbox := fmupd (tm_message_id input)
       (message\<lparr>msg_state := tm_state input\<rparr>) (mailbox r)\<rparr>))"

section \<open>Strategy and workflow revisions\<close>

text \<open>\<open>Iterator::position\<close> and \<open>Iterator::max\<close>.\<close>

fun position :: "('a \<Rightarrow> bool) \<Rightarrow> 'a list \<Rightarrow> nat option" where
  "position p [] = None"
| "position p (x # xs) = (if p x then Some 0 else map_option Suc (position p xs))"

lemma position_Some: "position p xs = Some i \<Longrightarrow> i < length xs \<and> p (xs ! i)"
  by (induction xs arbitrary: i) (auto split: if_splits)

fun max_opt :: "u64 list \<Rightarrow> u64 option" where
  "max_opt [] = None"
| "max_opt (x # xs) = Some (fold max xs x)"

definition propose_strategy_reduce :: "propose_strategy_input \<Rightarrow> run_record \<Rightarrow> run_record result" where
  "propose_strategy_reduce input r =
     rseq (ensure_refinement_boundary r)
     (rseq (validate_revision_input (ps_digest input) (ps_provenance input))
     (rbind (ok_or (Integrity ''strategy revision overflow'')
         (checked_add (unwrap_or (current_strategy_revision r)
           (max_opt (map sr_revision (strategy_revisions r)))) 1)) (\<lambda>new_revision.
      Inr (r\<lparr>strategy_revisions := strategy_revisions r @
        [\<lparr>sr_revision = new_revision, sr_digest = ps_digest input,
          sr_provenance = ps_provenance input, sr_applied = False,
          sr_promotion_proposal = ps_promotion_proposal input\<rparr>]\<rparr>))))"

definition apply_strategy_reduce :: "u64 \<Rightarrow> run_record \<Rightarrow> run_record result" where
  "apply_strategy_reduce target_revision r =
     rseq (ensure_refinement_boundary r)
     (rbind (ok_or NotFound (position (\<lambda>s. sr_revision s = target_revision) (strategy_revisions r)))
       (\<lambda>target.
      let cleared = map (\<lambda>s. s\<lparr>sr_applied := False\<rparr>) (strategy_revisions r) in
      Inr (r\<lparr>strategy_revisions := cleared[target := (cleared ! target)\<lparr>sr_applied := True\<rparr>],
        current_strategy_revision := target_revision\<rparr>)))"

definition propose_workflow_reduce :: "propose_workflow_input \<Rightarrow> run_record \<Rightarrow> run_record result" where
  "propose_workflow_reduce input r =
     rseq (ensure_refinement_boundary r)
     (rseq (validate_revision_input (pw_source_digest input) (pw_provenance input))
     (rbind (ok_or (Integrity ''workflow revision overflow'')
         (checked_add (unwrap_or 0 (case max_opt (map wr_revision (workflow_revisions r)) of
             Some m \<Rightarrow> Some m | None \<Rightarrow> current_workflow_revision r)) 1)) (\<lambda>new_revision.
      Inr (r\<lparr>workflow_revisions := workflow_revisions r @
        [\<lparr>wr_revision = new_revision, wr_source_digest = pw_source_digest input,
          wr_provenance = pw_provenance input, wr_state = Wf_Proposal, wr_compiled = False,
          wr_static_policy_valid = False, wr_dry_run_valid = False,
          wr_promotion_proposal = pw_promotion_proposal input\<rparr>]\<rparr>))))"

definition validate_workflow_reduce ::
    "validate_workflow_input \<Rightarrow> run_record \<Rightarrow> run_record result" where
  "validate_workflow_reduce input r =
     rseq (ensure_refinement_boundary r)
     (rbind (ok_or NotFound (position (\<lambda>w. wr_revision w = vw_revision input)
         (workflow_revisions r))) (\<lambda>target.
      let w = workflow_revisions r ! target in
      if wr_state w \<noteq> Wf_Proposal
      then Inl (InvalidTransition ''only a workflow proposal may be validated'')
      else Inr (r\<lparr>workflow_revisions := (workflow_revisions r)[target :=
        w\<lparr>wr_compiled := vw_compiled input, wr_static_policy_valid := vw_static_policy_valid input,
          wr_dry_run_valid := vw_dry_run_valid input,
          wr_state := (if vw_compiled input \<and> vw_static_policy_valid input \<and> vw_dry_run_valid input
            then Wf_Validated else Wf_Rejected)\<rparr>]\<rparr>)))"

fun is_rhai_workflow :: "effect_spec \<Rightarrow> bool" where
  "is_rhai_workflow (Eff_RhaiWorkflow _ _ _) = True"
| "is_rhai_workflow _ = False"

definition workflow_eligible :: "bool \<Rightarrow> workflow_revision \<Rightarrow> bool" where
  "workflow_eligible rollback w =
     ((if rollback then wr_state w \<in> {Wf_Validated, Wf_Applied, Wf_RolledBack}
       else wr_state w = Wf_Validated) \<and>
      wr_compiled w \<and> wr_static_policy_valid w \<and> wr_dry_run_valid w)"

definition set_workflow_revision_reduce :: "bool \<Rightarrow> u64 \<Rightarrow> run_record \<Rightarrow> run_record result" where
  "set_workflow_revision_reduce rollback target_revision r =
     rseq (ensure_refinement_boundary r)
     (if list_ex (\<lambda>opn. is_rhai_workflow (op_spec opn) \<and> \<not> op_settled opn)
           (btree_values (operations r))
      then Inl (InvalidTransition ''active workflow revision is immutable'')
      else
        rbind (ok_or NotFound (position (\<lambda>w. wr_revision w = target_revision)
            (workflow_revisions r))) (\<lambda>target.
        if \<not> workflow_eligible rollback (workflow_revisions r ! target)
        then Inl (InvalidTransition
          ''workflow revision has not passed compile, policy, and dry-run gates'')
        else
          (let retired = map (\<lambda>w. if wr_state w = Wf_Applied then w\<lparr>wr_state := Wf_RolledBack\<rparr> else w)
                 (workflow_revisions r) in
           Inr (r\<lparr>workflow_revisions := retired[target := (retired ! target)\<lparr>wr_state := Wf_Applied\<rparr>],
             current_workflow_revision := Some target_revision\<rparr>))))"

end
