(* ===== verification/Run_Callbacks.thy ===== *)
theory Run_Callbacks
  imports Run_Reducers
begin

text \<open>
  The callbacks of \<open>run/controller.rs\<close>: \<open>finish_iteration\<close>, \<open>acknowledge_effect\<close> and
  \<open>child_callback\<close>, up to the commit. Each decides, on the cached Run, whether the callback
  is a duplicate of one that was accepted before, and otherwise computes the successor
  record.
\<close>

text \<open>What a callback asks the controller to do: answer with the cached snapshot, or commit
  a successor (with the iteration it finished, if any).\<close>

datatype callback_step =
    Callback_Duplicate
  | Callback_Next run_record "iteration_manifest option"

section \<open>Finishing an iteration\<close>

fun is_session_turn :: "effect_spec \<Rightarrow> bool" where
  "is_session_turn (Eff_SessionTurn _ _ _ _) = True"
| "is_session_turn _ = False"

definition turn_receipt_step ::
    "operation \<Rightarrow> resource_vector \<times> resource_dimension fset \<Rightarrow>
     (resource_vector \<times> resource_dimension fset) result" where
  "turn_receipt_step opn acc =
     rbind (ok_or (Integrity ''finished Session Turn omitted typed usage evidence'')
         (Option.bind (op_receipt opn) rc_actual_usage)) (\<lambda>actual.
     rbind (ok_or Budget (add_usage (fst acc) (resources actual))) (\<lambda>u.
     Inr (u, snd acc |\<union>| unknown_dims actual)))"

definition session_turn_usage ::
    "iteration_id \<Rightarrow> resource_vector \<Rightarrow> run_record \<Rightarrow> resource_dimension fset result" where
  "session_turn_usage iid reported r =
     (let turns = filter (\<lambda>opn. op_iteration_id opn = iid \<and> is_session_turn (op_spec opn))
            (btree_values (operations r)) in
      if turns = [] then Inr {||}
      else
        rbind (fold_res turn_receipt_step turns (rv_default, {||})) (\<lambda>(receipt_usage, unknown).
        if reported \<noteq> receipt_usage
        then Inl (Integrity ''iteration usage differs from its settled effect receipts'')
        else Inr unknown))"

definition finish_iteration_accept ::
    "finish_iteration_input \<Rightarrow> string \<Rightarrow> u64 \<Rightarrow> iteration_manifest \<Rightarrow> run_record \<Rightarrow>
     callback_step result" where
  "finish_iteration_accept cb result_digest now_ms active r =
     (if length (fi_summary cb) > MAX_ITEM_BYTES \<or> length (fi_evidence cb) > MAX_LIST_ITEMS \<or>
         iterations (fi_usage cb) \<noteq> 1
      then Inl (Validation ''iteration result exceeds bounds or has invalid iteration usage'')
      else
        rseq (for_each artifact_validate (fi_evidence cb))
        (if list_ex (\<lambda>opn. op_iteration_id opn = fi_iteration_id cb \<and> \<not> op_settled opn)
              (btree_values (operations r))
         then Inl (InvalidTransition ''iteration has unresolved committed effects'')
         else
           rbind (session_turn_usage (fi_iteration_id cb) (fi_usage cb) r) (\<lambda>unknown.
           rbind (ok_or Budget (Option.bind (add_usage (usage r) (fi_usage cb))
               (\<lambda>u. with_reservations u (child_reserved r)))) (\<lambda>total.
           if \<not> resources_within total (budget r) then Inl Budget
           else
             rbind (ok_or Budget (add_usage (usage r) (fi_usage cb))) (\<lambda>u'.
             let iteration = active\<lparr>it_driver_terminal_success := fi_driver_terminal_success cb,
                   it_summary := Some (fi_summary cb), it_evidence := fi_evidence cb,
                   it_gates := fi_gates cb, it_verdict := Some (fi_verdict cb),
                   it_finished_at_ms := Some now_ms, it_result_digest := Some result_digest\<rparr> in
             Inr (Callback_Next
               (push_iteration (r\<lparr>active_iteration := None, usage := u',
                  usage_unknown := usage_unknown r |\<union>| unknown,
                  verdict := Some (fi_verdict cb),
                  stage := (if fi_verdict cb = Achieved then Stage_Verifying
                    else Stage_Refining)\<rparr>) iteration)
               (Some iteration)))))))"

definition finish_iteration_step ::
    "run_env \<Rightarrow> finish_iteration_input \<Rightarrow> u64 \<Rightarrow> run_record \<Rightarrow> callback_step result" where
  "finish_iteration_step env cb now_ms r =
     (if controller_epoch r \<noteq> fi_epoch cb then Inl StaleEpoch
      else
        rbind (canonical_digest env (Dig_Finish cb)) (\<lambda>result_digest.
        case find (\<lambda>i. it_iteration_id i = fi_iteration_id cb) (run_iterations r) of
          Some iteration \<Rightarrow>
            if it_token iteration = fi_token cb \<and> it_result_digest iteration = Some result_digest
            then Inr Callback_Duplicate else Inl StaleCallback
        | None \<Rightarrow>
            if status r \<noteq> Status_Active
            then Inl (InvalidTransition
              ''late iteration result cannot transition a paused or terminal Run'')
            else
              rbind (ok_or StaleCallback (active_iteration r)) (\<lambda>active.
              if it_iteration_id active \<noteq> fi_iteration_id cb \<or> it_token active \<noteq> fi_token cb
              then Inl StaleCallback
              else finish_iteration_accept cb result_digest now_ms active r)))"

section \<open>Acknowledging an effect\<close>

definition attempt_matches :: "effect_callback \<Rightarrow> operation \<Rightarrow> operation_attempt \<Rightarrow> bool" where
  "attempt_matches cb opn attempt =
     (op_iteration_id opn = ec_iteration_id cb \<and> at_attempt attempt = ec_attempt cb \<and>
      at_token attempt = ec_token cb \<and> at_epoch attempt = ec_epoch cb)"

text \<open>The new operation, and whether the Run must enter recovery.\<close>

definition acknowledge_outcome ::
    "run_env \<Rightarrow> resource_vector \<Rightarrow> effect_outcome \<Rightarrow> string \<Rightarrow> operation \<Rightarrow>
     (operation \<times> bool) result" where
  "acknowledge_outcome env bdgt outcome result_digest opn =
     (case outcome of
        Outcome_Applied receipt \<Rightarrow>
          rseq (validate_effect_receipt_evidence receipt)
          (rbind (ok_or (Integrity ''applied effect omitted its reservation'') (op_reservation opn))
            (\<lambda>reservation.
          let usage_is_acceptable =
            is_ok (validate_effect_receipt env (op_spec opn) receipt) \<and>
            (case rc_actual_usage receipt of
               Some actual \<Rightarrow> allows_settlement_with actual reservation bdgt
             | None \<Rightarrow> False) in
          Inr (opn\<lparr>op_receipt := Some receipt, op_terminal_result_digest := Some result_digest,
              op_state := (if usage_is_acceptable then Op_Acknowledged else Op_Uncertain)\<rparr>,
            \<not> usage_is_acceptable)))
      | Outcome_FailedRetryable message \<Rightarrow>
          if length message > MAX_ITEM_BYTES then Inl (Validation ''effect error exceeds bounds'')
          else
            (let fence = op_effect_class opn = NonRepeatable in
             Inr (opn\<lparr>op_state := (if fence then Op_Uncertain else Op_FailedRetryable),
               op_terminal_result_digest := Some result_digest\<rparr>, fence))
      | Outcome_Unknown message \<Rightarrow>
          if length message > MAX_ITEM_BYTES then Inl (Validation ''effect error exceeds bounds'')
          else
            (let fence = op_effect_class opn \<notin> {Replayable, Idempotent} in
             Inr (opn\<lparr>op_state := (if fence then Op_Uncertain else Op_Prepared),
               op_terminal_result_digest := Some result_digest\<rparr>, fence)))"

definition acknowledge_effect_step ::
    "run_env \<Rightarrow> effect_callback \<Rightarrow> run_record \<Rightarrow> callback_step result" where
  "acknowledge_effect_step env cb r =
     (if controller_epoch r \<noteq> ec_epoch cb then Inl StaleEpoch
      else
        rbind (canonical_digest env (Dig_Outcome (ec_outcome cb))) (\<lambda>result_digest.
        rbind (ok_or NotFound (fmlookup (operations r) (ec_operation_id cb))) (\<lambda>opn.
        case (op_active_attempt opn, op_terminal_result_digest opn) of
          (Some accepted_attempt, Some accepted_digest) \<Rightarrow>
            if attempt_matches cb opn accepted_attempt \<and> accepted_digest = result_digest
            then Inr Callback_Duplicate else Inl StaleCallback
        | _ \<Rightarrow>
            rbind (ok_or StaleCallback (op_active_attempt opn)) (\<lambda>attempt.
            if \<not> attempt_matches cb opn attempt then Inl StaleCallback
            else
              rbind (acknowledge_outcome env (budget r) (ec_outcome cb) result_digest opn)
                (\<lambda>(opn', requires_recovery).
              let r1 = r\<lparr>operations := fmupd (ec_operation_id cb) opn' (operations r)\<rparr> in
              rbind (if requires_recovery then enter_recovery r1 else Inr r1) (\<lambda>r2.
              Inr (Callback_Next r2 None)))))))"

section \<open>Child callbacks\<close>

definition settle_child ::
    "child_callback_input \<Rightarrow> child_run \<Rightarrow> run_record \<Rightarrow> run_record result" where
  "settle_child cb child r =
     (case cb_settlement cb of
        None \<Rightarrow> Inr (r\<lparr>children := fmupd (cb_child_id cb)
          (child\<lparr>ch_state := cb_state cb, ch_artifacts := cb_artifacts cb\<rparr>) (children r)\<rparr>)
      | Some settlement \<Rightarrow>
          if \<not> resources_within settlement (ch_reservation child) then Inl Budget
          else
            rbind (ok_or (Integrity ''child reservation underflow'')
                (subtract_reservation (child_reserved r) (ch_reservation child))) (\<lambda>remaining.
            rbind (ok_or Budget (add_usage (usage r) settlement)) (\<lambda>u.
            rbind (ok_or Budget (with_reservations u remaining)) (\<lambda>projected.
            if \<not> resources_within projected (budget r) then Inl Budget
            else Inr (r\<lparr>child_reserved := remaining, usage := u,
              children := fmupd (cb_child_id cb) (child\<lparr>ch_settlement := Some settlement,
                ch_state := cb_state cb, ch_artifacts := cb_artifacts cb\<rparr>) (children r)\<rparr>)))))"

definition child_callback_step ::
    "child_callback_input \<Rightarrow> run_record \<Rightarrow> callback_step result" where
  "child_callback_step cb r =
     (if controller_epoch r \<noteq> cb_epoch cb then Inl StaleEpoch
      else
        rbind (ok_or NotFound (fmlookup (children r) (cb_child_id cb))) (\<lambda>child.
        if ch_iteration_id child \<noteq> cb_iteration_id cb \<or> ch_callback_token child \<noteq> cb_token cb
        then Inl StaleCallback
        else if child_is_terminal (ch_state child) \<or>
                (ch_state child = Child_Started \<and> cb_state cb = Child_Started)
        then (if ch_state child = cb_state cb \<and> ch_settlement child = cb_settlement cb \<and>
                 ch_artifacts child = cb_artifacts cb
              then Inr Callback_Duplicate else Inl StaleCallback)
        else if cb_state cb \<in> {Child_Unknown, Child_Admitted}
        then Inl (InvalidTransition ''invalid child lifecycle transition'')
        else
          rseq (for_each artifact_validate (cb_artifacts cb))
          (if child_is_terminal (cb_state cb) \<and> cb_settlement cb = None
           then Inl (InvalidTransition ''terminal child callback requires resource settlement'')
           else if \<not> child_is_terminal (cb_state cb) \<and> cb_settlement cb \<noteq> None
           then Inl (InvalidTransition ''nonterminal child cannot settle resources'')
           else rbind (settle_child cb child r) (\<lambda>r'. Inr (Callback_Next r' None)))))"

end
