(* ===== verification/Run_Controller.thy ===== *)
theory Run_Controller
  imports Run_Callbacks
begin

text \<open>
  \<open>RunController\<close> (\<open>run/controller.rs\<close>): the cache of envelopes, the two fence sets, the
  commit path and every public operation. An operation takes the environment, the store
  operations and the controller, and returns the controller with a result: the fences
  that a failed commit leaves behind are part of the error path. Random tokens are
  arguments (the UUID in its simple form).
\<close>

record 's run_controller =
  ctl_store :: 's
  ctl_runs :: "(run_id, run_envelope) fmap"
  ctl_authority_fenced :: "run_id fset"
  ctl_reload_required :: "run_id fset"

section \<open>Opening\<close>

fun open_runs ::
    "run_env \<Rightarrow> run_envelope list \<Rightarrow> (run_id, run_envelope) fmap \<times> run_id fset \<Rightarrow>
     ((run_id, run_envelope) fmap \<times> run_id fset) result" where
  "open_runs env [] acc = Inr acc"
| "open_runs env (e # es) (runs, fenced) =
     rseq (envelope_validate env e)
     (if btree_contains_key runs (run_id (run e))
      then Inl (Integrity ''Run store listed the same Run id more than once'')
      else open_runs env es (fmupd (run_id (run e)) e runs,
        if needs_controller_recovery (run e) then finsert (run_id (run e)) fenced else fenced))"

definition controller_open ::
    "run_env \<Rightarrow> 's store_ops \<Rightarrow> 's \<Rightarrow> 's run_controller result" where
  "controller_open env st s =
     rbind (so_list st s) (\<lambda>es.
     rbind (open_runs env es (fmempty, {||})) (\<lambda>(runs, fenced).
     Inr \<lparr>ctl_store = s, ctl_runs = runs, ctl_authority_fenced = fenced,
       ctl_reload_required = {||}\<rparr>))"

section \<open>The commit path\<close>

definition fence :: "run_id \<Rightarrow> 's run_controller \<Rightarrow> 's run_controller" where
  "fence rid c = c\<lparr>ctl_authority_fenced := finsert rid (ctl_authority_fenced c)\<rparr>"

definition require_reload :: "run_id \<Rightarrow> 's run_controller \<Rightarrow> 's run_controller" where
  "require_reload rid c = c\<lparr>ctl_reload_required := finsert rid (ctl_reload_required c)\<rparr>"

definition commit ::
    "run_env \<Rightarrow> 's store_ops \<Rightarrow> 's run_controller \<Rightarrow> run_revision option \<Rightarrow> run_envelope \<Rightarrow>
     iteration_manifest option \<Rightarrow> 's run_controller \<times> run_envelope result" where
  "commit env st c expected_revision next finished_iteration =
     (case envelope_validate env next of
        Inl e \<Rightarrow> (c, Inl e)
      | Inr _ \<Rightarrow>
          (let rid = run_id (run next);
               (s', answer) = so_commit st (ctl_store c) \<lparr>sc_run_id = rid,
                 sc_expected_revision = expected_revision, sc_next = next,
                 sc_finished_iteration = finished_iteration\<rparr>;
               c1 = c\<lparr>ctl_store := s'\<rparr> in
           case answer of
             Inl e \<Rightarrow> (c1, Inl e)
           | Inr Store_Applied \<Rightarrow> (c1\<lparr>ctl_runs := fmupd rid next (ctl_runs c)\<rparr>, Inr next)
           | Inr (Store_Conflict actual) \<Rightarrow>
               (require_reload rid (fence rid c1), Inl (Conflict expected_revision actual))
           | Inr Store_Tombstoned \<Rightarrow>
               (fence rid c1, Inl (InvalidTransition ''durable tombstone rejected mutation''))
           | Inr (Store_CommitUnknown message) \<Rightarrow>
               (require_reload rid (fence rid c1), Inl (CommitUnknown message))))"

definition ensure_authority :: "'s run_controller \<Rightarrow> run_id \<Rightarrow> unit result" where
  "ensure_authority c rid =
     (if rid |\<in>| ctl_authority_fenced c then Inl AuthorityLost else Inr ())"

text \<open>The bookkeeping that \<open>apply_command\<close> and \<open>commit_callback\<close> share: the successor
  revision and cursor, the time stamp, the journal entry.\<close>

definition advance ::
    "run_envelope \<Rightarrow> run_record \<Rightarrow> string \<Rightarrow> u64 \<Rightarrow> run_envelope result" where
  "advance old next_run event_kind now_ms =
     rbind (successor (revision (run old)) ''Run revision'') (\<lambda>rev'.
     rbind (successor_cursor (event_cursor (run old))) (\<lambda>cursor.
     Inr (old\<lparr>run := next_run\<lparr>revision := rev', updated_at_ms := now_ms, event_cursor := cursor\<rparr>,
       events := trim_events (events old @ [\<lparr>ev_cursor = cursor, ev_revision = rev',
         ev_kind = internal_event_kind event_kind, ev_at_ms = now_ms\<rparr>])\<rparr>)))"

definition commit_callback ::
    "run_env \<Rightarrow> 's store_ops \<Rightarrow> 's run_controller \<Rightarrow> run_envelope \<Rightarrow> run_record \<Rightarrow> string \<Rightarrow> u64 \<Rightarrow>
     iteration_manifest option \<Rightarrow> 's run_controller \<times> run_envelope result" where
  "commit_callback env st c old next_run event_kind now_ms finished_iteration =
     (case advance old next_run event_kind now_ms of
        Inl e \<Rightarrow> (c, Inl e)
      | Inr next \<Rightarrow> commit env st c (Some (revision (run old))) next finished_iteration)"

definition command_receipt_for ::
    "command_id \<Rightarrow> string \<Rightarrow> run_revision \<Rightarrow> controller_epoch \<Rightarrow> command_receipt" where
  "command_receipt_for cid input_digest rev' epoch =
     \<lparr>cr_command_id = cid, cr_input_digest = input_digest, cr_disposition = Disp_Applied,
      cr_committed_revision = rev', cr_epoch = epoch\<rparr>"

definition record_receipt :: "command_receipt \<Rightarrow> run_envelope \<Rightarrow> run_envelope" where
  "record_receipt receipt e =
     e\<lparr>run := (run e)\<lparr>command_receipts :=
       fmupd (cr_command_id receipt) receipt (command_receipts (run e))\<rparr>\<rparr>"

text \<open>\<open>apply_command\<close> before the commit: an error, the answer to a duplicate, or the
  receipt and the envelope to commit. \<open>request.input\<close> is digested as \<open>input\<close>.\<close>

definition prepare_command ::
    "run_env \<Rightarrow> 's run_controller \<Rightarrow> 't mutation_request \<Rightarrow> command_input \<Rightarrow> string \<Rightarrow> string \<Rightarrow>
     u64 \<Rightarrow> bool \<Rightarrow> (run_record \<Rightarrow> run_record result) \<Rightarrow>
     (run_command_result + run_envelope \<times> command_receipt \<times> run_envelope) result" where
  "prepare_command env c request input operation_name event_kind now_ms allow_fenced reduce =
     rbind (canonical_digest env (Dig_Command operation_name input)) (\<lambda>input_digest.
     rbind (ok_or NotFound (fmlookup (ctl_runs c) (mr_run_id request))) (\<lambda>old.
     rseq (if allow_fenced then Inr () else ensure_authority c (mr_run_id request))
     (case fmlookup (command_receipts (run old)) (mr_command_id request) of
        Some receipt \<Rightarrow>
          if cr_input_digest receipt \<noteq> input_digest
          then Inl (Integrity ''command id was reused with different input'')
          else Inr (Inl \<lparr>res_receipt = receipt, res_snapshot = old, res_duplicate = True\<rparr>)
      | None \<Rightarrow>
          if status (run old) = Status_Tombstoned
          then Inl (InvalidTransition ''tombstoned Run rejects every mutation'')
          else if revision (run old) \<noteq> mr_expected_revision request
          then Inl (Conflict (Some (mr_expected_revision request)) (Some (revision (run old))))
          else if btree_len (command_receipts (run old)) \<ge> MAX_COMMAND_RECEIPTS
          then Inl DedupCapacity
          else
            rbind (reduce (run old)) (\<lambda>next_run.
            rbind (advance old next_run event_kind now_ms) (\<lambda>next.
            let receipt = command_receipt_for (mr_command_id request) input_digest
                  (revision (run next)) (controller_epoch next_run) in
            Inr (Inr (old, receipt, record_receipt receipt next)))))))"

definition apply_command ::
    "run_env \<Rightarrow> 's store_ops \<Rightarrow> 's run_controller \<Rightarrow> 't mutation_request \<Rightarrow> command_input \<Rightarrow>
     string \<Rightarrow> string \<Rightarrow> u64 \<Rightarrow> bool \<Rightarrow> (run_record \<Rightarrow> run_record result) \<Rightarrow>
     's run_controller \<times> run_command_result result" where
  "apply_command env st c request input operation_name event_kind now_ms allow_fenced reduce =
     (case prepare_command env c request input operation_name event_kind now_ms allow_fenced reduce of
        Inl e \<Rightarrow> (c, Inl e)
      | Inr (Inl duplicate) \<Rightarrow> (c, Inr duplicate)
      | Inr (Inr (old, receipt, next)) \<Rightarrow>
          (case commit env st c (Some (revision (run old))) next None of
             (c', Inl e) \<Rightarrow> (c', Inl e)
           | (c', Inr snapshot) \<Rightarrow>
               (c', Inr \<lparr>res_receipt = receipt, res_snapshot = snapshot, res_duplicate = False\<rparr>)))"

section \<open>Creating a Run\<close>

text \<open>The search of every cached Run for the create command's receipt.\<close>

fun find_receipt :: "command_id \<Rightarrow> run_envelope list \<Rightarrow> (run_envelope \<times> command_receipt) option" where
  "find_receipt cid [] = None"
| "find_receipt cid (e # es) =
     (case fmlookup (command_receipts (run e)) cid of
        Some receipt \<Rightarrow> Some (e, receipt)
      | None \<Rightarrow> find_receipt cid es)"

definition validate_create :: "'s run_controller \<Rightarrow> create_run_request \<Rightarrow> unit result" where
  "validate_create c q =
     rseq (goal_spec_validate (cq_goal q))
     (rseq (capability_policy_validate (cq_capabilities q))
     (rbind (ok_or (Validation ''new Runs require an exact Harness snapshot pin'')
         (cq_harness_snapshot q)) (\<lambda>pin.
     rseq (harness_pin_validate pin)
     (if (case cq_driver q of Driver_AutonomousTurnLoop _ _ \<Rightarrow> False | _ \<Rightarrow> True)
      then Inl (Validation ''only AutonomousTurnLoop is executable in Run schema v2'')
      else if \<exists>sess \<in> set_option (driver_session (cq_driver q)). sess \<noteq> cq_session q
      then Inl (Validation ''driver and Run must reference the same Session'')
      else if trim_is_empty (cq_verifier_policy_digest q) \<or>
              length (cq_verifier_policy_digest q) > 256
      then Inl (Validation ''verifier policy digest is empty or too large'')
      else if (acceptance_criteria (cq_goal q) \<noteq> [] \<or> required_evidence (cq_goal q) \<noteq> []) \<and>
              cq_required_gates q = {||}
      then Inl (Validation ''acceptance criteria require at least one deterministic gate'')
      else if list_ex (\<lambda>e. session (run e) = cq_session q \<and> \<not> is_terminal (status (run e)))
                (btree_values (ctl_runs c))
      then Inl (Conflict None None)
      else Inr ()))))"

fun driver_revisions :: "run_driver_spec \<Rightarrow> u64 \<times> u64 option" where
  "driver_revisions (Driver_AutonomousTurnLoop _ strategy) = (strategy, None)"
| "driver_revisions (Driver_RhaiWorkflow _ _ workflow _) = (0, Some workflow)"
| "driver_revisions _ = (0, None)"

definition initial_run ::
    "create_run_request \<Rightarrow> run_id \<Rightarrow> command_receipt \<Rightarrow> u64 \<Rightarrow> run_record" where
  "initial_run q rid receipt now_ms =
     \<lparr>revision = 1, controller_epoch = 1, wake = wake_default, activation_lease = None,
      created_at_ms = now_ms, updated_at_ms = now_ms, run_id = rid, session = cq_session q,
      goal = cq_goal q, driver = cq_driver q, status = Status_Active, stage = Stage_Idle,
      capabilities = cq_capabilities q, required_gates = cq_required_gates q,
      verifier_policy_digest = cq_verifier_policy_digest q, budget = cq_budget q,
      usage = rv_default, usage_unknown = {||}, child_reserved = rv_default,
      next_iteration_id = 1, active_iteration = None, run_iterations = [],
      operations = fmempty, children = fmempty, mailbox = fmempty, next_message_sequence = 1,
      steering = fmempty, steering_high_water = 0, strategy_revisions = [],
      current_strategy_revision = fst (driver_revisions (cq_driver q)),
      workflow_revisions = [],
      current_workflow_revision = snd (driver_revisions (cq_driver q)),
      harness = \<lparr>hg_active = cq_harness_snapshot q, hg_previous = None, hg_proposals = fmempty\<rparr>,
      verdict = None, pending_approval = False, recovery_prior_status = None,
      command_receipts = fmupd (cq_command_id q) receipt fmempty,
      terminal_report_claimed = False, event_cursor = 1\<rparr>"

definition initial_envelope ::
    "create_run_request \<Rightarrow> run_id \<Rightarrow> command_receipt \<Rightarrow> u64 \<Rightarrow> run_envelope" where
  "initial_envelope q rid receipt now_ms =
     \<lparr>schema_version = RUN_SCHEMA_VERSION, run = initial_run q rid receipt now_ms,
      events = [\<lparr>ev_cursor = 1, ev_revision = 1, ev_kind = internal_event_kind ''run_created'',
        ev_at_ms = now_ms\<rparr>]\<rparr>"

definition create_run ::
    "run_env \<Rightarrow> 's store_ops \<Rightarrow> 's run_controller \<Rightarrow> create_run_request \<Rightarrow> string \<Rightarrow> u64 \<Rightarrow>
     's run_controller \<times> run_command_result result" where
  "create_run env st c q uuid now_ms =
     (case canonical_digest env (Dig_CreateRun q) of
        Inl e \<Rightarrow> (c, Inl e)
      | Inr input_digest \<Rightarrow>
          (case find_receipt (cq_command_id q) (btree_values (ctl_runs c)) of
             Some (envelope, receipt) \<Rightarrow>
               (c, if cr_input_digest receipt \<noteq> input_digest
                   then Inl (Integrity ''command id was reused with different create input'')
                   else Inr \<lparr>res_receipt = receipt, res_snapshot = envelope, res_duplicate = True\<rparr>)
           | None \<Rightarrow>
               (case validate_create c q of
                  Inl e \<Rightarrow> (c, Inl e)
                | Inr _ \<Rightarrow>
                    (let rid = unwrap_or (run_id_random uuid) (cq_run_id q);
                         receipt = command_receipt_for (cq_command_id q) input_digest 1 1;
                         envelope = initial_envelope q rid receipt now_ms in
                     case envelope_validate env envelope of
                       Inl e \<Rightarrow> (c, Inl e)
                     | Inr _ \<Rightarrow>
                         (case commit env st c None envelope None of
                            (c', Inl e) \<Rightarrow> (c', Inl e)
                          | (c', Inr _) \<Rightarrow>
                              (c'\<lparr>ctl_runs := fmupd rid envelope (ctl_runs c')\<rparr>,
                               Inr \<lparr>res_receipt = receipt, res_snapshot = envelope,
                                 res_duplicate = False\<rparr>))))))"

section \<open>Queries\<close>

definition get_run :: "'s run_controller \<Rightarrow> run_id \<Rightarrow> run_envelope option" where
  "get_run c rid = fmlookup (ctl_runs c) rid"

definition list_runs :: "'s run_controller \<Rightarrow> run_envelope list" where
  "list_runs c = btree_values (ctl_runs c)"

definition inspect_residency ::
    "'s run_controller \<Rightarrow> run_id \<Rightarrow> u64 \<Rightarrow> residency_inspection result" where
  "inspect_residency c rid now_ms =
     rbind (ok_or NotFound (fmlookup (ctl_runs c) rid)) (\<lambda>e.
     let r = run e in
     Inr \<lparr>ri_run_id = run_id r, ri_revision = revision r, ri_wake = wake r,
       ri_lease = activation_lease r, ri_overdue = deadline_due r now_ms\<rparr>)"

definition list_recoverable_runs :: "'s run_controller \<Rightarrow> run_envelope list" where
  "list_recoverable_runs c =
     filter (\<lambda>e. needs_controller_recovery (run e) \<and>
       (run_id (run e) |\<in>| ctl_authority_fenced c \<or>
        status (run e) = Status_RecoveryRequired \<or>
        active_iteration (run e) \<noteq> None \<or>
        list_ex (\<lambda>opn. op_state opn \<in> {Op_Dispatching, Op_Uncertain})
          (btree_values (operations (run e))) \<or>
        has_active_children (run e))) (btree_values (ctl_runs c))"

definition recovery_plan :: "'s run_controller \<Rightarrow> run_id \<Rightarrow> recovery_plan_t result" where
  "recovery_plan c rid =
     rbind (ok_or NotFound (fmlookup (ctl_runs c) rid)) (\<lambda>snapshot.
     if status (run snapshot) \<noteq> Status_RecoveryRequired
     then Inl (InvalidTransition ''Run is not in durable recovery'')
     else Inr \<lparr>rp_snapshot = snapshot, rp_needs = recovery_needs (run snapshot)\<rparr>)"

definition reload_is_required :: "'s run_controller \<Rightarrow> run_id \<Rightarrow> bool" where
  "reload_is_required c rid = (rid |\<in>| ctl_reload_required c)"

fun consecutive_events :: "run_event list \<Rightarrow> bool" where
  "consecutive_events (e # f # rest) =
     (checked_add (ev_cursor e) 1 = Some (ev_cursor f) \<and>
      checked_add (ev_revision e) 1 = Some (ev_revision f) \<and> consecutive_events (f # rest))"
| "consecutive_events _ = True"

definition valid_journal :: "run_envelope \<Rightarrow> bool" where
  "valid_journal e =
     (consecutive_events (events e) \<and>
      (if events e = [] then event_cursor (run e) = 0
       else ev_cursor (last (events e)) = event_cursor (run e) \<and>
            ev_revision (last (events e)) = revision (run e)))"

definition attach_run ::
    "'s run_controller \<Rightarrow> run_id \<Rightarrow> run_event_cursor \<Rightarrow> run_attach result" where
  "attach_run c rid after =
     rbind (ok_or NotFound (fmlookup (ctl_runs c) rid)) (\<lambda>e.
     let current = event_cursor (run e);
         contiguous = valid_journal e \<and> after \<le> current \<and>
           (case events e of
              first # _ \<Rightarrow> (case checked_add after 1 of
                 Some following \<Rightarrow> following \<ge> ev_cursor first | None \<Rightarrow> False)
            | [] \<Rightarrow> after = current) in
     if \<not> contiguous then Inr (Attach_Snapshot e)
     else Inr (Attach_Replay rid current (filter (\<lambda>event. ev_cursor event > after) (events e))))"

section \<open>Reload and recovery\<close>

definition reload_run ::
    "run_env \<Rightarrow> 's store_ops \<Rightarrow> 's run_controller \<Rightarrow> run_id \<Rightarrow>
     's run_controller \<times> run_envelope option result" where
  "reload_run env st c rid =
     (let forget = ctl_reload_required c |-| {|rid|} in
      case so_load st (ctl_store c) rid of
        Inl e \<Rightarrow> (c, Inl e)
      | Inr None \<Rightarrow>
          (c\<lparr>ctl_runs := fmdrop rid (ctl_runs c),
             ctl_authority_fenced := ctl_authority_fenced c |-| {|rid|},
             ctl_reload_required := forget\<rparr>, Inr None)
      | Inr (Some envelope) \<Rightarrow>
          (case envelope_validate env envelope of
             Inl e \<Rightarrow> (c, Inl e)
           | Inr _ \<Rightarrow>
               if run_id (run envelope) \<noteq> rid
               then (c, Inl (Integrity ''Run store returned an envelope for a different Run id''))
               else
                 (c\<lparr>ctl_runs := fmupd rid envelope (ctl_runs c),
                    ctl_authority_fenced :=
                      (if needs_controller_recovery (run envelope)
                       then finsert rid (ctl_authority_fenced c)
                       else ctl_authority_fenced c |-| {|rid|}),
                    ctl_reload_required := forget\<rparr>, Inr (Some envelope))))"

definition begin_recovery ::
    "run_env \<Rightarrow> 's store_ops \<Rightarrow> 's run_controller \<Rightarrow> unit mutation_request \<Rightarrow> u64 \<Rightarrow>
     's run_controller \<times> recovery_plan_t result" where
  "begin_recovery env st c request now_ms =
     (let rid = mr_run_id request in
      if rid |\<in>| ctl_reload_required c then (c, Inl ReloadRequired)
      else
        (let acquiring_new_epoch = rid |\<in>| ctl_authority_fenced c in
         case apply_command env st c request In_Unit ''begin_recovery'' ''recovery_started'' now_ms
                True begin_recovery_reduce of
           (c', Inl e) \<Rightarrow> (c', Inl e)
         | (c', Inr command) \<Rightarrow>
             if acquiring_new_epoch \<and> res_duplicate command then (c', Inl AuthorityLost)
             else
               (c'\<lparr>ctl_authority_fenced := ctl_authority_fenced c' |-| {|rid|}\<rparr>,
                Inr \<lparr>rp_snapshot = res_snapshot command,
                  rp_needs = recovery_needs (run (res_snapshot command))\<rparr>)))"

definition finish_recovery ::
    "run_env \<Rightarrow> 's store_ops \<Rightarrow> 's run_controller \<Rightarrow> recovery_resolution mutation_request \<Rightarrow> u64 \<Rightarrow>
     's run_controller \<times> run_command_result result" where
  "finish_recovery env st c request now_ms =
     apply_command env st c request (In_Recovery (mr_input request)) ''finish_recovery''
       ''recovery_finished'' now_ms False (finish_recovery_reduce env (mr_input request) now_ms)"

end
