(* ===== verification/Run_Commands.thy ===== *)
theory Run_Commands
  imports Run_Controller
begin

text \<open>
  The remaining public operations of \<open>RunController\<close> (\<open>run/controller.rs\<close>): every command
  hands its reducer to \<open>apply_command\<close>, every callback its step to \<open>commit_callback\<close>. A
  command with an output reads it from the committed snapshot; where that fails the
  command stays committed, as in the code.
\<close>

section \<open>Reading the output of a command\<close>

definition with_output ::
    "'s run_controller \<times> run_command_result result \<Rightarrow>
     (run_command_result \<Rightarrow> 't result) \<Rightarrow> 's run_controller \<times> 't command_output result" where
  "with_output outcome read =
     (fst outcome, rbind (snd outcome) (\<lambda>command.
        rbind (read command) (\<lambda>v. Inr \<lparr>co_command = command, co_output = v\<rparr>)))"

section \<open>Residency\<close>

definition MAX_LEASE_MS :: u64 where
  "MAX_LEASE_MS = 86400000"

definition request_wake ::
    "run_env \<Rightarrow> 's store_ops \<Rightarrow> 's run_controller \<Rightarrow> wake_request mutation_request \<Rightarrow> u64 \<Rightarrow>
     's run_controller \<times> run_command_result result" where
  "request_wake env st c request now_ms =
     apply_command env st c request (In_Wake (mr_input request)) ''request_wake''
       ''wake_requested'' now_ms False (request_wake_reduce (mr_input request))"

definition claimed_lease ::
    "command_id \<Rightarrow> u64 \<Rightarrow> run_command_result \<Rightarrow> activation_lease result" where
  "claimed_lease cid now_ms command =
     ok_or (InvalidTransition ''duplicate claim has already been settled'')
       (case activation_lease (run (res_snapshot command)) of
          Some lease \<Rightarrow>
            if \<not> res_duplicate command \<or>
               (lease_claim_command_id lease = cid \<and> lease_expires_at_ms lease > now_ms)
            then Some lease else None
        | None \<Rightarrow> None)"

definition claim_activation ::
    "run_env \<Rightarrow> 's store_ops \<Rightarrow> 's run_controller \<Rightarrow> claim_activation_input mutation_request \<Rightarrow>
     string \<Rightarrow> u64 \<Rightarrow> 's run_controller \<times> activation_lease command_output result" where
  "claim_activation env st c request uuid now_ms =
     (if ca_lease_ms (mr_input request) = 0 \<or> ca_lease_ms (mr_input request) > MAX_LEASE_MS
      then (c, Inl (Validation ''activation lease must be between 1ms and 24h''))
      else
        with_output
          (apply_command env st c request (In_Claim (mr_input request)) ''claim_activation''
             ''activation_claimed'' now_ms False
             (claim_activation_reduce (mr_input request) (mr_command_id request)
                (activation_token_random uuid) now_ms))
          (claimed_lease (mr_command_id request) now_ms))"

definition renew_activation ::
    "run_env \<Rightarrow> 's store_ops \<Rightarrow> 's run_controller \<Rightarrow> (activation_fence \<times> u64) mutation_request \<Rightarrow>
     u64 \<Rightarrow> 's run_controller \<times> run_command_result result" where
  "renew_activation env st c request now_ms =
     (let (fence, lease_ms) = mr_input request in
      if lease_ms = 0 \<or> lease_ms > MAX_LEASE_MS
      then (c, Inl (Validation ''activation lease must be between 1ms and 24h''))
      else apply_command env st c request (In_Renew fence lease_ms) ''renew_activation''
        ''activation_renewed'' now_ms False (renew_activation_reduce fence lease_ms now_ms))"

definition release_activation ::
    "run_env \<Rightarrow> 's store_ops \<Rightarrow> 's run_controller \<Rightarrow> activation_fence mutation_request \<Rightarrow> u64 \<Rightarrow>
     's run_controller \<times> run_command_result result" where
  "release_activation env st c request now_ms =
     apply_command env st c request (In_Fence (mr_input request)) ''release_activation''
       ''activation_released'' now_ms False (release_activation_reduce (mr_input request) now_ms)"

section \<open>Control\<close>

definition control_run ::
    "run_env \<Rightarrow> 's store_ops \<Rightarrow> 's run_controller \<Rightarrow> run_action mutation_request \<Rightarrow> u64 \<Rightarrow>
     's run_controller \<times> run_command_result result" where
  "control_run env st c request now_ms =
     apply_command env st c request (In_Action (mr_input request)) ''control_run''
       ''run_controlled'' now_ms False (apply_control (mr_input request))"

fun is_resume :: "run_action \<Rightarrow> bool" where
  "is_resume (Act_Resume _) = True"
| "is_resume _ = False"

definition wake_run ::
    "run_env \<Rightarrow> 's store_ops \<Rightarrow> 's run_controller \<Rightarrow> run_action mutation_request \<Rightarrow> u64 \<Rightarrow>
     's run_controller \<times> run_command_result result" where
  "wake_run env st c request now_ms =
     (if \<not> is_resume (mr_input request)
      then (c, Inl (Validation ''wake requires a Resume Run action''))
      else apply_command env st c request (In_Action (mr_input request)) ''wake_run''
        ''run_woken'' now_ms False (apply_control (mr_input request)))"

section \<open>Iterations\<close>

definition iteration_handle_of ::
    "run_id \<Rightarrow> run_command_result \<Rightarrow> iteration_handle result" where
  "iteration_handle_of rid command =
     rbind (ok_or (Integrity ''iteration command lost its output'')
         (active_iteration (run (res_snapshot command)))) (\<lambda>iteration.
     Inr \<lparr>ih_run_id = rid, ih_iteration_id = it_iteration_id iteration,
       ih_token = it_token iteration, ih_epoch = controller_epoch (run (res_snapshot command)),
       ih_committed_revision = revision (run (res_snapshot command))\<rparr>)"

definition begin_iteration ::
    "run_env \<Rightarrow> 's store_ops \<Rightarrow> 's run_controller \<Rightarrow> iteration_context_manifest mutation_request \<Rightarrow>
     string \<Rightarrow> u64 \<Rightarrow> 's run_controller \<times> iteration_handle command_output result" where
  "begin_iteration env st c request uuid now_ms =
     with_output
       (apply_command env st c request (In_BeginIteration (mr_input request)) ''begin_iteration''
          ''iteration_started'' now_ms False
          (begin_iteration_reduce (mr_input request) (mr_expected_revision request)
             (iteration_token_random uuid) now_ms))
       (iteration_handle_of (mr_run_id request))"

text \<open>The controller half of a callback: authority, lookup, and the commit of the step.\<close>

definition run_callback ::
    "run_env \<Rightarrow> 's store_ops \<Rightarrow> 's run_controller \<Rightarrow> run_id \<Rightarrow> string \<Rightarrow> u64 \<Rightarrow>
     (run_record \<Rightarrow> callback_step result) \<Rightarrow> 's run_controller \<times> callback_result result" where
  "run_callback env st c rid event_kind now_ms step =
     (case rseq (ensure_authority c rid) (ok_or NotFound (fmlookup (ctl_runs c) rid)) of
        Inl e \<Rightarrow> (c, Inl e)
      | Inr old \<Rightarrow>
          (case step (run old) of
             Inl e \<Rightarrow> (c, Inl e)
           | Inr Callback_Duplicate \<Rightarrow> (c, Inr \<lparr>cbr_snapshot = old, cbr_duplicate = True\<rparr>)
           | Inr (Callback_Next next_run finished_iteration) \<Rightarrow>
               (case commit_callback env st c old next_run event_kind now_ms finished_iteration of
                  (c', Inl e) \<Rightarrow> (c', Inl e)
                | (c', Inr snapshot) \<Rightarrow>
                    (c', Inr \<lparr>cbr_snapshot = snapshot, cbr_duplicate = False\<rparr>))))"

definition finish_iteration ::
    "run_env \<Rightarrow> 's store_ops \<Rightarrow> 's run_controller \<Rightarrow> finish_iteration_input \<Rightarrow> u64 \<Rightarrow>
     's run_controller \<times> callback_result result" where
  "finish_iteration env st c cb now_ms =
     run_callback env st c (fi_run_id cb) ''iteration_finished'' now_ms
       (finish_iteration_step env cb now_ms)"

section \<open>Harness governance\<close>

definition propose_harness ::
    "run_env \<Rightarrow> 's store_ops \<Rightarrow> 's run_controller \<Rightarrow> harness_snapshot_pin mutation_request \<Rightarrow> u64 \<Rightarrow>
     's run_controller \<times> run_command_result result" where
  "propose_harness env st c request now_ms =
     apply_command env st c request (In_ProposeHarness (mr_input request)) ''propose_harness''
       ''harness_proposed'' now_ms False (propose_harness_reduce (mr_input request))"

definition validate_harness ::
    "run_env \<Rightarrow> 's store_ops \<Rightarrow> 's run_controller \<Rightarrow> validate_harness_input mutation_request \<Rightarrow> u64 \<Rightarrow>
     's run_controller \<times> run_command_result result" where
  "validate_harness env st c request now_ms =
     apply_command env st c request (In_ValidateHarness (mr_input request)) ''validate_harness''
       ''harness_validated'' now_ms False (validate_harness_reduce (mr_input request))"

definition activate_harness ::
    "run_env \<Rightarrow> 's store_ops \<Rightarrow> 's run_controller \<Rightarrow> string mutation_request \<Rightarrow> u64 \<Rightarrow>
     's run_controller \<times> run_command_result result" where
  "activate_harness env st c request now_ms =
     apply_command env st c request (In_ActivateHarness (mr_input request)) ''activate_harness''
       ''harness_activated'' now_ms False (activate_harness_reduce (mr_input request))"

definition rollback_harness ::
    "run_env \<Rightarrow> 's store_ops \<Rightarrow> 's run_controller \<Rightarrow> string mutation_request \<Rightarrow> u64 \<Rightarrow>
     's run_controller \<times> run_command_result result" where
  "rollback_harness env st c request now_ms =
     apply_command env st c request (In_RollbackHarness (mr_input request)) ''rollback_harness''
       ''harness_rolled_back'' now_ms False (rollback_harness_reduce (mr_input request))"

section \<open>Effects\<close>

definition prepare_operation ::
    "run_env \<Rightarrow> 's store_ops \<Rightarrow> 's run_controller \<Rightarrow> prepare_operation_input mutation_request \<Rightarrow> u64 \<Rightarrow>
     's run_controller \<times> run_command_result result" where
  "prepare_operation env st c request now_ms =
     apply_command env st c request (In_Prepare (mr_input request)) ''prepare_operation''
       ''effect_committed'' now_ms False (prepare_operation_reduce env (mr_input request))"

definition committed_effect_of ::
    "run_id \<Rightarrow> operation_id \<Rightarrow> command_id \<Rightarrow> run_command_result \<Rightarrow> committed_effect result" where
  "committed_effect_of rid oid cid command =
     rbind (ok_or (Integrity ''effect claim lost operation'')
         (fmlookup (operations (run (res_snapshot command))) oid)) (\<lambda>opn.
     rbind (ok_or (Integrity ''effect claim lost attempt token'')
         (case op_active_attempt opn of
            Some attempt \<Rightarrow> if at_claim_command_id attempt = cid then Some attempt else None
          | None \<Rightarrow> None)) (\<lambda>attempt.
     rbind (ok_or (Integrity ''effect claim lost reservation'') (op_reservation opn)) (\<lambda>reservation.
     Inr \<lparr>ce_run_id = rid, ce_operation_id = oid, ce_iteration_id = op_iteration_id opn,
       ce_attempt = at_attempt attempt, ce_token = at_token attempt, ce_epoch = at_epoch attempt,
       ce_effect_class = op_effect_class opn, ce_spec = op_spec opn,
       ce_reservation = reservation\<rparr>)))"

definition claim_effect ::
    "run_env \<Rightarrow> 's store_ops \<Rightarrow> 's run_controller \<Rightarrow> claim_effect_input mutation_request \<Rightarrow>
     string \<Rightarrow> u64 \<Rightarrow> 's run_controller \<times> committed_effect command_output result" where
  "claim_effect env st c request uuid now_ms =
     with_output
       (apply_command env st c request (In_ClaimEffect (mr_input request)) ''claim_effect''
          ''effect_claimed'' now_ms False
          (claim_effect_reduce (mr_input request) (mr_command_id request)
             (dispatch_token_random uuid) now_ms))
       (committed_effect_of (mr_run_id request) (cl_operation_id (mr_input request))
          (mr_command_id request))"

definition acknowledge_effect ::
    "run_env \<Rightarrow> 's store_ops \<Rightarrow> 's run_controller \<Rightarrow> effect_callback \<Rightarrow> u64 \<Rightarrow>
     's run_controller \<times> callback_result result" where
  "acknowledge_effect env st c cb now_ms =
     run_callback env st c (ec_run_id cb) ''effect_acknowledged'' now_ms
       (acknowledge_effect_step env cb)"

definition reconcile_effect ::
    "run_env \<Rightarrow> 's store_ops \<Rightarrow> 's run_controller \<Rightarrow> reconcile_effect_input mutation_request \<Rightarrow> u64 \<Rightarrow>
     's run_controller \<times> run_command_result result" where
  "reconcile_effect env st c request now_ms =
     apply_command env st c request (In_Reconcile (mr_input request)) ''reconcile_effect''
       ''effect_reconciled'' now_ms False (reconcile_effect_reduce env (mr_input request))"

section \<open>Children and messages\<close>

definition admit_child ::
    "run_env \<Rightarrow> 's store_ops \<Rightarrow> 's run_controller \<Rightarrow> admit_child_input mutation_request \<Rightarrow>
     string \<Rightarrow> u64 \<Rightarrow> 's run_controller \<times> child_run command_output result" where
  "admit_child env st c request uuid now_ms =
     with_output
       (apply_command env st c request (In_AdmitChild (mr_input request)) ''admit_child''
          ''child_admitted'' now_ms False
          (admit_child_reduce (mr_input request) (dispatch_token_random uuid)))
       (\<lambda>command. ok_or (Integrity ''child admission lost child state'')
          (fmlookup (children (run (res_snapshot command))) (ad_child_id (mr_input request))))"

definition child_callback ::
    "run_env \<Rightarrow> 's store_ops \<Rightarrow> 's run_controller \<Rightarrow> child_callback_input \<Rightarrow> u64 \<Rightarrow>
     's run_controller \<times> callback_result result" where
  "child_callback env st c cb now_ms =
     run_callback env st c (cb_run_id cb) ''child_transitioned'' now_ms (child_callback_step cb)"

definition accept_message ::
    "run_env \<Rightarrow> 's store_ops \<Rightarrow> 's run_controller \<Rightarrow> accept_message_input mutation_request \<Rightarrow> u64 \<Rightarrow>
     's run_controller \<times> run_command_result result" where
  "accept_message env st c request now_ms =
     apply_command env st c request (In_AcceptMessage (mr_input request)) ''accept_message''
       ''message_accepted'' now_ms False (accept_message_reduce (mr_input request))"

definition transition_message ::
    "run_env \<Rightarrow> 's store_ops \<Rightarrow> 's run_controller \<Rightarrow> transition_message_input mutation_request \<Rightarrow> u64 \<Rightarrow>
     's run_controller \<times> run_command_result result" where
  "transition_message env st c request now_ms =
     apply_command env st c request (In_TransitionMessage (mr_input request)) ''transition_message''
       ''message_transitioned'' now_ms False (transition_message_reduce (mr_input request))"

section \<open>Refinement\<close>

definition propose_strategy ::
    "run_env \<Rightarrow> 's store_ops \<Rightarrow> 's run_controller \<Rightarrow> propose_strategy_input mutation_request \<Rightarrow> u64 \<Rightarrow>
     's run_controller \<times> run_command_result result" where
  "propose_strategy env st c request now_ms =
     apply_command env st c request (In_ProposeStrategy (mr_input request)) ''propose_strategy''
       ''strategy_proposed'' now_ms False (propose_strategy_reduce (mr_input request))"

definition apply_strategy ::
    "run_env \<Rightarrow> 's store_ops \<Rightarrow> 's run_controller \<Rightarrow> u64 mutation_request \<Rightarrow> u64 \<Rightarrow>
     's run_controller \<times> run_command_result result" where
  "apply_strategy env st c request now_ms =
     apply_command env st c request (In_ApplyStrategy (mr_input request)) ''apply_strategy''
       ''strategy_applied'' now_ms False (apply_strategy_reduce (mr_input request))"

definition propose_workflow ::
    "run_env \<Rightarrow> 's store_ops \<Rightarrow> 's run_controller \<Rightarrow> propose_workflow_input mutation_request \<Rightarrow> u64 \<Rightarrow>
     's run_controller \<times> run_command_result result" where
  "propose_workflow env st c request now_ms =
     apply_command env st c request (In_ProposeWorkflow (mr_input request)) ''propose_workflow''
       ''workflow_proposed'' now_ms False (propose_workflow_reduce (mr_input request))"

definition validate_workflow ::
    "run_env \<Rightarrow> 's store_ops \<Rightarrow> 's run_controller \<Rightarrow> validate_workflow_input mutation_request \<Rightarrow> u64 \<Rightarrow>
     's run_controller \<times> run_command_result result" where
  "validate_workflow env st c request now_ms =
     apply_command env st c request (In_ValidateWorkflow (mr_input request)) ''validate_workflow''
       ''workflow_validated'' now_ms False (validate_workflow_reduce (mr_input request))"

definition set_workflow_revision ::
    "run_env \<Rightarrow> 's store_ops \<Rightarrow> 's run_controller \<Rightarrow> u64 mutation_request \<Rightarrow> u64 \<Rightarrow> bool \<Rightarrow>
     's run_controller \<times> run_command_result result" where
  "set_workflow_revision env st c request now_ms rollback =
     apply_command env st c request (In_SetWorkflow (mr_input request))
       (if rollback then ''rollback_workflow'' else ''apply_workflow'')
       (if rollback then ''workflow_rolled_back'' else ''workflow_applied'') now_ms False
       (set_workflow_revision_reduce rollback (mr_input request))"

definition apply_workflow ::
    "run_env \<Rightarrow> 's store_ops \<Rightarrow> 's run_controller \<Rightarrow> u64 mutation_request \<Rightarrow> u64 \<Rightarrow>
     's run_controller \<times> run_command_result result" where
  "apply_workflow env st c request now_ms = set_workflow_revision env st c request now_ms False"

definition rollback_workflow ::
    "run_env \<Rightarrow> 's store_ops \<Rightarrow> 's run_controller \<Rightarrow> u64 mutation_request \<Rightarrow> u64 \<Rightarrow>
     's run_controller \<times> run_command_result result" where
  "rollback_workflow env st c request now_ms = set_workflow_revision env st c request now_ms True"

end
