(* ===== verification/Run_Transitions.thy ===== *)
theory Run_Transitions
  imports Run_Commands
begin

text \<open>
  The Run as a state machine: \<open>run_step\<close> has one rule per reducer and callback step, and
  the frame lemmas say which fields each of them may touch. The invariants of the other
  theories are proved over these frames, so that a reducer is only unfolded where it
  matters to the invariant.
\<close>

named_theorems frames \<open>what a reducer changes\<close>

section \<open>The step relation\<close>

inductive run_step :: "run_env \<Rightarrow> run_record \<Rightarrow> run_record \<Rightarrow> bool" for env where
  request_wake: "request_wake_reduce i r = Inr r' \<Longrightarrow> run_step env r r'"
| claim_activation: "claim_activation_reduce ci cid tok t r = Inr r' \<Longrightarrow> run_step env r r'"
| renew_activation: "renew_activation_reduce fn ms t r = Inr r' \<Longrightarrow> run_step env r r'"
| release_activation: "release_activation_reduce fn t r = Inr r' \<Longrightarrow> run_step env r r'"
| control: "apply_control a r = Inr r' \<Longrightarrow> run_step env r r'"
| begin_recovery: "begin_recovery_reduce r = Inr r' \<Longrightarrow> run_step env r r'"
| finish_recovery: "finish_recovery_reduce env rr t r = Inr r' \<Longrightarrow> run_step env r r'"
| begin_iteration: "begin_iteration_reduce ctx v tok t r = Inr r' \<Longrightarrow> run_step env r r'"
| finish_iteration:
    "finish_iteration_step env fi t r = Inr (Callback_Next r' fin) \<Longrightarrow> run_step env r r'"
| propose_harness: "propose_harness_reduce pin r = Inr r' \<Longrightarrow> run_step env r r'"
| validate_harness: "validate_harness_reduce vh r = Inr r' \<Longrightarrow> run_step env r r'"
| activate_harness: "activate_harness_reduce d r = Inr r' \<Longrightarrow> run_step env r r'"
| rollback_harness: "rollback_harness_reduce d r = Inr r' \<Longrightarrow> run_step env r r'"
| prepare_operation: "prepare_operation_reduce env po r = Inr r' \<Longrightarrow> run_step env r r'"
| claim_effect: "claim_effect_reduce cl cid tok t r = Inr r' \<Longrightarrow> run_step env r r'"
| acknowledge_effect:
    "acknowledge_effect_step env ec r = Inr (Callback_Next r' fin) \<Longrightarrow> run_step env r r'"
| reconcile_effect: "reconcile_effect_reduce env re r = Inr r' \<Longrightarrow> run_step env r r'"
| admit_child: "admit_child_reduce ad tok r = Inr r' \<Longrightarrow> run_step env r r'"
| child_callback: "child_callback_step cb r = Inr (Callback_Next r' fin) \<Longrightarrow> run_step env r r'"
| accept_message: "accept_message_reduce am r = Inr r' \<Longrightarrow> run_step env r r'"
| transition_message: "transition_message_reduce tm r = Inr r' \<Longrightarrow> run_step env r r'"
| propose_strategy: "propose_strategy_reduce ps r = Inr r' \<Longrightarrow> run_step env r r'"
| apply_strategy: "apply_strategy_reduce v r = Inr r' \<Longrightarrow> run_step env r r'"
| propose_workflow: "propose_workflow_reduce pw r = Inr r' \<Longrightarrow> run_step env r r'"
| validate_workflow: "validate_workflow_reduce vw r = Inr r' \<Longrightarrow> run_step env r r'"
| set_workflow: "set_workflow_revision_reduce rollback v r = Inr r' \<Longrightarrow> run_step env r r'"

inductive_cases run_stepE: "run_step env r r'"

lemma btree_values_ex: "list_ex P (btree_values m) \<longleftrightarrow> (\<exists>k v. fmlookup m k = Some v \<and> P v)"
  using set_btree_values [of _ m] by (simp add: list_ex_iff Bex_def) blast

lemma btree_values_all: "list_all P (btree_values m) \<longleftrightarrow> (\<forall>k v. fmlookup m k = Some v \<longrightarrow> P v)"
  using set_btree_values [of _ m] by (simp add: list_all_iff Ball_def) blast

lemmas btree_quantifiers = btree_values_ex btree_values_all

section \<open>Frames: residency\<close>

lemma checked_succ: "checked_add v 1 = Some w \<longleftrightarrow> unat w = unat v + 1" for v w :: "'a::len word"
  by (cases "LENGTH('a) = 0") (simp_all add: checked_simps)

lemma next_epoch_eq: "next_epoch v = Inr w \<longleftrightarrow> unat w = unat v + 1"
  by (simp add: next_epoch_def result_simps checked_succ)

lemma request_wake_frame [frames]:
  "request_wake_reduce i r = Inr r' \<Longrightarrow> status r = Status_Active \<and> (\<exists>w. r' = r\<lparr>wake := w\<rparr>)"
  by (auto simp: request_wake_reduce_def split: if_splits)

lemma claim_activation_frame [frames]:
  "claim_activation_reduce ci cid tok t r = Inr r' \<Longrightarrow>
     \<exists>ep x reasons. r' = r\<lparr>controller_epoch := ep, wake := wake_default, activation_lease :=
         Some \<lparr>lease_worker_id = ca_worker_id ci, lease_claim_command_id = cid, lease_epoch = ep,
           lease_token = tok, lease_expires_at_ms = x, lease_reasons = reasons\<rparr>\<rparr> \<and>
       unat ep = unat (controller_epoch r) + 1 \<and> unat x = unat t + unat (ca_lease_ms ci) \<and>
       status r = Status_Active \<and> \<not> pending_approval r \<and>
       (\<forall>l0. activation_lease r = Some l0 \<longrightarrow> lease_expires_at_ms l0 \<le> t)"
  by (auto simp: claim_activation_reduce_def result_simps next_epoch_eq checked_simps Let_def not_less
      split: if_splits)

lemma check_activation_eq:
  "check_activation r fn t = Inr () \<longleftrightarrow>
     (\<exists>l. activation_lease r = Some l \<and> lease_worker_id l = fence_worker_id fn \<and>
        lease_epoch l = fence_epoch fn \<and> lease_token l = fence_token fn \<and>
        t < lease_expires_at_ms l)"
  by (auto simp: check_activation_def result_simps)

lemma renew_activation_frame [frames]:
  "renew_activation_reduce fn ms t r = Inr r' \<Longrightarrow>
     \<exists>l x. activation_lease r = Some l \<and> lease_token l = fence_token fn \<and>
       r' = r\<lparr>activation_lease := Some (l\<lparr>lease_expires_at_ms := x\<rparr>)\<rparr>"
  by (auto simp: renew_activation_reduce_def result_simps check_activation_eq)

lemma release_activation_frame [frames]:
  "release_activation_reduce fn t r = Inr r' \<Longrightarrow>
     (\<exists>l. activation_lease r = Some l \<and> lease_token l = fence_token fn) \<and>
     r' = r\<lparr>activation_lease := None\<rparr>"
  by (auto simp: release_activation_reduce_def result_simps check_activation_eq)

lemma fence_activation_frame:
  assumes "fence_activation r = Inr r'"
  shows "\<exists>ep. r' = r\<lparr>controller_epoch := ep, activation_lease := None, wake := wake_default\<rparr> \<and>
    unat ep = unat (controller_epoch r) + (if activation_lease r = None then 0 else 1)"
proof -
  from assms obtain ep where
    "(if activation_lease r \<noteq> None then next_epoch (controller_epoch r) else Inr (controller_epoch r)) =
       Inr ep"
    and "r' = r\<lparr>controller_epoch := ep, activation_lease := None, wake := wake_default\<rparr>"
    by (simp only: fence_activation_def result_simps) blast
  then show ?thesis by (intro exI [of _ ep]) (simp add: next_epoch_eq split: if_splits)
qed

section \<open>Frames: control\<close>

text \<open>Control actions that stop the Run, and the status they leave.\<close>

fun halting :: "run_action \<Rightarrow> bool" where
  "halting Act_Pause = True"
| "halting (Act_PauseFor _) = True"
| "halting Act_Cancel = True"
| "halting Act_Reject = True"
| "halting Act_TryComplete = True"
| "halting _ = False"

lemma waiting_status_paused:
  "waiting_status w = Inr s \<Longrightarrow> s \<in> {Status_UserPaused, Status_BackOffPaused,
     Status_NoProgressPaused, Status_InfraPaused, Status_Blocked, Status_BudgetLimited}"
  by (cases w) auto

lemma halting_frame:
  assumes "apply_control a r = Inr r'" and "halting a"
  shows "\<exists>ep s sg pa. r' = r\<lparr>pending_approval := pa, status := s, stage := sg,
      controller_epoch := ep, activation_lease := None, wake := wake_default\<rparr> \<and>
    unat ep = unat (controller_epoch r) + (if activation_lease r = None then 0 else 1) \<and>
    s \<in> {Status_UserPaused, Status_BackOffPaused, Status_NoProgressPaused, Status_InfraPaused,
      Status_Blocked, Status_BudgetLimited, Status_Cancelled, Status_Complete} \<and>
    (pa \<longrightarrow> pending_approval r) \<and> sg \<in> {stage r, Stage_Idle} \<and>
    (s = Status_Complete \<longrightarrow> validate_completion r = Inr ()) \<and>
    (s \<notin> {Status_Cancelled, Status_Complete} \<longrightarrow> status r = Status_Active \<or> pending_approval r) \<and>
    (s = Status_Cancelled \<longrightarrow> \<not> is_terminal (status r))"
proof -
  from assms obtain s sg pa where
    f: "fence_activation (r\<lparr>pending_approval := pa, status := s, stage := sg\<rparr>) = Inr r'" and
    s: "s \<in> {Status_UserPaused, Status_BackOffPaused, Status_NoProgressPaused, Status_InfraPaused,
      Status_Blocked, Status_BudgetLimited, Status_Cancelled, Status_Complete}"
      "pa \<longrightarrow> pending_approval r" "sg \<in> {stage r, Stage_Idle}"
      "s = Status_Complete \<longrightarrow> validate_completion r = Inr ()"
      "s \<notin> {Status_Cancelled, Status_Complete} \<longrightarrow> status r = Status_Active \<or> pending_approval r"
      "s = Status_Cancelled \<longrightarrow> \<not> is_terminal (status r)"
  proof (cases a)
    case Act_Pause
    with assms show ?thesis
      by (intro that [of "stage r" Status_UserPaused "pending_approval r"]) (auto split: if_splits)
  next
    case (Act_PauseFor w)
    with assms obtain s where "waiting_status w = Inr s" "status r = Status_Active"
      "fence_activation (r\<lparr>status := s\<rparr>) = Inr r'"
      by (auto simp: result_simps split: if_splits)
    with waiting_status_paused show ?thesis
      by (intro that [of "stage r" s "pending_approval r"]) auto
  next
    case Act_Cancel
    with assms show ?thesis
      by (intro that [of Stage_Idle Status_Cancelled "pending_approval r"]) (auto split: if_splits)
  next
    case Act_Reject
    with assms show ?thesis
      by (intro that [of Stage_Idle Status_UserPaused False]) (auto split: if_splits)
  next
    case Act_TryComplete
    with assms show ?thesis
      by (intro that [of Stage_Idle Status_Complete "pending_approval r"]) (auto simp: result_simps)
  qed simp_all
  from fence_activation_frame [OF f] obtain ep where
    "r' = r\<lparr>pending_approval := pa, status := s, stage := sg, controller_epoch := ep,
       activation_lease := None, wake := wake_default\<rparr>"
    "unat ep = unat (controller_epoch r) + (if activation_lease r = None then 0 else 1)" by auto
  with s show ?thesis by blast
qed

lemma resume_frame [frames]:
  assumes "control_resume nb r = Inr r'"
  shows "\<exists>b p. r' = r\<lparr>budget := b, status := Status_Active\<rparr> \<and> resources_within (budget r) b \<and>
    with_reservations (usage r) (child_reserved r) = Some p \<and> resources_within p b \<and>
    status r \<in> {Status_UserPaused, Status_BackOffPaused, Status_NoProgressPaused,
      Status_InfraPaused, Status_Blocked, Status_BudgetLimited}"
proof (cases nb)
  case None
  with assms show ?thesis
    by - (rule exI [of _ "budget r"],
       auto simp: control_resume_def committed_resources_def result_simps)
next
  case (Some b)
  with assms show ?thesis
    by - (rule exI [of _ b],
       auto simp: control_resume_def committed_resources_def result_simps)
qed

definition steering_message :: "message_id \<Rightarrow> u64 \<Rightarrow> string \<Rightarrow> mail_message" where
  "steering_message m high body =
     \<lparr>msg_id = m, msg_sequence = high, msg_causation_id = None, msg_sender = ''user'',
      msg_trust_label = ''trusted'', msg_body = body, msg_state = Msg_Accepted\<rparr>"

lemma steer_frame [frames]:
  "control_steer m b r = Inr r' \<Longrightarrow>
     \<not> is_terminal (status r) \<and>
     (r' = r \<or> fmlookup (steering r) m = None \<and> (\<exists>h. r' = r\<lparr>steering_high_water := h,
        steering := fmupd m (steering_message m h b) (steering r)\<rparr> \<and>
        unat h = unat (steering_high_water r) + 1))"
  by (cases "fmlookup (steering r) m")
    (auto simp: control_steer_def result_simps checked_succ steering_message_def split: if_splits)

text \<open>What is left of the control actions.\<close>

lemma control_cases:
  assumes "apply_control a r = Inr r'"
  obtains (halt) "halting a"
  | (resume) nb where "a = Act_Resume nb" "control_resume nb r = Inr r'"
  | (steer) m b where "a = Act_Steer m b" "control_steer m b r = Inr r'"
  | (approve) "a = Act_Approve" "pending_approval r"
      "r' = r\<lparr>pending_approval := False, stage := Stage_Idle\<rparr>"
  | (report) "a = Act_ClaimTerminalReport" "is_terminal (status r)" "\<not> terminal_report_claimed r"
      "\<not> has_unsettled_work r" "r' = r\<lparr>terminal_report_claimed := True\<rparr>"
  | (tombstone) "a = Act_Tombstone" "is_terminal (status r)" "\<not> has_unsettled_work r"
      "r' = r\<lparr>status := Status_Tombstoned, stage := Stage_Idle\<rparr>"
proof (cases a)
  case (Act_Resume nb)
  with assms show ?thesis by (intro resume) simp_all
next
  case (Act_Steer m b)
  with assms show ?thesis by (intro steer) simp_all
next
  case Act_Approve
  with assms show ?thesis by (intro approve) (simp_all split: if_splits)
next
  case Act_ClaimTerminalReport
  with assms show ?thesis by (intro report) (simp_all split: if_splits)
next
  case Act_Tombstone
  with assms show ?thesis by (intro tombstone) (simp_all split: if_splits)
qed (rule halt, simp)+

section \<open>Frames: recovery\<close>

definition fence_dispatching :: "operation \<Rightarrow> operation" where
  "fence_dispatching opn =
     (if op_state opn = Op_Dispatching then opn\<lparr>op_state := Op_Uncertain\<rparr> else opn)"

definition prior_status :: "run_record \<Rightarrow> run_status option" where
  "prior_status r =
     (if status r \<in> {Status_Active, Status_RecoveryRequired} then recovery_prior_status r
      else case recovery_prior_status r of None \<Rightarrow> Some (status r) | Some p \<Rightarrow> Some p)"

lemma remember_status_eq: "remember_status r = r\<lparr>recovery_prior_status := prior_status r\<rparr>"
  by (simp add: remember_status_def prior_status_def)

lemma begin_recovery_frame [frames]:
  "begin_recovery_reduce r = Inr r' \<Longrightarrow>
     \<exists>ep. r' = r\<lparr>recovery_prior_status := prior_status r, controller_epoch := ep,
        activation_lease := None, wake := wake_default, status := Status_RecoveryRequired,
        stage := Stage_Recovering, operations := fmmap fence_dispatching (operations r)\<rparr> \<and>
       unat ep = unat (controller_epoch r) + 1 \<and> status r \<noteq> Status_Tombstoned \<and>
       (is_terminal (status r) \<longrightarrow> has_unsettled_work r)"
  by (auto simp: begin_recovery_reduce_def result_simps next_epoch_eq remember_status_eq
      fence_dispatching_def [abs_def] has_unsettled_work_def split: if_splits)

lemma enter_recovery_frame:
  assumes "enter_recovery r = Inr r'"
  shows "\<exists>ep. r' = r\<lparr>recovery_prior_status := prior_status r, status := Status_RecoveryRequired,
      stage := Stage_Recovering, controller_epoch := ep, activation_lease := None,
      wake := wake_default\<rparr> \<and>
    unat ep = unat (controller_epoch r) + (if activation_lease r = None then 0 else 1)"
  using fence_activation_frame [OF assms [unfolded enter_recovery_def]]
  by (auto simp: remember_status_eq)

definition charged :: "run_record \<Rightarrow> resource_vector \<Rightarrow> bool" where
  "charged r u \<longleftrightarrow> u = usage r \<or>
     (\<exists>d p. add_usage (usage r) d = Some u \<and> with_reservations u (child_reserved r) = Some p \<and>
        resources_within p (budget r))"

lemma charge_abandoned_frame:
  assumes "charge_abandoned iid r = Inr r'"
  shows "\<exists>u un. r' = r\<lparr>usage := u, usage_unknown := un\<rparr> \<and> charged r u \<and>
    usage_unknown r |\<subseteq>| un"
proof (cases "settled_in iid r = []")
  case True
  with assms have "r' = r\<lparr>usage := usage r, usage_unknown := usage_unknown r\<rparr>" "charged r (usage r)"
    by (simp_all add: charge_abandoned_def charged_def)
  then show ?thesis by blast
next
  case False
  with assms obtain d un p u where "add_usage (usage r) d = Some u"
    "with_reservations u (child_reserved r) = Some p" "resources_within p (budget r)"
    "r' = r\<lparr>usage := u, usage_unknown := usage_unknown r |\<union>| un\<rparr>"
    by (auto simp: charge_abandoned_def result_simps bind_eq_Some_conv split: if_splits)
  then show ?thesis by (auto simp: charged_def)
qed

definition abandon_operation :: "iteration_id \<Rightarrow> operation \<Rightarrow> operation" where
  "abandon_operation iid opn =
     (if op_iteration_id opn = iid \<and> op_state opn \<in> {Op_Prepared, Op_FailedRetryable}
      then opn\<lparr>op_state := Op_Abandoned, op_active_attempt := None,
        op_terminal_result_digest := None\<rparr> else opn)"

definition abandoned_manifest :: "u64 \<Rightarrow> string \<Rightarrow> iteration_manifest \<Rightarrow> iteration_manifest" where
  "abandoned_manifest t digest i = i\<lparr>it_driver_terminal_success := False,
     it_summary := Some ''abandoned during durable recovery'',
     it_verdict := Some Unverifiable, it_finished_at_ms := Some t,
     it_result_digest := Some digest, it_recovery_abandoned := True\<rparr>"

lemma abandon_iteration_frame:
  assumes "abandon_iteration env t i r = Inr r'"
  shows "\<exists>u un digest. r' = r\<lparr>active_iteration := None, usage := u, usage_unknown := un,
      operations := fmmap (abandon_operation (it_iteration_id i)) (operations r),
      run_iterations := pop_front_while MAX_ITERATION_SUMMARIES
        (run_iterations r @ [abandoned_manifest t digest i])\<rparr> \<and>
    charged r u \<and> usage_unknown r |\<subseteq>| un \<and> \<not> has_unsettled_operations r'"
proof -
  from assms obtain r1 digest where
    c: "charge_abandoned (it_iteration_id i) (r\<lparr>active_iteration := None\<rparr>) = Inr r1" and
    u: "\<not> has_unsettled_operations (abandon_operations (it_iteration_id i) r1)" and
    r': "r' = push_iteration (abandon_operations (it_iteration_id i) r1)
      (abandoned_manifest t digest i)"
    by (auto simp: abandon_iteration_def result_simps Let_def abandoned_manifest_def)
  from charge_abandoned_frame [OF c] obtain u un where
    r1: "r1 = r\<lparr>active_iteration := None, usage := u, usage_unknown := un\<rparr>" "charged r u"
      "usage_unknown r |\<subseteq>| un"
    by (auto simp: charged_def)
  have "\<not> has_unsettled_operations r'"
    using u by (simp add: r' push_iteration_def has_unsettled_operations_def)
  with r1 show ?thesis unfolding r'
    by (intro exI [of _ digest] exI [of _ un] exI [of _ u])
      (simp add: push_iteration_def abandon_operations_def abandon_operation_def [abs_def])
qed

definition recovered_status :: "run_record \<Rightarrow> recovery_resolution \<Rightarrow> run_status" where
  "recovered_status r rr =
     (case recovery_prior_status r of
        Some s \<Rightarrow> s | None \<Rightarrow> if rr_resume rr then Status_Active else Status_UserPaused)"

lemma finish_recovery_cases:
  assumes "finish_recovery_reduce env rr t r = Inr r'"
  obtains (idle) "active_iteration r = None"
      "r' = r\<lparr>status := recovered_status r rr, recovery_prior_status := None, stage := Stage_Idle\<rparr>"
  | (abandon) i u un digest where "active_iteration r = Some i" "rr_abandon_active_iteration rr"
      "r' = r\<lparr>active_iteration := None, usage := u, usage_unknown := un,
        operations := fmmap (abandon_operation (it_iteration_id i)) (operations r),
        run_iterations := pop_front_while MAX_ITERATION_SUMMARIES
          (run_iterations r @ [abandoned_manifest t digest i]),
        status := recovered_status r rr, recovery_prior_status := None, stage := Stage_Idle\<rparr>"
      "charged r u" "usage_unknown r |\<subseteq>| un" "\<not> has_unsettled_operations r'"
proof (cases "active_iteration r")
  case None
  with assms idle show ?thesis
    by (simp add: finish_recovery_reduce_def result_simps recovered_status_def)
next
  case (Some i)
  with assms obtain r1 where a: "abandon_iteration env t i r = Inr r1"
    and rr: "rr_abandon_active_iteration rr"
    and r': "r' = r1\<lparr>status := recovered_status r1 rr, recovery_prior_status := None,
      stage := Stage_Idle\<rparr>"
    by (auto simp: finish_recovery_reduce_def result_simps recovered_status_def)
  from abandon_iteration_frame [OF a] obtain u un digest where
    r1: "r1 = r\<lparr>active_iteration := None, usage := u, usage_unknown := un,
      operations := fmmap (abandon_operation (it_iteration_id i)) (operations r),
      run_iterations := pop_front_while MAX_ITERATION_SUMMARIES
        (run_iterations r @ [abandoned_manifest t digest i])\<rparr>"
    and rest: "charged r u" "usage_unknown r |\<subseteq>| un" "\<not> has_unsettled_operations r1" by blast
  have "\<not> has_unsettled_operations r'"
    using rest(3) by (simp add: r' has_unsettled_operations_def)
  with Some rr rest(1,2) show ?thesis
    by (intro abandon [of i digest un u]) (simp_all add: r' r1 recovered_status_def)
qed

lemma finish_recovery_guard:
  "finish_recovery_reduce env rr t r = Inr r' \<Longrightarrow>
     status r = Status_RecoveryRequired \<and> stage r = Stage_Recovering \<and> \<not> has_active_children r \<and>
     (\<forall>k opn. fmlookup (operations r) k = Some opn \<longrightarrow> op_state opn \<notin> {Op_Dispatching, Op_Uncertain})"
  by (simp add: finish_recovery_reduce_def result_simps btree_quantifiers)

section \<open>Frames: iterations\<close>

lemma begin_iteration_frame [frames]:
  "begin_iteration_reduce ctx v tok t r = Inr r' \<Longrightarrow>
     \<exists>n. r' = r\<lparr>next_iteration_id := n,
        active_iteration := Some \<lparr>it_iteration_id = next_iteration_id r, it_token = tok,
          it_context = ctx, it_started_at_ms = t, it_driver_terminal_success = False,
          it_summary = None, it_evidence = [], it_gates = fmempty, it_verdict = None,
          it_finished_at_ms = None, it_result_digest = None, it_recovery_abandoned = False\<rparr>,
        stage := Stage_Executing\<rparr> \<and>
       unat n = unat (next_iteration_id r) + 1 \<and> status r = Status_Active \<and>
       active_iteration r = None"
  by (auto simp: begin_iteration_reduce_def result_simps checked_succ split: if_splits)

definition finished_manifest ::
    "finish_iteration_input \<Rightarrow> u64 \<Rightarrow> string \<Rightarrow> iteration_manifest \<Rightarrow> iteration_manifest" where
  "finished_manifest cb t digest i = i\<lparr>it_driver_terminal_success := fi_driver_terminal_success cb,
     it_summary := Some (fi_summary cb), it_evidence := fi_evidence cb, it_gates := fi_gates cb,
     it_verdict := Some (fi_verdict cb), it_finished_at_ms := Some t,
     it_result_digest := Some digest\<rparr>"

lemma finish_accept_frame:
  assumes "finish_iteration_accept fi digest t i r = Inr (Callback_Next r' fin)"
  shows "\<exists>u un p. r' = r\<lparr>active_iteration := None, usage := u,
        usage_unknown := usage_unknown r |\<union>| un, verdict := Some (fi_verdict fi),
        stage := (if fi_verdict fi = Achieved then Stage_Verifying else Stage_Refining),
        run_iterations := pop_front_while MAX_ITERATION_SUMMARIES
          (run_iterations r @ [finished_manifest fi t digest i])\<rparr> \<and>
      add_usage (usage r) (fi_usage fi) = Some u \<and>
      with_reservations u (child_reserved r) = Some p \<and> resources_within p (budget r) \<and>
      (\<forall>k opn. fmlookup (operations r) k = Some opn \<longrightarrow> op_iteration_id opn = fi_iteration_id fi \<longrightarrow>
         op_settled opn) \<and>
      fin = Some (finished_manifest fi t digest i)"
proof -
  from assms obtain u un p where
    "session_turn_usage (fi_iteration_id fi) (fi_usage fi) r = Inr un"
    "add_usage (usage r) (fi_usage fi) = Some u" "with_reservations u (child_reserved r) = Some p"
    "resources_within p (budget r)"
    "\<forall>k opn. fmlookup (operations r) k = Some opn \<longrightarrow> op_iteration_id opn = fi_iteration_id fi \<longrightarrow>
       op_settled opn"
    "fin = Some (finished_manifest fi t digest i)"
    "r' = push_iteration (r\<lparr>active_iteration := None, usage := u,
        usage_unknown := usage_unknown r |\<union>| un, verdict := Some (fi_verdict fi),
        stage := (if fi_verdict fi = Achieved then Stage_Verifying else Stage_Refining)\<rparr>)
      (finished_manifest fi t digest i)"
    unfolding finish_iteration_accept_def finished_manifest_def [symmetric]
    by (fastforce simp: result_simps bind_eq_Some_conv btree_quantifiers Let_def)
  then show ?thesis
    by (intro exI [of _ p] exI [of _ un] exI [of _ u]) (simp add: push_iteration_def)
qed

lemma finish_iteration_frame [frames]:
  assumes "finish_iteration_step env fi t r = Inr (Callback_Next r' fin)"
  shows "\<exists>i digest. active_iteration r = Some i \<and> it_iteration_id i = fi_iteration_id fi \<and>
    it_token i = fi_token fi \<and> fi_epoch fi = controller_epoch r \<and> status r = Status_Active \<and>
    (\<forall>j \<in> set (run_iterations r). it_iteration_id j \<noteq> fi_iteration_id fi) \<and>
    finish_iteration_accept fi digest t i r = Inr (Callback_Next r' fin)"
proof -
  from assms obtain digest where
    "find (\<lambda>i. it_iteration_id i = fi_iteration_id fi) (run_iterations r) = None"
    "fi_epoch fi = controller_epoch r" "status r = Status_Active"
    "\<exists>i. active_iteration r = Some i \<and> it_iteration_id i = fi_iteration_id fi \<and>
       it_token i = fi_token fi \<and> finish_iteration_accept fi digest t i r = Inr (Callback_Next r' fin)"
    by (auto simp: finish_iteration_step_def result_simps split: option.splits if_splits)
  then show ?thesis by (auto simp: find_None_iff)
qed

section \<open>Frames: Harness governance\<close>

lemma harness_frames [frames]:
  "propose_harness_reduce pin r = Inr r' \<Longrightarrow> \<exists>h. r' = r\<lparr>harness := h\<rparr>"
  "validate_harness_reduce vh r = Inr r' \<Longrightarrow> \<exists>h. r' = r\<lparr>harness := h\<rparr>"
  "activate_harness_reduce d r = Inr r' \<Longrightarrow> \<exists>h. r' = r\<lparr>harness := h\<rparr>"
  "rollback_harness_reduce d r = Inr r' \<Longrightarrow> \<exists>h. r' = r\<lparr>harness := h\<rparr>"
  by (auto simp: propose_harness_reduce_def validate_harness_reduce_def activate_harness_reduce_def
      rollback_harness_reduce_def set_proposals_def result_simps)

section \<open>Frames: effects\<close>

definition prepared_operation :: "prepare_operation_input \<Rightarrow> string \<Rightarrow> operation" where
  "prepared_operation po digest =
     \<lparr>op_id = po_operation_id po, op_iteration_id = po_iteration_id po,
      op_effect_class = po_effect_class po, op_spec = po_spec po, op_spec_digest = digest,
      op_state = Op_Prepared, op_next_attempt = 1, op_active_attempt = None,
      op_reservation = None, op_receipt = None, op_terminal_result_digest = None\<rparr>"

lemma prepare_operation_frame [frames]:
  "prepare_operation_reduce env po r = Inr r' \<Longrightarrow>
     status r = Status_Active \<and>
     (\<exists>i. active_iteration r = Some i \<and> it_iteration_id i = po_iteration_id po) \<and>
     validate_effect_capability r (po_spec po) = Inr () \<and>
     (r' = r \<or> fmlookup (operations r) (po_operation_id po) = None \<and>
        (\<exists>digest. r' = r\<lparr>operations := fmupd (po_operation_id po) (prepared_operation po digest)
           (operations r)\<rparr>))"
  by (cases "fmlookup (operations r) (po_operation_id po)")
    (auto simp: prepare_operation_reduce_def result_simps prepared_operation_def split: if_splits)

definition claimed_operation ::
    "claim_effect_input \<Rightarrow> command_id \<Rightarrow> dispatch_token \<Rightarrow> controller_epoch \<Rightarrow> u32 \<Rightarrow> operation \<Rightarrow>
     operation" where
  "claimed_operation cl cid tok epoch following opn =
     opn\<lparr>op_next_attempt := following,
       op_active_attempt := Some \<lparr>at_attempt = op_next_attempt opn, at_claim_command_id = cid,
         at_token = tok, at_epoch = epoch\<rparr>,
       op_terminal_result_digest := None, op_reservation := Some (cl_reservation cl),
       op_state := Op_Dispatching\<rparr>"

lemma claim_effect_frame [frames]:
  assumes "claim_effect_reduce cl cid tok t r = Inr r'"
  shows "\<exists>opn following i. fmlookup (operations r) (cl_operation_id cl) = Some opn \<and>
    r' = r\<lparr>operations := fmupd (cl_operation_id cl)
      (claimed_operation cl cid tok (controller_epoch r) following opn) (operations r)\<rparr> \<and>
    unat following = unat (op_next_attempt opn) + 1 \<and> status r = Status_Active \<and>
    active_iteration r = Some i \<and> it_iteration_id i = op_iteration_id opn \<and>
    op_state opn \<in> {Op_Prepared, Op_FailedRetryable} \<and>
    (op_effect_class opn = NonRepeatable \<longrightarrow> op_next_attempt opn \<le> 1) \<and>
    \<not> is_zero (cl_reservation cl) \<and>
    check_claim_fence r (cl_activation cl) t = Inr () \<and>
    claim_budget_ok r (cl_operation_id cl) (cl_reservation cl) = Inr ()"
proof -
  have s: "status r = Status_Active" "check_claim_fence r (cl_activation cl) t = Inr ()"
    using assms by (simp_all add: claim_effect_reduce_def result_simps)
  obtain opn where o: "fmlookup (operations r) (cl_operation_id cl) = Some opn"
    using assms s by (cases "fmlookup (operations r) (cl_operation_id cl)")
      (simp_all add: claim_effect_reduce_def ok_or_def)
  obtain i where i: "active_iteration r = Some i"
    using assms s o by (cases "active_iteration r") (simp_all add: claim_effect_reduce_def ok_or_def)
  have g: "it_iteration_id i = op_iteration_id opn" "op_state opn \<in> {Op_Prepared, Op_FailedRetryable}"
    "op_effect_class opn = NonRepeatable \<longrightarrow> op_next_attempt opn \<le> 1" "\<not> is_zero (cl_reservation cl)"
    "\<not> turn_reservation_invalid (op_spec opn) (cl_reservation cl)"
    "claim_budget_ok r (cl_operation_id cl) (cl_reservation cl) = Inr ()"
    using assms s o i by (simp_all add: claim_effect_reduce_def result_simps ok_or_def not_less)
  from assms s o i have "\<exists>following. checked_add (op_next_attempt opn) 1 = Some following \<and>
      r\<lparr>operations := fmupd (cl_operation_id cl)
        (claimed_operation cl cid tok (controller_epoch r) following opn) (operations r)\<rparr> = r'"
    by (simp add: claim_effect_reduce_def result_simps claimed_operation_def)
  then obtain following where "unat following = unat (op_next_attempt opn) + 1"
    "r' = r\<lparr>operations := fmupd (cl_operation_id cl)
      (claimed_operation cl cid tok (controller_epoch r) following opn) (operations r)\<rparr>"
    by (auto simp: checked_succ)
  with s o i g show ?thesis by blast
qed

lemma acknowledge_cases:
  assumes "acknowledge_effect_step env ec r = Inr (Callback_Next r' fin)"
  obtains opn attempt digest opn' recover where
    "fmlookup (operations r) (ec_operation_id ec) = Some opn"
    "op_active_attempt opn = Some attempt" "attempt_matches ec opn attempt"
    "op_terminal_result_digest opn = None" "ec_epoch ec = controller_epoch r"
    "canonical_digest env (Dig_Outcome (ec_outcome ec)) = Inr digest"
    "acknowledge_outcome env (budget r) (ec_outcome ec) digest opn = Inr (opn', recover)"
    "if recover then enter_recovery (r\<lparr>operations :=
        fmupd (ec_operation_id ec) opn' (operations r)\<rparr>) = Inr r'
     else r' = r\<lparr>operations := fmupd (ec_operation_id ec) opn' (operations r)\<rparr>"
proof -
  from assms obtain opn digest where
    o: "fmlookup (operations r) (ec_operation_id ec) = Some opn" "ec_epoch ec = controller_epoch r"
      "canonical_digest env (Dig_Outcome (ec_outcome ec)) = Inr digest"
    by (auto simp: acknowledge_effect_step_def result_simps)
  with assms obtain attempt where
    a: "op_active_attempt opn = Some attempt" "op_terminal_result_digest opn = None"
      "attempt_matches ec opn attempt"
    by (cases "op_active_attempt opn"; cases "op_terminal_result_digest opn")
      (simp_all add: acknowledge_effect_step_def result_simps split: if_splits)
  obtain opn' recover where
    p: "acknowledge_outcome env (budget r) (ec_outcome ec) digest opn = Inr (opn', recover)"
    using assms o a by (cases "acknowledge_outcome env (budget r) (ec_outcome ec) digest opn")
      (auto simp: acknowledge_effect_step_def ok_or_def)
  then have "if recover then enter_recovery (r\<lparr>operations :=
        fmupd (ec_operation_id ec) opn' (operations r)\<rparr>) = Inr r'
     else r' = r\<lparr>operations := fmupd (ec_operation_id ec) opn' (operations r)\<rparr>"
    using assms o a
    by (cases recover) (simp_all add: acknowledge_effect_step_def result_simps ok_or_def Let_def)
  with o a p show ?thesis by (intro that)
qed

text \<open>What an acknowledgement may do to its operation.\<close>

lemma operation_update_order:
  "opn\<lparr>op_state := s, op_terminal_result_digest := d\<rparr> =
     opn\<lparr>op_receipt := op_receipt opn, op_terminal_result_digest := d, op_state := s\<rparr>"
  by simp

lemma acknowledge_applied:
  assumes "acknowledge_outcome env b (Outcome_Applied receipt) digest opn = Inr (opn', recover)"
  shows "opn' = opn\<lparr>op_receipt := Some receipt, op_terminal_result_digest := Some digest,
      op_state := (if recover then Op_Uncertain else Op_Acknowledged)\<rparr>"
  using assms by (auto simp: acknowledge_outcome_def result_simps Let_def)

lemma acknowledge_not_applied:
  assumes "acknowledge_outcome env b oc digest opn = Inr (opn', recover)"
    and "\<forall>receipt. oc \<noteq> Outcome_Applied receipt"
  shows "\<exists>s. opn' = opn\<lparr>op_state := s, op_terminal_result_digest := Some digest\<rparr> \<and>
    (recover \<longleftrightarrow> s = Op_Uncertain) \<and> s \<in> {Op_Uncertain, Op_FailedRetryable, Op_Prepared} \<and>
    (op_effect_class opn = NonRepeatable \<longrightarrow> recover)"
  using assms
  by (cases oc; cases recover) (auto simp: acknowledge_outcome_def result_simps Let_def)

lemma acknowledge_outcome_frame:
  assumes "acknowledge_outcome env b oc digest opn = Inr (opn', recover)"
  shows "\<exists>s rc. opn' = opn\<lparr>op_receipt := rc, op_terminal_result_digest := Some digest, op_state := s\<rparr> \<and>
    (recover \<longleftrightarrow> s = Op_Uncertain) \<and>
    s \<in> {Op_Acknowledged, Op_Uncertain, Op_FailedRetryable, Op_Prepared} \<and>
    (s \<in> {Op_FailedRetryable, Op_Prepared} \<longrightarrow> op_effect_class opn \<noteq> NonRepeatable)"
proof (cases "\<exists>receipt. oc = Outcome_Applied receipt")
  case True
  then obtain receipt where oc: "oc = Outcome_Applied receipt" ..
  with acknowledge_applied [of env b receipt digest opn opn' recover] assms show ?thesis
    by (intro exI [of _ "Some receipt"] exI [of _ "if recover then Op_Uncertain else Op_Acknowledged"])
      simp
next
  case False
  with acknowledge_not_applied [OF assms] show ?thesis
    unfolding operation_update_order by blast
qed

lemma reconcile_operation_frame:
  assumes "reconcile_operation env b d opn = Inr opn'"
  shows "\<exists>s rc dg. opn' = opn\<lparr>op_receipt := rc, op_terminal_result_digest := dg, op_state := s\<rparr> \<and>
    s \<in> {Op_Reconciled, Op_Abandoned, Op_Uncertain}"
proof (cases d)
  case (Decision_Applied receipt)
  with assms show ?thesis
    by (intro exI [of _ "op_state opn'"] exI [of _ "op_terminal_result_digest opn'"]
          exI [of _ "Some receipt"])
      (auto simp: reconcile_operation_def result_simps split: if_splits)
next
  case Decision_NotApplied
  with assms show ?thesis
    by (intro exI [of _ Op_Abandoned] exI [of _ "op_terminal_result_digest opn"]
          exI [of _ "op_receipt opn"])
      (auto simp: reconcile_operation_def result_simps split: if_splits)
next
  case (Decision_Unknown m)
  with assms show ?thesis
    by (intro exI [of _ Op_Uncertain] exI [of _ "op_terminal_result_digest opn"]
          exI [of _ "op_receipt opn"])
      (auto simp: reconcile_operation_def result_simps split: if_splits)
qed

lemma reconcile_effect_frame [frames]:
  "reconcile_effect_reduce env re r = Inr r' \<Longrightarrow>
     \<exists>opn opn'. fmlookup (operations r) (re_operation_id re) = Some opn \<and>
       op_state opn = Op_Uncertain \<and> status r = Status_RecoveryRequired \<and>
       reconcile_operation env (budget r) (re_decision re) (opn\<lparr>op_active_attempt := None\<rparr>) =
         Inr opn' \<and>
       r' = r\<lparr>operations := fmupd (re_operation_id re) opn' (operations r)\<rparr>"
  by (auto simp: reconcile_effect_reduce_def result_simps split: if_splits)

section \<open>Frames: children and messages\<close>

definition admitted_child :: "admit_child_input \<Rightarrow> dispatch_token \<Rightarrow> child_run" where
  "admitted_child ad tok =
     \<lparr>ch_id = ad_child_id ad, ch_state = Child_Admitted, ch_iteration_id = ad_iteration_id ad,
      ch_callback_token = tok, ch_reservation = ad_reservation ad, ch_settlement = None,
      ch_workspace_isolation = ad_workspace_isolation ad,
      ch_completion_policy = ad_completion_policy ad, ch_artifacts = []\<rparr>"

lemma admit_child_frame [frames]:
  "admit_child_reduce ad tok r = Inr r' \<Longrightarrow>
     status r = Status_Active \<and>
     (r' = r \<or> fmlookup (children r) (ad_child_id ad) = None \<and>
       (\<exists>reserved p. r' = r\<lparr>child_reserved := reserved,
          children := fmupd (ad_child_id ad) (admitted_child ad tok) (children r)\<rparr> \<and>
          add_reservation (child_reserved r) (ad_reservation ad) = Some reserved \<and>
          with_reservations (usage r) reserved = Some p \<and> resources_within p (budget r)))"
  by (cases "fmlookup (children r) (ad_child_id ad)")
    (auto simp: admit_child_reduce_def result_simps admitted_child_def split: if_splits)

lemma settle_child_cases:
  assumes "settle_child cb child r = Inr r'"
  obtains (running) "cb_settlement cb = None"
      "r' = r\<lparr>children := fmupd (cb_child_id cb)
        (child\<lparr>ch_state := cb_state cb, ch_artifacts := cb_artifacts cb\<rparr>) (children r)\<rparr>"
  | (settled) settlement remaining u p where "cb_settlement cb = Some settlement"
      "r' = r\<lparr>child_reserved := remaining, usage := u,
        children := fmupd (cb_child_id cb) (child\<lparr>ch_settlement := Some settlement,
          ch_state := cb_state cb, ch_artifacts := cb_artifacts cb\<rparr>) (children r)\<rparr>"
      "resources_within settlement (ch_reservation child)"
      "subtract_reservation (child_reserved r) (ch_reservation child) = Some remaining"
      "add_usage (usage r) settlement = Some u" "with_reservations u remaining = Some p"
      "resources_within p (budget r)"
proof (cases "cb_settlement cb")
  case None
  with assms running show ?thesis by (simp add: settle_child_def)
next
  case (Some settlement)
  with assms settled show ?thesis by (auto simp: settle_child_def result_simps)
qed

lemma child_callback_frame:
  assumes "child_callback_step cb r = Inr (Callback_Next r' fin)"
  shows "\<exists>child. fmlookup (children r) (cb_child_id cb) = Some child \<and>
    cb_epoch cb = controller_epoch r \<and> ch_iteration_id child = cb_iteration_id cb \<and>
    ch_callback_token child = cb_token cb \<and> \<not> child_is_terminal (ch_state child) \<and>
    cb_state cb \<notin> {Child_Unknown, Child_Admitted} \<and>
    (child_is_terminal (cb_state cb) \<longleftrightarrow> cb_settlement cb \<noteq> None) \<and>
    settle_child cb child r = Inr r'"
proof -
  from assms obtain child where c: "fmlookup (children r) (cb_child_id cb) = Some child"
    and "cb_epoch cb = controller_epoch r"
    by (auto simp: child_callback_step_def result_simps)
  moreover from assms c have "ch_iteration_id child = cb_iteration_id cb"
    "ch_callback_token child = cb_token cb" "\<not> child_is_terminal (ch_state child)"
    "cb_state cb \<notin> {Child_Unknown, Child_Admitted}"
    "child_is_terminal (cb_state cb) \<longleftrightarrow> cb_settlement cb \<noteq> None" "settle_child cb child r = Inr r'"
    by (simp_all add: child_callback_step_def result_simps split: if_splits) auto
  ultimately show ?thesis by blast
qed

definition accepted_message :: "accept_message_input \<Rightarrow> u64 \<Rightarrow> mail_message" where
  "accepted_message am n =
     \<lparr>msg_id = am_message_id am, msg_sequence = n, msg_causation_id = am_causation_id am,
      msg_sender = am_sender am, msg_trust_label = am_trust_label am, msg_body = am_body am,
      msg_state = Msg_Accepted\<rparr>"

lemma accept_message_frame [frames]:
  "accept_message_reduce am r = Inr r' \<Longrightarrow>
     \<not> is_terminal (status r) \<and>
     (r' = r \<or> fmlookup (mailbox r) (am_message_id am) = None \<and>
       (\<exists>n. r' = r\<lparr>next_message_sequence := n,
          mailbox := fmupd (am_message_id am) (accepted_message am (next_message_sequence r))
            (mailbox r)\<rparr> \<and>
          unat n = unat (next_message_sequence r) + 1))"
  by (cases "fmlookup (mailbox r) (am_message_id am)")
    (auto simp: accept_message_reduce_def result_simps checked_succ accepted_message_def
      split: if_splits)

lemma transition_message_frame [frames]:
  "transition_message_reduce tm r = Inr r' \<Longrightarrow>
     \<exists>m. fmlookup (mailbox r) (tm_message_id tm) = Some m \<and>
       message_transition_valid (msg_state m) (tm_state tm) \<and>
       r' = r\<lparr>mailbox := fmupd (tm_message_id tm) (m\<lparr>msg_state := tm_state tm\<rparr>) (mailbox r)\<rparr>"
  by (auto simp: transition_message_reduce_def result_simps)

section \<open>Frames: refinement\<close>

lemma strategy_frames [frames]:
  "propose_strategy_reduce ps r = Inr r' \<Longrightarrow> \<exists>x. r' = r\<lparr>strategy_revisions := x\<rparr>"
  "apply_strategy_reduce v r = Inr r' \<Longrightarrow>
     \<exists>x. r' = r\<lparr>strategy_revisions := x, current_strategy_revision := v\<rparr>"
  by (auto simp: propose_strategy_reduce_def apply_strategy_reduce_def result_simps Let_def)

lemma workflow_frames [frames]:
  "propose_workflow_reduce pw r = Inr r' \<Longrightarrow> \<exists>x. r' = r\<lparr>workflow_revisions := x\<rparr>"
  "validate_workflow_reduce vw r = Inr r' \<Longrightarrow> \<exists>x. r' = r\<lparr>workflow_revisions := x\<rparr>"
  "set_workflow_revision_reduce rollback v r = Inr r' \<Longrightarrow>
     \<exists>x. r' = r\<lparr>workflow_revisions := x, current_workflow_revision := Some v\<rparr>"
  by (auto simp: propose_workflow_reduce_def validate_workflow_reduce_def
      set_workflow_revision_reduce_def result_simps Let_def)

section \<open>The shape of every step\<close>

text \<open>A step that neither halts, resumes nor recovers the Run: the record it leaves, by the
  component it works on.\<close>

lemma residency_step:
  assumes "(\<exists>i. request_wake_reduce i r = Inr r') \<or>
    (\<exists>ci cid tok t. claim_activation_reduce ci cid tok t r = Inr r') \<or>
    (\<exists>fn ms t. renew_activation_reduce fn ms t r = Inr r') \<or>
    (\<exists>fn t. release_activation_reduce fn t r = Inr r')"
  obtains ep w l where "r' = r\<lparr>controller_epoch := ep, wake := w, activation_lease := l\<rparr>"
    "status r = Status_Active \<or> activation_lease r \<noteq> None"
    "controller_epoch r \<le> ep"
    "\<And>l1. l = Some l1 \<Longrightarrow> unat ep = unat (controller_epoch r) + 1 \<and> lease_epoch l1 = ep \<or>
       ep = controller_epoch r \<and> (\<exists>l0. activation_lease r = Some l0 \<and> lease_epoch l0 = lease_epoch l1 \<and>
         lease_token l0 = lease_token l1 \<and> lease_worker_id l0 = lease_worker_id l1)"
proof -
  consider i where "request_wake_reduce i r = Inr r'"
    | ci cid tok t where "claim_activation_reduce ci cid tok t r = Inr r'"
    | fn ms t where "renew_activation_reduce fn ms t r = Inr r'"
    | fn t where "release_activation_reduce fn t r = Inr r'"
    using assms by blast
  then show ?thesis
  proof cases
    case 1
    from request_wake_frame [OF 1] obtain w where "r' = r\<lparr>wake := w\<rparr>" "status r = Status_Active" by blast
    then show ?thesis
      by (intro that [of "activation_lease r" w "controller_epoch r"]) auto
  next
    case 2
    from claim_activation_frame [OF 2] obtain ep x reasons where
      "r' = r\<lparr>controller_epoch := ep, wake := wake_default, activation_lease :=
         Some \<lparr>lease_worker_id = ca_worker_id ci, lease_claim_command_id = cid, lease_epoch = ep,
           lease_token = tok, lease_expires_at_ms = x, lease_reasons = reasons\<rparr>\<rparr>"
      "unat ep = unat (controller_epoch r) + 1" "status r = Status_Active" by blast
    then show ?thesis by (intro that) (auto simp: word_le_nat_alt)
  next
    case 3
    from renew_activation_frame [OF 3] obtain l x where
      "r' = r\<lparr>activation_lease := Some (l\<lparr>lease_expires_at_ms := x\<rparr>)\<rparr>" "activation_lease r = Some l"
      by blast
    then show ?thesis
      by (intro that [of "Some (l\<lparr>lease_expires_at_ms := x\<rparr>)" "wake r" "controller_epoch r"]) auto
  next
    case 4
    from release_activation_frame [OF 4] show ?thesis
      by (intro that [of None "wake r" "controller_epoch r"]) auto
  qed
qed

lemma message_step:
  assumes "(\<exists>am. accept_message_reduce am r = Inr r') \<or> (\<exists>tm. transition_message_reduce tm r = Inr r')"
  obtains n mb where "r' = r\<lparr>next_message_sequence := n, mailbox := mb\<rparr>"
    "next_message_sequence r \<le> n"
proof -
  consider am where "accept_message_reduce am r = Inr r'"
    | tm where "transition_message_reduce tm r = Inr r'" using assms by blast
  then show ?thesis
  proof cases
    case 1
    then show ?thesis
      using accept_message_frame [OF 1] that [of "mailbox r" "next_message_sequence r"] that
      by (auto simp: word_le_nat_alt)
  next
    case 2
    from transition_message_frame [OF 2] obtain mb where "r' = r\<lparr>mailbox := mb\<rparr>" by blast
    then show ?thesis by (intro that [of mb "next_message_sequence r"]) auto
  qed
qed

lemma refinement_step:
  assumes "(\<exists>ps. propose_strategy_reduce ps r = Inr r') \<or> (\<exists>v. apply_strategy_reduce v r = Inr r') \<or>
    (\<exists>pw. propose_workflow_reduce pw r = Inr r') \<or> (\<exists>vw. validate_workflow_reduce vw r = Inr r') \<or>
    (\<exists>b v. set_workflow_revision_reduce b v r = Inr r')"
  obtains ss sv ws wv where "r' = r\<lparr>strategy_revisions := ss, current_strategy_revision := sv,
      workflow_revisions := ws, current_workflow_revision := wv\<rparr>"
proof -
  consider x where "r' = r\<lparr>strategy_revisions := x\<rparr>"
    | x v where "r' = r\<lparr>strategy_revisions := x, current_strategy_revision := v\<rparr>"
    | x where "r' = r\<lparr>workflow_revisions := x\<rparr>"
    | x v where "r' = r\<lparr>workflow_revisions := x, current_workflow_revision := Some v\<rparr>"
    using assms strategy_frames workflow_frames by meson
  then show ?thesis
  proof cases
    case 1
    then show ?thesis
      by (intro that [of "current_workflow_revision r" "workflow_revisions r"
          "current_strategy_revision r" x]) simp
  next
    case 2
    then show ?thesis
      by (intro that [of "current_workflow_revision r" "workflow_revisions r" v x]) simp
  next
    case 3
    then show ?thesis
      by (intro that [of "current_workflow_revision r" x "current_strategy_revision r"
          "strategy_revisions r"]) simp
  next
    case 4
    then show ?thesis
      by (intro that [of "Some v" x "current_strategy_revision r" "strategy_revisions r"]) simp
  qed
qed

lemma child_step:
  assumes "child_callback_step cb r = Inr (Callback_Next r' fin)"
  obtains (running) child where "fmlookup (children r) (cb_child_id cb) = Some child"
      "\<not> child_is_terminal (ch_state child)" "\<not> child_is_terminal (cb_state cb)"
      "r' = r\<lparr>children := fmupd (cb_child_id cb)
        (child\<lparr>ch_state := cb_state cb, ch_artifacts := cb_artifacts cb\<rparr>) (children r)\<rparr>"
  | (settled) child settlement remaining u p where
      "fmlookup (children r) (cb_child_id cb) = Some child"
      "\<not> child_is_terminal (ch_state child)" "child_is_terminal (cb_state cb)"
      "r' = r\<lparr>child_reserved := remaining, usage := u,
        children := fmupd (cb_child_id cb) (child\<lparr>ch_settlement := Some settlement,
          ch_state := cb_state cb, ch_artifacts := cb_artifacts cb\<rparr>) (children r)\<rparr>"
      "resources_within settlement (ch_reservation child)"
      "subtract_reservation (child_reserved r) (ch_reservation child) = Some remaining"
      "add_usage (usage r) settlement = Some u" "with_reservations u remaining = Some p"
      "resources_within p (budget r)"
proof -
  from child_callback_frame [OF assms] obtain child where
    c: "fmlookup (children r) (cb_child_id cb) = Some child" "\<not> child_is_terminal (ch_state child)"
      "child_is_terminal (cb_state cb) \<longleftrightarrow> cb_settlement cb \<noteq> None"
      and s: "settle_child cb child r = Inr r'" by blast
  from s show ?thesis
  proof (cases rule: settle_child_cases)
    case 1: running
    with c show ?thesis by (intro running) simp_all
  next
    case 2: (settled settlement remaining u p)
    with c show ?thesis by (intro settled) simp_all
  qed
qed

text \<open>The case rule over which the invariants are proved.\<close>

lemma run_step_cases [consumes 1]:
  assumes "run_step env r r'"
  obtains (residency) ep w l where
      "r' = r\<lparr>controller_epoch := ep, wake := w, activation_lease := l\<rparr>"
      "status r = Status_Active \<or> activation_lease r \<noteq> None" "controller_epoch r \<le> ep"
      "\<And>l1. l = Some l1 \<Longrightarrow> unat ep = unat (controller_epoch r) + 1 \<and> lease_epoch l1 = ep \<or>
        ep = controller_epoch r \<and> (\<exists>l0. activation_lease r = Some l0 \<and> lease_epoch l0 = lease_epoch l1 \<and>
         lease_token l0 = lease_token l1 \<and> lease_worker_id l0 = lease_worker_id l1)"
  | (control) a where "apply_control a r = Inr r'"
  | (begin_recovery) "begin_recovery_reduce r = Inr r'"
  | (finish_recovery) rr t where "finish_recovery_reduce env rr t r = Inr r'"
  | (begin_iteration) ctx v tok t where "begin_iteration_reduce ctx v tok t r = Inr r'"
  | (finish_iteration) fi t fin where
      "finish_iteration_step env fi t r = Inr (Callback_Next r' fin)"
  | (harness) h where "r' = r\<lparr>harness := h\<rparr>"
      "(\<exists>pin. propose_harness_reduce pin r = Inr r') \<or> (\<exists>vh. validate_harness_reduce vh r = Inr r') \<or>
       (\<exists>d. activate_harness_reduce d r = Inr r') \<or> (\<exists>d. rollback_harness_reduce d r = Inr r')"
  | (prepare_operation) po where "prepare_operation_reduce env po r = Inr r'"
  | (claim_effect) cl cid tok t where "claim_effect_reduce cl cid tok t r = Inr r'"
  | (acknowledge_effect) ec fin where "acknowledge_effect_step env ec r = Inr (Callback_Next r' fin)"
  | (reconcile_effect) re where "reconcile_effect_reduce env re r = Inr r'"
  | (admit_child) ad tok where "admit_child_reduce ad tok r = Inr r'"
  | (child_callback) cb fin where "child_callback_step cb r = Inr (Callback_Next r' fin)"
  | (message) n mb where "r' = r\<lparr>next_message_sequence := n, mailbox := mb\<rparr>"
      "next_message_sequence r \<le> n"
      "(\<exists>am. accept_message_reduce am r = Inr r') \<or> (\<exists>tm. transition_message_reduce tm r = Inr r')"
  | (refinement) ss sv ws wv where "r' = r\<lparr>strategy_revisions := ss,
      current_strategy_revision := sv, workflow_revisions := ws, current_workflow_revision := wv\<rparr>"
      "(\<exists>ps. propose_strategy_reduce ps r = Inr r') \<or> (\<exists>v. apply_strategy_reduce v r = Inr r') \<or>
       (\<exists>pw. propose_workflow_reduce pw r = Inr r') \<or> (\<exists>vw. validate_workflow_reduce vw r = Inr r') \<or>
       (\<exists>b v. set_workflow_revision_reduce b v r = Inr r')"
proof -
  have res: thesis if "(\<exists>i. request_wake_reduce i r = Inr r') \<or>
    (\<exists>ci cid tok t. claim_activation_reduce ci cid tok t r = Inr r') \<or>
    (\<exists>fn ms t. renew_activation_reduce fn ms t r = Inr r') \<or>
    (\<exists>fn t. release_activation_reduce fn t r = Inr r')"
    by (rule residency_step [OF that]) (rule residency)
  have msg: thesis if m: "(\<exists>am. accept_message_reduce am r = Inr r') \<or>
    (\<exists>tm. transition_message_reduce tm r = Inr r')"
    by (rule message_step [OF m]) (rule message [OF _ _ m])
  have refine: thesis if m: "(\<exists>ps. propose_strategy_reduce ps r = Inr r') \<or>
    (\<exists>v. apply_strategy_reduce v r = Inr r') \<or> (\<exists>pw. propose_workflow_reduce pw r = Inr r') \<or>
    (\<exists>vw. validate_workflow_reduce vw r = Inr r') \<or>
    (\<exists>b v. set_workflow_revision_reduce b v r = Inr r')"
    by (rule refinement_step [OF m]) (rule refinement [OF _ m])
  have gov: thesis if m: "(\<exists>pin. propose_harness_reduce pin r = Inr r') \<or>
    (\<exists>vh. validate_harness_reduce vh r = Inr r') \<or> (\<exists>d. activate_harness_reduce d r = Inr r') \<or>
    (\<exists>d. rollback_harness_reduce d r = Inr r')"
  proof -
    from m obtain h where "r' = r\<lparr>harness := h\<rparr>" by (auto dest: harness_frames)
    then show thesis using m by (rule harness)
  qed
  from assms show ?thesis
  proof cases
    case request_wake
    then show ?thesis by (intro res) blast
  next
    case claim_activation
    then show ?thesis by (intro res) blast
  next
    case renew_activation
    then show ?thesis by (intro res) blast
  next
    case release_activation
    then show ?thesis by (intro res) blast
  next
    case accept_message
    then show ?thesis by (intro msg) blast
  next
    case transition_message
    then show ?thesis by (intro msg) blast
  next
    case propose_harness
    then show ?thesis by (intro gov) blast
  next
    case validate_harness
    then show ?thesis by (intro gov) blast
  next
    case activate_harness
    then show ?thesis by (intro gov) blast
  next
    case rollback_harness
    then show ?thesis by (intro gov) blast
  next
    case propose_strategy
    then show ?thesis by (intro refine) blast
  next
    case apply_strategy
    then show ?thesis by (intro refine) blast
  next
    case propose_workflow
    then show ?thesis by (intro refine) blast
  next
    case validate_workflow
    then show ?thesis by (intro refine) blast
  next
    case set_workflow
    then show ?thesis by (intro refine) blast
  qed (fact that)+
qed

end
