(* ===== verification/Run_Invariants.thy ===== *)
theory Run_Invariants
  imports Run_Transitions
begin

text \<open>
  The abstract Run machine and its invariants. \<open>env_step\<close> is one committed mutation of an
  envelope: a \<open>run_step\<close> together with the bookkeeping of \<open>apply_command\<close> or
  \<open>commit_callback\<close>; \<open>env_reach\<close> are the envelopes that a chain of such mutations can
  produce from a created Run. The locale \<open>run_invariant\<close> turns a predicate that every
  reducer preserves into one that holds of every reachable envelope; it is interpreted for
  the budget, the accounting of children, the completion contract, the effect outbox, the
  activation lease, the mailbox, the revisions and the Harness pin.
\<close>

section \<open>Fields no step touches\<close>

definition identity :: "run_record \<Rightarrow>
    (run_id \<times> session_ref \<times> goal_spec \<times> run_driver_spec \<times> capability_policy \<times> string fset \<times>
     string \<times> u64)" where
  "identity r = (run_id r, session r, goal r, driver r, capabilities r, required_gates r,
     verifier_policy_digest r, created_at_ms r)"

definition journal_fields :: "run_record \<Rightarrow>
    (run_revision \<times> run_event_cursor \<times> u64 \<times> (command_id, command_receipt) fmap)" where
  "journal_fields r = (revision r, event_cursor r, updated_at_ms r, command_receipts r)"

lemma control_frame:
  assumes "apply_control a r = Inr r'"
  shows "identity r' = identity r \<and> journal_fields r' = journal_fields r"
  using assms
proof (cases rule: control_cases)
  case halt
  from halting_frame [OF assms halt] show ?thesis
    by (elim exE conjE) (simp add: identity_def journal_fields_def)
next
  case resume
  from resume_frame [OF resume(2)] show ?thesis by (auto simp: identity_def journal_fields_def)
next
  case steer
  from steer_frame [OF steer(2)] show ?thesis by (auto simp: identity_def journal_fields_def)
qed (simp_all add: identity_def journal_fields_def)

lemma run_step_frame:
  assumes "run_step env r r'"
  shows "identity r' = identity r \<and> journal_fields r' = journal_fields r"
  using assms
proof (cases rule: run_step_cases)
  case control
  then show ?thesis by (rule control_frame)
next
  case begin_recovery
  from begin_recovery_frame [OF this] show ?thesis by (auto simp: identity_def journal_fields_def)
next
  case finish_recovery
  then show ?thesis
    by (cases rule: finish_recovery_cases) (simp_all add: identity_def journal_fields_def)
next
  case begin_iteration
  from begin_iteration_frame [OF this] show ?thesis by (auto simp: identity_def journal_fields_def)
next
  case (finish_iteration fi t fin)
  from finish_iteration_frame [OF this] obtain i digest where
    "finish_iteration_accept fi digest t i r = Inr (Callback_Next r' fin)" by blast
  from finish_accept_frame [OF this] show ?thesis by (auto simp: identity_def journal_fields_def)
next
  case prepare_operation
  from prepare_operation_frame [OF this] show ?thesis
    by (auto simp: identity_def journal_fields_def)
next
  case claim_effect
  from claim_effect_frame [OF this] show ?thesis by (auto simp: identity_def journal_fields_def)
next
  case acknowledge_effect
  then show ?thesis
    by (cases rule: acknowledge_cases)
      (auto dest!: enter_recovery_frame simp: identity_def journal_fields_def split: if_splits)
next
  case reconcile_effect
  from reconcile_effect_frame [OF this] show ?thesis by (auto simp: identity_def journal_fields_def)
next
  case admit_child
  from admit_child_frame [OF this] show ?thesis by (auto simp: identity_def journal_fields_def)
next
  case child_callback
  then show ?thesis by (cases rule: child_step) (simp_all add: identity_def journal_fields_def)
qed (simp_all add: identity_def journal_fields_def)

section \<open>Committed mutations\<close>

inductive env_step :: "run_env \<Rightarrow> run_envelope \<Rightarrow> run_envelope \<Rightarrow> bool" for env where
  command: "status (run e) \<noteq> Status_Tombstoned \<Longrightarrow> run_step env (run e) r' \<Longrightarrow> advance e r' kind t = Inr e1 \<Longrightarrow>
    fmlookup (command_receipts (run e)) (cr_command_id receipt) = None \<Longrightarrow>
    cr_committed_revision receipt = revision (run e1) \<Longrightarrow>
    e2 = record_receipt receipt e1 \<Longrightarrow> envelope_good env e2 \<Longrightarrow> env_step env e e2"
| callback: "status (run e) \<noteq> Status_Tombstoned \<Longrightarrow> run_step env (run e) r' \<Longrightarrow> advance e r' kind t = Inr e2 \<Longrightarrow>
    envelope_good env e2 \<Longrightarrow> env_step env e e2"

inductive_cases env_stepE: "env_step env e e'"

text \<open>The Run that \<open>create_run\<close> commits first.\<close>

inductive env_created :: "run_env \<Rightarrow> run_envelope \<Rightarrow> bool" for env where
  created: "envelope_good env (initial_envelope q rid receipt t) \<Longrightarrow>
    cr_command_id receipt = cq_command_id q \<Longrightarrow> cr_committed_revision receipt = 1 \<Longrightarrow>
    env_created env (initial_envelope q rid receipt t)"

inductive env_reach :: "run_env \<Rightarrow> run_envelope \<Rightarrow> bool" for env where
  created: "env_created env e \<Longrightarrow> env_reach env e"
| step: "env_reach env e \<Longrightarrow> env_step env e e' \<Longrightarrow> env_reach env e'"

lemma env_step_record:
  assumes "env_step env e e'"
  obtains r' rv' t cur rcs where "run_step env (run e) r'"
    "run e' = r'\<lparr>revision := rv', updated_at_ms := t, event_cursor := cur, command_receipts := rcs\<rparr>"
    "unat rv' = unat (revision (run e)) + 1" "unat cur = unat (event_cursor (run e)) + 1"
    "rcs = command_receipts (run e) \<or>
      (\<exists>receipt. fmlookup (command_receipts (run e)) (cr_command_id receipt) = None \<and>
         cr_committed_revision receipt = rv' \<and>
         rcs = fmupd (cr_command_id receipt) receipt (command_receipts (run e)))"
    "envelope_good env e'" "status (run e) \<noteq> Status_Tombstoned"
  using assms
proof cases
  case (command r' kind t e1 receipt)
  have "command_receipts r' = command_receipts (run e)"
    using run_step_frame [OF command(2)] by (simp add: journal_fields_def)
  with command show ?thesis
    by (intro that [of r' "fmupd (cr_command_id receipt) receipt (command_receipts (run e))"
          "event_cursor (run e1)" t "revision (run e1)"])
      (auto simp: advance_def record_receipt_def result_simps successor_def successor_cursor_def
        checked_succ)
next
  case (callback r' kind t)
  have "command_receipts r' = command_receipts (run e)"
    using run_step_frame [OF callback(2)] by (simp add: journal_fields_def)
  with callback show ?thesis
    by (intro that [of r' "command_receipts (run e)" "event_cursor (run e')" t "revision (run e')"])
      (auto simp: advance_def result_simps successor_def successor_cursor_def checked_succ)
qed

section \<open>Invariants of the machine\<close>

lemma env_created_good: "env_created env e \<Longrightarrow> envelope_good env e"
  by (auto elim: env_created.cases)

lemma env_step_good: "env_step env e e' \<Longrightarrow> envelope_good env e'"
  by (auto elim: env_step.cases)

lemma env_reach_good: "env_reach env e \<Longrightarrow> envelope_good env e"
  by (cases rule: env_reach.cases) (auto intro: env_created_good env_step_good)

locale run_invariant =
  fixes env :: run_env and P :: "run_record \<Rightarrow> bool"
  assumes initially: "envelope_good env (initial_envelope q rid receipt t) \<Longrightarrow>
      P (initial_run q rid receipt t)"
    and step: "P (run e) \<Longrightarrow> envelope_good env e \<Longrightarrow> status (run e) \<noteq> Status_Tombstoned \<Longrightarrow>
      run_step env (run e) r' \<Longrightarrow> P r'"
    and journal: "P (r\<lparr>revision := a, updated_at_ms := b, event_cursor := c, command_receipts := d\<rparr>) = P r"
begin

lemma env_step_keeps: "P (run e) \<Longrightarrow> envelope_good env e \<Longrightarrow> env_step env e e' \<Longrightarrow> P (run e')"
  by (auto elim!: env_step_record simp: journal intro: step)

lemma reach: "env_reach env e \<Longrightarrow> P (run e)"
proof (induction rule: env_reach.induct)
  case (created e)
  then obtain q rid receipt t where "e = initial_envelope q rid receipt t" "envelope_good env e"
    by (auto elim: env_created.cases)
  then show ?case using initially by (simp add: initial_envelope_def)
next
  case (step e e')
  then show ?case by (blast intro: env_step_keeps env_reach_good)
qed

end

section \<open>Resources\<close>

text \<open>The steps, seen from the resource fields of the record.\<close>

lemma resource_step:
  assumes "run_step env r r'"
  obtains (other) "children r' = children r" "child_reserved r' = child_reserved r"
      "charged r (usage r')" "budget r' = budget r"
  | (resume) p where "children r' = children r" "child_reserved r' = child_reserved r"
      "usage r' = usage r" "resources_within (budget r) (budget r')"
      "with_reservations (usage r) (child_reserved r) = Some p" "resources_within p (budget r')"
  | (admit) k child p where "fmlookup (children r) k = None" "ch_settlement child = None"
      "\<not> child_is_terminal (ch_state child)"
      "children r' = fmupd k child (children r)" "usage r' = usage r" "budget r' = budget r"
      "add_reservation (child_reserved r) (ch_reservation child) = Some (child_reserved r')"
      "with_reservations (usage r') (child_reserved r') = Some p" "resources_within p (budget r')"
  | (running) k child s as where "fmlookup (children r) k = Some child"
      "\<not> child_is_terminal (ch_state child)" "\<not> child_is_terminal s"
      "children r' = fmupd k (child\<lparr>ch_state := s, ch_artifacts := as\<rparr>) (children r)"
      "child_reserved r' = child_reserved r" "usage r' = usage r" "budget r' = budget r"
  | (settled) k child settlement s as p where "fmlookup (children r) k = Some child"
      "\<not> child_is_terminal (ch_state child)" "child_is_terminal s"
      "children r' = fmupd k (child\<lparr>ch_settlement := Some settlement, ch_state := s,
         ch_artifacts := as\<rparr>) (children r)"
      "subtract_reservation (child_reserved r) (ch_reservation child) = Some (child_reserved r')"
      "resources_within settlement (ch_reservation child)"
      "add_usage (usage r) settlement = Some (usage r')" "budget r' = budget r"
      "with_reservations (usage r') (child_reserved r') = Some p" "resources_within p (budget r')"
  using assms
proof (cases rule: run_step_cases)
  case (control a)
  then show ?thesis
  proof (cases rule: control_cases)
    case halt
    from halting_frame [OF control halt] show ?thesis
      by (elim exE conjE) (rule other, simp_all add: charged_def)
  next
    case (resume nb)
    from resume_frame [OF resume(2)] obtain b p where
      "r' = r\<lparr>budget := b, status := Status_Active\<rparr>" "resources_within (budget r) b"
      "with_reservations (usage r) (child_reserved r) = Some p" "resources_within p b" by blast
    then show ?thesis by (intro that(2) [of p]) simp_all
  next
    case (steer m b)
    from steer_frame [OF steer(2)] show ?thesis
      by (intro other) (auto simp: charged_def)
  qed (rule other; simp add: charged_def)+
next
  case begin_recovery
  from begin_recovery_frame [OF this] show ?thesis
    by (elim exE conjE) (rule other, simp_all add: charged_def)
next
  case (finish_recovery rr t)
  then show ?thesis
    by (cases rule: finish_recovery_cases) (rule other; simp add: charged_def)+
next
  case begin_iteration
  from begin_iteration_frame [OF this] show ?thesis
    by (elim exE conjE) (rule other, simp_all add: charged_def)
next
  case (finish_iteration fi t fin)
  from finish_iteration_frame [OF this] obtain i digest where
    "finish_iteration_accept fi digest t i r = Inr (Callback_Next r' fin)" by blast
  from finish_accept_frame [OF this] show ?thesis
    by (elim exE conjE) (rule other, auto simp: charged_def)
next
  case prepare_operation
  from prepare_operation_frame [OF this] show ?thesis
    by (intro other) (auto simp: charged_def)
next
  case claim_effect
  from claim_effect_frame [OF this] show ?thesis
    by (elim exE conjE) (rule other, simp_all add: charged_def)
next
  case acknowledge_effect
  then show ?thesis
    by (cases rule: acknowledge_cases, intro other)
      (auto dest!: enter_recovery_frame simp: charged_def split: if_splits)
next
  case reconcile_effect
  from reconcile_effect_frame [OF this] show ?thesis
    by (elim exE conjE) (rule other, simp_all add: charged_def)
next
  case (admit_child ad tok)
  from admit_child_frame [OF this] show ?thesis
  proof (elim conjE disjE exE)
    assume "r' = r"
    then show ?thesis by (intro other) (simp_all add: charged_def)
  qed (rule admit [where k = "ad_child_id ad" and child = "admitted_child ad tok"],
      simp_all add: admitted_child_def)
next
  case (child_callback cb fin)
  then show ?thesis
  proof (cases rule: child_step)
    case 1: running
    then show ?thesis by (intro running) simp_all
  next
    case 2: settled
    then show ?thesis by (intro settled) simp_all
  qed
qed (rule other; simp add: charged_def)+

subsection \<open>The budget\<close>

definition within_budget :: "run_record \<Rightarrow> bool" where
  "within_budget r \<longleftrightarrow>
     (case with_reservations (usage r) (child_reserved r) of
        None \<Rightarrow> False | Some committed \<Rightarrow> resources_within committed (budget r))"

interpretation budget_inv: run_invariant env within_budget for env
proof unfold_locales
  fix e r'
  assume inv: "within_budget (run e)" and "run_step env (run e) r'"
  from this(2) show "within_budget r'"
  proof (cases rule: resource_step)
    case other
    with inv show ?thesis by (auto simp: within_budget_def charged_def split: option.splits)
  qed (use inv in \<open>simp_all add: within_budget_def split: option.splits\<close>)
qed (simp_all add: within_budget_def initial_run_def split: option.splits)

subsection \<open>Child reservations\<close>

definition owed :: "child_run \<Rightarrow> resource_dimension \<Rightarrow> nat" where
  "owed child d = (if ch_settlement child = None then rv (ch_reservation child) d else 0)"

definition total_owed :: "(child_id, child_run) fmap \<Rightarrow> resource_dimension \<Rightarrow> nat" where
  "total_owed m d = (\<Sum>k \<in> fset (fmdom m). owed (the (fmlookup m k)) d)"

definition children_accounted :: "run_record \<Rightarrow> bool" where
  "children_accounted r \<longleftrightarrow>
     (\<forall>k child. fmlookup (children r) k = Some child \<longrightarrow>
        (child_is_terminal (ch_state child) \<longleftrightarrow> ch_settlement child \<noteq> None)) \<and>
     (\<forall>d. rv (child_reserved r) d = total_owed (children r) d)"

lemma total_owed_empty [simp]: "total_owed fmempty d = 0"
  by (simp add: total_owed_def)

lemma total_owed_new: "fmlookup m k = None \<Longrightarrow> total_owed (fmupd k v m) d = total_owed m d + owed v d"
proof -
  assume "fmlookup m k = None"
  then have k: "k \<notin> fset (fmdom m)" by (simp add: fmdom_notI)
  have "(\<Sum>j \<in> fset (fmdom m). owed (the (fmlookup (fmupd k v m) j)) d) = total_owed m d"
    unfolding total_owed_def using k by (intro sum.cong) auto
  with k show ?thesis by (simp add: total_owed_def)
qed

lemma total_owed_change:
  assumes "fmlookup m k = Some u"
  shows "total_owed (fmupd k v m) d + owed u d = total_owed m d + owed v d"
proof -
  have k: "k \<in> fset (fmdom m)" using assms by (simp add: fmdomI)
  have "total_owed m d = owed u d + (\<Sum>j \<in> fset (fmdom m) - {k}. owed (the (fmlookup m j)) d)"
    using k assms by (simp add: total_owed_def sum.remove)
  moreover have "total_owed (fmupd k v m) d =
      owed v d + (\<Sum>j \<in> fset (fmdom m) - {k}. owed (the (fmlookup (fmupd k v m) j)) d)"
    using k by (simp add: total_owed_def sum.remove insert_absorb)
  moreover have "(\<Sum>j \<in> fset (fmdom m) - {k}. owed (the (fmlookup (fmupd k v m) j)) d) =
      (\<Sum>j \<in> fset (fmdom m) - {k}. owed (the (fmlookup m j)) d)"
    by (intro sum.cong) auto
  ultimately show ?thesis by simp
qed

lemma child_settled_accounted:
  assumes inv: "children_accounted r" and k: "fmlookup (children r) k = Some child"
    and live: "\<not> child_is_terminal (ch_state child)" and dead: "child_is_terminal s"
    and ch: "children r' = fmupd k (child\<lparr>ch_settlement := Some settlement, ch_state := s,
         ch_artifacts := as\<rparr>) (children r)"
    and sub: "subtract_reservation (child_reserved r) (ch_reservation child) = Some (child_reserved r')"
  shows "children_accounted r'"
proof -
  have "ch_settlement child = None" using inv k live by (auto simp: children_accounted_def)
  then have "total_owed (children r') d + rv (ch_reservation child) d = total_owed (children r) d" for d
    using total_owed_change [OF k, of "child\<lparr>ch_settlement := Some settlement, ch_state := s,
      ch_artifacts := as\<rparr>" d] by (simp add: ch owed_def)
  moreover have "rv (child_reserved r) d = rv (child_reserved r') d + rv (ch_reservation child) d" for d
    using sub by (simp add: checked_simps)
  moreover have "rv (child_reserved r) d = total_owed (children r) d" for d
    using inv by (simp add: children_accounted_def)
  ultimately have "rv (child_reserved r') d = total_owed (children r') d" for d
    by (metis add_right_cancel)
  with inv dead show ?thesis by (auto simp: children_accounted_def ch)
qed

interpretation children_inv: run_invariant env children_accounted for env
proof unfold_locales
  fix e r'
  assume inv: "children_accounted (run e)" and "run_step env (run e) r'"
  from this(2) show "children_accounted r'"
  proof (cases rule: resource_step)
    case (admit k child p)
    with inv show ?thesis
      by (auto simp: children_accounted_def total_owed_new owed_def checked_simps)
  next
    case (running k child s as)
    then have "total_owed (children r') d = total_owed (children (run e)) d" for d
      using total_owed_change [of "children (run e)" k child
          "child\<lparr>ch_state := s, ch_artifacts := as\<rparr>" d]
      by (simp add: owed_def split: if_splits)
    with inv running show ?thesis by (auto simp: children_accounted_def)
  next
    case settled
    with inv show ?thesis by (intro child_settled_accounted [OF inv]) simp_all
  qed (use inv in \<open>simp_all add: children_accounted_def\<close>)
qed (simp_all add: children_accounted_def initial_run_def)

end
