(* ===== verification/Run_Inv_Effects.thy ===== *)
theory Run_Inv_Effects
  imports Run_Invariants
begin

text \<open>
  The effect outbox. \<open>op_step\<close> is the state machine of one durable operation, to which
  every step of the Run is projected. Settled operations are final, an operation keeps its
  specification, and a non-repeatable effect is dispatched at most once.
\<close>

section \<open>The machine of one operation\<close>

inductive op_step :: "operation \<Rightarrow> operation \<Rightarrow> bool" where
  keep: "op_step opn opn"
| claim: "op_state opn \<in> {Op_Prepared, Op_FailedRetryable} \<Longrightarrow>
    (op_effect_class opn = NonRepeatable \<longrightarrow> op_next_attempt opn \<le> 1) \<Longrightarrow>
    unat following = unat (op_next_attempt opn) + 1 \<Longrightarrow>
    op_step opn (claimed_operation cl cid tok ep following opn)"
| acknowledge: "op_active_attempt opn = Some attempt \<Longrightarrow> op_terminal_result_digest opn = None \<Longrightarrow>
    s \<in> {Op_Acknowledged, Op_Uncertain, Op_FailedRetryable, Op_Prepared} \<Longrightarrow>
    (s \<in> {Op_FailedRetryable, Op_Prepared} \<longrightarrow> op_effect_class opn \<noteq> NonRepeatable) \<Longrightarrow>
    op_step opn (opn\<lparr>op_receipt := rc, op_terminal_result_digest := Some digest, op_state := s\<rparr>)"
| reconcile: "op_state opn = Op_Uncertain \<Longrightarrow> s \<in> {Op_Reconciled, Op_Abandoned, Op_Uncertain} \<Longrightarrow>
    op_step opn (opn\<lparr>op_active_attempt := None, op_receipt := rc, op_terminal_result_digest := dg,
      op_state := s\<rparr>)"
| lose: "op_state opn = Op_Dispatching \<Longrightarrow> op_step opn (opn\<lparr>op_state := Op_Uncertain\<rparr>)"
| abandon: "op_state opn \<in> {Op_Prepared, Op_FailedRetryable} \<Longrightarrow>
    op_step opn (opn\<lparr>op_state := Op_Abandoned, op_active_attempt := None,
      op_terminal_result_digest := None\<rparr>)"

definition op_fresh :: "operation \<Rightarrow> bool" where
  "op_fresh opn \<longleftrightarrow> op_state opn = Op_Prepared \<and> op_next_attempt opn = 1 \<and>
     op_active_attempt opn = None \<and> op_terminal_result_digest opn = None \<and>
     op_reservation opn = None \<and> op_receipt opn = None"

text \<open>One step of the Run, seen from its outbox.\<close>

definition outbox_step ::
    "(operation_id, operation) fmap \<Rightarrow> (operation_id, operation) fmap \<Rightarrow> bool" where
  "outbox_step m m' \<longleftrightarrow>
     (\<forall>k. case fmlookup m k of
        Some opn \<Rightarrow> \<exists>opn'. fmlookup m' k = Some opn' \<and> op_step opn opn'
      | None \<Rightarrow> \<forall>opn'. fmlookup m' k = Some opn' \<longrightarrow> op_fresh opn')"

lemma outbox_same: "outbox_step m m"
  by (auto simp: outbox_step_def split: option.splits intro: op_step.keep)

lemma outbox_update:
  "fmlookup m k = Some opn \<Longrightarrow> op_step opn opn' \<Longrightarrow> outbox_step m (fmupd k opn' m)"
  by (auto simp: outbox_step_def split: option.splits intro: op_step.keep)

lemma outbox_new: "fmlookup m k = None \<Longrightarrow> op_fresh opn \<Longrightarrow> outbox_step m (fmupd k opn m)"
  by (auto simp: outbox_step_def split: option.splits intro: op_step.keep)

lemma outbox_map: "(\<And>opn. op_step opn (f opn)) \<Longrightarrow> outbox_step m (fmmap f m)"
  by (auto simp: outbox_step_def split: option.splits)

lemma op_step_fence_dispatching: "op_step opn (fence_dispatching opn)"
  by (auto simp: fence_dispatching_def intro: op_step.keep op_step.lose)

lemma op_step_abandon_operation: "op_step opn (abandon_operation iid opn)"
  by (simp add: abandon_operation_def op_step.keep op_step.abandon)

lemma op_step_acknowledge:
  assumes "op_active_attempt opn = Some attempt" "op_terminal_result_digest opn = None"
    "acknowledge_outcome env b oc digest opn = Inr (opn', recover)"
  shows "op_step opn opn'"
  using acknowledge_outcome_frame [OF assms(3)] assms(1,2)
  by (elim exE conjE) (simp add: op_step.acknowledge)

lemma op_step_reconcile:
  assumes "op_state opn = Op_Uncertain"
    "reconcile_operation env b d (opn\<lparr>op_active_attempt := None\<rparr>) = Inr opn'"
  shows "op_step opn opn'"
  using reconcile_operation_frame [OF assms(2)] assms(1)
  by (elim exE conjE) (simp add: op_step.reconcile)

text \<open>A control action works on the lifecycle, the budget and the steering queue only.\<close>

lemma control_work:
  assumes "apply_control a r = Inr r'"
  shows "operations r' = operations r" "active_iteration r' = active_iteration r"
    "run_iterations r' = run_iterations r" "next_iteration_id r' = next_iteration_id r"
    "mailbox r' = mailbox r" "next_message_sequence r' = next_message_sequence r"
    "strategy_revisions r' = strategy_revisions r"
    "current_strategy_revision r' = current_strategy_revision r"
    "workflow_revisions r' = workflow_revisions r"
    "current_workflow_revision r' = current_workflow_revision r" "harness r' = harness r"
    "children r' = children r" "recovery_prior_status r' = recovery_prior_status r"
proof -
  have "operations r' = operations r \<and> active_iteration r' = active_iteration r \<and>
    run_iterations r' = run_iterations r \<and> next_iteration_id r' = next_iteration_id r \<and>
    mailbox r' = mailbox r \<and> next_message_sequence r' = next_message_sequence r \<and>
    strategy_revisions r' = strategy_revisions r \<and>
    current_strategy_revision r' = current_strategy_revision r \<and>
    workflow_revisions r' = workflow_revisions r \<and>
    current_workflow_revision r' = current_workflow_revision r \<and> harness r' = harness r \<and>
    children r' = children r \<and> recovery_prior_status r' = recovery_prior_status r"
    using assms
  proof (cases rule: control_cases)
    case halt
    from halting_frame [OF assms halt] show ?thesis by (elim exE conjE) simp
  next
    case resume
    from resume_frame [OF resume(2)] show ?thesis by (elim exE conjE) simp
  next
    case steer
    from steer_frame [OF steer(2)] show ?thesis by (elim exE conjE disjE) simp_all
  qed simp_all
  then show "operations r' = operations r" "active_iteration r' = active_iteration r"
    "run_iterations r' = run_iterations r" "next_iteration_id r' = next_iteration_id r"
    "mailbox r' = mailbox r" "next_message_sequence r' = next_message_sequence r"
    "strategy_revisions r' = strategy_revisions r"
    "current_strategy_revision r' = current_strategy_revision r"
    "workflow_revisions r' = workflow_revisions r"
    "current_workflow_revision r' = current_workflow_revision r" "harness r' = harness r"
    "children r' = children r" "recovery_prior_status r' = recovery_prior_status r" by simp_all
qed

lemma run_step_outbox:
  assumes "run_step env r r'"
  shows "outbox_step (operations r) (operations r')"
  using assms
proof (cases rule: run_step_cases)
  case control
  then show ?thesis by (simp add: control_work outbox_same)
next
  case begin_recovery
  from begin_recovery_frame [OF this] show ?thesis
    by (elim exE conjE) (simp add: outbox_map op_step_fence_dispatching)
next
  case finish_recovery
  then show ?thesis
    by (cases rule: finish_recovery_cases)
      (simp_all add: outbox_same outbox_map op_step_abandon_operation)
next
  case begin_iteration
  from begin_iteration_frame [OF this] show ?thesis by (elim exE conjE) (simp add: outbox_same)
next
  case (finish_iteration fi t fin)
  from finish_iteration_frame [OF this] obtain i digest where
    "finish_iteration_accept fi digest t i r = Inr (Callback_Next r' fin)" by blast
  from finish_accept_frame [OF this] show ?thesis by (elim exE conjE) (simp add: outbox_same)
next
  case (prepare_operation po)
  from prepare_operation_frame [OF this] show ?thesis
    by (elim exE conjE disjE)
      (simp_all add: outbox_same outbox_new op_fresh_def prepared_operation_def)
next
  case claim_effect
  from claim_effect_frame [OF this] show ?thesis
    by (elim exE conjE) (simp add: outbox_update op_step.claim)
next
  case (acknowledge_effect ec fin)
  then show ?thesis
  proof (cases rule: acknowledge_cases)
    case (1 opn attempt digest opn' recover)
    then have "outbox_step (operations r) (fmupd (ec_operation_id ec) opn' (operations r))"
      by (auto intro: outbox_update op_step_acknowledge)
    with 1(8) show ?thesis by (auto dest!: enter_recovery_frame split: if_splits)
  qed
next
  case reconcile_effect
  from reconcile_effect_frame [OF this] show ?thesis
    by (elim exE conjE) (simp add: outbox_update [OF _ op_step_reconcile])
next
  case admit_child
  from admit_child_frame [OF this] show ?thesis
    by (elim exE conjE disjE) (simp_all add: outbox_same)
next
  case child_callback
  then show ?thesis by (cases rule: child_step) (simp_all add: outbox_same)
qed (simp_all add: outbox_same)

section \<open>What every operation satisfies\<close>

definition op_consistent :: "operation \<Rightarrow> bool" where
  "op_consistent opn \<longleftrightarrow>
     1 \<le> unat (op_next_attempt opn) \<and>
     (\<forall>attempt. op_active_attempt opn = Some attempt \<longrightarrow>
        unat (op_next_attempt opn) = unat (at_attempt attempt) + 1) \<and>
     (op_state opn = Op_Acknowledged \<longrightarrow>
        op_active_attempt opn \<noteq> None \<and> op_terminal_result_digest opn \<noteq> None) \<and>
     (op_state opn \<in> {Op_Reconciled, Op_Abandoned} \<longrightarrow> op_active_attempt opn = None) \<and>
     (op_state opn \<in> {Op_Prepared, Op_FailedRetryable} \<and> op_active_attempt opn \<noteq> None \<longrightarrow>
        op_terminal_result_digest opn \<noteq> None) \<and>
     (op_effect_class opn = NonRepeatable \<longrightarrow>
        (if op_state opn \<in> {Op_Prepared, Op_FailedRetryable} then op_next_attempt opn = 1
         else op_next_attempt opn = 1 \<or> op_next_attempt opn = 2))"

lemma op_fresh_consistent: "op_fresh opn \<Longrightarrow> op_consistent opn"
  by (auto simp: op_fresh_def op_consistent_def)

lemma unat_eq_two: "unat w = 2 \<longleftrightarrow> w = 2" for w :: u32
  by (simp add: word_unat_eq_iff)

lemma op_step_consistent: "op_step opn opn' \<Longrightarrow> op_consistent opn \<Longrightarrow> op_consistent opn'"
proof (induction rule: op_step.induct)
  case (claim opn following cl cid tok ep)
  have "op_effect_class opn = NonRepeatable \<Longrightarrow> following = 2"
    using claim by (auto simp: op_consistent_def word_unat_eq_iff)
  with claim show ?case by (auto simp: op_consistent_def claimed_operation_def)
next
  case (acknowledge opn attempt s rc digest)
  then show ?case by (auto simp: op_consistent_def split: if_splits)
next
  case (reconcile opn s rc dg)
  then show ?case by (auto simp: op_consistent_def)
next
  case (abandon opn)
  then show ?case by (auto simp: op_consistent_def)
qed (auto simp: op_consistent_def)

definition outbox_consistent :: "run_record \<Rightarrow> bool" where
  "outbox_consistent r \<longleftrightarrow> (\<forall>k opn. fmlookup (operations r) k = Some opn \<longrightarrow> op_consistent opn)"

interpretation outbox_inv: run_invariant env outbox_consistent for env
proof unfold_locales
  fix e r'
  assume inv: "outbox_consistent (run e)" and "run_step env (run e) r'"
  then have "outbox_step (operations (run e)) (operations r')" by (intro run_step_outbox)
  show "outbox_consistent r'"
    unfolding outbox_consistent_def
  proof (intro allI impI)
    fix k opn'
    assume k: "fmlookup (operations r') k = Some opn'"
    with \<open>outbox_step _ _\<close> inv show "op_consistent opn'"
      by (cases "fmlookup (operations (run e)) k")
        (auto simp: outbox_step_def outbox_consistent_def split: option.splits
          intro: op_fresh_consistent op_step_consistent dest!: spec [of _ k])
  qed
qed (simp_all add: outbox_consistent_def initial_run_def)

section \<open>Finality and at-most-once dispatch\<close>

text \<open>The operation that no later step may change.\<close>

definition op_final :: "operation \<Rightarrow> bool" where
  "op_final opn \<longleftrightarrow> op_state opn \<in> {Op_Acknowledged, Op_Reconciled, Op_Abandoned}"

lemma op_final_stays: "op_step opn opn' \<Longrightarrow> op_consistent opn \<Longrightarrow> op_final opn \<Longrightarrow> opn' = opn"
proof (induction rule: op_step.induct)
  case (acknowledge opn attempt s rc digest)
  then have False by (auto simp: op_final_def op_consistent_def)
  then show ?case ..
qed (simp_all add: op_final_def, auto)

text \<open>What a step keeps of an operation, and how its attempts count up.\<close>

definition op_spec_kept :: "operation \<Rightarrow> operation \<Rightarrow> bool" where
  "op_spec_kept opn opn' \<longleftrightarrow>
     op_id opn' = op_id opn \<and> op_iteration_id opn' = op_iteration_id opn \<and>
     op_effect_class opn' = op_effect_class opn \<and> op_spec opn' = op_spec opn \<and>
     op_spec_digest opn' = op_spec_digest opn \<and> op_next_attempt opn \<le> op_next_attempt opn'"

lemma op_step_kept: "op_step opn opn' \<Longrightarrow> op_spec_kept opn opn'"
  by (induction rule: op_step.induct)
    (auto simp: op_spec_kept_def claimed_operation_def word_le_nat_alt)

lemma op_spec_kept_trans: "op_spec_kept a b \<Longrightarrow> op_spec_kept b c \<Longrightarrow> op_spec_kept a c"
  by (auto simp: op_spec_kept_def)

lemma env_step_operation:
  assumes "env_step env e e'" and "fmlookup (operations (run e)) k = Some opn"
  obtains opn' where "fmlookup (operations (run e')) k = Some opn'" and "op_step opn opn'"
  using assms(1)
proof (rule env_step_record)
  fix r' rv' t cur rcs
  assume "run_step env (run e) r'"
    and e': "run e' = r'\<lparr>revision := rv', updated_at_ms := t, event_cursor := cur,
      command_receipts := rcs\<rparr>"
  from run_step_outbox [OF this(1)] assms(2) that show thesis
    by (auto simp: outbox_step_def e' dest!: spec [of _ k])
qed

text \<open>Later envelopes of the same Run.\<close>

abbreviation env_later :: "run_env \<Rightarrow> run_envelope \<Rightarrow> run_envelope \<Rightarrow> bool" where
  "env_later env \<equiv> (env_step env)\<^sup>*\<^sup>*"

lemma later_outbox_consistent:
  assumes "outbox_consistent (run e)" and "envelope_good env e" and "env_later env e e'"
  shows "outbox_consistent (run e') \<and> envelope_good env e'"
  using assms(3) by induction (use assms outbox_inv.env_step_keeps env_step_good in blast)+

lemma final_operation_later:
  assumes "env_reach env e" and "fmlookup (operations (run e)) k = Some opn" and "op_final opn"
    and "env_later env e e'"
  shows "fmlookup (operations (run e')) k = Some opn"
  using assms(4)
proof induction
  case (step e1 e2)
  have "outbox_consistent (run e1)"
    using later_outbox_consistent [OF outbox_inv.reach env_reach_good] assms(1) step(1) by blast
  with step(3) have "op_consistent opn" by (auto simp: outbox_consistent_def)
  from step(2,3) obtain opn' where "fmlookup (operations (run e2)) k = Some opn'" "op_step opn opn'"
    by (rule env_step_operation)
  with op_final_stays [OF _ \<open>op_consistent opn\<close> assms(3)] show ?case by simp
qed (use assms in simp)

lemma operation_kept_later:
  assumes "fmlookup (operations (run e)) k = Some opn" and "env_later env e e'"
  shows "\<exists>opn'. fmlookup (operations (run e')) k = Some opn' \<and> op_spec_kept opn opn'"
  using assms(2)
proof induction
  case (step e1 e2)
  then obtain opn1 where o1: "fmlookup (operations (run e1)) k = Some opn1" "op_spec_kept opn opn1"
    by blast
  from step(2) o1(1) obtain opn2 where "fmlookup (operations (run e2)) k = Some opn2"
    "op_step opn1 opn2" by (rule env_step_operation)
  with o1(2) op_step_kept op_spec_kept_trans show ?case by blast
qed (use assms in \<open>simp add: op_spec_kept_def\<close>)

end
