(* ===== verification/Run_Inv_Lifecycle.thy ===== *)
theory Run_Inv_Lifecycle
  imports Run_Inv_Effects
begin

text \<open>
  The lifecycle of a Run: which statuses follow which, what a Run remembers while it
  recovers, and the completion contract, which holds of every completed Run for as long as
  it exists, also while its detached children settle and through any number of recoveries.
\<close>

section \<open>The completion contract\<close>

text \<open>What \<open>validate_completion\<close> demands, as far as a completed Run keeps it.\<close>

definition completion_evidence :: "run_record \<Rightarrow> bool" where
  "completion_evidence r \<longleftrightarrow>
     run_iterations r \<noteq> [] \<and>
     (let iteration = last (run_iterations r) in
        it_driver_terminal_success iteration \<and> it_verdict iteration = Some Achieved \<and>
        fBall (required_gates r) (\<lambda>gate. fmlookup (it_gates iteration) gate = Some True) \<and>
        list_all (evidence_satisfied iteration) (required_evidence (goal r)))"

definition completed_ok :: "run_record \<Rightarrow> bool" where
  "completed_ok r \<longleftrightarrow>
     active_iteration r = None \<and> completion_evidence r \<and> \<not> has_unsettled_operations r \<and>
     \<not> list_ex child_blocks_completion (btree_values (children r))"

lemma validate_completion_ok: "validate_completion r = Inr () \<Longrightarrow> completed_ok r"
  by (auto simp: validate_completion_def completed_ok_def completion_evidence_def Let_def
      split: if_splits)

lemma validate_completion_active: "validate_completion r = Inr () \<Longrightarrow> status r = Status_Active"
  by (auto simp: validate_completion_def split: if_splits)

lemma completed_ok_cong:
  assumes "active_iteration r' = active_iteration r" "run_iterations r' = run_iterations r"
    "operations r' = operations r" "children r' = children r"
    "required_gates r' = required_gates r" "goal r' = goal r"
  shows "completed_ok r' = completed_ok r"
  using assms
  by (simp add: completed_ok_def completion_evidence_def has_unsettled_operations_def Let_def)

lemma unsettled_final: "has_unsettled_operations r \<longleftrightarrow>
    (\<exists>k opn. fmlookup (operations r) k = Some opn \<and> \<not> op_final opn)"
  by (auto simp: has_unsettled_operations_def btree_quantifiers op_final_def)

lemma fence_dispatching_final [simp]: "op_final (fence_dispatching opn) \<longleftrightarrow> op_final opn"
  by (auto simp: fence_dispatching_def op_final_def)

section \<open>The invariant\<close>

definition lifecycle_ok :: "run_record \<Rightarrow> bool" where
  "lifecycle_ok r \<longleftrightarrow>
     \<not> pending_approval r \<and> stage r \<noteq> Stage_AwaitingApproval \<and>
     status r \<notin> {Status_Failed, Status_Interrupted} \<and>
     recovery_prior_status r \<notin> {Some Status_Active, Some Status_RecoveryRequired} \<and>
     (recovery_prior_status r \<noteq> None \<longrightarrow>
        status r \<in> {Status_RecoveryRequired, Status_Cancelled, Status_Tombstoned} \<and>
        recovery_prior_status r \<notin> {Some Status_Failed, Some Status_Interrupted, Some Status_Tombstoned}) \<and>
     (status r = Status_Complete \<or> recovery_prior_status r = Some Status_Complete \<longrightarrow> completed_ok r)"

text \<open>Steps of an active Run that leave it active.\<close>

lemma lifecycle_active:
  assumes "lifecycle_ok r" "status r = Status_Active" "status r' = Status_Active"
    "pending_approval r' = pending_approval r"
    "recovery_prior_status r' = recovery_prior_status r" "stage r' \<noteq> Stage_AwaitingApproval"
  shows "lifecycle_ok r'"
  using assms by (auto simp: lifecycle_ok_def)

lemma lifecycle_same:
  assumes "lifecycle_ok r" "status r' = status r" "pending_approval r' = pending_approval r"
    "recovery_prior_status r' = recovery_prior_status r" "stage r' = stage r"
    "completed_ok r \<Longrightarrow> completed_ok r'"
  shows "lifecycle_ok r'"
  using assms by (auto simp: lifecycle_ok_def)

lemma lifecycle_halting:
  assumes inv: "lifecycle_ok r" and h: "apply_control a r = Inr r'" "halting a"
  shows "lifecycle_ok r'"
proof -
  have same: "completed_ok r' = completed_ok r"
    using control_frame [OF h(1)]
    by (intro completed_ok_cong) (simp_all add: control_work [OF h(1)] identity_def)
  from halting_frame [OF h] obtain s where
    s: "status r' = s" "pending_approval r' \<longrightarrow> pending_approval r"
      "stage r' = stage r \<or> stage r' = Stage_Idle"
      "s \<in> {Status_UserPaused, Status_BackOffPaused, Status_NoProgressPaused, Status_InfraPaused,
        Status_Blocked, Status_BudgetLimited, Status_Cancelled, Status_Complete}"
      "s = Status_Complete \<longrightarrow> validate_completion r = Inr ()"
      "s \<notin> {Status_Cancelled, Status_Complete} \<longrightarrow> status r = Status_Active \<or> pending_approval r"
    by (elim exE conjE) simp
  have prior: "recovery_prior_status r' = recovery_prior_status r"
    by (rule control_work [OF h(1)])
  have act: "status r = Status_Active" if "s \<noteq> Status_Cancelled"
    using s(5,6) inv that validate_completion_active by (cases "s = Status_Complete") (auto simp: lifecycle_ok_def)
  then have none: "recovery_prior_status r = None" if "s \<noteq> Status_Cancelled"
    using inv that by (auto simp: lifecycle_ok_def)
  have comp: "completed_ok r'" if "s = Status_Complete"
    using s(5) that same validate_completion_ok by simp
  show ?thesis
  proof (cases "s = Status_Cancelled")
    case True
    with inv s prior same show ?thesis by (auto simp: lifecycle_ok_def)
  next
    case False
    with none comp inv s prior show ?thesis by (auto simp: lifecycle_ok_def)
  qed
qed

lemma lifecycle_control:
  assumes inv: "lifecycle_ok r" and c: "apply_control a r = Inr r'" and "status r \<noteq> Status_Tombstoned"
  shows "lifecycle_ok r'"
proof -
  have same: "completed_ok r' = completed_ok r"
    using control_frame [OF c]
    by (intro completed_ok_cong) (simp_all add: control_work [OF c] identity_def)
  note prior = control_work(13) [OF c]
  from c show ?thesis
  proof (cases rule: control_cases)
    case halt
    with inv c show ?thesis by (rule lifecycle_halting)
  next
    case (resume nb)
    from resume_frame [OF resume(2)] have r': "status r' = Status_Active \<and>
      pending_approval r' = pending_approval r \<and> stage r' = stage r \<and>
      status r \<notin> {Status_RecoveryRequired, Status_Cancelled, Status_Tombstoned}"
      by (elim exE conjE) auto
    with inv prior r' show ?thesis by (auto simp: lifecycle_ok_def)
  next
    case (steer m b)
    from steer_frame [OF steer(2)] have "status r' = status r \<and>
      pending_approval r' = pending_approval r \<and> stage r' = stage r"
      by (elim exE conjE disjE) simp_all
    with inv prior same show ?thesis by (intro lifecycle_same [OF inv]) simp_all
  next
    case approve
    with inv show ?thesis by (simp add: lifecycle_ok_def)
  next
    case report
    with inv prior same show ?thesis by (intro lifecycle_same [OF inv]) simp_all
  next
    case tombstone
    with inv prior same show ?thesis by (auto simp: lifecycle_ok_def)
  qed
qed

lemma prior_status_operations [simp]: "prior_status (r\<lparr>operations := x\<rparr>) = prior_status r"
  by (simp add: prior_status_def split: option.splits)

lemma completed_fenced:
  assumes "completed_ok r" and "active_iteration r' = active_iteration r"
    "run_iterations r' = run_iterations r" "children r' = children r"
    "required_gates r' = required_gates r" "goal r' = goal r"
    "operations r' = fmmap fence_dispatching (operations r)"
  shows "completed_ok r'"
  using assms
  by (auto simp: completed_ok_def completion_evidence_def unsettled_final Let_def)

lemma lifecycle_recovering:
  assumes "lifecycle_ok r" "status r \<noteq> Status_Tombstoned"
    "status r' = Status_RecoveryRequired" "stage r' = Stage_Recovering"
    "recovery_prior_status r' = prior_status r" "pending_approval r' = pending_approval r"
    "completed_ok r \<Longrightarrow> completed_ok r'"
  shows "lifecycle_ok r'"
  using assms
  by (cases "recovery_prior_status r") (auto simp: lifecycle_ok_def prior_status_def split: if_splits)

lemma completed_child:
  assumes "completed_ok r" and "fmlookup (children r) k = Some child"
    and "\<not> child_is_terminal (ch_state child)"
    and "active_iteration r' = active_iteration r" "run_iterations r' = run_iterations r"
      "operations r' = operations r" "required_gates r' = required_gates r" "goal r' = goal r"
      "children r' = fmupd k child' (children r)"
      "ch_completion_policy child' = ch_completion_policy child"
  shows "completed_ok r'"
proof -
  have "\<not> child_blocks_completion child" using assms(1,2)
    by (auto simp: completed_ok_def btree_quantifiers)
  with assms(3) have "ch_completion_policy child = Policy_Detached"
    by (cases "ch_completion_policy child") auto
  with assms show ?thesis
    by (auto simp: completed_ok_def completion_evidence_def has_unsettled_operations_def Let_def
        btree_quantifiers)
qed

lemma completed_no_acknowledge:
  assumes "completed_ok r" "outbox_consistent r" "fmlookup (operations r) k = Some opn"
    "op_active_attempt opn = Some attempt" "op_terminal_result_digest opn = None"
  shows False
proof -
  have "op_final opn" using assms(1,3) by (auto simp: completed_ok_def unsettled_final)
  moreover have "op_consistent opn" using assms(2,3) by (auto simp: outbox_consistent_def)
  ultimately show False using assms(4,5) by (auto simp: op_consistent_def op_final_def)
qed

lemma lifecycle_acknowledge:
  assumes inv: "lifecycle_ok r" "outbox_consistent r" and t: "status r \<noteq> Status_Tombstoned"
    and a: "acknowledge_effect_step env ec r = Inr (Callback_Next r' fin)"
  shows "lifecycle_ok r'"
  using a
proof (cases rule: acknowledge_cases)
  case (1 opn attempt digest opn' recover)
  have no: "\<not> completed_ok r" using completed_no_acknowledge [OF _ inv(2) 1(1,2,4)] by blast
  show ?thesis
  proof (cases recover)
    case True
    with 1(8) obtain ep where "r' = r\<lparr>operations := fmupd (ec_operation_id ec) opn' (operations r),
        recovery_prior_status := prior_status r, status := Status_RecoveryRequired,
        stage := Stage_Recovering, controller_epoch := ep, activation_lease := None,
        wake := wake_default\<rparr>"
      by (auto dest!: enter_recovery_frame)
    with no inv t show ?thesis by (intro lifecycle_recovering [OF inv(1)]) simp_all
  next
    case False
    with 1(8) no inv show ?thesis by (intro lifecycle_same [OF inv(1)]) simp_all
  qed
qed

lemma lifecycle_finish_recovery:
  assumes inv: "lifecycle_ok r" and f: "finish_recovery_reduce env rr t r = Inr r'"
  shows "lifecycle_ok r'"
  using f
proof (cases rule: finish_recovery_cases)
  case idle
  have "completed_ok r' = completed_ok r" by (rule completed_ok_cong) (simp_all add: idle)
  with inv idle show ?thesis
    by (auto simp: lifecycle_ok_def recovered_status_def split: option.splits)
next
  case (abandon i u un digest)
  then have "\<not> completed_ok r" by (simp add: completed_ok_def)
  with inv abandon show ?thesis
    by (auto simp: lifecycle_ok_def recovered_status_def split: option.splits)
qed

lemma lifecycle_children:
  assumes inv: "lifecycle_ok r" and c: "child_callback_step cb r = Inr (Callback_Next r' fin)"
  shows "lifecycle_ok r'"
  using c
proof (cases rule: child_step)
  case (running child)
  then have "completed_ok r'" if "completed_ok r"
    by (intro completed_child [OF that running(1,2), where
        child' = "child\<lparr>ch_state := cb_state cb, ch_artifacts := cb_artifacts cb\<rparr>"]) simp_all
  with running inv show ?thesis by (intro lifecycle_same [OF inv]) simp_all
next
  case (settled child settlement remaining u p)
  then have "completed_ok r'" if "completed_ok r"
    by (intro completed_child [OF that settled(1,2), where
        child' = "child\<lparr>ch_settlement := Some settlement, ch_state := cb_state cb,
          ch_artifacts := cb_artifacts cb\<rparr>"]) simp_all
  with settled inv show ?thesis by (intro lifecycle_same [OF inv]) simp_all
qed

lemma completed_ok_update [simp]:
  "completed_ok (r\<lparr>harness := h\<rparr>) = completed_ok r"
  "completed_ok (r\<lparr>controller_epoch := ep, wake := w, activation_lease := l\<rparr>) = completed_ok r"
  "completed_ok (r\<lparr>next_message_sequence := n, mailbox := mb\<rparr>) = completed_ok r"
  "completed_ok (r\<lparr>strategy_revisions := ss, current_strategy_revision := sv,
     workflow_revisions := ws, current_workflow_revision := wv\<rparr>) = completed_ok r"
  "completed_ok (r\<lparr>revision := a, updated_at_ms := b, event_cursor := c, command_receipts := d\<rparr>) =
     completed_ok r"
  by (rule completed_ok_cong; simp)+

lemma run_step_lifecycle:
  assumes "run_step env r r'" and inv: "lifecycle_ok r" "outbox_consistent r"
    and t: "status r \<noteq> Status_Tombstoned"
  shows "lifecycle_ok r'"
  using assms(1)
proof (cases rule: run_step_cases)
  case control
  with inv t show ?thesis by (blast intro: lifecycle_control)
next
  case begin_recovery
  from begin_recovery_frame [OF this] obtain ep where
    r': "r' = r\<lparr>recovery_prior_status := prior_status r, controller_epoch := ep,
        activation_lease := None, wake := wake_default, status := Status_RecoveryRequired,
        stage := Stage_Recovering, operations := fmmap fence_dispatching (operations r)\<rparr>"
    by blast
  have "completed_ok r'" if "completed_ok r" by (rule completed_fenced [OF that]) (simp_all add: r')
  with inv t r' show ?thesis by (intro lifecycle_recovering [OF inv(1)]) simp_all
next
  case finish_recovery
  with inv show ?thesis by (blast intro: lifecycle_finish_recovery)
next
  case begin_iteration
  from begin_iteration_frame [OF this] show ?thesis
    by (elim exE conjE) (rule lifecycle_active [OF inv(1)], simp_all)
next
  case (finish_iteration fi t fin)
  from finish_iteration_frame [OF this] obtain i digest where
    "finish_iteration_accept fi digest t i r = Inr (Callback_Next r' fin)"
    "status r = Status_Active" by blast
  with finish_accept_frame [OF this(1)] show ?thesis
    by (elim exE conjE) (rule lifecycle_active [OF inv(1)], simp_all)
next
  case prepare_operation
  from prepare_operation_frame [OF this] inv show ?thesis
    by (elim exE conjE disjE) (simp, rule lifecycle_active [OF inv(1)], simp_all add: lifecycle_ok_def)
next
  case claim_effect
  from claim_effect_frame [OF this] inv show ?thesis
    by (elim exE conjE) (rule lifecycle_active [OF inv(1)], simp_all add: lifecycle_ok_def)
next
  case acknowledge_effect
  with inv t show ?thesis by (blast intro: lifecycle_acknowledge)
next
  case (reconcile_effect re)
  from reconcile_effect_frame [OF this] obtain opn opn' where
    o: "fmlookup (operations r) (re_operation_id re) = Some opn" "op_state opn = Op_Uncertain"
      "r' = r\<lparr>operations := fmupd (re_operation_id re) opn' (operations r)\<rparr>" by blast
  then have "\<not> op_final opn" by (simp add: op_final_def)
  with o(1) have "\<not> completed_ok r" by (auto simp: completed_ok_def unsettled_final)
  with o inv show ?thesis by (intro lifecycle_same [OF inv(1)]) simp_all
next
  case admit_child
  from admit_child_frame [OF this] inv show ?thesis
    by (elim exE conjE disjE) (simp, rule lifecycle_active [OF inv(1)], simp_all add: lifecycle_ok_def)
next
  case child_callback
  with inv show ?thesis by (blast intro: lifecycle_children)
qed (rule lifecycle_same [OF inv(1)]; simp)+

interpretation lifecycle_inv: run_invariant env "\<lambda>r. lifecycle_ok r \<and> outbox_consistent r" for env
proof unfold_locales
  fix e r'
  assume "lifecycle_ok (run e) \<and> outbox_consistent (run e)" and "envelope_good env e"
    and "status (run e) \<noteq> Status_Tombstoned" and "run_step env (run e) r'"
  then show "lifecycle_ok r' \<and> outbox_consistent r'"
    using outbox_inv.step run_step_lifecycle by blast
qed (simp_all add: lifecycle_ok_def outbox_consistent_def initial_run_def)

end
