(* ===== verification/Run_Inv_Progress.thy ===== *)
theory Run_Inv_Progress
  imports Run_Inv_Lifecycle
begin

text \<open>
  What only moves forward: the controller epoch with the activation lease that it fences,
  the iteration numbers and the archive of finished iterations, the revision with its event
  cursor, and the receipts that make a command idempotent.
\<close>

section \<open>Epochs and leases\<close>

definition lease_step :: "run_record \<Rightarrow> run_record \<Rightarrow> bool" where
  "lease_step r r' \<longleftrightarrow>
     controller_epoch r \<le> controller_epoch r' \<and>
     (\<forall>l'. activation_lease r' = Some l' \<longrightarrow>
        controller_epoch r < controller_epoch r' \<or>
        controller_epoch r' = controller_epoch r \<and>
        (\<exists>l. activation_lease r = Some l \<and> lease_epoch l = lease_epoch l' \<and>
           lease_token l = lease_token l' \<and> lease_worker_id l = lease_worker_id l'))"

lemma lease_step_same:
  "controller_epoch r' = controller_epoch r \<Longrightarrow> activation_lease r' = activation_lease r \<Longrightarrow>
     lease_step r r'"
  by (simp add: lease_step_def)

lemma lease_step_cleared:
  "unat (controller_epoch r) \<le> unat (controller_epoch r') \<Longrightarrow> activation_lease r' = None \<Longrightarrow>
     lease_step r r'"
  by (simp add: lease_step_def word_le_nat_alt)

lemma control_lease:
  assumes "apply_control a r = Inr r'"
  shows "lease_step r r'"
  using assms
proof (cases rule: control_cases)
  case halt
  from halting_frame [OF assms halt] show ?thesis
    by (elim exE conjE) (rule lease_step_cleared, simp_all)
next
  case resume
  from resume_frame [OF resume(2)] show ?thesis by (elim exE conjE) (simp add: lease_step_same)
next
  case steer
  from steer_frame [OF steer(2)] show ?thesis
    by (elim exE conjE disjE) (simp_all add: lease_step_same)
qed (simp_all add: lease_step_same)

lemma run_step_lease:
  assumes "run_step env r r'"
  shows "lease_step r r'"
  using assms
proof (cases rule: run_step_cases)
  case (residency ep w l)
  then show ?thesis by (cases l) (auto simp: lease_step_def word_less_nat_alt)
next
  case control
  then show ?thesis by (rule control_lease)
next
  case begin_recovery
  from begin_recovery_frame [OF this] show ?thesis
    by (elim exE conjE) (rule lease_step_cleared, simp_all)
next
  case finish_recovery
  then show ?thesis by (cases rule: finish_recovery_cases) (simp_all add: lease_step_same)
next
  case begin_iteration
  from begin_iteration_frame [OF this] show ?thesis by (elim exE conjE) (simp add: lease_step_same)
next
  case (finish_iteration fi t fin)
  from finish_iteration_frame [OF this] obtain i digest where
    "finish_iteration_accept fi digest t i r = Inr (Callback_Next r' fin)" by blast
  from finish_accept_frame [OF this] show ?thesis by (elim exE conjE) (simp add: lease_step_same)
next
  case prepare_operation
  from prepare_operation_frame [OF this] show ?thesis
    by (elim exE conjE disjE) (simp_all add: lease_step_same)
next
  case claim_effect
  from claim_effect_frame [OF this] show ?thesis by (elim exE conjE) (simp add: lease_step_same)
next
  case (acknowledge_effect ec fin)
  then show ?thesis
  proof (cases rule: acknowledge_cases)
    case (1 opn attempt digest opn' recover)
    show ?thesis
    proof (cases recover)
      case True
      with 1(8) have "enter_recovery (r\<lparr>operations := fmupd (ec_operation_id ec) opn' (operations r)\<rparr>) =
        Inr r'" by simp
      from enter_recovery_frame [OF this] show ?thesis
        by (elim exE conjE) (rule lease_step_cleared, simp_all)
    next
      case False
      with 1(8) show ?thesis by (simp add: lease_step_same)
    qed
  qed
next
  case reconcile_effect
  from reconcile_effect_frame [OF this] show ?thesis by (elim exE conjE) (simp add: lease_step_same)
next
  case admit_child
  from admit_child_frame [OF this] show ?thesis
    by (elim exE conjE disjE) (simp_all add: lease_step_same)
next
  case child_callback
  then show ?thesis by (cases rule: child_step) (simp_all add: lease_step_same)
qed (simp_all add: lease_step_same)

lemma env_step_lease: "env_step env e e' \<Longrightarrow> lease_step (run e) (run e')"
  by (erule env_step_record) (drule run_step_lease, simp add: lease_step_def)

lemma later_epoch: "env_later env e e' \<Longrightarrow> controller_epoch (run e) \<le> controller_epoch (run e')"
  by (induction rule: rtranclp_induct) (auto dest!: env_step_lease simp: lease_step_def)

text \<open>While the epoch stands still the lease is the same lease or is gone.\<close>

lemma lease_fenced_later:
  assumes "activation_lease (run e) = Some l" and "env_later env e e'"
    and "controller_epoch (run e') = controller_epoch (run e)"
    and "activation_lease (run e') = Some l'"
  shows "lease_token l' = lease_token l \<and> lease_worker_id l' = lease_worker_id l"
  using assms(2-)
proof (induction arbitrary: l' rule: rtranclp_induct)
  case base
  with assms(1) show ?case by simp
next
  case (step e1 e2)
  from later_epoch [OF step(1)] env_step_lease [OF step(2)] step(4)
  have same: "controller_epoch (run e1) = controller_epoch (run e)"
    by (auto simp: lease_step_def)
  with env_step_lease [OF step(2)] step(4,5) obtain l1 where
    "activation_lease (run e1) = Some l1" "lease_token l1 = lease_token l'"
    "lease_worker_id l1 = lease_worker_id l'"
    by (auto simp: lease_step_def)
  with step.IH [OF same] show ?case by simp
qed

section \<open>Iterations\<close>

text \<open>The steps, seen from the iteration fields.\<close>

lemma iteration_step:
  assumes "run_step env r r'"
  obtains (other) "active_iteration r' = active_iteration r" "run_iterations r' = run_iterations r"
      "next_iteration_id r' = next_iteration_id r"
  | (start) i where "active_iteration r = None" "active_iteration r' = Some i"
      "it_iteration_id i = next_iteration_id r" "run_iterations r' = run_iterations r"
      "unat (next_iteration_id r') = unat (next_iteration_id r) + 1"
      "\<exists>ctx v tok t. begin_iteration_reduce ctx v tok t r = Inr r'"
  | (finish) i m where "active_iteration r = Some i" "active_iteration r' = None"
      "it_iteration_id m = it_iteration_id i" "next_iteration_id r' = next_iteration_id r"
      "it_finished_at_ms m \<noteq> None"
      "run_iterations r' = pop_front_while MAX_ITERATION_SUMMARIES (run_iterations r @ [m])"
  using assms
proof (cases rule: run_step_cases)
  case control
  then show ?thesis by (intro other) (simp_all add: control_work)
next
  case begin_recovery
  from begin_recovery_frame [OF this] show ?thesis by (elim exE conjE) (rule other, simp_all)
next
  case (finish_recovery rr t)
  then show ?thesis
  proof (cases rule: finish_recovery_cases)
    case idle
    then show ?thesis by (intro other) simp_all
  next
    case (abandon i u un digest)
    then show ?thesis
      by (intro finish [of i "abandoned_manifest t digest i"]) (simp_all add: abandoned_manifest_def)
  qed
next
  case begin_iteration
  from begin_iteration_frame [OF this] have "active_iteration r = None \<and>
    active_iteration r' \<noteq> None \<and> it_iteration_id (the (active_iteration r')) = next_iteration_id r \<and>
    run_iterations r' = run_iterations r \<and>
    unat (next_iteration_id r') = unat (next_iteration_id r) + 1"
    by (elim exE conjE) simp
  with begin_iteration start [of "the (active_iteration r')"] show ?thesis by auto
next
  case (finish_iteration fi t fin)
  from finish_iteration_frame [OF this] obtain i digest where
    f: "finish_iteration_accept fi digest t i r = Inr (Callback_Next r' fin)"
      "active_iteration r = Some i" by blast
  from finish_accept_frame [OF f(1)] f(2) show ?thesis
    by (elim exE conjE) (rule finish [of i "finished_manifest fi t digest i"],
      simp_all add: finished_manifest_def)
next
  case prepare_operation
  from prepare_operation_frame [OF this] show ?thesis
    by (elim exE conjE disjE) (rule other; simp)+
next
  case claim_effect
  from claim_effect_frame [OF this] show ?thesis by (elim exE conjE) (rule other, simp_all)
next
  case (acknowledge_effect ec fin)
  then show ?thesis
    by (cases rule: acknowledge_cases, intro other)
      (auto dest!: enter_recovery_frame split: if_splits)
next
  case reconcile_effect
  from reconcile_effect_frame [OF this] show ?thesis by (elim exE conjE) (rule other, simp_all)
next
  case admit_child
  from admit_child_frame [OF this] show ?thesis
    by (elim exE conjE disjE) (rule other; simp)+
next
  case child_callback
  then show ?thesis by (cases rule: child_step) (rule other; simp)+
qed (rule other; simp)+

definition iterations_ordered :: "run_record \<Rightarrow> bool" where
  "iterations_ordered r \<longleftrightarrow>
     sorted_wrt (<) (map it_iteration_id (run_iterations r)) \<and>
     length (run_iterations r) \<le> MAX_ITERATION_SUMMARIES \<and>
     (\<forall>i \<in> set (run_iterations r). it_iteration_id i < next_iteration_id r \<and> it_finished_at_ms i \<noteq> None) \<and>
     (\<forall>i. active_iteration r = Some i \<longrightarrow>
        unat (next_iteration_id r) = unat (it_iteration_id i) + 1 \<and>
        (\<forall>j \<in> set (run_iterations r). it_iteration_id j < it_iteration_id i))"

lemma sorted_wrt_drop: "sorted_wrt P xs \<Longrightarrow> sorted_wrt P (drop n xs)"
  by (metis append_take_drop_id sorted_wrt_append)

lemma iterations_ordered_finish:
  assumes inv: "iterations_ordered r" and s: "active_iteration r = Some i"
    "active_iteration r' = None" "it_iteration_id m = it_iteration_id i"
    "next_iteration_id r' = next_iteration_id r" "it_finished_at_ms m \<noteq> None"
    "run_iterations r' = pop_front_while MAX_ITERATION_SUMMARIES (run_iterations r @ [m])"
  shows "iterations_ordered r'"
proof -
  define all where "all = run_iterations r @ [m]"
  have sorted: "sorted_wrt (<) (map it_iteration_id all)"
    using inv s by (auto simp: iterations_ordered_def sorted_wrt_append all_def)
  have bound: "\<forall>j \<in> set all. it_iteration_id j < next_iteration_id r \<and> it_finished_at_ms j \<noteq> None"
    using inv s by (auto simp: iterations_ordered_def word_less_nat_alt all_def)
  have r': "run_iterations r' = drop (length all - MAX_ITERATION_SUMMARIES) all"
    using s(6) by (simp only: pop_front_while_drop all_def)
  have "sorted_wrt (<) (map it_iteration_id (run_iterations r'))"
    using sorted by (simp add: r' drop_map [symmetric] sorted_wrt_drop)
  moreover have "length (run_iterations r') \<le> MAX_ITERATION_SUMMARIES" by (simp add: r')
  ultimately show ?thesis
    using bound s(2,4) by (auto simp: iterations_ordered_def r' dest: in_set_dropD)
qed

interpretation iterations_inv: run_invariant env iterations_ordered for env
proof unfold_locales
  fix e r'
  assume inv: "iterations_ordered (run e)" and "run_step env (run e) r'"
  from this(2) show "iterations_ordered r'"
  proof (cases rule: iteration_step)
    case (start i)
    with inv show ?thesis by (auto simp: iterations_ordered_def word_less_nat_alt)
  next
    case (finish i m)
    with inv show ?thesis by (rule iterations_ordered_finish)
  qed (use inv in \<open>simp add: iterations_ordered_def\<close>)
qed (simp_all add: iterations_ordered_def initial_run_def)

section \<open>Revisions, cursors and receipts\<close>

lemma env_step_counts:
  assumes "env_step env e e'"
  shows "unat (revision (run e')) = unat (revision (run e)) + 1"
    and "unat (event_cursor (run e')) = unat (event_cursor (run e)) + 1"
  using assms by (rule env_step_record, simp)+

lemma reach_cursor: "env_reach env e \<Longrightarrow> event_cursor (run e) = revision (run e)"
proof (induction rule: env_reach.induct)
  case (created e)
  then show ?case by (auto elim!: env_created.cases simp: initial_envelope_def initial_run_def)
next
  case (step e e')
  with env_step_counts [OF step(2)] show ?case by (simp add: word_unat_eq_iff)
qed

lemma env_step_receipt:
  assumes "env_step env e e'" and "fmlookup (command_receipts (run e)) cid = Some rc"
  shows "fmlookup (command_receipts (run e')) cid = Some rc"
  using assms(1) by (rule env_step_record) (use assms(2) in auto)

lemma later_receipt:
  assumes "fmlookup (command_receipts (run e)) cid = Some rc" and "env_later env e e'"
  shows "fmlookup (command_receipts (run e')) cid = Some rc"
  using assms(2) by induction (use assms(1) env_step_receipt in auto)

lemma env_step_identity: "env_step env e e' \<Longrightarrow> identity (run e') = identity (run e)"
  by (erule env_step_record) (drule run_step_frame, simp add: identity_def)

lemma later_identity: "env_later env e e' \<Longrightarrow> identity (run e') = identity (run e)"
  by (induction rule: rtranclp_induct) (auto dest!: env_step_identity)

lemma env_step_budget: "env_step env e e' \<Longrightarrow> resources_within (budget (run e)) (budget (run e'))"
  by (erule env_step_record, erule resource_step) simp_all

lemma later_budget: "env_later env e e' \<Longrightarrow> resources_within (budget (run e)) (budget (run e'))"
  by (induction rule: rtranclp_induct) (auto intro: within_trans env_step_budget)

text \<open>A later envelope at the same revision is the same envelope.\<close>

lemma later_revision:
  "env_later env e e' \<Longrightarrow> revision (run e) \<le> revision (run e') \<and>
     (revision (run e) = revision (run e') \<longrightarrow> e = e')"
proof (induction rule: rtranclp_induct)
  case (step e1 e2)
  have "unat (revision (run e2)) = unat (revision (run e1)) + 1"
    by (rule env_step_counts [OF step(2)])
  with step(3) show ?case by (auto simp: word_le_nat_alt)
qed simp

section \<open>The journal\<close>

text \<open>The journal holds exactly the events of the latest revisions, as many as fit.\<close>

definition journal_exact :: "run_envelope \<Rightarrow> bool" where
  "journal_exact e \<longleftrightarrow>
     (let c = unat (event_cursor (run e)); kept = [c + 1 - min MAX_EVENTS c ..< c + 1]
      in map (unat \<circ> ev_cursor) (events e) = kept \<and> map (unat \<circ> ev_revision) (events e) = kept)"

lemma drop_upt_snoc:
  "drop (Suc (min m c) - m) ([c + 1 - min m c ..< c + 1] @ [c + 1]) = [c + 2 - min m (c + 1) ..< c + 2]" for c m :: nat
proof -
  have "[c + 1 - min m c ..< c + 1] @ [c + 1] = [c + 1 - min m c ..< c + 2]" by (simp add: upt_Suc_append)
  then show ?thesis by (auto simp: min_def)
qed

lemma advance_journal:
  assumes "journal_exact e" and "event_cursor (run e) = revision (run e)" and "advance e r kind t = Inr e'"
  shows "journal_exact e'"
proof -
  let ?c = "unat (event_cursor (run e))"
  from assms(2,3) obtain event where e': "events e' = trim_events (events e @ [event])"
      "unat (ev_cursor event) = ?c + 1" "unat (ev_revision event) = ?c + 1" "unat (event_cursor (run e')) = ?c + 1"
    by (auto simp: advance_def result_simps successor_def successor_cursor_def checked_succ)
  have "length (map (unat \<circ> ev_cursor) (events e)) = min MAX_EVENTS ?c"
    using assms(1) by (simp add: journal_exact_def Let_def del: length_map upt_Suc)
  then have "events e' = drop (Suc (min MAX_EVENTS ?c) - MAX_EVENTS) (events e @ [event])"
    by (simp add: e'(1) trim_events_def pop_front_while_drop)
  then show ?thesis
    using assms(1) e'(2-4) drop_upt_snoc [of MAX_EVENTS ?c]
    by (simp add: journal_exact_def Let_def drop_map [symmetric] del: drop_append upt_Suc)
qed

lemma trim_events_last: "es \<noteq> [] \<Longrightarrow> last (trim_events es) = last es"
  by (simp add: trim_events_def pop_front_while_drop MAX_EVENTS_def)

lemma advance_last:
  "advance e r kind t = Inr e' \<Longrightarrow> last (events e') = \<lparr>ev_cursor = event_cursor (run e'),
     ev_revision = revision (run e'), ev_kind = internal_event_kind kind, ev_at_ms = t\<rparr>"
  by (auto simp: advance_def result_simps trim_events_last)

lemma reach_journal: "env_reach env e \<Longrightarrow> journal_exact e"
proof (induction rule: env_reach.induct)
  case (created e)
  then show ?case
    by (auto elim!: env_created.cases simp: initial_envelope_def initial_run_def journal_exact_def MAX_EVENTS_def)
next
  case (step e e')
  from step(2) obtain r kind t e1 where adv: "advance e r kind t = Inr e1"
      and same: "events e' = events e1" "event_cursor (run e') = event_cursor (run e1)"
    by cases (auto simp: record_receipt_def)
  from advance_journal [OF step(3) reach_cursor [OF step(1)] adv] same show ?case by (simp add: journal_exact_def)
qed

text \<open>Such a journal passes the validation of the envelope.\<close>

lemma consecutive_validates:
  assumes "map (unat \<circ> ev_cursor) es = [a ..< a + length es]" and "map (unat \<circ> ev_revision) es = [a ..< a + length es]"
    and "a + length es \<le> unat bound + 1"
    and "\<And>c v. prev = Some (c, v) \<Longrightarrow> unat c + 1 = a \<and> unat v + 1 = a"
  shows "validate_events bound prev es = Inr ()"
  using assms
proof (induction es arbitrary: a prev)
  case (Cons x es)
  have x: "unat (ev_cursor x) = a" "unat (ev_revision x) = a" using Cons.prems(1,2) by (simp_all add: upt_conv_Cons del: upt_Suc)
  have "validate_events bound (Some (ev_cursor x, ev_revision x)) es = Inr ()"
    using Cons.prems(1-3) x by (intro Cons.IH [of "Suc a"]) (auto simp: upt_conv_Cons simp del: upt_Suc)
  moreover have "\<not> bound < ev_cursor x" using Cons.prems(3) x by (simp add: word_less_nat_alt)
  moreover have "checked_add c 1 = Some (ev_cursor x) \<and> checked_add v 1 = Some (ev_revision x)" if "prev = Some (c, v)" for c v
    using Cons.prems(4) [OF that] x by (simp add: checked_succ)
  ultimately show ?case by auto
qed simp

lemma exact_journal_valid:
  assumes "journal_exact e" and "event_cursor (run e) = revision (run e)" and "event_cursor (run e) \<noteq> 0"
  shows "validate_events (event_cursor (run e)) None (events e) = Inr ()" "journal_tail_matches e"
    "length (events e) = min MAX_EVENTS (unat (event_cursor (run e)))"
proof -
  let ?c = "unat (event_cursor (run e))"
  have c: "0 < ?c" using assms(3) by (simp add: unat_gt_0)
  have maps: "map (unat \<circ> ev_cursor) (events e) = [?c + 1 - min MAX_EVENTS ?c ..< ?c + 1]"
      "map (unat \<circ> ev_revision) (events e) = [?c + 1 - min MAX_EVENTS ?c ..< ?c + 1]"
    using assms(1) by (simp_all add: journal_exact_def Let_def)
  then have "length (map (unat \<circ> ev_cursor) (events e)) = min MAX_EVENTS ?c" by (simp del: length_map upt_Suc)
  then show len: "length (events e) = min MAX_EVENTS ?c" by simp
  then show "validate_events (event_cursor (run e)) None (events e) = Inr ()"
    using maps by (intro consecutive_validates [of _ "?c + 1 - min MAX_EVENTS ?c"]) simp_all
  have ne: "events e \<noteq> []" using len c by (auto simp: MAX_EVENTS_def)
  then have "unat (ev_cursor (last (events e))) = last (map (unat \<circ> ev_cursor) (events e))"
      "unat (ev_revision (last (events e))) = last (map (unat \<circ> ev_revision) (events e))"
    by (simp_all add: last_map)
  then have "unat (ev_cursor (last (events e))) = ?c \<and> unat (ev_revision (last (events e))) = ?c"
    using maps c by (simp add: last_upt MAX_EVENTS_def del: upt_Suc)
  then show "journal_tail_matches e"
    using ne assms(2,3) by (simp add: journal_tail_matches_def word_unat_eq_iff)
qed

end
