(* ===== verification/Run_Inv_Content.thy ===== *)
theory Run_Inv_Content
  imports Run_Inv_Progress
begin

text \<open>
  The contents a Run accumulates: the mailbox and the steering queue, the strategy and
  workflow revisions, and the Harness pin.
\<close>

section \<open>Who writes what\<close>

abbreviation refinement_reduce :: "run_record \<Rightarrow> run_record \<Rightarrow> bool" where
  "refinement_reduce r r' \<equiv>
     (\<exists>ps. propose_strategy_reduce ps r = Inr r') \<or> (\<exists>v. apply_strategy_reduce v r = Inr r') \<or>
     (\<exists>pw. propose_workflow_reduce pw r = Inr r') \<or> (\<exists>vw. validate_workflow_reduce vw r = Inr r') \<or>
     (\<exists>b v. set_workflow_revision_reduce b v r = Inr r')"

abbreviation harness_reduce :: "run_record \<Rightarrow> run_record \<Rightarrow> bool" where
  "harness_reduce r r' \<equiv>
     (\<exists>pin. propose_harness_reduce pin r = Inr r') \<or> (\<exists>vh. validate_harness_reduce vh r = Inr r') \<or>
     (\<exists>d. activate_harness_reduce d r = Inr r') \<or> (\<exists>d. rollback_harness_reduce d r = Inr r')"

abbreviation message_reduce :: "run_record \<Rightarrow> run_record \<Rightarrow> bool" where
  "message_reduce r r' \<equiv>
     (\<exists>am. accept_message_reduce am r = Inr r') \<or> (\<exists>tm. transition_message_reduce tm r = Inr r')"

definition revisions_same :: "run_record \<Rightarrow> run_record \<Rightarrow> bool" where
  "revisions_same r r' \<longleftrightarrow> strategy_revisions r' = strategy_revisions r \<and>
     current_strategy_revision r' = current_strategy_revision r \<and>
     workflow_revisions r' = workflow_revisions r \<and>
     current_workflow_revision r' = current_workflow_revision r"

definition mailbox_same :: "run_record \<Rightarrow> run_record \<Rightarrow> bool" where
  "mailbox_same r r' \<longleftrightarrow>
     mailbox r' = mailbox r \<and> next_message_sequence r' = next_message_sequence r"

definition steering_same :: "run_record \<Rightarrow> run_record \<Rightarrow> bool" where
  "steering_same r r' \<longleftrightarrow>
     steering r' = steering r \<and> steering_high_water r' = steering_high_water r"

lemmas same_defs = revisions_same_def mailbox_same_def steering_same_def

lemma control_steering:
  assumes "apply_control a r = Inr r'"
  shows "steering_same r r' \<or> (\<exists>m b. control_steer m b r = Inr r')"
  using assms
proof (cases rule: control_cases)
  case halt
  from halting_frame [OF assms halt] show ?thesis by (elim exE conjE) (simp add: steering_same_def)
next
  case resume
  from resume_frame [OF resume(2)] show ?thesis by (elim exE conjE) (simp add: steering_same_def)
next
  case steer
  then show ?thesis by blast
qed (simp_all add: steering_same_def)

lemma content_step:
  assumes "run_step env r r'"
  shows "(revisions_same r r' \<or> refinement_reduce r r') \<and> (harness r' = harness r \<or> harness_reduce r r') \<and>
    (mailbox_same r r' \<or> message_reduce r r') \<and>
    (steering_same r r' \<or> (\<exists>m b. control_steer m b r = Inr r'))"
  using assms
proof (cases rule: run_step_cases)
  case control
  with control_steering show ?thesis by (auto simp: revisions_same_def mailbox_same_def control_work)
next
  case begin_recovery
  from begin_recovery_frame [OF this] show ?thesis by (elim exE conjE) (simp add: same_defs)
next
  case finish_recovery
  then show ?thesis by (cases rule: finish_recovery_cases) (simp_all add: same_defs)
next
  case begin_iteration
  from begin_iteration_frame [OF this] show ?thesis by (elim exE conjE) (simp add: same_defs)
next
  case (finish_iteration fi t fin)
  from finish_iteration_frame [OF this] obtain i digest where
    "finish_iteration_accept fi digest t i r = Inr (Callback_Next r' fin)" by blast
  from finish_accept_frame [OF this] show ?thesis by (elim exE conjE) (simp add: same_defs)
next
  case prepare_operation
  from prepare_operation_frame [OF this] show ?thesis
    by (elim exE conjE disjE) (simp_all add: same_defs)
next
  case claim_effect
  from claim_effect_frame [OF this] show ?thesis by (elim exE conjE) (simp add: same_defs)
next
  case acknowledge_effect
  then show ?thesis
    by (cases rule: acknowledge_cases)
      (auto dest!: enter_recovery_frame simp: same_defs split: if_splits)
next
  case reconcile_effect
  from reconcile_effect_frame [OF this] show ?thesis by (elim exE conjE) (simp add: same_defs)
next
  case admit_child
  from admit_child_frame [OF this] show ?thesis
    by (elim exE conjE disjE) (simp_all add: same_defs)
next
  case child_callback
  then show ?thesis by (cases rule: child_step) (simp_all add: same_defs)
qed (simp_all add: same_defs)

section \<open>Messages\<close>

text \<open>Distinct sequence numbers below a bound.\<close>

definition sequenced :: "(message_id, mail_message) fmap \<Rightarrow> nat \<Rightarrow> bool" where
  "sequenced m bound \<longleftrightarrow>
     (\<forall>k v. fmlookup m k = Some v \<longrightarrow> unat (msg_sequence v) < bound) \<and>
     (\<forall>j k v w. fmlookup m j = Some v \<longrightarrow> fmlookup m k = Some w \<longrightarrow>
        msg_sequence v = msg_sequence w \<longrightarrow> j = k)"

lemma sequenced_new:
  assumes "sequenced m n" "fmlookup m k = None" "unat (msg_sequence v) = n"
  shows "sequenced (fmupd k v m) (Suc n)"
proof -
  have ne: "msg_sequence w \<noteq> msg_sequence v" if "fmlookup m j = Some w" for j w
    using assms(1,3) that by (fastforce simp: sequenced_def)
  have lt: "unat (msg_sequence w) < Suc n" if "fmlookup m j = Some w" for j w
    using assms(1) that by (fastforce simp: sequenced_def)
  show ?thesis
    using assms ne lt by (auto simp: sequenced_def split: if_splits) metis+
qed

lemma sequenced_update:
  "sequenced m n \<Longrightarrow> fmlookup m k = Some v \<Longrightarrow> msg_sequence w = msg_sequence v \<Longrightarrow>
     sequenced (fmupd k w m) n"
  by (auto simp: sequenced_def split: if_splits)

definition messages_sequenced :: "run_record \<Rightarrow> bool" where
  "messages_sequenced r \<longleftrightarrow>
     sequenced (mailbox r) (unat (next_message_sequence r)) \<and>
     sequenced (steering r) (unat (steering_high_water r) + 1)"

lemma accept_sequenced:
  assumes "accept_message_reduce am r = Inr r'"
    and "sequenced (mailbox r) (unat (next_message_sequence r))"
  shows "sequenced (mailbox r') (unat (next_message_sequence r'))"
  using accept_message_frame [OF assms(1)] assms(2)
  by (elim exE conjE disjE) (simp_all add: sequenced_new accepted_message_def)

lemma transition_sequenced:
  assumes "transition_message_reduce tm r = Inr r'"
    and "sequenced (mailbox r) (unat (next_message_sequence r))"
  shows "sequenced (mailbox r') (unat (next_message_sequence r'))"
  using transition_message_frame [OF assms(1)] assms(2)
  by (elim exE conjE) (simp add: sequenced_update)

lemma steer_sequenced:
  assumes "control_steer m b r = Inr r'" and "sequenced (steering r) (unat (steering_high_water r) + 1)"
  shows "sequenced (steering r') (unat (steering_high_water r') + 1)"
  using steer_frame [OF assms(1)] assms(2)
  by (elim exE conjE disjE) (simp_all add: sequenced_new steering_message_def)

interpretation messages_inv: run_invariant env messages_sequenced for env
proof unfold_locales
  fix e r'
  assume inv: "messages_sequenced (run e)" and "run_step env (run e) r'"
  from content_step [OF this(2)]
  have m: "mailbox_same (run e) r' \<or> message_reduce (run e) r'"
    and s: "steering_same (run e) r' \<or> (\<exists>m b. control_steer m b (run e) = Inr r')" by blast+
  from m inv have "sequenced (mailbox r') (unat (next_message_sequence r'))"
    by (auto simp: messages_sequenced_def mailbox_same_def
        intro: accept_sequenced transition_sequenced)
  moreover from s inv have "sequenced (steering r') (unat (steering_high_water r') + 1)"
    by (auto simp: messages_sequenced_def steering_same_def intro: steer_sequenced [simplified])
  ultimately show "messages_sequenced r'" by (simp add: messages_sequenced_def)
qed (simp_all add: messages_sequenced_def sequenced_def initial_run_def)

text \<open>A mailbox message keeps its contents and only moves towards processed.\<close>

fun message_rank :: "message_state \<Rightarrow> nat" where
  "message_rank Msg_Accepted = 0"
| "message_rank Msg_Queued = 1"
| "message_rank Msg_DeliveredToContext = 2"
| "message_rank Msg_Processed = 3"
| "message_rank Msg_Unknown = 4"

definition message_kept :: "mail_message \<Rightarrow> mail_message \<Rightarrow> bool" where
  "message_kept m m' \<longleftrightarrow>
     m' = m\<lparr>msg_state := msg_state m'\<rparr> \<and> message_rank (msg_state m) \<le> message_rank (msg_state m')"

lemma message_kept_refl [simp]: "message_kept m m"
  by (simp add: message_kept_def)

lemma message_kept_trans: "message_kept a b \<Longrightarrow> message_kept b c \<Longrightarrow> message_kept a c"
  unfolding message_kept_def
  by (metis le_trans mail_message.surjective mail_message.update_convs(7))

lemma message_reduce_kept:
  assumes "message_reduce r r'" and k: "fmlookup (mailbox r) k = Some m"
  shows "\<exists>m'. fmlookup (mailbox r') k = Some m' \<and> message_kept m m'"
proof -
  consider am where "accept_message_reduce am r = Inr r'"
    | tm where "transition_message_reduce tm r = Inr r'" using assms(1) by blast
  then show ?thesis
  proof cases
    case 1
    from accept_message_frame [OF 1] k show ?thesis by (elim exE conjE disjE) auto
  next
    case 2
    from transition_message_frame [OF 2] k show ?thesis
      by (auto simp: message_kept_def message_transition_valid_def)
  qed
qed

lemma env_step_message:
  assumes "env_step env e e'" and "fmlookup (mailbox (run e)) k = Some m"
  shows "\<exists>m'. fmlookup (mailbox (run e')) k = Some m' \<and> message_kept m m'"
  using assms(1)
proof (rule env_step_record)
  fix r' rv' t cur rcs
  assume s: "run_step env (run e) r'"
    and e': "run e' = r'\<lparr>revision := rv', updated_at_ms := t, event_cursor := cur,
      command_receipts := rcs\<rparr>"
  from content_step [OF s] have "mailbox_same (run e) r' \<or> message_reduce (run e) r'" by blast
  then show ?thesis
    using message_reduce_kept [of "run e" r' k m] assms(2) by (auto simp: e' mailbox_same_def)
qed

lemma later_message:
  assumes "fmlookup (mailbox (run e)) k = Some m" and "env_later env e e'"
  shows "\<exists>m'. fmlookup (mailbox (run e')) k = Some m' \<and> message_kept m m'"
  using assms(2)
proof induction
  case (step e1 e2)
  then show ?case using env_step_message message_kept_trans by blast
qed (use assms(1) in simp)

section \<open>Revisions\<close>

lemma fold_max_ge: "y \<le> fold max xs y \<and> (\<forall>x \<in> set xs. x \<le> fold max xs y)" for y :: u64
proof (induction xs arbitrary: y)
  case (Cons x xs)
  from Cons.IH [of "max x y"] show ?case by auto
qed simp

lemma max_opt_ge: "x \<in> set xs \<Longrightarrow> \<exists>m. max_opt xs = Some m \<and> x \<le> m"
  by (cases xs) (use fold_max_ge in auto)

lemma fresh_revision:
  assumes "checked_add (unwrap_or d (max_opt xs)) 1 = Some v"
  shows "v \<notin> set xs"
proof
  assume "v \<in> set xs"
  then obtain m where "max_opt xs = Some m" "v \<le> m" using max_opt_ge by blast
  with assms show False by (simp add: checked_succ unwrap_or_def word_le_nat_alt)
qed

text \<open>A list of revisions in which at most one is in force, and that one is the current.\<close>

definition one_in_force :: "('a \<Rightarrow> u64) \<Rightarrow> ('a \<Rightarrow> bool) \<Rightarrow> 'a list \<Rightarrow> (u64 \<Rightarrow> bool) \<Rightarrow> bool" where
  "one_in_force num live xs current \<longleftrightarrow>
     distinct (map num xs) \<and> (\<forall>x \<in> set xs. live x \<longrightarrow> current (num x))"

lemma one_in_force_unique:
  assumes "one_in_force num live xs (\<lambda>v. v = c)" "x \<in> set xs" "live x" "y \<in> set xs" "live y"
  shows "x = y"
  using assms by (auto simp: one_in_force_def distinct_map inj_on_def)

lemma one_in_force_snoc:
  "one_in_force num live xs P \<Longrightarrow> num x \<notin> set (map num xs) \<Longrightarrow> \<not> live x \<Longrightarrow>
     one_in_force num live (xs @ [x]) P"
  by (auto simp: one_in_force_def)

lemma one_in_force_switch:
  assumes "distinct (map num xs)" and i: "i < length xs"
    and f: "\<And>x. num (f x) = num x" "\<And>x. \<not> live (f x)" and g: "num (g (f (xs ! i))) = num (xs ! i)"
  shows "one_in_force num live ((map f xs)[i := g (f (xs ! i))]) (\<lambda>v. v = num (xs ! i))"
proof -
  have "map num ((map f xs)[i := g (f (xs ! i))]) = map num xs"
    by (rule nth_equalityI) (use i f g in \<open>auto simp: nth_list_update\<close>)
  moreover have "x = g (f (xs ! i)) \<or> \<not> live x" if "x \<in> set ((map f xs)[i := g (f (xs ! i))])" for x
    using that f(2) set_update_subset_insert [of "map f xs" i "g (f (xs ! i))"] by auto
  ultimately show ?thesis using assms(1) g by (auto simp: one_in_force_def)
qed

definition strategies_ok :: "run_record \<Rightarrow> bool" where
  "strategies_ok r \<longleftrightarrow>
     one_in_force sr_revision sr_applied (strategy_revisions r) (\<lambda>v. v = current_strategy_revision r)"

definition gates_passed :: "workflow_revision \<Rightarrow> bool" where
  "gates_passed w \<longleftrightarrow> wr_compiled w \<and> wr_static_policy_valid w \<and> wr_dry_run_valid w"

definition workflows_ok :: "run_record \<Rightarrow> bool" where
  "workflows_ok r \<longleftrightarrow>
     one_in_force wr_revision (\<lambda>w. wr_state w = Wf_Applied) (workflow_revisions r)
       (\<lambda>v. current_workflow_revision r = Some v) \<and>
     (\<forall>w \<in> set (workflow_revisions r).
        wr_state w \<in> {Wf_Validated, Wf_Applied, Wf_RolledBack} \<longrightarrow> gates_passed w)"

lemma propose_strategy_ok:
  assumes "propose_strategy_reduce ps r = Inr r'" "strategies_ok r"
  shows "strategies_ok r' \<and> workflow_revisions r' = workflow_revisions r \<and>
    current_workflow_revision r' = current_workflow_revision r"
proof -
  from assms(1) obtain v where
    v: "checked_add (unwrap_or (current_strategy_revision r)
      (max_opt (map sr_revision (strategy_revisions r)))) 1 = Some v"
    and r': "r' = r\<lparr>strategy_revisions := strategy_revisions r @
      [\<lparr>sr_revision = v, sr_digest = ps_digest ps, sr_provenance = ps_provenance ps,
        sr_applied = False, sr_promotion_proposal = ps_promotion_proposal ps\<rparr>]\<rparr>"
    by (auto simp: propose_strategy_reduce_def result_simps)
  from fresh_revision [OF v] assms(2) show ?thesis
    by (simp add: r' strategies_ok_def one_in_force_snoc)
qed

lemma apply_strategy_ok:
  assumes "apply_strategy_reduce v r = Inr r'" "strategies_ok r"
  shows "strategies_ok r' \<and> workflow_revisions r' = workflow_revisions r \<and>
    current_workflow_revision r' = current_workflow_revision r"
proof -
  let ?f = "\<lambda>s. s\<lparr>sr_applied := False\<rparr>" and ?g = "\<lambda>s. s\<lparr>sr_applied := True\<rparr>"
  from assms(1) obtain i where i: "position (\<lambda>s. sr_revision s = v) (strategy_revisions r) = Some i"
    and r': "r' = r\<lparr>strategy_revisions := (map ?f (strategy_revisions r))[i :=
      ?g (map ?f (strategy_revisions r) ! i)], current_strategy_revision := v\<rparr>"
    by (auto simp: apply_strategy_reduce_def result_simps Let_def)
  from position_Some [OF i] have i': "i < length (strategy_revisions r)"
    "sr_revision (strategy_revisions r ! i) = v" by auto
  have "distinct (map sr_revision (strategy_revisions r))"
    using assms(2) by (simp add: strategies_ok_def one_in_force_def)
  from one_in_force_switch [OF this i'(1), of ?f sr_applied ?g] i' show ?thesis
    by (simp add: r' strategies_ok_def)
qed

lemma propose_workflow_ok:
  assumes "propose_workflow_reduce pw r = Inr r'" "workflows_ok r"
  shows "workflows_ok r' \<and> strategies_ok r' = strategies_ok r"
proof -
  from assms(1) obtain v where
    v: "checked_add (unwrap_or 0 (case max_opt (map wr_revision (workflow_revisions r)) of
         Some m \<Rightarrow> Some m | None \<Rightarrow> current_workflow_revision r)) 1 = Some v"
    and r': "r' = r\<lparr>workflow_revisions := workflow_revisions r @
      [\<lparr>wr_revision = v, wr_source_digest = pw_source_digest pw, wr_provenance = pw_provenance pw,
        wr_state = Wf_Proposal, wr_compiled = False, wr_static_policy_valid = False,
        wr_dry_run_valid = False, wr_promotion_proposal = pw_promotion_proposal pw\<rparr>]\<rparr>"
    by (auto simp: propose_workflow_reduce_def result_simps)
  have "checked_add (unwrap_or (unwrap_or 0 (current_workflow_revision r))
      (max_opt (map wr_revision (workflow_revisions r)))) 1 = Some v"
    using v by (cases "max_opt (map wr_revision (workflow_revisions r))") (simp_all add: unwrap_or_def)
  from fresh_revision [OF this] assms(2) show ?thesis
    by (simp add: r' workflows_ok_def strategies_ok_def one_in_force_snoc)
qed

lemma one_in_force_update:
  assumes "one_in_force num live xs P" "i < length xs" "num x = num (xs ! i)" "\<not> live x"
  shows "one_in_force num live (xs[i := x]) P"
proof -
  have "map num (xs[i := x]) = map num xs"
    by (rule nth_equalityI) (use assms in \<open>auto simp: nth_list_update\<close>)
  with assms show ?thesis
    using set_update_subset_insert [of xs i x] by (auto simp: one_in_force_def)
qed

lemma validate_workflow_ok:
  assumes "validate_workflow_reduce vw r = Inr r'" "workflows_ok r"
  shows "workflows_ok r' \<and> strategies_ok r' = strategies_ok r"
proof -
  from assms(1) obtain i w where
    i: "position (\<lambda>w. wr_revision w = vw_revision vw) (workflow_revisions r) = Some i"
    and w: "w = (workflow_revisions r ! i)\<lparr>wr_compiled := vw_compiled vw,
        wr_static_policy_valid := vw_static_policy_valid vw, wr_dry_run_valid := vw_dry_run_valid vw,
        wr_state := (if vw_compiled vw \<and> vw_static_policy_valid vw \<and> vw_dry_run_valid vw
          then Wf_Validated else Wf_Rejected)\<rparr>"
    and r': "r' = r\<lparr>workflow_revisions := (workflow_revisions r)[i := w]\<rparr>"
    by (auto simp: validate_workflow_reduce_def result_simps Let_def)
  note i' = position_Some [OF i]
  have "one_in_force wr_revision (\<lambda>w. wr_state w = Wf_Applied) ((workflow_revisions r)[i := w])
      (\<lambda>v. current_workflow_revision r = Some v)"
    by (rule one_in_force_update) (use assms(2) i' w in \<open>simp_all add: workflows_ok_def\<close>)
  moreover have "wr_state w = Wf_Validated \<longrightarrow> gates_passed w" "wr_state w \<in> {Wf_Validated, Wf_Rejected}"
    by (simp_all add: w gates_passed_def)
  ultimately show ?thesis
    using assms(2) set_update_subset_insert [of "workflow_revisions r" i w]
    by (auto simp: r' workflows_ok_def strategies_ok_def)
qed

definition retire :: "workflow_revision \<Rightarrow> workflow_revision" where
  "retire w = (if wr_state w = Wf_Applied then w\<lparr>wr_state := Wf_RolledBack\<rparr> else w)"

lemma retire_simps [simp]:
  "wr_revision (retire w) = wr_revision w" "wr_state (retire w) \<noteq> Wf_Applied"
  "gates_passed (retire w) = gates_passed w"
  by (simp_all add: retire_def gates_passed_def)

lemma set_workflow_ok:
  assumes "set_workflow_revision_reduce b v r = Inr r'" "workflows_ok r"
  shows "workflows_ok r' \<and> strategies_ok r' = strategies_ok r"
proof -
  let ?g = "\<lambda>w. w\<lparr>wr_state := Wf_Applied\<rparr>" and ?ws = "workflow_revisions r"
  from assms(1) obtain i where i: "position (\<lambda>w. wr_revision w = v) ?ws = Some i"
    and el: "workflow_eligible b (?ws ! i)"
    and r': "r' = r\<lparr>workflow_revisions := (map retire ?ws)[i := ?g (map retire ?ws ! i)],
      current_workflow_revision := Some v\<rparr>"
    by (auto simp: set_workflow_revision_reduce_def result_simps Let_def retire_def [abs_def])
  note i' = position_Some [OF i]
  have "distinct (map wr_revision ?ws)"
    using assms(2) by (simp add: workflows_ok_def one_in_force_def)
  from one_in_force_switch [OF this, of i retire "\<lambda>w. wr_state w = Wf_Applied" ?g] i'
  have one: "one_in_force wr_revision (\<lambda>w. wr_state w = Wf_Applied) (workflow_revisions r')
      (\<lambda>x. x = v)" by (simp add: r')
  have "gates_passed w" if w: "w \<in> set (workflow_revisions r')"
    "wr_state w \<in> {Wf_Validated, Wf_Applied, Wf_RolledBack}" for w
  proof (cases "w = ?g (map retire ?ws ! i)")
    case True
    with i' el show ?thesis by (simp add: workflow_eligible_def gates_passed_def retire_def)
  next
    case False
    with w(1) set_update_subset_insert [of "map retire ?ws" i "?g (map retire ?ws ! i)"]
    obtain u where u: "u \<in> set ?ws" "w = retire u" by (auto simp: r')
    then have "wr_state u \<in> {Wf_Validated, Wf_Applied, Wf_RolledBack}"
      using w(2) by (auto simp: retire_def split: if_splits)
    with u assms(2) show ?thesis by (auto simp: workflows_ok_def)
  qed
  with one show ?thesis
    by (simp add: r' workflows_ok_def strategies_ok_def one_in_force_def eq_commute [of v])
qed

interpretation revisions_inv: run_invariant env "\<lambda>r. strategies_ok r \<and> workflows_ok r" for env
proof unfold_locales
  fix e r'
  assume inv: "strategies_ok (run e) \<and> workflows_ok (run e)" and "run_step env (run e) r'"
  from content_step [OF this(2)] have "revisions_same (run e) r' \<or> refinement_reduce (run e) r'" by blast
  with inv show "strategies_ok r' \<and> workflows_ok r'"
  proof (elim disjE exE)
    assume "revisions_same (run e) r'"
    with inv show ?thesis by (simp add: revisions_same_def strategies_ok_def workflows_ok_def)
  next
    fix ps assume "propose_strategy_reduce ps (run e) = Inr r'"
    from propose_strategy_ok [OF this] inv show ?thesis by (simp add: workflows_ok_def)
  next
    fix v assume "apply_strategy_reduce v (run e) = Inr r'"
    from apply_strategy_ok [OF this] inv show ?thesis by (simp add: workflows_ok_def)
  qed (use inv propose_workflow_ok validate_workflow_ok set_workflow_ok in blast)+
qed (simp_all add: strategies_ok_def workflows_ok_def one_in_force_def initial_run_def)

section \<open>The Harness pin and the pinned context\<close>

text \<open>How the active Harness snapshot may change.\<close>

definition harness_move :: "run_record \<Rightarrow> run_record \<Rightarrow> bool" where
  "harness_move r r' \<longleftrightarrow>
     boundary r = Inr () \<and>
     ((\<exists>d p. fmlookup (hg_proposals (harness r)) d = Some p \<and> hp_state p = Harness_Validated \<and>
         hg_active (harness r') = Some (hp_pin p) \<and> hg_previous (harness r') = hg_active (harness r)) \<or>
      (\<exists>pin. hg_previous (harness r) = Some pin \<and> hg_active (harness r') = Some pin \<and>
         hg_previous (harness r') = None))"

lemma harness_step:
  assumes "run_step env r r'"
  shows "hg_active (harness r') = hg_active (harness r) \<or> harness_move r r'"
proof -
  from content_step [OF assms] have "harness r' = harness r \<or> harness_reduce r r'" by blast
  then show ?thesis
    by (auto simp: propose_harness_reduce_def validate_harness_reduce_def activate_harness_reduce_def
        rollback_harness_reduce_def set_proposals_def harness_move_def result_simps) blast+
qed

lemma boundary_idle: "boundary r = Inr () \<longleftrightarrow> active_iteration r = None \<and> stage r = Stage_Idle"
  by (simp add: boundary_def)

lemma refinement_idle: "refinement_reduce r r' \<Longrightarrow> active_iteration r = None"
  by (auto simp: propose_strategy_reduce_def apply_strategy_reduce_def propose_workflow_reduce_def
      validate_workflow_reduce_def set_workflow_revision_reduce_def ensure_refinement_boundary_def
      result_simps)

definition context_pinned :: "run_record \<Rightarrow> bool" where
  "context_pinned r \<longleftrightarrow>
     hg_active (harness r) \<noteq> None \<and>
     (\<forall>i. active_iteration r = Some i \<longrightarrow>
        ctx_strategy_revision (it_context i) = current_strategy_revision r \<and>
        ctx_workflow_revision (it_context i) = current_workflow_revision r \<and>
        ctx_policy_digest (it_context i) = verifier_policy_digest r \<and>
        map_option pin_digest (hg_active (harness r)) = Some (ctx_harness_snapshot_digest (it_context i)))"

lemma begin_iteration_pinned:
  assumes "begin_iteration_reduce ctx v tok t r = Inr r'" and "hg_active (harness r) \<noteq> None"
  shows "context_pinned r'"
proof -
  have "ctx_strategy_revision ctx = current_strategy_revision r \<and>
      ctx_workflow_revision ctx = current_workflow_revision r \<and>
      ctx_policy_digest ctx = verifier_policy_digest r \<and>
      map_option pin_digest (hg_active (harness r)) = Some (ctx_harness_snapshot_digest ctx)"
    using assms(1) by (auto simp: begin_iteration_reduce_def result_simps)
  with begin_iteration_frame [OF assms(1)] assms(2) show ?thesis
    by (elim exE conjE) (simp add: context_pinned_def)
qed

interpretation context_inv: run_invariant env context_pinned for env
proof unfold_locales
  fix e r'
  assume inv: "context_pinned (run e)" and s: "run_step env (run e) r'"
  have some: "hg_active (harness r') \<noteq> None"
    using harness_step [OF s] inv by (auto simp: context_pinned_def harness_move_def)
  from s show "context_pinned r'"
  proof (cases rule: iteration_step)
    case other
    show ?thesis
    proof (cases "active_iteration (run e)")
      case None
      with other some show ?thesis by (simp add: context_pinned_def)
    next
      case (Some i)
      have "\<not> refinement_reduce (run e) r'"
      proof
        assume "refinement_reduce (run e) r'"
        from refinement_idle [OF this] Some show False by simp
      qed
      with content_step [OF s] have "revisions_same (run e) r'" by blast
      moreover have "hg_active (harness r') = hg_active (harness (run e))"
        using harness_step [OF s] Some by (auto simp: harness_move_def boundary_idle)
      moreover have "verifier_policy_digest r' = verifier_policy_digest (run e)"
        using run_step_frame [OF s] by (simp add: identity_def)
      ultimately show ?thesis using inv other by (simp add: context_pinned_def revisions_same_def)
    qed
  next
    case start
    with inv show ?thesis by (auto simp: context_pinned_def [of "run e"] intro: begin_iteration_pinned)
  next
    case finish
    with some show ?thesis by (simp add: context_pinned_def)
  qed
next
  fix q rid receipt t
  assume "envelope_good env (initial_envelope q rid receipt t)"
  from envelope_validateD [OF this] show "context_pinned (initial_run q rid receipt t)"
    by (auto simp: context_pinned_def initial_envelope_def initial_run_def validate_harness_state_def
        result_simps)
qed (simp add: context_pinned_def)

end
