(* ===== verification/Run_System.thy ===== *)
theory Run_System
  imports Run_Inv_Content
begin

text \<open>
  Any number of controllers over one store. Each public operation of \<open>RunController\<close> has
  one of four effects (\<open>ctl_effect\<close>); a system step schedules one operation of one
  controller, with any fault pattern of the store, or opens a new controller. The
  refinement theorem says that whatever the interleaving and the faults, the durable
  contents move by single mutations of the abstract Run machine, computed from the
  durable state they replace.
\<close>

section \<open>The effect of an operation\<close>

inductive ctl_effect ::
    "run_env \<Rightarrow> 's store_ops \<Rightarrow> 's run_controller \<Rightarrow> 's run_controller \<Rightarrow> bool" for env st c c' where
  none: "ctl_store c' = ctl_store c \<Longrightarrow> ctl_runs c' = ctl_runs c \<Longrightarrow> ctl_effect env st c c'"
| mutate: "fmlookup (ctl_runs c) rid = Some old \<Longrightarrow> run_id (run nxt) = run_id (run old) \<Longrightarrow>
    (status (run old) \<noteq> Status_Tombstoned \<longrightarrow> env_step env old nxt) \<Longrightarrow>
    so_commit st (ctl_store c) \<lparr>sc_run_id = run_id (run nxt),
      sc_expected_revision = Some (revision (run old)), sc_next = nxt,
      sc_finished_iteration = fin\<rparr> = (ctl_store c', answer) \<Longrightarrow>
    ctl_runs c' = (if answer = Inr Store_Applied then fmupd (run_id (run nxt)) nxt (ctl_runs c)
      else ctl_runs c) \<Longrightarrow> ctl_effect env st c c'"
| create: "env_created env nxt \<Longrightarrow>
    so_commit st (ctl_store c) \<lparr>sc_run_id = run_id (run nxt), sc_expected_revision = None,
      sc_next = nxt, sc_finished_iteration = None\<rparr> = (ctl_store c', answer) \<Longrightarrow>
    ctl_runs c' = (if answer = Inr Store_Applied then fmupd (run_id (run nxt)) nxt (ctl_runs c)
      else ctl_runs c) \<Longrightarrow> ctl_effect env st c c'"
| reload: "ctl_store c' = ctl_store c \<Longrightarrow> so_load st (ctl_store c) rid = Inr v \<Longrightarrow>
    ctl_runs c' = (case v of None \<Rightarrow> fmdrop rid (ctl_runs c) | Some e \<Rightarrow> fmupd rid e (ctl_runs c)) \<Longrightarrow>
    ctl_effect env st c c'"

text \<open>The commit: refused by validation, or handed to the store.\<close>

lemma commit_outcome:
  assumes "commit env st c expected nxt fin = (c', out)"
  obtains (invalid) "c' = c" "\<exists>e. out = Inl e"
  | (stored) answer where "envelope_good env nxt"
      "so_commit st (ctl_store c) \<lparr>sc_run_id = run_id (run nxt), sc_expected_revision = expected,
        sc_next = nxt, sc_finished_iteration = fin\<rparr> = (ctl_store c', answer)"
      "ctl_runs c' = (if answer = Inr Store_Applied then fmupd (run_id (run nxt)) nxt (ctl_runs c)
        else ctl_runs c)"
      "(\<exists>e. out = Inl e) \<or> out = Inr nxt \<and> answer = Inr Store_Applied"
      "out = Inr nxt \<longrightarrow> ctl_authority_fenced c' = ctl_authority_fenced c \<and>
        ctl_reload_required c' = ctl_reload_required c"
proof (cases "envelope_validate env nxt")
  case (Inl e)
  with assms show ?thesis by (intro invalid) (auto simp: commit_def)
next
  case (Inr u)
  obtain s' answer where so: "so_commit st (ctl_store c) \<lparr>sc_run_id = run_id (run nxt),
      sc_expected_revision = expected, sc_next = nxt, sc_finished_iteration = fin\<rparr> = (s', answer)"
    by fastforce
  have good: "envelope_good env nxt" using Inr by simp
  show ?thesis
  proof (cases answer)
    case (Inl e)
    with assms so good show ?thesis by (intro stored [of answer]) (auto simp: commit_def)
  next
    case (Inr a)
    with assms so good show ?thesis
      by (intro stored [of answer]; cases a)
        (auto simp: commit_def fence_def require_reload_def Let_def)
  qed
qed

lemma commit_mutates:
  assumes "commit env st c (Some (revision (run old))) nxt fin = (c', out)"
    and "fmlookup (ctl_runs c) rid = Some old" "run_id (run nxt) = run_id (run old)"
    and "envelope_good env nxt \<Longrightarrow> status (run old) \<noteq> Status_Tombstoned \<Longrightarrow> env_step env old nxt"
  shows "ctl_effect env st c c'"
  using assms(1)
proof (cases rule: commit_outcome)
  case invalid
  then show ?thesis by (simp add: ctl_effect.none)
next
  case (stored answer)
  show ?thesis
    using assms(2,3) _ stored(2,3) by (rule ctl_effect.mutate) (use assms(4) stored(1) in blast)
qed

lemma advance_same_run: "advance old r' kind t = Inr nxt \<Longrightarrow> run_id (run nxt) = run_id r'"
  by (auto simp: advance_def result_simps)

lemma run_step_id: "run_step env r r' \<Longrightarrow> run_id r' = run_id r"
  by (auto dest!: run_step_frame simp: identity_def)

lemma run_step_receipts: "run_step env r r' \<Longrightarrow> command_receipts r' = command_receipts r"
  by (auto dest!: run_step_frame simp: journal_fields_def)

lemma apply_command_effect:
  assumes a: "apply_command env st c request input name kind t allow reduce = (c', out)"
    and sound: "\<And>r r'. reduce r = Inr r' \<Longrightarrow> run_step env r r'"
  shows "ctl_effect env st c c'"
proof (cases "prepare_command env c request input name kind t allow reduce")
  case (Inl e)
  with a show ?thesis by (auto simp: apply_command_def intro: ctl_effect.none)
next
  case prep: (Inr x)
  show ?thesis
  proof (cases x)
    case (Inl d)
    with a prep show ?thesis by (auto simp: apply_command_def intro: ctl_effect.none)
  next
    case (Inr y)
    obtain old receipt nxt where y: "y = (old, receipt, nxt)" by (cases y)
    with prep Inr obtain r' e1 where
      p: "fmlookup (ctl_runs c) (mr_run_id request) = Some old" "reduce (run old) = Inr r'"
        "fmlookup (command_receipts (run old)) (mr_command_id request) = None"
        "advance old r' kind t = Inr e1" "nxt = record_receipt receipt e1"
        "cr_command_id receipt = mr_command_id request"
        "cr_committed_revision receipt = revision (run e1)"
      by (auto simp: prepare_command_def result_simps command_receipt_for_def Let_def
          split: option.splits if_splits)
    have st: "run_step env (run old) r'" using p(2) by (rule sound)
    have "run_id (run nxt) = run_id (run old)"
      using advance_same_run [OF p(4)] run_step_id [OF st] by (simp add: p(5) record_receipt_def)
    moreover have "env_step env old nxt"
      if "envelope_good env nxt" "status (run old) \<noteq> Status_Tombstoned"
      using that p st by (intro env_step.command [of old env r' kind t e1 receipt]) simp_all
    moreover obtain out' where "commit env st c (Some (revision (run old))) nxt None = (c', out')"
      using a prep Inr y by (auto simp: apply_command_def split: prod.splits sum.splits)
    ultimately show ?thesis using p(1) by (intro commit_mutates)
  qed
qed

lemma run_callback_effect:
  assumes a: "run_callback env st c rid kind t step = (c', out)"
    and sound: "\<And>r r' fin. step r = Inr (Callback_Next r' fin) \<Longrightarrow> run_step env r r'"
  shows "ctl_effect env st c c'"
proof (cases "rseq (ensure_authority c rid) (ok_or NotFound (fmlookup (ctl_runs c) rid))")
  case (Inl e)
  with a show ?thesis by (auto simp: run_callback_def intro: ctl_effect.none)
next
  case (Inr old)
  then have l: "fmlookup (ctl_runs c) rid = Some old" by (simp add: result_simps)
  show ?thesis
  proof (cases "\<exists>r' fin. step (run old) = Inr (Callback_Next r' fin)")
    case False
    then have "c' = c"
      using a Inr by (auto simp: run_callback_def split: sum.splits callback_step.splits)
    then show ?thesis by (simp add: ctl_effect.none)
  next
    case True
    then obtain r' fin where n: "step (run old) = Inr (Callback_Next r' fin)" by blast
    have st: "run_step env (run old) r'" using n by (rule sound)
    show ?thesis
    proof (cases "advance old r' kind t")
      case (Inl e)
      with a Inr n have "c' = c" by (simp add: run_callback_def commit_callback_def)
      then show ?thesis by (simp add: ctl_effect.none)
    next
      case adv: (Inr nxt)
      obtain out' where "commit env st c (Some (revision (run old))) nxt fin = (c', out')"
        using a Inr n adv
        by (auto simp: run_callback_def commit_callback_def split: prod.splits sum.splits)
      moreover have "run_id (run nxt) = run_id (run old)"
        using advance_same_run [OF adv] run_step_id [OF st] by simp
      moreover have "env_step env old nxt"
        if "envelope_good env nxt" "status (run old) \<noteq> Status_Tombstoned"
        using that adv st by (intro env_step.callback)
      ultimately show ?thesis using l by (intro commit_mutates)
    qed
  qed
qed

section \<open>Every public operation\<close>

text \<open>The operations that mutate; the queries return no controller.\<close>

inductive controller_op ::
    "run_env \<Rightarrow> 's store_ops \<Rightarrow> 's run_controller \<Rightarrow> 's run_controller \<Rightarrow> bool" for env st c c' where
  create_run: "create_run env st c q uuid t = (c', o1) \<Longrightarrow> controller_op env st c c'"
| reload_run: "reload_run env st c rid = (c', o2) \<Longrightarrow> controller_op env st c c'"
| begin_recovery: "begin_recovery env st c q3 t = (c', o3) \<Longrightarrow> controller_op env st c c'"
| finish_recovery: "finish_recovery env st c q4 t = (c', o4) \<Longrightarrow> controller_op env st c c'"
| request_wake: "request_wake env st c q5 t = (c', o5) \<Longrightarrow> controller_op env st c c'"
| claim_activation: "claim_activation env st c q6 uuid t = (c', o6) \<Longrightarrow> controller_op env st c c'"
| renew_activation: "renew_activation env st c q7 t = (c', o7) \<Longrightarrow> controller_op env st c c'"
| release_activation: "release_activation env st c q8 t = (c', o8) \<Longrightarrow> controller_op env st c c'"
| control_run: "control_run env st c q9 t = (c', o9) \<Longrightarrow> controller_op env st c c'"
| wake_run: "wake_run env st c q9 t = (c', o9) \<Longrightarrow> controller_op env st c c'"
| begin_iteration: "begin_iteration env st c q11 uuid t = (c', o11) \<Longrightarrow> controller_op env st c c'"
| finish_iteration: "finish_iteration env st c fi t = (c', o12) \<Longrightarrow> controller_op env st c c'"
| propose_harness: "propose_harness env st c q13 t = (c', o13) \<Longrightarrow> controller_op env st c c'"
| validate_harness: "validate_harness env st c q14 t = (c', o14) \<Longrightarrow> controller_op env st c c'"
| activate_harness: "activate_harness env st c q15 t = (c', o15) \<Longrightarrow> controller_op env st c c'"
| rollback_harness: "rollback_harness env st c q15 t = (c', o15) \<Longrightarrow> controller_op env st c c'"
| prepare_operation: "prepare_operation env st c q17 t = (c', o17) \<Longrightarrow> controller_op env st c c'"
| claim_effect: "claim_effect env st c q18 uuid t = (c', o18) \<Longrightarrow> controller_op env st c c'"
| acknowledge_effect: "acknowledge_effect env st c ec t = (c', o12) \<Longrightarrow> controller_op env st c c'"
| reconcile_effect: "reconcile_effect env st c q20 t = (c', o20) \<Longrightarrow> controller_op env st c c'"
| admit_child: "admit_child env st c q21 uuid t = (c', o21) \<Longrightarrow> controller_op env st c c'"
| child_callback: "child_callback env st c cb t = (c', o12) \<Longrightarrow> controller_op env st c c'"
| accept_message: "accept_message env st c q23 t = (c', o23) \<Longrightarrow> controller_op env st c c'"
| transition_message: "transition_message env st c q24 t = (c', o24) \<Longrightarrow> controller_op env st c c'"
| propose_strategy: "propose_strategy env st c q25 t = (c', o25) \<Longrightarrow> controller_op env st c c'"
| apply_strategy: "apply_strategy env st c q26 t = (c', o26) \<Longrightarrow> controller_op env st c c'"
| propose_workflow: "propose_workflow env st c q27 t = (c', o27) \<Longrightarrow> controller_op env st c c'"
| validate_workflow: "validate_workflow env st c q28 t = (c', o28) \<Longrightarrow> controller_op env st c c'"
| apply_workflow: "apply_workflow env st c q26 t = (c', o26) \<Longrightarrow> controller_op env st c c'"
| rollback_workflow: "rollback_workflow env st c q26 t = (c', o26) \<Longrightarrow> controller_op env st c c'"

lemma with_output_fst:
  "with_output x read = (c', out) \<Longrightarrow> \<exists>out'. x = (c', out')"
  by (cases x) (simp add: with_output_def)

lemma create_run_effect:
  assumes "create_run env st c q uuid t = (c', out)"
  shows "ctl_effect env st c c'"
proof (cases "c' = c")
  case True
  then show ?thesis by (simp add: ctl_effect.none)
next
  case False
  define rid where "rid = unwrap_or (run_id_random uuid) (cq_run_id q)"
  from assms False obtain digest where
    d: "canonical_digest env (Dig_CreateRun q) = Inr digest"
      "find_receipt (cq_command_id q) (btree_values (ctl_runs c)) = None"
      "validate_create c q = Inr ()"
    by (auto simp: create_run_def split: sum.splits option.splits if_splits)
  define receipt where "receipt = command_receipt_for (cq_command_id q) digest 1 1"
  define e where "e = initial_envelope q rid receipt t"
  have good: "envelope_good env e"
    using assms False d by (auto simp: create_run_def e_def receipt_def rid_def Let_def split: sum.splits)
  obtain c1 out1 where com: "commit env st c None e None = (c1, out1)" by fastforce
  have id: "run_id (run e) = rid" by (simp add: e_def initial_envelope_def initial_run_def)
  have created: "env_created env e"
    using good by (auto simp: e_def receipt_def command_receipt_for_def intro: env_created.created)
  from com show ?thesis
  proof (cases rule: commit_outcome)
    case invalid
    with assms False d good com show ?thesis
      by (auto simp: create_run_def e_def receipt_def rid_def Let_def)
  next
    case (stored answer)
    have "ctl_store c' = ctl_store c1 \<and> ctl_runs c' = ctl_runs c1"
    proof (cases out1)
      case (Inl err)
      with assms d good com show ?thesis
        by (simp add: create_run_def e_def receipt_def rid_def Let_def)
    next
      case (Inr x)
      then have "answer = Inr Store_Applied" using stored(4) by auto
      with stored(3) id have "fmupd rid e (ctl_runs c1) = ctl_runs c1" by (simp add: fmap_ext)
      with assms d good com Inr show ?thesis
        by (auto simp: create_run_def e_def receipt_def rid_def Let_def)
    qed
    with stored(2,3) created show ?thesis by (intro ctl_effect.create [of env e]) simp_all
  qed
qed

lemma reload_run_effect:
  assumes "reload_run env st c rid = (c', out)"
  shows "ctl_effect env st c c'"
proof (cases "so_load st (ctl_store c) rid")
  case (Inl e)
  with assms show ?thesis by (auto simp: reload_run_def Let_def intro: ctl_effect.none)
next
  case load: (Inr v)
  show ?thesis
  proof (cases "c' = c")
    case True
    then show ?thesis by (simp add: ctl_effect.none)
  next
    case False
    have "ctl_store c' = ctl_store c \<and> ctl_runs c' =
        (case v of None \<Rightarrow> fmdrop rid (ctl_runs c) | Some e \<Rightarrow> fmupd rid e (ctl_runs c))"
      using assms load False
      by (cases v) (auto simp: reload_run_def Let_def split: sum.splits if_splits)
    with load show ?thesis by (intro ctl_effect.reload) simp_all
  qed
qed

lemma begin_recovery_effect:
  assumes "begin_recovery env st c q t = (c', out)"
  shows "ctl_effect env st c c'"
proof (cases "mr_run_id q |\<in>| ctl_reload_required c")
  case True
  with assms show ?thesis by (auto simp: begin_recovery_def intro: ctl_effect.none)
next
  case False
  obtain c1 out1 where a: "apply_command env st c q In_Unit ''begin_recovery'' ''recovery_started'' t
      True begin_recovery_reduce = (c1, out1)" by fastforce
  then have eff: "ctl_effect env st c c1"
    by (rule apply_command_effect) (rule run_step.begin_recovery)
  have "ctl_store c' = ctl_store c1 \<and> ctl_runs c' = ctl_runs c1"
    using assms False a by (auto simp: begin_recovery_def Let_def split: sum.splits if_splits)
  with eff show ?thesis by (auto simp: ctl_effect.simps)
qed

lemmas command_defs = request_wake_def release_activation_def control_run_def propose_harness_def
  validate_harness_def activate_harness_def rollback_harness_def prepare_operation_def
  reconcile_effect_def accept_message_def transition_message_def propose_strategy_def
  apply_strategy_def propose_workflow_def validate_workflow_def apply_workflow_def
  rollback_workflow_def set_workflow_revision_def finish_recovery_def

lemmas output_defs = claim_activation_def begin_iteration_def claim_effect_def admit_child_def

theorem controller_op_effect:
  assumes "controller_op env st c c'"
  shows "ctl_effect env st c c'"
  using assms
proof cases
  case create_run
  then show ?thesis by (rule create_run_effect)
next
  case reload_run
  then show ?thesis by (rule reload_run_effect)
next
  case begin_recovery
  then show ?thesis by (rule begin_recovery_effect)
next
  case renew_activation
  then show ?thesis
    by (auto simp: renew_activation_def split: prod.splits if_splits
        intro: ctl_effect.none elim!: apply_command_effect run_step.renew_activation)
next
  case claim_activation
  then show ?thesis
    by (auto simp: claim_activation_def split: if_splits dest!: with_output_fst
        intro: ctl_effect.none elim!: apply_command_effect run_step.claim_activation)
next
  case wake_run
  then show ?thesis
    by (auto simp: wake_run_def split: if_splits
        intro: ctl_effect.none elim!: apply_command_effect run_step.control)
next
  case begin_iteration
  then show ?thesis
    by (auto simp: begin_iteration_def dest!: with_output_fst
        elim!: apply_command_effect run_step.begin_iteration)
next
  case claim_effect
  then show ?thesis
    by (auto simp: claim_effect_def dest!: with_output_fst
        elim!: apply_command_effect run_step.claim_effect)
next
  case admit_child
  then show ?thesis
    by (auto simp: admit_child_def dest!: with_output_fst
        elim!: apply_command_effect run_step.admit_child)
next
  case finish_iteration
  then show ?thesis unfolding finish_iteration_def
    by (rule run_callback_effect) (rule run_step.finish_iteration)
next
  case acknowledge_effect
  then show ?thesis unfolding acknowledge_effect_def
    by (rule run_callback_effect) (rule run_step.acknowledge_effect)
next
  case child_callback
  then show ?thesis unfolding child_callback_def
    by (rule run_callback_effect) (rule run_step.child_callback)
qed (simp only: command_defs, erule apply_command_effect, erule run_step.intros)+

section \<open>Many controllers over one store\<close>

record 's run_system =
  sys_store :: 's
  sys_ctls :: "'s run_controller list"

text \<open>\<open>'f\<close> is the type of fault patterns: every step of the system may meet another one.\<close>

inductive sys_step ::
    "run_env \<Rightarrow> ('f \<Rightarrow> 's store_ops) \<Rightarrow> 's run_system \<Rightarrow> 's run_system \<Rightarrow> bool" for env ops where
  operate: "i < length (sys_ctls y) \<Longrightarrow>
    controller_op env (ops f) ((sys_ctls y ! i)\<lparr>ctl_store := sys_store y\<rparr>) c' \<Longrightarrow>
    sys_step env ops y \<lparr>sys_store = ctl_store c', sys_ctls = (sys_ctls y)[i := c']\<rparr>"
| join: "controller_open env (ops f) (sys_store y) = Inr c \<Longrightarrow>
    sys_step env ops y (y\<lparr>sys_ctls := sys_ctls y @ [c]\<rparr>)"

text \<open>The specification: a map of durable Runs that changes one Run at a time.\<close>

inductive machine_step ::
    "run_env \<Rightarrow> (run_id \<Rightarrow> run_envelope option) \<Rightarrow> (run_id \<Rightarrow> run_envelope option) \<Rightarrow> bool"
    for env where
  create: "env_created env e \<Longrightarrow> m (run_id (run e)) = None \<Longrightarrow>
    machine_step env m (m(run_id (run e) \<mapsto> e))"
| mutate: "m rid = Some e \<Longrightarrow> env_step env e e' \<Longrightarrow> machine_step env m (m(rid \<mapsto> e'))"

text \<open>A cached envelope is the durable one or a past of it.\<close>

definition coherent ::
    "run_env \<Rightarrow> (run_id \<Rightarrow> run_envelope option) \<Rightarrow> 's run_controller \<Rightarrow> bool" where
  "coherent env m c \<longleftrightarrow>
     (\<forall>rid e. fmlookup (ctl_runs c) rid = Some e \<longrightarrow>
        run_id (run e) = rid \<and> (\<exists>d. m rid = Some d \<and> env_later env e d))"

definition sys_inv :: "run_env \<Rightarrow> ('s \<Rightarrow> run_id \<Rightarrow> run_envelope option) \<Rightarrow> ('s \<Rightarrow> bool) \<Rightarrow>
    's run_system \<Rightarrow> bool" where
  "sys_inv env content ok y \<longleftrightarrow> ok (sys_store y) \<and>
     (\<forall>c \<in> set (sys_ctls y). coherent env (content (sys_store y)) c)"

text \<open>Reachable systems start without controllers, over a store of reachable Runs.\<close>

definition sys_start :: "run_env \<Rightarrow> ('s \<Rightarrow> run_id \<Rightarrow> run_envelope option) \<Rightarrow> ('s \<Rightarrow> bool) \<Rightarrow>
    's run_system \<Rightarrow> bool" where
  "sys_start env content ok y \<longleftrightarrow> ok (sys_store y) \<and> sys_ctls y = [] \<and>
     (\<forall>rid e. content (sys_store y) rid = Some e \<longrightarrow> env_reach env e)"

lemma coherent_runs: "ctl_runs c' = ctl_runs c \<Longrightarrow> coherent env m c' = coherent env m c"
  by (simp add: coherent_def)

lemma coherent_machine_step:
  assumes "machine_step env m m'" "coherent env m c"
  shows "coherent env m' c"
  using assms(1)
proof cases
  case (create e)
  with assms(2) show ?thesis by (fastforce simp: coherent_def)
next
  case (mutate rid e e')
  have "env_later env x e'" if "fmlookup (ctl_runs c) rid = Some x" for x
    using that mutate assms(2) by (fastforce simp: coherent_def intro: rtranclp.rtrancl_into_rtrancl)
  with mutate assms(2) show ?thesis by (auto simp: coherent_def)
qed

lemma open_runs_sound:
  "open_runs env es acc = Inr (runs, fenced) \<Longrightarrow> fmlookup runs rid = Some e \<Longrightarrow>
     fmlookup (fst acc) rid = Some e \<or> e \<in> set es \<and> run_id (run e) = rid"
proof (induction env es acc rule: open_runs.induct)
  case (2 env x es rs fenced')
  then show ?case by (auto simp: result_simps split: if_splits)
qed simp

lemma controller_open_runs:
  assumes "controller_open env st s = Inr c" "fmlookup (ctl_runs c) rid = Some e"
  obtains es where "so_list st s = Inr es" "e \<in> set es" "run_id (run e) = rid" "ctl_store c = s"
  using assms open_runs_sound
  by (fastforce simp: controller_open_def result_simps split: prod.splits)

locale run_stores =
  fixes env :: run_env and ops :: "'f \<Rightarrow> 's store_ops"
    and content :: "'s \<Rightarrow> run_id \<Rightarrow> run_envelope option" and ok :: "'s \<Rightarrow> bool"
  assumes store: "run_store (ops f) content ok (envelope_good env)"
begin

text \<open>What a commit against a cached revision can do to the durable map.\<close>

lemma commit_refines:
  assumes ok: "ok s" and so: "so_commit (ops f) s q = (s', answer)"
  shows "ok s' \<and> (content s' = content s \<and> answer \<noteq> Inr Store_Applied \<or>
    commit_installs (content s) q (content s'))"
  using run_store.commit_ok [OF store ok so] run_store.commit_applied [OF store ok]
    run_store.commit_unknown [OF store ok] run_store.commit_refused [OF store ok so] so
  by metis

lemma mutate_refines:
  assumes ok: "ok s" and coh: "coherent env (content s) c"
    and old: "fmlookup (ctl_runs c) rid = Some old" and id: "run_id (run nxt) = run_id (run old)"
    and step: "status (run old) \<noteq> Status_Tombstoned \<longrightarrow> env_step env old nxt"
    and inst: "commit_installs (content s) \<lparr>sc_run_id = run_id (run nxt),
      sc_expected_revision = Some (revision (run old)), sc_next = nxt,
      sc_finished_iteration = fin\<rparr> m'"
  shows "machine_step env (content s) m' \<and> m' rid = Some nxt \<and> run_id (run nxt) = rid"
proof -
  from coh old obtain d where d: "run_id (run old) = rid" "content s rid = Some d"
    "env_later env old d" by (auto simp: coherent_def)
  with inst id have same: "revision (run old) = revision (run d)" "status (run d) \<noteq> Status_Tombstoned"
    and m': "m' = (content s)(rid \<mapsto> nxt)" by (simp_all add: commit_installs_def)
  from later_revision [OF d(3)] same(1) have "old = d" by simp
  with step same(2) have "env_step env d nxt" by simp
  with d m' id show ?thesis by (auto intro: machine_step.mutate)
qed

lemma coherent_update:
  "coherent env m c \<Longrightarrow> m rid = Some e \<Longrightarrow> run_id (run e) = rid \<Longrightarrow>
     ctl_runs c' = fmupd rid e (ctl_runs c) \<Longrightarrow> coherent env m c'"
  by (auto simp: coherent_def)

lemma effect_refines:
  assumes ok: "ok (ctl_store c)" and coh: "coherent env (content (ctl_store c)) c"
    and eff: "ctl_effect env (ops f) c c'"
  shows "ok (ctl_store c') \<and> (content (ctl_store c') = content (ctl_store c) \<or>
      machine_step env (content (ctl_store c)) (content (ctl_store c'))) \<and>
    coherent env (content (ctl_store c')) c'"
  using eff
proof cases
  case none
  with ok coh show ?thesis by (simp add: coherent_runs [of c' c])
next
  case (mutate rid old nxt fin answer)
  from commit_refines [OF ok mutate(4)] show ?thesis
  proof (elim conjE disjE)
    assume "ok (ctl_store c')" "content (ctl_store c') = content (ctl_store c)"
      "answer \<noteq> Inr Store_Applied"
    with mutate(5) coh show ?thesis by (simp add: coherent_runs [of c' c])
  next
    assume ok': "ok (ctl_store c')"
      and inst: "commit_installs (content (ctl_store c)) \<lparr>sc_run_id = run_id (run nxt),
        sc_expected_revision = Some (revision (run old)), sc_next = nxt,
        sc_finished_iteration = fin\<rparr> (content (ctl_store c'))"
    from mutate_refines [OF ok coh mutate(1-3) inst]
    have m: "machine_step env (content (ctl_store c)) (content (ctl_store c'))"
      "content (ctl_store c') rid = Some nxt" "run_id (run nxt) = rid" by auto
    from coherent_machine_step [OF m(1) coh] m(2,3) mutate(5) ok' m(1) show ?thesis
      by (cases "answer = Inr Store_Applied") (auto simp: coherent_runs [of c' c] intro: coherent_update)
  qed
next
  case (create nxt answer)
  from commit_refines [OF ok create(2)] show ?thesis
  proof (elim conjE disjE)
    assume "ok (ctl_store c')" "content (ctl_store c') = content (ctl_store c)"
      "answer \<noteq> Inr Store_Applied"
    with create(3) coh show ?thesis by (simp add: coherent_runs [of c' c])
  next
    assume ok': "ok (ctl_store c')"
      and inst: "commit_installs (content (ctl_store c)) \<lparr>sc_run_id = run_id (run nxt),
        sc_expected_revision = None, sc_next = nxt, sc_finished_iteration = None\<rparr>
        (content (ctl_store c'))"
    then have new: "content (ctl_store c) (run_id (run nxt)) = None"
      "content (ctl_store c') = (content (ctl_store c))(run_id (run nxt) \<mapsto> nxt)"
      by (auto simp: commit_installs_def split: option.splits)
    have m: "machine_step env (content (ctl_store c)) (content (ctl_store c'))"
      unfolding new(2) using create(1) new(1) by (rule machine_step.create)
    from coherent_machine_step [OF m coh] new(2) create(3) ok' m show ?thesis
      by (cases "answer = Inr Store_Applied") (auto simp: coherent_runs [of c' c] intro: coherent_update)
  qed
next
  case (reload rid v)
  have v: "v = content (ctl_store c) rid" using run_store.load_content [OF store ok reload(2)] .
  show ?thesis
  proof (cases v)
    case None
    with reload coh ok show ?thesis by (auto simp: coherent_def split: if_splits)
  next
    case (Some e)
    with v run_store.content_id [OF store ok, of rid e] have "run_id (run e) = rid" by simp
    with Some v reload coh ok show ?thesis by (auto intro: coherent_update)
  qed
qed

lemma open_coherent:
  assumes "ok s" and "controller_open env (ops f) s = Inr c"
  shows "coherent env (content s) c"
  unfolding coherent_def
proof (intro allI impI)
  fix rid e
  assume "fmlookup (ctl_runs c) rid = Some e"
  with assms(2) obtain es where es: "so_list (ops f) s = Inr es" "e \<in> set es" "run_id (run e) = rid"
    by (rule controller_open_runs)
  with run_store.list_content [OF store assms(1) es(1,2)]
  show "run_id (run e) = rid \<and> (\<exists>d. content s rid = Some d \<and> env_later env e d)" by auto
qed

lemma sys_step_refines:
  assumes inv: "sys_inv env content ok y" and step: "sys_step env ops y y'"
  shows "sys_inv env content ok y' \<and> (content (sys_store y') = content (sys_store y) \<or>
    machine_step env (content (sys_store y)) (content (sys_store y')))"
  using step
proof cases
  case (operate i f c')
  define c where "c = (sys_ctls y ! i)\<lparr>ctl_store := sys_store y\<rparr>"
  have "coherent env (content (sys_store y)) (sys_ctls y ! i)"
    using inv operate(2) by (simp add: sys_inv_def)
  then have coh: "coherent env (content (ctl_store c)) c" by (simp add: c_def coherent_def)
  have ok: "ok (ctl_store c)" using inv by (simp add: sys_inv_def c_def)
  have "ctl_effect env (ops f) c c'" using operate(3) unfolding c_def by (rule controller_op_effect)
  from effect_refines [OF ok coh this]
  have r: "ok (ctl_store c')" "content (ctl_store c') = content (sys_store y) \<or>
      machine_step env (content (sys_store y)) (content (ctl_store c'))"
    "coherent env (content (ctl_store c')) c'" by (simp_all add: c_def)
  have "coherent env (content (ctl_store c')) x" if "x \<in> set (sys_ctls y)" for x
  proof -
    have "coherent env (content (sys_store y)) x" using that inv by (simp add: sys_inv_def)
    with r(2) show ?thesis by (auto intro: coherent_machine_step)
  qed
  with r operate show ?thesis
    using set_update_subset_insert [of "sys_ctls y" i c'] by (auto simp: sys_inv_def)
next
  case (join f c)
  with inv open_coherent [of "sys_store y" f c] show ?thesis by (auto simp: sys_inv_def)
qed

lemma machine_step_reach:
  "machine_step env m m' \<Longrightarrow> (\<forall>rid e. m rid = Some e \<longrightarrow> env_reach env e) \<Longrightarrow>
     m' rid = Some e \<Longrightarrow> env_reach env e"
  by (erule machine_step.cases) (auto split: if_splits intro: env_reach.intros)

lemma sys_reach_durable:
  assumes "sys_start env content ok y0" and "(sys_step env ops)\<^sup>*\<^sup>* y0 y"
  shows "sys_inv env content ok y \<and> (\<forall>rid e. content (sys_store y) rid = Some e \<longrightarrow> env_reach env e)"
  using assms(2)
proof induction
  case base
  with assms(1) show ?case by (simp add: sys_start_def sys_inv_def)
next
  case (step y y')
  then have "sys_inv env content ok y'" "content (sys_store y') = content (sys_store y) \<or>
      machine_step env (content (sys_store y)) (content (sys_store y'))"
    using sys_step_refines [of y y'] by blast+
  with step(3) show ?case by (auto dest: machine_step_reach)
qed

text \<open>The durable history of a Run is a history of the machine.\<close>

lemma machine_step_later:
  "machine_step env m m' \<Longrightarrow> m rid = Some e \<Longrightarrow> \<exists>e'. m' rid = Some e' \<and> env_later env e e'"
  by (erule machine_step.cases) auto

lemma sys_steps_later:
  assumes "sys_inv env content ok y" and "(sys_step env ops)\<^sup>*\<^sup>* y y'" and "content (sys_store y) rid = Some e"
  shows "sys_inv env content ok y' \<and> (\<exists>e'. content (sys_store y') rid = Some e' \<and> env_later env e e')"
  using assms(2)
proof induction
  case (step y1 y2)
  then obtain e1 where e1: "content (sys_store y1) rid = Some e1" "env_later env e e1" by blast
  from step sys_step_refines have r: "sys_inv env content ok y2"
    "content (sys_store y2) = content (sys_store y1) \<or>
      machine_step env (content (sys_store y1)) (content (sys_store y2))" by blast+
  from r(2) e1(1) have "\<exists>e2. content (sys_store y2) rid = Some e2 \<and> env_later env e1 e2"
    by (auto dest: machine_step_later)
  with e1 r(1) show ?case by (meson rtranclp_trans)
qed (use assms in auto)

lemma reach_backwards: "env_later env e d \<Longrightarrow> env_reach env e \<Longrightarrow> env_reach env d"
  by (induction rule: rtranclp_induct) (auto intro: env_reach.step)

end

interpretation local_system: run_stores env "local_store_ops env codec" "local_content env codec"
    "local_ok env codec" for env codec
  by unfold_locales

end
