(* ===== verification/Run_Examples.thy ===== *)
theory Run_Examples
  imports Run_System
begin

text \<open>
  One concrete Run, followed through its life: created, an iteration begun, a
  non-repeatable effect prepared, claimed and acknowledged, the iteration finished, the Run
  completed and its receipts kept. The states are computed with the reducers themselves
  and show that the hypotheses of the theorems can be met.
\<close>

definition ex_digest :: string where
  "ex_digest = replicate 64 CHR ''0''"

definition ex_env :: run_env where
  "ex_env = \<lparr>env_to_value = \<lambda>_. Inr J_Null, env_to_vec = \<lambda>_. Inr [],
     env_sha256 = \<lambda>_. replicate 32 CHR 0x00, env_usage_to_vec = \<lambda>_. []\<rparr>"

definition ex_pin :: harness_snapshot_pin where
  "ex_pin = \<lparr>pin_digest = ex_digest, pin_descriptor_digest = ex_digest,
     pin_capability_revision = ''r1'', pin_negotiated_capabilities = {||}, pin_revision = 1,
     pin_evidence = [], pin_provenance = ''test''\<rparr>"

definition ex_budget :: resource_vector where
  "ex_budget = \<lparr>iterations = 5, agent_calls = 5, agent_concurrency = 2, active_ms = 1000,
     wall_ms = 1000, tokens = 1000, cost_micros = 1000, artifact_bytes = 1000\<rparr>"

definition ex_request :: create_run_request where
  "ex_request = \<lparr>cq_run_id = Some ''run1'', cq_command_id = ''c0'', cq_session = ''s1'',
     cq_goal = \<lparr>objective = ''ship it'', acceptance_criteria = [], constraints = [],
       required_evidence = []\<rparr>,
     cq_driver = Driver_AutonomousTurnLoop ''s1'' 1,
     cq_capabilities = \<lparr>cap_required = {||}, cap_available = {|''external.deploy''|},
       cap_ceiling = {|''external.deploy''|}\<rparr>,
     cq_required_gates = {||}, cq_verifier_policy_digest = ''policy'', cq_budget = ex_budget,
     cq_harness_snapshot = Some ex_pin\<rparr>"

definition ex_receipt :: "command_id \<Rightarrow> u64 \<Rightarrow> command_receipt" where
  "ex_receipt cid v = command_receipt_for cid ex_digest v 1"

lemma envelope_goodI:
  assumes "schema_version e = RUN_SCHEMA_VERSION" "goal_spec_validate (goal (run e)) = Inr ()"
    "capability_policy_validate (capabilities (run e)) = Inr ()" "driver_validate (driver (run e)) = Inr ()"
    "validate_harness_state (run e) = Inr ()" "\<not> residency_invalid (run e)" "\<not> collections_invalid e"
    "validate_text_set (required_gates (run e)) MAX_LIST_ITEMS 256 ''required gate'' = Inr ()"
    "validate_text (verifier_policy_digest (run e)) 256 ''verifier policy digest'' False = Inr ()"
    "\<not> usage_unknown_invalid (run e)" "stage (run e) \<noteq> Stage_Unknown" "driver (run e) \<noteq> Driver_Unknown"
    "\<forall>i. active_iteration (run e) = Some i \<longrightarrow> iteration_validate i = Inr ()"
    "\<forall>i \<in> set (run_iterations (run e)). validate_archived i = Inr ()"
    "\<forall>x \<in> set (btree_iter (operations (run e))). validate_operation env (run e) x = Inr ()"
    "\<forall>x \<in> set (btree_iter (children (run e))). validate_child_entry x = Inr ()"
    "\<forall>x \<in> set (btree_iter (mailbox (run e))). validate_message_entry x = Inr ()"
    "\<forall>x \<in> set (btree_iter (steering (run e))). validate_message_entry x = Inr ()"
    "\<forall>x \<in> set (strategy_revisions (run e)). strategy_validate x = Inr ()"
    "\<forall>x \<in> set (workflow_revisions (run e)). workflow_validate x = Inr ()"
    "\<not> receipts_invalid (run e)" "validate_events (event_cursor (run e)) None (events e) = Inr ()"
    "journal_tail_matches e" "driver_session (driver (run e)) = Some (session (run e))"
  shows "envelope_good env e"
  using assms by (cases "active_iteration (run e)")
    (simp_all add: envelope_validate_def Let_def result_simps)

definition ex_message :: accept_message_input where
  "ex_message = \<lparr>am_message_id = ''m1'', am_causation_id = None, am_sender = ''peer'',
     am_trust_label = ''trusted'', am_body = ''hello''\<rparr>"

definition ex_context :: iteration_context_manifest where
  "ex_context = \<lparr>ctx_goal_revision = 2, ctx_strategy_revision = 1, ctx_workflow_revision = None,
     ctx_policy_digest = ''policy'', ctx_model_revision = ''m'', ctx_workspace_revision = ''w'',
     ctx_history_range = (0, 0), ctx_memory_snapshot = None, ctx_artifacts = [],
     ctx_steering_high_water = 0, ctx_harness_snapshot_digest = ex_digest\<rparr>"

definition ex_artifact :: artifact_ref where
  "ex_artifact = \<lparr>art_digest = ex_digest, art_media_type = ''text'', art_size = 1,
     art_provenance = ''test'', art_owner = ''me'', art_retention = ''run'',
     art_evidence_labels = {||}, art_workspace_digest = None\<rparr>"

definition ex_prepare :: prepare_operation_input where
  "ex_prepare = \<lparr>po_operation_id = ''op1'', po_iteration_id = 1, po_effect_class = NonRepeatable,
     po_spec = Eff_External ''deploy'' ''v1'' ex_artifact\<rparr>"

definition ex_cost :: resource_vector where
  "ex_cost = \<lparr>iterations = 1, agent_calls = 1, agent_concurrency = 1, active_ms = 10,
     wall_ms = 10, tokens = 10, cost_micros = 10, artifact_bytes = 1\<rparr>"

definition ex_claim :: claim_effect_input where
  "ex_claim = \<lparr>cl_operation_id = ''op1'', cl_reservation = ex_cost, cl_activation = None\<rparr>"

definition ex_effect_receipt :: effect_receipt where
  "ex_effect_receipt = (effect_receipt_new ''deployed'')\<lparr>rc_actual_usage :=
     Some (effect_usage_measured ex_cost)\<rparr>"

definition ex_callback :: effect_callback where
  "ex_callback = \<lparr>ec_run_id = ''run1'', ec_epoch = 1, ec_operation_id = ''op1'',
     ec_iteration_id = 1, ec_attempt = 1, ec_token = ''dispatch_d'',
     ec_outcome = Outcome_Applied ex_effect_receipt\<rparr>"

definition ex_child :: admit_child_input where
  "ex_child = \<lparr>ad_child_id = ''k1'', ad_iteration_id = 1, ad_reservation = ex_cost,
     ad_workspace_isolation = ''copy'', ad_completion_policy = Policy_MustSucceed\<rparr>"

definition ex_child_done :: child_callback_input where
  "ex_child_done = \<lparr>cb_run_id = ''run1'', cb_epoch = 1, cb_iteration_id = 1, cb_child_id = ''k1'',
     cb_token = ''dispatch_k'', cb_state = Child_Completed, cb_settlement = Some ex_cost,
     cb_artifacts = []\<rparr>"

definition ex_finish :: finish_iteration_input where
  "ex_finish = \<lparr>fi_run_id = ''run1'', fi_epoch = 1, fi_iteration_id = 1,
     fi_token = ''iteration_i'', fi_driver_terminal_success = True, fi_summary = ''done'',
     fi_evidence = [], fi_gates = fmempty, fi_verdict = Achieved, fi_usage = ex_cost\<rparr>"

text \<open>The journal, the receipts and the records, revision by revision.\<close>

definition ex_journal :: "run_event list" where
  "ex_journal = map (\<lambda>(n, kind). \<lparr>ev_cursor = n, ev_revision = n, ev_kind = kind, ev_at_ms = 9 + n\<rparr>)
     [(1, ''run_created''), (2, ''message_accepted''), (3, ''iteration_started''),
      (4, ''effect_committed''), (5, ''effect_claimed''), (6, ''effect_acknowledged''),
      (7, ''child_admitted''), (8, ''child_transitioned''), (9, ''iteration_finished''),
      (10, ''run_controlled''), (11, ''run_controlled'')]"

definition ex_rcs1 :: "(command_id, command_receipt) fmap" where
  "ex_rcs1 = fmupd ''c0'' (ex_receipt ''c0'' 1) fmempty"

definition ex_rcs2 :: "(command_id, command_receipt) fmap" where
  "ex_rcs2 = fmupd ''c1'' (ex_receipt ''c1'' 2) ex_rcs1"

definition ex_rcs3 :: "(command_id, command_receipt) fmap" where
  "ex_rcs3 = fmupd ''c2'' (ex_receipt ''c2'' 3) ex_rcs2"

definition ex_rcs4 :: "(command_id, command_receipt) fmap" where
  "ex_rcs4 = fmupd ''c3'' (ex_receipt ''c3'' 4) ex_rcs3"

definition ex_rcs5 :: "(command_id, command_receipt) fmap" where
  "ex_rcs5 = fmupd ''c4'' (ex_receipt ''c4'' 5) ex_rcs4"

definition ex_rcs7 :: "(command_id, command_receipt) fmap" where
  "ex_rcs7 = fmupd ''c6'' (ex_receipt ''c6'' 7) ex_rcs5"

definition ex_rcs10 :: "(command_id, command_receipt) fmap" where
  "ex_rcs10 = fmupd ''c9'' (ex_receipt ''c9'' 10) ex_rcs7"

definition ex_rcs11 :: "(command_id, command_receipt) fmap" where
  "ex_rcs11 = fmupd ''c10'' (ex_receipt ''c10'' 11) ex_rcs10"

definition ex_stamp :: "u64 \<Rightarrow> (command_id, command_receipt) fmap \<Rightarrow> run_record \<Rightarrow> run_record" where
  "ex_stamp n rcs r =
     r\<lparr>revision := n, updated_at_ms := 9 + n, event_cursor := n, command_receipts := rcs\<rparr>"

definition ex_envelope :: "run_record \<Rightarrow> nat \<Rightarrow> run_envelope" where
  "ex_envelope r n = \<lparr>schema_version = RUN_SCHEMA_VERSION, run = r, events = take n ex_journal\<rparr>"

definition ex_iteration :: iteration_manifest where
  "ex_iteration = \<lparr>it_iteration_id = 1, it_token = ''iteration_i'', it_context = ex_context,
     it_started_at_ms = 12, it_driver_terminal_success = False, it_summary = None,
     it_evidence = [], it_gates = fmempty, it_verdict = None, it_finished_at_ms = None,
     it_result_digest = None, it_recovery_abandoned = False\<rparr>"

definition ex_claimed :: operation where
  "ex_claimed = claimed_operation ex_claim ''c4'' ''dispatch_d'' 1 2
     (prepared_operation ex_prepare ex_digest)"

definition ex_settled :: operation where
  "ex_settled = ex_claimed\<lparr>op_receipt := Some ex_effect_receipt,
     op_terminal_result_digest := Some ex_digest, op_state := Op_Acknowledged\<rparr>"

definition ex_spent :: resource_vector where
  "ex_spent = \<lparr>iterations = 2, agent_calls = 2, agent_concurrency = 1, active_ms = 20,
     wall_ms = 20, tokens = 20, cost_micros = 20, artifact_bytes = 2\<rparr>"

definition ex_r0 :: run_record where
  "ex_r0 = initial_run ex_request ''run1'' (ex_receipt ''c0'' 1) 10"

definition ex_r1 :: run_record where
  "ex_r1 = ex_stamp 2 ex_rcs2 (ex_r0\<lparr>next_message_sequence := 2,
     mailbox := fmupd ''m1'' (accepted_message ex_message 1) fmempty\<rparr>)"

definition ex_r2 :: run_record where
  "ex_r2 = ex_stamp 3 ex_rcs3 (ex_r1\<lparr>next_iteration_id := 2,
     active_iteration := Some ex_iteration, stage := Stage_Executing\<rparr>)"

definition ex_r3 :: run_record where
  "ex_r3 = ex_stamp 4 ex_rcs4 (ex_r2\<lparr>operations :=
     fmupd ''op1'' (prepared_operation ex_prepare ex_digest) fmempty\<rparr>)"

definition ex_r4 :: run_record where
  "ex_r4 = ex_stamp 5 ex_rcs5 (ex_r3\<lparr>operations := fmupd ''op1'' ex_claimed fmempty\<rparr>)"

definition ex_r5 :: run_record where
  "ex_r5 = ex_stamp 6 ex_rcs5 (ex_r4\<lparr>operations := fmupd ''op1'' ex_settled fmempty\<rparr>)"

definition ex_r6 :: run_record where
  "ex_r6 = ex_stamp 7 ex_rcs7 (ex_r5\<lparr>child_reserved := ex_cost,
     children := fmupd ''k1'' (admitted_child ex_child ''dispatch_k'') fmempty\<rparr>)"

definition ex_r7 :: run_record where
  "ex_r7 = ex_stamp 8 ex_rcs7 (ex_r6\<lparr>child_reserved := rv_default, usage := ex_cost,
     children := fmupd ''k1'' ((admitted_child ex_child ''dispatch_k'')\<lparr>
       ch_settlement := Some ex_cost, ch_state := Child_Completed, ch_artifacts := []\<rparr>) fmempty\<rparr>)"

definition ex_r8 :: run_record where
  "ex_r8 = ex_stamp 9 ex_rcs7 (ex_r7\<lparr>active_iteration := None, usage := ex_spent,
     usage_unknown := {||}, verdict := Some Achieved, stage := Stage_Verifying,
     run_iterations := [finished_manifest ex_finish 18 ex_digest ex_iteration]\<rparr>)"

definition ex_r9 :: run_record where
  "ex_r9 = ex_stamp 10 ex_rcs10 (ex_r8\<lparr>status := Status_Complete, stage := Stage_Idle,
     activation_lease := None, wake := wake_default\<rparr>)"

definition ex_r10 :: run_record where
  "ex_r10 = ex_stamp 11 ex_rcs11 (ex_r9\<lparr>status := Status_Tombstoned, stage := Stage_Idle\<rparr>)"

abbreviation ex_e0 :: run_envelope where "ex_e0 \<equiv> ex_envelope ex_r0 1"
abbreviation ex_e1 :: run_envelope where "ex_e1 \<equiv> ex_envelope ex_r1 2"
abbreviation ex_e2 :: run_envelope where "ex_e2 \<equiv> ex_envelope ex_r2 3"
abbreviation ex_e3 :: run_envelope where "ex_e3 \<equiv> ex_envelope ex_r3 4"
abbreviation ex_e4 :: run_envelope where "ex_e4 \<equiv> ex_envelope ex_r4 5"
abbreviation ex_e5 :: run_envelope where "ex_e5 \<equiv> ex_envelope ex_r5 6"
abbreviation ex_e6 :: run_envelope where "ex_e6 \<equiv> ex_envelope ex_r6 7"
abbreviation ex_e7 :: run_envelope where "ex_e7 \<equiv> ex_envelope ex_r7 8"
abbreviation ex_e8 :: run_envelope where "ex_e8 \<equiv> ex_envelope ex_r8 9"
abbreviation ex_e9 :: run_envelope where "ex_e9 \<equiv> ex_envelope ex_r9 10"
abbreviation ex_e10 :: run_envelope where "ex_e10 \<equiv> ex_envelope ex_r10 11"

lemma small_successor: "v < 100 \<Longrightarrow> checked_add v 1 = Some (v + 1)" for v :: u64
  by (simp add: checked_add_def word_less_nat_alt)

lemmas ex_states = ex_r1_def ex_r2_def ex_r3_def ex_r4_def ex_r5_def ex_r6_def ex_r7_def ex_r8_def
  ex_r9_def ex_r10_def ex_stamp_def ex_envelope_def ex_journal_def

lemmas ex_receipts = ex_rcs1_def ex_rcs2_def ex_rcs3_def ex_rcs4_def ex_rcs5_def ex_rcs7_def
  ex_rcs10_def ex_rcs11_def

lemmas ex_data = ex_message_def ex_context_def ex_artifact_def ex_prepare_def ex_cost_def
  ex_claim_def ex_effect_receipt_def ex_callback_def ex_child_def ex_child_done_def ex_finish_def
  ex_iteration_def ex_claimed_def ex_settled_def ex_spent_def accepted_message_def
  prepared_operation_def claimed_operation_def admitted_child_def finished_manifest_def
  effect_receipt_new_def effect_usage_measured_def

lemmas ex_state = ex_r0_def initial_run_def ex_request_def
  ex_receipt_def command_receipt_for_def ex_pin_def

lemma fcard_small [simp]: "fcard {||} = 0" "fcard {|x|} = 1"
  by (simp_all add: fcard.rep_eq)

lemmas ex_checks = goal_spec_validate_def capability_policy_validate_def validate_harness_state_def
  harness_pin_validate_def residency_invalid_def collections_invalid_def usage_unknown_invalid_def
  validate_archived_def iteration_validate_def iteration_context_validate_def
  validate_operation_def validate_operation_identity_def validate_operation_receipt_def
  validate_operation_settlement_def validate_child_entry_def child_validate_def
  validate_message_entry_def message_validate_def receipts_invalid_def journal_tail_matches_def
  result_simps schema_bounds ascii_ws_def ws2_def ws3_def btree_len_fmupd
  btree_contains_key_def wake_default_def

lemma ex_digest_valid: "valid_sha256 ex_digest"
  by code_simp

lemma ex_hex: "lower_hex (replicate 32 CHR 0x00) = ex_digest"
  by code_simp

lemma ex_canonical: "canonical_digest ex_env x = Inr ex_digest"
  by (simp only: canonical_digest_def ex_env_def run_env.simps sum.case ex_hex)

lemma btree_entry_quantifiers:
  "(\<exists>p \<in> set (btree_iter (fmupd k v m)). P p) \<longleftrightarrow>
     P (k, v) \<or> (\<exists>p \<in> set (btree_iter m). fst p \<noteq> k \<and> P p)"
  "(\<forall>p \<in> set (btree_iter (fmupd k v m)). P p) \<longleftrightarrow>
     P (k, v) \<and> (\<forall>p \<in> set (btree_iter m). fst p \<noteq> k \<longrightarrow> P p)"
proof -
  have eq: "set (btree_iter (fmupd k v m)) = insert (k, v) {p \<in> set (btree_iter m). fst p \<noteq> k}"
    by (auto simp: set_btree_iter split: if_splits)
  show "(\<exists>p \<in> set (btree_iter (fmupd k v m)). P p) \<longleftrightarrow>
     P (k, v) \<or> (\<exists>p \<in> set (btree_iter m). fst p \<noteq> k \<and> P p)"
    unfolding eq by fastforce
  show "(\<forall>p \<in> set (btree_iter (fmupd k v m)). P p) \<longleftrightarrow>
     P (k, v) \<and> (\<forall>p \<in> set (btree_iter m). fst p \<noteq> k \<longrightarrow> P p)"
    unfolding eq by fastforce
qed

lemmas ex_eval = ex_checks ex_state ex_digest_valid ex_states ex_receipts ex_data checked_add_def
  list_ex_iff btree_entry_quantifiers effect_spec_digest_def ex_canonical artifact_validate_def
  validate_effect_receipt_def validate_effect_receipt_evidence_def effect_usage_validate_def
  allows_settlement_with_def ALL_RESOURCE_DIMENSIONS_def is_zero_def rv_default_def ex_budget_def

lemma ex_e0_good: "envelope_good ex_env ex_e0"
  by (rule envelope_goodI) (simp_all add: ex_eval)

lemma ex_e1_good: "envelope_good ex_env ex_e1"
  by (rule envelope_goodI) (simp_all add: ex_eval)

lemma ex_e2_good: "envelope_good ex_env ex_e2"
  by (rule envelope_goodI) (simp_all add: ex_eval)

lemma ex_e3_good: "envelope_good ex_env ex_e3"
  by (rule envelope_goodI) (simp_all add: ex_eval)

lemma ex_e4_good: "envelope_good ex_env ex_e4"
  by (rule envelope_goodI) (simp_all add: ex_eval)

lemma ex_e5_good: "envelope_good ex_env ex_e5"
  by (rule envelope_goodI) (simp_all add: ex_eval)

lemma ex_e6_good: "envelope_good ex_env ex_e6"
  by (rule envelope_goodI) (simp_all add: ex_eval)

lemma ex_e7_good: "envelope_good ex_env ex_e7"
  by (rule envelope_goodI) (simp_all add: ex_eval)

lemma ex_e8_good: "envelope_good ex_env ex_e8"
  by (rule envelope_goodI) (simp_all add: ex_eval)

lemma ex_e9_good: "envelope_good ex_env ex_e9"
  by (rule envelope_goodI) (simp_all add: ex_eval)

lemma ex_e10_good: "envelope_good ex_env ex_e10"
  by (rule envelope_goodI) (simp_all add: ex_eval)

section \<open>The steps\<close>

lemma ex_advance:
  assumes "revision r + 1 = v" "event_cursor r = revision r" "revision r < 100" "n < 11"
    "ex_journal ! n = \<lparr>ev_cursor = v, ev_revision = v, ev_kind = kind, ev_at_ms = 9 + v\<rparr>"
  shows "advance (ex_envelope r n) r1 kind (9 + v) =
    Inr (ex_envelope (r1\<lparr>revision := v, updated_at_ms := 9 + v, event_cursor := v\<rparr>) (Suc n))"
proof -
  have len: "length ex_journal = 11" by (simp add: ex_journal_def)
  then have "take (Suc n) ex_journal = take n ex_journal @ [ex_journal ! n]"
    using assms(4) by (simp add: take_Suc_conv_app_nth)
  moreover have "length (take n ex_journal) < 11" using len assms(4) by simp
  ultimately show ?thesis
    using assms small_successor [of "revision r"]
    by (simp add: advance_def successor_def successor_cursor_def ex_envelope_def trim_events_def
        pop_front_while_drop internal_event_kind_def schema_bounds)
qed

lemma ex_command:
  assumes "run_step ex_env r r1" "r' = ex_stamp v (fmupd cid (ex_receipt cid v) (command_receipts r)) r1"
    and "status r \<noteq> Status_Tombstoned" "fmlookup (command_receipts r) cid = None"
    and adv: "revision r + 1 = v" "event_cursor r = revision r" "revision r < 100" "n < 11"
    "ex_journal ! n = \<lparr>ev_cursor = v, ev_revision = v, ev_kind = kind, ev_at_ms = 9 + v\<rparr>"
    and "envelope_good ex_env (ex_envelope r' (Suc n))"
  shows "env_step ex_env (ex_envelope r n) (ex_envelope r' (Suc n))"
proof (rule env_step.command [OF _ _ ex_advance [OF adv]])
  have "command_receipts r1 = command_receipts r"
    using assms(1) by (auto dest!: run_step_receipts)
  then show "ex_envelope r' (Suc n) = record_receipt (ex_receipt cid v)
      (ex_envelope (r1\<lparr>revision := v, updated_at_ms := 9 + v, event_cursor := v\<rparr>) (Suc n))"
    by (simp add: assms(2) ex_stamp_def ex_envelope_def record_receipt_def ex_receipt_def
        command_receipt_for_def)
qed (use assms in \<open>simp_all add: ex_envelope_def ex_receipt_def command_receipt_for_def\<close>)

lemma ex_callback_step:
  assumes "run_step ex_env r r1" "r' = ex_stamp v (command_receipts r) r1"
    and "status r \<noteq> Status_Tombstoned"
    and adv: "revision r + 1 = v" "event_cursor r = revision r" "revision r < 100" "n < 11"
    "ex_journal ! n = \<lparr>ev_cursor = v, ev_revision = v, ev_kind = kind, ev_at_ms = 9 + v\<rparr>"
    and "envelope_good ex_env (ex_envelope r' (Suc n))"
  shows "env_step ex_env (ex_envelope r n) (ex_envelope r' (Suc n))"
proof (rule env_step.callback)
  have "command_receipts r1 = command_receipts r"
    using assms(1) by (auto dest!: run_step_receipts)
  then have "r1\<lparr>revision := v, updated_at_ms := 9 + v, event_cursor := v\<rparr> = r'"
    by (cases r1) (simp add: assms(2) ex_stamp_def)
  with ex_advance [OF adv, of r1]
  show "advance (ex_envelope r n) r1 kind (9 + v) = Inr (ex_envelope r' (Suc n))" by simp
qed (use assms in \<open>simp_all add: ex_envelope_def\<close>)

lemma ex_step1: "env_step ex_env ex_e0 ex_e1"
proof -
  have "accept_message_reduce ex_message ex_r0 = Inr (ex_r0\<lparr>next_message_sequence := 2,
      mailbox := fmupd ''m1'' (accepted_message ex_message 1) fmempty\<rparr>)"
    by (simp add: accept_message_reduce_def ex_eval is_terminal_def)
  from ex_command [OF run_step.accept_message [OF this], of ex_r1 2 "''c1''" 1 "''message_accepted''"]
  show ?thesis using ex_e1_good by (simp add: ex_eval)
qed

lemma ex_step2: "env_step ex_env ex_e1 ex_e2"
proof -
  have "begin_iteration_reduce ex_context 2 ''iteration_i'' 12 ex_r1 = Inr (ex_r1\<lparr>next_iteration_id := 2,
      active_iteration := Some ex_iteration, stage := Stage_Executing\<rparr>)"
    by (simp add: begin_iteration_reduce_def ex_eval one_iteration_def add_usage_def combine_def
        with_reservations_def add_reservation_def resources_within_def)
  from ex_command [OF run_step.begin_iteration [OF this], of ex_r2 3 "''c2''" 2 "''iteration_started''"]
  show ?thesis using ex_e2_good by (simp add: ex_eval)
qed

lemma ex_step3: "env_step ex_env ex_e2 ex_e3"
proof -
  have "prepare_operation_reduce ex_env ex_prepare ex_r2 = Inr (ex_r2\<lparr>operations :=
      fmupd ''op1'' (prepared_operation ex_prepare ex_digest) fmempty\<rparr>)"
    by (simp add: prepare_operation_reduce_def validate_effect_capability_def require_capability_def
        ex_eval)
  from ex_command [OF run_step.prepare_operation [OF this], of ex_r3 4 "''c3''" 3 "''effect_committed''"]
  show ?thesis using ex_e3_good by (simp add: ex_eval)
qed

lemma ex_step4: "env_step ex_env ex_e3 ex_e4"
proof -
  have "claim_effect_reduce ex_claim ''c4'' ''dispatch_d'' 14 ex_r3 =
      Inr (ex_r3\<lparr>operations := fmupd ''op1'' ex_claimed fmempty\<rparr>)"
    by (simp add: claim_effect_reduce_def check_claim_fence_def claim_budget_ok_def
        active_operation_reservations_def in_active_iteration_def ex_eval combine_def
        with_reservations_def add_reservation_def resources_within_def)
  from ex_command [OF run_step.claim_effect [OF this], of ex_r4 5 "''c4''" 4 "''effect_claimed''"]
  show ?thesis using ex_e4_good by (simp add: ex_eval)
qed

lemma ex_step5: "env_step ex_env ex_e4 ex_e5"
proof -
  have "acknowledge_effect_step ex_env ex_callback ex_r4 =
      Inr (Callback_Next (ex_r4\<lparr>operations := fmupd ''op1'' ex_settled fmempty\<rparr>) None)"
    by (simp add: acknowledge_effect_step_def acknowledge_outcome_def attempt_matches_def ex_eval)
  from ex_callback_step [OF run_step.acknowledge_effect [OF this], of ex_r5 6 5
      "''effect_acknowledged''"]
  show ?thesis using ex_e5_good by (simp add: ex_eval)
qed

lemma ex_step6: "env_step ex_env ex_e5 ex_e6"
proof -
  have "admit_child_reduce ex_child ''dispatch_k'' ex_r5 = Inr (ex_r5\<lparr>child_reserved := ex_cost,
      children := fmupd ''k1'' (admitted_child ex_child ''dispatch_k'') fmempty\<rparr>)"
    by (simp add: admit_child_reduce_def ex_eval combine_def with_reservations_def
        add_reservation_def resources_within_def)
  from ex_command [OF run_step.admit_child [OF this], of ex_r6 7 "''c6''" 6 "''child_admitted''"]
  show ?thesis using ex_e6_good by (simp add: ex_eval)
qed

lemma ex_step7: "env_step ex_env ex_e6 ex_e7"
proof -
  have "child_callback_step ex_child_done ex_r6 = Inr (Callback_Next (ex_r6\<lparr>
      child_reserved := rv_default, usage := ex_cost,
      children := fmupd ''k1'' ((admitted_child ex_child ''dispatch_k'')\<lparr>
        ch_settlement := Some ex_cost, ch_state := Child_Completed, ch_artifacts := []\<rparr>) fmempty\<rparr>) None)"
    by (simp add: child_callback_step_def settle_child_def ex_eval combine_def with_reservations_def
        add_reservation_def add_usage_def subtract_reservation_def checked_sub_def resources_within_def)
  from ex_callback_step [OF run_step.child_callback [OF this], of ex_r7 8 7
      "''child_transitioned''"]
  show ?thesis using ex_e7_good by (simp add: ex_eval)
qed

lemma ex_step8: "env_step ex_env ex_e7 ex_e8"
proof -
  have "finish_iteration_step ex_env ex_finish 18 ex_r7 = Inr (Callback_Next (ex_r7\<lparr>
      active_iteration := None, usage := ex_spent, usage_unknown := {||}, verdict := Some Achieved,
      stage := Stage_Verifying,
      run_iterations := [finished_manifest ex_finish 18 ex_digest ex_iteration]\<rparr>)
      (Some (finished_manifest ex_finish 18 ex_digest ex_iteration)))"
    by (simp add: finish_iteration_step_def finish_iteration_accept_def session_turn_usage_def
        op_settled_def push_iteration_def Let_def ex_eval combine_def with_reservations_def
        add_reservation_def add_usage_def resources_within_def)
  from ex_callback_step [OF run_step.finish_iteration [OF this], of ex_r8 9 8
      "''iteration_finished''"]
  show ?thesis using ex_e8_good by (simp add: ex_eval)
qed

lemma ex_step9: "env_step ex_env ex_e8 ex_e9"
proof -
  have "apply_control Act_TryComplete ex_r8 = Inr (ex_r8\<lparr>status := Status_Complete,
      stage := Stage_Idle, activation_lease := None, wake := wake_default\<rparr>)"
    by (simp add: validate_completion_def fence_activation_def has_unsettled_operations_def
        resources_within_def ex_eval)
  from ex_command [OF run_step.control [OF this], of ex_r9 10 "''c9''" 9 "''run_controlled''"]
  show ?thesis using ex_e9_good by (simp add: ex_eval)
qed

lemma ex_step10: "env_step ex_env ex_e9 ex_e10"
proof -
  have "apply_control Act_Tombstone ex_r9 = Inr (ex_r9\<lparr>status := Status_Tombstoned, stage := Stage_Idle\<rparr>)"
    by (simp add: has_unsettled_work_def has_unsettled_operations_def has_active_children_def
        is_terminal_def ex_eval)
  from ex_command [OF run_step.control [OF this], of ex_r10 11 "''c10''" 10 "''run_controlled''"]
  show ?thesis using ex_e10_good by (simp add: ex_eval)
qed

lemmas ex_steps = ex_step1 ex_step2 ex_step3 ex_step4 ex_step5 ex_step6 ex_step7 ex_step8 ex_step9
  ex_step10

lemma ex_created: "env_created ex_env ex_e0"
proof -
  have "ex_e0 = initial_envelope ex_request ''run1'' (ex_receipt ''c0'' 1) 10"
    by (simp add: initial_envelope_def ex_envelope_def ex_r0_def ex_journal_def internal_event_kind_def)
  with ex_e0_good show ?thesis
    using env_created.created [of ex_env ex_request "''run1''" "ex_receipt ''c0'' 1" 10]
    by (simp add: ex_receipt_def command_receipt_for_def ex_request_def)
qed

lemma ex_reach: "env_reach ex_env ex_e0" "env_reach ex_env ex_e1" "env_reach ex_env ex_e2"
  "env_reach ex_env ex_e3" "env_reach ex_env ex_e4" "env_reach ex_env ex_e5"
  "env_reach ex_env ex_e6" "env_reach ex_env ex_e7" "env_reach ex_env ex_e8" "env_reach ex_env ex_e9"
  "env_reach ex_env ex_e10"
  using ex_created ex_steps by (meson env_reach.intros)+

lemma ex_later: "env_later ex_env ex_e1 ex_e9" "env_later ex_env ex_e4 ex_e9"
  "env_later ex_env ex_e5 ex_e9" "env_later ex_env ex_e0 ex_e9"
  using ex_steps by (meson r_into_rtranclp rtranclp_trans)+

end
