(* ===== verification/Run_Contract.thy ===== *)
theory Run_Contract
  imports Run_System
begin

text \<open>
  What \<open>RunController\<close> promises its callers: commands are idempotent by their id, an
  acknowledged mutation is durable and is the successor of the revision the caller named, a
  refused one leaves the controller as it was, authority that is lost stays lost until the
  Run is reloaded and recovered, and \<open>attach_run\<close> replays exactly what the caller missed.
\<close>

section \<open>Commands\<close>

lemma apply_command_known:
  assumes "fmlookup (ctl_runs c) (mr_run_id q) = Some old"
    and "fmlookup (command_receipts (run old)) (mr_command_id q) = Some receipt"
    and "canonical_digest env (Dig_Command name input) = Inr digest"
    and "allow \<or> mr_run_id q |\<notin>| ctl_authority_fenced c"
  shows "apply_command env st c q input name kind t allow reduce =
    (c, if cr_input_digest receipt = digest
        then Inr \<lparr>res_receipt = receipt, res_snapshot = old, res_duplicate = True\<rparr>
        else Inl (Integrity ''command id was reused with different input''))"
  using assms by (auto simp: apply_command_def prepare_command_def ensure_authority_def)

lemma prepare_duplicate:
  "prepare_command env c q input name kind t allow reduce = Inr (Inl res) \<Longrightarrow> res_duplicate res"
  by (auto simp: prepare_command_def result_simps Let_def split: option.splits if_splits)

lemma apply_command_committed:
  assumes a: "apply_command env st c q input name kind t allow reduce = (c', Inr res)"
    and new: "\<not> res_duplicate res"
  obtains old r' e1 digest where
    "fmlookup (ctl_runs c) (mr_run_id q) = Some old" "status (run old) \<noteq> Status_Tombstoned"
    "revision (run old) = mr_expected_revision q" "reduce (run old) = Inr r'"
    "canonical_digest env (Dig_Command name input) = Inr digest"
    "fmlookup (command_receipts (run old)) (mr_command_id q) = None"
    "advance old r' kind t = Inr e1" "allow \<or> mr_run_id q |\<notin>| ctl_authority_fenced c"
    "res_snapshot res = record_receipt (res_receipt res) e1"
    "res_receipt res = command_receipt_for (mr_command_id q) digest (revision (run e1)) (controller_epoch r')"
    "commit env st c (Some (revision (run old))) (res_snapshot res) None = (c', Inr (res_snapshot res))"
proof -
  from a new obtain old receipt nxt where
    p: "prepare_command env c q input name kind t allow reduce = Inr (Inr (old, receipt, nxt))"
    by (auto simp: apply_command_def dest: prepare_duplicate split: sum.splits prod.splits)
  then obtain r' e1 digest where
    d: "fmlookup (ctl_runs c) (mr_run_id q) = Some old" "status (run old) \<noteq> Status_Tombstoned"
    "revision (run old) = mr_expected_revision q" "reduce (run old) = Inr r'"
    "canonical_digest env (Dig_Command name input) = Inr digest"
    "fmlookup (command_receipts (run old)) (mr_command_id q) = None"
    "advance old r' kind t = Inr e1" "allow \<or> mr_run_id q |\<notin>| ctl_authority_fenced c"
    "nxt = record_receipt receipt e1"
    "receipt = command_receipt_for (mr_command_id q) digest (revision (run e1)) (controller_epoch r')"
    by (auto simp: prepare_command_def result_simps Let_def ensure_authority_def
        split: option.splits if_splits)
  from a p obtain snapshot where
    s: "commit env st c (Some (revision (run old))) nxt None = (c', Inr snapshot)"
    "res = \<lparr>res_receipt = receipt, res_snapshot = snapshot, res_duplicate = False\<rparr>"
    by (auto simp: apply_command_def split: sum.splits prod.splits)
  from s(1) have "snapshot = nxt" by (cases rule: commit_outcome) auto
  with s d show ?thesis by (intro that [of old r' digest e1]) simp_all
qed

lemma committed_snapshot:
  assumes "commit env st c expected nxt fin = (c', Inr e)"
  shows "fmlookup (ctl_runs c') (run_id (run nxt)) = Some nxt"
    and "ctl_authority_fenced c' = ctl_authority_fenced c"
    and "so_commit st (ctl_store c) \<lparr>sc_run_id = run_id (run nxt), sc_expected_revision = expected,
      sc_next = nxt, sc_finished_iteration = fin\<rparr> = (ctl_store c', Inr Store_Applied)"
  using assms by (rule commit_outcome, auto)+

lemma apply_command_replay:
  assumes a: "apply_command env st c q input name kind t allow reduce = (c', Inr res)"
    and new: "\<not> res_duplicate res"
    and keyed: "\<forall>rid e. fmlookup (ctl_runs c) rid = Some e \<longrightarrow> run_id (run e) = rid"
    and sound: "\<forall>r r'. reduce r = Inr r' \<longrightarrow> run_step env r r'"
  shows "apply_command env st c' q input name kind' t' allow reduce' =
    (c', Inr \<lparr>res_receipt = res_receipt res, res_snapshot = res_snapshot res, res_duplicate = True\<rparr>)"
  using a new
proof (rule apply_command_committed)
  fix old r' e1 digest
  assume old: "fmlookup (ctl_runs c) (mr_run_id q) = Some old" and "reduce (run old) = Inr r'"
    and dig: "canonical_digest env (Dig_Command name input) = Inr digest"
    and adv: "advance old r' kind t = Inr e1"
    and auth: "allow \<or> mr_run_id q |\<notin>| ctl_authority_fenced c"
    and snap: "res_snapshot res = record_receipt (res_receipt res) e1"
    and rec: "res_receipt res =
      command_receipt_for (mr_command_id q) digest (revision (run e1)) (controller_epoch r')"
    and com: "commit env st c (Some (revision (run old))) (res_snapshot res) None =
      (c', Inr (res_snapshot res))"
  have "run_step env (run old) r'" using sound \<open>reduce (run old) = Inr r'\<close> by blast
  then have "run_id (run (res_snapshot res)) = mr_run_id q"
    using keyed old adv by (auto simp: snap record_receipt_def dest!: advance_same_run run_step_id)
  then have "fmlookup (ctl_runs c') (mr_run_id q) = Some (res_snapshot res)"
    and f: "ctl_authority_fenced c' = ctl_authority_fenced c"
    using committed_snapshot [OF com] by auto
  moreover have "fmlookup (command_receipts (run (res_snapshot res))) (mr_command_id q) =
      Some (res_receipt res)"
    by (simp add: snap record_receipt_def rec command_receipt_for_def)
  ultimately show ?thesis
    using apply_command_known [of c' q "res_snapshot res" "res_receipt res" env name input digest]
      dig auth by (simp add: rec command_receipt_for_def)
qed

lemma apply_command_refused:
  assumes "apply_command env st c q input name kind t allow reduce = (c', Inl e)"
  shows "c' = c \<or> (\<exists>old nxt. fmlookup (ctl_runs c) (mr_run_id q) = Some old \<and>
    revision (run old) = mr_expected_revision q \<and>
    commit env st c (Some (revision (run old))) nxt None = (c', Inl e))"
proof (cases "prepare_command env c q input name kind t allow reduce")
  case (Inl e')
  with assms show ?thesis by (simp add: apply_command_def)
next
  case p: (Inr x)
  show ?thesis
  proof (cases x)
    case (Inl d)
    with p assms show ?thesis by (simp add: apply_command_def)
  next
    case (Inr y)
    obtain old receipt nxt where y: "y = (old, receipt, nxt)" by (cases y)
    with p Inr have "fmlookup (ctl_runs c) (mr_run_id q) = Some old"
      "revision (run old) = mr_expected_revision q"
      by (auto simp: prepare_command_def result_simps Let_def split: option.splits if_splits)
    with p Inr y assms show ?thesis
      by (auto simp: apply_command_def split: sum.splits prod.splits)
  qed
qed

section \<open>Authority\<close>

lemma commit_lost:
  assumes "commit env st c expected nxt fin = (c', Inl e)"
    and "e = Conflict expected' actual \<or> e = CommitUnknown m"
    and "so_commit st (ctl_store c) \<lparr>sc_run_id = run_id (run nxt), sc_expected_revision = expected,
      sc_next = nxt, sc_finished_iteration = fin\<rparr> = (s', Inr answer)"
    and "envelope_good env nxt"
  shows "run_id (run nxt) |\<in>| ctl_authority_fenced c' \<and> run_id (run nxt) |\<in>| ctl_reload_required c' \<and>
    ctl_runs c' = ctl_runs c"
  using assms by (cases answer) (auto simp: commit_def Let_def fence_def require_reload_def)

lemma fenced_command:
  assumes "mr_run_id q |\<in>| ctl_authority_fenced c" "fmlookup (ctl_runs c) (mr_run_id q) = Some old"
    "canonical_digest env (Dig_Command name input) = Inr digest"
  shows "apply_command env st c q input name kind t False reduce = (c, Inl AuthorityLost)"
  using assms by (simp add: apply_command_def prepare_command_def ensure_authority_def)

lemma fenced_callback:
  "rid |\<in>| ctl_authority_fenced c \<Longrightarrow>
     run_callback env st c rid kind t step = (c, Inl AuthorityLost)"
  by (simp add: run_callback_def ensure_authority_def)

section \<open>Recovery\<close>

lemma fence_dispatching_fences: "op_state (fence_dispatching opn) \<noteq> Op_Dispatching"
  by (simp add: fence_dispatching_def)

lemma begin_recovery_fences:
  assumes "begin_recovery_reduce r = Inr r'"
  shows "controller_epoch r < controller_epoch r' \<and> activation_lease r' = None \<and>
    status r' = Status_RecoveryRequired \<and>
    (\<forall>k opn. fmlookup (operations r') k = Some opn \<longrightarrow> op_state opn \<noteq> Op_Dispatching)"
  using begin_recovery_frame [OF assms]
  by (auto simp: word_less_nat_alt fence_dispatching_fences dest: sym)

lemma stale_epoch_callbacks:
  "controller_epoch r \<noteq> fi_epoch fi \<Longrightarrow> finish_iteration_step env fi t r = Inl StaleEpoch"
  "controller_epoch r \<noteq> ec_epoch ec \<Longrightarrow> acknowledge_effect_step env ec r = Inl StaleEpoch"
  "controller_epoch r \<noteq> cb_epoch cb \<Longrightarrow> child_callback_step cb r = Inl StaleEpoch"
  by (simp_all add: finish_iteration_step_def acknowledge_effect_step_def child_callback_step_def)

lemma operation_need_empty: "operation_need opn = [] \<longleftrightarrow> op_state opn \<noteq> Op_Uncertain"
  by (cases "op_spec opn") (simp_all add: operation_need_def)

lemma recovery_needs_mem:
  "recovery_needs r = [] \<longleftrightarrow>
     (\<forall>k opn. fmlookup (operations r) k = Some opn \<longrightarrow> op_state opn \<noteq> Op_Uncertain) \<and>
     active_iteration r = None \<and> \<not> has_active_children r"
proof -
  have "concat (map operation_need (btree_values (operations r))) = [] \<longleftrightarrow>
      (\<forall>k opn. fmlookup (operations r) k = Some opn \<longrightarrow> op_state opn \<noteq> Op_Uncertain)"
    using btree_values_all [of "\<lambda>opn. op_state opn \<noteq> Op_Uncertain" "operations r"]
    by (simp add: operation_need_empty list_all_iff)
  moreover have "filter (\<lambda>child. \<not> child_is_terminal (ch_state child)) (btree_values (children r)) = [] \<longleftrightarrow>
      \<not> has_active_children r"
    by (auto simp: has_active_children_def filter_empty_conv list_ex_iff)
  ultimately show ?thesis by (auto simp: recovery_needs_def split: option.splits)
qed

lemma finish_recovery_enabled:
  assumes "status r = Status_RecoveryRequired" "stage r = Stage_Recovering" "recovery_needs r = []"
    and "\<forall>k opn. fmlookup (operations r) k = Some opn \<longrightarrow> op_state opn \<noteq> Op_Dispatching"
  shows "finish_recovery_reduce env rr t r = Inr (r\<lparr>status := recovered_status r rr,
    recovery_prior_status := None, stage := Stage_Idle\<rparr>)"
  using assms
  by (auto simp: recovery_needs_mem finish_recovery_reduce_def btree_quantifiers recovered_status_def)

section \<open>Attaching\<close>

lemma reach_cursor_nonzero: "env_reach env e \<Longrightarrow> event_cursor (run e) \<noteq> 0"
proof (induction rule: env_reach.induct)
  case (created e)
  then show ?case by (auto elim!: env_created.cases simp: initial_envelope_def initial_run_def)
next
  case (step e e')
  with env_step_counts(2) [OF step(2)] show ?case by auto
qed

lemma consecutive_from:
  "validate_events bound prev es = Inr () \<Longrightarrow> consecutive_events es"
proof (induction es arbitrary: prev)
  case (Cons e es)
  then have rest: "validate_events bound (Some (ev_cursor e, ev_revision e)) es = Inr ()"
    by (simp split: if_splits)
  then show ?case
    using Cons.IH [OF rest] by (cases es) (simp_all split: if_splits)
qed simp

lemma consecutive_cursors:
  "consecutive_events (e # es) \<Longrightarrow>
     map (unat \<circ> ev_cursor) (e # es) =
       [unat (ev_cursor e) ..< unat (ev_cursor e) + length (e # es)]"
proof (induction es arbitrary: e)
  case (Cons f es)
  then have "unat (ev_cursor f) = unat (ev_cursor e) + 1" by (simp add: checked_succ)
  moreover have "consecutive_events (f # es)" using Cons.prems by simp
  ultimately show ?case using Cons.IH [of f] by (simp add: upt_conv_Cons del: upt_Suc)
qed simp

lemma drop_upt_filter:
  "a \<le> n + 1 \<Longrightarrow> filter (\<lambda>x. n < x) [a ..< b] = [n + 1 ..< b]" for n a b :: nat
proof (induction b)
  case (Suc b)
  then show ?case by (cases "a \<le> b") (auto simp: not_le)
qed simp

text \<open>A caller that saw everything up to \<open>after\<close> gets exactly the events after it.\<close>

lemma attach_replays:
  assumes run: "fmlookup (ctl_runs c) rid = Some e" and good: "envelope_good env e"
    and known: "after \<le> event_cursor (run e)" and ev: "events e \<noteq> []"
    and kept: "unat (ev_cursor (hd (events e))) \<le> unat after + 1" and top: "unat after + 1 < 2 ^ 64"
  shows "\<exists>es. attach_run c rid after = Inr (Attach_Replay rid (event_cursor (run e)) es) \<and>
    es = filter (\<lambda>event. after < ev_cursor event) (events e) \<and>
    map (unat \<circ> ev_cursor) es = [unat after + 1 ..< unat (event_cursor (run e)) + 1]"
proof -
  obtain e0 rest where es: "events e = e0 # rest" using ev by (cases "events e") auto
  have con: "consecutive_events (events e)"
    using envelope_validateD(6) [OF good] by (rule consecutive_from)
  have tail: "journal_tail_matches e" using good by (rule envelope_validateD(7))
  then have valid: "valid_journal e" using con ev by (simp add: valid_journal_def journal_tail_matches_def)
  let ?cs = "map (unat \<circ> ev_cursor) (events e)"
  have cs: "?cs = [unat (ev_cursor e0) ..< unat (ev_cursor e0) + length (events e)]"
    using consecutive_cursors [of e0 rest] con by (simp add: es)
  have "last ?cs = unat (event_cursor (run e))"
    using tail ev by (simp add: last_map journal_tail_matches_def)
  moreover have "last ?cs = unat (ev_cursor e0) + length (events e) - 1"
    unfolding cs using ev by (cases "events e") (simp_all add: last_conv_nth)
  ultimately have bound: "unat (ev_cursor e0) + length (events e) = unat (event_cursor (run e)) + 1"
    using ev by (cases "events e") auto
  have next': "checked_add after 1 = Some (after + 1)" using top by (simp add: checked_add_def)
  then have "unat (after + 1) = unat after + 1" by (simp add: checked_succ)
  then have "attach_run c rid after = Inr (Attach_Replay rid (event_cursor (run e))
      (filter (\<lambda>event. after < ev_cursor event) (events e)))"
    using run valid known kept next' by (simp add: attach_run_def es word_le_nat_alt)
  moreover have "map (unat \<circ> ev_cursor) (filter (\<lambda>event. after < ev_cursor event) (events e)) =
      filter (\<lambda>x. unat after < x) ?cs"
    by (simp add: filter_map comp_def word_less_nat_alt)
  ultimately show ?thesis
    using drop_upt_filter [of "unat (ev_cursor e0)" "unat after"] kept
    by (simp only: cs bound) (simp add: es)
qed

section \<open>Acknowledged mutations\<close>

lemma apply_command_durable:
  assumes ok: "local_ok env codec (ctl_store c)"
    and a: "apply_command env (local_store_ops env codec f) c q input name kind t allow reduce = (c', Inr res)"
    and new: "\<not> res_duplicate res"
  shows "local_content env codec (ctl_store c') (run_id (run (res_snapshot res))) = Some (res_snapshot res) \<and>
    unat (revision (run (res_snapshot res))) = unat (mr_expected_revision q) + 1 \<and>
    fmlookup (command_receipts (run (res_snapshot res))) (mr_command_id q) = Some (res_receipt res) \<and>
    fmlookup (ctl_runs c') (run_id (run (res_snapshot res))) = Some (res_snapshot res)"
  using a new
proof (rule apply_command_committed)
  fix old r' e1 digest
  assume rev: "revision (run old) = mr_expected_revision q" and adv: "advance old r' kind t = Inr e1"
    and snap: "res_snapshot res = record_receipt (res_receipt res) e1"
    and rec: "res_receipt res =
      command_receipt_for (mr_command_id q) digest (revision (run e1)) (controller_epoch r')"
    and com: "commit env (local_store_ops env codec f) c (Some (revision (run old))) (res_snapshot res) None =
      (c', Inr (res_snapshot res))"
  note stored = committed_snapshot [OF com]
  have "commit_installs (local_content env codec (ctl_store c))
      \<lparr>sc_run_id = run_id (run (res_snapshot res)), sc_expected_revision = Some (revision (run old)),
       sc_next = res_snapshot res, sc_finished_iteration = None\<rparr> (local_content env codec (ctl_store c'))"
    using ok stored(3) by (rule local_runs.commit_applied)
  then have "local_content env codec (ctl_store c') (run_id (run (res_snapshot res))) = Some (res_snapshot res)"
    by (simp add: commit_installs_def)
  moreover have "unat (revision (run e1)) = unat (revision (run old)) + 1"
    using adv by (auto simp: advance_def result_simps successor_def checked_succ)
  moreover have "fmlookup (command_receipts (run (res_snapshot res))) (mr_command_id q) = Some (res_receipt res)"
    "revision (run (res_snapshot res)) = revision (run e1)"
    by (simp_all add: snap record_receipt_def rec command_receipt_for_def)
  ultimately show ?thesis using stored(1) rev by simp
qed

text \<open>A claim that is retried hands out the effect it handed out before.\<close>

lemma claim_effect_retried:
  assumes a: "claim_effect env st c q uuid t = (c', Inr out)"
    and new: "\<not> res_duplicate (co_command out)"
    and keyed: "\<forall>rid e. fmlookup (ctl_runs c) rid = Some e \<longrightarrow> run_id (run e) = rid"
  shows "claim_effect env st c' q uuid' t' = (c', Inr \<lparr>
    co_command = \<lparr>res_receipt = res_receipt (co_command out), res_snapshot = res_snapshot (co_command out),
      res_duplicate = True\<rparr>, co_output = co_output out\<rparr>)"
proof -
  let ?reduce = "claim_effect_reduce (mr_input q) (mr_command_id q)"
  from a obtain res where
    res: "apply_command env st c q (In_ClaimEffect (mr_input q)) ''claim_effect'' ''effect_claimed'' t
      False (?reduce (dispatch_token_random uuid) t) = (c', Inr res)"
    and out: "co_command out = res"
      "committed_effect_of (mr_run_id q) (cl_operation_id (mr_input q)) (mr_command_id q) res =
        Inr (co_output out)"
    by (auto simp: claim_effect_def with_output_def result_simps split: prod.splits)
      (metis prod.collapse)
  have "\<forall>r r'. ?reduce (dispatch_token_random uuid) t r = Inr r' \<longrightarrow> run_step env r r'"
    using run_step.claim_effect by blast
  with apply_command_replay [OF res _ keyed] new out(1)
  have "apply_command env st c' q (In_ClaimEffect (mr_input q)) ''claim_effect'' ''effect_claimed'' t'
      False (?reduce (dispatch_token_random uuid') t') =
    (c', Inr \<lparr>res_receipt = res_receipt res, res_snapshot = res_snapshot res, res_duplicate = True\<rparr>)"
    by blast
  then show ?thesis
    using out by (simp add: claim_effect_def with_output_def committed_effect_of_def)
qed

section \<open>Commits by many writers\<close>

text \<open>Each commit may meet its own faults.\<close>

fun local_commits ::
    "run_env \<Rightarrow> store_codec \<Rightarrow> run_db \<Rightarrow> (sql_faults \<times> store_commit) list \<Rightarrow> run_db" where
  "local_commits env codec db [] = db"
| "local_commits env codec db ((f, c) # cs) =
     local_commits env codec (fst (local_commit env codec f db c)) cs"

lemma local_commit_monotone:
  assumes "local_ok env codec db" "local_content env codec db rid = Some e"
  shows "local_ok env codec (fst (local_commit env codec f db c)) \<and>
    (\<exists>e'. local_content env codec (fst (local_commit env codec f db c)) rid = Some e' \<and>
       revision (run e) \<le> revision (run e'))"
proof -
  obtain db' r where c: "local_commit env codec f db c = (db', r)" by fastforce
  then have so: "so_commit (local_store_ops env codec f) db c = (db', r)"
    by (simp add: local_store_ops_def)
  show ?thesis
    using local_runs.commit_ok [OF assms(1) so] local_runs.commit_monotone [OF assms(1) so assms(2)] c
    by auto
qed

lemma local_commits_monotone:
  "local_ok env codec db \<Longrightarrow> local_content env codec db rid = Some e \<Longrightarrow>
     local_ok env codec (local_commits env codec db cs) \<and>
     (\<exists>e'. local_content env codec (local_commits env codec db cs) rid = Some e' \<and>
        revision (run e) \<le> revision (run e'))"
proof (induction env codec db cs arbitrary: e rule: local_commits.induct)
  case (2 env codec db f c cs)
  from local_commit_monotone [OF 2(2,3), of f c] obtain e1 where
    "local_ok env codec (fst (local_commit env codec f db c))"
    "local_content env codec (fst (local_commit env codec f db c)) rid = Some e1"
    "revision (run e) \<le> revision (run e1)" by blast
  with 2(1) [of e1] show ?case by (auto intro: order_trans)
qed auto

lemma local_swap_exclusive:
  assumes ok: "local_ok env codec db"
    and first: "local_commit env codec f db c = (db', Inr Store_Applied)"
    and same: "sc_run_id d = sc_run_id c" "sc_expected_revision d = sc_expected_revision c"
  shows "snd (local_commit env codec g (local_commits env codec db' cs) d) \<noteq> Inr Store_Applied"
proof
  let ?db = "local_commits env codec db' cs"
  assume "snd (local_commit env codec g ?db d) = Inr Store_Applied"
  then obtain db'' where
    second: "so_commit (local_store_ops env codec g) ?db d = (db'', Inr Store_Applied)"
    by (cases "local_commit env codec g ?db d") (simp add: local_store_ops_def)
  have so: "so_commit (local_store_ops env codec f) db c = (db', Inr Store_Applied)"
    using first by (simp add: local_store_ops_def)
  have inst: "commit_installs (local_content env codec db) c (local_content env codec db')"
    using ok so by (rule local_runs.commit_applied)
  then have "local_content env codec db' (sc_run_id c) = Some (sc_next c)"
    by (simp add: commit_installs_def)
  from local_commits_monotone [OF local_runs.commit_ok [OF ok so] this]
  obtain e where e: "local_ok env codec ?db" "local_content env codec ?db (sc_run_id c) = Some e"
    "revision (run (sc_next c)) \<le> revision (run e)" by blast
  have "commit_installs (local_content env codec ?db) d (local_content env codec db'')"
    using e(1) second by (rule local_runs.commit_applied)
  with e same have "sc_expected_revision c = Some (revision (run e))"
    by (simp add: commit_installs_def)
  with inst e(3) show False
    by (auto simp: commit_installs_def word_le_nat_alt split: option.splits)
qed

section \<open>Losing authority\<close>

lemma command_after_loss:
  assumes "mr_run_id q |\<in>| ctl_authority_fenced c"
  shows "\<exists>e. apply_command env st c q input name kind t False reduce = (c, Inl e)"
  using assms
  by (cases "canonical_digest env (Dig_Command name input)"; cases "fmlookup (ctl_runs c) (mr_run_id q)")
    (simp_all add: apply_command_def prepare_command_def ensure_authority_def)

lemma begin_recovery_blocked:
  "mr_run_id q |\<in>| ctl_reload_required c \<Longrightarrow> begin_recovery env st c q t = (c, Inl ReloadRequired)"
  by (simp add: begin_recovery_def Let_def)

lemma failed_commit_no_effect:
  assumes ok: "local_ok env codec (ctl_store c)"
    and com: "commit env (local_store_ops env codec f) c expected nxt fin = (c', Inl e)"
    and known: "\<forall>m. e \<noteq> CommitUnknown m"
  shows "ctl_runs c' = ctl_runs c \<and>
    local_content env codec (ctl_store c') = local_content env codec (ctl_store c)"
  using com
proof (cases rule: commit_outcome)
  case (stored answer)
  have "answer \<noteq> Inr Store_Applied" "\<forall>m. answer \<noteq> Inr (Store_CommitUnknown m)"
    using com stored(1,2) known by (auto simp: commit_def Let_def)
  with local_runs.commit_refused [OF ok stored(2)] stored(3) show ?thesis by simp
qed simp

end
