(* ===== verification/Run_System_Examples.thy ===== *)
theory Run_System_Examples
  imports Run_Examples Run_Contract
begin

text \<open>
  The local store of the example Run and a small system over it: an empty database, a
  controller that opens it, creates the Run and accepts a message. The codec writes an
  example envelope as a string whose length is its index.
\<close>

definition ex_envelopes :: "run_envelope list" where
  "ex_envelopes = [ex_e0, ex_e1, ex_e2, ex_e3, ex_e4, ex_e5, ex_e6, ex_e7, ex_e8, ex_e9, ex_e10]"

definition ex_codec :: store_codec where
  "ex_codec =
     \<lparr>enc_envelope = \<lambda>e. (let n = unat (revision (run e)) - 1 in
        if n < 11 \<and> e = ex_envelopes ! n then Inr (replicate n CHR ''x'') else Inl ''unknown''),
      enc_iteration = \<lambda>i. Inr [],
      dec_wire = \<lambda>s. if length s < 11 then Inr (ex_envelopes ! length s) else Inl ''unknown'',
      show_error = \<lambda>e. []\<rparr>"

definition ex_faults :: sql_faults where
  "ex_faults = \<lparr>sf_lock_poisoned = False, sf_begin = None, sf_query = None, sf_scan = None,
     sf_upsert = None, sf_iteration = None, sf_commit = None\<rparr>"

abbreviation ex_ops :: "sql_faults \<Rightarrow> run_db store_ops" where
  "ex_ops \<equiv> local_store_ops ex_env ex_codec"

text \<open>The database that holds the \<open>n\<close>-th envelope.\<close>

definition ex_empty :: run_db where
  "ex_empty = \<lparr>db_runs = fmempty, db_iterations = fmempty\<rparr>"

definition ex_row :: "nat \<Rightarrow> run_row" where
  "ex_row n = \<lparr>row_revision = revision (run (ex_envelopes ! n)),
     row_tombstoned = (status (run (ex_envelopes ! n)) = Status_Tombstoned),
     row_envelope = replicate n CHR ''x''\<rparr>"

definition ex_db :: "nat \<Rightarrow> run_db" where
  "ex_db n = \<lparr>db_runs = fmupd ''run1'' (ex_row n) fmempty, db_iterations = fmempty\<rparr>"

lemma ex_codec_roundtrip: "codec_roundtrip ex_codec"
  by (auto simp: codec_roundtrip_def ex_codec_def Let_def split: if_splits)

lemma ex_envelopes_good: "list_all (\<lambda>e. envelope_good ex_env e) ex_envelopes"
  by (simp only: ex_envelopes_def list.pred_inject ex_e0_good ex_e1_good ex_e2_good ex_e3_good
      ex_e4_good ex_e5_good ex_e6_good ex_e7_good ex_e8_good ex_e9_good ex_e10_good simp_thms)

lemma ex_envelopes_revisions:
  "map (\<lambda>e. (run_id (run e), unat (revision (run e)))) ex_envelopes =
     map (\<lambda>n. (''run1'', Suc n)) [0..<11]"
  by (simp add: ex_envelopes_def ex_states ex_state upt_rec)

lemma ex_envelopes_nth:
  assumes "n < 11"
  shows "envelope_good ex_env (ex_envelopes ! n) \<and> run_id (run (ex_envelopes ! n)) = ''run1'' \<and>
     unat (revision (run (ex_envelopes ! n))) = Suc n"
proof -
  have len: "length ex_envelopes = 11" by (simp add: ex_envelopes_def)
  then have "envelope_good ex_env (ex_envelopes ! n)"
    using ex_envelopes_good assms by (simp add: list_all_length)
  then show ?thesis
    using arg_cong [where f = "\<lambda>xs. xs ! n", OF ex_envelopes_revisions] assms len by simp
qed

lemma ex_decode:
  "n < 11 \<Longrightarrow> decode_envelope ex_env ex_codec (replicate n CHR ''x'') = Inr (ex_envelopes ! n)"
  using ex_envelopes_nth [of n]
  by (simp add: decode_envelope_def from_json_slice_def ex_codec_def schema_bounds)

lemma ex_encode: "n < 11 \<Longrightarrow> enc_envelope ex_codec (ex_envelopes ! n) = Inr (replicate n CHR ''x'')"
  using ex_envelopes_nth [of n] by (simp add: ex_codec_def Let_def)

lemma ex_db_ok: "local_ok ex_env ex_codec ex_empty" "n < 11 \<Longrightarrow> local_ok ex_env ex_codec (ex_db n)"
  using ex_decode [of n] ex_envelopes_nth [of n]
  by (auto simp: local_ok_def ex_codec_roundtrip ex_empty_def ex_db_def row_holds_def ex_row_def)

lemma ex_db_content:
  "local_content ex_env ex_codec ex_empty = Map.empty"
  "n < 11 \<Longrightarrow> local_content ex_env ex_codec (ex_db n) = [''run1'' \<mapsto> ex_envelopes ! n]"
  using ex_decode [of n]
  by (auto simp: local_content_def ex_empty_def ex_db_def ex_row_def fun_eq_iff)

lemma ex_nth: "ex_envelopes ! 0 = ex_e0" "ex_envelopes ! 1 = ex_e1" "ex_envelopes ! 9 = ex_e9"
  "ex_envelopes ! 10 = ex_e10" "ex_envelopes ! 3 = ex_e3" "ex_envelopes ! 4 = ex_e4"
  by (simp_all add: ex_envelopes_def)

section \<open>Commits\<close>

definition ex_commit0 :: store_commit where
  "ex_commit0 = \<lparr>sc_run_id = ''run1'', sc_expected_revision = None, sc_next = ex_e0,
     sc_finished_iteration = None\<rparr>"

lemma ex_revisions: "revision (run ex_e0) = 1" "revision (run ex_e1) = 2" "run_id (run ex_e0) = ''run1''"
  "run_id (run ex_e1) = ''run1''" "status (run ex_e0) = Status_Active" "status (run ex_e1) = Status_Active"
  by (simp_all add: ex_states ex_state)

lemma ex_committed0: "local_commit ex_env ex_codec ex_faults ex_empty ex_commit0 = (ex_db 0, Inr Store_Applied)"
  using ex_encode [of 0] ex_e0_good
  by (simp add: local_commit_def local_prepare_def validate_and_encode_def ex_commit0_def ex_revisions
      ex_nth lock_def sql_def ex_faults_def current_row_verdict_def ex_empty_def result_simps
      apply_rows_def ex_db_def ex_row_def schema_bounds is_terminal_def
      del: One_nat_def)

lemma ex_revision_successor:
  "n < 10 \<Longrightarrow> checked_add (revision (run (ex_envelopes ! n))) 1 =
     Some (revision (run (ex_envelopes ! Suc n)))"
  using ex_envelopes_nth [of n] ex_envelopes_nth [of "Suc n"] by (simp add: checked_succ)

lemma ex_not_tombstoned: "n < 10 \<Longrightarrow> status (run (ex_envelopes ! n)) \<noteq> Status_Tombstoned"
proof -
  have "list_all (\<lambda>e. status (run e) \<noteq> Status_Tombstoned) (take 10 ex_envelopes)"
    by (simp add: ex_envelopes_def ex_states ex_state)
  moreover have "length ex_envelopes = 11" by (simp add: ex_envelopes_def)
  moreover assume "n < 10"
  ultimately show ?thesis by (simp add: list_all_length)
qed

lemma ex_committed:
  assumes n: "n < 10"
  shows "local_commit ex_env ex_codec ex_faults (ex_db n)
    \<lparr>sc_run_id = ''run1'', sc_expected_revision = Some (revision (run (ex_envelopes ! n))),
     sc_next = ex_envelopes ! Suc n, sc_finished_iteration = None\<rparr> = (ex_db (Suc n), Inr Store_Applied)"
  using n ex_encode [of "Suc n"] ex_envelopes_nth [of "Suc n"] ex_revision_successor ex_not_tombstoned
  by (simp add: local_commit_def local_prepare_def validate_and_encode_def lock_def sql_def
      ex_faults_def current_row_verdict_def result_simps apply_rows_def ex_db_def ex_row_def
      schema_bounds del: replicate_Suc)

section \<open>The system\<close>

definition ex_ctl_empty :: "run_db run_controller" where
  "ex_ctl_empty = \<lparr>ctl_store = ex_empty, ctl_runs = fmempty, ctl_authority_fenced = {||},
     ctl_reload_required = {||}\<rparr>"

definition ex_ctl :: "nat \<Rightarrow> run_db run_controller" where
  "ex_ctl n = \<lparr>ctl_store = ex_db n, ctl_runs = fmupd ''run1'' (ex_envelopes ! n) fmempty,
     ctl_authority_fenced = {||}, ctl_reload_required = {||}\<rparr>"

definition ex_accept :: "accept_message_input mutation_request" where
  "ex_accept = \<lparr>mr_run_id = ''run1'', mr_expected_revision = 1, mr_command_id = ''c1'',
     mr_input = ex_message\<rparr>"

lemma ex_open: "controller_open ex_env (ex_ops ex_faults) ex_empty = Inr ex_ctl_empty"
  by (simp add: controller_open_def local_store_ops_def local_list_def lock_def sql_def ex_faults_def
      ex_empty_def ex_ctl_empty_def)

lemma ex_initial: "initial_envelope ex_request ''run1'' (command_receipt_for ''c0'' ex_digest 1 1) 10 = ex_e0"
  by (simp add: initial_envelope_def ex_envelope_def ex_r0_def ex_journal_def internal_event_kind_def
      ex_receipt_def)

lemma ex_validate_create: "validate_create ex_ctl_empty ex_request = Inr ()"
  by (simp add: validate_create_def ex_ctl_empty_def ex_eval)

lemma ex_created_run:
  "create_run ex_env (ex_ops ex_faults) ex_ctl_empty ex_request ''u'' 10 = (ex_ctl 0,
     Inr \<lparr>res_receipt = command_receipt_for ''c0'' ex_digest 1 1, res_snapshot = ex_e0,
       res_duplicate = False\<rparr>)"
proof -
  have q: "cq_command_id ex_request = ''c0''" "cq_run_id ex_request = Some ''run1''"
    "ctl_runs ex_ctl_empty = fmempty"
    by (simp_all add: ex_request_def ex_ctl_empty_def)
  have "commit ex_env (ex_ops ex_faults) ex_ctl_empty None ex_e0 None = (ex_ctl 0, Inr ex_e0)"
    using ex_committed0 ex_e0_good
    by (simp add: commit_def ex_revisions local_store_ops_def ex_commit0_def ex_ctl_empty_def
        ex_ctl_def ex_nth del: One_nat_def)
  then show ?thesis
    using ex_e0_good
    by (simp add: create_run_def ex_canonical q ex_validate_create ex_initial unwrap_or_def Let_def
        ex_ctl_def ex_nth del: One_nat_def)
qed

lemma ex_prepare_command:
  assumes red: "reduce r = Inr r1" and st: "run_step ex_env r r1"
    and r': "r' = ex_stamp v (fmupd cid (ex_receipt cid v) (command_receipts r)) r1"
    and ok: "status r \<noteq> Status_Tombstoned" "fmlookup (command_receipts r) cid = None"
      "btree_len (command_receipts r) < MAX_COMMAND_RECEIPTS" "controller_epoch r1 = 1"
    and adv: "revision r + 1 = v" "event_cursor r = revision r" "revision r < 100" "n < 11"
    "ex_journal ! n = \<lparr>ev_cursor = v, ev_revision = v, ev_kind = kind, ev_at_ms = 9 + v\<rparr>"
    and q: "mr_run_id q = ''run1''" "mr_expected_revision q = revision r" "mr_command_id q = cid"
    and c: "fmlookup (ctl_runs c) ''run1'' = Some (ex_envelope r n)" "''run1'' |\<notin>| ctl_authority_fenced c"
  shows "prepare_command ex_env c q input name kind (9 + v) False reduce =
    Inr (Inr (ex_envelope r n, ex_receipt cid v, ex_envelope r' (Suc n)))"
proof -
  have "command_receipts r1 = command_receipts r" using st by (auto dest!: run_step_receipts)
  then show ?thesis
    using red ok q c ex_advance [OF adv, of r1]
    by (simp add: prepare_command_def ex_canonical ensure_authority_def ex_receipt_def Let_def
        record_receipt_def command_receipt_for_def r' ex_stamp_def)
      (simp add: ex_envelope_def Let_def record_receipt_def command_receipt_for_def)
qed

lemma ex_commit:
  assumes "n < 10"
  shows "commit ex_env (ex_ops ex_faults) (ex_ctl n) (Some (revision (run (ex_envelopes ! n))))
    (ex_envelopes ! Suc n) None = (ex_ctl (Suc n), Inr (ex_envelopes ! Suc n))"
  using ex_committed [OF assms] ex_envelopes_nth [of "Suc n"] assms
  by (simp add: commit_def local_store_ops_def ex_ctl_def)

lemma ex_accept_prepared:
  "prepare_command ex_env (ex_ctl 0) ex_accept (In_AcceptMessage ex_message) ''accept_message''
     ''message_accepted'' 11 False (accept_message_reduce ex_message) =
     Inr (Inr (ex_e0, ex_receipt ''c1'' 2, ex_e1))"
proof -
  have red: "accept_message_reduce ex_message ex_r0 = Inr (ex_r0\<lparr>next_message_sequence := 2,
      mailbox := fmupd ''m1'' (accepted_message ex_message 1) fmempty\<rparr>)"
    by (simp add: accept_message_reduce_def ex_eval is_terminal_def)
  from ex_prepare_command [where reduce = "accept_message_reduce ex_message" and q = ex_accept
      and r' = ex_r1 and v = 2 and c = "ex_ctl 0" and n = 1 and kind = "''message_accepted''",
      OF red run_step.accept_message [OF red]]
  show ?thesis by (simp add: ex_accept_def ex_ctl_def ex_nth ex_eval)
qed

lemma ex_accepted:
  "accept_message ex_env (ex_ops ex_faults) (ex_ctl 0) ex_accept 11 = (ex_ctl 1,
     Inr \<lparr>res_receipt = ex_receipt ''c1'' 2, res_snapshot = ex_e1, res_duplicate = False\<rparr>)"
  using ex_accept_prepared ex_commit [of 0] ex_nth
  by (simp add: accept_message_def apply_command_def ex_accept_def)

text \<open>The same command on a store that runs out of space while it writes the row.\<close>

definition ex_full :: sql_faults where
  "ex_full = ex_faults\<lparr>sf_upsert := Some ''disk full''\<rparr>"

lemma ex_commit_full:
  assumes "n < 10"
  shows "snd (commit ex_env (ex_ops ex_full) (ex_ctl n) (Some (revision (run (ex_envelopes ! n))))
    (ex_envelopes ! Suc n) None) = Inl (Storage ''disk full'')"
  using assms ex_encode [of "Suc n"] ex_envelopes_nth [of "Suc n"] ex_revision_successor ex_not_tombstoned
  by (simp add: commit_def local_store_ops_def ex_ctl_def ex_full_def local_commit_def local_prepare_def
      validate_and_encode_def lock_def sql_def ex_faults_def current_row_verdict_def result_simps ex_db_def
      ex_row_def schema_bounds Let_def del: replicate_Suc)

lemma ex_accept_full:
  "\<exists>c'. accept_message ex_env (ex_ops ex_full) (ex_ctl 0) ex_accept 11 = (c', Inl (Storage ''disk full''))"
  using ex_accept_prepared ex_commit_full [of 0] ex_nth
  by (auto simp: accept_message_def apply_command_def ex_accept_def split: prod.splits)

text \<open>The claim of the example's effect.\<close>

definition ex_claim_request :: "claim_effect_input mutation_request" where
  "ex_claim_request = \<lparr>mr_run_id = ''run1'', mr_expected_revision = 4, mr_command_id = ''c4'',
     mr_input = ex_claim\<rparr>"

definition ex_claim_output :: "committed_effect command_output" where
  "ex_claim_output = \<lparr>co_command = \<lparr>res_receipt = ex_receipt ''c4'' 5, res_snapshot = ex_e4,
       res_duplicate = False\<rparr>,
     co_output = \<lparr>ce_run_id = ''run1'', ce_operation_id = ''op1'', ce_iteration_id = 1, ce_attempt = 1,
       ce_token = ''dispatch_d'', ce_epoch = 1, ce_effect_class = NonRepeatable,
       ce_spec = po_spec ex_prepare, ce_reservation = ex_cost\<rparr>\<rparr>"

lemma ex_claim_made:
  "claim_effect ex_env (ex_ops ex_faults) (ex_ctl 3) ex_claim_request ''d'' 14 =
     (ex_ctl 4, Inr ex_claim_output)"
proof -
  have red: "claim_effect_reduce ex_claim ''c4'' ''dispatch_d'' 14 ex_r3 =
      Inr (ex_r3\<lparr>operations := fmupd ''op1'' ex_claimed fmempty\<rparr>)"
    by (simp add: claim_effect_reduce_def check_claim_fence_def claim_budget_ok_def
        active_operation_reservations_def in_active_iteration_def ex_eval combine_def
        with_reservations_def add_reservation_def resources_within_def)
  have "prepare_command ex_env (ex_ctl 3) ex_claim_request (In_ClaimEffect ex_claim) ''claim_effect''
      ''effect_claimed'' 14 False (claim_effect_reduce ex_claim ''c4'' ''dispatch_d'' 14) =
      Inr (Inr (ex_e3, ex_receipt ''c4'' 5, ex_e4))"
    using ex_prepare_command [where reduce = "claim_effect_reduce ex_claim ''c4'' ''dispatch_d'' 14"
        and q = ex_claim_request and r' = ex_r4 and v = 5 and c = "ex_ctl 3" and n = 4
        and kind = "''effect_claimed''", OF red run_step.claim_effect [OF red]]
    by (simp add: ex_claim_request_def ex_ctl_def ex_nth ex_eval)
  moreover have "fmlookup (operations (run ex_e4)) ''op1'' = Some ex_claimed"
    by (simp add: ex_states)
  ultimately show ?thesis
    using ex_commit [of 3] ex_nth
    by (simp add: claim_effect_def apply_command_def ex_claim_request_def with_output_def
        committed_effect_of_def dispatch_token_random_def ex_claim_output_def)
      (simp add: ex_data)
qed

definition ex_y0 :: "run_db run_system" where
  "ex_y0 = \<lparr>sys_store = ex_empty, sys_ctls = []\<rparr>"

definition ex_y1 :: "run_db run_system" where
  "ex_y1 = \<lparr>sys_store = ex_empty, sys_ctls = [ex_ctl_empty]\<rparr>"

definition ex_y2 :: "run_db run_system" where
  "ex_y2 = \<lparr>sys_store = ex_db 0, sys_ctls = [ex_ctl 0]\<rparr>"

definition ex_y3 :: "run_db run_system" where
  "ex_y3 = \<lparr>sys_store = ex_db 1, sys_ctls = [ex_ctl 1]\<rparr>"

lemma ex_sys_steps: "sys_step ex_env ex_ops ex_y0 ex_y1" "sys_step ex_env ex_ops ex_y1 ex_y2"
  "sys_step ex_env ex_ops ex_y2 ex_y3"
proof -
  have stores: "ex_ctl_empty\<lparr>ctl_store := ex_empty\<rparr> = ex_ctl_empty"
    "\<And>n. (ex_ctl n)\<lparr>ctl_store := ex_db n\<rparr> = ex_ctl n" "\<And>n. ctl_store (ex_ctl n) = ex_db n"
    by (simp_all add: ex_ctl_empty_def ex_ctl_def)
  show "sys_step ex_env ex_ops ex_y0 ex_y1"
    using sys_step.join [of ex_env ex_ops ex_faults ex_y0] ex_open
    by (simp add: ex_y0_def ex_y1_def)
  show "sys_step ex_env ex_ops ex_y1 ex_y2"
    using sys_step.operate [of 0 ex_y1 ex_env ex_ops ex_faults "ex_ctl 0"]
      controller_op.create_run [OF ex_created_run] stores by (simp add: ex_y1_def ex_y2_def)
  show "sys_step ex_env ex_ops ex_y2 ex_y3"
    using sys_step.operate [of 0 ex_y2 ex_env ex_ops ex_faults "ex_ctl 1"]
      controller_op.accept_message [OF ex_accepted] stores by (simp add: ex_y2_def ex_y3_def)
qed

lemma ex_sys_start: "sys_start ex_env (local_content ex_env ex_codec) (local_ok ex_env ex_codec) ex_y0"
  by (simp add: sys_start_def ex_y0_def ex_db_ok ex_db_content)

lemma ex_sys_reach: "(sys_step ex_env ex_ops)\<^sup>*\<^sup>* ex_y0 ex_y3" "(sys_step ex_env ex_ops)\<^sup>*\<^sup>* ex_y2 ex_y3"
  using ex_sys_steps by (meson r_into_rtranclp rtranclp_trans)+

lemma ex_sys_inv: "sys_inv ex_env (local_content ex_env ex_codec) (local_ok ex_env ex_codec) ex_y2"
  "sys_inv ex_env (local_content ex_env ex_codec) (local_ok ex_env ex_codec) ex_y3"
proof -
  have "(sys_step ex_env ex_ops)\<^sup>*\<^sup>* ex_y0 ex_y2" using ex_sys_steps by (meson r_into_rtranclp rtranclp_trans)
  from local_system.sys_reach_durable [OF ex_sys_start this]
  show "sys_inv ex_env (local_content ex_env ex_codec) (local_ok ex_env ex_codec) ex_y2" by blast
  from local_system.sys_reach_durable [OF ex_sys_start ex_sys_reach(1)]
  show "sys_inv ex_env (local_content ex_env ex_codec) (local_ok ex_env ex_codec) ex_y3" by blast
qed

end
