(* ===== verification/Spec2Isabelle.thy ===== *)
theory Spec2Isabelle
  imports Breaker_Properties Perm_Properties Shell_Properties Perm_Safe Perm_Restart Perm_Handle Perm_Prompt Run_System_Examples
begin

text \<open>
  A verification development for the parts of the repository that decide what an agent may do
  and what survives a failure: the durable Run subsystem
  (\<open>src/crates/codegen/xai-agent-lifecycle/src/run/\<close>), which persists autonomous Runs, decides
  which mutation of a Run is legal, and lets several processes work on the same Runs without
  losing an acknowledged mutation or executing an effect twice; the permission subsystem
  (\<open>src/crates/codegen/xai-grok-workspace/src/permission/\<close>), which decides whether a tool call
  runs, is refused or needs a question, asks it and remembers the answer; and the circuit breaker
  (\<open>src/crates/common/xai-circuit-breaker/\<close>), which sheds requests to a failing service.

  \<^bold>\<open>Durable Runs.\<close> A \<open>RunRecord\<close> (\<open>model.rs\<close>) is the durable state of one Run: its goal,
  status and stage, budget and usage, the running iteration, the outbox of effects
  (\<open>operations\<close>), child Runs, mailbox, strategy, workflow and Harness revisions, and the
  receipts of every command applied to it. A \<open>RunEnvelope\<close> adds a schema version and a
  bounded event journal. \<open>RunStore\<close> (\<open>store.rs\<close>) persists envelopes with compare-and-swap on
  the revision; \<open>LocalRunStore\<close> implements it on SQLite. \<open>RunController\<close> (\<open>controller.rs\<close>)
  caches envelopes, checks every command against the cache, computes the next envelope with
  a reducer and commits it; a commit that conflicts or whose outcome is unknown fences the
  controller off the Run until it is reloaded and recovered.

  \<^bold>\<open>Permissions.\<close> A rule (\<open>rules.rs\<close>) allows, denies or asks about the accesses of a tool that
  match a pattern. \<open>CompiledPolicy\<close> (\<open>policy.rs\<close>) evaluates one access under all rules; for shell
  commands it looks into the script: \<open>bash_command_splitting.rs\<close> walks its syntax tree into
  commands and removes wrappers and transparent prefixes from each, and scripts handed to a shell
  are looked into again, eight levels deep. Allow needs every command covered; the command gate
  applies deny and ask rules to every command, the file gate (\<open>shell_access.rs\<close>) applies file
  rules to every file the script is seen to read or write. The manager (\<open>manager/mod.rs\<close>) is an
  actor: for each request it combines the policy and the gates (\<open>gate_preflight.rs\<close>) with the
  session's modes, the remembered answers (\<open>state.rs\<close>), what it knows of safe and dangerous
  commands and of execution risk (\<open>exec_risk.rs\<close>), the classifier of auto mode
  (\<open>auto_mode/\<close>), the sandbox and finally the user (\<open>prompter.rs\<close>); it stores what the user asked
  to be remembered and emits one event per decision. Sessions talk to it through handles.

  \<^bold>\<open>Circuit breaker.\<close> \<open>CircuitBreaker\<close> (\<open>breaker.rs\<close>) is a set of atomic cells and one mutex
  around the sliding window (\<open>window.rs\<close>): \<open>check\<close> admits or refuses a request, \<open>record\<close> feeds
  back its outcome, and any number of threads call both.

  \<^bold>\<open>The theories of the Run subsystem\<close>, bottom up:
    \<^item> \<open>Prelude\<close>: results (\<open>error + value\<close>), checked word arithmetic, ordered maps over
      \<open>fmap\<close>, bounded queues, ASCII text.
    \<^item> \<open>Run_Base\<close>, \<open>Run_Resources\<close>, \<open>Run_Types\<close>: bounds, identifiers, \<open>RunError\<close>, resource
      vectors, the structs and enums of \<open>model.rs\<close> as records and datatypes.
    \<^item> \<open>Run_Digest\<close>, \<open>Run_Validate\<close>, \<open>Run_Envelope\<close>: canonical JSON and digests, receipts and
      settlement identities, every \<open>validate\<close> method, \<open>RunEnvelope::validate\<close>, the wire names,
      the legacy import.
    \<^item> \<open>Run_Store\<close>: \<open>StoreCommit\<close>, the locale \<open>run_store\<close> (what \<open>RunStore\<close> promises) and
      \<open>LocalRunStore\<close>, its interpretation \<open>local_runs\<close>.
    \<^item> \<open>Run_Reducers\<close>, \<open>Run_Callbacks\<close>: the free functions of \<open>controller.rs\<close> and the body of
      every closure and callback, as functions \<open>run_record \<Rightarrow> run_record result\<close>.
    \<^item> \<open>Run_Controller\<close>, \<open>Run_Commands\<close>: the controller state, the commit path and every public
      operation; the model's operation \<open>f\<close> is the method \<open>RunController::f\<close>, its reducer \<open>f_reduce\<close>
      (or \<open>f_step\<close> for a callback) the closure inside it.
    \<^item> \<open>Run_Transitions\<close>: the step relation \<open>run_step\<close> (one rule per reducer) and what each
      reducer leaves alone.
    \<^item> \<open>Run_Invariants\<close> and \<open>Run_Inv_Effects\<close>, \<open>Run_Inv_Lifecycle\<close>, \<open>Run_Inv_Progress\<close>,
      \<open>Run_Inv_Content\<close>: committed steps \<open>env_step\<close>, reachable envelopes, the locale
      \<open>run_invariant\<close> (what is preserved by every reducer holds of every reachable envelope) and
      its interpretations: budget, child reservations, outbox, lifecycle, iterations, messages,
      revisions, pinned context. \<open>Run_Inv_Progress\<close> also shows that the journal holds exactly the
      latest events.
    \<^item> \<open>Run_System\<close>: any number of controllers over one store. \<open>sys_step\<close> schedules one public
      operation of one controller with an arbitrary fault pattern, or opens a controller;
      \<open>machine_step\<close> is the specification. The locale \<open>run_stores\<close> proves the refinement for
      every store that satisfies \<open>run_store\<close>; \<open>local_system\<close> is its interpretation.
    \<^item> \<open>Run_Contract\<close>: what callers rely on: idempotent commands, durability, fencing, recovery,
      replay of events.
    \<^item> \<open>Run_Examples\<close>, \<open>Run_System_Examples\<close>: one concrete Run from creation to tombstone and a
      system over a concrete database; they instantiate the hypotheses of the theorems.

  \<^bold>\<open>The theories of the permission policy:\<close>
    \<^item> \<open>Perm_Text\<close>: the string operations of the standard library, on bytes.
    \<^item> \<open>Perm_Words\<close>: argument vectors; every peeling function keeps the source's name, a loop over an
      index is recursion over the words left, and what one word does to a loop is a function of
      its own (\<open>env_word\<close>, \<open>exec_word\<close>, \<open>shell_option\<close>).
    \<^item> \<open>Perm_Paths\<close>: Unix paths, \<open>normalize_lexically\<close>, \<open>path_match_forms\<close>, and the reference
      resolution (a stack of names) they agree with.
    \<^item> \<open>Shell_Tree\<close>: syntax trees of scripts, the walk into plain commands, the primary command.
    \<^item> \<open>Perm_Policy\<close>: rules, \<open>CompiledPolicy\<close>, \<open>evaluate\<close>, the conjunctive allow and the gate.
    \<^item> \<open>Perm_Rules\<close>: the parser of rule strings and its inverse.
    \<^item> \<open>Perm_Gate\<close>: which rules match decides; \<open>seen_running\<close> and \<open>inner_command\<close> say which
      commands a script is seen to run; \<open>Perm_Properties\<close> holds the properties.
    \<^item> \<open>Shell_Args\<close>, \<open>Shell_Files\<close>: arguments, redirects and operands of the commands of a tree, and
      the check of every file they name, through symbolic links; \<open>Shell_Gate\<close>: the gate's decision
      is at least that on every file seen; \<open>Shell_Properties\<close> holds the property.

  \<^bold>\<open>The theories of the permission manager:\<close>
    \<^item> \<open>Perm_Exec\<close>, \<open>Perm_Safe\<close>: execution risk of git and sort commands, safe and dangerous
      commands, environment risk, the scope of remembered commands.
    \<^item> \<open>Perm_State\<close>: remembered answers and their store.
    \<^item> \<open>Perm_Findings\<close>: findings, the preflight of policy and gates, reasons, verdicts and
      classifications, the fast path of auto mode, outcomes of a prompt.
    \<^item> \<open>Perm_Evaluate\<close>: the evaluation of a shell command against the remembered answers, the
      remembered answers for MCP tools and domains, what an accepted row stores.
    \<^item> \<open>Perm_Manager\<close>: the actor. \<open>handle_request\<close> is the arm of \<open>Request\<close>: each early return of the
      source is a stage with the same guards, in the same order (\<open>decide_before_auto\<close>,
      \<open>auto_stage\<close>, \<open>decide_after_auto\<close>, \<open>prompt_stage\<close>); \<open>manager_step\<close> is one command,
      \<open>manager_run\<close> any number of them after \<open>spawn_manager\<close>.
    \<^item> \<open>Perm_Decisions\<close>, \<open>Perm_Grants\<close>: the ends of a request and what each implies;
      monotonicity of the evaluation in the grants.
    \<^item> \<open>Perm_Runs\<close>: what a request changes; the locale \<open>manager_invariant\<close> (what every command keeps
      holds in every run), interpreted for modes and counters (\<open>mode_runs\<close>) and for the store
      (\<open>held_runs\<close>).
    \<^item> \<open>Perm_Consent\<close>, \<open>Perm_Silent\<close>, \<open>Perm_Memory\<close>, \<open>Perm_Restart\<close>: the properties of single
      requests, of silent decisions, of answers, and of runs and restarts. \<open>Perm_Restart\<close> states
      what the manager expects of the store as the locale \<open>answer_store\<close> and interprets it for
      the store of \<open>state.rs\<close>.
    \<^item> \<open>Perm_Handle\<close>: the handles of the sessions, their mode changes interleaved with the actor.
    \<^item> \<open>Perm_Prompt\<close>: the rows a prompt offers and what each answer means.
    \<^item> \<open>Perm_Examples\<close>: a parser, a policy and a file system for the examples.

  \<^bold>\<open>The theories of the circuit breaker:\<close>
    \<^item> \<open>Breaker_Window\<close>: the window, with the rate as the correctly rounded binary quotient.
    \<^item> \<open>Breaker\<close>: cells and operations, one uninterrupted call at a time; registry, retry policies.
    \<^item> \<open>Breaker_Spec\<close>: the specification as three phases, the invariant of the cells, the locale
      \<open>timed_simulation\<close> (calls that correspond give schedules that correspond) and its
      interpretation \<open>breaker_sim\<close>.
    \<^item> \<open>Breaker_Threads\<close>: the same operations per atomic access and their interleaving;
      \<open>Breaker_Schedules\<close>: how many steps a call has left, schedules without the clock, and the
      schedule in which checks overtake a trip; \<open>Breaker_Properties\<close> holds the properties.

  \<^bold>\<open>The properties\<close> carry the identifiers C1 to C40 in the order of their importance; those of
  the Run subsystem follow in this theory, the others stand in the theories of their components.

  \<^bold>\<open>Modelling choices.\<close> Machine integers are words (\<open>u32\<close>, \<open>u64\<close>); \<open>checked_add\<close> and
  \<open>checked_sub\<close> return \<open>None\<close> on wrap-around as in Rust. \<open>String\<close> is a list of bytes. \<open>BTreeMap\<close> is
  \<open>fmap\<close>, iterated in key order; \<open>BTreeSet\<close> is \<open>fset\<close>; \<open>VecDeque\<close> and \<open>Vec\<close> are lists. Errors are
  values of \<open>run_error\<close>. There is no fuel: every loop of the code runs over a finite collection or
  is bounded by a constant of the source (eight wrappers, eight prefixes, eight nested scripts,
  sixteen rounds), and every function here is total. Parameters: \<open>run_env\<close> (serde serialisation and SHA-256),
  \<open>store_codec\<close> (JSON encoding of envelopes, assumed to decode what it encoded where the local store
  is interpreted), \<open>sql_faults\<close> (which SQL statement fails, and whether a failed COMMIT took
  effect), the clock and the random part of tokens, which are arguments; \<open>policy_env\<close> (the
  tree-sitter grammar, the glob engine, URL parsing, Unicode lower case), \<open>fs_env\<close> (canonical
  paths and symbolic links), \<open>store_env\<close> (the TOML codec, assumed to read back what it printed
  where answers are restored, and failing writes; what the state takes from the marker of a file
  is modelled), \<open>manager_env\<close> (the libgit2 scan, the JSON text
  of arguments), \<open>request_env\<close> (when a requester goes away, what the classifier and the user
  answer, whether the sandbox is on) and \<open>prompt_env\<close> (decoding of a client's metadata).
  Instants and durations are nanoseconds; atomic accesses of the breaker take effect in one order
  for all threads.

  \<^bold>\<open>Not modelled.\<close> \<open>LocalRunStore::new\<close> and file permissions, \<open>artifact.rs\<close> (file I/O),
  \<open>providers.rs\<close> (host traits), \<open>conformance.rs\<close> (a test kit), \<open>Display\<close> texts, the serde derives;
  the environment variables of the breaker; of the permission subsystem the model query, its
  prompt text and the heuristic of the auto-mode classifier (\<open>auto_mode/mod.rs\<close>: any classifier
  is allowed for), reading git configuration through libgit2, the directory of the store and the
  clean-up of old files, the settings files (\<open>claude_settings.rs\<close>, \<open>resolution.rs\<close>), the hub
  transport of prompts and the metadata of their rows, wait times and in-flight counts;
  and the other crates of the repository, which present, transport or execute what Runs decide.
  A Run imported from a legacy goal enters with whatever usage it recorded, so the budget property
  \<open>budget_safe\<close> speaks of Runs that \<open>create_run\<close> made.
\<close>

section \<open>Durable Runs\<close>

text \<open>A Run is durable when some reachable system of controllers over a local store, with
  whatever faults its SQL statements met, holds it in its database.\<close>

definition durable_run :: "run_env \<Rightarrow> store_codec \<Rightarrow> run_id \<Rightarrow> run_envelope \<Rightarrow> bool" where
  "durable_run env codec rid e \<longleftrightarrow>
     (\<exists>y0 y. sys_start env (local_content env codec) (local_ok env codec) y0 \<and>
        (sys_step env (local_store_ops env codec))\<^sup>*\<^sup>* y0 y \<and>
        local_content env codec (sys_store y) rid = Some e)"

lemma durable_reach: "durable_run env codec rid e \<Longrightarrow> env_reach env e"
  using local_system.sys_reach_durable unfolding durable_run_def by blast

lemma ex_durable: "n < 11 \<Longrightarrow> durable_run ex_env ex_codec ''run1'' (ex_envelopes ! n)"
proof -
  assume n: "n < 11"
  have "list_all (env_reach ex_env) ex_envelopes"
    by (simp only: ex_envelopes_def list.pred_inject ex_reach simp_thms)
  then have "env_reach ex_env (ex_envelopes ! n)"
    using n by (simp add: list_all_length ex_envelopes_def)
  with n have "sys_start ex_env (local_content ex_env ex_codec) (local_ok ex_env ex_codec)
      \<lparr>sys_store = ex_db n, sys_ctls = []\<rparr>"
    by (simp add: sys_start_def ex_db_ok ex_db_content)
  then show ?thesis
    unfolding durable_run_def using n ex_db_content(2) [of n]
    by (intro exI [of _ "\<lparr>sys_store = ex_db n, sys_ctls = []\<rparr>"]) auto
qed

lemma ex_durable_nth: "durable_run ex_env ex_codec ''run1'' ex_e4"
  "durable_run ex_env ex_codec ''run1'' ex_e9"
proof -
  show "durable_run ex_env ex_codec ''run1'' ex_e4"
    using ex_durable [of 4] unfolding ex_nth by simp
  show "durable_run ex_env ex_codec ''run1'' ex_e9"
    using ex_durable [of 9] unfolding ex_nth by simp
qed

lemma ex_operations:
  "fmlookup (operations (run ex_e4)) ''op1'' = Some ex_claimed"
  "fmlookup (operations (run ex_e5)) ''op1'' = Some ex_settled"
  "op_effect_class ex_claimed = NonRepeatable" "op_next_attempt ex_claimed = 2"
  "op_state ex_settled = Op_Acknowledged" "cl_operation_id ex_claim = ''op1''"
  by (simp_all add: ex_states ex_data)

section \<open>Properties of the system\<close>

text \<open>C1: refinement. One step of any system of controllers over the local store, whatever
  operation of whatever controller it schedules and whatever SQL statement fails, leaves
  the durable Runs as they are or changes them by one step of the abstract Run machine
  (a Run is created, or one mutation is applied to one durable Run); every cache stays a
  past of what is durable.\<close>

theorem system_refines:
  assumes "sys_inv env (local_content env codec) (local_ok env codec) y"
    and "sys_step env (local_store_ops env codec) y y'"
  shows "sys_inv env (local_content env codec) (local_ok env codec) y' \<and>
    (local_content env codec (sys_store y') = local_content env codec (sys_store y) \<or>
     machine_step env (local_content env codec (sys_store y)) (local_content env codec (sys_store y')))"
  using assms by (rule local_system.sys_step_refines)

theorem system_refines_witness:
  "local_content ex_env ex_codec (sys_store ex_y3) = local_content ex_env ex_codec (sys_store ex_y2) \<or>
   machine_step ex_env (local_content ex_env ex_codec (sys_store ex_y2))
     (local_content ex_env ex_codec (sys_store ex_y3))"
  using system_refines [OF ex_sys_inv(1) ex_sys_steps(3)] by blast

text \<open>C3: safety. Settled usage together with the reservations of the children that still
  run never exceeds the budget of a durable Run, in any dimension, and the sum does not
  overflow.\<close>

theorem budget_safe:
  assumes "durable_run env codec rid e"
  shows "\<exists>committed. with_reservations (usage (run e)) (child_reserved (run e)) = Some committed \<and>
    resources_within committed (budget (run e))"
  using budget_inv.reach [OF durable_reach [OF assms]]
  by (auto simp: within_budget_def split: option.splits)

theorem budget_safe_witness:
  "\<exists>committed. with_reservations (usage (run ex_e9)) (child_reserved (run ex_e9)) = Some committed \<and>
     resources_within committed (budget (run ex_e9))"
  by (rule budget_safe [OF ex_durable_nth(2)])

text \<open>C9: invariant. The reserved vector of a durable Run is, dimension by dimension, the
  sum of the reservations of the children that have not settled: no reservation is lost
  and none is released twice.\<close>

theorem reservations_exact:
  assumes "durable_run env codec rid e"
  shows "rv (child_reserved (run e)) d =
      (\<Sum>k \<in> fset (fmdom (children (run e))). owed (the (fmlookup (children (run e)) k)) d)"
  using children_inv.reach [OF durable_reach [OF assms]]
  by (simp add: children_accounted_def total_owed_def)

theorem reservations_exact_witness:
  "rv (child_reserved (run ex_e4)) Dim_Tokens =
     (\<Sum>k \<in> fset (fmdom (children (run ex_e4))). owed (the (fmlookup (children (run ex_e4)) k)) Dim_Tokens)"
  by (rule reservations_exact [OF ex_durable_nth(1)])

text \<open>C6: safety. A durable Run is complete only when nothing of it is unsettled: no
  iteration runs, the last one ended with the driver's success and the verifier's verdict,
  every required gate passed, all required evidence is bound to its workspace revision,
  every effect is settled and every child satisfies its completion policy.\<close>

theorem completion_contract:
  assumes "durable_run env codec rid e" and "status (run e) = Status_Complete"
  shows "active_iteration (run e) = None \<and> run_iterations (run e) \<noteq> [] \<and>
    it_driver_terminal_success (last (run_iterations (run e))) \<and>
    it_verdict (last (run_iterations (run e))) = Some Achieved \<and>
    (\<forall>gate. gate |\<in>| required_gates (run e) \<longrightarrow>
       fmlookup (it_gates (last (run_iterations (run e)))) gate = Some True) \<and>
    list_all (evidence_satisfied (last (run_iterations (run e)))) (required_evidence (goal (run e))) \<and>
    \<not> has_unsettled_operations (run e) \<and>
    \<not> list_ex child_blocks_completion (btree_values (children (run e)))"
proof -
  have "completed_ok (run e)"
    using lifecycle_inv.reach [OF durable_reach [OF assms(1)]] assms(2)
    by (simp add: lifecycle_ok_def)
  then show ?thesis by (simp add: completed_ok_def completion_evidence_def Let_def)
qed

theorem completion_contract_witness:
  "status (run ex_e9) = Status_Complete \<and> active_iteration (run ex_e9) = None \<and>
   \<not> has_unsettled_operations (run ex_e9)"
proof -
  have "status (run ex_e9) = Status_Complete" by (simp add: ex_states)
  with completion_contract [OF ex_durable_nth(2)] show ?thesis by blast
qed

text \<open>C10: safety. A non-repeatable effect that was claimed once is never claimed again, in
  any later state of the Run: every later claim of it is refused.\<close>

theorem nonrepeatable_claimed_once:
  assumes "env_reach env e" and "fmlookup (operations (run e)) k = Some opn"
    and "op_effect_class opn = NonRepeatable" and "op_next_attempt opn \<noteq> 1"
    and "env_later env e e'" and "cl_operation_id input = k"
  shows "claim_effect_reduce input cid token now (run e') \<noteq> Inr r'"
proof
  assume claim: "claim_effect_reduce input cid token now (run e') = Inr r'"
  obtain opn' where opn': "fmlookup (operations (run e')) k = Some opn'" "op_spec_kept opn opn'"
    using operation_kept_later [OF assms(2,5)] by blast
  have c: "outbox_consistent (run e)" using outbox_inv.reach [OF assms(1)] .
  have "outbox_consistent (run e')"
    using later_outbox_consistent [OF c env_reach_good [OF assms(1)] assms(5)] by blast
  then have c': "op_consistent opn'" using opn'(1) by (auto simp: outbox_consistent_def)
  have "op_state opn' \<in> {Op_Prepared, Op_FailedRetryable}"
    using claim assms(6) opn'(1)
    by (auto simp: claim_effect_reduce_def result_simps Let_def split: if_splits)
  then have "op_next_attempt opn' = 1"
    using c' opn'(2) assms(3) by (auto simp: op_consistent_def op_spec_kept_def)
  moreover have "op_next_attempt opn \<le> op_next_attempt opn'" "1 \<le> unat (op_next_attempt opn)"
    using opn'(2) c assms(2) by (auto simp: op_spec_kept_def op_consistent_def outbox_consistent_def)
  ultimately have "unat (op_next_attempt opn) = unat (1 :: u32)" by (simp add: word_le_nat_alt)
  with assms(4) show False by (simp add: word_unat_eq_iff)
qed

theorem nonrepeatable_claimed_once_witness:
  "claim_effect_reduce ex_claim ''c9'' ''dispatch_x'' 30 (run ex_e9) \<noteq> Inr (run ex_e9)"
  by (rule nonrepeatable_claimed_once [OF ex_reach(5) ex_operations(1,3) _ ex_later(2)])
    (simp_all add: ex_operations)

text \<open>C16: safety. The settlement of an effect is final: an operation that was acknowledged,
  reconciled or abandoned is found unchanged, receipt and usage included, in every later
  state of the Run.\<close>

theorem settled_effect_final:
  assumes "env_reach env e" and "fmlookup (operations (run e)) k = Some opn"
    and "op_state opn \<in> {Op_Acknowledged, Op_Reconciled, Op_Abandoned}" and "env_later env e e'"
  shows "fmlookup (operations (run e')) k = Some opn"
  by (rule final_operation_later [OF assms(1,2) _ assms(4)]) (simp only: op_final_def assms(3))

theorem settled_effect_final_witness:
  "fmlookup (operations (run ex_e9)) ''op1'' = Some ex_settled"
  by (rule settled_effect_final [OF ex_reach(6) ex_operations(2) _ ex_later(3)])
    (simp add: ex_operations)

lemma tombstoned_stuck:
  "env_later env e e' \<Longrightarrow> status (run e) = Status_Tombstoned \<Longrightarrow> e' = e"
  by (induction rule: rtranclp_induct) (auto elim: env_step.cases)

text \<open>C19: safety. A tombstone is final: whatever the controllers of the system do
  afterwards, the durable envelope of a tombstoned Run does not change.\<close>

theorem tombstone_final:
  assumes "sys_inv env (local_content env codec) (local_ok env codec) y"
    and "(sys_step env (local_store_ops env codec))\<^sup>*\<^sup>* y y'"
    and "local_content env codec (sys_store y) rid = Some e" and "status (run e) = Status_Tombstoned"
  shows "local_content env codec (sys_store y') rid = Some e"
  using local_system.sys_steps_later [OF assms(1-3)] tombstoned_stuck assms(4) by blast

theorem tombstone_final_witness:
  "local_content ex_env ex_codec (sys_store \<lparr>sys_store = ex_db 10, sys_ctls = []\<rparr>) ''run1'' = Some ex_e10"
  by (rule tombstone_final [of _ _ "\<lparr>sys_store = ex_db 10, sys_ctls = []\<rparr>"])
    (use ex_db_ok(2) [of 10] ex_db_content(2) [of 10] in
      \<open>simp_all add: sys_inv_def ex_nth\<close>, simp add: ex_states)

text \<open>C20: invariant. The durable history of a Run only grows: through any steps of the
  system its identity (Session, goal, driver, capabilities, gates, policy, creation time)
  stays, no command receipt is lost or changed, the budget never shrinks, revision and
  epoch never go back, and the same revision is the same envelope.\<close>

theorem durable_history:
  assumes "sys_inv env (local_content env codec) (local_ok env codec) y"
    and "(sys_step env (local_store_ops env codec))\<^sup>*\<^sup>* y y'"
    and "local_content env codec (sys_store y) rid = Some e"
  shows "\<exists>e'. local_content env codec (sys_store y') rid = Some e' \<and>
    identity (run e') = identity (run e) \<and>
    (\<forall>cid receipt. fmlookup (command_receipts (run e)) cid = Some receipt \<longrightarrow>
       fmlookup (command_receipts (run e')) cid = Some receipt) \<and>
    resources_within (budget (run e)) (budget (run e')) \<and>
    controller_epoch (run e) \<le> controller_epoch (run e') \<and>
    revision (run e) \<le> revision (run e') \<and> (revision (run e) = revision (run e') \<longrightarrow> e' = e)"
proof -
  obtain e' where e': "local_content env codec (sys_store y') rid = Some e'" "env_later env e e'"
    using local_system.sys_steps_later [OF assms] by blast
  show ?thesis
    using e'(1) later_identity [OF e'(2)] later_receipt [OF _ e'(2)] later_budget [OF e'(2)]
      later_epoch [OF e'(2)] later_revision [OF e'(2)] by auto
qed

theorem durable_history_witness:
  "\<exists>e'. local_content ex_env ex_codec (sys_store ex_y3) ''run1'' = Some e' \<and>
     identity (run e') = identity (run ex_e0) \<and> revision (run ex_e0) \<le> revision (run e')"
  using durable_history [OF ex_sys_inv(1) ex_sys_reach(2), of "''run1''" ex_e0]
    ex_db_content(2) [of 0] by (auto simp: ex_y2_def ex_nth)

section \<open>Properties of the store and of the caches\<close>

text \<open>C21: safety. Compare and swap is exclusive: of two commits prepared against the same
  revision of a Run (or both creating it), the later one is never applied, whatever
  commits lie between and whatever statements of them fail.\<close>

theorem compare_and_swap:
  assumes "local_ok env codec db" and "local_commit env codec f db c = (db', Inr Store_Applied)"
    and "sc_run_id d = sc_run_id c" and "sc_expected_revision d = sc_expected_revision c"
  shows "snd (local_commit env codec g (local_commits env codec db' cs) d) \<noteq> Inr Store_Applied"
  using assms by (rule local_swap_exclusive)

theorem compare_and_swap_witness:
  "snd (local_commit ex_env ex_codec ex_faults
     (local_commits ex_env ex_codec (ex_db 0) [(ex_faults, ex_commit0)]) ex_commit0) \<noteq> Inr Store_Applied"
  by (rule compare_and_swap [OF ex_db_ok(1) ex_committed0]) simp_all

text \<open>Every envelope that a controller of a reachable system caches is the
  durable one or a past of it, and it is the durable one when the revisions agree.\<close>

theorem caches_coherent:
  assumes "sys_start env (local_content env codec) (local_ok env codec) y0"
    and "(sys_step env (local_store_ops env codec))\<^sup>*\<^sup>* y0 y"
    and "c \<in> set (sys_ctls y)" and "get_run c rid = Some e"
  shows "\<exists>d. local_content env codec (sys_store y) rid = Some d \<and> run_id (run d) = rid \<and>
    env_later env e d \<and> (revision (run e) = revision (run d) \<longrightarrow> e = d)"
proof -
  have inv: "sys_inv env (local_content env codec) (local_ok env codec) y"
    using local_system.sys_reach_durable [OF assms(1,2)] by blast
  then have "coherent env (local_content env codec (sys_store y)) c"
    using assms(3) by (simp add: sys_inv_def)
  then obtain d where d: "local_content env codec (sys_store y) rid = Some d" "env_later env e d"
    using assms(4) by (auto simp: coherent_def get_run_def)
  moreover have "run_id (run d) = rid"
    using inv d(1) by (auto simp: sys_inv_def intro: local_runs.content_id)
  ultimately show ?thesis using later_revision [OF d(2)] by blast
qed

theorem caches_coherent_witness:
  "\<exists>d. local_content ex_env ex_codec (sys_store ex_y3) ''run1'' = Some d \<and> env_later ex_env ex_e1 d"
proof -
  have "ex_ctl 1 \<in> set (sys_ctls ex_y3)" "get_run (ex_ctl 1) ''run1'' = Some ex_e1"
    by (simp_all add: ex_y3_def get_run_def ex_ctl_def ex_nth del: One_nat_def)
  from caches_coherent [OF ex_sys_start ex_sys_reach(1) this] show ?thesis by blast
qed

section \<open>Commands\<close>

text \<open>A command whose id the Run has a receipt for is answered from the
  receipt, and nothing changes: the stored receipt and the current snapshot when the input
  digest is the recorded one, an integrity error when the id was reused for another input.\<close>

theorem duplicate_command:
  assumes "get_run c (mr_run_id q) = Some old"
    and "fmlookup (command_receipts (run old)) (mr_command_id q) = Some receipt"
    and "canonical_digest env (Dig_Command name input) = Inr digest"
    and "allow \<or> mr_run_id q |\<notin>| ctl_authority_fenced c"
  shows "apply_command env st c q input name kind now allow reduce =
    (c, if cr_input_digest receipt = digest
        then Inr \<lparr>res_receipt = receipt, res_snapshot = old, res_duplicate = True\<rparr>
        else Inl (Integrity ''command id was reused with different input''))"
  using assms by (intro apply_command_known) (simp_all add: get_run_def)

theorem duplicate_command_witness:
  "apply_command ex_env (ex_ops ex_faults) (ex_ctl 1) ex_accept (In_AcceptMessage ex_message)
     ''accept_message'' ''message_accepted'' 99 False (accept_message_reduce ex_message) =
   (ex_ctl 1, Inr \<lparr>res_receipt = ex_receipt ''c1'' 2, res_snapshot = ex_e1, res_duplicate = True\<rparr>)"
proof -
  have "cr_input_digest (ex_receipt ''c1'' 2) = ex_digest"
    by (simp add: ex_receipt_def command_receipt_for_def)
  then show ?thesis
    using duplicate_command [of "ex_ctl 1" ex_accept ex_e1 "ex_receipt ''c1'' 2" ex_env
        "''accept_message''" "In_AcceptMessage ex_message" ex_digest False]
    by (simp add: ex_canonical get_run_def ex_ctl_def ex_nth ex_accept_def ex_states ex_receipts
        del: One_nat_def)
qed

text \<open>A claim of an effect that is retried, at any later time and with any
  fresh randomness, hands out the very effect it handed out before (the same attempt, the
  same dispatch token) and claims nothing more.\<close>

lemma claim_retried:
  assumes "claim_effect env st c q uuid now = (c', Inr out)" and "\<not> res_duplicate (co_command out)"
    and "\<forall>rid e. get_run c rid = Some e \<longrightarrow> run_id (run e) = rid"
  shows "claim_effect env st c' q uuid' now' = (c', Inr \<lparr>
    co_command = \<lparr>res_receipt = res_receipt (co_command out),
      res_snapshot = res_snapshot (co_command out), res_duplicate = True\<rparr>,
    co_output = co_output out\<rparr>)"
  using assms unfolding get_run_def by (rule claim_effect_retried)

text \<open>C22: safety. A command that is acknowledged is durable: the database holds the
  returned snapshot, at the revision after the one the caller named, with the returned
  receipt recorded, and the controller caches it.\<close>

theorem acknowledged_is_durable:
  assumes "local_ok env codec (ctl_store c)"
    and "apply_command env (local_store_ops env codec f) c q input name kind now allow reduce = (c', Inr res)"
    and "\<not> res_duplicate res"
  shows "local_content env codec (ctl_store c') (run_id (run (res_snapshot res))) = Some (res_snapshot res) \<and>
    unat (revision (run (res_snapshot res))) = unat (mr_expected_revision q) + 1 \<and>
    fmlookup (command_receipts (run (res_snapshot res))) (mr_command_id q) = Some (res_receipt res) \<and>
    get_run c' (run_id (run (res_snapshot res))) = Some (res_snapshot res)"
  using apply_command_durable [OF assms] by (simp add: get_run_def)

theorem acknowledged_is_durable_witness:
  "local_content ex_env ex_codec (ctl_store (ex_ctl 1)) (run_id (run ex_e1)) = Some ex_e1"
proof -
  have "local_ok ex_env ex_codec (ctl_store (ex_ctl 0))" by (simp add: ex_ctl_def ex_db_ok)
  from acknowledged_is_durable [OF this ex_accepted [unfolded accept_message_def]] show ?thesis by simp
qed

text \<open>C23: error behaviour. A command that fails, unless it reports that the outcome of its
  commit is unknown, leaves the cached Runs and the durable Runs exactly as they were.\<close>

theorem failed_command_no_effect:
  assumes "local_ok env codec (ctl_store c)"
    and "apply_command env (local_store_ops env codec f) c q input name kind now allow reduce = (c', Inl e)"
    and "\<forall>m. e \<noteq> CommitUnknown m"
  shows "ctl_runs c' = ctl_runs c \<and>
    local_content env codec (ctl_store c') = local_content env codec (ctl_store c)"
  using failed_commit_no_effect [OF assms(1) _ assms(3)] apply_command_refused [OF assms(2)] by blast

text \<open>The example store runs out of space while it writes the row of an accepted message.\<close>

theorem failed_command_no_effect_witness:
  "\<exists>c'. accept_message ex_env (ex_ops ex_full) (ex_ctl 0) ex_accept 11 =
       (c', Inl (Storage ''disk full'')) \<and>
     fmlookup (ctl_runs c') ''run1'' = Some ex_e0 \<and>
     local_content ex_env ex_codec (ctl_store c') ''run1'' = Some ex_e0"
proof -
  obtain c' where c': "accept_message ex_env (ex_ops ex_full) (ex_ctl 0) ex_accept 11 =
      (c', Inl (Storage ''disk full''))"
    using ex_accept_full by blast
  have "local_ok ex_env ex_codec (ctl_store (ex_ctl 0))" by (simp add: ex_ctl_def ex_db_ok)
  from failed_command_no_effect [OF this c' [unfolded accept_message_def]]
  have "ctl_runs c' = ctl_runs (ex_ctl 0) \<and>
      local_content ex_env ex_codec (ctl_store c') = local_content ex_env ex_codec (ctl_store (ex_ctl 0))"
    by simp
  with c' show ?thesis using ex_db_content(2) [of 0] by (simp add: ex_ctl_def ex_nth)
qed

text \<open>C24: safety. A commit that met a conflict or whose outcome is unknown costs the
  controller its authority over the Run: the Runs it caches stay as they were, every further
  command on the Run fails without an effect, every callback (of an effect, of an iteration, of
  a child) is refused with \<open>AuthorityLost\<close>, and recovery itself is refused until the Run was
  reloaded.\<close>

theorem authority_lost:
  assumes "envelope_good env nxt"
    and "so_commit st (ctl_store c) \<lparr>sc_run_id = run_id (run nxt), sc_expected_revision = expected,
      sc_next = nxt, sc_finished_iteration = fin\<rparr> = (s', Inr answer)"
    and "answer = Store_Conflict actual \<or> answer = Store_CommitUnknown message"
    and "commit env st c expected nxt fin = (c', out)"
  shows "(\<exists>e. out = Inl e) \<and> ctl_runs c' = ctl_runs c \<and>
    (mr_run_id q = run_id (run nxt) \<longrightarrow>
       (\<exists>e. apply_command env st c' q input name kind now False reduce = (c', Inl e))) \<and>
    (mr_run_id q' = run_id (run nxt) \<longrightarrow> begin_recovery env st c' q' now = (c', Inl ReloadRequired)) \<and>
    (ec_run_id ec = run_id (run nxt) \<longrightarrow> acknowledge_effect env st c' ec now = (c', Inl AuthorityLost)) \<and>
    (fi_run_id fi = run_id (run nxt) \<longrightarrow> finish_iteration env st c' fi now = (c', Inl AuthorityLost)) \<and>
    (cb_run_id cb = run_id (run nxt) \<longrightarrow> child_callback env st c' cb now = (c', Inl AuthorityLost))"
proof -
  have lost: "run_id (run nxt) |\<in>| ctl_authority_fenced c' \<and> run_id (run nxt) |\<in>| ctl_reload_required c' \<and>
      ctl_runs c' = ctl_runs c \<and> (\<exists>e. out = Inl e)"
    using assms by (auto simp: commit_def Let_def fence_def require_reload_def)
  then show ?thesis
    using command_after_loss [of q c'] begin_recovery_blocked [of q' c'] fenced_callback [of _ c']
    by (auto simp: acknowledge_effect_def finish_iteration_def child_callback_def)
qed

definition ex_unknown :: sql_faults where
  "ex_unknown = ex_faults\<lparr>sf_commit := Some (''disk I/O error'', True)\<rparr>"

theorem authority_lost_witness:
  "\<exists>c' out. commit ex_env (ex_ops ex_unknown) ex_ctl_empty None ex_e0 None = (c', out) \<and>
     acknowledge_effect ex_env (ex_ops ex_unknown) c' ex_callback 5 = (c', Inl AuthorityLost)"
proof -
  have same: "sf_lock_poisoned ex_unknown = sf_lock_poisoned ex_faults"
    "sf_begin ex_unknown = sf_begin ex_faults" "sf_query ex_unknown = sf_query ex_faults"
    "sf_scan ex_unknown = sf_scan ex_faults" "sf_upsert ex_unknown = sf_upsert ex_faults"
    "sf_iteration ex_unknown = sf_iteration ex_faults" by (simp_all add: ex_unknown_def)
  have "local_prepare ex_env ex_codec ex_unknown ex_empty ex_commit0 =
      local_prepare ex_env ex_codec ex_faults ex_empty ex_commit0"
    by (simp only: local_prepare_def lock_def same)
  moreover from ex_committed0 obtain p where
    "local_prepare ex_env ex_codec ex_faults ex_empty ex_commit0 = Inr (Inr p)"
    by (auto simp: local_commit_def dest: local_prepareD(2) split: sum.splits)
  ultimately have "local_commit ex_env ex_codec ex_unknown ex_empty ex_commit0 =
      (apply_rows p ex_empty, Inr (Store_CommitUnknown ''disk I/O error''))"
    by (simp add: local_commit_def ex_unknown_def)
  then have so: "so_commit (ex_ops ex_unknown) (ctl_store ex_ctl_empty) \<lparr>sc_run_id = run_id (run ex_e0),
      sc_expected_revision = None, sc_next = ex_e0, sc_finished_iteration = None\<rparr> =
      (apply_rows p ex_empty, Inr (Store_CommitUnknown ''disk I/O error''))"
    by (simp add: local_store_ops_def ex_ctl_empty_def ex_commit0_def ex_revisions del: One_nat_def)
  obtain c' out where c: "commit ex_env (ex_ops ex_unknown) ex_ctl_empty None ex_e0 None = (c', out)"
    by fastforce
  have "ec_run_id ex_callback = run_id (run ex_e0)"
    by (simp add: ex_callback_def ex_revisions del: One_nat_def)
  with authority_lost [OF ex_e0_good so _ c] have
    "acknowledge_effect ex_env (ex_ops ex_unknown) c' ex_callback 5 = (c', Inl AuthorityLost)" by blast
  with c show ?thesis by blast
qed

section \<open>Recovery and leases\<close>

text \<open>C25: safety. Entering recovery fences everything the previous epoch left behind: the
  epoch grows, the activation lease is gone, no effect counts as dispatching any more, and
  every callback that still carries the old epoch is refused as stale.\<close>

theorem recovery_fences_old_epoch:
  assumes "begin_recovery_reduce r = Inr r'"
  shows "controller_epoch r < controller_epoch r' \<and> activation_lease r' = None \<and>
    (\<forall>k opn. fmlookup (operations r') k = Some opn \<longrightarrow> op_state opn \<noteq> Op_Dispatching) \<and>
    (fi_epoch fi = controller_epoch r \<longrightarrow> finish_iteration_step env fi now r' = Inl StaleEpoch) \<and>
    (ec_epoch ec = controller_epoch r \<longrightarrow> acknowledge_effect_step env ec r' = Inl StaleEpoch) \<and>
    (cb_epoch cb = controller_epoch r \<longrightarrow> child_callback_step cb r' = Inl StaleEpoch)"
proof -
  note fenced = begin_recovery_fences [OF assms]
  then have "controller_epoch r' \<noteq> controller_epoch r" by auto
  with fenced stale_epoch_callbacks [of r'] show ?thesis by simp
qed

lemma ex_recovering: "\<exists>r'. begin_recovery_reduce ex_r4 = Inr r'"
  by (simp add: begin_recovery_reduce_def next_epoch_def ex_eval is_terminal_def)

theorem recovery_fences_old_epoch_witness:
  "\<exists>r'. begin_recovery_reduce ex_r4 = Inr r' \<and> acknowledge_effect_step ex_env ex_callback r' = Inl StaleEpoch"
proof -
  obtain r' where r': "begin_recovery_reduce ex_r4 = Inr r'" using ex_recovering by blast
  have "ec_epoch ex_callback = controller_epoch ex_r4" by (simp add: ex_states ex_state ex_data)
  with recovery_fences_old_epoch [OF r'] r' show ?thesis by blast
qed

text \<open>Once recovery has begun and its plan lists no open need, finishing it
  succeeds, whatever resolution is asked for; the Run gets back the status that the
  recovery interrupted, or becomes active or paused, as the resolution says, when it was
  active.\<close>

theorem recovery_finishes:
  assumes "begin_recovery_reduce r = Inr r1" and "recovery_needs r1 = []"
  shows "\<exists>r2. finish_recovery_reduce env input now r1 = Inr r2 \<and> stage r2 = Stage_Idle \<and>
    recovery_prior_status r2 = None \<and>
    status r2 = (case recovery_prior_status r of
        Some s \<Rightarrow> s
      | None \<Rightarrow> if status r \<in> {Status_Active, Status_RecoveryRequired}
          then (if rr_resume input then Status_Active else Status_UserPaused) else status r)"
proof -
  have r1: "status r1 = Status_RecoveryRequired" "stage r1 = Stage_Recovering"
    "recovery_prior_status r1 = prior_status r"
    using begin_recovery_frame [OF assms(1)] by auto
  have "\<forall>k opn. fmlookup (operations r1) k = Some opn \<longrightarrow> op_state opn \<noteq> Op_Dispatching"
    using begin_recovery_fences [OF assms(1)] by blast
  from finish_recovery_enabled [OF r1(1,2) assms(2) this] show ?thesis
    by (auto simp: recovered_status_def r1(3) prior_status_def split: option.splits)
qed

theorem recovery_finishes_witness:
  "\<exists>r1 r2. begin_recovery_reduce ex_r1 = Inr r1 \<and>
     finish_recovery_reduce ex_env \<lparr>rr_resume = True, rr_abandon_active_iteration = False\<rparr> 5 r1 = Inr r2 \<and>
     status r2 = Status_Active"
proof -
  define r1 where "r1 = ex_r1\<lparr>controller_epoch := 2, activation_lease := None, wake := wake_default,
    status := Status_RecoveryRequired, stage := Stage_Recovering, operations := fmempty\<rparr>"
  have "begin_recovery_reduce ex_r1 = Inr r1"
    by (simp add: begin_recovery_reduce_def next_epoch_def ex_eval is_terminal_def r1_def
        remember_status_def)
  moreover have "recovery_needs r1 = []" by (simp add: recovery_needs_def r1_def ex_states ex_state)
  moreover have "recovery_prior_status ex_r1 = None" "status ex_r1 = Status_Active"
    by (simp_all add: ex_states ex_state)
  ultimately show ?thesis
    using recovery_finishes [of ex_r1 r1 ex_env "\<lparr>rr_resume = True, rr_abandon_active_iteration = False\<rparr>" 5]
    by auto
qed

text \<open>C26: functional (the behaviour behind the finding on cancellation). A Run that is
  cancelled while it recovers from a pause does not stay cancelled when recovery is begun
  and finished again: the status that was remembered when it first entered recovery wins.\<close>

theorem cancel_in_recovery_undone:
  assumes "recovery_prior_status r = Some s" and "apply_control Act_Cancel r = Inr r1"
    and "begin_recovery_reduce r1 = Inr r2" and "finish_recovery_reduce env input now r2 = Inr r3"
  shows "status r1 = Status_Cancelled \<and> status r3 = s"
proof -
  have r1: "status r1 = Status_Cancelled" "recovery_prior_status r1 = Some s"
    using assms(1,2) control_work(13) [OF assms(2)]
    by (auto simp: fence_activation_def result_simps split: if_splits)
  have "recovery_prior_status r2 = Some s"
    using begin_recovery_frame [OF assms(3)] r1 by (auto simp: prior_status_def)
  then have "recovered_status r2 input = s" by (simp add: recovered_status_def)
  moreover have "status r3 = recovered_status r2 input"
    by (rule finish_recovery_cases [OF assms(4)]) simp_all
  ultimately show ?thesis using r1 by simp
qed

definition ex_paused_recovery :: run_record where
  "ex_paused_recovery = ex_r2\<lparr>status := Status_RecoveryRequired, stage := Stage_Recovering,
     recovery_prior_status := Some Status_UserPaused\<rparr>"

theorem cancel_in_recovery_undone_witness:
  "\<exists>r1 r2 r3. apply_control Act_Cancel ex_paused_recovery = Inr r1 \<and> begin_recovery_reduce r1 = Inr r2 \<and>
     finish_recovery_reduce ex_env \<lparr>rr_resume = False, rr_abandon_active_iteration = True\<rparr> 50 r2 = Inr r3 \<and>
     status r1 = Status_Cancelled \<and> status r3 = Status_UserPaused"
proof -
  have prior: "recovery_prior_status ex_paused_recovery = Some Status_UserPaused"
    by (simp add: ex_paused_recovery_def)
  define r1 where "r1 = ex_paused_recovery\<lparr>status := Status_Cancelled, stage := Stage_Idle\<rparr>"
  have r1: "apply_control Act_Cancel ex_paused_recovery = Inr r1"
    by (simp add: r1_def ex_paused_recovery_def is_terminal_def fence_activation_def ex_states ex_state)
  have f1: "status r1 = Status_Cancelled" "active_iteration r1 = Some ex_iteration"
    "controller_epoch r1 = 1" "operations r1 = fmempty" "children r1 = fmempty"
    by (simp_all add: r1_def ex_paused_recovery_def ex_states ex_state)
  obtain r2 where r2: "begin_recovery_reduce r1 = Inr r2"
    using f1 by (simp add: begin_recovery_reduce_def next_epoch_def checked_add_def)
  have f2: "status r2 = Status_RecoveryRequired" "stage r2 = Stage_Recovering"
    "active_iteration r2 = Some ex_iteration" "operations r2 = fmempty" "children r2 = fmempty"
    using begin_recovery_frame [OF r2] f1 by auto
  obtain r3 where r3: "finish_recovery_reduce ex_env
      \<lparr>rr_resume = False, rr_abandon_active_iteration = True\<rparr> 50 r2 = Inr r3"
    using f2 by (simp add: finish_recovery_reduce_def has_active_children_def abandon_iteration_def
        charge_abandoned_def settled_in_def abandon_operations_def has_unsettled_operations_def
        ex_canonical Let_def)
  show ?thesis using cancel_in_recovery_undone [OF prior r1 r2 r3] r1 r2 r3 by blast
qed

text \<open>C27: safety. A worker's lease is exclusive while it lasts: nobody else claims the Run,
  and a caller whose fence differs from the lease in worker, epoch or token can neither
  renew nor release it nor claim an effect under it.\<close>

theorem lease_exclusive:
  assumes "activation_lease r = Some l" and "now < lease_expires_at_ms l"
  shows "(\<exists>e. claim_activation_reduce claim cid token now r = Inl e) \<and>
    ((fence_worker_id f, fence_epoch f, fence_token f) \<noteq>
        (lease_worker_id l, lease_epoch l, lease_token l) \<longrightarrow>
      (\<exists>e. renew_activation_reduce f lease_ms now r = Inl e) \<and>
      (\<exists>e. release_activation_reduce f now r = Inl e) \<and>
      (\<exists>e. claim_effect_reduce (input\<lparr>cl_activation := Some f\<rparr>) cid token now r = Inl e))"
  using assms
  by (auto simp: claim_activation_reduce_def renew_activation_reduce_def release_activation_reduce_def
      claim_effect_reduce_def check_claim_fence_def check_activation_def)

definition ex_lease :: activation_lease where
  "ex_lease = \<lparr>lease_worker_id = ''w1'', lease_claim_command_id = ''c1'', lease_epoch = 2,
     lease_token = ''activation_a'', lease_expires_at_ms = 100, lease_reasons = {|Wake_Requested|}\<rparr>"

theorem lease_exclusive_witness:
  "\<exists>e. renew_activation_reduce \<lparr>fence_worker_id = ''w2'', fence_epoch = 2, fence_token = ''activation_a''\<rparr>
     10 50 (ex_r0\<lparr>activation_lease := Some ex_lease\<rparr>) = Inl e"
  using lease_exclusive [of "ex_r0\<lparr>activation_lease := Some ex_lease\<rparr>" ex_lease 50 _ _ _
      "\<lparr>fence_worker_id = ''w2'', fence_epoch = 2, fence_token = ''activation_a''\<rparr>"]
  by (simp add: ex_lease_def)

text \<open>Two leases of the same epoch, however far apart in the history of a Run,
  are the lease of the same worker with the same token: a lease is only ever replaced
  under a larger epoch.\<close>

theorem lease_fenced:
  assumes "activation_lease (run e) = Some l" and "env_later env e e'"
    and "controller_epoch (run e') = controller_epoch (run e)" and "activation_lease (run e') = Some l'"
  shows "lease_token l' = lease_token l \<and> lease_worker_id l' = lease_worker_id l"
  using assms by (rule lease_fenced_later)

definition ex_leased :: run_record where
  "ex_leased = ex_r0\<lparr>controller_epoch := 2, activation_lease := Some ex_lease\<rparr>"

definition ex_renewed :: run_record where
  "ex_renewed = ex_stamp 2 ex_rcs2 (ex_leased\<lparr>activation_lease :=
     Some (ex_lease\<lparr>lease_expires_at_ms := 150\<rparr>)\<rparr>)"

lemma ex_renew_step: "env_step ex_env (ex_envelope ex_leased 1) (ex_envelope ex_renewed 2)"
proof -
  have red: "renew_activation_reduce
      \<lparr>fence_worker_id = ''w1'', fence_epoch = 2, fence_token = ''activation_a''\<rparr> 100 50 ex_leased =
      Inr (ex_leased\<lparr>activation_lease := Some (ex_lease\<lparr>lease_expires_at_ms := 150\<rparr>)\<rparr>)"
    by (simp add: renew_activation_reduce_def check_activation_def ex_leased_def ex_lease_def
        checked_add_def)
  have "envelope_good ex_env (ex_envelope ex_renewed 2)"
    by (rule envelope_goodI) (simp_all add: ex_renewed_def ex_leased_def ex_lease_def ex_eval is_terminal_def)
  with ex_command [OF run_step.renew_activation [OF red], of ex_renewed 2 "''c1''" 1 "''message_accepted''"]
  show ?thesis by (simp add: ex_renewed_def ex_leased_def ex_eval)
qed

theorem lease_fenced_witness:
  "lease_token (ex_lease\<lparr>lease_expires_at_ms := 150\<rparr>) = lease_token ex_lease \<and>
   lease_worker_id (ex_lease\<lparr>lease_expires_at_ms := 150\<rparr>) = lease_worker_id ex_lease"
  by (rule lease_fenced [OF _ r_into_rtranclp [of "env_step ex_env", OF ex_renew_step]])
    (simp_all add: ex_envelope_def ex_renewed_def ex_leased_def ex_stamp_def)

section \<open>Iterations, messages and revisions\<close>

text \<open>C23: invariant. The iterations of a durable Run are numbered without gaps in the past:
  archived ones strictly increase, are all finished and are at most
  \<open>MAX_ITERATION_SUMMARIES\<close>; a running one is the last number handed out and lies above all
  of them.\<close>

theorem iterations_in_order:
  assumes "durable_run env codec rid e"
  shows "sorted_wrt (<) (map it_iteration_id (run_iterations (run e))) \<and>
    length (run_iterations (run e)) \<le> MAX_ITERATION_SUMMARIES \<and>
    list_all (\<lambda>i. it_finished_at_ms i \<noteq> None \<and> it_iteration_id i < next_iteration_id (run e))
      (run_iterations (run e)) \<and>
    (\<forall>i. active_iteration (run e) = Some i \<longrightarrow>
       unat (next_iteration_id (run e)) = unat (it_iteration_id i) + 1 \<and>
       list_all (\<lambda>j. it_iteration_id j < it_iteration_id i) (run_iterations (run e)))"
  using iterations_inv.reach [OF durable_reach [OF assms]]
  by (simp add: iterations_ordered_def list_all_iff)

theorem iterations_in_order_witness:
  "sorted_wrt (<) (map it_iteration_id (run_iterations (run ex_e9))) \<and>
   length (run_iterations (run ex_e9)) \<le> MAX_ITERATION_SUMMARIES"
  using iterations_in_order [OF ex_durable_nth(2)] by blast

text \<open>A running iteration executes under the context it was started with: as
  long as it runs, the Run's strategy, workflow, verifier policy and active Harness snapshot
  are those its context manifest names.\<close>

theorem iteration_context_pinned:
  assumes "durable_run env codec rid e" and "active_iteration (run e) = Some i"
  shows "ctx_strategy_revision (it_context i) = current_strategy_revision (run e) \<and>
    ctx_workflow_revision (it_context i) = current_workflow_revision (run e) \<and>
    ctx_policy_digest (it_context i) = verifier_policy_digest (run e) \<and>
    map_option pin_digest (hg_active (harness (run e))) = Some (ctx_harness_snapshot_digest (it_context i))"
  using context_inv.reach [OF durable_reach [OF assms(1)]] assms(2) by (simp add: context_pinned_def)

theorem iteration_context_pinned_witness:
  "ctx_strategy_revision (it_context ex_iteration) = current_strategy_revision (run ex_e4)"
proof -
  have "active_iteration (run ex_e4) = Some ex_iteration" by (simp add: ex_states)
  from iteration_context_pinned [OF ex_durable_nth(1) this] show ?thesis by blast
qed

text \<open>Mailbox sequence numbers of a durable Run are unique and below the next
  one to be handed out; the same holds for steering messages and their high-water mark.\<close>

theorem messages_numbered:
  assumes "durable_run env codec rid e"
  shows "(\<forall>k m. fmlookup (mailbox (run e)) k = Some m \<longrightarrow> msg_sequence m < next_message_sequence (run e)) \<and>
    (\<forall>k m. fmlookup (steering (run e)) k = Some m \<longrightarrow> msg_sequence m \<le> steering_high_water (run e)) \<and>
    (\<forall>j k m n. fmlookup (mailbox (run e)) j = Some m \<longrightarrow> fmlookup (mailbox (run e)) k = Some n \<longrightarrow>
       msg_sequence m = msg_sequence n \<longrightarrow> j = k) \<and>
    (\<forall>j k m n. fmlookup (steering (run e)) j = Some m \<longrightarrow> fmlookup (steering (run e)) k = Some n \<longrightarrow>
       msg_sequence m = msg_sequence n \<longrightarrow> j = k)"
proof -
  have "messages_sequenced (run e)"
    using messages_inv.reach [OF durable_reach [OF assms]] .
  then show ?thesis
    unfolding messages_sequenced_def sequenced_def
    by (simp add: word_less_nat_alt word_le_nat_alt less_Suc_eq_le)
qed

theorem messages_numbered_witness:
  "msg_sequence (accepted_message ex_message 1) < next_message_sequence (run ex_e9)"
proof -
  have "fmlookup (mailbox (run ex_e9)) ''m1'' = Some (accepted_message ex_message 1)"
    by (simp add: ex_states)
  with messages_numbered [OF ex_durable_nth(2)] show ?thesis by blast
qed

text \<open>A message, once accepted, is never lost, changed or renumbered in a later
  state of the Run: only its delivery state moves, and only forward.\<close>

theorem message_monotone:
  assumes "fmlookup (mailbox (run e)) k = Some m" and "env_later env e e'"
  shows "\<exists>m'. fmlookup (mailbox (run e')) k = Some m' \<and> m' = m\<lparr>msg_state := msg_state m'\<rparr> \<and>
    message_rank (msg_state m) \<le> message_rank (msg_state m')"
  using later_message [OF assms] by (simp add: message_kept_def)

theorem message_monotone_witness:
  "\<exists>m'. fmlookup (mailbox (run ex_e9)) ''m1'' = Some m' \<and>
     m' = (accepted_message ex_message 1)\<lparr>msg_state := msg_state m'\<rparr> \<and>
     message_rank (msg_state (accepted_message ex_message 1)) \<le> message_rank (msg_state m')"
  by (rule message_monotone [OF _ ex_later(1)]) (simp add: ex_states)

text \<open>At most one strategy revision and at most one workflow revision of a
  durable Run are in force, the ones the Run names as current; and a workflow revision that
  is validated, applied or rolled back has passed compilation, the static policy and the dry
  run.\<close>

theorem one_revision_in_force:
  assumes "durable_run env codec rid e"
  shows "(\<forall>s t. s \<in> set (strategy_revisions (run e)) \<longrightarrow> sr_applied s \<longrightarrow>
       t \<in> set (strategy_revisions (run e)) \<longrightarrow> sr_applied t \<longrightarrow> s = t) \<and>
    (\<forall>v w. v \<in> set (workflow_revisions (run e)) \<longrightarrow> wr_state v = Wf_Applied \<longrightarrow>
       w \<in> set (workflow_revisions (run e)) \<longrightarrow> wr_state w = Wf_Applied \<longrightarrow> v = w) \<and>
    (\<forall>w. w \<in> set (workflow_revisions (run e)) \<longrightarrow>
       wr_state w \<in> {Wf_Validated, Wf_Applied, Wf_RolledBack} \<longrightarrow>
       wr_compiled w \<and> wr_static_policy_valid w \<and> wr_dry_run_valid w)"
proof -
  have s: "strategies_ok (run e)" and w: "workflows_ok (run e)"
    using revisions_inv.reach [OF durable_reach [OF assms]] by blast+
  have "v = w" if "v \<in> set (workflow_revisions (run e))" "wr_state v = Wf_Applied"
    "w \<in> set (workflow_revisions (run e))" "wr_state w = Wf_Applied" for v w
  proof -
    have live: "current_workflow_revision (run e) = Some (wr_revision x)"
      if "x \<in> set (workflow_revisions (run e))" "wr_state x = Wf_Applied" for x
      using w that by (simp add: workflows_ok_def one_in_force_def)
    have "inj_on wr_revision (set (workflow_revisions (run e)))"
      using w by (simp add: workflows_ok_def one_in_force_def distinct_map)
    moreover have "wr_revision v = wr_revision w"
      using live [OF that(1,2)] live [OF that(3,4)] by simp
    ultimately show ?thesis using that by (auto dest: inj_onD)
  qed
  moreover have "\<forall>s t. s \<in> set (strategy_revisions (run e)) \<longrightarrow> sr_applied s \<longrightarrow>
      t \<in> set (strategy_revisions (run e)) \<longrightarrow> sr_applied t \<longrightarrow> s = t"
    using one_in_force_unique [OF s [unfolded strategies_ok_def]] by blast
  moreover have "\<forall>w. w \<in> set (workflow_revisions (run e)) \<longrightarrow>
      wr_state w \<in> {Wf_Validated, Wf_Applied, Wf_RolledBack} \<longrightarrow>
      wr_compiled w \<and> wr_static_policy_valid w \<and> wr_dry_run_valid w"
    using w unfolding workflows_ok_def gates_passed_def by blast
  ultimately show ?thesis by blast
qed

theorem one_revision_in_force_witness:
  "\<nexists>s t. s \<in> set (strategy_revisions (run ex_e9)) \<and> sr_applied s \<and>
     t \<in> set (strategy_revisions (run ex_e9)) \<and> sr_applied t \<and> s \<noteq> t"
  using one_revision_in_force [OF ex_durable_nth(2)] by blast

text \<open>The Harness snapshot a Run executes under changes only at an iteration
  boundary, and only to the pin of a validated proposal (the old pin is kept as the
  previous one) or back to the previous pin.\<close>

theorem harness_changes_governed:
  assumes "env_step env e e'" and "hg_active (harness (run e')) \<noteq> hg_active (harness (run e))"
  shows "active_iteration (run e) = None \<and> stage (run e) = Stage_Idle \<and>
    ((\<exists>d p. fmlookup (hg_proposals (harness (run e))) d = Some p \<and> hp_state p = Harness_Validated \<and>
        hg_active (harness (run e')) = Some (hp_pin p) \<and>
        hg_previous (harness (run e')) = hg_active (harness (run e))) \<or>
     (\<exists>pin. hg_previous (harness (run e)) = Some pin \<and> hg_active (harness (run e')) = Some pin))"
  using assms(1)
proof (rule env_step_record)
  fix r' rv' t cur rcs
  assume st: "run_step env (run e) r'"
    and e': "run e' = r'\<lparr>revision := rv', updated_at_ms := t, event_cursor := cur, command_receipts := rcs\<rparr>"
  have "harness_move (run e) r'" using harness_step [OF st] assms(2) e' by simp
  then show ?thesis by (auto simp: harness_move_def boundary_idle e')
qed

definition ex_pin2 :: harness_snapshot_pin where
  "ex_pin2 = ex_pin\<lparr>pin_revision := 2\<rparr>"

definition ex_governed :: run_record where
  "ex_governed = ex_r0\<lparr>harness := \<lparr>hg_active = Some ex_pin2, hg_previous = Some ex_pin,
     hg_proposals = fmempty\<rparr>\<rparr>"

definition ex_rolled_back :: run_record where
  "ex_rolled_back = ex_stamp 2 ex_rcs2 (ex_governed\<lparr>harness := \<lparr>hg_active = Some ex_pin,
     hg_previous = None, hg_proposals = fmempty\<rparr>\<rparr>)"

lemma ex_rollback_step: "env_step ex_env (ex_envelope ex_governed 1) (ex_envelope ex_rolled_back 2)"
proof -
  have red: "rollback_harness_reduce ex_digest ex_governed = Inr (ex_governed\<lparr>harness :=
      \<lparr>hg_active = Some ex_pin, hg_previous = None, hg_proposals = fmempty\<rparr>\<rparr>)"
    by (simp add: rollback_harness_reduce_def boundary_def ex_governed_def ex_pin2_def
        ex_state)
  have "envelope_good ex_env (ex_envelope ex_rolled_back 2)"
    by (rule envelope_goodI) (simp_all add: ex_rolled_back_def ex_governed_def ex_pin2_def ex_eval)
  with ex_command [OF run_step.rollback_harness [OF red], of ex_rolled_back 2 "''c1''" 1 "''message_accepted''"]
  show ?thesis by (simp add: ex_rolled_back_def ex_governed_def ex_eval)
qed

theorem harness_changes_governed_witness:
  "active_iteration (run (ex_envelope ex_governed 1)) = None"
proof -
  have "hg_active (harness (run (ex_envelope ex_rolled_back 2))) \<noteq>
      hg_active (harness (run (ex_envelope ex_governed 1)))"
    by (simp add: ex_envelope_def ex_rolled_back_def ex_governed_def ex_stamp_def ex_pin2_def ex_pin_def)
  from harness_changes_governed [OF ex_rollback_step this] show ?thesis by blast
qed

section \<open>Envelopes\<close>

text \<open>C28: functional. Advancing a durable Run, which every command and every callback does,
  gives a journal that holds exactly the events of the latest revisions, one for each and in
  order, as many as there are up to the bound: nothing recent is lost, nothing is duplicated,
  the oldest event makes room for the new one, which is the last and carries the kind and the
  time of the change. The new journal passes the validation that a commit and a load perform.\<close>

theorem journal_exact_after_advance:
  assumes "durable_run env codec rid e" and "advance e next_run kind now = Inr e'"
  shows "unat (event_cursor (run e')) = unat (event_cursor (run e)) + 1 \<and>
    map (unat \<circ> ev_cursor) (events e') = [unat (event_cursor (run e')) + 1 -
      min MAX_EVENTS (unat (event_cursor (run e'))) ..< unat (event_cursor (run e')) + 1] \<and>
    map (unat \<circ> ev_revision) (events e') = map (unat \<circ> ev_cursor) (events e') \<and>
    last (events e') = \<lparr>ev_cursor = event_cursor (run e'), ev_revision = revision (run e'),
      ev_kind = internal_event_kind kind, ev_at_ms = now\<rparr> \<and>
    validate_events (event_cursor (run e')) None (events e') = Inr () \<and> journal_tail_matches e'"
proof -
  have reach: "env_reach env e" using assms(1) by (rule durable_reach)
  then have exact: "journal_exact e'"
    using reach_journal reach_cursor advance_journal [OF _ _ assms(2)] by blast
  have count: "unat (event_cursor (run e')) = unat (event_cursor (run e)) + 1"
      "event_cursor (run e') = revision (run e')"
    using assms(2) reach_cursor [OF reach]
    by (auto simp: advance_def result_simps successor_def successor_cursor_def checked_succ
        word_unat_eq_iff)
  then have pos: "event_cursor (run e') \<noteq> 0" by auto
  have "last (events e') = \<lparr>ev_cursor = event_cursor (run e'), ev_revision = revision (run e'),
      ev_kind = internal_event_kind kind, ev_at_ms = now\<rparr>"
    using assms(2) by (rule advance_last)
  with exact count exact_journal_valid [OF exact count(2) pos] show ?thesis
    by (simp add: journal_exact_def Let_def del: upt_Suc)
qed

theorem journal_exact_after_advance_witness:
  "\<exists>e'. advance ex_e4 (run ex_e4) ''effect_acknowledged'' 15 = Inr e' \<and>
     map (unat \<circ> ev_cursor) (events e') = [1, 2, 3, 4, 5, 6] \<and>
     ev_kind (last (events e')) = ''effect_acknowledged'' \<and>
     validate_events (event_cursor (run e')) None (events e') = Inr ()"
proof -
  have cur: "event_cursor (run ex_e4) = 5" "revision (run ex_e4) = 5" by (simp_all add: ex_states)
  then obtain e' where e': "advance ex_e4 (run ex_e4) ''effect_acknowledged'' 15 = Inr e'"
    by (simp add: advance_def successor_def successor_cursor_def checked_add_def)
  with journal_exact_after_advance [OF ex_durable_nth(1) e'] show ?thesis
    by (simp add: cur upt_rec MAX_EVENTS_def internal_event_kind_def)
qed

text \<open>C30: functional. A caller that has seen the events up to \<open>after\<close>, while the journal still
  reaches back to the next one, is given by \<open>attach_run\<close> exactly the events after it: every
  cursor once, in order, up to the current one.\<close>

theorem attach_replays_suffix:
  assumes "get_run c rid = Some e" and "envelope_validate env e = Inr ()"
    and "after \<le> event_cursor (run e)" and "events e \<noteq> []"
    and "unat (ev_cursor (hd (events e))) \<le> unat after + 1" and "unat after + 1 < 2 ^ 64"
  shows "\<exists>es. attach_run c rid after = Inr (Attach_Replay rid (event_cursor (run e)) es) \<and>
    es = filter (\<lambda>event. after < ev_cursor event) (events e) \<and>
    map (unat \<circ> ev_cursor) es = [unat after + 1 ..< unat (event_cursor (run e)) + 1]"
  using assms unfolding get_run_def by (rule attach_replays)

theorem attach_replays_suffix_witness:
  "\<exists>es. attach_run (ex_ctl 4) ''run1'' 2 = Inr (Attach_Replay ''run1'' 5 es) \<and>
     map (unat \<circ> ev_cursor) es = [3, 4, 5]"
proof -
  have cur: "event_cursor (run ex_e4) = 5" by (simp add: ex_states)
  have "get_run (ex_ctl 4) ''run1'' = Some ex_e4" by (simp add: get_run_def ex_ctl_def ex_nth)
  moreover have "events ex_e4 \<noteq> []" "ev_cursor (hd (events ex_e4)) = 1" by (simp_all add: ex_states)
  ultimately show ?thesis
    using attach_replays_suffix [of "ex_ctl 4" "''run1''" ex_e4 ex_env 2] ex_e4_good
    by (simp add: cur upt_rec)
qed

text \<open>No durable Run ever awaits
  an approval, and none ever has the status failed or interrupted: no transition of the
  controller leads there.\<close>

lemma approval_never_pending:
  assumes "durable_run env codec rid e"
  shows "\<not> pending_approval (run e) \<and> stage (run e) \<noteq> Stage_AwaitingApproval \<and>
    status (run e) \<noteq> Status_Failed \<and> status (run e) \<noteq> Status_Interrupted"
  using lifecycle_inv.reach [OF durable_reach [OF assms]] by (simp add: lifecycle_ok_def)

section \<open>Wire formats and digests\<close>

text \<open>Every Run status is read back from the name it is written as.\<close>

lemma status_roundtrip: "from_wire_str (status_as_str s) = s"
  by (rule from_wire_as_str)

text \<open>An imported legacy goal never executes on its own: its Run is not active,
  it has no worker, no wake-up, no running work and no capability, and it is in recovery
  unless the legacy status was one of the stable ones.\<close>

lemma legacy_import_inert:
  assumes "migrate_legacy_goal verdict_of value sess now = Inr e"
  shows "status (run e) \<noteq> Status_Active \<and> activation_lease (run e) = None \<and>
    wake (run e) = wake_default \<and> \<not> has_unsettled_work (run e) \<and>
    cap_ceiling (capabilities (run e)) = {||} \<and> session (run e) = sess \<and>
    (stage (run e) = Stage_Recovering \<longleftrightarrow> status (run e) = Status_RecoveryRequired)"
proof -
  from assms obtain raw where "status (run e) = legacy_status raw"
    "stage (run e) = (if status (run e) = Status_RecoveryRequired then Stage_Recovering else Stage_Idle)"
    "activation_lease (run e) = None" "wake (run e) = wake_default" "active_iteration (run e) = None"
    "operations (run e) = fmempty" "children (run e) = fmempty"
    "cap_ceiling (capabilities (run e)) = {||}" "session (run e) = sess"
    by (auto simp: migrate_legacy_goal_def result_simps Let_def)
  then show ?thesis
    using legacy_status_not_active [of raw]
    by (simp add: has_unsettled_work_def has_unsettled_operations_def has_active_children_def)
qed

text \<open>A receipt that \<open>for_session_turn\<close> builds is accepted by the check that
  the controller applies to receipts of the same Session turn: settlement identity, usage
  bounds and prompt binding agree between the two sides.\<close>

lemma turn_receipt_accepted:
  assumes "for_session_turn env sess turn prompt index outcome settled actual = Some receipt"
    and "sha256_bytes env" and "outcome \<noteq> Turn_Unknown"
    and "effect_usage_validate settled = Inr ()" and "effect_usage_validate actual = Inr ()"
  shows "validate_effect_receipt env (Eff_SessionTurn sess turn prompt input) receipt = Inr ()"
  using assms by (rule for_session_turn_receipt_valid)

text \<open>The settlement identifier determines what it identifies: two Session
  turns with the same preimage agree in Session, turn, prompt digest, prompt index, outcome
  and usage (for components shorter than the length prefix can count).\<close>

theorem settlement_preimage_injective:
  assumes "settlement_preimage s t p i out u = settlement_preimage s' t' p' i' out' u'"
    and "list_all (\<lambda>x. length x < 2 ^ 64) [s, t, p, u, s', t', p', u']"
  shows "s = s' \<and> t = t' \<and> p = p' \<and> i = i' \<and> out = out' \<and> u = u'"
  using assms by (rule settlement_components)

theorem settlement_preimage_injective_witness:
  "settlement_preimage ''s'' ''t'' ''p'' 1 Turn_End ''u'' \<noteq>
   settlement_preimage ''st'' '''' ''p'' 1 Turn_End ''u''"
  using settlement_preimage_injective [of "''s''" "''t''" "''p''" 1 Turn_End "''u''"
      "''st''" "''''" "''p''" 1 Turn_End "''u''"] by auto

text \<open>Canonical JSON does not depend on the order in which an object's
  members were written.\<close>

lemma canonical_json_order:
  assumes "distinct (map fst xs)" and "mset xs = mset ys"
  shows "canonicalize_json (J_Object xs) = canonicalize_json (J_Object ys)"
  using assms by (rule canonicalize_object_order)

end
